(* ===== verification/Marreta_Prelude.thy ===== *)
theory Marreta_Prelude
  imports Complex_Main "HOL-Library.Word"
begin

text \<open>
  Prelude of the development: the part of Rust's language and standard library that the modelled
  code of \<^verbatim>\<open>src/src\<close> uses, and the generic lemmas the component theories share.

  \<^item> A Rust \<open>char\<close> is modelled by HOL's \<open>char\<close>, the code points below 256; a \<open>String\<close> is
    a list of them. No modelled function consults a Unicode table: every character class that
    the code tests is an ASCII class.
  \<^item> \<open>usize\<close> counters (positions, lines, columns, lengths) are \<open>nat\<close>: they are bounded by
    the size of the input in memory. \<open>i64\<close> is \<open>64 word\<close>, read with \<open>sint\<close>.
  \<^item> \<open>Result\<close> is the sum type with \<open>Inl\<close> for \<open>Err\<close>; \<open>rbind\<close> is the question-mark operator.
\<close>

type_synonym i64 = "64 word"

named_theorems ascii_simps \<open>definitions of the ASCII character classes\<close>

subsection \<open>Results\<close>

definition rbind :: "'e + 'a \<Rightarrow> ('a \<Rightarrow> 'e + 'b) \<Rightarrow> 'e + 'b" where
  "rbind m f = (case m of Inl e \<Rightarrow> Inl e | Inr x \<Rightarrow> f x)"

lemma rbind_simps [simp]:
  "rbind (Inl e) f = Inl e"
  "rbind (Inr x) f = f x"
  by (simp_all add: rbind_def)

lemma rbind_eq_Inr [simp]: "rbind m f = Inr y \<longleftrightarrow> (\<exists>x. m = Inr x \<and> f x = Inr y)"
  by (cases m) auto

lemma rbind_eq_Inl: "rbind m f = Inl e \<longleftrightarrow> m = Inl e \<or> (\<exists>x. m = Inr x \<and> f x = Inl e)"
  by (cases m) auto

lemma rbind_cong [fundef_cong]:
  assumes "m = m'" and "\<And>x. m' = Inr x \<Longrightarrow> f x = g x"
  shows "rbind m f = rbind m' g"
  using assms by (cases m') auto

text \<open>\<open>iter().map(f).collect::<Result<Vec<_>, _>>()\<close>: the first error wins.\<close>

fun rmap :: "('a \<Rightarrow> 'e + 'b) \<Rightarrow> 'a list \<Rightarrow> 'e + 'b list" where
  "rmap f [] = Inr []"
| "rmap f (x # xs) = rbind (f x) (\<lambda>y. rbind (rmap f xs) (\<lambda>ys. Inr (y # ys)))"

lemma rmap_cong [fundef_cong]:
  assumes "xs = ys" and "\<And>x. x \<in> set ys \<Longrightarrow> f x = g x"
  shows "rmap f xs = rmap g ys"
  unfolding assms(1) using assms(2) by (induction ys) auto

lemma rmap_Inr_iff: "rmap f xs = Inr ys \<longleftrightarrow> list_all2 (\<lambda>x y. f x = Inr y) xs ys"
proof (induction xs arbitrary: ys)
  case Nil
  then show ?case by (cases ys) auto
next
  case (Cons x xs)
  show ?case by (cases ys) (auto simp: Cons.IH list_all2_Cons1)
qed

subsection \<open>ASCII character classes\<close>

abbreviation cp :: "char \<Rightarrow> int" where
  "cp c \<equiv> of_char c"

definition is_ascii_digit :: "char \<Rightarrow> bool" where
  [ascii_simps]: "is_ascii_digit c \<longleftrightarrow> 48 \<le> cp c \<and> cp c \<le> 57"

definition is_ascii_lowercase :: "char \<Rightarrow> bool" where
  [ascii_simps]: "is_ascii_lowercase c \<longleftrightarrow> 97 \<le> cp c \<and> cp c \<le> 122"

definition is_ascii_uppercase :: "char \<Rightarrow> bool" where
  [ascii_simps]: "is_ascii_uppercase c \<longleftrightarrow> 65 \<le> cp c \<and> cp c \<le> 90"

definition is_ascii_alphabetic :: "char \<Rightarrow> bool" where
  [ascii_simps]: "is_ascii_alphabetic c \<longleftrightarrow> is_ascii_lowercase c \<or> is_ascii_uppercase c"

definition is_ascii_alphanumeric :: "char \<Rightarrow> bool" where
  [ascii_simps]: "is_ascii_alphanumeric c \<longleftrightarrow> is_ascii_alphabetic c \<or> is_ascii_digit c"

definition is_ascii_control :: "char \<Rightarrow> bool" where
  [ascii_simps]: "is_ascii_control c \<longleftrightarrow> cp c < 32 \<or> cp c = 127"

text \<open>The characters below 256 with the Unicode property White\_Space.\<close>

definition is_whitespace :: "char \<Rightarrow> bool" where
  [ascii_simps]: "is_whitespace c \<longleftrightarrow>
     (9 \<le> cp c \<and> cp c \<le> 13) \<or> cp c \<in> {32, 133, 160}"

definition to_ascii_lower :: "char \<Rightarrow> char" where
  "to_ascii_lower c = (if is_ascii_uppercase c then char_of (cp c + 32) else c)"

definition to_ascii_upper :: "char \<Rightarrow> char" where
  "to_ascii_upper c = (if is_ascii_lowercase c then char_of (cp c - 32) else c)"

subsection \<open>Strings\<close>

text \<open>\<open>str::split(c)\<close> for a single character: never empty, and the parts joined by \<open>c\<close> give
  the string back.\<close>

fun split_char :: "char \<Rightarrow> string \<Rightarrow> string list" where
  "split_char c [] = [[]]"
| "split_char c (x # xs) =
     (if x = c then [] # split_char c xs
      else (case split_char c xs of [] \<Rightarrow> [[x]] | p # ps \<Rightarrow> (x # p) # ps))"

fun join :: "string \<Rightarrow> string list \<Rightarrow> string" where
  "join sep [] = []"
| "join sep [p] = p"
| "join sep (p # q # ps) = p @ sep @ join sep (q # ps)"

lemma split_char_not_Nil [simp]: "split_char c s \<noteq> []"
  by (induction s) (auto split: list.splits)

lemma join_Cons: "ps \<noteq> [] \<Longrightarrow> join sep (p # ps) = p @ sep @ join sep ps"
  by (cases ps) auto

lemma join_snoc: "ps \<noteq> [] \<Longrightarrow> join sep (ps @ [p]) = join sep ps @ sep @ p"
  by (induction sep ps rule: join.induct) auto

lemma set_join: "set (join sep xs) \<subseteq> set sep \<union> (\<Union>x \<in> set xs. set x)"
  by (induction sep xs rule: join.induct) auto

lemma in_set_join: "c \<in> set (join sep ps) \<Longrightarrow> c \<in> set sep \<or> (\<exists>p \<in> set ps. c \<in> set p)"
  using set_join by fastforce

lemma join_split_char: "join [c] (split_char c s) = s"
proof (induction s)
  case (Cons x xs)
  obtain p ps where p: "split_char c xs = p # ps"
    by (cases "split_char c xs") auto
  show ?case
  proof (cases "x = c")
    case True
    then show ?thesis using Cons by (simp add: join_Cons)
  next
    case False
    with Cons p show ?thesis by (cases ps) auto
  qed
qed simp

lemma split_char_no_sep: "p \<in> set (split_char c s) \<Longrightarrow> c \<notin> set p"
  by (induction s arbitrary: p) (auto split: list.splits if_splits)

lemma split_char_id: "c \<notin> set s \<Longrightarrow> split_char c s = [s]"
  by (induction s) auto

lemma split_char_append:
  "c \<notin> set p \<Longrightarrow> split_char c (p @ c # s) = p # split_char c s"
  by (induction p) auto

lemma split_char_join:
  "ps \<noteq> [] \<Longrightarrow> \<forall>p \<in> set ps. c \<notin> set p \<Longrightarrow> split_char c (join [c] ps) = ps"
proof (induction ps)
  case (Cons p ps)
  show ?case
  proof (cases "ps = []")
    case True
    with Cons.prems show ?thesis by (simp add: split_char_id)
  next
    case False
    with Cons show ?thesis by (simp add: join_Cons split_char_append)
  qed
qed simp

definition strip_prefix :: "string \<Rightarrow> string \<Rightarrow> string option" where
  "strip_prefix p s = (if take (length p) s = p then Some (drop (length p) s) else None)"

lemma strip_prefix_append [simp]: "strip_prefix p (p @ s) = Some s"
  by (simp add: strip_prefix_def)

lemma strip_prefix_Some: "strip_prefix p s = Some r \<longleftrightarrow> s = p @ r"
  by (auto simp: strip_prefix_def split: if_splits) (metis append_take_drop_id)

definition trim_start :: "string \<Rightarrow> string" where
  "trim_start s = dropWhile is_whitespace s"

definition trim :: "string \<Rightarrow> string" where
  "trim s = rev (trim_start (rev (trim_start s)))"

lemma trim_no_ws:
  assumes "s \<noteq> []" and "\<not> is_whitespace (hd s)" and "\<not> is_whitespace (last s)"
  shows "trim s = s"
proof -
  have "dropWhile is_whitespace t = t" if "t \<noteq> []" "\<not> is_whitespace (hd t)" for t
    using that by (cases t) auto
  with assms show ?thesis by (simp add: trim_def trim_start_def hd_rev)
qed

text \<open>Decimal numerals: \<open>to_string\<close> of a natural number and the value of a digit string.\<close>

fun nat_to_string :: "nat \<Rightarrow> string" where
  "nat_to_string n =
     (if n < 10 then [char_of (48 + int n)]
      else nat_to_string (n div 10) @ [char_of (48 + int (n mod 10))])"

declare nat_to_string.simps [simp del]

definition digit_value :: "char \<Rightarrow> int" where
  "digit_value c = cp c - 48"

definition digits_value :: "string \<Rightarrow> int" where
  "digits_value s = foldl (\<lambda>n c. 10 * n + digit_value c) 0 s"

lemma digits_value_snoc: "digits_value (s @ [c]) = 10 * digits_value s + digit_value c"
  by (simp add: digits_value_def)

lemma is_ascii_digit_char_of [simp]: "n < 10 \<Longrightarrow> is_ascii_digit (char_of (48 + int n))"
  by (simp add: is_ascii_digit_def)

lemma nat_to_string_digits: "list_all is_ascii_digit (nat_to_string n)"
proof (induction n rule: nat_to_string.induct)
  case (1 n)
  then show ?case
    by (subst nat_to_string.simps) auto
qed

lemma nat_to_string_not_Nil [simp]: "nat_to_string n \<noteq> []"
  by (subst nat_to_string.simps) simp

lemma digits_value_nat_to_string [simp]: "digits_value (nat_to_string n) = int n"
proof (induction n rule: nat_to_string.induct)
  case (1 n)
  show ?case
  proof (cases "n < 10")
    case True
    then show ?thesis
      by (subst nat_to_string.simps) (simp add: digits_value_def digit_value_def)
  next
    case False
    with 1 have "digits_value (nat_to_string (n div 10)) = int (n div 10)" by simp
    moreover have "digit_value (char_of (48 + int (n mod 10))) = int (n mod 10)"
      by (simp add: digit_value_def)
    moreover have "10 * int (n div 10) + int (n mod 10) = int n" by presburger
    ultimately show ?thesis
      using False by (subst nat_to_string.simps) (simp add: digits_value_snoc)
  qed
qed

lemma digit_facts:
  assumes "is_ascii_digit c"
  shows "c \<noteq> CHR ''.''" and "c \<noteq> CHR ''+''" and "\<not> is_whitespace c"
  using assms by (auto simp: ascii_simps)

lemma nat_to_string_digit: "c \<in> set (nat_to_string n) \<Longrightarrow> is_ascii_digit c"
  using nat_to_string_digits by (auto simp: list_all_iff)

text \<open>\<open>str::parse::<i64>\<close> on a string of ASCII digits: an error when the value is out of range.\<close>

definition parse_i64_digits :: "string \<Rightarrow> i64 option" where
  "parse_i64_digits s =
     (if s \<noteq> [] \<and> list_all is_ascii_digit s \<and> digits_value s < 2 ^ 63
      then Some (of_int (digits_value s)) else None)"

subsection \<open>Lists\<close>

lemma drop_eq_Cons_iff: "drop n xs = y # ys \<longleftrightarrow> n < length xs \<and> xs ! n = y \<and> drop (Suc n) xs = ys"
  by (cases "n < length xs") (auto simp: Cons_nth_drop_Suc [symmetric])

lemma map_of_rev_distinct:
  assumes "distinct (map fst xs)"
  shows "map_of (rev xs) = map_of xs"
proof -
  from assms have "distinct (map fst (rev xs))" by (simp flip: rev_map)
  with assms show ?thesis by (simp add: map_of_inject_set)
qed

end
