(* ===== verification/F64.thy ===== *)
theory F64
  imports Marreta_Prelude "HOL-Library.Log_Nat"
begin

text \<open>
  Rust's \<open>f64\<close>: IEEE 754 binary64 with round to nearest, ties to even. A finite nonzero number
  is its exact rational value; the two zeros, the two infinities and NaN are separate
  constructors. NaN payloads are not modelled (the code never inspects them). Every
  operation is the exact operation on rationals followed by \<open>round64\<close>.
\<close>

datatype f64 = F_NaN | F_Inf bool | F_Zero bool | F_Num rat

definition pow2 :: "int \<Rightarrow> rat" where
  "pow2 k = (if 0 \<le> k then 2 ^ nat k else 1 / 2 ^ nat (- k))"

text \<open>The binary exponent of a positive rational: \<open>pow2 (ilog2 q) \<le> q < pow2 (ilog2 q + 1)\<close>.\<close>

definition ilog2 :: "rat \<Rightarrow> int" where
  "ilog2 q = (let (n, d) = quotient_of q; k = bitlen n - bitlen d
              in if pow2 k \<le> q then k else k - 1)"

definition round_half_even :: "rat \<Rightarrow> int" where
  "round_half_even q =
     (let f = \<lfloor>q\<rfloor>; r = q - of_int f
      in if r < 1 / 2 then f else if r > 1 / 2 then f + 1 else if even f then f else f + 1)"

definition round64_pos :: "bool \<Rightarrow> rat \<Rightarrow> f64" where
  "round64_pos neg q =
     (let e = max (ilog2 q) (- 1022); u = pow2 (e - 52);
          v = of_int (round_half_even (q / u)) * u
      in if v = 0 then F_Zero neg
         else if pow2 1024 \<le> v then F_Inf neg
         else F_Num (if neg then - v else v))"

definition round64 :: "rat \<Rightarrow> f64" where
  "round64 q = (if q = 0 then F_Zero False else round64_pos (q < 0) \<bar>q\<bar>)"

definition f64_of_i64 :: "i64 \<Rightarrow> f64" where
  "f64_of_i64 n = round64 (of_int (sint n))"

subsection \<open>Arithmetic\<close>

fun f64_neg :: "f64 \<Rightarrow> f64" where
  "f64_neg F_NaN = F_NaN"
| "f64_neg (F_Inf s) = F_Inf (\<not> s)"
| "f64_neg (F_Zero s) = F_Zero (\<not> s)"
| "f64_neg (F_Num q) = F_Num (- q)"

fun f64_sign :: "f64 \<Rightarrow> bool" where
  "f64_sign F_NaN = False"
| "f64_sign (F_Inf s) = s"
| "f64_sign (F_Zero s) = s"
| "f64_sign (F_Num q) = (q < 0)"

fun f64_add :: "f64 \<Rightarrow> f64 \<Rightarrow> f64" where
  "f64_add F_NaN _ = F_NaN"
| "f64_add _ F_NaN = F_NaN"
| "f64_add (F_Inf s) (F_Inf t) = (if s = t then F_Inf s else F_NaN)"
| "f64_add (F_Inf s) _ = F_Inf s"
| "f64_add _ (F_Inf t) = F_Inf t"
| "f64_add (F_Zero s) (F_Zero t) = F_Zero (s \<and> t)"
| "f64_add (F_Zero s) (F_Num b) = F_Num b"
| "f64_add (F_Num a) (F_Zero t) = F_Num a"
| "f64_add (F_Num a) (F_Num b) = round64 (a + b)"

definition f64_sub :: "f64 \<Rightarrow> f64 \<Rightarrow> f64" where
  "f64_sub a b = f64_add a (f64_neg b)"

fun f64_mul :: "f64 \<Rightarrow> f64 \<Rightarrow> f64" where
  "f64_mul F_NaN _ = F_NaN"
| "f64_mul _ F_NaN = F_NaN"
| "f64_mul (F_Inf s) (F_Zero t) = F_NaN"
| "f64_mul (F_Zero s) (F_Inf t) = F_NaN"
| "f64_mul (F_Inf s) b = F_Inf (s \<noteq> f64_sign b)"
| "f64_mul a (F_Inf t) = F_Inf (f64_sign a \<noteq> t)"
| "f64_mul (F_Zero s) b = F_Zero (s \<noteq> f64_sign b)"
| "f64_mul a (F_Zero t) = F_Zero (f64_sign a \<noteq> t)"
| "f64_mul (F_Num a) (F_Num b) = round64_pos ((a < 0) \<noteq> (b < 0)) \<bar>a * b\<bar>"

fun f64_div :: "f64 \<Rightarrow> f64 \<Rightarrow> f64" where
  "f64_div F_NaN _ = F_NaN"
| "f64_div _ F_NaN = F_NaN"
| "f64_div (F_Inf s) (F_Inf t) = F_NaN"
| "f64_div (F_Zero s) (F_Zero t) = F_NaN"
| "f64_div (F_Inf s) b = F_Inf (s \<noteq> f64_sign b)"
| "f64_div a (F_Inf t) = F_Zero (f64_sign a \<noteq> t)"
| "f64_div (F_Zero s) b = F_Zero (s \<noteq> f64_sign b)"
| "f64_div a (F_Zero t) = F_Inf (f64_sign a \<noteq> t)"
| "f64_div (F_Num a) (F_Num b) = round64_pos ((a < 0) \<noteq> (b < 0)) \<bar>a / b\<bar>"

text \<open>The \<open>%\<close> operator of \<open>f64\<close> (C's \<open>fmod\<close>): exact, with the sign of the dividend.\<close>

definition rat_trunc :: "rat \<Rightarrow> int" where
  "rat_trunc q = (if 0 \<le> q then \<lfloor>q\<rfloor> else - \<lfloor>- q\<rfloor>)"

fun f64_rem :: "f64 \<Rightarrow> f64 \<Rightarrow> f64" where
  "f64_rem F_NaN _ = F_NaN"
| "f64_rem _ F_NaN = F_NaN"
| "f64_rem (F_Inf s) _ = F_NaN"
| "f64_rem _ (F_Zero t) = F_NaN"
| "f64_rem a (F_Inf t) = a"
| "f64_rem (F_Zero s) (F_Num b) = F_Zero s"
| "f64_rem (F_Num a) (F_Num b) =
     (let r = a - of_int (rat_trunc (a / b)) * b in if r = 0 then F_Zero (a < 0) else F_Num r)"

subsection \<open>Comparison and conversion\<close>

datatype ordering = Less | Equal | Greater

definition rat_cmp :: "rat \<Rightarrow> rat \<Rightarrow> ordering" where
  "rat_cmp a b = (if a < b then Less else if a = b then Equal else Greater)"

fun f64_val :: "f64 \<Rightarrow> rat" where
  "f64_val (F_Num q) = q"
| "f64_val _ = 0"

fun f64_partial_cmp :: "f64 \<Rightarrow> f64 \<Rightarrow> ordering option" where
  "f64_partial_cmp F_NaN _ = None"
| "f64_partial_cmp _ F_NaN = None"
| "f64_partial_cmp (F_Inf s) (F_Inf t) =
     Some (if s = t then Equal else if s then Less else Greater)"
| "f64_partial_cmp (F_Inf s) _ = Some (if s then Less else Greater)"
| "f64_partial_cmp _ (F_Inf t) = Some (if t then Greater else Less)"
| "f64_partial_cmp a b = Some (rat_cmp (f64_val a) (f64_val b))"

definition f64_eq :: "f64 \<Rightarrow> f64 \<Rightarrow> bool" where
  "f64_eq a b \<longleftrightarrow> f64_partial_cmp a b = Some Equal"

text \<open>\<open>as i64\<close>: truncation towards zero, saturating; NaN is 0.\<close>

fun f64_to_i64 :: "f64 \<Rightarrow> i64" where
  "f64_to_i64 F_NaN = 0"
| "f64_to_i64 (F_Inf s) = (if s then of_int (- (2 ^ 63)) else of_int (2 ^ 63 - 1))"
| "f64_to_i64 (F_Zero s) = 0"
| "f64_to_i64 (F_Num q) = of_int (max (- (2 ^ 63)) (min (2 ^ 63 - 1) (rat_trunc q)))"

text \<open>\<open>str::parse::<f64>\<close> on the literals the lexer builds: digits, a dot, digits.\<close>

definition parse_f64_literal :: "string \<Rightarrow> f64 option" where
  "parse_f64_literal s =
     (case split_char (CHR ''.'') s of
        [a, b] \<Rightarrow>
          (if a \<noteq> [] \<and> b \<noteq> [] \<and> list_all is_ascii_digit (a @ b)
           then Some (round64 (of_int (digits_value (a @ b)) / 10 ^ length b))
           else None)
      | _ \<Rightarrow> None)"

lemma f64_eq_refl: "f64_eq a a \<longleftrightarrow> a \<noteq> F_NaN"
  by (cases a) (auto simp: f64_eq_def rat_cmp_def)

lemma f64_partial_cmp_None: "f64_partial_cmp a b = None \<longleftrightarrow> a = F_NaN \<or> b = F_NaN"
  by (cases a; cases b) auto

lemma f64_eq_sym: "f64_eq a b \<longleftrightarrow> f64_eq b a"
  by (cases a; cases b) (auto simp: f64_eq_def rat_cmp_def)

end
