(* ===== verification/Token.thy ===== *)
theory Token
  imports F64
begin

text \<open>
  \<^verbatim>\<open>src/src/token.rs\<close>: the token kinds, the token record and the reserved-word table.
  The constructors of \<open>TokenKind\<close> carry the prefix \<open>Tk\<close>, since Rust's enums share names
  (\<open>Integer\<close>, \<open>Map\<close>, \<open>Not\<close>) that are constants of HOL or constructors of other enums here.
\<close>

text \<open>
  The enum is declared along its comment headings: each group of payload-free kinds is an
  enumeration of its own, and every kind of the source is an abbreviation over the groups
  (a single enumeration of 96 constructors does not scale in the datatype package).
\<close>

datatype (plugins only: code size) operator_token =
    OpPlus | OpMinus | OpStar | OpSlash | OpPercent | OpEqual | OpNotEqual | OpGreater
    | OpLess | OpGreaterEqual | OpLessEqual | OpAnd | OpOr | OpNot | OpAssign | OpPipeline
    | OpBroadcast | OpArrow | OpFatArrow

datatype (plugins only: code size) delimiter_token =
    DeLeftParen | DeRightParen | DeLeftBracket | DeRightBracket | DeLeftBrace | DeRightBrace
    | DeComma | DeDot | DeColon

datatype (plugins only: code size) core_word =
    CoTask | CoMatch | CoFallback | CoMap | CoReduce | CoKeep | CoSkip | CoRequire | CoReject
    | CoWhile | CoIf | CoElse

datatype (plugins only: code size) http_word =
    HtRoute | HtTake | HtReply | HtFail | HtListen | HtGet | HtPost | HtPut | HtPatch
    | HtDelete

datatype (plugins only: code size) infra_word =
    InDb | InQueue | InCache | InFs | InJson | InBase64 | InUuid | InLog | InTime | InMath
    | InHttpClient | InDoc | InFeature | InEnv

datatype (plugins only: code size) language_word =
    LaSchema | LaAs | LaExport | LaOf | LaTransaction | LaRaise | LaRescue | LaOn | LaTopic
    | LaNack | LaRequeue

datatype (plugins only: code size) type_word =
    TyTypeString | TyTypeInteger | TyTypeFloat | TyTypeBoolean | TyTypeInstant | TyTypeDate
    | TyTypeDuration | TyTypeInterval | TyTypeList | TyTypeMap

datatype (plugins only: code size) token_kind =
    TkInteger i64 | TkFloat f64 | TkStringLiteral string | TkTrue | TkFalse | TkNull
  | TkIdentifier string
  | TkOperator operator_token | TkDelimiter delimiter_token
  | TkCore core_word | TkHttp http_word | TkInfra infra_word | TkLanguage language_word
  | TkType type_word
  | TkNewline | TkIndent | TkDedent | TkEof

abbreviation TkPlus :: token_kind where "TkPlus \<equiv> TkOperator OpPlus"
abbreviation TkMinus :: token_kind where "TkMinus \<equiv> TkOperator OpMinus"
abbreviation TkStar :: token_kind where "TkStar \<equiv> TkOperator OpStar"
abbreviation TkSlash :: token_kind where "TkSlash \<equiv> TkOperator OpSlash"
abbreviation TkPercent :: token_kind where "TkPercent \<equiv> TkOperator OpPercent"
abbreviation TkEqual :: token_kind where "TkEqual \<equiv> TkOperator OpEqual"
abbreviation TkNotEqual :: token_kind where "TkNotEqual \<equiv> TkOperator OpNotEqual"
abbreviation TkGreater :: token_kind where "TkGreater \<equiv> TkOperator OpGreater"
abbreviation TkLess :: token_kind where "TkLess \<equiv> TkOperator OpLess"
abbreviation TkGreaterEqual :: token_kind where "TkGreaterEqual \<equiv> TkOperator OpGreaterEqual"
abbreviation TkLessEqual :: token_kind where "TkLessEqual \<equiv> TkOperator OpLessEqual"
abbreviation TkAnd :: token_kind where "TkAnd \<equiv> TkOperator OpAnd"
abbreviation TkOr :: token_kind where "TkOr \<equiv> TkOperator OpOr"
abbreviation TkNot :: token_kind where "TkNot \<equiv> TkOperator OpNot"
abbreviation TkAssign :: token_kind where "TkAssign \<equiv> TkOperator OpAssign"
abbreviation TkPipeline :: token_kind where "TkPipeline \<equiv> TkOperator OpPipeline"
abbreviation TkBroadcast :: token_kind where "TkBroadcast \<equiv> TkOperator OpBroadcast"
abbreviation TkArrow :: token_kind where "TkArrow \<equiv> TkOperator OpArrow"
abbreviation TkFatArrow :: token_kind where "TkFatArrow \<equiv> TkOperator OpFatArrow"

abbreviation TkLeftParen :: token_kind where "TkLeftParen \<equiv> TkDelimiter DeLeftParen"
abbreviation TkRightParen :: token_kind where "TkRightParen \<equiv> TkDelimiter DeRightParen"
abbreviation TkLeftBracket :: token_kind where "TkLeftBracket \<equiv> TkDelimiter DeLeftBracket"
abbreviation TkRightBracket :: token_kind where "TkRightBracket \<equiv> TkDelimiter DeRightBracket"
abbreviation TkLeftBrace :: token_kind where "TkLeftBrace \<equiv> TkDelimiter DeLeftBrace"
abbreviation TkRightBrace :: token_kind where "TkRightBrace \<equiv> TkDelimiter DeRightBrace"
abbreviation TkComma :: token_kind where "TkComma \<equiv> TkDelimiter DeComma"
abbreviation TkDot :: token_kind where "TkDot \<equiv> TkDelimiter DeDot"
abbreviation TkColon :: token_kind where "TkColon \<equiv> TkDelimiter DeColon"

abbreviation TkTask :: token_kind where "TkTask \<equiv> TkCore CoTask"
abbreviation TkMatch :: token_kind where "TkMatch \<equiv> TkCore CoMatch"
abbreviation TkFallback :: token_kind where "TkFallback \<equiv> TkCore CoFallback"
abbreviation TkMap :: token_kind where "TkMap \<equiv> TkCore CoMap"
abbreviation TkReduce :: token_kind where "TkReduce \<equiv> TkCore CoReduce"
abbreviation TkKeep :: token_kind where "TkKeep \<equiv> TkCore CoKeep"
abbreviation TkSkip :: token_kind where "TkSkip \<equiv> TkCore CoSkip"
abbreviation TkRequire :: token_kind where "TkRequire \<equiv> TkCore CoRequire"
abbreviation TkReject :: token_kind where "TkReject \<equiv> TkCore CoReject"
abbreviation TkWhile :: token_kind where "TkWhile \<equiv> TkCore CoWhile"
abbreviation TkIf :: token_kind where "TkIf \<equiv> TkCore CoIf"
abbreviation TkElse :: token_kind where "TkElse \<equiv> TkCore CoElse"

abbreviation TkRoute :: token_kind where "TkRoute \<equiv> TkHttp HtRoute"
abbreviation TkTake :: token_kind where "TkTake \<equiv> TkHttp HtTake"
abbreviation TkReply :: token_kind where "TkReply \<equiv> TkHttp HtReply"
abbreviation TkFail :: token_kind where "TkFail \<equiv> TkHttp HtFail"
abbreviation TkListen :: token_kind where "TkListen \<equiv> TkHttp HtListen"
abbreviation TkGet :: token_kind where "TkGet \<equiv> TkHttp HtGet"
abbreviation TkPost :: token_kind where "TkPost \<equiv> TkHttp HtPost"
abbreviation TkPut :: token_kind where "TkPut \<equiv> TkHttp HtPut"
abbreviation TkPatch :: token_kind where "TkPatch \<equiv> TkHttp HtPatch"
abbreviation TkDelete :: token_kind where "TkDelete \<equiv> TkHttp HtDelete"

abbreviation TkDb :: token_kind where "TkDb \<equiv> TkInfra InDb"
abbreviation TkQueue :: token_kind where "TkQueue \<equiv> TkInfra InQueue"
abbreviation TkCache :: token_kind where "TkCache \<equiv> TkInfra InCache"
abbreviation TkFs :: token_kind where "TkFs \<equiv> TkInfra InFs"
abbreviation TkJson :: token_kind where "TkJson \<equiv> TkInfra InJson"
abbreviation TkBase64 :: token_kind where "TkBase64 \<equiv> TkInfra InBase64"
abbreviation TkUuid :: token_kind where "TkUuid \<equiv> TkInfra InUuid"
abbreviation TkLog :: token_kind where "TkLog \<equiv> TkInfra InLog"
abbreviation TkTime :: token_kind where "TkTime \<equiv> TkInfra InTime"
abbreviation TkMath :: token_kind where "TkMath \<equiv> TkInfra InMath"
abbreviation TkHttpClient :: token_kind where "TkHttpClient \<equiv> TkInfra InHttpClient"
abbreviation TkDoc :: token_kind where "TkDoc \<equiv> TkInfra InDoc"
abbreviation TkFeature :: token_kind where "TkFeature \<equiv> TkInfra InFeature"
abbreviation TkEnv :: token_kind where "TkEnv \<equiv> TkInfra InEnv"

abbreviation TkSchema :: token_kind where "TkSchema \<equiv> TkLanguage LaSchema"
abbreviation TkAs :: token_kind where "TkAs \<equiv> TkLanguage LaAs"
abbreviation TkExport :: token_kind where "TkExport \<equiv> TkLanguage LaExport"
abbreviation TkOf :: token_kind where "TkOf \<equiv> TkLanguage LaOf"
abbreviation TkTransaction :: token_kind where "TkTransaction \<equiv> TkLanguage LaTransaction"
abbreviation TkRaise :: token_kind where "TkRaise \<equiv> TkLanguage LaRaise"
abbreviation TkRescue :: token_kind where "TkRescue \<equiv> TkLanguage LaRescue"
abbreviation TkOn :: token_kind where "TkOn \<equiv> TkLanguage LaOn"
abbreviation TkTopic :: token_kind where "TkTopic \<equiv> TkLanguage LaTopic"
abbreviation TkNack :: token_kind where "TkNack \<equiv> TkLanguage LaNack"
abbreviation TkRequeue :: token_kind where "TkRequeue \<equiv> TkLanguage LaRequeue"

abbreviation TkTypeString :: token_kind where "TkTypeString \<equiv> TkType TyTypeString"
abbreviation TkTypeInteger :: token_kind where "TkTypeInteger \<equiv> TkType TyTypeInteger"
abbreviation TkTypeFloat :: token_kind where "TkTypeFloat \<equiv> TkType TyTypeFloat"
abbreviation TkTypeBoolean :: token_kind where "TkTypeBoolean \<equiv> TkType TyTypeBoolean"
abbreviation TkTypeInstant :: token_kind where "TkTypeInstant \<equiv> TkType TyTypeInstant"
abbreviation TkTypeDate :: token_kind where "TkTypeDate \<equiv> TkType TyTypeDate"
abbreviation TkTypeDuration :: token_kind where "TkTypeDuration \<equiv> TkType TyTypeDuration"
abbreviation TkTypeInterval :: token_kind where "TkTypeInterval \<equiv> TkType TyTypeInterval"
abbreviation TkTypeList :: token_kind where "TkTypeList \<equiv> TkType TyTypeList"
abbreviation TkTypeMap :: token_kind where "TkTypeMap \<equiv> TkType TyTypeMap"

record token =
  tk_kind :: token_kind
  tk_line :: nat
  tk_column :: nat
  tk_lexeme :: string

definition token_new :: "token_kind \<Rightarrow> nat \<Rightarrow> nat \<Rightarrow> string \<Rightarrow> token" where
  "token_new k l c x = \<lparr>tk_kind = k, tk_line = l, tk_column = c, tk_lexeme = x\<rparr>"

definition token_eof :: "nat \<Rightarrow> nat \<Rightarrow> token" where
  "token_eof l c = token_new TkEof l c []"

lemma token_new_sel [simp]:
  "tk_kind (token_new k l c x) = k" "tk_line (token_new k l c x) = l"
  "tk_column (token_new k l c x) = c" "tk_lexeme (token_new k l c x) = x"
  by (simp_all add: token_new_def)

lemma token_eof_sel [simp]:
  "tk_kind (token_eof l c) = TkEof" "tk_line (token_eof l c) = l"
  "tk_column (token_eof l c) = c" "tk_lexeme (token_eof l c) = []"
  by (simp_all add: token_eof_def)

text \<open>The match of \<open>keyword_lookup\<close>, arm by arm in the source's order.\<close>

definition keyword_table :: "(string \<times> token_kind) list" where
  "keyword_table =
     [(''task'', TkTask), (''match'', TkMatch), (''fallback'', TkFallback), (''map'', TkMap),
      (''reduce'', TkReduce), (''keep'', TkKeep), (''skip'', TkSkip), (''require'', TkRequire),
      (''reject'', TkReject), (''while'', TkWhile), (''if'', TkIf), (''else'', TkElse),
      (''and'', TkAnd), (''or'', TkOr), (''not'', TkNot), (''true'', TkTrue), (''false'', TkFalse),
      (''null'', TkNull), (''route'', TkRoute), (''take'', TkTake), (''reply'', TkReply),
      (''fail'', TkFail), (''listen'', TkListen), (''db'', TkDb), (''queue'', TkQueue),
      (''cache'', TkCache), (''fs'', TkFs), (''json'', TkJson), (''base64'', TkBase64),
      (''uuid'', TkUuid), (''log'', TkLog), (''time'', TkTime), (''math'', TkMath),
      (''http_client'', TkHttpClient), (''doc'', TkDoc), (''feature'', TkFeature),
      (''env'', TkEnv), (''GET'', TkGet), (''POST'', TkPost), (''PUT'', TkPut),
      (''PATCH'', TkPatch), (''DELETE'', TkDelete), (''schema'', TkSchema), (''as'', TkAs),
      (''export'', TkExport), (''of'', TkOf), (''string'', TkTypeString),
      (''integer'', TkTypeInteger), (''float'', TkTypeFloat), (''boolean'', TkTypeBoolean),
      (''instant'', TkTypeInstant), (''date'', TkTypeDate), (''duration'', TkTypeDuration),
      (''interval'', TkTypeInterval), (''transaction'', TkTransaction), (''raise'', TkRaise),
      (''rescue'', TkRescue), (''on'', TkOn), (''topic'', TkTopic), (''nack'', TkNack),
      (''requeue'', TkRequeue)]"

definition keyword_lookup :: "string \<Rightarrow> token_kind option" where
  "keyword_lookup word = map_of keyword_table word"

subsection \<open>Facts about the table\<close>

lemma keyword_table_distinct_kinds: "distinct (map snd keyword_table)"
  by code_simp

text \<open>No kind has two spellings, so a keyword token determines the word it was read from.\<close>

lemma keyword_lookup_inj:
  assumes "keyword_lookup u = Some k" and "keyword_lookup v = Some k"
  shows "u = v"
proof -
  have u: "(u, k) \<in> set keyword_table" and v: "(v, k) \<in> set keyword_table"
    using assms unfolding keyword_lookup_def by (auto dest: map_of_SomeD)
  have "inj_on snd (set keyword_table)"
    using keyword_table_distinct_kinds by (simp add: distinct_map)
  from inj_onD [OF this _ u v] show ?thesis by simp
qed

text \<open>A reserved word is never a literal with a payload, an identifier or a control token.\<close>

fun word_kind :: "token_kind \<Rightarrow> bool" where
  "word_kind (TkInteger _) = False"
| "word_kind (TkFloat _) = False"
| "word_kind (TkStringLiteral _) = False"
| "word_kind (TkIdentifier _) = False"
| "word_kind (TkDelimiter _) = False"
| "word_kind (TkOperator k) = (k \<in> {OpAnd, OpOr, OpNot})"
| "word_kind TkNewline = False"
| "word_kind TkIndent = False"
| "word_kind TkDedent = False"
| "word_kind TkEof = False"
| "word_kind _ = True"

lemma keyword_table_word_kinds: "list_all word_kind (map snd keyword_table)"
  by code_simp

lemma keyword_lookup_word_kind: "keyword_lookup w = Some k \<Longrightarrow> word_kind k"
  using keyword_table_word_kinds
  unfolding keyword_lookup_def list_all_iff by (force dest: map_of_SomeD)

end
