(* ===== verification/Marreta_Error.thy ===== *)
theory Marreta_Error
  imports Token
begin

text \<open>
  \<^verbatim>\<open>src/src/error.rs\<close>: the error enum of the engine, its semantic codes and its source
  locations. The constructors keep their names and the order of their fields; those of
  \<open>ErrorCode\<close> carry the prefix \<open>Ec\<close>.
\<close>

text \<open>The dash \<open>U+2014\<close>, by its UTF-8 bytes.\<close>

definition em_dash :: string where
  "em_dash = [CHR 0xE2, CHR 0x80, CHR 0x94]"

datatype error_code =
    EcRaiseError | EcDbError | EcUniqueViolation | EcQueueError | EcCacheError
  | EcHttpClientError | EcTypeError | EcReferenceError | EcArityError | EcArithmeticError
  | EcIoError | EcConfigError | EcInfrastructureError | EcRuntimeError
  | EcInvalidIdentifier | EcUnknownColumn

fun error_code_as_str :: "error_code \<Rightarrow> string" where
  "error_code_as_str EcRaiseError = ''raise_error''"
| "error_code_as_str EcDbError = ''db_error''"
| "error_code_as_str EcUniqueViolation = ''unique_violation''"
| "error_code_as_str EcQueueError = ''queue_error''"
| "error_code_as_str EcCacheError = ''cache_error''"
| "error_code_as_str EcHttpClientError = ''http_client_error''"
| "error_code_as_str EcTypeError = ''type_error''"
| "error_code_as_str EcReferenceError = ''reference_error''"
| "error_code_as_str EcArityError = ''arity_error''"
| "error_code_as_str EcArithmeticError = ''arithmetic_error''"
| "error_code_as_str EcIoError = ''io_error''"
| "error_code_as_str EcConfigError = ''config_error''"
| "error_code_as_str EcInfrastructureError = ''infrastructure_error''"
| "error_code_as_str EcRuntimeError = ''runtime_error''"
| "error_code_as_str EcInvalidIdentifier = ''invalid_identifier''"
| "error_code_as_str EcUnknownColumn = ''unknown_column''"

text \<open>
  The \<open>expected\<close> text of a parser error is either a literal of the source or the \<open>Debug\<close>
  rendering of a token kind, \<open>format!("{:?}", kind)\<close>, which is kept symbolic.
\<close>

datatype expectation = Expected string | ExpectedKind token_kind

datatype (plugins only: code size) marreta_error =
    UnexpectedCharacter char nat nat
  | UnterminatedString nat nat
  | InvalidIndentation nat nat nat
  | UnexpectedIndentation nat
  | InvalidNumber string nat nat
  | UnexpectedToken expectation string nat nat
  | UnexpectedEndOfInput expectation
  | ReservedWord string nat nat
  | UndefinedVariable string nat nat
  | UndefinedTask string nat nat
  | TypeError string nat nat
  | DivisionByZero nat nat
  | WrongArity string nat nat nat nat
  | NotCallable string nat nat
  | RuntimeError string nat nat
  | PropertyNotFound string string nat nat
  | HttpError i64 string
  | HttpResponse "16 word" string string "(string \<times> string) list" bool
  | RouteConflict string string string nat nat
  | ExportConflict string string string
  | IncompatibleRuntime string string
  | CircularSchemaReference string
  | InvalidSchemaDefinition string string
  | InvalidPersistentSchemaReference string string string
  | InvalidPersistentSchemaDefinition string string
  | RaiseError string
  | DbError string string
  | UniqueConstraintViolation string string
  | DbIdentifierError error_code string
  | NackSignal bool
  | QueueError string string
  | CacheError string string
  | HttpClientError string string
  | FileNotFound string
  | IoError string

definition marreta_error_code :: "marreta_error \<Rightarrow> error_code" where
  "marreta_error_code e =
     (case e of
        RaiseError _ \<Rightarrow> EcRaiseError
      | DbError _ _ \<Rightarrow> EcDbError
      | UniqueConstraintViolation _ _ \<Rightarrow> EcUniqueViolation
      | DbIdentifierError code _ \<Rightarrow> code
      | NackSignal _ \<Rightarrow> EcQueueError
      | QueueError _ _ \<Rightarrow> EcQueueError
      | CacheError _ _ \<Rightarrow> EcCacheError
      | HttpClientError _ _ \<Rightarrow> EcHttpClientError
      | TypeError _ _ _ \<Rightarrow> EcTypeError
      | RuntimeError _ _ _ \<Rightarrow> EcRuntimeError
      | UndefinedVariable _ _ _ \<Rightarrow> EcReferenceError
      | UndefinedTask _ _ _ \<Rightarrow> EcReferenceError
      | PropertyNotFound _ _ _ _ \<Rightarrow> EcReferenceError
      | NotCallable _ _ _ \<Rightarrow> EcReferenceError
      | WrongArity _ _ _ _ _ \<Rightarrow> EcArityError
      | DivisionByZero _ _ \<Rightarrow> EcArithmeticError
      | IoError _ \<Rightarrow> EcIoError
      | FileNotFound _ \<Rightarrow> EcIoError
      | RouteConflict _ _ _ _ _ \<Rightarrow> EcConfigError
      | ExportConflict _ _ _ \<Rightarrow> EcConfigError
      | CircularSchemaReference _ \<Rightarrow> EcConfigError
      | IncompatibleRuntime _ _ \<Rightarrow> EcConfigError
      | InvalidPersistentSchemaReference _ _ _ \<Rightarrow> EcConfigError
      | InvalidSchemaDefinition _ _ \<Rightarrow> EcConfigError
      | InvalidPersistentSchemaDefinition _ _ \<Rightarrow> EcConfigError
      | _ \<Rightarrow> EcRuntimeError)"

definition operation_name :: "marreta_error \<Rightarrow> string" where
  "operation_name e =
     (case e of
        RaiseError _ \<Rightarrow> ''raise''
      | DbError _ op \<Rightarrow> op
      | UniqueConstraintViolation _ op \<Rightarrow> op
      | NackSignal _ \<Rightarrow> ''nack''
      | QueueError _ op \<Rightarrow> op
      | CacheError _ op \<Rightarrow> op
      | HttpClientError _ op \<Rightarrow> op
      | UndefinedVariable name _ _ \<Rightarrow> ''lookup '' @ [CHR 0x27] @ name @ [CHR 0x27]
      | UndefinedTask name _ _ \<Rightarrow> ''call '' @ [CHR 0x27] @ name @ [CHR 0x27]
      | PropertyNotFound _ property _ _ \<Rightarrow> ''access '' @ [CHR 0x27] @ ''.'' @ property @ [CHR 0x27]
      | WrongArity name _ _ _ _ \<Rightarrow> ''call '' @ [CHR 0x27] @ name @ [CHR 0x27]
      | DivisionByZero _ _ \<Rightarrow> ''arithmetic''
      | _ \<Rightarrow> ''interpreter'')"

definition trace_operation_label :: "marreta_error \<Rightarrow> string option" where
  "trace_operation_label e =
     (case e of
        RaiseError _ \<Rightarrow> Some ''raise''
      | DbError _ op \<Rightarrow> Some op
      | UniqueConstraintViolation _ op \<Rightarrow> Some op
      | QueueError _ op \<Rightarrow> Some op
      | CacheError _ op \<Rightarrow> Some op
      | HttpClientError _ op \<Rightarrow> Some op
      | _ \<Rightarrow> None)"

definition marreta_error_line :: "marreta_error \<Rightarrow> nat option" where
  "marreta_error_line e =
     (case e of
        UnexpectedCharacter _ line _ \<Rightarrow> Some line
      | UnterminatedString line _ \<Rightarrow> Some line
      | InvalidIndentation line _ _ \<Rightarrow> Some line
      | UnexpectedIndentation line \<Rightarrow> Some line
      | InvalidNumber _ line _ \<Rightarrow> Some line
      | UnexpectedToken _ _ line _ \<Rightarrow> Some line
      | ReservedWord _ line _ \<Rightarrow> Some line
      | UndefinedVariable _ line _ \<Rightarrow> Some line
      | UndefinedTask _ line _ \<Rightarrow> Some line
      | TypeError _ line _ \<Rightarrow> Some line
      | RuntimeError _ line _ \<Rightarrow> Some line
      | DivisionByZero line _ \<Rightarrow> Some line
      | WrongArity _ _ _ line _ \<Rightarrow> Some line
      | NotCallable _ line _ \<Rightarrow> Some line
      | PropertyNotFound _ _ line _ \<Rightarrow> Some line
      | RouteConflict _ _ _ line _ \<Rightarrow> Some line
      | _ \<Rightarrow> None)"

definition marreta_error_column :: "marreta_error \<Rightarrow> nat option" where
  "marreta_error_column e =
     (case e of
        UnexpectedCharacter _ _ column \<Rightarrow> Some column
      | UnterminatedString _ column \<Rightarrow> Some column
      | InvalidNumber _ _ column \<Rightarrow> Some column
      | UnexpectedToken _ _ _ column \<Rightarrow> Some column
      | ReservedWord _ _ column \<Rightarrow> Some column
      | UndefinedVariable _ _ column \<Rightarrow> Some column
      | UndefinedTask _ _ column \<Rightarrow> Some column
      | TypeError _ _ column \<Rightarrow> Some column
      | RuntimeError _ _ column \<Rightarrow> Some column
      | DivisionByZero _ column \<Rightarrow> Some column
      | WrongArity _ _ _ _ column \<Rightarrow> Some column
      | NotCallable _ _ column \<Rightarrow> Some column
      | PropertyNotFound _ _ _ column \<Rightarrow> Some column
      | RouteConflict _ _ _ _ column \<Rightarrow> Some column
      | _ \<Rightarrow> None)"

text \<open>An error with a column has a line: the diagnostics printers may print \<open>line:column\<close>.\<close>

lemma marreta_error_column_line:
  "marreta_error_column e = Some c \<Longrightarrow> \<exists>l. marreta_error_line e = Some l"
  by (cases e) (simp_all add: marreta_error_column_def marreta_error_line_def)

text \<open>The semantic codes are told apart by their strings.\<close>

lemma error_code_as_str_inj: "error_code_as_str a = error_code_as_str b \<longleftrightarrow> a = b"
  by (cases a; cases b) simp_all

end
