(* ===== verification/Lexer.thy ===== *)
theory Lexer
  imports Marreta_Error
begin

text \<open>
  \<^verbatim>\<open>src/src/lexer.rs\<close>: the tokenizer, as explicit state passing over the record \<open>lexer\<close>
  (the struct \<open>Lexer\<close>). \<open>Inl (LexError e)\<close> is an \<open>Err(e)\<close> of the source; \<open>Inl LexPanic\<close> is the
  panic of \<open>self.source[self.pos]\<close> when \<open>pos\<close> has reached the end of the source.
\<close>

record lexer =
  lx_source :: "char list"
  lx_tokens :: "token list"
  lx_pos :: nat
  lx_line :: nat
  lx_column :: nat
  lx_indent_stack :: "nat list"
  lx_at_line_start :: bool
  lx_nesting_depth :: nat

datatype lex_failure = LexError marreta_error | LexPanic

abbreviation LF :: char where "LF \<equiv> CHR 0x0A"
abbreviation CR :: char where "CR \<equiv> CHR 0x0D"
abbreviation TAB :: char where "TAB \<equiv> CHR 0x09"
abbreviation DQ :: char where "DQ \<equiv> CHR 0x22"
abbreviation BSL :: char where "BSL \<equiv> CHR 0x5C"

text \<open>\<open>source.replace("\r\n", "\n").replace('\r', "\n")\<close>\<close>

fun replace_crlf :: "string \<Rightarrow> string" where
  "replace_crlf [] = []"
| "replace_crlf [c] = [c]"
| "replace_crlf (c # d # s) =
     (if c = CR \<and> d = LF then LF # replace_crlf s else c # replace_crlf (d # s))"

definition replace_cr :: "string \<Rightarrow> string" where
  "replace_cr s = map (\<lambda>c. if c = CR then LF else c) s"

definition normalize_newlines :: "string \<Rightarrow> string" where
  "normalize_newlines s = replace_cr (replace_crlf s)"

definition lexer_new :: "string \<Rightarrow> lexer" where
  "lexer_new src =
     \<lparr>lx_source = normalize_newlines src, lx_tokens = [], lx_pos = 0, lx_line = 1,
      lx_column = 1, lx_indent_stack = [0], lx_at_line_start = True, lx_nesting_depth = 0\<rparr>"

subsection \<open>Character access\<close>

definition lx_is_at_end :: "lexer \<Rightarrow> bool" where
  "lx_is_at_end L \<longleftrightarrow> length (lx_source L) \<le> lx_pos L"

text \<open>In range wherever it is used: every use is guarded by \<open>\<not> lx_is_at_end\<close>, and the one unguarded
  use, in the main loop, is guarded by \<open>LexPanic\<close> in \<open>lex_step\<close>.\<close>

definition lx_current :: "lexer \<Rightarrow> char" where
  "lx_current L = lx_source L ! lx_pos L"

definition lx_peek_at :: "nat \<Rightarrow> lexer \<Rightarrow> char option" where
  "lx_peek_at offset L =
     (if lx_pos L + offset < length (lx_source L)
      then Some (lx_source L ! (lx_pos L + offset)) else None)"

definition lx_peek :: "lexer \<Rightarrow> char option" where
  "lx_peek L = lx_peek_at 1 L"

definition lx_advance :: "lexer \<Rightarrow> lexer" where
  "lx_advance L = L\<lparr>lx_pos := lx_pos L + 1, lx_column := lx_column L + 1\<rparr>"

definition push_token :: "token \<Rightarrow> lexer \<Rightarrow> lexer" where
  "push_token t L = L\<lparr>lx_tokens := lx_tokens L @ [t]\<rparr>"

subsection \<open>Token emission\<close>

definition emit_single :: "token_kind \<Rightarrow> string \<Rightarrow> lexer \<Rightarrow> lexer" where
  "emit_single k x L = lx_advance (push_token (token_new k (lx_line L) (lx_column L) x) L)"

text \<open>\<open>tokens.iter().rposition(..)\<close> finds the last token that is neither Indent nor Dedent;
  it is removed when it is a Newline.\<close>

fun remove_last_newline_rev :: "token list \<Rightarrow> token list" where
  "remove_last_newline_rev [] = []"
| "remove_last_newline_rev (t # ts) =
     (if tk_kind t = TkIndent \<or> tk_kind t = TkDedent then t # remove_last_newline_rev ts
      else if tk_kind t = TkNewline then ts else t # ts)"

definition remove_last_newline :: "token list \<Rightarrow> token list" where
  "remove_last_newline ts = rev (remove_last_newline_rev (rev ts))"

definition emit_double :: "token_kind \<Rightarrow> string \<Rightarrow> lexer \<Rightarrow> lexer" where
  "emit_double k x L =
     (let L1 = (if k = TkPipeline \<or> k = TkBroadcast
                then L\<lparr>lx_tokens := remove_last_newline (lx_tokens L)\<rparr> else L)
      in lx_advance (lx_advance (push_token (token_new k (lx_line L) (lx_column L) x) L1)))"

definition emit_triple :: "token_kind \<Rightarrow> string \<Rightarrow> lexer \<Rightarrow> lexer" where
  "emit_triple k x L =
     lx_advance (lx_advance (lx_advance
       (push_token (token_new k (lx_line L) (lx_column L) x) L)))"

subsection \<open>Indentation\<close>

function skip_spaces :: "nat \<Rightarrow> lexer \<Rightarrow> nat \<times> lexer" where
  "skip_spaces spaces L =
     (if \<not> lx_is_at_end L \<and> lx_current L = CHR '' ''
      then skip_spaces (spaces + 1) (lx_advance L) else (spaces, L))"
  by pat_completeness auto
termination
  by (relation "measure (\<lambda>(n, L). length (lx_source L) - lx_pos L)")
    (auto simp: lx_is_at_end_def lx_advance_def)

text \<open>\<open>indent_stack.last().unwrap_or(\&0)\<close>; the top of the stack is the last element.\<close>

definition top_indent :: "nat list \<Rightarrow> nat" where
  "top_indent st = (if st = [] then 0 else last st)"

text \<open>The loop that pops levels deeper than \<open>spaces\<close>, pushing a Dedent for each.\<close>

function pop_indents :: "nat \<Rightarrow> lexer \<Rightarrow> lexer" where
  "pop_indents spaces L =
     (if 1 < length (lx_indent_stack L) \<and> spaces < top_indent (lx_indent_stack L)
      then pop_indents spaces
             (push_token (token_new TkDedent (lx_line L) 1 [])
               (L\<lparr>lx_indent_stack := butlast (lx_indent_stack L)\<rparr>))
      else L)"
  by pat_completeness auto
termination
  by (relation "measure (\<lambda>(n, L). length (lx_indent_stack L))") (auto simp: push_token_def)

definition handle_indentation :: "lexer \<Rightarrow> lex_failure + lexer" where
  "handle_indentation L0 =
     (let (spaces, L) = skip_spaces 0 L0 in
      if lx_is_at_end L \<or> lx_current L = LF \<or> lx_current L = CHR ''#'' then Inr L
      else
        (let current_indent = top_indent (lx_indent_stack L) in
         if current_indent < spaces then
           Inr (push_token (token_new TkIndent (lx_line L) 1 [])
                 (L\<lparr>lx_indent_stack := lx_indent_stack L @ [spaces]\<rparr>))
         else if spaces < current_indent then
           (let L' = pop_indents spaces L; current = top_indent (lx_indent_stack L') in
            if current \<noteq> spaces
            then Inl (LexError (InvalidIndentation (lx_line L') current spaces))
            else Inr L')
         else Inr L))"

subsection \<open>Newlines and comments\<close>

fun suppress_rev :: "token list \<Rightarrow> bool" where
  "suppress_rev [] = True"
| "suppress_rev (t # ts) =
     (if tk_kind t \<in> {TkIndent, TkDedent, TkNewline} then suppress_rev ts
      else tk_kind t \<in> {TkPipeline, TkBroadcast, TkArrow, TkFatArrow, TkComma})"

definition should_suppress_newline :: "lexer \<Rightarrow> bool" where
  "should_suppress_newline L \<longleftrightarrow> suppress_rev (rev (lx_tokens L))"

definition next_line :: "bool \<Rightarrow> lexer \<Rightarrow> lexer" where
  "next_line start L =
     L\<lparr>lx_pos := lx_pos L + 1, lx_line := lx_line L + 1, lx_column := 1,
       lx_at_line_start := start\<rparr>"

definition handle_newline :: "lexer \<Rightarrow> lexer" where
  "handle_newline L =
     (if 0 < lx_nesting_depth L then next_line False L
      else
        (let last_is_newline =
               (lx_tokens L \<noteq> [] \<and> tk_kind (last (lx_tokens L)) = TkNewline);
             L1 = (if \<not> should_suppress_newline L \<and> \<not> last_is_newline \<and> lx_tokens L \<noteq> []
                   then push_token
                          (token_new TkNewline (lx_line L) (lx_column L) [BSL, CHR ''n'']) L
                   else L)
         in next_line True L1))"

function skip_comment :: "lexer \<Rightarrow> lexer" where
  "skip_comment L =
     (if \<not> lx_is_at_end L \<and> lx_current L \<noteq> LF then skip_comment (lx_advance L) else L)"
  by pat_completeness auto
termination
  by (relation "measure (\<lambda>L. length (lx_source L) - lx_pos L)")
    (auto simp: lx_is_at_end_def lx_advance_def)

subsection \<open>String literals\<close>

definition escape_char :: "char \<Rightarrow> string" where
  "escape_char c =
     (if c = CHR ''n'' then [LF] else if c = CHR ''t'' then [TAB] else if c = CHR ''r'' then [CR]
      else if c = BSL then [BSL] else if c = DQ then [DQ] else if c = CHR ''#'' then [CHR ''#'']
      else [BSL, c])"

function read_string_loop :: "string \<Rightarrow> nat \<Rightarrow> nat \<Rightarrow> lexer \<Rightarrow> lex_failure + (string \<times> lexer)" where
  "read_string_loop v start_line start_col L =
     (if \<not> lx_is_at_end L \<and> lx_current L \<noteq> DQ then
        if lx_current L = LF then Inl (LexError (UnterminatedString start_line start_col))
        else if lx_current L = BSL then
          (let L1 = lx_advance L in
           if lx_is_at_end L1 then Inl (LexError (UnterminatedString start_line start_col))
           else read_string_loop (v @ escape_char (lx_current L1)) start_line start_col
                  (lx_advance L1))
        else read_string_loop (v @ [lx_current L]) start_line start_col (lx_advance L)
      else Inr (v, L))"
  by pat_completeness auto
termination
  by (relation "measure (\<lambda>(v, l, c, L). length (lx_source L) - lx_pos L)")
    (auto simp: lx_is_at_end_def lx_advance_def)

definition read_string :: "lexer \<Rightarrow> lex_failure + lexer" where
  "read_string L =
     rbind (read_string_loop [] (lx_line L) (lx_column L) (lx_advance L)) (\<lambda>(v, L1).
       if lx_is_at_end L1 then Inl (LexError (UnterminatedString (lx_line L) (lx_column L)))
       else Inr (push_token
                   (token_new (TkStringLiteral v) (lx_line L) (lx_column L) ([DQ] @ v @ [DQ]))
                   (lx_advance L1)))"

subsection \<open>Numbers\<close>

text \<open>\<open>self.source[a..b].iter().collect()\<close>\<close>

definition lx_slice :: "nat \<Rightarrow> nat \<Rightarrow> lexer \<Rightarrow> string" where
  "lx_slice a b L = take (b - a) (drop a (lx_source L))"

function read_number_loop :: "nat \<Rightarrow> nat \<Rightarrow> bool \<Rightarrow> lexer \<Rightarrow> lex_failure + (bool \<times> lexer)" where
  "read_number_loop start_pos start_col has_dot L =
     (if \<not> lx_is_at_end L \<and> (is_ascii_digit (lx_current L) \<or> lx_current L = CHR ''.'') then
        if lx_current L = CHR ''.'' then
          (if (case lx_peek L of None \<Rightarrow> False | Some c \<Rightarrow> is_ascii_digit c) then
             if has_dot then
               Inl (LexError (InvalidNumber (lx_slice start_pos (lx_pos L + 1) L)
                                (lx_line L) start_col))
             else read_number_loop start_pos start_col True (lx_advance L)
           else Inr (has_dot, L))
        else read_number_loop start_pos start_col has_dot (lx_advance L)
      else Inr (has_dot, L))"
  by pat_completeness auto
termination
  by (relation "measure (\<lambda>(s, c, d, L). length (lx_source L) - lx_pos L)")
    (auto simp: lx_is_at_end_def lx_advance_def)

definition read_number :: "lexer \<Rightarrow> lex_failure + lexer" where
  "read_number L =
     rbind (read_number_loop (lx_pos L) (lx_column L) False L) (\<lambda>(has_dot, L1).
       let lexeme = lx_slice (lx_pos L) (lx_pos L1) L1;
           invalid = LexError (InvalidNumber lexeme (lx_line L1) (lx_column L))
       in if has_dot then
            (case parse_f64_literal lexeme of
               None \<Rightarrow> Inl invalid
             | Some n \<Rightarrow> Inr (push_token
                           (token_new (TkFloat n) (lx_line L1) (lx_column L) lexeme) L1))
          else
            (case parse_i64_digits lexeme of
               None \<Rightarrow> Inl invalid
             | Some n \<Rightarrow> Inr (push_token
                           (token_new (TkInteger n) (lx_line L1) (lx_column L) lexeme) L1)))"

subsection \<open>Identifiers and keywords\<close>

definition ident_char :: "char \<Rightarrow> bool" where
  "ident_char c \<longleftrightarrow> is_ascii_alphanumeric c \<or> c = CHR ''_'' \<or> c = CHR ''?''"

function skip_ident :: "lexer \<Rightarrow> lexer" where
  "skip_ident L =
     (if \<not> lx_is_at_end L \<and> ident_char (lx_current L) then skip_ident (lx_advance L) else L)"
  by pat_completeness auto
termination
  by (relation "measure (\<lambda>L. length (lx_source L) - lx_pos L)")
    (auto simp: lx_is_at_end_def lx_advance_def)

definition word_token_kind :: "string \<Rightarrow> token_kind" where
  "word_token_kind w = (case keyword_lookup w of Some k \<Rightarrow> k | None \<Rightarrow> TkIdentifier w)"

definition read_identifier :: "lexer \<Rightarrow> lexer" where
  "read_identifier L =
     (let L1 = skip_ident L; w = lx_slice (lx_pos L) (lx_pos L1) L1
      in push_token (token_new (word_token_kind w) (lx_line L1) (lx_column L) w) L1)"

subsection \<open>The main loop\<close>

definition open_delim :: "lexer \<Rightarrow> lexer" where
  "open_delim L = L\<lparr>lx_nesting_depth := lx_nesting_depth L + 1\<rparr>"

definition close_delim :: "lexer \<Rightarrow> lexer" where
  "close_delim L = L\<lparr>lx_nesting_depth := lx_nesting_depth L - 1\<rparr>"

text \<open>The match on the current character, arm by arm.\<close>

definition lex_char :: "lexer \<Rightarrow> lex_failure + lexer" where
  "lex_char L =
     (let ch = lx_current L;
          unexpected = Inl (LexError (UnexpectedCharacter ch (lx_line L) (lx_column L)))
      in
      if ch = CHR '' '' \<or> ch = TAB \<or> ch = CR then Inr (lx_advance L)
      else if ch = LF then Inr (handle_newline L)
      else if ch = CHR ''#'' then Inr (skip_comment L)
      else if ch = DQ then read_string L
      else if ch = CHR ''+'' then Inr (emit_single TkPlus ''+'' L)
      else if ch = CHR ''-'' then
        Inr (if lx_peek L = Some (CHR ''>'') then emit_double TkArrow ''->'' L
             else emit_single TkMinus ''-'' L)
      else if ch = CHR ''*'' then
        Inr (if lx_peek L = Some (CHR ''>'') \<and> lx_peek_at 2 L = Some (CHR ''>'')
             then emit_triple TkBroadcast ''*>>'' L
             else emit_single TkStar ''*'' L)
      else if ch = CHR ''/'' then Inr (emit_single TkSlash ''/'' L)
      else if ch = CHR ''%'' then Inr (emit_single TkPercent ''%'' L)
      else if ch = CHR ''='' then
        Inr (if lx_peek L = Some (CHR ''='') then emit_double TkEqual ''=='' L
             else if lx_peek L = Some (CHR ''>'') then emit_double TkFatArrow ''=>'' L
             else emit_single TkAssign ''='' L)
      else if ch = CHR ''!'' then
        (if lx_peek L = Some (CHR ''='') then Inr (emit_double TkNotEqual ''!='' L)
         else unexpected)
      else if ch = CHR ''>'' then
        Inr (if lx_peek L = Some (CHR ''>'') then emit_double TkPipeline ''>>'' L
             else if lx_peek L = Some (CHR ''='') then emit_double TkGreaterEqual ''>='' L
             else emit_single TkGreater ''>'' L)
      else if ch = CHR ''<'' then
        Inr (if lx_peek L = Some (CHR ''='') then emit_double TkLessEqual ''<='' L
             else emit_single TkLess ''<'' L)
      else if ch = CHR ''('' then Inr (emit_single TkLeftParen ''('' (open_delim L))
      else if ch = CHR '')'' then Inr (emit_single TkRightParen '')'' (close_delim L))
      else if ch = CHR ''['' then Inr (emit_single TkLeftBracket ''['' (open_delim L))
      else if ch = CHR '']'' then Inr (emit_single TkRightBracket '']'' (close_delim L))
      else if ch = CHR ''{'' then Inr (emit_single TkLeftBrace ''{'' (open_delim L))
      else if ch = CHR ''}'' then Inr (emit_single TkRightBrace ''}'' (close_delim L))
      else if ch = CHR '','' then Inr (emit_single TkComma '','' L)
      else if ch = CHR ''.'' then Inr (emit_single TkDot ''.'' L)
      else if ch = CHR '':'' then Inr (emit_single TkColon '':'' L)
      else if is_ascii_digit ch then read_number L
      else if is_ascii_alphabetic ch \<or> ch = CHR ''_'' then Inr (read_identifier L)
      else unexpected)"

text \<open>One turn of the loop. The indentation pass may consume the rest of the source; the read
  of the current character that follows it is then out of bounds.\<close>

definition lex_step :: "lexer \<Rightarrow> lex_failure + lexer" where
  "lex_step L =
     rbind (if lx_at_line_start L
            then rbind (handle_indentation L) (\<lambda>L1. Inr (L1\<lparr>lx_at_line_start := False\<rparr>))
            else Inr L) (\<lambda>L1.
       if lx_is_at_end L1 then Inl LexPanic else lex_char L1)"


declare skip_spaces.simps [simp del] pop_indents.simps [simp del] skip_comment.simps [simp del]
  read_string_loop.simps [simp del] read_number_loop.simps [simp del] skip_ident.simps [simp del]

subsection \<open>The cursor only moves forward\<close>

text \<open>\<open>moved L L'\<close>: the two states differ in the cursor only, which has not moved back.\<close>

definition moved :: "lexer \<Rightarrow> lexer \<Rightarrow> bool" where
  "moved L L' \<longleftrightarrow> (\<exists>p c. L' = L\<lparr>lx_pos := p, lx_column := c\<rparr> \<and> lx_pos L \<le> p)"

lemma moved_refl [simp, intro]: "moved L L"
  unfolding moved_def by (rule exI [of _ "lx_pos L"], rule exI [of _ "lx_column L"]) simp

lemma moved_trans [trans]: "moved A B \<Longrightarrow> moved B C \<Longrightarrow> moved A C"
  unfolding moved_def by fastforce

lemma moved_advance [simp, intro]: "moved L (lx_advance L)"
  unfolding moved_def lx_advance_def by auto

lemma movedD:
  assumes "moved L L'"
  shows "lx_source L' = lx_source L" and "lx_tokens L' = lx_tokens L"
    and "lx_line L' = lx_line L" and "lx_indent_stack L' = lx_indent_stack L"
    and "lx_at_line_start L' = lx_at_line_start L"
    and "lx_nesting_depth L' = lx_nesting_depth L" and "lx_pos L \<le> lx_pos L'"
  using assms by (auto simp: moved_def)

lemma skip_spaces_moved: "moved L (snd (skip_spaces n L))"
proof (induction n L rule: skip_spaces.induct)
  case (1 n L)
  show ?case
    using 1 moved_trans [OF moved_advance] by (subst skip_spaces.simps) auto
qed

lemma skip_comment_moved: "moved L (skip_comment L)"
proof (induction L rule: skip_comment.induct)
  case (1 L)
  show ?case
    using 1 moved_trans [OF moved_advance] by (subst skip_comment.simps) auto
qed

lemma skip_ident_moved: "moved L (skip_ident L)"
proof (induction L rule: skip_ident.induct)
  case (1 L)
  show ?case
    using 1 moved_trans [OF moved_advance] by (subst skip_ident.simps) auto
qed

lemma read_string_loop_moved: "read_string_loop v l c L = Inr (w, L') \<Longrightarrow> moved L L'"
proof (induction v l c L rule: read_string_loop.induct)
  case (1 v l c L)
  note unfold = read_string_loop.simps [of v l c L]
  have adv: "moved (lx_advance L) L' \<Longrightarrow> moved L L'"
    "moved (lx_advance (lx_advance L)) L' \<Longrightarrow> moved L L'"
    using moved_trans moved_advance by blast+
  show ?case
    using "1.prems" "1.IH" unfolding unfold by (auto simp: Let_def split: if_splits dest: adv)
qed

lemma read_number_loop_moved: "read_number_loop s c d L = Inr (d', L') \<Longrightarrow> moved L L'"
proof (induction s c d L rule: read_number_loop.induct)
  case (1 s c d L)
  note unfold = read_number_loop.simps [of s c d L]
  have adv: "moved (lx_advance L) L' \<Longrightarrow> moved L L'"
    using moved_trans moved_advance by blast
  show ?case
    using "1.prems" "1.IH" unfolding unfold
    by (auto split: if_splits option.splits dest: adv)
qed

text \<open>The loops that start on a character they accept move the cursor.\<close>

lemma skip_comment_progress:
  "\<not> lx_is_at_end L \<Longrightarrow> lx_current L \<noteq> LF \<Longrightarrow> lx_pos L < lx_pos (skip_comment L)"
  using movedD(7) [OF skip_comment_moved, of "lx_advance L"]
  by (subst skip_comment.simps) (simp add: lx_advance_def)

lemma skip_ident_progress:
  "\<not> lx_is_at_end L \<Longrightarrow> ident_char (lx_current L) \<Longrightarrow> lx_pos L < lx_pos (skip_ident L)"
  using movedD(7) [OF skip_ident_moved, of "lx_advance L"]
  by (subst skip_ident.simps) (simp add: lx_advance_def)

lemma read_number_loop_progress:
  assumes "\<not> lx_is_at_end L" and "is_ascii_digit (lx_current L)"
    and "read_number_loop s c d L = Inr (d', L')"
  shows "lx_pos L < lx_pos L'"
proof -
  have "lx_current L \<noteq> CHR ''.''"
    using assms(2) by (auto simp: is_ascii_digit_def)
  then have "read_number_loop s c d (lx_advance L) = Inr (d', L')"
    using assms by (simp add: read_number_loop.simps [of s c d L])
  from movedD(7) [OF read_number_loop_moved [OF this]] show ?thesis
    by (simp add: lx_advance_def)
qed


subsection \<open>Every turn of the main loop consumes input\<close>

lemmas emit_defs = emit_single_def emit_double_def emit_triple_def push_token_def lx_advance_def
  open_delim_def close_delim_def Let_def

lemma read_string_progress:
  assumes "read_string L = Inr L'"
  shows "lx_source L' = lx_source L \<and> lx_pos L < lx_pos L'"
proof -
  obtain v L1 where "read_string_loop [] (lx_line L) (lx_column L) (lx_advance L) = Inr (v, L1)"
    and L': "L' = push_token (token_new (TkStringLiteral v) (lx_line L) (lx_column L)
      ([DQ] @ v @ [DQ])) (lx_advance L1)"
    using assms by (auto simp: read_string_def split: if_splits)
  from movedD [OF read_string_loop_moved [OF this(1)]] show ?thesis
    by (simp add: L' push_token_def lx_advance_def)
qed

lemma read_number_progress:
  assumes "\<not> lx_is_at_end L" and "is_ascii_digit (lx_current L)" and "read_number L = Inr L'"
  shows "lx_source L' = lx_source L \<and> lx_pos L < lx_pos L'"
proof -
  obtain d L1 where r: "read_number_loop (lx_pos L) (lx_column L) False L = Inr (d, L1)"
    and L': "\<exists>t. L' = push_token t L1"
    using assms(3)
    by (auto simp: read_number_def Let_def split: if_splits option.splits)
  from movedD [OF read_number_loop_moved [OF r]] read_number_loop_progress [OF assms(1,2) r] L'
  show ?thesis by (auto simp: push_token_def)
qed

lemma read_identifier_progress:
  assumes "\<not> lx_is_at_end L" and "ident_char (lx_current L)"
  shows "lx_source (read_identifier L) = lx_source L \<and> lx_pos L < lx_pos (read_identifier L)"
  using movedD [OF skip_ident_moved, of L] skip_ident_progress [OF assms]
  by (simp add: read_identifier_def push_token_def Let_def)

lemma handle_newline_progress:
  "lx_source (handle_newline L) = lx_source L \<and> lx_pos L < lx_pos (handle_newline L)"
  by (simp add: handle_newline_def next_line_def push_token_def Let_def)

lemma lex_char_progress:
  assumes "\<not> lx_is_at_end L" and "lex_char L = Inr L'"
  shows "lx_source L' = lx_source L \<and> lx_pos L < lx_pos L'"
proof -
  have comment: "lx_current L = CHR ''#'' \<Longrightarrow>
      lx_source (skip_comment L) = lx_source L \<and> lx_pos L < lx_pos (skip_comment L)"
    using movedD(1) [OF skip_comment_moved] skip_comment_progress [OF assms(1)] by simp
  have ident: "is_ascii_alphabetic (lx_current L) \<or> lx_current L = CHR ''_'' \<Longrightarrow>
      lx_source (read_identifier L) = lx_source L \<and> lx_pos L < lx_pos (read_identifier L)"
    using read_identifier_progress [OF assms(1)]
    by (auto simp: ident_char_def is_ascii_alphanumeric_def)
  show ?thesis
    using assms(2) comment ident read_number_progress [OF assms(1), of L']
      read_string_progress [of L L'] handle_newline_progress [of L]
    unfolding lex_char_def Let_def [of "lx_current L"]
    by (auto simp: emit_defs split: if_splits)
qed

lemma pop_indents_frame:
  "lx_source (pop_indents n L) = lx_source L \<and> lx_pos (pop_indents n L) = lx_pos L"
proof (induction n L rule: pop_indents.induct)
  case (1 n L)
  then show ?case by (subst (1 2) pop_indents.simps) (auto simp: push_token_def)
qed

lemma handle_indentation_cases:
  assumes "handle_indentation L = Inr L'"
  obtains (same) L1 where "moved L L1" and "L' = L1"
    | (deeper) L1 n where "moved L L1" and "top_indent (lx_indent_stack L1) < n"
        and "L' = push_token (token_new TkIndent (lx_line L1) 1 [])
                   (L1\<lparr>lx_indent_stack := lx_indent_stack L1 @ [n]\<rparr>)"
    | (shallower) L1 n where "moved L L1" and "n < top_indent (lx_indent_stack L1)"
        and "L' = pop_indents n L1" and "top_indent (lx_indent_stack L') = n"
proof -
  obtain n L1 where sk: "skip_spaces 0 L = (n, L1)" by fastforce
  with skip_spaces_moved [of L 0] have m: "moved L L1" by simp
  let ?top = "top_indent (lx_indent_stack L1)"
  let ?blank = "lx_is_at_end L1 \<or> lx_current L1 = LF \<or> lx_current L1 = CHR ''#''"
  consider "?blank \<or> n = ?top" | "\<not> ?blank" "?top < n" | "\<not> ?blank" "n < ?top" by fastforce
  then show thesis
  proof cases
    case 1
    with assms sk have "L' = L1" by (auto simp: handle_indentation_def Let_def split: if_splits)
    with m show thesis by (rule same)
  next
    case 2
    from m 2(2) show thesis
      by (rule deeper) (use assms sk 2 in \<open>simp add: handle_indentation_def\<close>)
  next
    case 3
    with assms sk have "L' = pop_indents n L1 \<and> top_indent (lx_indent_stack L') = n"
      by (auto simp: handle_indentation_def Let_def split: if_splits)
    with m 3(2) show thesis using shallower [of L1 n] by blast
  qed
qed

lemma handle_indentation_frame:
  assumes "handle_indentation L = Inr L'"
  shows "lx_source L' = lx_source L \<and> lx_pos L \<le> lx_pos L'"
  using assms
proof (cases rule: handle_indentation_cases)
  case (shallower L1 n)
  then show ?thesis using movedD(1,7) [of L L1] pop_indents_frame [of n L1] by simp
qed (auto simp: push_token_def dest: movedD)

lemma lex_step_progress:
  assumes "lex_step L = Inr L'"
  shows "lx_source L' = lx_source L \<and> lx_pos L < lx_pos L'"
proof (cases "lx_at_line_start L")
  case True
  then obtain L1 where L1: "handle_indentation L = Inr L1"
    and ne: "\<not> lx_is_at_end (L1\<lparr>lx_at_line_start := False\<rparr>)"
    and L': "lex_char (L1\<lparr>lx_at_line_start := False\<rparr>) = Inr L'"
    using assms by (auto simp: lex_step_def split: if_splits)
  from lex_char_progress [OF ne L'] handle_indentation_frame [OF L1] show ?thesis by simp
next
  case False
  with assms have "\<not> lx_is_at_end L" "lex_char L = Inr L'"
    by (auto simp: lex_step_def split: if_splits)
  then show ?thesis by (rule lex_char_progress)
qed

lemma lex_step_measure:
  assumes "\<not> lx_is_at_end L" and "lex_step L = Inr L'"
  shows "length (lx_source L') - lx_pos L' < length (lx_source L) - lx_pos L"
  using lex_step_progress [OF assms(2)] assms(1) by (auto simp: lx_is_at_end_def)

function lex_loop :: "lexer \<Rightarrow> lex_failure + lexer" where
  "lex_loop L = (if lx_is_at_end L then Inr L else rbind (lex_step L) (\<lambda>L'. lex_loop L'))"
  by pat_completeness auto
termination
  by (relation "measure (\<lambda>L. length (lx_source L) - lx_pos L)") (auto dest: lex_step_measure)

declare lex_loop.simps [simp del]

text \<open>The dedents still open at the end of the file.\<close>

function close_indents :: "lexer \<Rightarrow> lexer" where
  "close_indents L =
     (if 1 < length (lx_indent_stack L)
      then close_indents
             (push_token (token_new TkDedent (lx_line L) (lx_column L) [])
               (L\<lparr>lx_indent_stack := butlast (lx_indent_stack L)\<rparr>))
      else L)"
  by pat_completeness auto
termination
  by (relation "measure (\<lambda>L. length (lx_indent_stack L))") (auto simp: push_token_def)

declare close_indents.simps [simp del]

definition tokenize :: "string \<Rightarrow> lex_failure + token list" where
  "tokenize src =
     rbind (lex_loop (lexer_new src)) (\<lambda>L.
       let L' = close_indents L
       in Inr (lx_tokens (push_token (token_eof (lx_line L') (lx_column L')) L')))"

end
