(* ===== verification/Lexer_Props.thy ===== *)
theory Lexer_Props
  imports Lexer
begin

text \<open>
  Properties of the tokenizer. The locale \<open>lexer_inv\<close> is the contract of an invariant of the
  lexer's state: what each primitive change of state the code makes has to keep. Its lemmas
  carry such an invariant through every handler, the main loop and the end of the file; the
  interpretations below instantiate it for the layout (indentation), the lexemes, the line
  numbers and the delimiters.
\<close>

subsection \<open>What a token says about its lexeme\<close>

fun operator_symbol :: "operator_token \<Rightarrow> string option" where
  "operator_symbol OpPlus = Some ''+''"
| "operator_symbol OpMinus = Some ''-''"
| "operator_symbol OpStar = Some ''*''"
| "operator_symbol OpSlash = Some ''/''"
| "operator_symbol OpPercent = Some ''%''"
| "operator_symbol OpEqual = Some ''==''"
| "operator_symbol OpNotEqual = Some ''!=''"
| "operator_symbol OpGreater = Some ''>''"
| "operator_symbol OpLess = Some ''<''"
| "operator_symbol OpGreaterEqual = Some ''>=''"
| "operator_symbol OpLessEqual = Some ''<=''"
| "operator_symbol OpAssign = Some ''=''"
| "operator_symbol OpPipeline = Some ''>>''"
| "operator_symbol OpBroadcast = Some ''*>>''"
| "operator_symbol OpArrow = Some ''->''"
| "operator_symbol OpFatArrow = Some ''=>''"
| "operator_symbol _ = None"

fun delimiter_symbol :: "delimiter_token \<Rightarrow> string" where
  "delimiter_symbol DeLeftParen = ''(''"
| "delimiter_symbol DeRightParen = '')''"
| "delimiter_symbol DeLeftBracket = ''[''"
| "delimiter_symbol DeRightBracket = '']''"
| "delimiter_symbol DeLeftBrace = ''{''"
| "delimiter_symbol DeRightBrace = ''}''"
| "delimiter_symbol DeComma = '',''"
| "delimiter_symbol DeDot = ''.''"
| "delimiter_symbol DeColon = '':''"

definition word_lexeme :: "string \<Rightarrow> bool" where
  "word_lexeme w \<longleftrightarrow> w \<noteq> [] \<and> list_all ident_char w \<and>
     (is_ascii_alphabetic (hd w) \<or> hd w = CHR ''_'')"

text \<open>The kind of a token is determined by the text it was read from.\<close>

fun kind_of_lexeme :: "token_kind \<Rightarrow> string \<Rightarrow> bool" where
  "kind_of_lexeme (TkInteger n) x \<longleftrightarrow> parse_i64_digits x = Some n"
| "kind_of_lexeme (TkFloat r) x \<longleftrightarrow> parse_f64_literal x = Some r"
| "kind_of_lexeme (TkStringLiteral v) x \<longleftrightarrow> x = DQ # v @ [DQ]"
| "kind_of_lexeme (TkIdentifier w) x \<longleftrightarrow> x = w \<and> word_lexeme w \<and> keyword_lookup w = None"
| "kind_of_lexeme (TkDelimiter d) x \<longleftrightarrow> x = delimiter_symbol d"
| "kind_of_lexeme TkNewline x \<longleftrightarrow> x = [BSL, CHR ''n'']"
| "kind_of_lexeme TkIndent x \<longleftrightarrow> x = []"
| "kind_of_lexeme TkDedent x \<longleftrightarrow> x = []"
| "kind_of_lexeme TkEof x \<longleftrightarrow> False"
| "kind_of_lexeme (TkOperator p) x \<longleftrightarrow>
     (case operator_symbol p of Some y \<Rightarrow> x = y | None \<Rightarrow> keyword_lookup x = Some (TkOperator p))"
| "kind_of_lexeme k x \<longleftrightarrow> keyword_lookup x = Some k"

definition lexed_token :: "token \<Rightarrow> bool" where
  "lexed_token t \<longleftrightarrow> kind_of_lexeme (tk_kind t) (tk_lexeme t)"

abbreviation layout_kinds :: "token_kind set" where
  "layout_kinds \<equiv> {TkNewline, TkIndent, TkDedent}"

fun delim_depth :: "token_kind \<Rightarrow> nat \<Rightarrow> nat" where
  "delim_depth (TkDelimiter d) n =
     (if d \<in> {DeLeftParen, DeLeftBracket, DeLeftBrace} then n + 1
      else if d \<in> {DeRightParen, DeRightBracket, DeRightBrace} then n - 1 else n)"
| "delim_depth _ n = n"

definition track_depth :: "token_kind \<Rightarrow> lexer \<Rightarrow> lexer" where
  "track_depth k L = L\<lparr>lx_nesting_depth := delim_depth k (lx_nesting_depth L)\<rparr>"

subsection \<open>The contract of an invariant\<close>

locale lexer_inv =
  fixes I :: "lexer \<Rightarrow> bool"
  assumes I_moved: "I L \<Longrightarrow> moved L L' \<Longrightarrow> I L'"
    and I_flag: "I L \<Longrightarrow> I (L\<lparr>lx_at_line_start := False\<rparr>)"
    and I_next_line: "I L \<Longrightarrow> (b \<longrightarrow> lx_nesting_depth L = 0) \<Longrightarrow> I (next_line b L)"
    and I_token: "I L \<Longrightarrow> \<not> lx_at_line_start L \<Longrightarrow> lexed_token t \<Longrightarrow> tk_line t = lx_line L \<Longrightarrow> tk_kind t \<notin> layout_kinds
      \<Longrightarrow> I (push_token t (track_depth (tk_kind t) L))"
    and I_newline: "I L \<Longrightarrow> lx_nesting_depth L = 0 \<Longrightarrow> \<not> suppress_rev (rev (lx_tokens L))
      \<Longrightarrow> I (push_token (token_new TkNewline (lx_line L) c [BSL, CHR ''n'']) L)"
    and I_unnewline: "I L \<Longrightarrow> I (L\<lparr>lx_tokens := remove_last_newline (lx_tokens L)\<rparr>)"
    and I_indent: "I L \<Longrightarrow> lx_at_line_start L \<Longrightarrow> top_indent (lx_indent_stack L) < n
      \<Longrightarrow> I (push_token (token_new TkIndent (lx_line L) 1 [])
              (L\<lparr>lx_indent_stack := lx_indent_stack L @ [n]\<rparr>))"
    and I_dedent: "I L \<Longrightarrow> 1 < length (lx_indent_stack L)
      \<Longrightarrow> I (push_token (token_new TkDedent (lx_line L) c [])
              (L\<lparr>lx_indent_stack := butlast (lx_indent_stack L)\<rparr>))"
begin

lemma advance_inv: "I L \<Longrightarrow> I (lx_advance L)"
  using I_moved moved_advance by blast

lemma symbol_inv:
  assumes "I L" and "\<not> lx_at_line_start L" and "kind_of_lexeme k x" and "k \<notin> layout_kinds"
  shows "I (push_token (token_new k (lx_line L) c x) (track_depth k L))"
  using I_token [OF assms(1,2), of "token_new k (lx_line L) c x"] assms(3,4)
  by (simp add: lexed_token_def token_new_def)

lemma emit_single_inv:
  assumes "I L" and "\<not> lx_at_line_start L" and "kind_of_lexeme k x" and "k \<notin> layout_kinds"
    and "lx_nesting_depth L' = delim_depth k (lx_nesting_depth L)"
    and "L' = L\<lparr>lx_nesting_depth := lx_nesting_depth L'\<rparr>"
  shows "I (emit_single k x L')"
proof -
  have "L' = track_depth k L" using assms(5,6) by (simp add: track_depth_def)
  moreover have "lx_line (track_depth k L) = lx_line L"
    "lx_column (track_depth k L) = lx_column L" by (simp_all add: track_depth_def)
  ultimately show ?thesis
    using advance_inv [OF symbol_inv [OF assms(1-4)]] by (simp add: emit_single_def)
qed

lemma emit_single_plain_inv:
  assumes "I L" and "\<not> lx_at_line_start L" and "kind_of_lexeme k x" and "k \<notin> layout_kinds"
    and "\<And>n. delim_depth k n = n"
  shows "I (emit_single k x L)"
  using emit_single_inv [OF assms(1-4), of L] assms(5) by simp

lemma plain_token_inv:
  assumes "I L" and "\<not> lx_at_line_start L" and "kind_of_lexeme k x" and "k \<notin> layout_kinds"
    and "\<And>n. delim_depth k n = n" and "l = lx_line L"
  shows "I (push_token (token_new k l c x) L)"
  using symbol_inv [OF assms(1-4)] assms(5,6) by (simp add: track_depth_def)

lemma emit_double_inv:
  assumes "I L" and "\<not> lx_at_line_start L" and "kind_of_lexeme k x" and "k \<notin> layout_kinds" and "\<And>n. delim_depth k n = n"
  shows "I (emit_double k x L)"
proof -
  let ?L1 = "if k = TkPipeline \<or> k = TkBroadcast
    then L\<lparr>lx_tokens := remove_last_newline (lx_tokens L)\<rparr> else L"
  have "I ?L1" using assms(1) I_unnewline by simp
  moreover have "lx_line L = lx_line ?L1" "\<not> lx_at_line_start ?L1" using assms(2) by simp_all
  ultimately show ?thesis
    unfolding emit_double_def Let_def by (intro advance_inv plain_token_inv [OF _ _ assms(3-5)])
qed

lemma emit_triple_inv:
  assumes "I L" and "\<not> lx_at_line_start L" and "kind_of_lexeme k x" and "k \<notin> layout_kinds" and "\<And>n. delim_depth k n = n"
  shows "I (emit_triple k x L)"
  unfolding emit_triple_def
  by (intro advance_inv plain_token_inv [OF assms(1-5)]) simp

lemma handle_newline_inv: "I L \<Longrightarrow> I (handle_newline L)"
  by (auto simp: handle_newline_def Let_def should_suppress_newline_def push_token_def
      intro!: I_next_line I_newline [unfolded push_token_def])

lemma pop_indents_inv: "I L \<Longrightarrow> I (pop_indents n L)"
proof (induction n L rule: pop_indents.induct)
  case (1 n L)
  then show ?case using I_dedent [of L 1] by (subst pop_indents.simps) auto
qed

lemma close_indents_inv: "I L \<Longrightarrow> I (close_indents L)"
proof (induction L rule: close_indents.induct)
  case (1 L)
  then show ?case using I_dedent [of L "lx_column L"] by (subst close_indents.simps) auto
qed

lemma handle_indentation_inv:
  assumes "I L" and "lx_at_line_start L" and "handle_indentation L = Inr L'"
  shows "I L'"
  using assms(3)
proof (cases rule: handle_indentation_cases)
  case (deeper L1 n)
  then show ?thesis using I_indent [of L1 n] I_moved [OF assms(1)] assms(2) movedD(5) by auto
qed (use assms(1) I_moved pop_indents_inv in blast)+

end

subsection \<open>What the readers push\<close>

lemma read_string_pushes:
  assumes "read_string L = Inr L'"
  obtains v L1 where "moved L L1"
    and "L' = push_token (token_new (TkStringLiteral v) (lx_line L) (lx_column L) (DQ # v @ [DQ])) L1"
proof -
  obtain v L1 where r: "read_string_loop [] (lx_line L) (lx_column L) (lx_advance L) = Inr (v, L1)"
    and L': "L' = push_token (token_new (TkStringLiteral v) (lx_line L) (lx_column L)
      ([DQ] @ v @ [DQ])) (lx_advance L1)"
    using assms by (auto simp: read_string_def split: if_splits)
  have "moved L (lx_advance L1)"
    using read_string_loop_moved [OF r] moved_trans moved_advance by blast
  with L' show thesis by (intro that [of "lx_advance L1" v]) simp_all
qed

lemma read_number_pushes:
  assumes "read_number L = Inr L'"
  obtains k L1 x where "moved L L1" and "kind_of_lexeme k x" and "\<forall>n. delim_depth k n = n"
    and "k \<notin> layout_kinds" and "L' = push_token (token_new k (lx_line L1) (lx_column L) x) L1"
proof -
  obtain d L1 where r: "read_number_loop (lx_pos L) (lx_column L) False L = Inr (d, L1)"
    using assms by (auto simp: read_number_def)
  let ?x = "lx_slice (lx_pos L) (lx_pos L1) L1"
  note def = read_number_def [of L, unfolded r rbind_simps prod.case Let_def]
  have m: "moved L L1" using read_number_loop_moved [OF r] .
  show thesis
  proof (cases d)
    case True
    with assms def obtain f where "parse_f64_literal ?x = Some f"
      "L' = push_token (token_new (TkFloat f) (lx_line L1) (lx_column L) ?x) L1"
      by (auto split: option.splits)
    then show thesis by (intro that [OF m, of "TkFloat f"]) simp_all
  next
    case False
    with assms def obtain n where "parse_i64_digits ?x = Some n"
      "L' = push_token (token_new (TkInteger n) (lx_line L1) (lx_column L) ?x) L1"
      by (auto split: option.splits)
    then show thesis by (intro that [OF m, of "TkInteger n"]) simp_all
  qed
qed

lemma skip_ident_slice:
  "lx_pos L \<le> length (lx_source L) \<Longrightarrow>
   lx_slice (lx_pos L) (lx_pos (skip_ident L)) L = takeWhile ident_char (drop (lx_pos L) (lx_source L))"
proof (induction L rule: skip_ident.induct)
  case (1 L)
  show ?case
  proof (cases "\<not> lx_is_at_end L \<and> ident_char (lx_current L)")
    case True
    then have lt: "lx_pos L < length (lx_source L)" by (simp add: lx_is_at_end_def)
    let ?L = "lx_advance L"
    have IH: "lx_slice (lx_pos ?L) (lx_pos (skip_ident ?L)) ?L =
        takeWhile ident_char (drop (lx_pos ?L) (lx_source ?L))"
      using 1 True lt by (simp add: lx_advance_def)
    have "lx_pos ?L \<le> lx_pos (skip_ident ?L)" by (rule movedD(7) [OF skip_ident_moved])
    then have le: "Suc (lx_pos L) \<le> lx_pos (skip_ident ?L)" by (simp add: lx_advance_def)
    obtain m where m: "lx_pos (skip_ident ?L) = Suc (lx_pos L) + m"
      using le le_Suc_ex by blast
    have "drop (lx_pos L) (lx_source L) = lx_current L # drop (Suc (lx_pos L)) (lx_source L)"
      using lt by (simp add: lx_current_def Cons_nth_drop_Suc)
    with IH m True show ?thesis
      by (subst skip_ident.simps) (simp add: lx_slice_def lx_advance_def)
  next
    case False
    then have sk: "skip_ident L = L" by (subst skip_ident.simps) auto
    show ?thesis
    proof (cases "lx_pos L < length (lx_source L)")
      case True
      then have "drop (lx_pos L) (lx_source L) = lx_current L # drop (Suc (lx_pos L)) (lx_source L)"
        by (simp add: lx_current_def Cons_nth_drop_Suc)
      with False True sk show ?thesis by (simp add: lx_slice_def lx_is_at_end_def)
    qed (use 1 sk in \<open>simp add: lx_slice_def\<close>)
  qed
qed

lemma kind_of_word: "word_lexeme w \<Longrightarrow> kind_of_lexeme (word_token_kind w) w"
proof (cases "keyword_lookup w")
  case (Some k)
  from keyword_lookup_word_kind [OF this] have "word_kind k" .
  with Some show ?thesis
    by (cases k) (auto simp: word_token_kind_def split: option.splits)
qed (simp add: word_token_kind_def)

lemma word_kind_plain: "word_kind k \<Longrightarrow> delim_depth k n = n \<and> k \<notin> layout_kinds"
  by (cases k) simp_all

lemma word_token_kind_plain:
  "delim_depth (word_token_kind w) n = n" "word_token_kind w \<notin> layout_kinds"
  using word_kind_plain [OF keyword_lookup_word_kind, of w]
  by (cases "keyword_lookup w"; simp add: word_token_kind_def)+

lemma read_identifier_pushes:
  assumes "\<not> lx_is_at_end L" and "is_ascii_alphabetic (lx_current L) \<or> lx_current L = CHR ''_''"
  obtains w L1 where "moved L L1" and "word_lexeme w"
    and "read_identifier L = push_token (token_new (word_token_kind w) (lx_line L1) (lx_column L) w) L1"
proof -
  let ?w = "takeWhile ident_char (drop (lx_pos L) (lx_source L))"
  have lt: "lx_pos L < length (lx_source L)" using assms(1) by (simp add: lx_is_at_end_def)
  then have cons: "drop (lx_pos L) (lx_source L) = lx_current L # drop (Suc (lx_pos L)) (lx_source L)"
    by (simp add: lx_current_def Cons_nth_drop_Suc)
  have "ident_char (lx_current L)"
    using assms(2) by (auto simp: ident_char_def is_ascii_alphanumeric_def)
  with cons assms(2) have w: "word_lexeme ?w"
    by (auto simp: word_lexeme_def list_all_iff dest: set_takeWhileD)
  have "lx_slice (lx_pos L) (lx_pos (skip_ident L)) (skip_ident L) = ?w"
    using skip_ident_slice [of L] lt movedD(1) [OF skip_ident_moved] by (simp add: lx_slice_def)
  with w skip_ident_moved show thesis
    by (intro that [of "skip_ident L" ?w]) (simp_all add: read_identifier_def Let_def)
qed

subsection \<open>The main loop keeps an invariant\<close>

context lexer_inv
begin

lemma read_string_inv:
  assumes "I L" and "\<not> lx_at_line_start L" and "read_string L = Inr L'"
  shows "I L'"
  using assms(3)
proof (rule read_string_pushes)
  fix v L1
  assume m: "moved L L1" and L': "L' = push_token
    (token_new (TkStringLiteral v) (lx_line L) (lx_column L) (DQ # v @ [DQ])) L1"
  show "I L'"
    unfolding L' by (rule plain_token_inv [OF I_moved [OF assms(1) m]])
      (simp_all add: movedD(3,5) [OF m] assms(2))
qed

lemma read_number_inv:
  assumes "I L" and "\<not> lx_at_line_start L" and "read_number L = Inr L'"
  shows "I L'"
  using assms(3)
proof (rule read_number_pushes)
  fix k L1 x
  assume m: "moved L L1" and k: "kind_of_lexeme k x" "\<forall>n. delim_depth k n = n" "k \<notin> layout_kinds"
    and L': "L' = push_token (token_new k (lx_line L1) (lx_column L) x) L1"
  show "I L'"
    unfolding L' by (rule plain_token_inv [OF I_moved [OF assms(1) m] _ k(1,3)])
      (simp_all add: k(2) movedD(5) [OF m] assms(2))
qed

lemma read_identifier_inv:
  assumes "I L" and "\<not> lx_at_line_start L" and "\<not> lx_is_at_end L"
    and "is_ascii_alphabetic (lx_current L) \<or> lx_current L = CHR ''_''"
  shows "I (read_identifier L)"
proof -
  obtain w L1 where m: "moved L L1" and w: "word_lexeme w" and r: "read_identifier L =
      push_token (token_new (word_token_kind w) (lx_line L1) (lx_column L) w) L1"
    using read_identifier_pushes [OF assms(3,4)] .
  have "I L1" "\<not> lx_at_line_start L1"
    using I_moved [OF assms(1) m] movedD(5) [OF m] assms(2) by simp_all
  then show ?thesis
    unfolding r
    by (rule plain_token_inv [OF _ _ kind_of_word [OF w] word_token_kind_plain(2,1)]) simp
qed

lemma lex_char_inv:
  assumes "I L" and "\<not> lx_at_line_start L" and "\<not> lx_is_at_end L" and "lex_char L = Inr L'"
  shows "I L'"
proof -
  have delim: "I (emit_single k x (open_delim L))"
    if "kind_of_lexeme k x" "k \<notin> layout_kinds" "\<And>n. delim_depth k n = n + 1" for k x
    by (rule emit_single_inv [OF assms(1,2) that(1,2)]) (simp_all add: that(3) open_delim_def)
  have undelim: "I (emit_single k x (close_delim L))"
    if "kind_of_lexeme k x" "k \<notin> layout_kinds" "\<And>n. delim_depth k n = n - 1" for k x
    by (rule emit_single_inv [OF assms(1,2) that(1,2)]) (simp_all add: that(3) close_delim_def)
  let ?ok = "\<lambda>r. \<forall>L'. r = Inr L' \<longrightarrow> I L'"
  have ok_if: "?ok (if b then r else r') \<longleftrightarrow> (b \<longrightarrow> ?ok r) \<and> (\<not> b \<longrightarrow> ?ok r')" for b r r' by simp
  have ok_Inr: "?ok (Inr x) \<longleftrightarrow> I x" "?ok (Inl e)" for x e by auto
  have "?ok (lex_char L)"
    unfolding lex_char_def Let_def ok_if ok_Inr
    using I_moved [OF assms(1) skip_comment_moved] advance_inv [OF assms(1)]
      handle_newline_inv [OF assms(1)] read_string_inv [OF assms(1,2)]
      read_number_inv [OF assms(1,2)] read_identifier_inv [OF assms(1-3)]
    by (simp add: emit_single_plain_inv emit_double_inv emit_triple_inv delim undelim assms(1,2))
  with assms(4) show ?thesis by simp
qed

lemma lex_step_inv:
  assumes "I L" and "lex_step L = Inr L'"
  shows "I L'"
proof (cases "lx_at_line_start L")
  case True
  then obtain L1 where "handle_indentation L = Inr L1"
    and ne: "\<not> lx_is_at_end (L1\<lparr>lx_at_line_start := False\<rparr>)"
    and L': "lex_char (L1\<lparr>lx_at_line_start := False\<rparr>) = Inr L'"
    using assms by (auto simp: lex_step_def split: if_splits)
  then have "I (L1\<lparr>lx_at_line_start := False\<rparr>)"
    using handle_indentation_inv [OF assms(1) True] I_flag by blast
  then show ?thesis using lex_char_inv ne L' by simp
next
  case False
  with assms show ?thesis using lex_char_inv by (auto simp: lex_step_def split: if_splits)
qed

lemma lex_loop_inv: "I L \<Longrightarrow> lex_loop L = Inr L' \<Longrightarrow> I L'"
proof (induction L rule: lex_loop.induct)
  case (1 L)
  from "1.prems"(2) show ?case
    by (subst (asm) lex_loop.simps)
      (use 1 lex_step_inv in \<open>auto split: if_splits\<close>)
qed

lemma lex_loop_at_end: "lex_loop L = Inr L' \<Longrightarrow> lx_is_at_end L'"
proof (induction L rule: lex_loop.induct)
  case (1 L)
  from "1.prems" show ?case
    by (subst (asm) lex_loop.simps) (use 1 in \<open>auto split: if_splits\<close>)
qed

lemma close_indents_stack: "length (lx_indent_stack (close_indents L)) \<le> 1"
proof (induction L rule: close_indents.induct)
  case (1 L)
  then show ?case by (subst close_indents.simps) auto
qed

text \<open>The tokens are those of a state with the invariant and no open block, then Eof.\<close>

lemma tokenize_inv:
  assumes "I (lexer_new src)" and "tokenize src = Inr ts"
  obtains L where "I L" and "length (lx_indent_stack L) \<le> 1"
    and "ts = lx_tokens L @ [token_eof (lx_line L) (lx_column L)]"
proof -
  obtain L1 where L1: "lex_loop (lexer_new src) = Inr L1"
    and ts: "ts = lx_tokens (close_indents L1) @
      [token_eof (lx_line (close_indents L1)) (lx_column (close_indents L1))]"
    using assms(2) by (auto simp: tokenize_def Let_def push_token_def)
  show thesis
    by (rule that [OF _ close_indents_stack ts]) (rule close_indents_inv [OF lex_loop_inv [OF assms(1) L1]])
qed

end

subsection \<open>Removing the newline before a continuation\<close>

lemma remove_last_newline_cases:
  obtains (same) "remove_last_newline ts = ts"
    | (removed) us t vs where "ts = us @ t # vs" and "tk_kind t = TkNewline"
        and "\<forall>v \<in> set vs. tk_kind v = TkIndent \<or> tk_kind v = TkDedent"
        and "remove_last_newline ts = us @ vs"
proof -
  have "remove_last_newline_rev rs = rs \<or>
    (\<exists>vs t us. rs = vs @ t # us \<and> tk_kind t = TkNewline \<and>
       (\<forall>v \<in> set vs. tk_kind v = TkIndent \<or> tk_kind v = TkDedent) \<and>
       remove_last_newline_rev rs = vs @ us)" (is "?P rs") for rs
  proof (induction rs)
    case (Cons t rs)
    show ?case
    proof (cases "tk_kind t = TkIndent \<or> tk_kind t = TkDedent")
      case True
      from Cons show ?thesis
      proof
        assume "remove_last_newline_rev rs = rs"
        then show ?thesis using True by simp
      next
        assume "\<exists>vs u us. rs = vs @ u # us \<and> tk_kind u = TkNewline \<and>
          (\<forall>v \<in> set vs. tk_kind v = TkIndent \<or> tk_kind v = TkDedent) \<and>
          remove_last_newline_rev rs = vs @ us"
        then obtain vs u us where "rs = vs @ u # us" "tk_kind u = TkNewline"
          "\<forall>v \<in> set vs. tk_kind v = TkIndent \<or> tk_kind v = TkDedent"
          "remove_last_newline_rev rs = vs @ us" by blast
        then show ?thesis
          using True by (intro disjI2 exI [of _ "t # vs"] exI [of _ u] exI [of _ us]) auto
      qed
    next
      case False
      then show ?thesis by (cases "tk_kind t = TkNewline") (auto intro: exI [of _ "[]"])
    qed
  qed simp
  from this [of "rev ts"] show thesis
  proof
    assume "remove_last_newline_rev (rev ts) = rev ts"
    then show thesis by (intro same) (simp add: remove_last_newline_def)
  next
    assume "\<exists>vs t us. rev ts = vs @ t # us \<and> tk_kind t = TkNewline \<and>
       (\<forall>v \<in> set vs. tk_kind v = TkIndent \<or> tk_kind v = TkDedent) \<and>
       remove_last_newline_rev (rev ts) = vs @ us"
    then obtain vs t us where r: "rev ts = vs @ t # us" "tk_kind t = TkNewline"
       "\<forall>v \<in> set vs. tk_kind v = TkIndent \<or> tk_kind v = TkDedent"
       "remove_last_newline_rev (rev ts) = vs @ us" by blast
    from r(1) have "ts = rev us @ t # rev vs" by (simp add: rev_swap)
    with r show thesis by (intro removed [of "rev us" t "rev vs"]) (auto simp: remove_last_newline_def)
  qed
qed

subsection \<open>Layout: the indentation stack and the Indent and Dedent tokens\<close>

text \<open>The block depth after a token list; \<open>None\<close> when a Dedent closes no block.\<close>

fun nest_run :: "nat \<Rightarrow> token_kind list \<Rightarrow> nat option" where
  "nest_run d [] = Some d"
| "nest_run d (k # ks) =
     (if k = TkIndent then nest_run (d + 1) ks
      else if k = TkDedent then (if d = 0 then None else nest_run (d - 1) ks)
      else nest_run d ks)"

lemma nest_run_append: "nest_run d (xs @ ys) = Option.bind (nest_run d xs) (\<lambda>d. nest_run d ys)"
  by (induction xs arbitrary: d) auto

lemma nest_run_remove_last_newline:
  "nest_run d (map tk_kind (remove_last_newline ts)) = nest_run d (map tk_kind ts)"
  by (cases ts rule: remove_last_newline_cases) (auto simp: nest_run_append)

definition layout_inv :: "lexer \<Rightarrow> bool" where
  "layout_inv L \<longleftrightarrow>
     lx_indent_stack L \<noteq> [] \<and> hd (lx_indent_stack L) = 0 \<and> sorted_wrt (<) (lx_indent_stack L) \<and>
     nest_run 0 (map tk_kind (lx_tokens L)) = Some (length (lx_indent_stack L) - 1)"

lemma sorted_wrt_less_top:
  "sorted_wrt (<) (xs :: nat list) \<Longrightarrow> last xs < n \<Longrightarrow> \<forall>x \<in> set xs. x < n"
  by (induction xs rule: rev_induct) (auto simp: sorted_wrt_append)

lemmas lexer_upd_simps = push_token_def track_depth_def next_line_def token_new_def moved_def

interpretation layout: lexer_inv layout_inv
proof
  fix L :: lexer and t :: token
  assume I: "layout_inv L" and t: "tk_kind t \<notin> layout_kinds"
  then show "layout_inv (push_token t (track_depth (tk_kind t) L))"
    by (simp add: layout_inv_def lexer_upd_simps nest_run_append)
next
  fix L :: lexer and n
  assume I: "layout_inv L" and n: "top_indent (lx_indent_stack L) < n"
  then have "\<forall>x \<in> set (lx_indent_stack L). x < n"
    using sorted_wrt_less_top [of "lx_indent_stack L" n] by (simp add: layout_inv_def top_indent_def)
  with I show "layout_inv (push_token (token_new TkIndent (lx_line L) 1 [])
      (L\<lparr>lx_indent_stack := lx_indent_stack L @ [n]\<rparr>))"
    by (simp add: layout_inv_def lexer_upd_simps nest_run_append sorted_wrt_append)
next
  fix L :: lexer and c
  assume I: "layout_inv L" and n: "1 < length (lx_indent_stack L)"
  obtain x y xs where st: "lx_indent_stack L = x # y # xs"
    using n by (cases "lx_indent_stack L"; cases "tl (lx_indent_stack L)") auto
  have "sorted_wrt (<) (butlast (lx_indent_stack L))"
    using I sorted_wrt_take [of "(<)" "lx_indent_stack L" "length (lx_indent_stack L) - 1"]
    by (simp add: layout_inv_def butlast_conv_take)
  with I st show "layout_inv (push_token (token_new TkDedent (lx_line L) c [])
      (L\<lparr>lx_indent_stack := butlast (lx_indent_stack L)\<rparr>))"
    by (simp add: layout_inv_def lexer_upd_simps nest_run_append)
qed (auto simp: layout_inv_def lexer_upd_simps nest_run_append nest_run_remove_last_newline)

subsection \<open>Lexemes and lines\<close>

definition lexed_inv :: "lexer \<Rightarrow> bool" where
  "lexed_inv L \<longleftrightarrow> list_all lexed_token (lx_tokens L)"

lemma set_remove_last_newline: "set (remove_last_newline ts) \<subseteq> set ts"
  by (cases ts rule: remove_last_newline_cases) auto

interpretation lexed: lexer_inv lexed_inv
  by unfold_locales
    (auto simp: lexed_inv_def lexer_upd_simps lexed_token_def list_all_iff
      dest: subsetD [OF set_remove_last_newline])

definition lines_inv :: "lexer \<Rightarrow> bool" where
  "lines_inv L \<longleftrightarrow> sorted (map tk_line (lx_tokens L)) \<and> 1 \<le> lx_line L \<and>
     (\<forall>t \<in> set (lx_tokens L). 1 \<le> tk_line t \<and> tk_line t \<le> lx_line L)"

lemma sorted_remove_last_newline:
  "sorted (map tk_line ts) \<Longrightarrow> sorted (map tk_line (remove_last_newline ts))"
  by (cases ts rule: remove_last_newline_cases) (auto simp: sorted_append)

interpretation lines: lexer_inv lines_inv
  by unfold_locales
    (auto simp: lines_inv_def lexer_upd_simps sorted_append sorted_remove_last_newline
      dest: subsetD [OF set_remove_last_newline])

subsection \<open>Delimiters: no line structure inside brackets\<close>

fun delim_run :: "nat \<Rightarrow> token_kind list \<Rightarrow> nat option" where
  "delim_run d [] = Some d"
| "delim_run d (k # ks) =
     (if (k = TkNewline \<or> k = TkIndent) \<and> d \<noteq> 0 then None else delim_run (delim_depth k d) ks)"

lemma delim_run_append: "delim_run d (xs @ ys) = Option.bind (delim_run d xs) (\<lambda>d. delim_run d ys)"
  by (induction xs arbitrary: d) auto

lemma delim_run_remove_last_newline:
  "delim_run d (map tk_kind ts) = Some e \<Longrightarrow> delim_run d (map tk_kind (remove_last_newline ts)) = Some e"
  by (cases ts rule: remove_last_newline_cases)
    (auto simp: delim_run_append bind_eq_Some_conv split: if_splits)

definition delim_inv :: "lexer \<Rightarrow> bool" where
  "delim_inv L \<longleftrightarrow> delim_run 0 (map tk_kind (lx_tokens L)) = Some (lx_nesting_depth L) \<and>
     (lx_at_line_start L \<longrightarrow> lx_nesting_depth L = 0)"

interpretation delim: lexer_inv delim_inv
proof
  fix L :: lexer and t :: token
  assume "delim_inv L" and "\<not> lx_at_line_start L" and "tk_kind t \<notin> layout_kinds"
  then show "delim_inv (push_token t (track_depth (tk_kind t) L))"
    by (cases "tk_kind t") (auto simp: delim_inv_def lexer_upd_simps delim_run_append)
qed (auto simp: delim_inv_def lexer_upd_simps delim_run_append intro: delim_run_remove_last_newline)

subsection \<open>Line endings\<close>

definition to_crlf :: "string \<Rightarrow> string" where
  "to_crlf s = concat (map (\<lambda>c. if c = LF then [CR, LF] else [c]) s)"

definition to_cr :: "string \<Rightarrow> string" where
  "to_cr s = map (\<lambda>c. if c = LF then CR else c) s"

lemma replace_crlf_Cons: "c \<noteq> CR \<Longrightarrow> replace_crlf (c # s) = c # replace_crlf s"
  by (cases s) auto

lemma replace_crlf_no_lf: "LF \<notin> set s \<Longrightarrow> replace_crlf s = s"
  by (induction s rule: replace_crlf.induct) auto

lemma replace_cr_id: "CR \<notin> set s \<Longrightarrow> replace_cr s = s"
  unfolding replace_cr_def by (rule map_idI) auto

lemma replace_crlf_to_crlf: "CR \<notin> set s \<Longrightarrow> replace_crlf (to_crlf s) = s"
  by (induction s) (auto simp: to_crlf_def replace_crlf_Cons)

lemma normalize_to_crlf: "CR \<notin> set s \<Longrightarrow> normalize_newlines (to_crlf s) = s"
  by (simp add: normalize_newlines_def replace_crlf_to_crlf replace_cr_id)

lemma normalize_to_cr:
  assumes "CR \<notin> set s"
  shows "normalize_newlines (to_cr s) = s"
proof -
  have "LF \<notin> set (to_cr s)" by (auto simp: to_cr_def)
  then have "normalize_newlines (to_cr s) = replace_cr (to_cr s)"
    by (simp add: normalize_newlines_def replace_crlf_no_lf)
  also have "\<dots> = s"
    using assms unfolding replace_cr_def to_cr_def by (induction s) auto
  finally show ?thesis .
qed

lemma normalize_no_cr: "CR \<notin> set s \<Longrightarrow> normalize_newlines s = s"
proof -
  assume a: "CR \<notin> set s"
  then have "replace_crlf s = s" by (induction s) (auto simp: replace_crlf_Cons)
  with a show ?thesis by (simp add: normalize_newlines_def replace_cr_id)
qed

lemma tokenize_normalized:
  "normalize_newlines s = normalize_newlines s' \<Longrightarrow> tokenize s = tokenize s'"
  by (simp add: tokenize_def lexer_new_def)

subsection \<open>The one panic of the tokenizer\<close>

definition line_start_inv :: "lexer \<Rightarrow> bool" where
  "line_start_inv L \<longleftrightarrow> (lx_at_line_start L \<longrightarrow>
     take (lx_pos L) (lx_source L) = [] \<or> last (take (lx_pos L) (lx_source L)) = LF)"

lemma skip_spaces_at_end:
  "lx_is_at_end (snd (skip_spaces n L)) \<Longrightarrow> list_all (\<lambda>c. c = CHR '' '') (drop (lx_pos L) (lx_source L))"
proof (induction n L rule: skip_spaces.induct)
  case (1 n L)
  show ?case
  proof (cases "\<not> lx_is_at_end L \<and> lx_current L = CHR '' ''")
    case True
    then have "drop (lx_pos L) (lx_source L) = CHR '' '' # drop (Suc (lx_pos L)) (lx_source L)"
      by (simp add: lx_is_at_end_def lx_current_def Cons_nth_drop_Suc [symmetric])
    moreover have "lx_is_at_end (snd (skip_spaces (n + 1) (lx_advance L)))"
      using "1.prems" True by (subst (asm) skip_spaces.simps) simp
    from "1.IH" [OF True this] have "list_all (\<lambda>c. c = CHR '' '') (drop (Suc (lx_pos L)) (lx_source L))"
      by (simp add: lx_advance_def)
    ultimately show ?thesis by simp
  next
    case False
    with "1.prems" have "lx_is_at_end L" by (subst (asm) skip_spaces.simps) auto
    then show ?thesis by (simp add: lx_is_at_end_def)
  qed
qed

lemma handle_indentation_at_end:
  assumes "handle_indentation L = Inr L'" and "lx_is_at_end L'"
  shows "list_all (\<lambda>c. c = CHR '' '') (drop (lx_pos L) (lx_source L))"
proof -
  obtain n L1 where sk: "skip_spaces 0 L = (n, L1)" by fastforce
  have "lx_source L' = lx_source L1 \<and> lx_pos L' = lx_pos L1"
    using assms(1) sk pop_indents_frame [of n L1]
    by (auto simp: handle_indentation_def Let_def push_token_def split: if_splits)
  with assms(2) sk have "lx_is_at_end (snd (skip_spaces 0 L))" by (simp add: lx_is_at_end_def)
  then show ?thesis by (rule skip_spaces_at_end)
qed

lemma read_loops_no_panic:
  "read_string_loop v l c L \<noteq> Inl LexPanic"
  "read_number_loop s c d L \<noteq> Inl LexPanic"
proof -
  show "read_string_loop v l c L \<noteq> Inl LexPanic"
  proof (induction v l c L rule: read_string_loop.induct)
    case (1 v l c L)
    then show ?case by (subst read_string_loop.simps) (auto simp: Let_def)
  qed
  show "read_number_loop s c d L \<noteq> Inl LexPanic"
  proof (induction s c d L rule: read_number_loop.induct)
    case (1 s c d L)
    then show ?case by (subst read_number_loop.simps) (auto split: option.splits)
  qed
qed

lemma lex_char_no_panic: "lex_char L \<noteq> Inl LexPanic"
proof -
  have "read_string L \<noteq> Inl LexPanic"
    using read_loops_no_panic(1) by (auto simp: read_string_def rbind_eq_Inl split: if_splits)
  moreover have "read_number L \<noteq> Inl LexPanic"
    using read_loops_no_panic(2)
    by (auto simp: read_number_def rbind_eq_Inl Let_def split: if_splits option.splits)
  ultimately show ?thesis by (simp add: lex_char_def Let_def)
qed

lemma lex_char_line_start:
  assumes "\<not> lx_is_at_end L" and "\<not> lx_at_line_start L" and "lex_char L = Inr L'"
  shows "line_start_inv L'"
proof (cases "lx_at_line_start L'")
  case True
  have "lx_current L = LF"
  proof (rule ccontr)
    assume ne: "lx_current L \<noteq> LF"
    let ?ok = "\<lambda>r. \<forall>L'. r = Inr L' \<longrightarrow> \<not> lx_at_line_start L'"
    have ok_if: "?ok (if b then r else r') \<longleftrightarrow> (b \<longrightarrow> ?ok r) \<and> (\<not> b \<longrightarrow> ?ok r')" for b r r' by simp
    have ok_Inr: "?ok (Inr x) \<longleftrightarrow> \<not> lx_at_line_start x" "?ok (Inl e)" for x e by auto
    have s: "?ok (read_string L)"
      using assms(2) movedD(5) by (fastforce elim!: read_string_pushes simp: push_token_def)
    have n: "?ok (read_number L)"
      using assms(2) movedD(5) by (fastforce elim!: read_number_pushes simp: push_token_def)
    have i: "\<not> lx_at_line_start (read_identifier L)"
      using assms(2) movedD(5) [OF skip_ident_moved [of L]]
      by (simp add: read_identifier_def push_token_def Let_def)
    have "?ok (lex_char L)"
      unfolding lex_char_def Let_def ok_if ok_Inr using s n i ne assms(2) movedD(5) [OF skip_comment_moved [of L]]
      by (simp add: emit_defs)
    with assms(3) True show False by simp
  qed
  then have "L' = handle_newline L" using assms(3) by (simp add: lex_char_def)
  then have "lx_source L' = lx_source L" "lx_pos L' = Suc (lx_pos L)"
    by (simp_all add: handle_newline_def next_line_def push_token_def Let_def)
  then show ?thesis
    using assms(1) \<open>lx_current L = LF\<close>
    by (simp add: line_start_inv_def lx_is_at_end_def lx_current_def take_Suc_conv_app_nth)
qed (simp add: line_start_inv_def)

lemma lex_loop_panic:
  "lex_loop L = Inl LexPanic \<Longrightarrow> line_start_inv L \<Longrightarrow>
   \<exists>pre sp. lx_source L = pre @ sp \<and> sp \<noteq> [] \<and> list_all (\<lambda>c. c = CHR '' '') sp \<and>
     (pre = [] \<or> last pre = LF)"
proof (induction L rule: lex_loop.induct)
  case (1 L)
  have ne: "\<not> lx_is_at_end L"
    using "1.prems"(1) by (subst (asm) lex_loop.simps) (simp split: if_splits)
  show ?case
  proof (cases "lex_step L")
    case (Inl e)
    with "1.prems"(1) ne have "lex_step L = Inl LexPanic"
      by (subst (asm) lex_loop.simps) simp
    then have "lx_at_line_start L \<and> (\<exists>L1. handle_indentation L = Inr L1 \<and> lx_is_at_end L1)"
      using ne lex_char_no_panic
      by (auto simp: lex_step_def rbind_eq_Inl lx_is_at_end_def handle_indentation_def Let_def
          split: if_splits prod.splits)
    with handle_indentation_at_end "1.prems"(2) ne show ?thesis
      by (intro exI [of _ "take (lx_pos L) (lx_source L)"] exI [of _ "drop (lx_pos L) (lx_source L)"])
        (auto simp: line_start_inv_def lx_is_at_end_def)
  next
    case (Inr L')
    have "line_start_inv L'"
    proof (cases "lx_at_line_start L")
      case True
      with Inr obtain L1 where "\<not> lx_is_at_end (L1\<lparr>lx_at_line_start := False\<rparr>)"
        "lex_char (L1\<lparr>lx_at_line_start := False\<rparr>) = Inr L'"
        by (auto simp: lex_step_def split: if_splits)
      then show ?thesis using lex_char_line_start by simp
    next
      case False
      with Inr ne have "lex_char L = Inr L'" by (simp add: lex_step_def)
      with False ne show ?thesis using lex_char_line_start by blast
    qed
    moreover have "lex_loop L' = Inl LexPanic"
      using "1.prems"(1) ne Inr by (subst (asm) lex_loop.simps) simp
    ultimately show ?thesis using "1.IH" ne Inr lex_step_progress [OF Inr] by simp
  qed
qed

subsection \<open>A concrete source\<close>

definition sample_source :: string where
  "sample_source = ''a'' @ [LF] @ ''  [b,'' @ [LF] @ '' c]'' @ [LF] @ ''d''"

definition sample_tokens :: "token list" where
  "sample_tokens =
     [token_new (TkIdentifier ''a'') 1 1 ''a'', token_new TkNewline 1 2 [BSL, CHR ''n''],
      token_new TkIndent 2 1 [], token_new TkLeftBracket 2 3 ''['',
      token_new (TkIdentifier ''b'') 2 4 ''b'', token_new TkComma 2 5 '','',
      token_new (TkIdentifier ''c'') 3 2 ''c'', token_new TkRightBracket 3 3 '']'',
      token_new TkNewline 3 4 [BSL, CHR ''n''], token_new TkDedent 4 1 [],
      token_new (TkIdentifier ''d'') 4 1 ''d'', token_eof 4 2]"

lemma tokenize_sample: "tokenize sample_source = Inr sample_tokens"
  by code_simp

subsection \<open>Properties\<close>

lemma lexer_new_invs:
  "layout_inv (lexer_new src)" "lexed_inv (lexer_new src)" "lines_inv (lexer_new src)"
  "delim_inv (lexer_new src)"
  by (simp_all add: lexer_new_def layout_inv_def lexed_inv_def lines_inv_def delim_inv_def)

lemma lexed_not_eof: "lexed_token t \<Longrightarrow> tk_kind t \<noteq> TkEof"
  by (auto simp: lexed_token_def)

text \<open>C13: A token stream is a sequence without Eof whose Indent and Dedent tokens nest properly
  (no Dedent without its Indent, and every block closed at the end), followed by one Eof.\<close>

theorem tokenize_layout:
  assumes "tokenize src = Inr ts"
  shows "\<exists>us e. ts = us @ [e] \<and> tk_kind e = TkEof \<and> (\<forall>u \<in> set us. tk_kind u \<noteq> TkEof) \<and>
    nest_run 0 (map tk_kind us) = Some 0"
proof -
  obtain L where L: "layout_inv L" "length (lx_indent_stack L) \<le> 1"
    "ts = lx_tokens L @ [token_eof (lx_line L) (lx_column L)]"
    using layout.tokenize_inv [OF lexer_new_invs(1) assms] .
  obtain L' where L': "lexed_inv L'" "ts = lx_tokens L' @ [token_eof (lx_line L') (lx_column L')]"
    using lexed.tokenize_inv [OF lexer_new_invs(2) assms] .
  have "nest_run 0 (map tk_kind (lx_tokens L)) = Some 0"
    using L(1,2) by (auto simp: layout_inv_def)
  moreover have "\<forall>u \<in> set (lx_tokens L). tk_kind u \<noteq> TkEof"
    using L' L(3) lexed_not_eof by (auto simp: lexed_inv_def list_all_iff)
  ultimately show ?thesis
    using L(3) by (intro exI [of _ "lx_tokens L"]) (simp add: token_eof_def)
qed

theorem tokenize_layout_witness:
  "\<exists>us e. sample_tokens = us @ [e] \<and> tk_kind e = TkEof \<and> (\<forall>u \<in> set us. tk_kind u \<noteq> TkEof) \<and>
    nest_run 0 (map tk_kind us) = Some 0"
  by (rule tokenize_layout [OF tokenize_sample])

text \<open>Every token but the final Eof carries the text it was read from: the value of a literal
  is what its digits denote, an identifier is not a reserved word, a reserved word or symbol is
  spelled as the table says. Line numbers are positive and never decrease.\<close>

theorem tokenize_lexemes:
  assumes "tokenize src = Inr ts"
  shows "list_all (\<lambda>t. kind_of_lexeme (tk_kind t) (tk_lexeme t)) (butlast ts) \<and>
    sorted (map tk_line ts) \<and> list_all (\<lambda>t. 1 \<le> tk_line t) ts"
proof -
  obtain L where "lexed_inv L" "ts = lx_tokens L @ [token_eof (lx_line L) (lx_column L)]"
    using lexed.tokenize_inv [OF lexer_new_invs(2) assms] .
  then have "list_all (\<lambda>t. kind_of_lexeme (tk_kind t) (tk_lexeme t)) (butlast ts)"
    by (simp add: lexed_inv_def lexed_token_def list_all_iff)
  moreover obtain L' where "lines_inv L'" "ts = lx_tokens L' @ [token_eof (lx_line L') (lx_column L')]"
    using lines.tokenize_inv [OF lexer_new_invs(3) assms] .
  then have "sorted (map tk_line ts) \<and> list_all (\<lambda>t. 1 \<le> tk_line t) ts"
    by (auto simp: lines_inv_def sorted_append list_all_iff token_eof_def token_new_def)
  ultimately show ?thesis by simp
qed

theorem tokenize_lexemes_witness:
  "list_all (\<lambda>t. kind_of_lexeme (tk_kind t) (tk_lexeme t)) (butlast sample_tokens) \<and>
    sorted (map tk_line sample_tokens) \<and> list_all (\<lambda>t. 1 \<le> tk_line t) sample_tokens"
  by (rule tokenize_lexemes [OF tokenize_sample])

text \<open>Inside parentheses, brackets and braces the tokenizer emits neither a Newline nor an
  Indent, so an expression that spans lines inside delimiters is one logical line.\<close>

theorem tokenize_delimiters:
  assumes "tokenize src = Inr ts"
  shows "delim_run 0 (map tk_kind (butlast ts)) \<noteq> None"
proof -
  obtain L where "delim_inv L" "ts = lx_tokens L @ [token_eof (lx_line L) (lx_column L)]"
    using delim.tokenize_inv [OF lexer_new_invs(4) assms] .
  then show ?thesis by (simp add: delim_inv_def)
qed

theorem tokenize_delimiters_witness:
  "delim_run 0 (map tk_kind (butlast sample_tokens)) \<noteq> None"
  by (rule tokenize_delimiters [OF tokenize_sample])

text \<open>A source with Windows (CRLF) or classic Mac (CR) line endings gives exactly the tokens,
  positions and errors of the same source with Unix line endings.\<close>

lemma tokenize_line_endings:
  assumes "CR \<notin> set s"
  shows "tokenize (to_crlf s) = tokenize s \<and> tokenize (to_cr s) = tokenize s"
  using tokenize_normalized [of "to_crlf s" s] tokenize_normalized [of "to_cr s" s]
  by (simp add: normalize_to_crlf [OF assms] normalize_to_cr [OF assms] normalize_no_cr [OF assms])

theorem tokenize_line_endings_witness:
  "tokenize (to_crlf sample_source) = Inr sample_tokens \<and> tokenize (to_cr sample_source) = Inr sample_tokens"
proof -
  have "CR \<notin> set sample_source" by (simp add: sample_source_def)
  from tokenize_line_endings [OF this] show ?thesis by (simp add: tokenize_sample)
qed

lemma tokenize_panic_tail:
  assumes "tokenize src = Inl LexPanic"
  shows "\<exists>pre sp. normalize_newlines src = pre @ sp \<and> sp \<noteq> [] \<and>
    list_all (\<lambda>c. c = CHR '' '') sp \<and> (pre = [] \<or> last pre = LF)"
proof -
  have "lex_loop (lexer_new src) = Inl LexPanic"
    using assms by (simp add: tokenize_def rbind_eq_Inl Let_def)
  moreover have "line_start_inv (lexer_new src)" by (simp add: line_start_inv_def lexer_new_def)
  ultimately show ?thesis using lex_loop_panic [of "lexer_new src"] by (simp add: lexer_new_def)
qed

text \<open>The tokenizer always answers with tokens or with an error, except for one panic: the source,
  after normalising its line endings, ends in a line that is not empty and consists of spaces only.\<close>

theorem tokenize_panic:
  assumes "tokenize src = Inl LexPanic"
  shows "\<exists>pre sp. normalize_newlines src = pre @ sp \<and> sp \<noteq> [] \<and>
    list_all (\<lambda>c. c = CHR '' '') sp \<and> (pre = [] \<or> last pre = LF)"
  by (rule tokenize_panic_tail [OF assms])

theorem tokenize_panic_witness:
  "tokenize ''  '' = Inl LexPanic \<and> (\<exists>pre sp. normalize_newlines ''  '' = pre @ sp \<and> sp \<noteq> [] \<and>
    list_all (\<lambda>c. c = CHR '' '') sp \<and> (pre = [] \<or> last pre = LF))"
proof -
  have "tokenize ''  '' = Inl LexPanic" by code_simp
  with tokenize_panic [OF this] show ?thesis by blast
qed

end
