(* ===== verification/Lexer_Roundtrip.thy ===== *)
theory Lexer_Roundtrip
  imports Lexer_Props
begin

text \<open>
  The round trip of the tokenizer: a printer for token kinds, and that the tokenizer of
  \<^verbatim>\<open>src/src/lexer.rs\<close> reads back what it prints.
\<close>

subsection \<open>Printing tokens\<close>

fun escape_string :: "string \<Rightarrow> string" where
  "escape_string [] = []"
| "escape_string (c # s) =
     (if c = LF then [BSL, CHR ''n''] else if c = CR then [BSL, CHR ''r'']
      else if c = BSL then [BSL, BSL] else if c = DQ then [BSL, DQ] else [c]) @ escape_string s"

definition keyword_spelling :: "token_kind \<Rightarrow> string option" where
  "keyword_spelling k = map_of (map (\<lambda>(w, k). (k, w)) keyword_table) k"

fun print_kind :: "token_kind \<Rightarrow> string option" where
  "print_kind (TkInteger n) = (if 0 \<le> sint n then Some (nat_to_string (nat (sint n))) else None)"
| "print_kind (TkStringLiteral v) = Some (DQ # escape_string v @ [DQ])"
| "print_kind (TkIdentifier w) =
     (if word_lexeme w \<and> keyword_lookup w = None then Some w else None)"
| "print_kind (TkDelimiter d) = Some (delimiter_symbol d)"
| "print_kind (TkOperator p) =
     (case operator_symbol p of Some x \<Rightarrow> Some x | None \<Rightarrow> keyword_spelling (TkOperator p))"
| "print_kind k = keyword_spelling k"

text \<open>The rest of the input from the cursor, and the cursor moved over a prefix of it.\<close>

definition lx_rest :: "lexer \<Rightarrow> string" where
  "lx_rest L = drop (lx_pos L) (lx_source L)"

definition fwd :: "nat \<Rightarrow> lexer \<Rightarrow> lexer" where
  "fwd n L = L\<lparr>lx_pos := lx_pos L + n, lx_column := lx_column L + n\<rparr>"

lemma rest_simps:
  "lx_is_at_end L \<longleftrightarrow> lx_rest L = []"
  "lx_rest L = c # s \<Longrightarrow> lx_current L = c"
  "lx_rest L = s \<Longrightarrow> lx_peek_at i L = (if i < length s then Some (s ! i) else None)"
  "lx_rest (lx_advance L) = drop 1 (lx_rest L)"
  "lx_rest (fwd n L) = drop n (lx_rest L)"
  by (auto simp: lx_rest_def lx_is_at_end_def lx_current_def drop_eq_Cons_iff lx_peek_at_def
      lx_advance_def fwd_def less_diff_conv add.commute)

lemma fwd_simps [simp]:
  "fwd 0 L = L" "fwd n (lx_advance L) = fwd (Suc n) L" "lx_advance L = fwd 1 L"
  "fwd m (fwd n L) = fwd (n + m) L" "lx_tokens (fwd n L) = lx_tokens L"
  "lx_at_line_start (fwd n L) = lx_at_line_start L" "lx_source (fwd n L) = lx_source L"
  "lx_pos (fwd n L) = lx_pos L + n" "lx_line (fwd n L) = lx_line L"
  "lx_indent_stack (fwd n L) = lx_indent_stack L"
  by (simp_all add: fwd_def lx_advance_def)

declare fwd_simps(3) [simp del]

definition stops :: "(char \<Rightarrow> bool) \<Rightarrow> string \<Rightarrow> bool" where
  "stops p s \<longleftrightarrow> (case s of [] \<Rightarrow> True | c # _ \<Rightarrow> \<not> p c)"

lemma skip_ident_run:
  "lx_rest L = w @ s \<Longrightarrow> list_all ident_char w \<Longrightarrow> stops ident_char s \<Longrightarrow>
   skip_ident L = fwd (length w) L"
proof (induction w arbitrary: L)
  case Nil
  then show ?case
    by (subst skip_ident.simps) (auto simp: rest_simps stops_def split: list.splits)
next
  case (Cons c w)
  have "skip_ident (lx_advance L) = fwd (length w) (lx_advance L)"
    using Cons by (intro Cons.IH) (simp_all add: rest_simps)
  with Cons.prems show ?case
    by (subst skip_ident.simps) (simp add: rest_simps)
qed

lemma read_number_run:
  "lx_rest L = w @ s \<Longrightarrow> list_all is_ascii_digit w \<Longrightarrow>
   stops (\<lambda>c. is_ascii_digit c \<or> c = CHR ''.'') s \<Longrightarrow>
   read_number_loop p c d L = Inr (d, fwd (length w) L)"
proof (induction w arbitrary: L)
  case Nil
  then show ?case
    by (subst read_number_loop.simps) (auto simp: rest_simps stops_def split: list.splits)
next
  case (Cons x w)
  have "read_number_loop p c d (lx_advance L) = Inr (d, fwd (length w) (lx_advance L))"
    using Cons by (intro Cons.IH) (simp_all add: rest_simps)
  moreover have "x \<noteq> CHR ''.''" using Cons.prems by (auto simp: is_ascii_digit_def)
  ultimately show ?case
    using Cons.prems by (subst read_number_loop.simps) (simp add: rest_simps)
qed

lemma read_string_run:
  "lx_rest L = escape_string v @ DQ # s \<Longrightarrow>
   read_string_loop u l c L = Inr (u @ v, fwd (length (escape_string v)) L)"
proof (induction v arbitrary: u L)
  case Nil
  then show ?case by (subst read_string_loop.simps) (simp add: rest_simps)
next
  case (Cons x v)
  show ?case
  proof (cases "x \<in> {LF, CR, BSL, DQ}")
    case True
    have "read_string_loop (u @ [x]) l c (lx_advance (lx_advance L)) =
        Inr ((u @ [x]) @ v, fwd (length (escape_string v)) (lx_advance (lx_advance L)))"
      using Cons.prems True by (intro Cons.IH) (auto simp: rest_simps)
    with Cons.prems True show ?thesis
      by (subst read_string_loop.simps) (auto simp: rest_simps Let_def escape_char_def)
  next
    case False
    have "read_string_loop (u @ [x]) l c (lx_advance L) =
        Inr ((u @ [x]) @ v, fwd (length (escape_string v)) (lx_advance L))"
      using Cons.prems False by (intro Cons.IH) (auto simp: rest_simps)
    with Cons.prems False show ?thesis
      by (subst read_string_loop.simps) (auto simp: rest_simps)
  qed
qed

lemma keyword_table_words: "list_all (\<lambda>e. word_lexeme (fst e)) keyword_table"
  by code_simp

lemma keyword_table_distinct_words: "distinct (map fst keyword_table)"
  by code_simp

lemma keyword_spelling_lookup:
  assumes "keyword_spelling k = Some w"
  shows "keyword_lookup w = Some k" and "word_lexeme w"
proof -
  have in_table: "(w, k) \<in> set keyword_table"
    using assms unfolding keyword_spelling_def by (auto dest: map_of_SomeD)
  then show "keyword_lookup w = Some k"
    using keyword_table_distinct_words by (simp add: keyword_lookup_def)
  show "word_lexeme w"
    using in_table keyword_table_words by (force simp: list_all_iff)
qed

definition emits :: "lexer \<Rightarrow> token_kind \<Rightarrow> string \<Rightarrow> lexer \<Rightarrow> bool" where
  "emits L k s L' \<longleftrightarrow> lx_rest L' = s \<and> lx_at_line_start L' = lx_at_line_start L \<and>
     lx_indent_stack L' = lx_indent_stack L \<and>
     map tk_kind (lx_tokens L') = map tk_kind (lx_tokens L) @ [k]"

abbreviation space_next :: "string \<Rightarrow> bool" where
  "space_next s \<equiv> stops (\<lambda>c. c \<noteq> CHR '' '') s"

lemma space_next_stops: "space_next s \<Longrightarrow> \<not> p (CHR '' '') \<Longrightarrow> stops p s"
  by (auto simp: stops_def split: list.splits)

lemma lex_char_word:
  assumes "word_lexeme w" and "lx_rest L = w @ s" and "space_next s"
  shows "\<exists>L'. lex_char L = Inr L' \<and> emits L (word_token_kind w) s L'"
proof -
  obtain c u where w: "w = c # u" using assms(1) by (cases w) (auto simp: word_lexeme_def)
  have cur: "lx_current L = c" using assms(2) w by (simp add: rest_simps)
  have c: "is_ascii_alphabetic c \<or> c = CHR ''_''" using assms(1) w by (simp add: word_lexeme_def)
  then have "c \<notin> set ''+-*/%=!><()[]{},.: #'' \<and> c \<notin> {LF, CR, TAB, DQ} \<and> \<not> is_ascii_digit c"
    by (auto simp: ascii_simps)
  with c have lex: "lex_char L = Inr (read_identifier L)"
    by (simp add: lex_char_def cur Let_def)
  have run: "skip_ident L = fwd (length w) L"
    by (rule skip_ident_run [OF assms(2)])
      (use assms in \<open>auto simp: word_lexeme_def ident_char_def ascii_simps intro: space_next_stops\<close>)
  have "lx_slice (lx_pos L) (lx_pos L + length w) L = w"
    using assms(2) by (simp add: lx_slice_def lx_rest_def)
  with run have "emits L (word_token_kind w) s (read_identifier L)"
    using assms(2) rest_simps(5) [of "length w" L]
    by (simp add: emits_def read_identifier_def push_token_def lx_rest_def Let_def token_new_def
        lx_slice_def)
  with lex show ?thesis by blast
qed

lemma lex_char_integer:
  assumes "0 \<le> sint n" and "lx_rest L = nat_to_string (nat (sint n)) @ s" and "space_next s"
  shows "\<exists>L'. lex_char L = Inr L' \<and> emits L (TkInteger n) s L'"
proof -
  let ?w = "nat_to_string (nat (sint n))"
  obtain c u where w: "?w = c # u" by (cases ?w) auto
  have cur: "lx_current L = c" using assms(2) w by (simp add: rest_simps)
  have digits: "list_all is_ascii_digit ?w" by (rule nat_to_string_digits)
  with w have c: "is_ascii_digit c" by simp
  then have "c \<notin> set ''+-*/%=!><()[]{},.: #'' \<and> c \<notin> {LF, CR, TAB, DQ}"
    by (auto simp: ascii_simps)
  with c have lex: "lex_char L = read_number L"
    by (simp add: lex_char_def cur Let_def)
  have run: "read_number_loop (lx_pos L) (lx_column L) False L = Inr (False, fwd (length ?w) L)"
    by (rule read_number_run [OF assms(2) digits])
      (use assms(3) in \<open>auto simp: ascii_simps intro: space_next_stops\<close>)
  have slice: "lx_slice (lx_pos L) (lx_pos L + length ?w) L = ?w"
    using assms(2) by (simp add: lx_slice_def lx_rest_def)
  have "parse_i64_digits ?w = Some n"
    using assms(1) digits sint_lt [of n] by (simp add: parse_i64_digits_def)
  with run slice have "read_number L = Inr (push_token
      (token_new (TkInteger n) (lx_line L) (lx_column L) ?w) (fwd (length ?w) L))"
    by (simp add: read_number_def Let_def lx_slice_def)
  moreover have "emits L (TkInteger n) s (push_token
      (token_new (TkInteger n) (lx_line L) (lx_column L) ?w) (fwd (length ?w) L))"
    using assms(2) rest_simps(5) [of "length ?w" L]
    by (simp add: emits_def push_token_def lx_rest_def token_new_def)
  ultimately show ?thesis using lex by simp
qed

lemma lex_char_string:
  assumes "lx_rest L = DQ # escape_string v @ DQ # s"
  shows "\<exists>L'. lex_char L = Inr L' \<and> emits L (TkStringLiteral v) s L'"
proof -
  let ?n = "length (escape_string v)"
  have cur: "lx_current L = DQ" using assms by (simp add: rest_simps)
  have rest: "lx_rest (lx_advance L) = escape_string v @ DQ # s"
    using assms by (simp add: rest_simps)
  let ?L = "push_token (token_new (TkStringLiteral v) (lx_line L) (lx_column L) ([DQ] @ v @ [DQ]))
      (fwd (?n + 2) L)"
  have ne: "\<not> lx_is_at_end (fwd (Suc ?n) L)"
    using assms by (simp add: rest_simps)
  have "read_string L = Inr ?L"
    using ne by (simp add: read_string_def read_string_run [OF rest, of "[]"] fwd_simps(3) [of "fwd _ _"])
  moreover have "emits L (TkStringLiteral v) s ?L"
    using assms rest_simps(5) [of "?n + 2" L]
    by (simp add: emits_def push_token_def lx_rest_def token_new_def)
  ultimately show ?thesis using cur by (simp add: lex_char_def Let_def)
qed

lemma drop_past: "drop p xs = x @ s \<Longrightarrow> drop (length x + p) xs = s"
  by (metis append_eq_conv_conj drop_drop)

lemma emit_emits:
  assumes "lx_rest L = x @ s"
  shows "length x = 1 \<Longrightarrow> emits L k s (emit_single k x L)"
    and "length x = 1 \<Longrightarrow> emits L k s (emit_single k x (open_delim L))"
    and "length x = 1 \<Longrightarrow> emits L k s (emit_single k x (close_delim L))"
    and "length x = 3 \<Longrightarrow> emits L k s (emit_triple k x L)"
    and "length x = 2 \<Longrightarrow> TkNewline \<notin> tk_kind ` set (lx_tokens L) \<Longrightarrow> emits L k s (emit_double k x L)"
proof -
  note past = drop_past [OF assms [unfolded lx_rest_def]]
  show "length x = 1 \<Longrightarrow> emits L k s (emit_single k x L)"
    "length x = 1 \<Longrightarrow> emits L k s (emit_single k x (open_delim L))"
    "length x = 1 \<Longrightarrow> emits L k s (emit_single k x (close_delim L))"
    "length x = 3 \<Longrightarrow> emits L k s (emit_triple k x L)"
    using past by (simp_all add: emits_def lx_rest_def emit_defs token_new_def numeral_3_eq_3)
  assume "TkNewline \<notin> tk_kind ` set (lx_tokens L)"
  then have "remove_last_newline (lx_tokens L) = lx_tokens L"
    by (cases "lx_tokens L" rule: remove_last_newline_cases) auto
  then show "length x = 2 \<Longrightarrow> emits L k s (emit_double k x L)"
    using past by (simp add: emits_def lx_rest_def emit_defs token_new_def numeral_2_eq_2)
qed

lemma lex_char_operator:
  assumes "operator_symbol p = Some x" and "lx_rest L = x @ s" and "space_next s"
    and "TkNewline \<notin> tk_kind ` set (lx_tokens L)"
  shows "\<exists>L'. lex_char L = Inr L' \<and> emits L (TkOperator p) s L'"
proof -
  have next_space: "s = [] \<or> s ! 0 = CHR '' ''"
    using assms(3) by (cases s) (auto simp: stops_def)
  have peek: "lx_peek_at i L = (if i < length (x @ s) then Some ((x @ s) ! i) else None)" for i
    using rest_simps(3) [OF assms(2)] .
  have cur: "lx_current L = hd x" using assms(1,2) by (cases x; cases p) (simp_all add: rest_simps)
  note E = emit_emits [OF assms(2)]
  show ?thesis
    using assms(1) [symmetric] next_space E assms(4)
    unfolding lex_char_def Let_def cur lx_peek_def peek
    by (cases p; simp; elim disjE; simp)
qed

lemma lex_char_delimiter:
  assumes "lx_rest L = delimiter_symbol d @ s"
  shows "\<exists>L'. lex_char L = Inr L' \<and> emits L (TkDelimiter d) s L'"
proof -
  have cur: "\<And>c u. delimiter_symbol d = c # u \<Longrightarrow> lx_current L = c"
    using assms by (simp add: rest_simps)
  note E = emit_emits [OF assms]
  show ?thesis
    by (cases d) (use cur E in \<open>simp_all add: lex_char_def Let_def\<close>)
qed

text \<open>The tokenizer reads a printed token back.\<close>

lemma lex_char_print:
  assumes "print_kind k = Some x" and "lx_rest L = x @ s" and "space_next s"
    and "TkNewline \<notin> tk_kind ` set (lx_tokens L)"
  shows "\<exists>L'. lex_char L = Inr L' \<and> emits L k s L'"
proof -
  have word: "\<exists>L'. lex_char L = Inr L' \<and> emits L k s L'" if "keyword_spelling k = Some x"
    using lex_char_word [OF keyword_spelling_lookup(2) [OF that] assms(2,3)]
      keyword_spelling_lookup(1) [OF that] by (simp add: word_token_kind_def)
  show ?thesis
  proof (cases k)
    case (TkInteger n)
    then show ?thesis
      using assms(1-3) lex_char_integer [of n L s] by (auto split: if_splits)
  next
    case (TkStringLiteral v)
    then show ?thesis using assms(1,2) lex_char_string [of L v s] by auto
  next
    case (TkIdentifier w)
    then show ?thesis
      using assms(1-3) lex_char_word [of w L s] by (auto simp: word_token_kind_def split: if_splits)
  next
    case (TkDelimiter d)
    then show ?thesis using assms(1,2) lex_char_delimiter [of L d s] by auto
  next
    case (TkOperator p)
    then show ?thesis
      using assms word lex_char_operator [of p x L s] by (auto split: option.splits)
  qed (use assms(1) word in simp_all)
qed

definition print_kinds :: "token_kind list \<Rightarrow> string" where
  "print_kinds ks = join '' '' (map (\<lambda>k. the (print_kind k)) ks)"

lemma print_kind_start:
  assumes "print_kind k = Some x"
  shows "x \<noteq> [] \<and> hd x \<notin> {CHR '' '', LF, CHR ''#''}" (is "?ok x")
proof -
  have word: "?ok w" if "word_lexeme w" for w
    using that by (auto simp: word_lexeme_def ascii_simps)
  have keyword: "?ok x" if "keyword_spelling k = Some x"
    using word [OF keyword_spelling_lookup(2) [OF that]] .
  have "is_ascii_digit (hd (nat_to_string m))" for m
    using nat_to_string_digits [of m] by (cases "nat_to_string m") auto
  moreover have "c \<notin> {CHR '' '', LF, CHR ''#''}" if "is_ascii_digit c" for c
    using that by (auto simp: ascii_simps)
  ultimately have digits: "?ok (nat_to_string m)" for m by simp
  show ?thesis
  proof (cases k)
    case (TkOperator p)
    show ?thesis
    proof (cases "operator_symbol p")
      case None
      then show ?thesis using assms keyword TkOperator by simp
    next
      case (Some y)
      then show ?thesis using assms TkOperator by (cases p) auto
    qed
  next
    case (TkDelimiter d)
    then show ?thesis using assms by (cases d) auto
  qed (use assms [symmetric] word keyword digits in \<open>simp_all split: if_splits\<close>)
qed

lemma printable_not_newline: "print_kind k = Some x \<Longrightarrow> k \<noteq> TkNewline"
  using keyword_lookup_word_kind keyword_spelling_lookup(1) by fastforce

lemma lex_loop_print:
  assumes "list_all (\<lambda>k. print_kind k \<noteq> None) ks" and "\<not> lx_at_line_start L"
    and "lx_rest L = print_kinds ks" and "TkNewline \<notin> tk_kind ` set (lx_tokens L)"
  shows "\<exists>L'. lex_loop L = Inr L' \<and> map tk_kind (lx_tokens L') = map tk_kind (lx_tokens L) @ ks \<and>
    lx_indent_stack L' = lx_indent_stack L"
  using assms
proof (induction ks arbitrary: L)
  case Nil
  then show ?case by (subst lex_loop.simps) (simp add: rest_simps print_kinds_def)
next
  case (Cons k ks)
  obtain x where x: "print_kind k = Some x" using Cons.prems(1) by auto
  let ?s = "if ks = [] then [] else CHR '' '' # print_kinds ks"
  have rest: "lx_rest L = x @ ?s"
    using Cons.prems(3) x by (simp add: print_kinds_def join_Cons)
  have sn: "space_next ?s" by (simp add: stops_def)
  obtain L1 where L1: "lex_char L = Inr L1" "emits L k ?s L1"
    using lex_char_print [OF x rest _ Cons.prems(4)] sn by blast
  have "x \<noteq> []" using print_kind_start [OF x] by blast
  then have ne: "\<not> lx_is_at_end L" using rest by (simp add: rest_simps)
  with Cons.prems(2) L1 have loop: "lex_loop L = lex_loop L1"
    by (subst lex_loop.simps) (simp add: lex_step_def)
  have new: "TkNewline \<notin> tk_kind ` set (lx_tokens L1)"
  proof -
    have "tk_kind ` set (lx_tokens L1) = set (map tk_kind (lx_tokens L) @ [k])"
      using L1(2) by (metis emits_def set_map)
    then show ?thesis using Cons.prems(4) printable_not_newline [OF x] by auto
  qed
  show ?case
  proof (cases "ks = []")
    case True
    with L1(2) have "lx_is_at_end L1" by (simp add: emits_def rest_simps)
    then show ?thesis
      using L1(2) True loop by (subst loop, subst lex_loop.simps) (simp add: emits_def)
  next
    case False
    let ?L2 = "lx_advance L1"
    have sp: "lx_rest L1 = CHR '' '' # print_kinds ks" using L1(2) False by (simp add: emits_def)
    then have "lex_step L1 = Inr ?L2"
      using L1(2) Cons.prems(2) by (simp add: lex_step_def emits_def rest_simps lex_char_def)
    then have "lex_loop L1 = lex_loop ?L2"
      using sp by (subst lex_loop.simps) (simp add: rest_simps)
    moreover have "\<exists>L'. lex_loop ?L2 = Inr L' \<and>
        map tk_kind (lx_tokens L') = map tk_kind (lx_tokens ?L2) @ ks \<and>
        lx_indent_stack L' = lx_indent_stack ?L2"
      using Cons.prems sp new L1(2)
      by (intro Cons.IH) (simp_all add: rest_simps emits_def fwd_simps(3))
    ultimately show ?thesis using loop L1(2) by (simp add: emits_def fwd_simps(3))
  qed
qed

lemma first_line_step:
  assumes "lx_at_line_start L" and "lx_rest L = c # s" and "c \<notin> {CHR '' '', LF, CHR ''#''}"
    and "lx_indent_stack L = [0]"
  shows "lex_loop L = lex_loop (L\<lparr>lx_at_line_start := False\<rparr>)"
proof -
  have cur: "lx_current L = c" "\<not> lx_is_at_end L" using assms(2) by (simp_all add: rest_simps)
  then have "skip_spaces 0 L = (0, L)"
    using assms(3) by (subst skip_spaces.simps) simp
  then have "handle_indentation L = Inr L"
    using cur assms(3,4) by (simp add: handle_indentation_def top_indent_def)
  then have "lex_step L = lex_step (L\<lparr>lx_at_line_start := False\<rparr>)"
    using assms(1) by (simp add: lex_step_def)
  then show ?thesis
    using cur by (subst (1 2) lex_loop.simps) (simp add: lx_is_at_end_def)
qed

lemma close_indents_base: "lx_indent_stack L = [n] \<Longrightarrow> close_indents L = L"
  by (subst close_indents.simps) simp


lemma escape_string_no_cr: "CR \<notin> set (escape_string v)"
  by (induction v) auto

lemma print_kind_no_cr:
  assumes "print_kind k = Some x"
  shows "CR \<notin> set x"
proof -
  have word: "CR \<notin> set w" if "word_lexeme w" for w
    using that by (auto simp: word_lexeme_def list_all_iff ident_char_def ascii_simps)
  have keyword: "CR \<notin> set x" if "keyword_spelling k = Some x"
    using word [OF keyword_spelling_lookup(2) [OF that]] .
  have digits: "CR \<notin> set (nat_to_string m)" for m
    using nat_to_string_digits [of m] by (auto simp: list_all_iff ascii_simps)
  show ?thesis
  proof (cases k)
    case (TkOperator p)
    show ?thesis
    proof (cases "operator_symbol p")
      case None
      then show ?thesis using assms keyword TkOperator by simp
    next
      case (Some y)
      then show ?thesis using assms TkOperator by (cases p) auto
    qed
  next
    case (TkDelimiter d)
    then show ?thesis using assms by (cases d) auto
  qed (use assms [symmetric] word keyword digits in \<open>simp_all add: escape_string_no_cr split: if_splits\<close>)
qed

lemma tokenize_printed:
  assumes "list_all (\<lambda>k. print_kind k \<noteq> None) ks"
  shows "\<exists>ts. tokenize (print_kinds ks) = Inr ts \<and> map tk_kind ts = ks @ [TkEof]"
proof -
  let ?s = "print_kinds ks"
  let ?L = "lexer_new ?s"
  have "CR \<notin> set ?s"
  proof
    assume "CR \<in> set ?s"
    then obtain k where k: "k \<in> set ks" "CR \<in> set (the (print_kind k))"
      using set_join [of "'' ''" "map (\<lambda>k. the (print_kind k)) ks"] by (auto simp: print_kinds_def)
    with assms obtain x where "print_kind k = Some x" by (auto simp: list_all_iff)
    with k(2) print_kind_no_cr show False by fastforce
  qed
  then have src: "lx_rest ?L = ?s" "lx_at_line_start ?L" "lx_indent_stack ?L = [0]" "lx_tokens ?L = []"
    by (simp_all add: lexer_new_def normalize_no_cr lx_rest_def)
  have "\<exists>L'. lex_loop ?L = Inr L' \<and> map tk_kind (lx_tokens L') = ks \<and> lx_indent_stack L' = [0]"
  proof (cases ks)
    case Nil
    then show ?thesis
      using src by (subst lex_loop.simps) (simp add: rest_simps print_kinds_def)
  next
    case (Cons k ks')
    with assms obtain x where x: "print_kind k = Some x" by auto
    obtain c u where cu: "x = c # u" "c \<notin> {CHR '' '', LF, CHR ''#''}"
      using print_kind_start [OF x] by (cases x) auto
    have "\<exists>u. ?s = c # u"
      using Cons x cu by (cases ks') (simp_all add: print_kinds_def)
    then obtain u' where "lx_rest ?L = c # u'" using src(1) by auto
    from first_line_step [OF src(2) this cu(2) src(3)]
    have "lex_loop ?L = lex_loop (?L\<lparr>lx_at_line_start := False\<rparr>)" .
    moreover have "\<exists>L'. lex_loop (?L\<lparr>lx_at_line_start := False\<rparr>) = Inr L' \<and>
        map tk_kind (lx_tokens L') = map tk_kind (lx_tokens (?L\<lparr>lx_at_line_start := False\<rparr>)) @ ks \<and>
        lx_indent_stack L' = lx_indent_stack (?L\<lparr>lx_at_line_start := False\<rparr>)"
      using src assms by (intro lex_loop_print) (simp_all add: lx_rest_def)
    ultimately show ?thesis using src by simp
  qed
  then show ?thesis
    by (auto simp: tokenize_def close_indents_base push_token_def Let_def token_eof_def)
qed

text \<open>C14: Reading back printed tokens: the tokens of any sequence of non-negative integers, strings,
  identifiers, reserved words, operators and delimiters, printed with spaces between them,
  are that sequence, then Eof.\<close>

theorem tokenize_print:
  assumes "list_all (\<lambda>k. print_kind k \<noteq> None) ks"
  shows "\<exists>ts. tokenize (print_kinds ks) = Inr ts \<and> map tk_kind ts = ks @ [TkEof]"
  by (rule tokenize_printed [OF assms])

theorem tokenize_print_witness:
  "\<exists>ts. tokenize (print_kinds [TkIf, TkIdentifier ''x1'', TkGreaterEqual, TkInteger 42, TkPipeline,
      TkStringLiteral [DQ, LF, BSL]]) = Inr ts \<and>
    map tk_kind ts = [TkIf, TkIdentifier ''x1'', TkGreaterEqual, TkInteger 42, TkPipeline,
      TkStringLiteral [DQ, LF, BSL]] @ [TkEof]"
  by (rule tokenize_print) code_simp

end
