(* ===== verification/Ast.thy ===== *)
theory Ast
  imports Token
begin

text \<open>
  \<^verbatim>\<open>src/src/ast.rs\<close>: the abstract syntax tree. A struct-like variant of an enum is a constructor
  with its fields in the order of the source; \<open>Box\<close> is invisible. Constructors carry a prefix
  for their enum (\<open>S\<close> statements, \<open>E\<close> expressions).
\<close>

datatype http_verb = VGet | VPost | VPut | VPatch | VDelete

datatype reply_content_type = CtJson | CtHtml | CtText

datatype take_kind = TakePayload | TakeQuery | TakeHeaders | TakeForm | TakeRaw

record take_binding =
  tb_kind :: take_kind
  tb_name :: string
  tb_schema :: "string option"

record param_def =
  pd_name :: string
  pd_schema :: "string option"

record route_auth =
  ra_provider :: string
  ra_line :: nat
  ra_column :: nat

datatype binary_operator =
    BAdd | BSubtract | BMultiply | BDivide | BModulo | BEqual | BNotEqual | BGreater | BLess
  | BGreaterEqual | BLessEqual | BIn | BAnd | BOr

datatype unary_operator = UNegate | UNot

datatype schema_type =
    StringType | IntegerType | FloatType | DecimalType | BooleanType | InstantType | DateType
  | TimeType | DurationType | IntervalType | ListType | MapType
  | EnumType "string list" | Reference string | TypedList schema_type

record schema_field =
  sf_name :: string
  sf_field_type :: schema_type
  sf_optional :: bool

text \<open>The structs and enums between expressions and statements, over the types \<open>'e\<close> of
  expressions and \<open>'s\<close> of statements; they are used at \<open>expression\<close> and \<open>statement\<close> only.\<close>

datatype 'e argument = Positional 'e | Named string 'e

datatype 'e match_pattern = MpLiteral 'e | MpFallback

datatype 'e match_arm = MatchArm "'e match_pattern" 'e

datatype ('e, 's) task_body = TbInline 'e | TbBlock "'s list" 'e

datatype ('e, 's) rescue_handler = RhInline 'e | RhBlock "'s list"

datatype ('e, 's) map_statement = MsStatement 's | MsKeep 'e "'e option" | MsSkip 'e

datatype ('e, 's) pipeline_stage =
    PsExpression 'e
  | PsMap string "('e, 's) map_statement list"
  | PsReduce 'e string string "('e, 's) task_body"
  | PsRescue "('e, 's) rescue_handler"

datatype 'e auth_provider_field = AuthProviderField string 'e nat nat

datatype 'e auth_provider =
    ApJwt string "'e auth_provider_field list" | ApApiKey string "'e auth_provider_field list"

datatype 'e scenario_step =
    SsGiven 'e 'e nat nat
  | SsWhen http_verb string "'e option" "'e option" nat nat
  | SsThenStatus 'e nat nat
  | SsThenResponse 'e nat nat

text \<open>Expressions and statements are mutually recursive.\<close>

datatype (plugins only: code size) expression =
    EInteger i64
  | EFloat f64
  | EStringLiteral string
  | EBoolean bool
  | ENull
  | EList "expression list"
  | EMapLiteral "(string \<times> expression) list"
  | ESchemaConstructor string "(string \<times> expression) list"
  | EIdentifier string
  | EBinaryOp expression binary_operator expression
  | EUnaryOp unary_operator expression
  | EPropertyAccess expression string
  | EMethodCall expression string "expression argument list"
  | EHttpClientResponseSchema expression string
  | EFunctionCall string "expression argument list"
  | ETaskCall string
  | EMatch expression "expression match_arm list"
  | EIf expression "(expression, statement) task_body" "(expression, statement) task_body option"
  | ESubscript expression expression
  | EPipeline expression "(expression, statement) pipeline_stage list"
  | EBroadcast expression "expression list"
  | ERescue expression expression
  | EQueuePush expression "string option" "expression option"
  | ETopicPublish expression "string option" "expression option"
and statement =
    SAssignment string expression nat nat
  | SConditionalAssignment string expression expression nat nat
  | SRequire expression i64 string nat nat
  | SReject expression i64 string nat nat
  | SWhile expression "statement list" nat nat
  | STaskDef string "param_def list" "(expression, statement) task_body" nat nat
  | SExpressionStatement expression nat nat
  | SRoute http_verb string "route_auth option" "expression list" "take_binding list"
      "statement list" nat nat
  | SSchema string "string option" "schema_field list" nat nat
  | SAuthProvider "expression auth_provider" nat nat
  | SReply expression reply_content_type expression "string option" "expression option" nat nat
  | SFail i64 expression nat nat
  | SRaise expression "expression option" nat nat
  | SExport statement
  | STransaction "statement list" nat nat
  | SOnQueue expression string "string option" "statement list" nat nat
  | SOnTopic expression string "string option" "statement list" nat nat
  | SNack bool "expression option" nat nat
  | SScenario string "expression scenario_step list" nat nat

type_synonym program = "statement list"

end
