(* ===== verification/Parser_Base.thy ===== *)
theory Parser_Base
  imports Marreta_Error Ast
begin

text \<open>
  The state of the parser of \<^verbatim>\<open>src/src/parser.rs\<close>, its token navigation helpers, and the
  combinators the translation of its methods uses.

  A method \<open>fn f(&mut self) -> Result<T, MarretaError>\<close> is a function of type \<open>T parse\<close>.
  The recursion of the methods is open: \<open>parse_expression\<close> and \<open>parse_statement\<close>, through which
  every cycle of calls goes, are passed in a record \<open>parsers\<close>, and the knot is tied with a
  fuel. \<open>PFuel\<close> is the answer when the fuel is exhausted; that the parser never gives it is
  proved, not assumed.
\<close>

record parser =
  ps_tokens :: "token list"
  ps_pos :: nat
  ps_inside_transaction :: bool

datatype 'a presult = POk 'a parser | PErr marreta_error | PFuel

type_synonym 'a parse = "parser \<Rightarrow> 'a presult"

definition parser_new :: "token list \<Rightarrow> parser" where
  "parser_new ts = \<lparr>ps_tokens = ts, ps_pos = 0, ps_inside_transaction = False\<rparr>"

subsection \<open>Combinators\<close>

definition preturn :: "'a \<Rightarrow> 'a parse" where
  "preturn x = (\<lambda>s. POk x s)"

definition pfail :: "(parser \<Rightarrow> marreta_error) \<Rightarrow> 'a parse" where
  "pfail e = (\<lambda>s. PErr (e s))"

text \<open>The question-mark operator.\<close>

definition pbind :: "'a parse \<Rightarrow> ('a \<Rightarrow> 'b parse) \<Rightarrow> 'b parse" where
  "pbind p f = (\<lambda>s. case p s of POk x s' \<Rightarrow> f x s' | PErr e \<Rightarrow> PErr e | PFuel \<Rightarrow> PFuel)"

definition pseq :: "'a parse \<Rightarrow> 'b parse \<Rightarrow> 'b parse" where
  "pseq p q = pbind p (\<lambda>_. q)"

text \<open>Reading the state, and branching on it.\<close>

definition pget :: "(parser \<Rightarrow> 'x) \<Rightarrow> ('x \<Rightarrow> 'a parse) \<Rightarrow> 'a parse" where
  "pget h f = (\<lambda>s. f (h s) s)"

definition pif :: "(parser \<Rightarrow> bool) \<Rightarrow> 'a parse \<Rightarrow> 'a parse \<Rightarrow> 'a parse" where
  "pif c p q = (\<lambda>s. if c s then p s else q s)"

text \<open>A loop: \<open>Inl a\<close> goes round again with \<open>a\<close>, \<open>Inr b\<close> leaves with \<open>b\<close>. Every turn of a
  loop of this parser that goes round consumes a token, so one turn more than there are tokens
  left is enough.\<close>

fun ploop_fuel :: "nat \<Rightarrow> ('a \<Rightarrow> ('a + 'b) parse) \<Rightarrow> 'a \<Rightarrow> 'b parse" where
  "ploop_fuel 0 f a s = PFuel"
| "ploop_fuel (Suc n) f a s =
     (case f a s of
        POk (Inl a') s' \<Rightarrow> ploop_fuel n f a' s'
      | POk (Inr b) s' \<Rightarrow> POk b s'
      | PErr e \<Rightarrow> PErr e
      | PFuel \<Rightarrow> PFuel)"

definition remaining :: "parser \<Rightarrow> nat" where
  "remaining s = length (ps_tokens s) - ps_pos s"

definition ploop :: "('a \<Rightarrow> ('a + 'b) parse) \<Rightarrow> 'a \<Rightarrow> 'b parse" where
  "ploop f a = (\<lambda>s. ploop_fuel (Suc (remaining s)) f a s)"

text \<open>\<open>while c { xs.push(step) }\<close>\<close>

definition pwhile :: "(parser \<Rightarrow> bool) \<Rightarrow> 'a parse \<Rightarrow> 'a list parse" where
  "pwhile c step =
     ploop (\<lambda>xs. pif c (pbind step (\<lambda>x. preturn (Inl (xs @ [x])))) (preturn (Inr xs))) []"

subsection \<open>Token navigation\<close>

definition at_end :: "parser \<Rightarrow> bool" where
  "at_end s \<longleftrightarrow> length (ps_tokens s) \<le> ps_pos s \<or> tk_kind (ps_tokens s ! ps_pos s) = TkEof"

definition cur :: "parser \<Rightarrow> token" where
  "cur s = ps_tokens s ! min (ps_pos s) (length (ps_tokens s) - 1)"

definition cur_kind :: "parser \<Rightarrow> token_kind" where
  "cur_kind s = tk_kind (cur s)"

definition peek_kind :: "parser \<Rightarrow> token_kind option" where
  "peek_kind s =
     (if ps_pos s + 1 < length (ps_tokens s)
      then Some (tk_kind (ps_tokens s ! (ps_pos s + 1))) else None)"

definition parser_advance :: "parser \<Rightarrow> parser" where
  "parser_advance s =
     (if ps_pos s < length (ps_tokens s) then s\<lparr>ps_pos := ps_pos s + 1\<rparr> else s)"

definition advance :: "unit parse" where
  "advance = (\<lambda>s. POk () (parser_advance s))"

text \<open>\<open>check\<close> and \<open>expect\<close> compare discriminants; they are called with kinds that carry no
  payload, for which this is equality.\<close>

definition check :: "token_kind \<Rightarrow> parser \<Rightarrow> bool" where
  "check k s \<longleftrightarrow> \<not> at_end s \<and> cur_kind s = k"

text \<open>\<open>matches!(self.current_kind(), k)\<close>\<close>

definition kind_is :: "token_kind \<Rightarrow> parser \<Rightarrow> bool" where
  "kind_is k s \<longleftrightarrow> cur_kind s = k"

function skip_newlines_state :: "parser \<Rightarrow> parser" where
  "skip_newlines_state s =
     (if \<not> at_end s \<and> cur_kind s = TkNewline then skip_newlines_state (parser_advance s) else s)"
  by pat_completeness auto
termination
  by (relation "measure (\<lambda>s. length (ps_tokens s) - ps_pos s)")
    (auto simp: at_end_def parser_advance_def)

declare skip_newlines_state.simps [simp del]

definition skip_newlines :: "unit parse" where
  "skip_newlines = (\<lambda>s. POk () (skip_newlines_state s))"

definition unexpected :: "string \<Rightarrow> parser \<Rightarrow> marreta_error" where
  "unexpected expected s =
     UnexpectedToken (Expected expected) (tk_lexeme (cur s)) (tk_line (cur s)) (tk_column (cur s))"

definition here :: "(nat \<Rightarrow> nat \<Rightarrow> 'a parse) \<Rightarrow> 'a parse" where
  "here f = pget (\<lambda>s. (tk_line (cur s), tk_column (cur s))) (\<lambda>(l, c). f l c)"

definition expect :: "token_kind \<Rightarrow> unit parse" where
  "expect k =
     pif at_end (pfail (\<lambda>_. UnexpectedEndOfInput (ExpectedKind k)))
       (pif (kind_is k) advance
         (pfail (\<lambda>s. UnexpectedToken (ExpectedKind k) (tk_lexeme (cur s)) (tk_line (cur s))
                       (tk_column (cur s)))))"

definition reserved_word_as_name :: "parser \<Rightarrow> string option" where
  "reserved_word_as_name s =
     (case keyword_lookup (tk_lexeme (cur s)) of
        Some k \<Rightarrow> if k = cur_kind s then Some (tk_lexeme (cur s)) else None
      | None \<Rightarrow> None)"

definition is_reserved_word_token :: "parser \<Rightarrow> bool" where
  "is_reserved_word_token s \<longleftrightarrow> reserved_word_as_name s \<noteq> None"

fun identifier_of :: "token_kind \<Rightarrow> string option" where
  "identifier_of (TkIdentifier w) = Some w"
| "identifier_of _ = None"

text \<open>The name, line and column of the source's triple are one pair here.\<close>

definition expect_identifier :: "(string \<times> nat \<times> nat) parse" where
  "expect_identifier =
     pif at_end (pfail (\<lambda>_. UnexpectedEndOfInput (Expected ''identifier'')))
       (pget (\<lambda>s. identifier_of (cur_kind s)) (\<lambda>name.
          case name of
            Some w \<Rightarrow> here (\<lambda>l c. pseq advance (preturn (w, l, c)))
          | None \<Rightarrow> pfail (\<lambda>s.
              case reserved_word_as_name s of
                Some w \<Rightarrow> ReservedWord w (tk_line (cur s)) (tk_column (cur s))
              | None \<Rightarrow> unexpected ''identifier'' s)))"

definition expect_name :: "(string \<times> nat \<times> nat) parse" where
  "expect_name =
     here (\<lambda>l c. pget (\<lambda>s. identifier_of (cur_kind s)) (\<lambda>name.
       case name of
         Some w \<Rightarrow> pseq advance (preturn (w, l, c))
       | None \<Rightarrow> pget reserved_word_as_name (\<lambda>word.
           case word of
             Some w \<Rightarrow> pseq advance (preturn (w, l, c))
           | None \<Rightarrow> pfail (unexpected ''identifier''))))"

definition check_identifier_lexeme :: "string \<Rightarrow> parser \<Rightarrow> bool" where
  "check_identifier_lexeme expected s \<longleftrightarrow> cur_kind s = TkIdentifier expected"

definition check_next_identifier_lexeme :: "string \<Rightarrow> parser \<Rightarrow> bool" where
  "check_next_identifier_lexeme expected s \<longleftrightarrow> peek_kind s = Some (TkIdentifier expected)"

definition expect_identifier_lexeme :: "string \<Rightarrow> unit parse" where
  "expect_identifier_lexeme expected =
     pif (check_identifier_lexeme expected) advance (pfail (unexpected expected))"

fun integer_of :: "token_kind \<Rightarrow> i64 option" where
  "integer_of (TkInteger n) = Some n"
| "integer_of _ = None"

fun string_of :: "token_kind \<Rightarrow> string option" where
  "string_of (TkStringLiteral v) = Some v"
| "string_of _ = None"

definition expect_integer :: "i64 parse" where
  "expect_integer = pget (\<lambda>s. integer_of (cur_kind s)) (\<lambda>n.
     case n of Some n \<Rightarrow> pseq advance (preturn n) | None \<Rightarrow> pfail (unexpected ''integer''))"

definition expect_string :: "string parse" where
  "expect_string = pget (\<lambda>s. string_of (cur_kind s)) (\<lambda>v.
     case v of Some v \<Rightarrow> pseq advance (preturn v) | None \<Rightarrow> pfail (unexpected ''string''))"

text \<open>\<open>while !self.check(\&Dedent) \&\& !self.is_at_end() { xs.push(item); self.skip_newlines(); }\<close>\<close>

definition in_block :: "parser \<Rightarrow> bool" where
  "in_block s \<longleftrightarrow> \<not> check TkDedent s \<and> \<not> at_end s"

definition block_items :: "'a parse \<Rightarrow> 'a list parse" where
  "block_items item =
     pseq skip_newlines
       (pwhile in_block (pbind item (\<lambda>x. pseq skip_newlines (preturn x))))"

subsection \<open>Evaluation\<close>

text \<open>For evaluation a method is unfolded only when it is applied to a state, so that the
  continuations of the code stay folded.\<close>

declare preturn_def [code del] pfail_def [code del] pbind_def [code del] pseq_def [code del]
  pget_def [code del] pif_def [code del] ploop_def [code del] pwhile_def [code del] advance_def
  [code del] skip_newlines_def [code del] here_def [code del] expect_def [code del]
  expect_identifier_def [code del] expect_name_def [code del] expect_identifier_lexeme_def
  [code del] expect_integer_def [code del] expect_string_def [code del] block_items_def [code
  del]

lemmas parser_base_code [code] = preturn_def [THEN fun_cong] pfail_def [THEN fun_cong]
  pbind_def [THEN fun_cong] pseq_def [THEN fun_cong] pget_def [THEN fun_cong] pif_def [THEN
  fun_cong] ploop_def [THEN fun_cong] pwhile_def [THEN fun_cong] advance_def [THEN fun_cong]
  skip_newlines_def [THEN fun_cong] here_def [THEN fun_cong] expect_def [THEN fun_cong]
  expect_identifier_def [THEN fun_cong] expect_name_def [THEN fun_cong]
  expect_identifier_lexeme_def [THEN fun_cong] expect_integer_def [THEN fun_cong]
  expect_string_def [THEN fun_cong] block_items_def [THEN fun_cong]

end
