(* ===== verification/Parser_Expr.thy ===== *)
theory Parser_Expr
  imports Parser_Base
begin

text \<open>
  The expression parser of \<^verbatim>\<open>src/src/parser.rs\<close>: the Pratt loop, prefixes, infixes, pipelines,
  match and if, literals and argument lists.
\<close>

record parsers =
  pe :: "nat \<Rightarrow> expression parse"
  ps :: "statement parse"

abbreviation (input) PREC_NONE :: nat where "PREC_NONE \<equiv> 0"
abbreviation (input) PREC_OR :: nat where "PREC_OR \<equiv> 1"
abbreviation (input) PREC_AND :: nat where "PREC_AND \<equiv> 2"
abbreviation (input) PREC_EQUALITY :: nat where "PREC_EQUALITY \<equiv> 4"
abbreviation (input) PREC_COMPARISON :: nat where "PREC_COMPARISON \<equiv> 5"
abbreviation (input) PREC_ADDITION :: nat where "PREC_ADDITION \<equiv> 6"
abbreviation (input) PREC_MULTIPLICATION :: nat where "PREC_MULTIPLICATION \<equiv> 7"
abbreviation (input) PREC_UNARY :: nat where "PREC_UNARY \<equiv> 8"
abbreviation (input) PREC_CALL :: nat where "PREC_CALL \<equiv> 9"

subsection \<open>Blocks\<close>

definition split_final_expression :: "statement list \<Rightarrow> (expression, statement) task_body" where
  "split_final_expression stmts =
     (if stmts = [] then TbBlock [] ENull
      else case last stmts of
             SExpressionStatement e _ _ \<Rightarrow> TbBlock (butlast stmts) e
           | _ \<Rightarrow> TbBlock stmts ENull)"

definition parse_expression_block_body :: "parsers \<Rightarrow> (expression, statement) task_body parse" where
  "parse_expression_block_body P =
     pseq (expect TkNewline) (pseq (expect TkIndent)
       (pbind (block_items (ps P)) (\<lambda>stmts.
         pseq (expect TkDedent) (preturn (split_final_expression stmts)))))"

definition parse_task_like_body :: "parsers \<Rightarrow> (expression, statement) task_body parse" where
  "parse_task_like_body P =
     pif (kind_is TkFatArrow)
       (pseq advance (pbind (pe P PREC_NONE) (\<lambda>e. preturn (TbInline e))))
       (parse_expression_block_body P)"

subsection \<open>Argument lists and literals\<close>

definition named_arg_name :: "parser \<Rightarrow> string option" where
  "named_arg_name s =
     (if peek_kind s = Some TkColon then
        (case identifier_of (cur_kind s) of Some w \<Rightarrow> Some w | None \<Rightarrow> reserved_word_as_name s)
      else None)"

definition argument_step ::
  "parsers \<Rightarrow> expression argument list \<Rightarrow> (expression argument list + expression argument list) parse" where
  "argument_step P args = pget named_arg_name (\<lambda>name.
     case name of
       Some n \<Rightarrow>
         pseq advance (pseq advance (pbind (pe P PREC_NONE) (\<lambda>value.
           pif (check TkRightParen) (preturn (Inr (args @ [Named n value])))
             (pseq (expect TkComma) (preturn (Inl (args @ [Named n value])))))))
     | None \<Rightarrow>
         pbind (pe P PREC_NONE) (\<lambda>e.
           pseq (pif (check TkRightParen) (preturn ()) (expect TkComma))
             (pif (check TkRightParen) (preturn (Inr (args @ [Positional e])))
               (preturn (Inl (args @ [Positional e]))))))"

definition parse_argument_list :: "parsers \<Rightarrow> expression argument list parse" where
  "parse_argument_list P =
     pif (check TkRightParen) (preturn []) (ploop (argument_step P) [])"

definition parse_list_literal :: "parsers \<Rightarrow> expression parse" where
  "parse_list_literal P =
     pseq advance
       (pbind (pwhile (\<lambda>s. \<not> check TkRightBracket s \<and> \<not> at_end s)
          (pbind (pe P PREC_NONE) (\<lambda>e.
             pseq (pif (check TkRightBracket) (preturn ()) (expect TkComma)) (preturn e))))
          (\<lambda>elements. pseq (expect TkRightBracket) (preturn (EList elements))))"

text \<open>\<open>key: value\<close> of a map literal or a schema constructor.\<close>

definition parse_pair :: "parsers \<Rightarrow> (string \<times> expression) parse" where
  "parse_pair P =
     pbind expect_name (\<lambda>(key, _, _).
       pseq (expect TkColon) (pbind (pe P PREC_NONE) (\<lambda>value. preturn (key, value))))"

definition parse_map_literal :: "parsers \<Rightarrow> expression parse" where
  "parse_map_literal P =
     pseq advance
       (pbind (pwhile (\<lambda>s. \<not> check TkRightBrace s \<and> \<not> at_end s)
          (pbind (parse_pair P) (\<lambda>kv.
             pseq (pif (check TkRightBrace) (preturn ()) (expect TkComma)) (preturn kv))))
          (\<lambda>pairs. pseq (expect TkRightBrace) (preturn (EMapLiteral pairs))))"

definition constructor_step ::
  "parsers \<Rightarrow> (string \<times> expression) list \<Rightarrow>
   ((string \<times> expression) list + (string \<times> expression) list) parse" where
  "constructor_step P fs =
     pif (\<lambda>s. \<not> check TkRightBrace s \<and> \<not> at_end s)
       (pseq skip_newlines
         (pif (check TkRightBrace) (preturn (Inr fs))
           (pbind (parse_pair P) (\<lambda>kv.
             pseq (pif (check TkComma) advance (preturn ()))
               (pseq skip_newlines (preturn (Inl (fs @ [kv]))))))))
       (preturn (Inr fs))"

definition parse_schema_constructor :: "parsers \<Rightarrow> string \<Rightarrow> expression parse" where
  "parse_schema_constructor P schema_name =
     pseq (expect TkLeftBrace)
       (pbind (ploop (constructor_step P) []) (\<lambda>fs.
         pseq (expect TkRightBrace) (preturn (ESchemaConstructor schema_name fs))))"

fun is_http_client_method_call :: "expression \<Rightarrow> bool" where
  "is_http_client_method_call (EMethodCall (EIdentifier name) _ _) \<longleftrightarrow> name = ''http_client''"
| "is_http_client_method_call _ \<longleftrightarrow> False"

subsection \<open>Match and if\<close>

definition parse_match_arm :: "parsers \<Rightarrow> expression match_arm parse" where
  "parse_match_arm P =
     pbind (pif (kind_is TkFallback) (pseq advance (preturn MpFallback))
              (pbind (pe P PREC_NONE) (\<lambda>e. preturn (MpLiteral e)))) (\<lambda>pattern.
       pseq (expect TkArrow)
         (pbind (pe P PREC_NONE) (\<lambda>value. preturn (MatchArm pattern value))))"

definition parse_match_expression :: "parsers \<Rightarrow> expression parse" where
  "parse_match_expression P =
     pseq advance (pbind (pe P PREC_NONE) (\<lambda>subject.
       pseq (expect TkNewline) (pseq (expect TkIndent)
         (pbind (block_items (parse_match_arm P)) (\<lambda>arms.
           pseq (expect TkDedent) (preturn (EMatch subject arms)))))))"

text \<open>\<open>else if\<close> calls the method itself: its own fuel is the number of tokens left.\<close>

fun parse_if_fuel :: "parsers \<Rightarrow> nat \<Rightarrow> expression parse" where
  "parse_if_fuel P 0 = (\<lambda>s. PFuel)"
| "parse_if_fuel P (Suc n) =
     pseq advance (pbind (pe P PREC_NONE) (\<lambda>condition.
       pbind (parse_expression_block_body P) (\<lambda>then_branch.
         pbind (pif (check TkElse)
                  (pseq advance
                    (pif (check TkIf)
                      (pbind (parse_if_fuel P n) (\<lambda>e. preturn (Some (TbInline e))))
                      (pbind (parse_expression_block_body P) (\<lambda>b. preturn (Some b)))))
                  (preturn None)) (\<lambda>else_branch.
           preturn (EIf condition then_branch else_branch)))))"

definition parse_if_expression :: "parsers \<Rightarrow> expression parse" where
  "parse_if_expression P = (\<lambda>s. parse_if_fuel P (Suc (remaining s)) s)"

subsection \<open>Prefix expressions\<close>

text \<open>\<open>as SchemaName\<close> of the queue statements and producers.\<close>

definition parse_queue_schema :: "string option parse" where
  "parse_queue_schema =
     pif (check TkAs)
       (pseq advance (pget (\<lambda>s. identifier_of (cur_kind s)) (\<lambda>name.
          case name of
            Some w \<Rightarrow> pseq advance (preturn (Some w))
          | None \<Rightarrow> pfail (unexpected ''schema name''))))
       (preturn None)"

definition parse_queue_producer_args ::
  "parsers \<Rightarrow> (expression \<times> string option \<times> expression option) parse" where
  "parse_queue_producer_args P =
     pbind (pe P PREC_NONE) (\<lambda>name.
       pbind parse_queue_schema (\<lambda>schema.
         pbind (pif (check TkComma)
                  (pseq advance (pbind (pe P PREC_NONE) (\<lambda>e. preturn (Some e))))
                  (preturn None)) (\<lambda>payload.
           preturn (name, schema, payload))))"

definition parse_queue_prefix :: "parsers \<Rightarrow> expression parse" where
  "parse_queue_prefix P =
     pseq advance
       (pif (check TkDot)
         (pseq advance
           (pif (check_identifier_lexeme ''push'')
             (pseq advance (pbind (parse_queue_producer_args P)
               (\<lambda>(queue_name, schema, payload). preturn (EQueuePush queue_name schema payload))))
             (pif (check_identifier_lexeme ''publish'')
               (pfail (unexpected ''push (use topic.publish to publish to a topic)''))
               (pfail (unexpected ''push'')))))
         (preturn (EIdentifier ''queue'')))"

definition parse_topic_prefix :: "parsers \<Rightarrow> expression parse" where
  "parse_topic_prefix P =
     pseq advance
       (pif (check TkDot)
         (pseq advance
           (pif (check_identifier_lexeme ''publish'')
             (pseq advance (pbind (parse_queue_producer_args P)
               (\<lambda>(topic, schema, payload). preturn (ETopicPublish topic schema payload))))
             (pfail (unexpected ''publish''))))
         (preturn (EIdentifier ''topic'')))"

definition parse_identifier_prefix :: "parsers \<Rightarrow> string \<Rightarrow> expression parse" where
  "parse_identifier_prefix P name =
     pseq advance
       (pif (check TkLeftBrace) (parse_schema_constructor P name)
         (pif (check TkLeftParen)
           (pseq advance (pbind (parse_argument_list P) (\<lambda>arguments.
             pseq (expect TkRightParen) (preturn (EFunctionCall name arguments)))))
           (preturn (EIdentifier name))))"

definition parse_fail_prefix :: "parsers \<Rightarrow> expression parse" where
  "parse_fail_prefix P =
     pseq advance (pbind expect_integer (\<lambda>code.
       pseq (expect TkComma) (pbind (pe P PREC_NONE) (\<lambda>msg.
         preturn (EFunctionCall ''__fail__'' [Positional (EInteger code), Positional msg])))))"

text \<open>The reserved words that read as identifiers in expression position.\<close>

definition word_identifier :: "token_kind \<Rightarrow> string option" where
  "word_identifier k =
     map_of [(TkDb, ''db''), (TkDoc, ''doc''), (TkFeature, ''feature''), (TkEnv, ''env''),
       (TkCache, ''cache''), (TkFs, ''fs''), (TkJson, ''json''), (TkBase64, ''base64''),
       (TkUuid, ''uuid''), (TkLog, ''log''), (TkTime, ''time''), (TkMath, ''math''),
       (TkHttpClient, ''http_client''), (TkTypeString, ''string''), (TkTypeInteger, ''integer''),
       (TkTypeFloat, ''float''), (TkTypeBoolean, ''boolean''), (TkTypeInstant, ''instant''),
       (TkTypeDate, ''date''), (TkTypeDuration, ''duration''), (TkTypeInterval, ''interval'')] k"

text \<open>Literals and names: the arms that consume one token and give its expression.\<close>

fun literal_of :: "token_kind \<Rightarrow> expression option" where
  "literal_of (TkInteger n) = Some (EInteger n)"
| "literal_of (TkFloat n) = Some (EFloat n)"
| "literal_of (TkStringLiteral v) = Some (EStringLiteral v)"
| "literal_of TkTrue = Some (EBoolean True)"
| "literal_of TkFalse = Some (EBoolean False)"
| "literal_of TkNull = Some ENull"
| "literal_of k = map_option EIdentifier (word_identifier k)"

definition parse_prefix :: "parsers \<Rightarrow> expression parse" where
  "parse_prefix P = pget cur_kind (\<lambda>k.
     case literal_of k of
       Some e \<Rightarrow> pseq advance (preturn e)
     | None \<Rightarrow>
     (case identifier_of k of
        Some name \<Rightarrow> parse_identifier_prefix P name
      | None \<Rightarrow>
      if k = TkNot then
        pseq advance (pbind (pe P PREC_UNARY) (\<lambda>e. preturn (EUnaryOp UNot e)))
      else if k = TkMinus then
        pseq advance (pbind (pe P PREC_UNARY) (\<lambda>e. preturn (EUnaryOp UNegate e)))
      else if k = TkLeftParen then
        pseq advance (pbind (pe P PREC_NONE) (\<lambda>e. pseq (expect TkRightParen) (preturn e)))
      else if k = TkLeftBracket then parse_list_literal P
      else if k = TkLeftBrace then parse_map_literal P
      else if k = TkTask then
        pif (\<lambda>s. peek_kind s = Some TkLeftParen)
          (pseq advance (pseq advance (pbind expect_identifier (\<lambda>(name, _, _).
             pseq (expect TkRightParen) (preturn (ETaskCall name))))))
          (pfail (unexpected ''expression''))
      else if k = TkMatch then parse_match_expression P
      else if k = TkIf then parse_if_expression P
      else if k = TkQueue then parse_queue_prefix P
      else if k = TkTopic then parse_topic_prefix P
      else if k = TkFail then parse_fail_prefix P
      else pfail (unexpected ''expression'')))"

subsection \<open>Pipelines\<close>

definition parse_map_statement :: "parsers \<Rightarrow> (expression, statement) map_statement parse" where
  "parse_map_statement P =
     pif (check TkKeep)
       (pseq advance (pbind (pe P PREC_NONE) (\<lambda>value.
          pbind (pif (check TkIf)
                   (pseq advance (pbind (pe P PREC_NONE) (\<lambda>e. preturn (Some e))))
                   (preturn None)) (\<lambda>condition.
            preturn (MsKeep value condition)))))
       (pif (check TkSkip)
         (pseq advance (pseq (expect TkIf)
           (pbind (pe P PREC_NONE) (\<lambda>condition. preturn (MsSkip condition)))))
         (pbind (ps P) (\<lambda>stmt. preturn (MsStatement stmt))))"

definition parse_map_stage :: "parsers \<Rightarrow> (expression, statement) pipeline_stage parse" where
  "parse_map_stage P =
     pseq advance (pbind expect_identifier (\<lambda>(variable, _, _).
       pseq (expect TkNewline) (pseq (expect TkIndent)
         (pbind (block_items (parse_map_statement P)) (\<lambda>body.
           pseq (expect TkDedent) (preturn (PsMap variable body)))))))"

definition parse_reduce_stage :: "parsers \<Rightarrow> (expression, statement) pipeline_stage parse" where
  "parse_reduce_stage P =
     pseq advance (pseq (expect TkLeftParen)
       (pbind (pe P PREC_NONE) (\<lambda>initial.
         pseq (expect TkRightParen) (pbind expect_identifier (\<lambda>(accumulator, _, _).
           pseq (expect TkComma) (pbind expect_identifier (\<lambda>(item, _, _).
             pbind (parse_task_like_body P) (\<lambda>body.
               preturn (PsReduce initial accumulator item body)))))))))"

definition set_pos :: "nat \<Rightarrow> unit parse" where
  "set_pos n = (\<lambda>s. POk () (s\<lparr>ps_pos := n\<rparr>))"

definition parse_rescue_stage :: "parsers \<Rightarrow> (expression, statement) pipeline_stage parse" where
  "parse_rescue_stage P =
     pseq advance (pget ps_pos (\<lambda>saved.
       pseq skip_newlines
         (pif (check TkIndent)
           (pseq advance (pbind (block_items (ps P)) (\<lambda>body.
             pseq (expect TkDedent) (preturn (PsRescue (RhBlock body))))))
           (pseq (set_pos saved)
             (pif (\<lambda>s. cur_kind s \<notin> {TkNewline, TkDedent, TkEof})
               (pbind (pe P PREC_NONE) (\<lambda>e. preturn (PsRescue (RhInline e))))
               (preturn (PsRescue (RhInline ENull))))))))"

definition pipeline_step ::
  "parsers \<Rightarrow> (expression, statement) pipeline_stage list \<Rightarrow>
   ((expression, statement) pipeline_stage list + (expression, statement) pipeline_stage list) parse" where
  "pipeline_step P stages =
     pif (check TkPipeline)
       (pseq advance (pseq skip_newlines
         (pif (kind_is TkMap)
           (pbind (parse_map_stage P) (\<lambda>st. pseq skip_newlines (preturn (Inl (stages @ [st])))))
         (pif (kind_is TkReduce)
           (pbind (parse_reduce_stage P) (\<lambda>st. pseq skip_newlines (preturn (Inl (stages @ [st])))))
         (pif (kind_is TkRescue)
           (pbind (parse_rescue_stage P) (\<lambda>st. preturn (Inr (stages @ [st]))))
           (pbind (pe P (PREC_CALL - 1)) (\<lambda>e.
              pseq skip_newlines (preturn (Inl (stages @ [PsExpression e])))))))))) 
       (preturn (Inr stages))"

definition parse_pipeline_stages :: "parsers \<Rightarrow> expression \<Rightarrow> expression parse" where
  "parse_pipeline_stages P input =
     pbind (ploop (pipeline_step P) []) (\<lambda>stages. preturn (EPipeline input stages))"

subsection \<open>Infix expressions and the Pratt loop\<close>

fun binop_of :: "token_kind \<Rightarrow> binary_operator option" where
  "binop_of (TkOperator p) =
     (case p of
        OpPlus \<Rightarrow> Some BAdd | OpMinus \<Rightarrow> Some BSubtract | OpStar \<Rightarrow> Some BMultiply
      | OpSlash \<Rightarrow> Some BDivide | OpPercent \<Rightarrow> Some BModulo | OpEqual \<Rightarrow> Some BEqual
      | OpNotEqual \<Rightarrow> Some BNotEqual | OpGreater \<Rightarrow> Some BGreater | OpLess \<Rightarrow> Some BLess
      | OpGreaterEqual \<Rightarrow> Some BGreaterEqual | OpLessEqual \<Rightarrow> Some BLessEqual
      | OpAnd \<Rightarrow> Some BAnd | OpOr \<Rightarrow> Some BOr | _ \<Rightarrow> None)"
| "binop_of (TkIdentifier w) = (if w = ''in'' then Some BIn else None)"
| "binop_of _ = None"

fun infix_precedence :: "token_kind \<Rightarrow> nat" where
  "infix_precedence (TkOperator p) =
     (case p of
        OpOr \<Rightarrow> PREC_OR | OpAnd \<Rightarrow> PREC_AND
      | OpEqual \<Rightarrow> PREC_EQUALITY | OpNotEqual \<Rightarrow> PREC_EQUALITY
      | OpGreater \<Rightarrow> PREC_COMPARISON | OpLess \<Rightarrow> PREC_COMPARISON
      | OpGreaterEqual \<Rightarrow> PREC_COMPARISON | OpLessEqual \<Rightarrow> PREC_COMPARISON
      | OpPlus \<Rightarrow> PREC_ADDITION | OpMinus \<Rightarrow> PREC_ADDITION
      | OpStar \<Rightarrow> PREC_MULTIPLICATION | OpSlash \<Rightarrow> PREC_MULTIPLICATION
      | OpPercent \<Rightarrow> PREC_MULTIPLICATION
      | OpPipeline \<Rightarrow> PREC_OR | OpBroadcast \<Rightarrow> PREC_OR
      | _ \<Rightarrow> PREC_NONE)"
| "infix_precedence (TkDelimiter d) =
     (if d = DeDot \<or> d = DeLeftBracket then PREC_CALL else PREC_NONE)"
| "infix_precedence (TkIdentifier w) = (if w = ''in'' then PREC_COMPARISON else PREC_NONE)"
| "infix_precedence _ = PREC_NONE"

definition current_infix_precedence :: "parser \<Rightarrow> nat" where
  "current_infix_precedence s = (if at_end s then PREC_NONE else infix_precedence (cur_kind s))"

definition parse_broadcast :: "parsers \<Rightarrow> expression \<Rightarrow> expression parse" where
  "parse_broadcast P left =
     pseq advance (pseq skip_newlines
       (pbind (pif (check TkIndent)
          (pseq advance (pseq skip_newlines
            (pbind (pwhile (check TkArrow)
                (pseq advance (pbind (pe P PREC_NONE) (\<lambda>t. pseq skip_newlines (preturn t)))))
              (\<lambda>targets. pseq (expect TkDedent) (preturn targets)))))
          (pseq (expect TkArrow) (pbind (pe P PREC_NONE) (\<lambda>t. preturn [t]))))
         (\<lambda>targets. preturn (EBroadcast left targets))))"

definition parse_access :: "parsers \<Rightarrow> expression \<Rightarrow> expression parse" where
  "parse_access P left =
     pseq advance (pbind expect_name (\<lambda>(name, _, _).
       pif (check TkLeftParen)
         (pseq advance (pbind (parse_argument_list P) (\<lambda>arguments.
           pseq (expect TkRightParen) (preturn (EMethodCall left name arguments)))))
         (preturn (EPropertyAccess left name))))"

definition parse_infix :: "parsers \<Rightarrow> expression \<Rightarrow> nat \<Rightarrow> expression parse" where
  "parse_infix P left prec = pget cur_kind (\<lambda>k.
     case binop_of k of
       Some operator \<Rightarrow>
         pseq advance (pbind (pe P prec) (\<lambda>right. preturn (EBinaryOp left operator right)))
     | None \<Rightarrow>
       if k = TkLeftBracket then
         pseq advance (pbind (pe P PREC_NONE) (\<lambda>key.
           pseq (expect TkRightBracket) (preturn (ESubscript left key))))
       else if k = TkDot then parse_access P left
       else if k = TkPipeline then parse_pipeline_stages P left
       else if k = TkBroadcast then parse_broadcast P left
       else preturn left)"

definition pratt_step :: "parsers \<Rightarrow> nat \<Rightarrow> expression \<Rightarrow> (expression + expression) parse" where
  "pratt_step P min_prec left =
     pif at_end (preturn (Inr left))
       (pget current_infix_precedence (\<lambda>prec.
          if prec \<le> min_prec then preturn (Inr left)
          else pbind (parse_infix P left prec) (\<lambda>e. preturn (Inl e))))"

definition parse_response_schema :: "nat \<Rightarrow> expression \<Rightarrow> expression parse" where
  "parse_response_schema min_prec left =
     pif (\<lambda>s. min_prec = PREC_NONE \<and> kind_is TkAs s \<and> is_http_client_method_call left)
       (pseq advance (pbind expect_identifier (\<lambda>(schema_name, _, _).
          preturn (EHttpClientResponseSchema left schema_name))))
       (preturn left)"

definition parse_expression :: "parsers \<Rightarrow> nat \<Rightarrow> expression parse" where
  "parse_expression P min_prec =
     pbind (parse_prefix P) (\<lambda>prefix.
       pbind (ploop (pratt_step P min_prec) prefix) (\<lambda>infixed.
         pbind (parse_response_schema min_prec infixed) (\<lambda>left.
           pif (\<lambda>s. min_prec = PREC_NONE \<and> kind_is TkRescue s)
             (pseq advance (pbind (pe P PREC_NONE) (\<lambda>handler. preturn (ERescue left handler))))
             (preturn left))))"

text \<open>Wraps an expression in a pipeline if one follows, possibly on the next, indented line.\<close>

definition maybe_parse_pipeline :: "parsers \<Rightarrow> expression \<Rightarrow> expression parse" where
  "maybe_parse_pipeline P e = pget ps_pos (\<lambda>saved.
     pseq skip_newlines
       (pif (check TkIndent)
         (pseq advance
           (pif (check TkPipeline) (parse_pipeline_stages P e)
             (pif (check TkBroadcast) (parse_infix P e PREC_OR)
               (pseq (set_pos saved) (preturn e)))))
         (pif (check TkPipeline) (parse_pipeline_stages P e)
           (pif (check TkBroadcast) (parse_infix P e PREC_OR)
             (pseq (set_pos saved) (preturn e))))))"

subsection \<open>Evaluation\<close>

declare parse_expression_block_body_def [code del] parse_task_like_body_def [code del]
  argument_step_def [code del] parse_argument_list_def [code del] parse_list_literal_def [code
  del] parse_pair_def [code del] parse_map_literal_def [code del] constructor_step_def [code
  del] parse_schema_constructor_def [code del] parse_match_arm_def [code del]
  parse_match_expression_def [code del] parse_if_expression_def [code del]
  parse_queue_schema_def [code del] parse_queue_producer_args_def [code del]
  parse_queue_prefix_def [code del] parse_topic_prefix_def [code del]
  parse_identifier_prefix_def [code del] parse_fail_prefix_def [code del] parse_prefix_def
  [code del] parse_map_statement_def [code del] parse_map_stage_def [code del]
  parse_reduce_stage_def [code del] set_pos_def [code del] parse_rescue_stage_def [code del]
  pipeline_step_def [code del] parse_pipeline_stages_def [code del] parse_broadcast_def [code
  del] parse_access_def [code del] parse_infix_def [code del] pratt_step_def [code del]
  parse_response_schema_def [code del] parse_expression_def [code del] maybe_parse_pipeline_def
  [code del] parse_if_fuel.simps [code del]

lemmas parser_expr_code [code] = parse_expression_block_body_def [THEN fun_cong]
  parse_task_like_body_def [THEN fun_cong] argument_step_def [THEN fun_cong]
  parse_argument_list_def [THEN fun_cong] parse_list_literal_def [THEN fun_cong] parse_pair_def
  [THEN fun_cong] parse_map_literal_def [THEN fun_cong] constructor_step_def [THEN fun_cong]
  parse_schema_constructor_def [THEN fun_cong] parse_match_arm_def [THEN fun_cong]
  parse_match_expression_def [THEN fun_cong] parse_if_expression_def [THEN fun_cong]
  parse_queue_schema_def [THEN fun_cong] parse_queue_producer_args_def [THEN fun_cong]
  parse_queue_prefix_def [THEN fun_cong] parse_topic_prefix_def [THEN fun_cong]
  parse_identifier_prefix_def [THEN fun_cong] parse_fail_prefix_def [THEN fun_cong]
  parse_prefix_def [THEN fun_cong] parse_map_statement_def [THEN fun_cong] parse_map_stage_def
  [THEN fun_cong] parse_reduce_stage_def [THEN fun_cong] set_pos_def [THEN fun_cong]
  parse_rescue_stage_def [THEN fun_cong] pipeline_step_def [THEN fun_cong]
  parse_pipeline_stages_def [THEN fun_cong] parse_broadcast_def [THEN fun_cong]
  parse_access_def [THEN fun_cong] parse_infix_def [THEN fun_cong] pratt_step_def [THEN
  fun_cong] parse_response_schema_def [THEN fun_cong] parse_expression_def [THEN fun_cong]
  maybe_parse_pipeline_def [THEN fun_cong] parse_if_fuel.simps [THEN fun_cong]

end
