(* ===== verification/Parser.thy ===== *)
theory Parser
  imports Parser_Expr
begin

text \<open>
  The statement parser of \<^verbatim>\<open>src/src/parser.rs\<close> and its entry point \<open>parse\<close>, with the knot of the
  mutually recursive methods tied by fuel.
\<close>

subsection \<open>Simple statements\<close>

definition parse_assignment :: "parsers \<Rightarrow> statement parse" where
  "parse_assignment P =
     pbind expect_identifier (\<lambda>(name, line, column).
       pseq (expect TkAssign)
         (pif (\<lambda>s. kind_is TkMatch s \<or> kind_is TkIf s)
           (pbind (pif (kind_is TkMatch) (parse_match_expression P) (parse_if_expression P)) (\<lambda>e.
             pbind (maybe_parse_pipeline P e) (\<lambda>e'.
               preturn (SAssignment name e' line column))))
           (pbind (pe P PREC_NONE) (\<lambda>value.
             pif (kind_is TkIf)
               (pseq advance (pbind (pe P PREC_NONE) (\<lambda>condition.
                 preturn (SConditionalAssignment name value condition line column))))
               (pbind (maybe_parse_pipeline P value) (\<lambda>value'.
                 preturn (SAssignment name value' line column)))))))"

definition parse_optional_requeue :: "bool parse" where
  "parse_optional_requeue =
     pif (check TkRequeue) (pseq advance (preturn True)) (preturn False)"

definition parse_require :: "parsers \<Rightarrow> statement parse" where
  "parse_require P = here (\<lambda>line column.
     pseq advance (pbind (pe P PREC_NONE) (\<lambda>condition.
       pseq (expect TkElse)
         (pif (kind_is TkNack)
           (pseq advance (pbind parse_optional_requeue (\<lambda>requeue.
             preturn (SNack requeue (Some (EUnaryOp UNot condition)) line column))))
         (pif (kind_is TkRaise)
           (pseq advance (pbind (pe P PREC_NONE) (\<lambda>msg.
             preturn (SRaise msg (Some (EUnaryOp UNot condition)) line column))))
           (pseq (expect TkFail) (pbind expect_integer (\<lambda>error_code.
             pseq (expect TkComma) (pbind expect_string (\<lambda>error_message.
               preturn (SRequire condition error_code error_message line column)))))))))))"

definition parse_reject :: "parsers \<Rightarrow> statement parse" where
  "parse_reject P = here (\<lambda>line column.
     pseq advance (pbind (pe P PREC_NONE) (\<lambda>condition.
       pseq (expect TkElse) (pseq (expect TkFail) (pbind expect_integer (\<lambda>error_code.
         pseq (expect TkComma) (pbind expect_string (\<lambda>error_message.
           preturn (SReject condition error_code error_message line column)))))))))"

definition parse_while :: "parsers \<Rightarrow> statement parse" where
  "parse_while P = here (\<lambda>line column.
     pseq advance (pbind (pe P PREC_NONE) (\<lambda>condition.
       pseq (expect TkNewline) (pseq (expect TkIndent)
         (pbind (block_items (ps P)) (\<lambda>body.
           pseq (expect TkDedent) (preturn (SWhile condition body line column))))))))"

definition set_inside_transaction :: "bool \<Rightarrow> unit parse" where
  "set_inside_transaction b = (\<lambda>s. POk () (s\<lparr>ps_inside_transaction := b\<rparr>))"

definition parse_transaction :: "parsers \<Rightarrow> statement parse" where
  "parse_transaction P = here (\<lambda>line column.
     pif ps_inside_transaction
       (pfail (\<lambda>_. UnexpectedToken
          (Expected (''statement (not transaction '' @ em_dash @ '' nested transactions are not allowed)''))
          ''transaction'' line column))
       (pseq advance (pseq (expect TkNewline) (pseq (expect TkIndent)
         (pseq (set_inside_transaction True)
           (pbind (block_items (ps P)) (\<lambda>body.
             pseq (set_inside_transaction False)
               (pseq (expect TkDedent) (preturn (STransaction body line column)))))))))) "

definition parse_on_binding :: "string parse" where
  "parse_on_binding = pget (\<lambda>s. identifier_of (cur_kind s)) (\<lambda>name.
     case name of
       Some w \<Rightarrow> pseq advance (preturn w)
     | None \<Rightarrow> pget reserved_word_as_name (\<lambda>word.
         case word of
           Some w \<Rightarrow> pfail (\<lambda>s. ReservedWord w (tk_line (cur s)) (tk_column (cur s)))
         | None \<Rightarrow> pfail (unexpected ''identifier (binding name)'')))"

fun wildcard_topic :: "expression \<Rightarrow> string option" where
  "wildcard_topic (EStringLiteral topic) =
     (if CHR ''*'' \<in> set topic \<or> CHR ''#'' \<in> set topic then Some topic else None)"
| "wildcard_topic _ = None"

definition parse_on_kind :: "bool parse" where
  "parse_on_kind =
     pif (kind_is TkQueue) (pseq advance (preturn False))
       (pif (kind_is TkTopic) (pseq advance (preturn True))
         (pfail (unexpected ''queue or topic'')))"

definition parse_on :: "parsers \<Rightarrow> statement parse" where
  "parse_on P = here (\<lambda>line column.
     pseq advance (pbind parse_on_kind (\<lambda>is_topic.
       pbind (pe P PREC_NONE) (\<lambda>target.
         if is_topic \<and> wildcard_topic target \<noteq> None then
           pfail (\<lambda>_. UnexpectedToken
             (Expected ''exact topic string without '*' or '#' wildcards'')
             (the (wildcard_topic target)) line column)
         else
           pseq (expect TkTake) (pbind parse_on_binding (\<lambda>binding.
             pbind parse_queue_schema (\<lambda>schema.
               pseq (expect TkNewline) (pseq (expect TkIndent)
                 (pbind (block_items (ps P)) (\<lambda>body.
                   pseq (expect TkDedent)
                     (preturn (if is_topic
                               then SOnTopic target binding schema body line column
                               else SOnQueue target binding schema body line column))))))))))))"

definition parse_nack :: "statement parse" where
  "parse_nack = here (\<lambda>line column.
     pseq advance (pbind parse_optional_requeue (\<lambda>requeue.
       preturn (SNack requeue None line column))))"

definition parse_raise :: "parsers \<Rightarrow> statement parse" where
  "parse_raise P = here (\<lambda>line column.
     pseq advance (pbind (pe P PREC_NONE) (\<lambda>msg.
       pbind (pif (kind_is TkIf)
                (pseq advance (pbind (pe P PREC_NONE) (\<lambda>e. preturn (Some e))))
                (preturn None)) (\<lambda>condition.
         preturn (SRaise msg condition line column)))))"

definition parse_fail :: "parsers \<Rightarrow> statement parse" where
  "parse_fail P = here (\<lambda>line column.
     pseq advance (pbind expect_integer (\<lambda>status_code.
       pseq (expect TkComma) (pbind (pe P PREC_NONE) (\<lambda>msg.
         preturn (SFail status_code msg line column))))))"

definition parse_optional_schema :: "string option parse" where
  "parse_optional_schema =
     pif (kind_is TkAs)
       (pseq advance (pbind expect_identifier (\<lambda>(name, _, _). preturn (Some name))))
       (preturn None)"

definition parse_content_type :: "reply_content_type parse" where
  "parse_content_type =
     pif (\<lambda>s. identifier_of (cur_kind s) \<noteq> None \<and> tk_lexeme (cur s) = ''html'')
       (pseq advance (preturn CtHtml))
       (pif (\<lambda>s. identifier_of (cur_kind s) \<noteq> None \<and> tk_lexeme (cur s) = ''text'')
         (pseq advance (preturn CtText))
         (preturn CtJson))"

definition parse_reply :: "parsers \<Rightarrow> statement parse" where
  "parse_reply P = here (\<lambda>line column.
     pseq advance (pbind parse_content_type (\<lambda>content_type.
       pbind (pe P PREC_NONE) (\<lambda>status_code.
         pbind parse_optional_schema (\<lambda>response_schema.
           pseq (expect TkComma) (pbind (pe P PREC_NONE) (\<lambda>body.
             pbind (pif (kind_is TkComma)
                      (pseq advance (pbind (pe P PREC_NONE) (\<lambda>e. preturn (Some e))))
                      (preturn None)) (\<lambda>extra_headers.
               preturn (SReply status_code content_type body response_schema extra_headers
                          line column)))))))))"

subsection \<open>Tasks\<close>

definition parse_param :: "param_def parse" where
  "parse_param =
     pbind expect_identifier (\<lambda>(name, _, _).
       pbind parse_optional_schema (\<lambda>schema.
         preturn \<lparr>pd_name = name, pd_schema = schema\<rparr>))"

definition parse_param_list :: "param_def list parse" where
  "parse_param_list =
     pif (check TkRightParen) (preturn [])
       (pbind parse_param (\<lambda>p.
         pbind (pwhile (check TkComma) (pseq advance parse_param)) (\<lambda>params.
           preturn (p # params))))"

definition parse_task_def :: "parsers \<Rightarrow> statement parse" where
  "parse_task_def P = here (\<lambda>line column.
     pseq advance (pbind expect_identifier (\<lambda>(name, _, _).
       pseq (expect TkLeftParen) (pbind parse_param_list (\<lambda>params.
         pseq (expect TkRightParen) (pbind (parse_task_like_body P) (\<lambda>body.
           preturn (STaskDef name params body line column))))))))"

subsection \<open>Routes\<close>

definition parse_http_verb :: "http_verb parse" where
  "parse_http_verb = pget cur_kind (\<lambda>k.
     if k = TkGet then pseq advance (preturn VGet)
     else if k = TkPost then pseq advance (preturn VPost)
     else if k = TkPut then pseq advance (preturn VPut)
     else if k = TkPatch then pseq advance (preturn VPatch)
     else if k = TkDelete then pseq advance (preturn VDelete)
     else pfail (unexpected ''HTTP verb (GET, POST, PUT, PATCH, DELETE)''))"

definition take_kind_of :: "string \<Rightarrow> take_kind" where
  "take_kind_of name =
     (if name = ''query'' then TakeQuery else if name = ''headers'' then TakeHeaders
      else if name = ''form'' then TakeForm else if name = ''raw'' then TakeRaw
      else TakePayload)"

definition take_step :: "take_binding list \<Rightarrow> (take_binding list + take_binding list) parse" where
  "take_step bindings =
     pbind expect_identifier (\<lambda>(name, _, _).
       pbind parse_optional_schema (\<lambda>schema.
         (let bs = bindings @ [\<lparr>tb_kind = take_kind_of name, tb_name = name, tb_schema = schema\<rparr>]
          in pif (kind_is TkComma) (pseq advance (preturn (Inl bs))) (preturn (Inr bs)))))"

definition parse_take_bindings :: "take_binding list parse" where
  "parse_take_bindings = ploop take_step []"

definition parse_route_auth :: "route_auth parse" where
  "parse_route_auth = here (\<lambda>line column.
     pseq advance (pseq (expect_identifier_lexeme ''auth'')
       (pbind expect_identifier (\<lambda>(provider, _, _).
         preturn \<lparr>ra_provider = provider, ra_line = line, ra_column = column\<rparr>))))"

definition parse_route_allow :: "parsers \<Rightarrow> expression parse" where
  "parse_route_allow P = pseq advance (pe P PREC_NONE)"

definition at_require_auth :: "parser \<Rightarrow> bool" where
  "at_require_auth s \<longleftrightarrow> kind_is TkRequire s \<and> check_next_identifier_lexeme ''auth'' s"

definition take_lines_step ::
  "bool \<Rightarrow> take_binding list \<Rightarrow> (take_binding list + take_binding list) parse" where
  "take_lines_step inline_take bindings =
     pif (kind_is TkTake)
       (if inline_take then
          pfail (unexpected ''route body statement (a route uses either an inline `take` on the route line or indented `take` lines, not both)'')
        else
          pseq advance (pbind parse_take_bindings (\<lambda>more.
            pseq (expect TkNewline) (pseq skip_newlines (preturn (Inl (bindings @ more)))))))
       (preturn (Inr bindings))"

definition parse_route_item :: "parsers \<Rightarrow> statement parse" where
  "parse_route_item P =
     pif (check_identifier_lexeme ''allow'')
       (pfail (unexpected ''route body statement (allow clauses must appear before the route body)''))
     (pif at_require_auth
       (pfail (unexpected ''route body statement (require auth must appear before allow clauses and body)''))
     (pif (kind_is TkTake)
       (pfail (unexpected ''route body statement (`take` bindings must be the leading statements of the route, before any logic)''))
       (ps P)))"

definition parse_route :: "parsers \<Rightarrow> statement parse" where
  "parse_route P = here (\<lambda>line column.
     pseq advance (pbind parse_http_verb (\<lambda>verb. pbind expect_string (\<lambda>path.
       pbind (pif (kind_is TkTake) (pseq advance parse_take_bindings) (preturn [])) (\<lambda>inline.
         pseq (expect TkNewline) (pseq (expect TkIndent) (pseq skip_newlines
           (pbind (ploop (take_lines_step (inline \<noteq> [])) inline) (\<lambda>bindings.
             pbind (pif at_require_auth
                      (pbind parse_route_auth (\<lambda>a. pseq skip_newlines (preturn (Some a))))
                      (preturn None)) (\<lambda>auth.
               pbind (pwhile (check_identifier_lexeme ''allow'')
                        (pbind (parse_route_allow P) (\<lambda>e. pseq skip_newlines (preturn e)))) (\<lambda>allow.
                 pbind (pwhile in_block
                          (pbind (parse_route_item P) (\<lambda>x. pseq skip_newlines (preturn x)))) (\<lambda>body.
                   pseq (expect TkDedent)
                     (preturn (SRoute verb path auth allow bindings body line column))))))))))))))"

subsection \<open>Authentication providers\<close>

definition parse_auth_field :: "parsers \<Rightarrow> expression auth_provider_field parse" where
  "parse_auth_field P =
     pbind expect_name (\<lambda>(name, line, column).
       pseq (expect TkColon) (pbind (pe P PREC_NONE) (\<lambda>value.
         pseq (pif (check TkComma) advance (preturn ()))
           (pseq skip_newlines (preturn (AuthProviderField name value line column))))))"

definition parse_auth_provider :: "parsers \<Rightarrow> statement parse" where
  "parse_auth_provider P = here (\<lambda>line column.
     pseq advance (pbind expect_identifier (\<lambda>(kind, _, _).
       pbind expect_identifier (\<lambda>(name, _, _).
         pseq (expect TkLeftBrace) (pseq skip_newlines
           (pbind (pwhile (\<lambda>s. \<not> check TkRightBrace s \<and> \<not> at_end s) (parse_auth_field P)) (\<lambda>fs.
             pseq (expect TkRightBrace)
               (if kind = ''jwt'' then preturn (SAuthProvider (ApJwt name fs) line column)
                else if kind = ''api_key'' then preturn (SAuthProvider (ApApiKey name fs) line column)
                else pfail (\<lambda>_. UnexpectedToken (Expected ''jwt or api_key'') kind line column)))))))))"

subsection \<open>Schemas\<close>

definition enum_step ::
  "nat \<Rightarrow> nat \<Rightarrow> string list \<Rightarrow> (string list + string list) parse" where
  "enum_step line column vs =
     pbind expect_string (\<lambda>v.
       if v = [] then
         pfail (\<lambda>_. UnexpectedToken (Expected ''non-empty enum string value'') [CHR 0x22, CHR 0x22] line column)
       else if v \<in> set vs then
         pfail (\<lambda>_. UnexpectedToken (Expected ''unique enum string values'') v line column)
       else
         pif (check TkRightBracket) (preturn (Inr (vs @ [v])))
           (pseq (expect TkComma) (preturn (Inl (vs @ [v])))))"

definition parse_enum_schema_type :: "schema_type parse" where
  "parse_enum_schema_type = here (\<lambda>line column.
     pseq advance (pseq (expect TkLeftBracket)
       (pif (check TkRightBracket)
         (pfail (\<lambda>_. UnexpectedToken (Expected ''at least one enum string value'') '']'' line column))
         (pbind (ploop (enum_step line column) []) (\<lambda>vs.
           pseq (expect TkRightBracket) (preturn (EnumType vs)))))))"

definition primitive_type :: "token_kind \<Rightarrow> schema_type option" where
  "primitive_type k =
     map_of [(TkTypeString, StringType), (TkTypeInteger, IntegerType), (TkTypeFloat, FloatType),
       (TkIdentifier ''decimal'', DecimalType), (TkTypeBoolean, BooleanType),
       (TkTypeInstant, InstantType), (TkTypeDate, DateType), (TkTime, TimeType),
       (TkTypeDuration, DurationType), (TkTypeInterval, IntervalType), (TkMap, MapType),
       (TkIdentifier ''map'', MapType)] k"

text \<open>\<open>list of\<close> calls the method itself: its own fuel is the number of tokens left.\<close>

fun parse_schema_type_fuel :: "nat \<Rightarrow> schema_type parse" where
  "parse_schema_type_fuel 0 = (\<lambda>s. PFuel)"
| "parse_schema_type_fuel (Suc n) = pget cur_kind (\<lambda>k.
     case primitive_type k of
       Some ty \<Rightarrow> pseq advance (preturn ty)
     | None \<Rightarrow>
       if k = TkIdentifier ''enum'' then parse_enum_schema_type
       else if k = TkIdentifier ''list'' then
         pseq advance
           (pif (kind_is TkOf)
             (pseq advance (pbind (parse_schema_type_fuel n) (\<lambda>inner.
               preturn (TypedList inner))))
             (preturn ListType))
       else if identifier_of k \<noteq> None then
         pbind expect_identifier (\<lambda>(schema_name, _, _). preturn (Reference schema_name))
       else pfail (unexpected ''schema type (string, integer, float, decimal, boolean, instant, date, time, duration, interval, enum, list, map, or schema name)''))"

definition parse_schema_type :: "schema_type parse" where
  "parse_schema_type = (\<lambda>s. parse_schema_type_fuel (Suc (remaining s)) s)"

text \<open>\<open>raw_name.trim_end_matches('?')\<close>\<close>

definition trim_question :: "string \<Rightarrow> string" where
  "trim_question w = rev (dropWhile (\<lambda>c. c = CHR ''?'') (rev w))"

definition parse_schema_field :: "schema_field parse" where
  "parse_schema_field =
     pbind expect_name (\<lambda>(raw_name, _, _).
       pseq (expect TkColon) (pbind parse_schema_type (\<lambda>ty.
         (let optional = raw_name \<noteq> [] \<and> last raw_name = CHR ''?'' in
          preturn \<lparr>sf_name = (if optional then trim_question raw_name else raw_name),
                   sf_field_type = ty, sf_optional = optional\<rparr>))))"

definition schema_step ::
  "string option \<times> schema_field list \<Rightarrow>
   ((string option \<times> schema_field list) + (string option \<times> schema_field list)) parse" where
  "schema_step acc = (case acc of (db_table, fs) \<Rightarrow>
     pif in_block
       (pif (\<lambda>s. kind_is TkDb s \<and> peek_kind s = Some TkColon)
         (pseq advance (pseq (expect TkColon) (pbind expect_name (\<lambda>(table_name, _, _).
           pseq skip_newlines (preturn (Inl (Some table_name, fs)))))))
         (pbind parse_schema_field (\<lambda>f.
           pseq skip_newlines (preturn (Inl (db_table, fs @ [f]))))))
       (preturn (Inr (db_table, fs))))"

definition parse_schema :: "statement parse" where
  "parse_schema = here (\<lambda>line column.
     pseq advance (pbind expect_identifier (\<lambda>(name, _, _).
       pseq (expect TkNewline) (pseq (expect TkIndent) (pseq skip_newlines
         (pbind (ploop schema_step (None, [])) (\<lambda>(db_table, fs).
           pseq (expect TkDedent) (preturn (SSchema name db_table fs line column)))))))))"

subsection \<open>Scenarios\<close>

definition parse_scenario_given :: "parsers \<Rightarrow> expression scenario_step parse" where
  "parse_scenario_given P = here (\<lambda>line column.
     pseq advance (pbind (pe P PREC_NONE) (\<lambda>target.
       pseq (expect_identifier_lexeme ''returns'') (pbind (pe P PREC_NONE) (\<lambda>returns.
         preturn (SsGiven target returns line column))))))"

definition parse_scenario_when :: "parsers \<Rightarrow> expression scenario_step parse" where
  "parse_scenario_when P = here (\<lambda>line column.
     pseq advance (pbind parse_http_verb (\<lambda>verb. pbind expect_string (\<lambda>path.
       pbind (pif (check_identifier_lexeme ''with'')
                (pseq advance (pbind (pe P (PREC_AND + 1)) (\<lambda>e. preturn (Some e))))
                (preturn None)) (\<lambda>body.
         pbind (pif (kind_is TkAnd)
                  (pseq advance (pseq (expect_identifier_lexeme ''headers'')
                    (pbind (pe P PREC_NONE) (\<lambda>e. preturn (Some e)))))
                  (preturn None)) (\<lambda>headers.
           preturn (SsWhen verb path body headers line column)))))))"

definition parse_scenario_then :: "parsers \<Rightarrow> expression scenario_step parse" where
  "parse_scenario_then P = here (\<lambda>line column.
     pseq advance
       (pif (check_identifier_lexeme ''status'')
         (pseq advance (pbind (pe P PREC_NONE) (\<lambda>status.
           preturn (SsThenStatus status line column))))
       (pif (check_identifier_lexeme ''response'')
         (pseq advance (pseq (expect_identifier_lexeme ''is'') (pbind (pe P PREC_NONE) (\<lambda>expected.
           preturn (SsThenResponse expected line column)))))
         (pfail (unexpected ''status or response after then'')))))"

definition parse_scenario_step :: "parsers \<Rightarrow> expression scenario_step parse" where
  "parse_scenario_step P =
     pif (check_identifier_lexeme ''given'') (parse_scenario_given P)
     (pif (check_identifier_lexeme ''when'') (parse_scenario_when P)
     (pif (check_identifier_lexeme ''then'') (parse_scenario_then P)
       (pfail (unexpected ''given, when, or then inside scenario''))))"

fun is_when :: "'e scenario_step \<Rightarrow> bool" where
  "is_when (SsWhen _ _ _ _ _ _) \<longleftrightarrow> True"
| "is_when _ \<longleftrightarrow> False"

fun is_then :: "'e scenario_step \<Rightarrow> bool" where
  "is_then (SsThenStatus _ _ _) \<longleftrightarrow> True"
| "is_then (SsThenResponse _ _ _) \<longleftrightarrow> True"
| "is_then _ \<longleftrightarrow> False"

definition parse_scenario :: "parsers \<Rightarrow> statement parse" where
  "parse_scenario P = here (\<lambda>line column.
     pseq advance (pbind expect_string (\<lambda>name.
       pseq (expect TkNewline) (pseq (expect TkIndent)
         (pbind (block_items (parse_scenario_step P)) (\<lambda>steps.
           pseq (expect TkDedent)
             (let when_count = length (filter is_when steps);
                  then_count = length (filter is_then steps)
              in if when_count \<noteq> 1 then
                   pfail (\<lambda>_. UnexpectedToken (Expected ''exactly one when request inside scenario'')
                     (nat_to_string when_count @ '' when requests'') line column)
                 else if then_count = 0 then
                   pfail (\<lambda>_. UnexpectedToken (Expected ''at least one then assertion inside scenario'')
                     ''no then assertions'' line column)
                 else preturn (SScenario name steps line column))))))))"

subsection \<open>The statement dispatcher and the program\<close>

definition peek_assign :: "parser \<Rightarrow> bool" where
  "peek_assign s \<longleftrightarrow> peek_kind s = Some TkAssign"

definition at_assignment :: "parser \<Rightarrow> bool" where
  "at_assignment s \<longleftrightarrow>
     (identifier_of (cur_kind s) \<noteq> None \<or> is_reserved_word_token s) \<and> peek_assign s"

text \<open>The index of \<open>self.tokens[self.pos]\<close> is in range: the parser never passes the final Eof
  (theorem \<open>parse_total\<close>).\<close>

definition parse_export :: "parsers \<Rightarrow> statement parse" where
  "parse_export P = here (\<lambda>line column.
     pseq advance
       (pif (kind_is TkTask) (pbind (parse_task_def P) (\<lambda>inner. preturn (SExport inner)))
       (pif (kind_is TkSchema) (pbind parse_schema (\<lambda>inner. preturn (SExport inner)))
       (pif at_assignment (pbind (parse_assignment P) (\<lambda>inner. preturn (SExport inner)))
       (pif (kind_is TkRoute)
         (pfail (\<lambda>_. UnexpectedToken (Expected ''task, schema, or assignment'') ''route'' line column))
         (pfail (\<lambda>s. UnexpectedToken (Expected ''task, schema, or assignment after export'')
            (tk_lexeme (ps_tokens s ! ps_pos s)) line column)))))))"

definition at_auth_provider :: "parser \<Rightarrow> bool" where
  "at_auth_provider s \<longleftrightarrow> cur_kind s = TkIdentifier ''auth'' \<and>
     peek_kind s \<in> {Some (TkIdentifier ''jwt''), Some (TkIdentifier ''api_key'')}"

definition at_scenario :: "parser \<Rightarrow> bool" where
  "at_scenario s \<longleftrightarrow> cur_kind s = TkIdentifier ''scenario'' \<and>
     (case peek_kind s of Some k \<Rightarrow> string_of k \<noteq> None | None \<Rightarrow> False)"

definition parse_expression_statement :: "parsers \<Rightarrow> statement parse" where
  "parse_expression_statement P = here (\<lambda>line column.
     pbind (pe P PREC_NONE) (\<lambda>e. preturn (SExpressionStatement e line column)))"

definition parse_keyword_statement :: "parsers \<Rightarrow> token_kind \<Rightarrow> statement parse option" where
  "parse_keyword_statement P k =
     map_of [(TkRequire, parse_require P), (TkReject, parse_reject P), (TkWhile, parse_while P),
       (TkTask, parse_task_def P), (TkRoute, parse_route P), (TkSchema, parse_schema),
       (TkReply, parse_reply P), (TkFail, parse_fail P), (TkExport, parse_export P),
       (TkTransaction, parse_transaction P), (TkRaise, parse_raise P), (TkOn, parse_on P),
       (TkNack, parse_nack)] k"

definition parse_statement :: "parsers \<Rightarrow> statement parse" where
  "parse_statement P = pget cur_kind (\<lambda>k.
     case parse_keyword_statement P k of
       Some p \<Rightarrow> p
     | None \<Rightarrow>
       pif at_auth_provider (parse_auth_provider P)
       (pif at_scenario (parse_scenario P)
       (pif at_assignment (parse_assignment P)
         (if k = TkIndent then pfail (\<lambda>s. UnexpectedIndentation (tk_line (cur s)))
          else parse_expression_statement P))))"

fun expr_at :: "nat \<Rightarrow> nat \<Rightarrow> expression parse"
  and stmt_at :: "nat \<Rightarrow> statement parse" where
  "expr_at 0 min_prec s = PFuel"
| "expr_at (Suc n) min_prec s =
     parse_expression \<lparr>pe = expr_at n, ps = stmt_at n\<rparr> min_prec s"
| "stmt_at 0 s = PFuel"
| "stmt_at (Suc n) s = parse_statement \<lparr>pe = expr_at n, ps = stmt_at n\<rparr> s"

definition tie :: "nat \<Rightarrow> parsers" where
  "tie n = \<lparr>pe = expr_at n, ps = stmt_at n\<rparr>"

lemma tie_Suc:
  "tie (Suc n) = \<lparr>pe = parse_expression (tie n), ps = parse_statement (tie n)\<rparr>"
  by (simp add: tie_def fun_eq_iff)

definition parse_program :: "parsers \<Rightarrow> program parse" where
  "parse_program P =
     pseq skip_newlines
       (pwhile (\<lambda>s. \<not> at_end s) (pbind (ps P) (\<lambda>x. pseq skip_newlines (preturn x))))"

text \<open>\<open>Parser::new(tokens).parse()\<close>: two levels of the knot for each token are enough.\<close>

definition parse :: "token list \<Rightarrow> program presult" where
  "parse ts = parse_program (tie (2 * length ts)) (parser_new ts)"

subsection \<open>Evaluation\<close>

declare parse_assignment_def [code del] parse_optional_requeue_def [code del] parse_require_def
  [code del] parse_reject_def [code del] parse_while_def [code del] set_inside_transaction_def
  [code del] parse_transaction_def [code del] parse_on_binding_def [code del] parse_on_kind_def
  [code del] parse_on_def [code del] parse_nack_def [code del] parse_raise_def [code del]
  parse_fail_def [code del] parse_optional_schema_def [code del] parse_content_type_def [code
  del] parse_reply_def [code del] parse_param_def [code del] parse_param_list_def [code del]
  parse_task_def_def [code del] parse_http_verb_def [code del] take_step_def [code del]
  parse_take_bindings_def [code del] parse_route_auth_def [code del] parse_route_allow_def
  [code del] take_lines_step_def [code del] parse_route_item_def [code del] parse_route_def
  [code del] parse_auth_field_def [code del] parse_auth_provider_def [code del] enum_step_def
  [code del] parse_enum_schema_type_def [code del] parse_schema_type_def [code del]
  parse_schema_field_def [code del] schema_step_def [code del] parse_schema_def [code del]
  parse_scenario_given_def [code del] parse_scenario_when_def [code del]
  parse_scenario_then_def [code del] parse_scenario_step_def [code del] parse_scenario_def
  [code del] parse_export_def [code del] parse_expression_statement_def [code del]
  parse_statement_def [code del] parse_program_def [code del] parse_schema_type_fuel.simps
  [code del]

lemmas parser_code [code] = parse_assignment_def [THEN fun_cong] parse_optional_requeue_def
  [THEN fun_cong] parse_require_def [THEN fun_cong] parse_reject_def [THEN fun_cong]
  parse_while_def [THEN fun_cong] set_inside_transaction_def [THEN fun_cong]
  parse_transaction_def [THEN fun_cong] parse_on_binding_def [THEN fun_cong] parse_on_kind_def
  [THEN fun_cong] parse_on_def [THEN fun_cong] parse_nack_def [THEN fun_cong] parse_raise_def
  [THEN fun_cong] parse_fail_def [THEN fun_cong] parse_optional_schema_def [THEN fun_cong]
  parse_content_type_def [THEN fun_cong] parse_reply_def [THEN fun_cong] parse_param_def [THEN
  fun_cong] parse_param_list_def [THEN fun_cong] parse_task_def_def [THEN fun_cong]
  parse_http_verb_def [THEN fun_cong] take_step_def [THEN fun_cong] parse_take_bindings_def
  [THEN fun_cong] parse_route_auth_def [THEN fun_cong] parse_route_allow_def [THEN fun_cong]
  take_lines_step_def [THEN fun_cong] parse_route_item_def [THEN fun_cong] parse_route_def
  [THEN fun_cong] parse_auth_field_def [THEN fun_cong] parse_auth_provider_def [THEN fun_cong]
  enum_step_def [THEN fun_cong] parse_enum_schema_type_def [THEN fun_cong]
  parse_schema_type_def [THEN fun_cong] parse_schema_field_def [THEN fun_cong] schema_step_def
  [THEN fun_cong] parse_schema_def [THEN fun_cong] parse_scenario_given_def [THEN fun_cong]
  parse_scenario_when_def [THEN fun_cong] parse_scenario_then_def [THEN fun_cong]
  parse_scenario_step_def [THEN fun_cong] parse_scenario_def [THEN fun_cong] parse_export_def
  [THEN fun_cong] parse_expression_statement_def [THEN fun_cong] parse_statement_def [THEN
  fun_cong] parse_program_def [THEN fun_cong] parse_schema_type_fuel.simps [THEN fun_cong]

end
