(* ===== verification/Ast_Wf.thy ===== *)
theory Ast_Wf
  imports Parser
begin

text \<open>
  What the parser of \<^verbatim>\<open>src/src/parser.rs\<close> promises of a syntax tree, as a recursive predicate:
  binders are not reserved words, a transaction holds no transaction, enum types are nonempty
  and have distinct nonempty values, a pipeline has a stage and its rescue stage is the last,
  a scenario has one request and an assertion, only a task, schema or assignment is exported.
  The context of \<open>wf_expr\<close> and \<open>wf_stmt\<close> says whether the node is inside a transaction, and which string
  literals may occur in expressions.
\<close>

datatype parse_context = Parse_Context (pc_inside: bool) (pc_literals: "string set")

abbreviation unreserved :: "string \<Rightarrow> bool" where
  "unreserved w \<equiv> keyword_lookup w = None"

abbreviation unreserved_opt :: "string option \<Rightarrow> bool" where
  "unreserved_opt \<equiv> pred_option unreserved"

fun wf_schema_type :: "schema_type \<Rightarrow> bool" where
  "wf_schema_type (EnumType vs) \<longleftrightarrow> vs \<noteq> [] \<and> distinct vs \<and> [] \<notin> set vs"
| "wf_schema_type (TypedList ty) \<longleftrightarrow> wf_schema_type ty"
| "wf_schema_type (Reference n) \<longleftrightarrow> unreserved n"
| "wf_schema_type _ \<longleftrightarrow> True"

fun is_rescue_stage :: "('e, 's) pipeline_stage \<Rightarrow> bool" where
  "is_rescue_stage (PsRescue _) \<longleftrightarrow> True"
| "is_rescue_stage _ \<longleftrightarrow> False"

definition stages_ok :: "('e, 's) pipeline_stage list \<Rightarrow> bool" where
  "stages_ok stages \<longleftrightarrow> stages \<noteq> [] \<and> list_all (\<lambda>st. \<not> is_rescue_stage st) (butlast stages)"

text \<open>The names a stage binds.\<close>

fun stage_names_ok :: "('e, 's) pipeline_stage \<Rightarrow> bool" where
  "stage_names_ok (PsMap v _) \<longleftrightarrow> unreserved v"
| "stage_names_ok (PsReduce _ a i _) \<longleftrightarrow> unreserved a \<and> unreserved i"
| "stage_names_ok _ \<longleftrightarrow> True"

definition take_ok :: "take_binding \<Rightarrow> bool" where
  "take_ok b \<longleftrightarrow> unreserved (tb_name b) \<and> tb_kind b = take_kind_of (tb_name b) \<and>
     unreserved_opt (tb_schema b)"

definition param_ok :: "param_def \<Rightarrow> bool" where
  "param_ok p \<longleftrightarrow> unreserved (pd_name p) \<and> unreserved_opt (pd_schema p)"

definition scenario_ok :: "'e scenario_step list \<Rightarrow> bool" where
  "scenario_ok steps \<longleftrightarrow> length (filter is_when steps) = 1 \<and> filter is_then steps \<noteq> []"

fun exportable :: "statement \<Rightarrow> bool" where
  "exportable (STaskDef _ _ _ _ _) \<longleftrightarrow> True"
| "exportable (SSchema _ _ _ _ _) \<longleftrightarrow> True"
| "exportable (SAssignment _ _ _ _) \<longleftrightarrow> True"
| "exportable (SConditionalAssignment _ _ _ _ _) \<longleftrightarrow> True"
| "exportable _ \<longleftrightarrow> False"

fun provider_name :: "'e auth_provider \<Rightarrow> string" where
  "provider_name (ApJwt n _) = n"
| "provider_name (ApApiKey n _) = n"

primrec wf_expr :: "expression \<Rightarrow> parse_context \<Rightarrow> bool"
  and wf_stmt :: "statement \<Rightarrow> parse_context \<Rightarrow> bool" where
  "wf_expr (EInteger _) = (\<lambda>t. True)"
| "wf_expr (EFloat _) = (\<lambda>t. True)"
| "wf_expr (EStringLiteral v) = (\<lambda>t. v \<in> pc_literals t)"
| "wf_expr (EBoolean _) = (\<lambda>t. True)"
| "wf_expr ENull = (\<lambda>t. True)"
| "wf_expr (EList es) = (\<lambda>t. list_all (\<lambda>p. p t) (map wf_expr es))"
| "wf_expr (EMapLiteral kvs) = (\<lambda>t. list_all (\<lambda>kp. snd kp t) (map (map_prod id wf_expr) kvs))"
| "wf_expr (ESchemaConstructor n kvs) =
     (\<lambda>t. unreserved n \<and> list_all (\<lambda>kp. snd kp t) (map (map_prod id wf_expr) kvs))"
| "wf_expr (EIdentifier _) = (\<lambda>t. True)"
| "wf_expr (EBinaryOp l _ r) = (\<lambda>t. wf_expr l t \<and> wf_expr r t)"
| "wf_expr (EUnaryOp _ e) = (\<lambda>t. wf_expr e t)"
| "wf_expr (EPropertyAccess e _) = (\<lambda>t. wf_expr e t)"
| "wf_expr (EMethodCall e _ args) =
     (\<lambda>t. wf_expr e t \<and> list_all (pred_argument (\<lambda>p. p t)) (map (map_argument wf_expr) args))"
| "wf_expr (EHttpClientResponseSchema e n) =
     (\<lambda>t. wf_expr e t \<and> is_http_client_method_call e \<and> unreserved n)"
| "wf_expr (EFunctionCall _ args) =
     (\<lambda>t. list_all (pred_argument (\<lambda>p. p t)) (map (map_argument wf_expr) args))"
| "wf_expr (ETaskCall n) = (\<lambda>t. unreserved n)"
| "wf_expr (EMatch e arms) =
     (\<lambda>t. wf_expr e t \<and> list_all (pred_match_arm (\<lambda>p. p t)) (map (map_match_arm wf_expr) arms))"
| "wf_expr (EIf c b o_else) =
     (\<lambda>t. wf_expr c t \<and> pred_task_body (\<lambda>p. p t) (\<lambda>p. p t) (map_task_body wf_expr wf_stmt b) \<and>
        pred_option (pred_task_body (\<lambda>p. p t) (\<lambda>p. p t))
          (map_option (map_task_body wf_expr wf_stmt) o_else))"
| "wf_expr (ESubscript a b) = (\<lambda>t. wf_expr a t \<and> wf_expr b t)"
| "wf_expr (EPipeline e stages) =
     (\<lambda>t. wf_expr e t \<and> stages_ok stages \<and> list_all stage_names_ok stages \<and>
        list_all (pred_pipeline_stage (\<lambda>p. p t) (\<lambda>p. p t))
          (map (map_pipeline_stage wf_expr wf_stmt) stages))"
| "wf_expr (EBroadcast e es) = (\<lambda>t. wf_expr e t \<and> list_all (\<lambda>p. p t) (map wf_expr es))"
| "wf_expr (ERescue a b) = (\<lambda>t. wf_expr a t \<and> wf_expr b t)"
| "wf_expr (EQueuePush e n o_e) =
     (\<lambda>t. wf_expr e t \<and> unreserved_opt n \<and> pred_option (\<lambda>p. p t) (map_option wf_expr o_e))"
| "wf_expr (ETopicPublish e n o_e) =
     (\<lambda>t. wf_expr e t \<and> unreserved_opt n \<and> pred_option (\<lambda>p. p t) (map_option wf_expr o_e))"
| "wf_stmt (SAssignment x e _ _) = (\<lambda>t. unreserved x \<and> wf_expr e t)"
| "wf_stmt (SConditionalAssignment x e c _ _) = (\<lambda>t. unreserved x \<and> wf_expr e t \<and> wf_expr c t)"
| "wf_stmt (SRequire c _ _ _ _) = (\<lambda>t. wf_expr c t)"
| "wf_stmt (SReject c _ _ _ _) = (\<lambda>t. wf_expr c t)"
| "wf_stmt (SWhile c body _ _) = (\<lambda>t. wf_expr c t \<and> list_all (\<lambda>p. p t) (map wf_stmt body))"
| "wf_stmt (STaskDef n params body _ _) =
     (\<lambda>t. unreserved n \<and> list_all param_ok params \<and>
        pred_task_body (\<lambda>p. p t) (\<lambda>p. p t) (map_task_body wf_expr wf_stmt body))"
| "wf_stmt (SExpressionStatement e _ _) = (\<lambda>t. wf_expr e t)"
| "wf_stmt (SRoute _ _ auth allow takes body _ _) =
     (\<lambda>t. pred_option (\<lambda>a. unreserved (ra_provider a)) auth \<and> list_all (\<lambda>p. p t) (map wf_expr allow) \<and>
        list_all take_ok takes \<and> list_all (\<lambda>p. p t) (map wf_stmt body))"
| "wf_stmt (SSchema n _ fs _ _) =
     (\<lambda>t. unreserved n \<and> list_all (\<lambda>f. wf_schema_type (sf_field_type f)) fs)"
| "wf_stmt (SAuthProvider p _ _) =
     (\<lambda>t. unreserved (provider_name p) \<and> pred_auth_provider (\<lambda>p. p t) (map_auth_provider wf_expr p))"
| "wf_stmt (SReply c _ b n h _ _) =
     (\<lambda>t. wf_expr c t \<and> wf_expr b t \<and> unreserved_opt n \<and> pred_option (\<lambda>p. p t) (map_option wf_expr h))"
| "wf_stmt (SFail _ e _ _) = (\<lambda>t. wf_expr e t)"
| "wf_stmt (SRaise e c _ _) = (\<lambda>t. wf_expr e t \<and> pred_option (\<lambda>p. p t) (map_option wf_expr c))"
| "wf_stmt (SExport s) = (\<lambda>t. wf_stmt s t \<and> exportable s)"
| "wf_stmt (STransaction body _ _) = (\<lambda>t. \<not> pc_inside t \<and> list_all (\<lambda>p. p (Parse_Context True (pc_literals t))) (map wf_stmt body))"
| "wf_stmt (SOnQueue e n sc body _ _) =
     (\<lambda>t. wf_expr e t \<and> unreserved n \<and> unreserved_opt sc \<and> list_all (\<lambda>p. p t) (map wf_stmt body))"
| "wf_stmt (SOnTopic e n sc body _ _) =
     (\<lambda>t. wf_expr e t \<and> wildcard_topic e = None \<and> unreserved n \<and> unreserved_opt sc \<and>
        list_all (\<lambda>p. p t) (map wf_stmt body))"
| "wf_stmt (SNack _ c _ _) = (\<lambda>t. pred_option (\<lambda>p. p t) (map_option wf_expr c))"
| "wf_stmt (SScenario _ steps _ _) =
     (\<lambda>t. scenario_ok steps \<and> list_all (pred_scenario_step (\<lambda>p. p t))
        (map (map_scenario_step wf_expr) steps))"

end
