(* ===== verification/Parser_Hoare.thy ===== *)
theory Parser_Hoare
  imports Ast_Wf
begin

text \<open>
  A program logic for the parser. \<open>parses t B Q G m p\<close> says of a parser method \<open>p\<close>, started in
  a context \<open>t\<close>, in a state where \<open>G\<close> holds and at most \<open>m\<close> tokens are left: it does
  not run out of fuel, it does not move back nor past the final Eof, its result satisfies \<open>Q\<close>,
  and it has consumed a token when \<open>B\<close> of the result says so. The rules follow the shape of the
  combinators; they are collected in \<open>parse_rules\<close>.
\<close>

named_theorems parse_rules \<open>rules of the parser logic\<close>

subsection \<open>States\<close>

definition identifier_ok :: "token \<Rightarrow> bool" where
  "identifier_ok t \<longleftrightarrow> pred_option unreserved (identifier_of (tk_kind t))"

definition stream_ok :: "token list \<Rightarrow> bool" where
  "stream_ok ts \<longleftrightarrow> ts \<noteq> [] \<and> tk_kind (last ts) = TkEof \<and> list_all identifier_ok ts"

definition token_strings :: "token list \<Rightarrow> string set" where
  "token_strings ts = {v. \<exists>t \<in> set ts. tk_kind t = TkStringLiteral v}"

definition pst :: "parse_context \<Rightarrow> parser \<Rightarrow> bool" where
  "pst t s \<longleftrightarrow> stream_ok (ps_tokens s) \<and> ps_pos s < length (ps_tokens s) \<and>
     ps_inside_transaction s = pc_inside t \<and> token_strings (ps_tokens s) \<subseteq> pc_literals t"

definition frame :: "bool \<Rightarrow> parser \<Rightarrow> parser \<Rightarrow> bool" where
  "frame strict s s' \<longleftrightarrow> ps_tokens s' = ps_tokens s \<and> ps_pos s' < length (ps_tokens s) \<and>
     ps_inside_transaction s' = ps_inside_transaction s \<and>
     (if strict then ps_pos s < ps_pos s' else ps_pos s \<le> ps_pos s')"

definition parses ::
  "parse_context \<Rightarrow> ('a \<Rightarrow> bool) \<Rightarrow> ('a \<Rightarrow> bool) \<Rightarrow> (parser \<Rightarrow> bool) \<Rightarrow> nat \<Rightarrow> 'a parse \<Rightarrow> bool" where
  "parses t B Q G m p \<longleftrightarrow>
     (\<forall>s. pst t s \<longrightarrow> remaining s \<le> m \<longrightarrow> G s \<longrightarrow>
        (case p s of POk x s' \<Rightarrow> frame (B x) s s' \<and> Q x | PErr e \<Rightarrow> True | PFuel \<Rightarrow> False))"

abbreviation ANY :: "'a \<Rightarrow> bool" where "ANY \<equiv> \<lambda>_. True"

abbreviation eats :: "parse_context \<Rightarrow> ('a \<Rightarrow> bool) \<Rightarrow> (parser \<Rightarrow> bool) \<Rightarrow> nat \<Rightarrow> 'a parse \<Rightarrow> bool" where
  "eats t Q G m p \<equiv> parses t (\<lambda>_. True) Q G m p"

abbreviation keeps :: "parse_context \<Rightarrow> ('a \<Rightarrow> bool) \<Rightarrow> (parser \<Rightarrow> bool) \<Rightarrow> nat \<Rightarrow> 'a parse \<Rightarrow> bool" where
  "keeps t Q G m p \<equiv> parses t (\<lambda>_. False) Q G m p"

lemma parsesI:
  assumes "\<And>s. pst t s \<Longrightarrow> remaining s \<le> m \<Longrightarrow> G s \<Longrightarrow>
    (case p s of POk x s' \<Rightarrow> frame (B x) s s' \<and> Q x | PErr e \<Rightarrow> True | PFuel \<Rightarrow> False)"
  shows "parses t B Q G m p"
  using assms by (simp add: parses_def)

lemma parsesD:
  assumes "parses t B Q G m p" and "pst t s" and "remaining s \<le> m" and "G s"
  obtains (ok) x s' where "p s = POk x s'" and "frame (B x) s s'" and "Q x"
    | (err) e where "p s = PErr e"
  using assms unfolding parses_def by (cases "p s") (auto dest: spec [of _ s])

lemma at_end_iff: "pst t s \<Longrightarrow> at_end s \<longleftrightarrow> cur_kind s = TkEof"
  by (auto simp: pst_def at_end_def cur_kind_def cur_def min_def)

lemma pst_frame: "pst t s \<Longrightarrow> frame b s s' \<Longrightarrow> pst t s'"
  by (simp add: pst_def frame_def)

lemma frame_remaining:
  "frame b s s' \<Longrightarrow> remaining s' \<le> remaining s"
  "frame True s s' \<Longrightarrow> remaining s' < remaining s"
  by (auto simp: frame_def remaining_def split: if_splits)

lemma frame_trans:
  "frame b s s' \<Longrightarrow> frame b' s' s'' \<Longrightarrow> c \<longrightarrow> b \<or> b' \<Longrightarrow> frame c s s''"
  by (auto simp: frame_def split: if_splits)

lemma frame_refl: "pst t s \<Longrightarrow> frame False s s"
  by (simp add: frame_def pst_def)

lemma remaining_pos: "pst t s \<Longrightarrow> 0 < remaining s"
  by (simp add: pst_def remaining_def)

lemma advance_frame:
  assumes "pst t s" and "\<not> at_end s"
  shows "frame True s (parser_advance s)"
proof -
  have "ps_pos s \<noteq> length (ps_tokens s) - 1"
    using assms by (auto simp: pst_def stream_ok_def at_end_def last_conv_nth)
  with assms(1) show ?thesis
    by (auto simp: pst_def frame_def parser_advance_def)
qed

lemma skip_newlines_frame:
  assumes "pst t s"
  shows "frame False s (skip_newlines_state s) \<and>
    skip_newlines_state s = s\<lparr>ps_pos := ps_pos (skip_newlines_state s)\<rparr>"
  using assms
proof (induction s rule: skip_newlines_state.induct)
  case (1 s)
  show ?case
  proof (cases "\<not> at_end s \<and> cur_kind s = TkNewline")
    case True
    have f: "frame True s (parser_advance s)" using advance_frame "1.prems" True by blast
    have IH: "frame False (parser_advance s) (skip_newlines_state (parser_advance s)) \<and>
        skip_newlines_state (parser_advance s) =
          (parser_advance s)\<lparr>ps_pos := ps_pos (skip_newlines_state (parser_advance s))\<rparr>"
      using "1.IH" True pst_frame [OF "1.prems" f] by blast
    have eq: "skip_newlines_state s = skip_newlines_state (parser_advance s)"
      using True by (subst skip_newlines_state.simps) simp
    have "frame False s (skip_newlines_state s)"
      unfolding eq using frame_trans [OF f] IH by blast
    moreover have "skip_newlines_state s = s\<lparr>ps_pos := ps_pos (skip_newlines_state s)\<rparr>"
      using IH unfolding eq by (metis parser.update_convs(2) parser.surjective parser_advance_def)
    ultimately show ?thesis by blast
  next
    case False
    then have "skip_newlines_state s = s" by (subst skip_newlines_state.simps) auto
    then show ?thesis using frame_refl [OF "1.prems"] by simp
  qed
qed

subsection \<open>Structural rules\<close>

lemma parses_weaken:
  assumes "parses t B Q G m p" and "\<And>s. pst t s \<Longrightarrow> G' s \<Longrightarrow> G s" and "n \<le> m"
    and "\<And>x. B' x \<Longrightarrow> B x" and "\<And>x. Q x \<Longrightarrow> Q' x"
  shows "parses t B' Q' G' n p"
proof (rule parsesI)
  fix s
  assume s: "pst t s" "remaining s \<le> n" "G' s"
  then have "remaining s \<le> m" "G s" using assms(2,3) by auto
  with assms(1) s(1)
  show "case p s of POk x s' \<Rightarrow> frame (B' x) s s' \<and> Q' x | PErr e \<Rightarrow> True | PFuel \<Rightarrow> False"
    by (rule parsesD)
      (use assms(4,5) in \<open>auto simp: frame_def split: if_splits\<close>)
qed

lemma parses_guard:
  assumes "parses t B Q G m p" and "\<And>s. pst t s \<Longrightarrow> G' s \<Longrightarrow> G s"
  shows "parses t B Q G' m p"
  by (rule parses_weaken [OF assms(1) assms(2)]) auto

lemma parses_mono: "parses t B Q G m p \<Longrightarrow> n \<le> m \<Longrightarrow> parses t B Q G n p"
  by (erule parses_weaken) auto

lemma eats_keeps: "eats t Q G m p \<Longrightarrow> parses t B Q G m p"
  by (erule parses_weaken) auto

lemma preturn_rule: "Q x \<Longrightarrow> \<not> B x \<Longrightarrow> parses t B Q G m (preturn x)"
  using frame_refl by (auto intro!: parsesI simp: preturn_def)

lemma pfail_rule: "parses t B Q G m (pfail e)"
  by (auto intro!: parsesI simp: pfail_def)

lemma parses_bind:
  assumes p: "parses t A R G m p"
    and f: "\<And>x s s'. R x \<Longrightarrow> pst t s' \<Longrightarrow> frame (A x) s s' \<Longrightarrow> remaining s \<le> m \<Longrightarrow>
      (case f x s' of POk y s'' \<Rightarrow> frame (B y \<and> \<not> A x) s' s'' \<and> Q y | PErr e \<Rightarrow> True | PFuel \<Rightarrow> False)"
  shows "parses t B Q G m (pbind p f)"
proof (rule parsesI)
  fix s
  assume s: "pst t s" "remaining s \<le> m" "G s"
  show "case pbind p f s of POk x s' \<Rightarrow> frame (B x) s s' \<and> Q x | PErr e \<Rightarrow> True | PFuel \<Rightarrow> False"
    using p s
  proof (cases rule: parsesD)
    case (ok x s')
    from f [OF ok(3) pst_frame [OF s(1) ok(2)] ok(2) s(2)] ok(1,2) show ?thesis
      by (auto simp: pbind_def split: presult.splits intro: frame_trans)
  qed (simp add: pbind_def)
qed

lemma bind_eat_drop:
  assumes "eats t R G0 (Suc m) p" and "\<And>s. pst t s \<Longrightarrow> G s \<Longrightarrow> G0 s"
    and "\<And>x. R x \<Longrightarrow> keeps t Q ANY m (f x)"
  shows "parses t B Q G (Suc m) (pbind p f)"
proof (rule parses_bind [OF parses_guard [OF assms(1,2)]])
  fix x s s'
  assume x: "R x" and s': "pst t s'" "frame True s s'" "remaining s \<le> Suc m"
  then have "remaining s' \<le> m" using frame_remaining(2) by fastforce
  with assms(3) [OF x] s'(1)
  show "case f x s' of POk y s'' \<Rightarrow> frame (B y \<and> \<not> True) s' s'' \<and> Q y | PErr e \<Rightarrow> True | PFuel \<Rightarrow> False"
    by (rule parsesD) auto
qed

lemma bind_eat:
  assumes "eats t R G0 m p" and "\<And>s. pst t s \<Longrightarrow> G s \<Longrightarrow> G0 s"
    and "\<And>x. R x \<Longrightarrow> keeps t Q ANY m (f x)"
  shows "parses t B Q G m (pbind p f)"
proof (rule parses_bind [OF parses_guard [OF assms(1,2)]])
  fix x s s'
  assume x: "R x" and s': "pst t s'" "frame True s s'" "remaining s \<le> m"
  then have "remaining s' \<le> m" using frame_remaining(2) by fastforce
  with assms(3) [OF x] s'(1)
  show "case f x s' of POk y s'' \<Rightarrow> frame (B y \<and> \<not> True) s' s'' \<and> Q y | PErr e \<Rightarrow> True | PFuel \<Rightarrow> False"
    by (rule parsesD) auto
qed

lemma bind_keep:
  assumes "keeps t R G0 m p" and "\<And>s. pst t s \<Longrightarrow> G s \<Longrightarrow> G0 s"
    and "\<And>x. R x \<Longrightarrow> parses t B Q ANY m (f x)"
  shows "parses t B Q G m (pbind p f)"
proof (rule parses_bind [OF parses_guard [OF assms(1,2)]])
  fix x s s'
  assume x: "R x" and s': "pst t s'" "frame False s s'" "remaining s \<le> m"
  then have "remaining s' \<le> m" using frame_remaining(1) by fastforce
  with assms(3) [OF x] s'(1)
  show "case f x s' of POk y s'' \<Rightarrow> frame (B y \<and> \<not> False) s' s'' \<and> Q y | PErr e \<Rightarrow> True | PFuel \<Rightarrow> False"
    by (rule parsesD) auto
qed

lemma pif_rule:
  assumes "parses t B Q (\<lambda>s. G s \<and> c s) m p" and "parses t B Q (\<lambda>s. G s \<and> \<not> c s) m q"
  shows "parses t B Q G m (pif c p q)"
  using assms unfolding parses_def pif_def by simp

lemma pget_rule:
  assumes "\<And>x. parses t B Q (\<lambda>s. G s \<and> h s = x) m (f x)"
  shows "parses t B Q G m (pget h f)"
  using assms unfolding parses_def pget_def by simp

lemma here_rule:
  assumes "\<And>l c. parses t B Q G m (f l c)"
  shows "parses t B Q G m (here f)"
  using assms unfolding parses_def pget_def here_def by simp

lemma if_rule:
  assumes "b \<Longrightarrow> parses t B Q G m p" and "\<not> b \<Longrightarrow> parses t B Q G m q"
  shows "parses t B Q G m (if b then p else q)"
  using assms by simp

lemma option_rule:
  assumes "\<And>x. o' = Some x \<Longrightarrow> parses t B Q G m (f x)" and "o' = None \<Longrightarrow> parses t B Q G m q"
  shows "parses t B Q G m (case o' of None \<Rightarrow> q | Some x \<Rightarrow> f x)"
  using assms by (cases o') auto

subsection \<open>Loops\<close>

lemma ploop_fuel_rule:
  assumes step: "\<And>a. Inv a \<Longrightarrow> parses t isl (case_sum Inv Q) ANY m (f a)"
    and "remaining s < n" and "Inv a" and "pst t s" and "remaining s \<le> m"
  shows "case ploop_fuel n f a s of POk x s' \<Rightarrow> frame False s s' \<and> Q x | PErr e \<Rightarrow> True | PFuel \<Rightarrow> False"
  using assms(2-)
proof (induction n arbitrary: a s)
  case (Suc n)
  show ?case
    using step [OF Suc.prems(2)] Suc.prems(3,4) TrueI
  proof (cases rule: parsesD)
    case (ok r s')
    show ?thesis
    proof (cases r)
      case (Inl a')
      have fr: "frame True s s'" using ok(2) Inl by simp
      then have rem: "remaining s' < remaining s" by (rule frame_remaining)
      have "case ploop_fuel n f a' s' of POk x s'' \<Rightarrow> frame False s' s'' \<and> Q x
          | PErr e \<Rightarrow> True | PFuel \<Rightarrow> False"
        using Suc.prems rem ok(3) Inl pst_frame [OF Suc.prems(3) fr] by (intro Suc.IH) auto
      then show ?thesis
        using ok(1) Inl fr by (auto split: presult.splits intro: frame_trans)
    next
      case (Inr b)
      then show ?thesis using ok by simp
    qed
  qed simp
qed simp

lemma ploop_rule:
  assumes "\<And>a. Inv a \<Longrightarrow> parses t isl (case_sum Inv Q) ANY m (f a)" and "Inv a"
  shows "keeps t Q G m (ploop f a)"
proof (rule parsesI)
  fix s
  assume "pst t s" "remaining s \<le> m"
  then show "case ploop f a s of POk x s' \<Rightarrow> frame False s s' \<and> Q x | PErr e \<Rightarrow> True | PFuel \<Rightarrow> False"
    unfolding ploop_def by (intro ploop_fuel_rule [OF assms(1)]) (auto simp: assms(2))
qed

text \<open>A loop whose first turn consumes a token.\<close>

lemma ploop_eat_rule:
  assumes "\<And>a. Inv a \<Longrightarrow> parses t isl (case_sum Inv Q) ANY m (f a)"
    and "eats t (case_sum Inv Q) G m (f a)"
  shows "eats t Q G m (ploop f a)"
proof (rule parsesI)
  fix s
  assume s: "pst t s" "remaining s \<le> m" "G s"
  show "case ploop f a s of POk x s' \<Rightarrow> frame True s s' \<and> Q x | PErr e \<Rightarrow> True | PFuel \<Rightarrow> False"
    using assms(2) s
  proof (cases rule: parsesD)
    case (ok r s')
    show ?thesis
    proof (cases r)
      case (Inl a')
      have "remaining s' < remaining s" using frame_remaining(2) ok(2) by blast
      then have "case ploop_fuel (remaining s) f a' s' of POk x s'' \<Rightarrow> frame False s' s'' \<and> Q x
          | PErr e \<Rightarrow> True | PFuel \<Rightarrow> False"
        using s ok Inl pst_frame [OF s(1) ok(2)] by (intro ploop_fuel_rule [OF assms(1)]) auto
      then show ?thesis
        using ok(1,2) Inl by (auto simp: ploop_def split: presult.splits intro: frame_trans)
    qed (use ok in \<open>simp add: ploop_def\<close>)
  qed (simp add: ploop_def)
qed

lemma pwhile_rule:
  assumes "eats t R c m step"
  shows "keeps t (list_all R) G m (pwhile c step)"
  unfolding pwhile_def
proof (rule ploop_rule [where Inv = "list_all R"])
  fix xs
  assume xs: "list_all R xs"
  show "parses t isl (case_sum (list_all R) (list_all R)) ANY m
      (pif c (pbind step (\<lambda>x. preturn (Inl (xs @ [x])))) (preturn (Inr xs)))"
    by (intro pif_rule bind_eat [OF assms] preturn_rule) (use xs in auto)
qed simp

subsection \<open>Token navigation\<close>

lemmas guard_simps = check_def kind_is_def check_identifier_lexeme_def in_block_def at_end_iff

lemma advance_ok: "eats t ANY (\<lambda>s. \<not> at_end s) m advance"
  by (auto intro!: parsesI simp: advance_def advance_frame)

lemma skip_newlines_ok: "keeps t ANY ANY m skip_newlines"
  using skip_newlines_frame by (auto intro!: parsesI simp: skip_newlines_def)

lemmas advance_bind_drop = bind_eat_drop [OF advance_ok]
lemmas advance_bind = bind_eat [OF advance_ok]
lemmas skip_newlines_bind = bind_keep [OF skip_newlines_ok]

lemma advance_tail:
  "(\<And>s. pst t s \<Longrightarrow> G s \<Longrightarrow> \<not> at_end s) \<Longrightarrow> Q () \<Longrightarrow> parses t B Q G m advance"
  by (rule parses_weaken [OF advance_ok]) auto

lemmas core_rules = pfail_rule here_rule pif_rule pget_rule if_rule option_rule
  advance_bind_drop advance_bind skip_newlines_bind advance_tail

lemma expect_ok: "eats t ANY ANY m (expect k)"
  unfolding expect_def by (intro core_rules) (auto simp: guard_simps)

lemma identifier_of_Some: "identifier_of k = Some w \<longleftrightarrow> k = TkIdentifier w"
  by (cases k) auto

lemma integer_of_Some: "integer_of k = Some n \<longleftrightarrow> k = TkInteger n"
  by (cases k) auto

lemma string_of_Some: "string_of k = Some v \<longleftrightarrow> k = TkStringLiteral v"
  by (cases k) auto

lemma cur_in_tokens: "pst t s \<Longrightarrow> cur s \<in> set (ps_tokens s)"
  by (auto simp: pst_def cur_def min_def)

lemma cur_identifier: "pst t s \<Longrightarrow> cur_kind s = TkIdentifier w \<Longrightarrow> unreserved w"
  using cur_in_tokens [of t s]
  by (auto simp: pst_def stream_ok_def list_all_iff identifier_ok_def cur_kind_def
      dest!: bspec [of _ _ "cur s"])

lemma reserved_not_eof: "reserved_word_as_name s = Some w \<Longrightarrow> cur_kind s \<noteq> TkEof"
  using keyword_lookup_word_kind
  by (fastforce simp: reserved_word_as_name_def split: option.splits if_splits)

text \<open>A word read from the token at the cursor: what is known of the token is known of the word.\<close>

lemma read_word:
  assumes "\<And>s. pst t s \<Longrightarrow> G s \<Longrightarrow> \<not> at_end s \<and> Q x"
  shows "eats t Q G m (pbind advance (\<lambda>_. preturn x))"
proof (rule parsesI)
  fix s
  assume "pst t s" "G s"
  with assms [OF this] show "case pbind advance (\<lambda>_. preturn x) s of
      POk x s' \<Rightarrow> frame True s s' \<and> Q x | PErr e \<Rightarrow> True | PFuel \<Rightarrow> False"
    by (simp add: pbind_def advance_def preturn_def advance_frame)
qed

lemma expect_identifier_ok: "eats t (\<lambda>(w, _, _). unreserved w) ANY m expect_identifier"
  unfolding expect_identifier_def pseq_def
  by (intro pfail_rule here_rule pif_rule pget_rule option_rule read_word)
    (auto simp: identifier_of_Some at_end_iff dest: cur_identifier)

lemma expect_name_ok: "eats t ANY ANY m expect_name"
  unfolding expect_name_def pseq_def
  by (intro pfail_rule here_rule pif_rule pget_rule option_rule read_word)
    (auto simp: identifier_of_Some at_end_iff dest: reserved_not_eof)

lemma expect_identifier_lexeme_ok: "eats t ANY ANY m (expect_identifier_lexeme w)"
  unfolding expect_identifier_lexeme_def by (intro core_rules) (auto simp: guard_simps)

lemma expect_integer_ok: "eats t ANY ANY m expect_integer"
  unfolding expect_integer_def pseq_def
  by (intro pfail_rule pget_rule option_rule read_word) (auto simp: integer_of_Some at_end_iff)

lemma expect_string_ok: "eats t ANY ANY m expect_string"
  unfolding expect_string_def pseq_def
  by (intro pfail_rule pget_rule option_rule read_word) (auto simp: string_of_Some at_end_iff)

lemma word_bind:
  assumes "eats t R ANY m p" and "\<And>x. R x \<Longrightarrow> keeps t Q ANY m (f x)"
  shows "parses t B Q G m (pbind p f)"
  by (rule bind_eat [OF assms(1)]) (use assms(2) in auto)

lemma word_bind_drop:
  assumes "eats t R ANY (Suc m) p" and "\<And>x. R x \<Longrightarrow> keeps t Q ANY m (f x)"
  shows "parses t B Q G (Suc m) (pbind p f)"
  by (rule bind_eat_drop [OF assms(1)]) (use assms(2) in auto)

lemma loose_bind:
  assumes "keeps t R ANY m p" and "\<And>x. R x \<Longrightarrow> parses t B Q ANY m (f x)"
  shows "parses t B Q G m (pbind p f)"
  by (rule bind_keep [OF assms(1)]) (use assms(2) in auto)

text \<open>An inner choice whose result is bound.\<close>

lemma pif_bind:
  assumes "keeps t R (\<lambda>s. G s \<and> c s) m p" and "keeps t R (\<lambda>s. G s \<and> \<not> c s) m q"
    and "\<And>x. R x \<Longrightarrow> parses t B Q ANY m (f x)"
  shows "parses t B Q G m (pbind (pif c p q) f)"
  by (rule bind_keep [OF pif_rule [OF assms(1,2)]]) (use assms(3) in auto)

lemma triple_rule:
  assumes "\<And>a b c. x = (a, b, c) \<Longrightarrow> parses t B Q G m (f a b c)"
  shows "parses t B Q G m (case x of (a, b, c) \<Rightarrow> f a b c)"
  using assms by (cases x) auto

lemma pair_rule:
  assumes "\<And>a b. x = (a, b) \<Longrightarrow> parses t B Q G m (f a b)"
  shows "parses t B Q G m (case x of (a, b) \<Rightarrow> f a b)"
  using assms by (cases x) auto

lemma block_items_ok:
  assumes "eats t R ANY m item"
  shows "keeps t (list_all R) G m (block_items item)"
  unfolding block_items_def pseq_def
  by (intro skip_newlines_bind pwhile_rule word_bind [OF assms] preturn_rule) auto

lemma expect_tail: "Q () \<Longrightarrow> parses t B Q G m (expect k)"
  by (rule parses_weaken [OF expect_ok]) auto

lemmas token_binds =
  expect_tail
  word_bind_drop [OF expect_ok] word_bind [OF expect_ok]
  word_bind_drop [OF expect_identifier_ok] word_bind [OF expect_identifier_ok]
  word_bind_drop [OF expect_name_ok] word_bind [OF expect_name_ok]
  word_bind_drop [OF expect_identifier_lexeme_ok] word_bind [OF expect_identifier_lexeme_ok]
  word_bind_drop [OF expect_integer_ok] word_bind [OF expect_integer_ok]
  word_bind_drop [OF expect_string_ok] word_bind [OF expect_string_ok]

lemmas [parse_rules] = core_rules token_binds triple_rule pair_rule preturn_rule

subsection \<open>The callbacks\<close>

locale callbacks =
  fixes P :: parsers and m :: nat
  assumes pe_ok: "eats t (\<lambda>e. wf_expr e t) ANY m (pe P prec)"
    and ps_ok: "eats t (\<lambda>s. wf_stmt s t) ANY m (ps P)"
begin

lemmas callback_binds [parse_rules] =
  word_bind [OF pe_ok] word_bind [OF ps_ok] loose_bind [OF block_items_ok [OF ps_ok]]

lemma split_final_expression_wf:
  "list_all (\<lambda>s. wf_stmt s t) stmts \<Longrightarrow>
   pred_task_body (\<lambda>e. wf_expr e t) (\<lambda>s. wf_stmt s t) (split_final_expression stmts)"
  by (cases stmts rule: rev_cases)
    (auto simp: split_final_expression_def split: statement.splits)

lemma parse_expression_block_body_ok:
  "eats t (pred_task_body (\<lambda>e. wf_expr e t) (\<lambda>s. wf_stmt s t)) ANY m (parse_expression_block_body P)"
  unfolding parse_expression_block_body_def pseq_def
  by (intro parse_rules) (auto intro: split_final_expression_wf)

lemmas block_body_binds [parse_rules] = word_bind [OF parse_expression_block_body_ok]

lemma parse_task_like_body_ok:
  "eats t (pred_task_body (\<lambda>e. wf_expr e t) (\<lambda>s. wf_stmt s t)) ANY m (parse_task_like_body P)"
  unfolding parse_task_like_body_def pseq_def
  by (intro parse_rules parses_guard [OF parse_expression_block_body_ok]) (auto simp: guard_simps)

end

end
