(* ===== verification/Parser_Wf.thy ===== *)
theory Parser_Wf
  imports Parser_Hoare
begin

text \<open>
  Every method of the parser of \<^verbatim>\<open>src/src/parser.rs\<close> terminates, stays inside the token stream and
  builds well-formed trees, given that the methods it calls back do; tying the knot gives the
  same of the whole parser.
\<close>

lemmas ast_pred_simps = list.pred_map option.pred_map argument.pred_map match_arm.pred_map
  task_body.pred_map pipeline_stage.pred_map auth_provider.pred_map
  auth_provider_field.pred_map scenario_step.pred_map o_def

lemma advance2:
  assumes "\<And>s. pst t s \<Longrightarrow> G s \<Longrightarrow> \<not> at_end s \<and> (\<exists>k. peek_kind s = Some k \<and> k \<noteq> TkEof)"
    and "keeps t Q ANY m q"
  shows "parses t B Q G m (pbind advance (\<lambda>_. pbind advance (\<lambda>_. q)))"
proof -
  have "eats t ANY G m (pbind advance (\<lambda>_. advance))"
  proof (rule parsesI)
    fix s
    assume s: "pst t s" "G s"
    let ?s = "parser_advance s"
    have f: "frame True s ?s" using advance_frame [OF s(1)] assms(1) [OF s] by blast
    have "cur_kind ?s \<noteq> TkEof"
      using assms(1) [OF s] s(1)
      by (auto simp: peek_kind_def cur_kind_def cur_def pst_def parser_advance_def min_def
          split: if_splits)
    then have "frame True ?s (parser_advance ?s)"
      using advance_frame pst_frame [OF s(1) f] at_end_iff by blast
    with f show "case pbind advance (\<lambda>_. advance) s of POk x s' \<Rightarrow> frame True s s' \<and> True
        | PErr e \<Rightarrow> True | PFuel \<Rightarrow> False"
      by (auto simp: pbind_def advance_def intro: frame_trans)
  qed
  then have "parses t B Q G m (pbind (pbind advance (\<lambda>_. advance)) (\<lambda>_. q))"
    by (rule bind_eat) (use assms(2) in auto)
  moreover have "pbind (pbind advance (\<lambda>_. advance)) (\<lambda>_. q) = pbind advance (\<lambda>_. pbind advance (\<lambda>_. q))"
    by (simp add: pbind_def advance_def fun_eq_iff)
  ultimately show ?thesis by simp
qed

lemma advance2_drop:
  assumes "\<And>s. pst t s \<Longrightarrow> G s \<Longrightarrow> \<not> at_end s \<and> (\<exists>k. peek_kind s = Some k \<and> k \<noteq> TkEof)"
    and "keeps t Q ANY (Suc m) q"
  shows "parses t B Q G (Suc m) (pbind advance (\<lambda>_. pbind advance (\<lambda>_. q)))"
  by (rule advance2 [OF assms])

text \<open>Saving the position, skipping newlines and going back when what follows is not a block.\<close>

lemma rewind_rule:
  assumes "\<And>saved s. pst t s \<Longrightarrow> remaining s \<le> m \<Longrightarrow> G s \<Longrightarrow> ps_pos s = saved \<Longrightarrow>
    (case f saved (skip_newlines_state s) of
       POk x s' \<Rightarrow> frame (B x) s s' \<and> Q x | PErr e \<Rightarrow> True | PFuel \<Rightarrow> False)"
  shows "parses t B Q G m (pget ps_pos (\<lambda>saved. pbind skip_newlines (\<lambda>_. f saved)))"
  by (rule parsesI) (use assms in \<open>simp add: pget_def pbind_def skip_newlines_def\<close>)

lemma set_pos_back:
  "pst t s \<Longrightarrow> (skip_newlines_state s)\<lparr>ps_pos := ps_pos s\<rparr> = s"
  using skip_newlines_frame [of t s] by (metis parser.surjective parser.update_convs(2))

lemma advance_run: "pbind advance f s = f () (parser_advance s)"
  by (simp add: pbind_def advance_def)

lemma set_pos_back_frame:
  assumes "keeps t Q ANY m q" and "pst t s" and "remaining s \<le> m"
  shows "case pbind (set_pos (ps_pos s)) (\<lambda>_. q) (skip_newlines_state s) of
    POk x s' \<Rightarrow> frame False s s' \<and> Q x | PErr e \<Rightarrow> True | PFuel \<Rightarrow> False"
  using parsesD [OF assms TrueI] set_pos_back [OF assms(2)]
  by (cases rule: parsesD [OF assms TrueI]) (simp_all add: pbind_def set_pos_def)

lemma after_newlines:
  assumes "parses t B Q c m p" and "pst t s" and "remaining s \<le> m" and "c (skip_newlines_state s)"
  shows "case p (skip_newlines_state s) of
    POk x s' \<Rightarrow> frame (B x) s s' \<and> Q x | PErr e \<Rightarrow> True | PFuel \<Rightarrow> False"
proof -
  have f: "frame False s (skip_newlines_state s)" using skip_newlines_frame [OF assms(2)] by simp
  have "remaining (skip_newlines_state s) \<le> m" using frame_remaining(1) [OF f] assms(3) by simp
  from assms(1) pst_frame [OF assms(2) f] this assms(4) show ?thesis
    by (cases rule: parsesD) (auto intro: frame_trans [OF f])
qed

lemma rewind_keep:
  assumes "keeps t Q c m p" and "keeps t Q ANY m q"
  shows "keeps t Q G m (pget ps_pos (\<lambda>saved. pbind skip_newlines (\<lambda>_.
    pif c p (pbind (set_pos saved) (\<lambda>_. q)))))"
proof (rule rewind_rule)
  fix saved s
  assume s: "pst t s" "remaining s \<le> m" and saved: "ps_pos s = saved"
  show "case pif c p (pbind (set_pos saved) (\<lambda>_. q)) (skip_newlines_state s) of
      POk x s' \<Rightarrow> frame False s s' \<and> Q x | PErr e \<Rightarrow> True | PFuel \<Rightarrow> False"
    using after_newlines [OF assms(1) s] set_pos_back_frame [OF assms(2) s] saved
    by (simp add: pif_def)
qed

lemma parses_false: "(\<And>s. pst t s \<Longrightarrow> \<not> G s) \<Longrightarrow> parses t B Q G m p"
  by (auto intro: parsesI)

context callbacks
begin

abbreviation W :: "parse_context \<Rightarrow> expression \<Rightarrow> bool" where "W t \<equiv> \<lambda>e. wf_expr e t"
abbreviation S :: "parse_context \<Rightarrow> statement \<Rightarrow> bool" where "S t \<equiv> \<lambda>s. wf_stmt s t"

lemma argument_step_ok:
  assumes "list_all (pred_argument (W t)) args"
  shows "parses t isl (case_sum (list_all (pred_argument (W t))) (list_all (pred_argument (W t))))
    ANY m (argument_step P args)"
proof -
  have guard: "\<not> at_end s \<and> (\<exists>k. peek_kind s = Some k \<and> k \<noteq> TkEof)"
    if "pst t s" "named_arg_name s = Some n" for s n
    using that at_end_iff [OF that(1)]
    by (auto simp: named_arg_name_def identifier_of_Some split: if_splits option.splits
        dest: reserved_not_eof)
  show ?thesis
    unfolding argument_step_def pseq_def
    by (intro pget_rule option_rule advance2 pif_bind parse_rules)
      (use assms guard in auto)
qed

lemma parse_argument_list_ok:
  "keeps t (list_all (pred_argument (W t))) ANY m (parse_argument_list P)"
  unfolding parse_argument_list_def
  by (intro parse_rules ploop_rule [where Inv = "list_all (pred_argument (W t))"] argument_step_ok) auto

lemmas argument_binds [parse_rules] = loose_bind [OF parse_argument_list_ok]

subsection \<open>Literals\<close>

lemma parse_list_literal_ok: "eats t (W t) (\<lambda>s. \<not> at_end s) (Suc m) (parse_list_literal P)"
proof -
  have "eats t (W t) ANY m (pbind (pe P PREC_NONE) (\<lambda>e.
      pseq (pif (check TkRightBracket) (preturn ()) (expect TkComma)) (preturn e)))"
    unfolding pseq_def by (intro parse_rules pif_bind) auto
  note item = parses_guard [OF this]
  show ?thesis
    unfolding parse_list_literal_def pseq_def [of advance] pseq_def [of "expect _"]
    by (intro parse_rules loose_bind [OF pwhile_rule [OF item]]) (auto simp: ast_pred_simps)
qed

lemma parse_pair_ok: "eats t (\<lambda>kv. wf_expr (snd kv) t) ANY m (parse_pair P)"
  unfolding parse_pair_def pseq_def by (intro parse_rules) auto

lemma parse_map_literal_ok: "eats t (W t) (\<lambda>s. \<not> at_end s) (Suc m) (parse_map_literal P)"
proof -
  have "eats t (\<lambda>kv. wf_expr (snd kv) t) ANY m (pbind (parse_pair P) (\<lambda>kv.
      pseq (pif (check TkRightBrace) (preturn ()) (expect TkComma)) (preturn kv)))"
    unfolding pseq_def by (intro parse_rules pif_bind word_bind [OF parse_pair_ok]) auto
  note item = parses_guard [OF this]
  show ?thesis
    unfolding parse_map_literal_def pseq_def [of advance] pseq_def [of "expect _"]
    by (intro parse_rules loose_bind [OF pwhile_rule [OF item]]) (auto simp: ast_pred_simps)
qed

lemma constructor_step_ok:
  assumes "list_all (\<lambda>kv. wf_expr (snd kv) t) fs"
  shows "parses t isl (case_sum (list_all (\<lambda>kv. wf_expr (snd kv) t)) (list_all (\<lambda>kv. wf_expr (snd kv) t)))
    ANY m (constructor_step P fs)"
  unfolding constructor_step_def pseq_def
  by (intro parse_rules pif_bind word_bind [OF parse_pair_ok]) (use assms in \<open>auto simp: guard_simps\<close>)

lemma parse_schema_constructor_ok:
  assumes "unreserved n"
  shows "eats t (W t) ANY m (parse_schema_constructor P n)"
  unfolding parse_schema_constructor_def pseq_def
  by (intro parse_rules
      loose_bind [OF ploop_rule [where Inv = "list_all (\<lambda>kv. wf_expr (snd kv) t)",
        OF constructor_step_ok]])
    (use assms in \<open>auto simp: ast_pred_simps\<close>)

subsection \<open>Match and if\<close>

lemma parse_match_arm_ok: "eats t (pred_match_arm (W t)) ANY m (parse_match_arm P)"
proof -
  have "eats t (pred_match_pattern (W t)) ANY m
      (pif (kind_is TkFallback) (pseq advance (preturn MpFallback))
        (pbind (pe P PREC_NONE) (\<lambda>e. preturn (MpLiteral e))))"
    unfolding pseq_def by (intro parse_rules) (auto simp: guard_simps)
  note pat = word_bind [OF this]
  show ?thesis
    unfolding parse_match_arm_def by (rule pat) (unfold pseq_def, intro parse_rules, auto)
qed

lemma parse_match_expression_ok: "eats t (W t) (\<lambda>s. \<not> at_end s) (Suc m) (parse_match_expression P)"
  unfolding parse_match_expression_def pseq_def
  by (intro parse_rules loose_bind [OF block_items_ok [OF parse_match_arm_ok]])
    (auto simp: ast_pred_simps)

lemma parse_if_fuel_ok: "eats t (W t) (\<lambda>s. \<not> at_end s) (min n (Suc m)) (parse_if_fuel P n)"
proof (induction n)
  case 0
  show ?case using remaining_pos by (fastforce intro: parsesI)
next
  case (Suc n)
  let ?k = "min n m"
  have IH: "eats t (W t) (\<lambda>s. \<not> at_end s) ?k (parse_if_fuel P n)"
    by (rule parses_mono [OF Suc]) simp
  note body = parses_mono [OF parse_expression_block_body_ok, of ?k]
  have branch: "keeps t (pred_option (pred_task_body (W t) (S t))) ANY ?k
      (pif (check TkElse)
        (pseq advance (pif (check TkIf)
          (pbind (parse_if_fuel P n) (\<lambda>e. preturn (Some (TbInline e))))
          (pbind (parse_expression_block_body P) (\<lambda>b. preturn (Some b)))))
        (preturn None))"
    unfolding pseq_def
    by (intro parse_rules bind_eat [OF IH] bind_eat [OF body]) (auto simp: guard_simps)
  have "eats t (W t) (\<lambda>s. \<not> at_end s) (Suc ?k) (parse_if_fuel P (Suc n))"
    unfolding parse_if_fuel.simps pseq_def [of advance]
    by (intro parse_rules word_bind [OF parses_mono [OF pe_ok]] bind_eat [OF body]
        loose_bind [OF branch [unfolded pseq_def]])
      (auto simp: ast_pred_simps)
  then show ?case by simp
qed

lemma parse_if_expression_ok: "eats t (W t) (\<lambda>s. \<not> at_end s) (Suc m) (parse_if_expression P)"
proof (rule parsesI)
  fix s
  assume s: "pst t s" "remaining s \<le> Suc m" "\<not> at_end s"
  have "remaining s \<le> min (Suc (remaining s)) (Suc m)" using s(2) by simp
  from parse_if_fuel_ok s(1) this s(3)
  show "case parse_if_expression P s of POk x s' \<Rightarrow> frame True s s' \<and> wf_expr x t
      | PErr e \<Rightarrow> True | PFuel \<Rightarrow> False"
    unfolding parse_if_expression_def by (rule parsesD) auto
qed

subsection \<open>Prefix expressions\<close>

lemma parse_queue_schema_ok: "keeps t unreserved_opt ANY n parse_queue_schema"
  unfolding parse_queue_schema_def pseq_def
  by (intro pif_rule advance_bind pget_rule option_rule pfail_rule eats_keeps [OF read_word] preturn_rule)
    (auto simp: guard_simps identifier_of_Some dest: cur_identifier)

lemma parse_queue_producer_args_ok:
  "eats t (\<lambda>(e, sc, pl). wf_expr e t \<and> unreserved_opt sc \<and> pred_option (W t) pl) ANY m
     (parse_queue_producer_args P)"
proof -
  have "keeps t (pred_option (W t)) ANY m (pif (check TkComma)
      (pbind advance (\<lambda>_. pbind (pe P PREC_NONE) (\<lambda>e. preturn (Some e)))) (preturn None))"
    by (intro parse_rules) (auto simp: guard_simps)
  note payload = loose_bind [OF this]
  show ?thesis
    unfolding parse_queue_producer_args_def pseq_def
    by (intro payload loose_bind [OF parse_queue_schema_ok] parse_rules) auto
qed

lemma parse_queue_prefix_ok: "eats t (W t) (\<lambda>s. \<not> at_end s) (Suc m) (parse_queue_prefix P)"
  unfolding parse_queue_prefix_def pseq_def
  by (intro parse_rules word_bind [OF parse_queue_producer_args_ok])
    (auto simp: guard_simps ast_pred_simps)

lemma parse_topic_prefix_ok: "eats t (W t) (\<lambda>s. \<not> at_end s) (Suc m) (parse_topic_prefix P)"
  unfolding parse_topic_prefix_def pseq_def
  by (intro parse_rules word_bind [OF parse_queue_producer_args_ok])
    (auto simp: guard_simps ast_pred_simps)

lemma parse_identifier_prefix_ok:
  assumes "unreserved n"
  shows "eats t (W t) (\<lambda>s. \<not> at_end s) (Suc m) (parse_identifier_prefix P n)"
  unfolding parse_identifier_prefix_def pseq_def
  by (intro parse_rules eats_keeps [OF parses_guard [OF parse_schema_constructor_ok [OF assms]]])
    (auto simp: guard_simps ast_pred_simps)

lemma parse_fail_prefix_ok: "eats t (W t) (\<lambda>s. \<not> at_end s) (Suc m) (parse_fail_prefix P)"
  unfolding parse_fail_prefix_def pseq_def by (intro parse_rules) (auto simp: ast_pred_simps)

lemma word_identifier_not_eof: "word_identifier k = Some w \<Longrightarrow> k \<noteq> TkEof"
  by (auto simp: word_identifier_def split: if_splits)

lemma literal_of_wf:
  assumes "literal_of (cur_kind s) = Some e" and "pst t s"
  shows "wf_expr e t \<and> cur_kind s \<noteq> TkEof"
proof -
  have "cur s \<in> set (ps_tokens s)" using assms(2) by (auto simp: cur_def pst_def)
  then have "v \<in> pc_literals t" if "cur_kind s = TkStringLiteral v" for v
    using that assms(2) by (auto simp: pst_def token_strings_def cur_kind_def)
  with assms(1) show ?thesis by (cases "cur_kind s") (auto dest: word_identifier_not_eof)
qed

lemma literal_rule:
  assumes "literal_of k = None \<Longrightarrow> eats t (W t) (\<lambda>s. True \<and> cur_kind s = k) n q"
  shows "eats t (W t) (\<lambda>s. True \<and> cur_kind s = k) n
    (case literal_of k of Some e \<Rightarrow> pbind advance (\<lambda>_. preturn e) | None \<Rightarrow> q)"
proof (cases "literal_of k")
  case None
  with assms show ?thesis by simp
next
  case (Some e)
  have "eats t (W t) (\<lambda>s. True \<and> cur_kind s = k) n (pbind advance (\<lambda>_. preturn e))"
  proof (rule parsesI)
    fix s
    assume s: "pst t s" "True \<and> cur_kind s = k"
    then have "wf_expr e t \<and> \<not> at_end s"
      using literal_of_wf [of s e t] Some by (auto simp: at_end_iff)
    with advance_frame [OF s(1)]
    show "case pbind advance (\<lambda>_. preturn e) s of POk x s' \<Rightarrow> frame True s s' \<and> W t x
        | PErr e \<Rightarrow> True | PFuel \<Rightarrow> False"
      by (simp add: pbind_def advance_def preturn_def)
  qed
  then show ?thesis by (simp add: Some)
qed

lemma parse_task_call_ok:
  "eats t (W t) (\<lambda>s. \<not> at_end s \<and> peek_kind s = Some TkLeftParen) n
     (pbind advance (\<lambda>_. pbind advance (\<lambda>_. pbind expect_identifier (\<lambda>(name, _, _).
        pbind (expect TkRightParen) (\<lambda>_. preturn (ETaskCall name))))))"
  by (intro advance2 parse_rules) auto

lemma prefix_word_ok:
  "eats t (W t) (\<lambda>s. cur_kind s = TkIdentifier n) (Suc m) (parse_identifier_prefix P n)"
proof (cases "unreserved n")
  case True
  show ?thesis
    by (rule parses_guard [OF parse_identifier_prefix_ok [OF True]]) (auto simp: at_end_iff)
next
  case False
  then show ?thesis using cur_identifier by (auto intro!: parsesI)
qed

lemma parse_prefix_ok: "eats t (W t) ANY (Suc m) (parse_prefix P)"
  unfolding parse_prefix_def pseq_def
  by (rule pget_rule, rule literal_rule,
      intro option_rule if_rule pif_rule pfail_rule
      parses_guard [OF prefix_word_ok] parses_guard [OF parse_task_call_ok]
      parses_guard [OF parse_list_literal_ok] parses_guard [OF parse_map_literal_ok]
      parses_guard [OF parse_match_expression_ok] parses_guard [OF parse_if_expression_ok]
      parses_guard [OF parse_queue_prefix_ok] parses_guard [OF parse_topic_prefix_ok]
      parses_guard [OF parse_fail_prefix_ok] parse_rules)
    (auto simp: at_end_iff identifier_of_Some)

subsection \<open>Pipelines\<close>

abbreviation Stage :: "parse_context \<Rightarrow> (expression, statement) pipeline_stage \<Rightarrow> bool" where
  "Stage t \<equiv> \<lambda>st. pred_pipeline_stage (W t) (S t) st \<and> stage_names_ok st"

lemma optional_expr_ok:
  assumes "\<And>s. pst t s \<Longrightarrow> c s \<Longrightarrow> \<not> at_end s"
  shows "keeps t (pred_option (W t)) G m
    (pif c (pbind advance (\<lambda>_. pbind (pe P prec) (\<lambda>e. preturn (Some e)))) (preturn None))"
  by (intro parse_rules) (use assms in auto)

lemma parse_map_statement_ok:
  "eats t (pred_map_statement (W t) (S t)) ANY m (parse_map_statement P)"
  unfolding parse_map_statement_def pseq_def
  by (intro loose_bind [OF optional_expr_ok] parse_rules) (auto simp: guard_simps)

lemma parse_map_stage_ok:
  "eats t (\<lambda>st. Stage t st \<and> \<not> is_rescue_stage st) (\<lambda>s. \<not> at_end s) m (parse_map_stage P)"
  unfolding parse_map_stage_def pseq_def
  by (intro parse_rules loose_bind [OF block_items_ok [OF parse_map_statement_ok]])
    (auto simp: ast_pred_simps)

lemma parse_reduce_stage_ok:
  "eats t (\<lambda>st. Stage t st \<and> \<not> is_rescue_stage st) (\<lambda>s. \<not> at_end s) m (parse_reduce_stage P)"
  unfolding parse_reduce_stage_def pseq_def
  by (intro parse_rules word_bind [OF parse_task_like_body_ok]) auto

lemma parse_rescue_inline_ok:
  "keeps t (Stage t) ANY m (pif (\<lambda>s. cur_kind s \<notin> {TkNewline, TkDedent, TkEof})
     (pbind (pe P PREC_NONE) (\<lambda>e. preturn (PsRescue (RhInline e))))
     (preturn (PsRescue (RhInline ENull))))"
  by (intro parse_rules) auto

lemma parse_rescue_block_ok:
  "keeps t (Stage t) (check TkIndent) m (pbind advance (\<lambda>_. pbind (block_items (ps P)) (\<lambda>body.
     pbind (expect TkDedent) (\<lambda>_. preturn (PsRescue (RhBlock body))))))"
  by (intro parse_rules) (auto simp: guard_simps ast_pred_simps)

lemma parse_rescue_stage_ok: "eats t (Stage t) (\<lambda>s. \<not> at_end s) m (parse_rescue_stage P)"
  unfolding parse_rescue_stage_def pseq_def
  by (intro advance_bind rewind_keep parse_rescue_block_ok parse_rescue_inline_ok) auto

abbreviation Stages :: "parse_context \<Rightarrow> (expression, statement) pipeline_stage list \<Rightarrow> bool" where
  "Stages t \<equiv> \<lambda>sts. stages_ok sts \<and> list_all (Stage t) sts"

abbreviation Open_stages :: "parse_context \<Rightarrow> (expression, statement) pipeline_stage list \<Rightarrow> bool" where
  "Open_stages t \<equiv> \<lambda>sts. sts \<noteq> [] \<and> list_all (\<lambda>st. Stage t st \<and> \<not> is_rescue_stage st) sts"

lemma Open_stages_ok: "Open_stages t sts \<Longrightarrow> Stages t sts"
  by (auto simp: stages_ok_def list_all_iff dest: in_set_butlastD)

lemma pipeline_turn_ok:
  assumes "list_all (\<lambda>st. Stage t st \<and> \<not> is_rescue_stage st) sts"
  shows "eats t (case_sum (Open_stages t) (Stages t)) (check TkPipeline) m
    (pbind advance (\<lambda>_. pbind skip_newlines (\<lambda>_.
       pif (kind_is TkMap)
         (pbind (parse_map_stage P) (\<lambda>st. pbind skip_newlines (\<lambda>_. preturn (Inl (sts @ [st])))))
       (pif (kind_is TkReduce)
         (pbind (parse_reduce_stage P) (\<lambda>st. pbind skip_newlines (\<lambda>_. preturn (Inl (sts @ [st])))))
       (pif (kind_is TkRescue)
         (pbind (parse_rescue_stage P) (\<lambda>st. preturn (Inr (sts @ [st]))))
         (pbind (pe P (PREC_CALL - 1)) (\<lambda>e.
            pbind skip_newlines (\<lambda>_. preturn (Inl (sts @ [PsExpression e]))))))))))"
  by (intro bind_eat [OF parse_map_stage_ok] bind_eat [OF parse_reduce_stage_ok]
      bind_eat [OF parse_rescue_stage_ok] parse_rules)
    (use assms in \<open>auto simp: guard_simps stages_ok_def list_all_iff\<close>)

lemma pipeline_step_ok:
  assumes "Open_stages t sts"
  shows "parses t isl (case_sum (Open_stages t) (Stages t)) ANY m (pipeline_step P sts)"
  unfolding pipeline_step_def pseq_def
  by (intro pif_rule eats_keeps [OF parses_guard [OF pipeline_turn_ok]] preturn_rule)
    (use assms Open_stages_ok in auto)

lemma parse_pipeline_stages_ok:
  assumes "wf_expr e t"
  shows "eats t (W t) (check TkPipeline) m (parse_pipeline_stages P e)"
proof -
  have "eats t (case_sum (Open_stages t) (Stages t)) (check TkPipeline) m (pipeline_step P [])"
    unfolding pipeline_step_def pseq_def
    by (intro pif_rule parses_guard [OF pipeline_turn_ok] parses_false) auto
  then have "eats t (Stages t) (check TkPipeline) m (ploop (pipeline_step P) [])"
    by (intro ploop_eat_rule [where Inv = "Open_stages t"] pipeline_step_ok)
  note stages = bind_eat [OF this]
  show ?thesis
    unfolding parse_pipeline_stages_def
    by (intro stages preturn_rule) (use assms in \<open>auto simp: ast_pred_simps list_all_iff\<close>)
qed

subsection \<open>Infix expressions and the Pratt loop\<close>

lemma parse_broadcast_ok:
  assumes "wf_expr e t"
  shows "eats t (W t) (\<lambda>s. \<not> at_end s) m (parse_broadcast P e)"
proof -
  have target: "eats t (W t) (check TkArrow) m
      (pbind advance (\<lambda>_. pbind (pe P PREC_NONE) (\<lambda>t. pbind skip_newlines (\<lambda>_. preturn t))))"
    by (intro parse_rules) (auto simp: guard_simps)
  have "keeps t (list_all (W t)) ANY m (pif (check TkIndent)
      (pbind advance (\<lambda>_. pbind skip_newlines (\<lambda>_.
        pbind (pwhile (check TkArrow)
            (pbind advance (\<lambda>_. pbind (pe P PREC_NONE) (\<lambda>t. pbind skip_newlines (\<lambda>_. preturn t)))))
          (\<lambda>targets. pbind (expect TkDedent) (\<lambda>_. preturn targets)))))
      (pbind (expect TkArrow) (\<lambda>_. pbind (pe P PREC_NONE) (\<lambda>t. preturn [t]))))"
    by (intro loose_bind [OF pwhile_rule [OF target]] parse_rules) (auto simp: guard_simps)
  note targets = loose_bind [OF this]
  show ?thesis
    unfolding parse_broadcast_def pseq_def
    by (intro advance_bind skip_newlines_bind targets preturn_rule)
      (use assms in \<open>auto simp: ast_pred_simps\<close>)
qed

lemma parse_access_ok:
  assumes "wf_expr e t"
  shows "eats t (W t) (\<lambda>s. \<not> at_end s) m (parse_access P e)"
  unfolding parse_access_def pseq_def
  by (intro parse_rules) (use assms in \<open>auto simp: guard_simps ast_pred_simps\<close>)

lemma infix_cases:
  "0 < infix_precedence k \<Longrightarrow> binop_of k = None \<Longrightarrow> k \<in> {TkLeftBracket, TkDot, TkPipeline, TkBroadcast}"
  by (cases k) (auto split: operator_token.splits if_splits)

lemma binop_not_eof: "binop_of k = Some b \<Longrightarrow> k \<noteq> TkEof"
  by auto

lemma parse_infix_ok:
  assumes "wf_expr e t"
  shows "eats t (W t) (\<lambda>s. 0 < infix_precedence (cur_kind s)) m (parse_infix P e prec)"
  unfolding parse_infix_def pseq_def
  by (intro pget_rule option_rule if_rule parses_guard [OF parse_access_ok [OF assms]]
      parses_guard [OF parse_pipeline_stages_ok [OF assms]]
      parses_guard [OF parse_broadcast_ok [OF assms]] parses_false [of _ _ _ _ _ "preturn _"] parse_rules)
    (use assms in \<open>auto simp: guard_simps dest: binop_not_eof infix_cases\<close>)

lemma pratt_step_ok:
  assumes "wf_expr e t"
  shows "parses t isl (case_sum (W t) (W t)) ANY m (pratt_step P min_prec e)"
  unfolding pratt_step_def
  by (intro pif_rule pget_rule if_rule bind_eat [OF parse_infix_ok [OF assms]] preturn_rule)
    (use assms in \<open>auto simp: current_infix_precedence_def\<close>)

lemma parse_response_schema_ok:
  assumes "wf_expr e t"
  shows "keeps t (W t) ANY m (parse_response_schema min_prec e)"
proof (cases "is_http_client_method_call e")
  case True
  then show ?thesis
    unfolding parse_response_schema_def pseq_def
    by (intro parse_rules) (use assms in \<open>auto simp: guard_simps\<close>)
next
  case False
  then show ?thesis
    unfolding parse_response_schema_def pseq_def
    by (intro pif_rule parses_false [of _ _ _ _ _ "pbind _ _"] preturn_rule) (use assms in auto)
qed

lemma parse_expression_ok: "eats t (W t) ANY (Suc m) (parse_expression P min_prec)"
  unfolding parse_expression_def pseq_def
  by (intro word_bind_drop [OF parse_prefix_ok]
      loose_bind [OF ploop_rule [where Inv = "W t" and Q = "W t", OF pratt_step_ok]]
      loose_bind [OF parse_response_schema_ok] parse_rules)
    (auto simp: guard_simps)

subsection \<open>A pipeline after an assignment\<close>

lemma maybe_parse_pipeline_ok:
  assumes "wf_expr e t"
  shows "keeps t (W t) ANY m (maybe_parse_pipeline P e)"
proof -
  let ?tail = "\<lambda>saved. pif (check TkPipeline) (parse_pipeline_stages P e)
    (pif (check TkBroadcast) (parse_infix P e PREC_OR) (pbind (set_pos saved) (\<lambda>_. preturn e)))"
  have tail: "case ?tail (ps_pos s) s' of POk x s'' \<Rightarrow> frame False s s'' \<and> wf_expr x t
      | PErr e \<Rightarrow> True | PFuel \<Rightarrow> False"
    if s: "pst t s" "remaining s \<le> m" and f: "frame b s s'" and bk: "s'\<lparr>ps_pos := ps_pos s\<rparr> = s" for s s' b
  proof -
    have r: "remaining s' \<le> m" using frame_remaining(1) [OF f] s(2) by simp
    note s' = pst_frame [OF s(1) f]
    consider "check TkPipeline s'" | "\<not> check TkPipeline s'" "check TkBroadcast s'"
      | "\<not> check TkPipeline s'" "\<not> check TkBroadcast s'" by blast
    then show ?thesis
    proof cases
      case 1
      from parse_pipeline_stages_ok [OF assms] s' r 1 show ?thesis
        by (cases rule: parsesD) (use 1 in \<open>auto simp: pif_def intro: frame_trans [OF f]\<close>)
    next
      case 2
      then have "0 < infix_precedence (cur_kind s')" by (simp add: check_def)
      from parse_infix_ok [OF assms, of PREC_OR] s' r this show ?thesis
        by (cases rule: parsesD) (use 2 in \<open>auto simp: pif_def intro: frame_trans [OF f]\<close>)
    next
      case 3
      then show ?thesis
        using bk assms frame_refl [OF s(1)] by (simp add: pif_def pbind_def set_pos_def preturn_def)
    qed
  qed
  show ?thesis
    unfolding maybe_parse_pipeline_def pseq_def
  proof (rule rewind_rule)
    fix saved s
    assume s: "pst t s" "remaining s \<le> m" and saved: "ps_pos s = saved"
    let ?s1 = "skip_newlines_state s" and ?s2 = "parser_advance (skip_newlines_state s)"
    have f: "frame False s ?s1" using skip_newlines_frame [OF s(1)] by simp
    note bk = set_pos_back [OF s(1)]
    have "?s2\<lparr>ps_pos := ps_pos s\<rparr> = ?s1\<lparr>ps_pos := ps_pos s\<rparr>" by (simp add: parser_advance_def)
    with bk have bk2: "?s2\<lparr>ps_pos := ps_pos s\<rparr> = s" by simp
    have f2: "frame True s ?s2" if "check TkIndent ?s1"
      using that frame_trans [OF f advance_frame [OF pst_frame [OF s(1) f]]] by (simp add: check_def)
    show "case pif (check TkIndent) (pbind advance (\<lambda>_. ?tail saved)) (?tail saved) ?s1 of
        POk x s' \<Rightarrow> frame False s s' \<and> wf_expr x t | PErr e \<Rightarrow> True | PFuel \<Rightarrow> False"
      using tail [OF s f bk] tail [OF s f2 bk2] saved
      by (cases "check TkIndent ?s1") (simp_all add: pif_def [of "check TkIndent"] advance_run)
  qed
qed

subsection \<open>Statements\<close>

lemma parse_assignment_ok: "eats t (\<lambda>s. wf_stmt s t \<and> exportable s) ANY (Suc m) (parse_assignment P)"
proof -
  have "keeps t (W t) (\<lambda>s. kind_is TkMatch s \<or> kind_is TkIf s) m
      (pif (kind_is TkMatch) (parse_match_expression P) (parse_if_expression P))"
    by (intro pif_rule eats_keeps [OF parses_guard [OF parses_mono [OF parse_match_expression_ok]]]
        eats_keeps [OF parses_guard [OF parses_mono [OF parse_if_expression_ok]]])
      (auto simp: guard_simps)
  note block = bind_keep [OF this]
  show ?thesis
    unfolding parse_assignment_def pseq_def
    by (intro block loose_bind [OF maybe_parse_pipeline_ok] parse_rules) (auto simp: guard_simps)
qed

lemma parse_optional_requeue_ok: "keeps t ANY ANY n parse_optional_requeue"
  unfolding parse_optional_requeue_def pseq_def by (intro parse_rules) (auto simp: guard_simps)

lemma parse_require_ok: "eats t (S t) (\<lambda>s. \<not> at_end s) (Suc m) (parse_require P)"
  unfolding parse_require_def pseq_def
  by (intro loose_bind [OF parse_optional_requeue_ok] parse_rules) (auto simp: guard_simps)

lemma parse_reject_ok: "eats t (S t) (\<lambda>s. \<not> at_end s) (Suc m) (parse_reject P)"
  unfolding parse_reject_def pseq_def by (intro parse_rules) auto

lemma parse_while_ok: "eats t (S t) (\<lambda>s. \<not> at_end s) (Suc m) (parse_while P)"
  unfolding parse_while_def pseq_def by (intro parse_rules) (auto simp: ast_pred_simps)

lemma parse_nack_ok: "eats t (S t) (\<lambda>s. \<not> at_end s) (Suc m) parse_nack"
  unfolding parse_nack_def pseq_def
  by (intro loose_bind [OF parse_optional_requeue_ok] parse_rules) auto

lemma parse_raise_ok: "eats t (S t) (\<lambda>s. \<not> at_end s) (Suc m) (parse_raise P)"
  unfolding parse_raise_def pseq_def
  by (intro loose_bind [OF optional_expr_ok] parse_rules) (auto simp: guard_simps ast_pred_simps)

lemma parse_fail_ok: "eats t (S t) (\<lambda>s. \<not> at_end s) (Suc m) (parse_fail P)"
  unfolding parse_fail_def pseq_def by (intro parse_rules) auto

lemma parse_optional_schema_ok: "keeps t unreserved_opt ANY n parse_optional_schema"
  unfolding parse_optional_schema_def pseq_def by (intro parse_rules) (auto simp: guard_simps)

lemma parse_content_type_ok: "keeps t ANY ANY n parse_content_type"
  unfolding parse_content_type_def pseq_def
  by (intro parse_rules) (auto simp: guard_simps identifier_of_Some)

lemma parse_reply_ok: "eats t (S t) (\<lambda>s. \<not> at_end s) (Suc m) (parse_reply P)"
  unfolding parse_reply_def pseq_def
  by (intro loose_bind [OF parse_content_type_ok] loose_bind [OF parse_optional_schema_ok]
      loose_bind [OF optional_expr_ok] parse_rules)
    (auto simp: guard_simps ast_pred_simps)

lemma transaction_rule:
  assumes "keeps (Parse_Context True L) R ANY m p" and "\<And>x. R x \<Longrightarrow> keeps (Parse_Context False L) Q ANY m (f x)"
  shows "keeps (Parse_Context False L) Q G m (pbind (set_inside_transaction True) (\<lambda>_.
    pbind p (\<lambda>x. pbind (set_inside_transaction False) (\<lambda>_. f x))))"
proof (rule parsesI)
  fix s
  assume s: "pst (Parse_Context False L) s" "remaining s \<le> m"
  let ?in = "s\<lparr>ps_inside_transaction := True\<rparr>"
  have "pst (Parse_Context True L) ?in" "remaining ?in \<le> m" using s by (auto simp: pst_def remaining_def)
  from assms(1) this TrueI
  show "case pbind (set_inside_transaction True) (\<lambda>_. pbind p (\<lambda>x.
      pbind (set_inside_transaction False) (\<lambda>_. f x))) s of
      POk x s' \<Rightarrow> frame False s s' \<and> Q x | PErr e \<Rightarrow> True | PFuel \<Rightarrow> False"
  proof (cases rule: parsesD)
    case (ok x s1)
    let ?out = "s1\<lparr>ps_inside_transaction := False\<rparr>"
    have f: "frame False s ?out" using ok(2) s(1) by (auto simp: frame_def pst_def)
    have "remaining ?out \<le> m" using frame_remaining(1) [OF f] s(2) by simp
    from assms(2) [OF ok(3)] pst_frame [OF s(1) f] this TrueI show ?thesis
      by (cases rule: parsesD)
        (use ok(1) in \<open>auto simp: pbind_def set_inside_transaction_def intro: frame_trans [OF f]\<close>)
  qed (simp add: pbind_def set_inside_transaction_def)
qed

lemma parse_transaction_ok: "eats t (S t) (\<lambda>s. \<not> at_end s) (Suc m) (parse_transaction P)"
proof (cases "pc_inside t")
  case True
  then show ?thesis
    unfolding parse_transaction_def
    by (intro here_rule pif_rule pfail_rule parses_false) (auto simp: pst_def)
next
  case False
  then obtain L where t: "t = Parse_Context False L" by (cases t) auto
  have tx: "keeps (Parse_Context False L) (S (Parse_Context False L)) ANY m (pbind (set_inside_transaction True) (\<lambda>_.
      pbind (block_items (ps P)) (\<lambda>body. pbind (set_inside_transaction False) (\<lambda>_.
        pbind (expect TkDedent) (\<lambda>_. preturn (STransaction body l c))))))" for l c
    by (intro transaction_rule [OF block_items_ok [OF ps_ok]] parse_rules) (auto simp: ast_pred_simps)
  show ?thesis
    unfolding parse_transaction_def pseq_def t
    by (intro tx parse_rules) auto
qed

subsection \<open>Queue consumers and tasks\<close>

lemma parse_on_binding_ok: "eats t unreserved ANY n parse_on_binding"
  unfolding parse_on_binding_def pseq_def
  by (intro pget_rule option_rule pfail_rule read_word)
    (auto simp: identifier_of_Some at_end_iff dest: cur_identifier)

lemma parse_on_kind_ok: "eats t ANY ANY n parse_on_kind"
  unfolding parse_on_kind_def pseq_def by (intro parse_rules) (auto simp: guard_simps)

lemma parse_on_ok: "eats t (S t) (\<lambda>s. \<not> at_end s) (Suc m) (parse_on P)"
  unfolding parse_on_def pseq_def
  by (intro word_bind [OF parse_on_kind_ok] word_bind [OF parse_on_binding_ok]
      loose_bind [OF parse_queue_schema_ok] parse_rules)
    (auto simp: ast_pred_simps)

lemma parse_param_ok: "eats t param_ok ANY n parse_param"
  unfolding parse_param_def
  by (intro loose_bind [OF parse_optional_schema_ok] parse_rules) (auto simp: param_ok_def)

lemma parse_param_list_ok: "keeps t (list_all param_ok) ANY n parse_param_list"
proof -
  have "eats t param_ok (check TkComma) n (pbind advance (\<lambda>_. parse_param))"
    by (intro advance_bind eats_keeps [OF parse_param_ok]) (auto simp: check_def)
  note more = loose_bind [OF pwhile_rule [OF this]]
  show ?thesis
    unfolding parse_param_list_def pseq_def
    by (intro word_bind [OF parse_param_ok] more parse_rules) auto
qed

lemma parse_task_def_ok:
  "eats t (\<lambda>s. wf_stmt s t \<and> exportable s) (\<lambda>s. \<not> at_end s) (Suc m) (parse_task_def P)"
  unfolding parse_task_def_def pseq_def
  by (intro loose_bind [OF parse_param_list_ok] word_bind [OF parse_task_like_body_ok] parse_rules)
    (auto simp: ast_pred_simps)

subsection \<open>Routes and authentication\<close>

lemma parse_http_verb_ok: "eats t ANY ANY n parse_http_verb"
  unfolding parse_http_verb_def pseq_def by (intro parse_rules) (auto simp: at_end_iff)

lemma take_step_ok:
  assumes "list_all take_ok bs"
  shows "parses t isl (case_sum (list_all take_ok) (list_all take_ok)) ANY n (take_step bs)"
  unfolding take_step_def pseq_def Let_def
  by (intro loose_bind [OF parse_optional_schema_ok] parse_rules)
    (use assms in \<open>auto simp: guard_simps take_ok_def\<close>)

lemma parse_take_bindings_ok: "keeps t (list_all take_ok) ANY n parse_take_bindings"
  unfolding parse_take_bindings_def
  by (rule ploop_rule [where Inv = "list_all take_ok", OF take_step_ok]) auto

lemma parse_route_auth_ok:
  "eats t (\<lambda>a. unreserved (ra_provider a)) (\<lambda>s. \<not> at_end s) n parse_route_auth"
  unfolding parse_route_auth_def pseq_def by (intro parse_rules) auto

lemma take_lines_step_ok:
  assumes "list_all take_ok bs"
  shows "parses t isl (case_sum (list_all take_ok) (list_all take_ok)) ANY n (take_lines_step b bs)"
  unfolding take_lines_step_def pseq_def
  by (intro loose_bind [OF parse_take_bindings_ok] parse_rules)
    (use assms in \<open>auto simp: guard_simps\<close>)

lemma parse_route_item_ok: "eats t (S t) ANY m (parse_route_item P)"
  unfolding parse_route_item_def by (intro parse_rules parses_guard [OF ps_ok]) auto

lemma parse_route_ok: "eats t (S t) (\<lambda>s. \<not> at_end s) (Suc m) (parse_route P)"
proof -
  have inline: "keeps t (list_all take_ok) ANY m
      (pif (kind_is TkTake) (pbind advance (\<lambda>_. parse_take_bindings)) (preturn []))"
    by (intro parse_rules parse_take_bindings_ok) (auto simp: guard_simps)
  have lines: "keeps t (list_all take_ok) ANY m (ploop (take_lines_step b) bs)"
    if "list_all take_ok bs" for b bs
    by (rule ploop_rule [where Inv = "list_all take_ok", OF take_lines_step_ok]) (use that in auto)
  have auth: "keeps t (pred_option (\<lambda>a. unreserved (ra_provider a))) ANY m
      (pif at_require_auth (pbind parse_route_auth (\<lambda>a. pbind skip_newlines (\<lambda>_. preturn (Some a))))
        (preturn None))"
    by (intro bind_eat [OF parse_route_auth_ok] parse_rules) (auto simp: at_require_auth_def guard_simps)
  have allow: "eats t (W t) (check_identifier_lexeme ''allow'') m
      (pbind (parse_route_allow P) (\<lambda>e. pbind skip_newlines (\<lambda>_. preturn e)))"
  proof -
    have "eats t (W t) (\<lambda>s. \<not> at_end s) m (parse_route_allow P)"
      unfolding parse_route_allow_def pseq_def by (intro advance_bind eats_keeps [OF pe_ok]) auto
    note one = bind_eat [OF this]
    show ?thesis by (intro one parse_rules) (auto simp: guard_simps)
  qed
  have item: "eats t (S t) in_block m (pbind (parse_route_item P) (\<lambda>x. pbind skip_newlines (\<lambda>_. preturn x)))"
    by (intro word_bind [OF parse_route_item_ok] parse_rules) auto
  show ?thesis
    unfolding parse_route_def pseq_def
    by (intro word_bind [OF parse_http_verb_ok] loose_bind [OF inline] loose_bind [OF lines]
        loose_bind [OF auth] loose_bind [OF pwhile_rule [OF allow]] loose_bind [OF pwhile_rule [OF item]]
        parse_rules)
      (auto simp: ast_pred_simps)
qed

lemma parse_auth_field_ok: "eats t (pred_auth_provider_field (W t)) ANY m (parse_auth_field P)"
  unfolding parse_auth_field_def pseq_def by (intro pif_bind parse_rules) (auto simp: guard_simps)

lemma parse_auth_provider_ok: "eats t (S t) (\<lambda>s. \<not> at_end s) (Suc m) (parse_auth_provider P)"
  unfolding parse_auth_provider_def pseq_def
  by (intro loose_bind [OF pwhile_rule [OF parses_guard [OF parse_auth_field_ok]]] parse_rules)
    (auto simp: ast_pred_simps)

subsection \<open>Schemas\<close>

abbreviation Enum :: "string list \<Rightarrow> bool" where
  "Enum \<equiv> \<lambda>vs. distinct vs \<and> [] \<notin> set vs"

lemma enum_step_ok:
  assumes "Enum vs"
  shows "parses t isl (case_sum Enum (\<lambda>vs. vs \<noteq> [] \<and> Enum vs)) ANY n (enum_step l c vs)"
  unfolding enum_step_def pseq_def by (intro parse_rules) (use assms in auto)

lemma parse_enum_schema_type_ok:
  "eats t wf_schema_type (\<lambda>s. \<not> at_end s) n parse_enum_schema_type"
  unfolding parse_enum_schema_type_def pseq_def
  by (intro loose_bind [OF ploop_rule [where Inv = Enum and Q = "\<lambda>vs. vs \<noteq> [] \<and> Enum vs",
        OF enum_step_ok]] parse_rules)
    auto

lemma primitive_type_ok: "primitive_type k = Some ty \<Longrightarrow> wf_schema_type ty \<and> k \<noteq> TkEof"
  by (auto simp: primitive_type_def split: if_splits)

lemma parse_schema_type_fuel_ok: "eats t wf_schema_type ANY n (parse_schema_type_fuel n)"
proof (induction n)
  case 0
  show ?case using remaining_pos by (fastforce intro: parsesI)
next
  case (Suc n)
  show ?case
    unfolding parse_schema_type_fuel.simps pseq_def
    by (intro word_bind [OF Suc] parses_guard [OF parse_enum_schema_type_ok] parse_rules)
      (auto simp: at_end_iff guard_simps dest: primitive_type_ok)
qed

lemma parse_schema_type_ok: "eats t wf_schema_type ANY n parse_schema_type"
proof (rule parsesI)
  fix s
  assume s: "pst t s"
  have "remaining s \<le> Suc (remaining s)" by simp
  from parse_schema_type_fuel_ok s this TrueI
  show "case parse_schema_type s of POk x s' \<Rightarrow> frame True s s' \<and> wf_schema_type x
      | PErr e \<Rightarrow> True | PFuel \<Rightarrow> False"
    unfolding parse_schema_type_def by (cases rule: parsesD) auto
qed

lemma parse_schema_field_ok: "eats t (\<lambda>f. wf_schema_type (sf_field_type f)) ANY n parse_schema_field"
  unfolding parse_schema_field_def pseq_def Let_def
  by (intro word_bind [OF parse_schema_type_ok] parse_rules) auto

abbreviation Fields :: "string option \<times> schema_field list \<Rightarrow> bool" where
  "Fields \<equiv> \<lambda>(_, fs). list_all (\<lambda>f. wf_schema_type (sf_field_type f)) fs"

lemma schema_step_ok:
  assumes "Fields acc"
  shows "parses t isl (case_sum Fields Fields) ANY n (schema_step acc)"
  unfolding schema_step_def pseq_def
  by (intro word_bind [OF parse_schema_field_ok] parse_rules) (use assms in \<open>auto simp: guard_simps\<close>)

lemma parse_schema_ok:
  "eats t (\<lambda>s. wf_stmt s t \<and> exportable s) (\<lambda>s. \<not> at_end s) n parse_schema"
  unfolding parse_schema_def pseq_def
  by (intro loose_bind [OF ploop_rule [where Inv = Fields and Q = Fields, OF schema_step_ok]] parse_rules)
    auto

subsection \<open>Scenarios\<close>

abbreviation Step :: "parse_context \<Rightarrow> expression scenario_step \<Rightarrow> bool" where
  "Step t \<equiv> pred_scenario_step (W t)"

lemma parse_scenario_given_ok: "eats t (Step t) (\<lambda>s. \<not> at_end s) m (parse_scenario_given P)"
  unfolding parse_scenario_given_def pseq_def by (intro parse_rules) auto

lemma parse_scenario_when_ok: "eats t (Step t) (\<lambda>s. \<not> at_end s) m (parse_scenario_when P)"
proof -
  have "keeps t (pred_option (W t)) ANY m (pif (kind_is TkAnd)
      (pbind advance (\<lambda>_. pbind (expect_identifier_lexeme ''headers'') (\<lambda>_.
        pbind (pe P PREC_NONE) (\<lambda>e. preturn (Some e))))) (preturn None))"
    by (intro parse_rules) (auto simp: guard_simps)
  note headers = loose_bind [OF this]
  show ?thesis
    unfolding parse_scenario_when_def pseq_def
    by (intro word_bind [OF parse_http_verb_ok] loose_bind [OF optional_expr_ok] headers parse_rules)
      (auto simp: guard_simps)
qed

lemma parse_scenario_then_ok: "eats t (Step t) (\<lambda>s. \<not> at_end s) m (parse_scenario_then P)"
  unfolding parse_scenario_then_def pseq_def by (intro parse_rules) (auto simp: guard_simps)

lemma parse_scenario_step_ok: "eats t (Step t) ANY m (parse_scenario_step P)"
  unfolding parse_scenario_step_def
  by (intro pif_rule pfail_rule parses_guard [OF parse_scenario_given_ok]
      parses_guard [OF parse_scenario_when_ok] parses_guard [OF parse_scenario_then_ok])
    (auto simp: guard_simps)

lemma parse_scenario_ok: "eats t (S t) (\<lambda>s. \<not> at_end s) (Suc m) (parse_scenario P)"
  unfolding parse_scenario_def pseq_def Let_def
  by (intro loose_bind [OF block_items_ok [OF parse_scenario_step_ok]] parse_rules)
    (auto simp: ast_pred_simps scenario_ok_def)

subsection \<open>The dispatcher\<close>

lemma parse_export_ok: "eats t (S t) (\<lambda>s. \<not> at_end s) (Suc m) (parse_export P)"
  unfolding parse_export_def pseq_def
  by (intro bind_eat [OF parses_mono [OF parse_task_def_ok]] bind_eat [OF parse_schema_ok]
      word_bind [OF parses_mono [OF parse_assignment_ok]] parse_rules)
    (auto simp: guard_simps)

lemma parse_keyword_statement_ok:
  assumes "parse_keyword_statement P k = Some p"
  shows "eats t (S t) (\<lambda>s. cur_kind s = k) (Suc m) p"
proof -
  have eof: "k \<noteq> TkEof" using assms by (auto simp: parse_keyword_statement_def split: if_splits)
  have drop: "eats t (S t) (\<lambda>s. \<not> at_end s) n q"
    if "eats t (\<lambda>s. wf_stmt s t \<and> exportable s) (\<lambda>s. \<not> at_end s) n q" for n q
    using that by (rule parses_weaken) auto
  have "eats t (S t) (\<lambda>s. \<not> at_end s) (Suc m) p"
    using assms parse_require_ok parse_reject_ok parse_while_ok drop [OF parse_task_def_ok]
      parse_route_ok drop [OF parse_schema_ok] parse_reply_ok parse_fail_ok parse_export_ok
      parse_transaction_ok parse_raise_ok parse_on_ok parse_nack_ok
    by (auto simp: parse_keyword_statement_def split: if_splits)
  then show ?thesis by (rule parses_guard) (use eof in \<open>auto simp: at_end_iff\<close>)
qed

lemma parse_statement_ok:
  assumes pe_same: "\<And>t. eats t (W t) ANY (Suc m) (pe P PREC_NONE)"
  shows "eats t (S t) ANY (Suc m) (parse_statement P)"
proof -
  have "eats t (S t) ANY (Suc m) (parse_expression_statement P)"
    unfolding parse_expression_statement_def
    by (intro here_rule word_bind_drop [OF pe_same] parse_rules) auto
  note plain = parses_guard [OF this]
  have assign: "eats t (S t) ANY (Suc m) (parse_assignment P)"
    by (rule parses_weaken [OF parse_assignment_ok]) auto
  show ?thesis
    unfolding parse_statement_def
    by (intro pget_rule option_rule parses_guard [OF parse_keyword_statement_ok] pif_rule if_rule
        parses_guard [OF parse_auth_provider_ok] parses_guard [OF parse_scenario_ok]
        parses_guard [OF assign] plain pfail_rule)
      (auto simp: at_auth_provider_def at_scenario_def at_end_iff)
qed

end

subsection \<open>Tying the knot\<close>

lemma parses_zero: "parses t B Q G 0 p"
  using remaining_pos by (fastforce intro: parsesI)

lemma callbacks_mono:
  assumes "callbacks P m" and "n \<le> m"
  shows "callbacks P n"
  by unfold_locales
    (rule parses_mono [OF callbacks.pe_ok [OF assms(1)] assms(2)]
      parses_mono [OF callbacks.ps_ok [OF assms(1)] assms(2)])+

lemma statement_level:
  assumes "callbacks P m"
  shows "eats t (\<lambda>s. wf_stmt s t) ANY m (parse_statement P)"
proof (cases m)
  case (Suc k)
  have "callbacks P k" using callbacks_mono [OF assms] Suc by simp
  then show ?thesis
    unfolding Suc by (rule callbacks.parse_statement_ok) (use callbacks.pe_ok [OF assms] Suc in simp)
qed (simp add: parses_zero)

lemma callbacks_step:
  assumes "callbacks P m"
  shows "callbacks \<lparr>pe = parse_expression P, ps = parse_statement P\<rparr> m"
    and "eats t (\<lambda>e. wf_expr e t) ANY (Suc m) (parse_expression P prec)"
proof -
  show e: "eats t (\<lambda>e. wf_expr e t) ANY (Suc m) (parse_expression P prec)" for t prec
    using callbacks.parse_expression_ok [OF assms] .
  show "callbacks \<lparr>pe = parse_expression P, ps = parse_statement P\<rparr> m"
    by unfold_locales (simp_all add: parses_mono [OF e] statement_level [OF assms])
qed

text \<open>Two levels of the knot per token: an expression statement enters the expression parser at
  its own first token, every other call of the knot is made after a token has been consumed.\<close>

lemma tie_callbacks: "callbacks (tie (2 * m)) m"
proof (induction m)
  case 0
  show ?case by unfold_locales (simp_all add: parses_zero)
next
  case (Suc m)
  let ?B = "tie (Suc (2 * m))"
  note B = callbacks_step [OF Suc]
  have cb: "callbacks ?B m" using B(1) by (simp only: tie_Suc)
  have pe: "eats t (\<lambda>e. wf_expr e t) ANY (Suc m) (pe ?B prec)" for t prec
    using B(2) by (simp add: tie_Suc)
  have "callbacks \<lparr>pe = parse_expression ?B, ps = parse_statement ?B\<rparr> (Suc m)"
    by unfold_locales
      (simp_all only: parsers.select_convs callbacks.parse_expression_ok [OF cb]
        callbacks.parse_statement_ok [OF cb pe])
  moreover have "2 * Suc m = Suc (Suc (2 * m))" by simp
  ultimately show ?case by (simp only: tie_Suc)
qed

interpretation knot: callbacks "tie (2 * m)" m for m
  by (rule tie_callbacks)

lemma parse_program_ok:
  "keeps t (list_all (\<lambda>s. wf_stmt s t)) ANY m (parse_program (tie (2 * m)))"
proof -
  let ?P = "tie (2 * m)"
  have "eats t (\<lambda>s. wf_stmt s t) (\<lambda>s. \<not> at_end s) m (pbind (ps ?P) (\<lambda>x. pbind skip_newlines (\<lambda>_. preturn x)))"
    by (intro word_bind [OF knot.ps_ok] parse_rules) auto
  then show ?thesis
    unfolding parse_program_def pseq_def by (intro skip_newlines_bind pwhile_rule) auto
qed

lemma parse_answers:
  assumes "stream_ok ts"
  shows "(\<exists>e. parse ts = PErr e) \<or>
    (\<exists>prog s. parse ts = POk prog s \<and> list_all (\<lambda>st. wf_stmt st (Parse_Context False (token_strings ts))) prog \<and>
       ps_tokens s = ts \<and> ps_pos s < length ts)"
proof -
  let ?s = "parser_new ts"
  have s: "pst (Parse_Context False (token_strings ts)) ?s" using assms by (auto simp: pst_def parser_new_def stream_ok_def)
  have r: "remaining ?s \<le> length ts" by (simp add: remaining_def parser_new_def)
  from parse_program_ok s r TrueI show ?thesis
    by (cases rule: parsesD) (auto simp: parse_def frame_def parser_new_def)
qed

text \<open>C3: The parser terminates on every token stream that ends in Eof: it answers with a program
  or with an error, never by running out of fuel, and it does not read past the final Eof. A
  program it answers is well-formed: no transaction inside a transaction, no reserved word in a
  binding position, enum types with distinct nonempty values, a rescue stage only at the end of
  a pipeline, one request and some assertion in a scenario; its string literals are string tokens of
  the stream.\<close>

theorem parse_total:
  assumes "stream_ok ts"
  shows "(\<exists>e. parse ts = PErr e) \<or>
    (\<exists>prog s. parse ts = POk prog s \<and> list_all (\<lambda>st. wf_stmt st (Parse_Context False (token_strings ts))) prog \<and>
       ps_tokens s = ts \<and> ps_pos s < length ts)"
  by (rule parse_answers [OF assms])

definition sample_stream :: "token list" where
  "sample_stream =
     [token_new TkTransaction 1 1 ''transaction'', token_new TkNewline 1 12 [],
      token_new TkIndent 2 1 [], token_new (TkIdentifier ''x'') 2 3 ''x'',
      token_new TkAssign 2 5 ''='', token_new (TkInteger 1) 2 7 ''1'', token_new TkNewline 2 8 [],
      token_new TkDedent 3 1 [], token_eof 3 1]"

theorem parse_total_witness:
  "(\<exists>e. parse sample_stream = PErr e) \<or>
   (\<exists>prog s. parse sample_stream = POk prog s \<and> list_all (\<lambda>st. wf_stmt st (Parse_Context False (token_strings sample_stream))) prog \<and>
      ps_tokens s = sample_stream \<and> ps_pos s < length sample_stream)"
  by (rule parse_total)
    (simp add: stream_ok_def sample_stream_def identifier_ok_def keyword_lookup_def keyword_table_def)

end
