(* ===== verification/Front_End.thy ===== *)
theory Front_End
  imports Lexer_Roundtrip Parser_Wf
begin

text \<open>
  The front end, \<open>parse_source\<close> of \<^verbatim>\<open>src/src/file_loader.rs\<close>: the tokenizer, then the parser. The
  locale \<open>token_source\<close> is what the parser relies on: a token stream ends in Eof and no
  identifier token is a reserved word. The tokenizer provides it.
\<close>

datatype source_failure = SourceError marreta_error | SourcePanic | SourceFuel

locale token_source =
  fixes tokens_of :: "string \<Rightarrow> lex_failure + token list"
  assumes ends_in_eof: "tokens_of src = Inr ts \<Longrightarrow> ts \<noteq> [] \<and> tk_kind (last ts) = TkEof"
    and identifiers_unreserved: "tokens_of src = Inr ts \<Longrightarrow> list_all identifier_ok ts"
begin

lemma stream: "tokens_of src = Inr ts \<Longrightarrow> stream_ok ts"
  using ends_in_eof identifiers_unreserved by (simp add: stream_ok_def)

lemma parse_stream:
  assumes "tokens_of src = Inr ts"
  obtains (err) e where "parse ts = PErr e"
    | (ok) prog s where "parse ts = POk prog s" and "list_all (\<lambda>st. wf_stmt st (Parse_Context False (token_strings ts))) prog"
  using parse_answers [OF stream [OF assms]] by blast

end

lemma lexed_identifier_ok: "lexed_token t \<Longrightarrow> identifier_ok t"
  by (cases "tk_kind t") (auto simp: lexed_token_def identifier_ok_def)

interpretation lexer_stream: token_source tokenize
proof
  fix src ts
  assume ts: "tokenize src = Inr ts"
  obtain L where L: "lexed_inv L" "ts = lx_tokens L @ [token_eof (lx_line L) (lx_column L)]"
    using lexed.tokenize_inv [OF lexer_new_invs(2) ts] .
  show "ts \<noteq> [] \<and> tk_kind (last ts) = TkEof" by (simp add: L(2))
  show "list_all identifier_ok ts"
    using L(1) lexed_identifier_ok by (auto simp: L(2) lexed_inv_def list_all_iff identifier_ok_def)
qed

definition parse_source :: "string \<Rightarrow> source_failure + program" where
  "parse_source source =
     (case tokenize source of
        Inl (LexError e) \<Rightarrow> Inl (SourceError e)
      | Inl LexPanic \<Rightarrow> Inl SourcePanic
      | Inr tokens \<Rightarrow>
          (case parse tokens of
             POk prog _ \<Rightarrow> Inr prog
           | PErr e \<Rightarrow> Inl (SourceError e)
           | PFuel \<Rightarrow> Inl SourceFuel))"

text \<open>C15: Every source text is answered: with a well-formed program, with an error, or, only when
  its last line is a nonempty run of spaces, with the panic of the tokenizer.\<close>

theorem parse_source_total:
  "(\<exists>prog ts. tokenize src = Inr ts \<and> parse_source src = Inr prog \<and>
      list_all (\<lambda>st. wf_stmt st (Parse_Context False (token_strings ts))) prog) \<or>
   (\<exists>e. parse_source src = Inl (SourceError e)) \<or>
   (parse_source src = Inl SourcePanic \<and>
     (\<exists>pre sp. normalize_newlines src = pre @ sp \<and> sp \<noteq> [] \<and>
        list_all (\<lambda>c. c = CHR '' '') sp \<and> (pre = [] \<or> last pre = LF)))"
proof (cases "tokenize src")
  case (Inl f)
  then show ?thesis
    using tokenize_panic_tail [of src] by (cases f) (auto simp: parse_source_def)
next
  case (Inr ts)
  then show ?thesis
    by (rule lexer_stream.parse_stream) (auto simp: parse_source_def Inr)
qed

text \<open>An indented continuation line that starts with a pipeline operator, as the language's
  documentation writes it, is rejected: the block that the line opens is never closed by the
  parser, which meets its Dedent where a statement is expected.\<close>

lemma indented_pipeline_rejected:
  "parse_source (''x = a'' @ [LF] @ ''  >> f'' @ [LF]) =
     Inl (SourceError (UnexpectedToken (Expected ''expression'') [] 3 1))"
  by code_simp

end
