(* ===== verification/Parser_Roundtrip.thy ===== *)
theory Parser_Roundtrip
  imports Front_End
begin

text \<open>
  The round trip of the expression parser: operators, accesses, calls and literals are printed
  with the parentheses the documented precedence table asks for, and the Pratt parser of
  \<^verbatim>\<open>src/src/parser.rs\<close> reads the tree back, so every operator has the precedence of the
  table and associates to the left.
\<close>

subsection \<open>Operator expressions and their printer\<close>

datatype atom = AInteger i64 | AString string | ABoolean bool | ANull | AVariable string

datatype cexpr =
    CAtom atom
  | CUnary unary_operator cexpr
  | CBinary cexpr binary_operator cexpr
  | CProperty cexpr string
  | CSubscript cexpr cexpr
  | CCall string "cexpr list"
  | CMethod cexpr string "cexpr list"
  | CList "cexpr list"
  | CMap "(string \<times> cexpr) list"

fun atom_kind :: "atom \<Rightarrow> token_kind" where
  "atom_kind (AInteger n) = TkInteger n"
| "atom_kind (AString v) = TkStringLiteral v"
| "atom_kind (ABoolean b) = (if b then TkTrue else TkFalse)"
| "atom_kind ANull = TkNull"
| "atom_kind (AVariable w) = TkIdentifier w"

fun embed_atom :: "atom \<Rightarrow> expression" where
  "embed_atom (AInteger n) = EInteger n"
| "embed_atom (AString v) = EStringLiteral v"
| "embed_atom (ABoolean b) = EBoolean b"
| "embed_atom ANull = ENull"
| "embed_atom (AVariable w) = EIdentifier w"

fun embed :: "cexpr \<Rightarrow> expression" where
  "embed (CAtom a) = embed_atom a"
| "embed (CUnary u e) = EUnaryOp u (embed e)"
| "embed (CBinary l b r) = EBinaryOp (embed l) b (embed r)"
| "embed (CProperty e w) = EPropertyAccess (embed e) w"
| "embed (CSubscript e k) = ESubscript (embed e) (embed k)"
| "embed (CCall w es) = EFunctionCall w (map (\<lambda>e. Positional (embed e)) es)"
| "embed (CMethod e w es) = EMethodCall (embed e) w (map (\<lambda>e. Positional (embed e)) es)"
| "embed (CList es) = EList (map embed es)"
| "embed (CMap kvs) = EMapLiteral (map (\<lambda>(k, e). (k, embed e)) kvs)"

fun binop_kind :: "binary_operator \<Rightarrow> token_kind" where
  "binop_kind BAdd = TkPlus"
| "binop_kind BSubtract = TkMinus"
| "binop_kind BMultiply = TkStar"
| "binop_kind BDivide = TkSlash"
| "binop_kind BModulo = TkPercent"
| "binop_kind BEqual = TkEqual"
| "binop_kind BNotEqual = TkNotEqual"
| "binop_kind BGreater = TkGreater"
| "binop_kind BLess = TkLess"
| "binop_kind BGreaterEqual = TkGreaterEqual"
| "binop_kind BLessEqual = TkLessEqual"
| "binop_kind BIn = TkIdentifier ''in''"
| "binop_kind BAnd = TkAnd"
| "binop_kind BOr = TkOr"

fun unop_kind :: "unary_operator \<Rightarrow> token_kind" where
  "unop_kind UNegate = TkMinus"
| "unop_kind UNot = TkNot"

text \<open>The levels of the precedence table of \<^verbatim>\<open>docs/spec/001_CORE.md\<close>, section 4.1, lowest to highest. \<open>in\<close>, which
  the table leaves out, is a comparison. The table has \<open>not\<close> at level 3; the parser reads both prefix
  operators at level 8.\<close>

fun binop_prec :: "binary_operator \<Rightarrow> nat" where
  "binop_prec BOr = 1"
| "binop_prec BAnd = 2"
| "binop_prec BEqual = 4"
| "binop_prec BNotEqual = 4"
| "binop_prec BGreater = 5"
| "binop_prec BLess = 5"
| "binop_prec BGreaterEqual = 5"
| "binop_prec BLessEqual = 5"
| "binop_prec BIn = 5"
| "binop_prec BAdd = 6"
| "binop_prec BSubtract = 6"
| "binop_prec BMultiply = 7"
| "binop_prec BDivide = 7"
| "binop_prec BModulo = 7"

abbreviation (input) prefix_level :: nat where "prefix_level \<equiv> 8"

abbreviation (input) access_level :: nat where "access_level \<equiv> 9"

definition paren :: "bool \<Rightarrow> token_kind list \<Rightarrow> token_kind list" where
  "paren b ks = (if b then TkLeftParen # ks @ [TkRightParen] else ks)"

fun commas :: "token_kind list list \<Rightarrow> token_kind list" where
  "commas [] = []"
| "commas [ks] = ks"
| "commas (ks # kss) = ks @ TkComma # commas kss"

text \<open>\<open>print_expr p e\<close>: the tokens of \<open>e\<close> in a place for operators above level \<open>p\<close>. A left
  operand may hold operators of the same precedence, a right operand may not: the binary
  operators associate to the left.\<close>

fun print_expr :: "nat \<Rightarrow> cexpr \<Rightarrow> token_kind list" where
  "print_expr p (CAtom a) = [atom_kind a]"
| "print_expr p (CUnary u e) = paren (prefix_level \<le> p) (unop_kind u # print_expr prefix_level e)"
| "print_expr p (CBinary l b r) =
     paren (binop_prec b \<le> p)
       (print_expr (binop_prec b - 1) l @ binop_kind b # print_expr (binop_prec b) r)"
| "print_expr p (CProperty e w) = print_expr (access_level - 1) e @ [TkDot, TkIdentifier w]"
| "print_expr p (CSubscript e k) =
     print_expr (access_level - 1) e @ TkLeftBracket # print_expr 0 k @ [TkRightBracket]"
| "print_expr p (CCall w es) =
     TkIdentifier w # TkLeftParen # commas (map (print_expr 0) es) @ [TkRightParen]"
| "print_expr p (CMethod e w es) =
     print_expr (access_level - 1) e @ TkDot # TkIdentifier w # TkLeftParen #
       commas (map (print_expr 0) es) @ [TkRightParen]"
| "print_expr p (CList es) = TkLeftBracket # commas (map (print_expr 0) es) @ [TkRightBracket]"
| "print_expr p (CMap kvs) =
     TkLeftBrace #
       commas (map (\<lambda>(k, e). TkIdentifier k # TkColon # print_expr 0 e) kvs) @ [TkRightBrace]"

subsection \<open>Running the parser on known tokens\<close>

text \<open>The kinds from the cursor on, and the cursor moved over some of them.\<close>

definition kinds :: "parser \<Rightarrow> token_kind list" where
  "kinds s = map tk_kind (drop (ps_pos s) (ps_tokens s))"

definition over :: "nat \<Rightarrow> parser \<Rightarrow> parser" where
  "over n s = s\<lparr>ps_pos := ps_pos s + n\<rparr>"

lemma kinds_over [simp]: "kinds (over n s) = drop n (kinds s)"
  by (simp add: kinds_def over_def drop_map add.commute)

lemma over_over [simp]: "over m (over n s) = over (n + m) s" "over 0 s = s"
  by (simp_all add: over_def)

lemma kinds_Cons:
  assumes "kinds s = k # ks"
  shows "cur_kind s = k" and "at_end s \<longleftrightarrow> k = TkEof"
    and "peek_kind s = (case ks of [] \<Rightarrow> None | k' # _ \<Rightarrow> Some k')"
    and "parser_advance s = over 1 s"
proof -
  have lt: "ps_pos s < length (ps_tokens s)"
    using assms by (metis drop_all kinds_def leI list.simps(3,8))
  have "drop (ps_pos s) (ps_tokens s) = ps_tokens s ! ps_pos s # drop (Suc (ps_pos s)) (ps_tokens s)"
    using lt by (simp add: Cons_nth_drop_Suc)
  then have k: "tk_kind (ps_tokens s ! ps_pos s) = k"
    and ks: "ks = map tk_kind (drop (Suc (ps_pos s)) (ps_tokens s))"
    using assms by (simp_all add: kinds_def)
  show "cur_kind s = k" using lt k by (auto simp: cur_kind_def cur_def min_def)
  show "at_end s \<longleftrightarrow> k = TkEof" using lt k by (simp add: at_end_def)
  show "parser_advance s = over 1 s" using lt by (simp add: parser_advance_def over_def)
  show "peek_kind s = (case ks of [] \<Rightarrow> None | k' # _ \<Rightarrow> Some k')"
    by (cases "Suc (ps_pos s) < length (ps_tokens s)")
      (auto simp: peek_kind_def ks Cons_nth_drop_Suc [symmetric])
qed

lemma run_advance: "kinds s = k # ks \<Longrightarrow> pbind advance f s = f () (over 1 s)"
  by (simp add: pbind_def advance_def kinds_Cons)

lemma run_check: "kinds s = k # ks \<Longrightarrow> check k' s \<longleftrightarrow> k = k' \<and> k \<noteq> TkEof"
  by (auto simp: check_def kinds_Cons)

lemma run_kind_is: "kinds s = k # ks \<Longrightarrow> kind_is k' s \<longleftrightarrow> k = k'"
  by (auto simp: kind_is_def kinds_Cons)

lemma run_pif: "pif c p q s = (if c s then p s else q s)"
  by (simp add: pif_def)

lemma run_pget: "pget h f s = f (h s) s"
  by (simp add: pget_def)

lemma run_return: "preturn x s = POk x s"
  by (simp add: preturn_def)

lemma run_expect: "kinds s = k # ks \<Longrightarrow> k \<noteq> TkEof \<Longrightarrow> pbind (expect k) f s = f () (over 1 s)"
  by (simp add: pbind_def expect_def pif_def kind_is_def advance_def kinds_Cons)

lemma run_expect_name:
  "kinds s = TkIdentifier w # ks \<Longrightarrow> \<exists>l c. expect_name s = POk (w, l, c) (over 1 s)"
  by (simp add: expect_name_def here_def pget_def pseq_def pbind_def advance_def preturn_def kinds_Cons)

lemma run_bind: "p s = POk x s' \<Longrightarrow> pbind p f s = f x s'"
  by (simp add: pbind_def)

lemma run_pe: "pe P p s = POk x s' \<Longrightarrow> pbind (pe P p) f s = f x s'"
  by (rule run_bind)

lemma run_pif_bind: "pbind (pif c p q) f s = (if c s then pbind p f s else pbind q f s)"
  by (simp add: pbind_def pif_def)

lemma run_return_bind: "pbind (preturn x) f s = f x s"
  by (simp add: pbind_def preturn_def)

lemmas run_simps = run_pif_bind run_return_bind run_advance run_check run_kind_is run_pif run_pget run_return run_expect pseq_def

subsection \<open>The Pratt loop\<close>

inductive pratt_steps :: "parsers \<Rightarrow> nat \<Rightarrow> expression \<Rightarrow> parser \<Rightarrow> expression \<Rightarrow> parser \<Rightarrow> bool"
  for P p where
  refl: "pratt_steps P p l s l s"
| step: "pratt_step P p l s = POk (Inl l') s' \<Longrightarrow> remaining s' < remaining s \<Longrightarrow>
    pratt_steps P p l' s' l'' s'' \<Longrightarrow> pratt_steps P p l s l'' s''"

lemma pratt_steps_trans:
  "pratt_steps P p a s b s' \<Longrightarrow> pratt_steps P p b s' c s'' \<Longrightarrow> pratt_steps P p a s c s''"
  by (induction rule: pratt_steps.induct) (auto intro: pratt_steps.intros)

lemma pratt_step_mono:
  "pratt_step P q l s = POk (Inl l') s' \<Longrightarrow> p \<le> q \<Longrightarrow> pratt_step P p l s = POk (Inl l') s'"
  by (auto simp: pratt_step_def pif_def pget_def preturn_def split: if_splits)

lemma pratt_steps_mono: "pratt_steps P q l s l' s' \<Longrightarrow> p \<le> q \<Longrightarrow> pratt_steps P p l s l' s'"
  by (induction rule: pratt_steps.induct) (auto intro: pratt_steps.intros pratt_step_mono)

lemma pratt_steps_loop:
  assumes "pratt_steps P p l s l' s'" and "pratt_step P p l' s' = POk (Inr x) s''"
    and "remaining s < n"
  shows "ploop_fuel n (pratt_step P p) l s = POk x s''"
  using assms
proof (induction arbitrary: n rule: pratt_steps.induct)
  case (refl l s)
  then show ?case by (cases n) simp_all
next
  case (step l s l1 s1 l2 s2)
  then obtain n' where n: "n = Suc n'" by (cases n) auto
  with step have "ploop_fuel n' (pratt_step P p) l1 s1 = POk x s''" by simp
  with step.hyps(1) n show ?case by simp
qed

text \<open>What may follow a printed expression: nothing that a name or a call would take.\<close>

definition follow :: "nat \<Rightarrow> token_kind list \<Rightarrow> bool" where
  "follow p ks \<longleftrightarrow> ks \<noteq> [] \<and> infix_precedence (hd ks) \<le> p \<and>
     hd ks \<notin> {TkLeftParen, TkLeftBrace, TkAs, TkRescue}"

lemma follow_mono: "follow p ks \<Longrightarrow> p \<le> q \<Longrightarrow> follow q ks"
  by (auto simp: follow_def)

definition spine :: "nat \<Rightarrow> nat \<Rightarrow> cexpr \<Rightarrow> bool" where
  "spine n p e \<longleftrightarrow> (\<forall>s rest. kinds s = print_expr p e @ rest \<longrightarrow> follow (Suc p) rest \<longrightarrow>
     (\<exists>l s'. parse_prefix (tie n) s = POk l s' \<and>
        pratt_steps (tie n) p l s' (embed e) (over (length (print_expr p e)) s)))"

definition full :: "nat \<Rightarrow> nat \<Rightarrow> cexpr \<Rightarrow> bool" where
  "full n p e \<longleftrightarrow> (\<forall>s rest. kinds s = print_expr p e @ rest \<longrightarrow> follow p rest \<longrightarrow>
     parse_expression (tie n) p s = POk (embed e) (over (length (print_expr p e)) s))"

lemma spineE:
  assumes "spine n p e" and "kinds s = print_expr p e @ rest" and "follow (Suc p) rest"
  obtains l s' where "parse_prefix (tie n) s = POk l s'"
    and "pratt_steps (tie n) p l s' (embed e) (over (length (print_expr p e)) s)"
  using assms unfolding spine_def by blast

lemma full_of_spine:
  assumes "spine n p e"
  shows "full n p e"
  unfolding full_def
proof (intro allI impI)
  fix s rest
  assume k: "kinds s = print_expr p e @ rest" and f: "follow p rest"
  let ?s = "over (length (print_expr p e)) s"
  obtain l s' where pre: "parse_prefix (tie n) s = POk l s'"
    and steps: "pratt_steps (tie n) p l s' (embed e) ?s"
    using spineE [OF assms k follow_mono [OF f]] by auto
  obtain k0 rest' where rest: "rest = k0 # rest'" using f by (cases rest) (auto simp: follow_def)
  have k': "kinds ?s = k0 # rest'" using k rest by simp
  have stop: "pratt_step (tie n) p (embed e) ?s = POk (Inr (embed e)) ?s"
    using f rest kinds_Cons [OF k']
    by (auto simp: pratt_step_def run_simps current_infix_precedence_def follow_def)
  have "ploop (pratt_step (tie n) p) l s' = POk (embed e) ?s"
    unfolding ploop_def by (rule pratt_steps_loop [OF steps stop]) simp
  moreover have "parse_response_schema p (embed e) ?s = POk (embed e) ?s"
    using f rest k' by (simp add: parse_response_schema_def run_simps follow_def)
  ultimately show "parse_expression (tie n) p s = POk (embed e) ?s"
    using pre f rest k'
    by (simp add: parse_expression_def run_bind run_simps follow_def)
qed

lemma pe_full: "full n p e \<Longrightarrow> kinds s = print_expr p e @ rest \<Longrightarrow> follow p rest \<Longrightarrow>
  pe (tie (Suc n)) p s = POk (embed e) (over (length (print_expr p e)) s)"
  by (simp add: full_def tie_Suc)

text \<open>A postfix or infix turn of the loop, from the spine of the left operand.\<close>

lemma spine_turn:
  assumes l: "spine n q l" and pq: "p \<le> q"
    and pr: "print_expr p e = print_expr q l @ ks" and ks: "ks \<noteq> []"
    and fo: "follow (Suc q) (ks @ rest)" and prec: "p < infix_precedence (hd ks)"
    and turn: "\<And>s. kinds s = ks @ rest \<Longrightarrow>
      parse_infix (tie n) (embed l) (infix_precedence (hd ks)) s = POk (embed e) (over (length ks) s)"
    and k: "kinds s = print_expr p e @ rest"
  shows "\<exists>x s'. parse_prefix (tie n) s = POk x s' \<and>
    pratt_steps (tie n) p x s' (embed e) (over (length (print_expr p e)) s)"
proof -
  let ?s1 = "over (length (print_expr q l)) s"
  obtain x s' where pre: "parse_prefix (tie n) s = POk x s'"
    and steps: "pratt_steps (tie n) q x s' (embed l) ?s1"
    by (rule spineE [OF l _ fo, of s]) (use k pr in auto)
  have k1: "kinds ?s1 = ks @ rest" using k pr by simp
  obtain k0 ks' where ks': "ks = k0 # ks'" using ks by (cases ks) auto
  have len: "length (ks @ rest) \<le> remaining ?s1"
    using arg_cong [OF k1, of length] by (simp add: kinds_def remaining_def)
  have "k0 \<noteq> TkEof" using prec ks' by auto
  then have "pratt_step (tie n) p (embed l) ?s1 = POk (Inl (embed e)) (over (length ks) ?s1)"
    using k1 ks' prec turn [OF k1] kinds_Cons [of ?s1 k0]
    by (simp add: pratt_step_def run_simps current_infix_precedence_def run_bind)
  moreover have "remaining (over (length ks) ?s1) < remaining ?s1"
    using len ks' by (simp add: remaining_def over_def)
  ultimately have "pratt_steps (tie n) p (embed l) ?s1 (embed e) (over (length ks) ?s1)"
    by (blast intro: pratt_steps.intros)
  with pratt_steps_mono [OF steps pq] have "pratt_steps (tie n) p x s' (embed e) (over (length ks) ?s1)"
    by (rule pratt_steps_trans)
  then show ?thesis using pre pr by auto
qed

subsection \<open>How printed expressions start\<close>

definition start_kind :: "token_kind \<Rightarrow> bool" where
  "start_kind k \<longleftrightarrow> k \<notin> {TkRightParen, TkRightBracket, TkRightBrace, TkColon, TkEof}"

lemma print_expr_start: "print_expr p e \<noteq> [] \<and> start_kind (hd (print_expr p e))"
proof (induction p e rule: print_expr.induct)
  case (1 p a)
  then show ?case by (cases a) (auto simp: start_kind_def)
next
  case (2 p u e)
  then show ?case by (cases u) (auto simp: start_kind_def paren_def)
qed (auto simp: start_kind_def paren_def)

lemma print_expr_Cons:
  obtains k ks where "print_expr p e = k # ks" and "start_kind k"
  using print_expr_start [of p e] by (cases "print_expr p e") auto

lemma infix_precedence_binop [simp]: "infix_precedence (binop_kind b) = binop_prec b"
  by (cases b) simp_all

lemma binop_kind_props: "binop_kind b \<noteq> TkColon" "binop_of (binop_kind b) = Some b" "0 < binop_prec b"
  "binop_prec b < 8" "binop_kind b \<notin> {TkLeftParen, TkLeftBrace, TkAs, TkRescue}" "binop_kind b \<noteq> TkEof"
  by (cases b; simp)+

definition second_colon :: "token_kind list \<Rightarrow> bool" where
  "second_colon ks \<longleftrightarrow> (case ks of _ # k # _ \<Rightarrow> k = TkColon | _ \<Rightarrow> False)"

lemma print_expr_no_colon:
  "rest \<noteq> [] \<Longrightarrow> hd rest \<noteq> TkColon \<Longrightarrow> \<not> second_colon (print_expr p e @ rest)"
proof (induction p e arbitrary: rest rule: print_expr.induct)
  case (1 p a)
  then show ?case by (cases rest) (auto simp: second_colon_def)
next
  case (2 p u e)
  obtain k ks where "print_expr 8 e = k # ks" "start_kind k" by (rule print_expr_Cons)
  then show ?case by (cases u) (auto simp: second_colon_def start_kind_def paren_def)
next
  case (3 p l b r)
  obtain k ks where l: "print_expr (binop_prec b - 1) l = k # ks" "start_kind k" by (rule print_expr_Cons)
  have "\<not> second_colon (print_expr (binop_prec b - 1) l @ (binop_kind b # print_expr (binop_prec b) r @ rest))"
    by (rule "3.IH"(1)) (simp_all add: binop_kind_props)
  with l show ?case by (auto simp: second_colon_def start_kind_def paren_def)
next
  case (4 p e w)
  show ?case using "4.IH" [of "TkDot # TkIdentifier w # rest"] by simp
next
  case (5 p e k)
  show ?case
    using "5.IH"(1) [of "TkLeftBracket # print_expr 0 k @ TkRightBracket # rest"] by simp
next
  case (6 p w es)
  then show ?case by (simp add: second_colon_def)
next
  case (7 p e w es)
  show ?case
    using "7.IH"(1) [of "TkDot # TkIdentifier w # TkLeftParen # commas (map (print_expr 0) es) @ TkRightParen # rest"]
    by simp
next
  case (8 p es)
  show ?case
  proof (cases es)
    case (Cons e es')
    obtain k ks where "print_expr 0 e = k # ks" "start_kind k" by (rule print_expr_Cons)
    then show ?thesis using Cons by (cases es') (auto simp: second_colon_def start_kind_def)
  qed (simp add: second_colon_def)
next
  case (9 p kvs)
  then show ?case
    by (cases kvs; cases "tl kvs") (auto simp: second_colon_def)
qed

subsection \<open>Comma-separated lists\<close>

lemma commas_Cons: "kss \<noteq> [] \<Longrightarrow> commas (ks # kss) = ks @ TkComma # commas kss"
  by (cases kss) auto

lemma pwhile_commas:
  assumes item: "\<And>x s rest. x \<in> set xs \<Longrightarrow> kinds s = pr x @ TkComma # rest \<Longrightarrow>
      step s = POk (val x) (over (Suc (length (pr x))) s)"
    and last_item: "\<And>x s rest. x \<in> set xs \<Longrightarrow> kinds s = pr x @ close # rest \<Longrightarrow>
      step s = POk (val x) (over (length (pr x)) s)"
    and start: "\<And>x. x \<in> set xs \<Longrightarrow> pr x \<noteq> [] \<and> hd (pr x) \<noteq> close \<and> hd (pr x) \<noteq> TkEof"
    and close: "close \<noteq> TkEof" and k: "kinds s = commas (map pr xs) @ close # rest"
  shows "pwhile (\<lambda>s. \<not> check close s \<and> \<not> at_end s) step s =
    POk (map val xs) (over (length (commas (map pr xs))) s)"
proof -
  let ?f = "\<lambda>ys. pif (\<lambda>s. \<not> check close s \<and> \<not> at_end s)
    (pbind step (\<lambda>x. preturn (Inl (ys @ [x])))) (preturn (Inr ys))"
  have loop: "ploop_fuel n ?f ys s = POk (ys @ map val xs) (over (length (commas (map pr xs))) s)"
    if "length (kinds s) < n" for n ys
    using item last_item start k that
  proof (induction xs arbitrary: n ys s)
    case Nil
    then obtain n' where "n = Suc n'" by (cases n) auto
    then show ?case
      using Nil.prems(4) close by (simp add: pif_def run_check [of s close rest] run_return)
  next
    case (Cons x xs)
    obtain n' where n: "n = Suc n'" using Cons.prems(5) by (cases n) auto
    obtain k0 ks0 where hd: "pr x = k0 # ks0" "k0 \<noteq> close" "k0 \<noteq> TkEof"
      using Cons.prems(3) [of x] by (cases "pr x") auto
    have c: "\<not> check close s \<and> \<not> at_end s"
      using Cons.prems(4) hd kinds_Cons(2) [of s k0]
      by (cases xs) (simp_all add: run_check commas_Cons)
    show ?case
    proof (cases "xs = []")
      case True
      let ?s = "over (length (pr x)) s"
      have st: "step s = POk (val x) ?s" using Cons.prems(2) [of x s rest] Cons.prems(4) True by simp
      have k': "kinds ?s = close # rest" using Cons.prems(4) True by simp
      obtain n'' where n': "n' = Suc n''"
        using Cons.prems(4,5) n hd True by (cases n') auto
      have "?f ys s = POk (Inl (ys @ [val x])) ?s"
        using st c by (simp add: pif_def run_bind run_return)
      moreover have "?f (ys @ [val x]) ?s = POk (Inr (ys @ [val x])) ?s"
        using close by (simp add: pif_def run_check [OF k'] run_return)
      ultimately show ?thesis using n n' True by simp
    next
      case False
      let ?s = "over (Suc (length (pr x))) s"
      have k1: "kinds s = pr x @ TkComma # (commas (map pr xs) @ close # rest)"
        using Cons.prems(4) False by (simp add: commas_Cons)
      have st: "step s = POk (val x) ?s" using Cons.prems(1) [OF _ k1] by simp
      have "ploop_fuel n' ?f (ys @ [val x]) ?s =
          POk ((ys @ [val x]) @ map val xs) (over (length (commas (map pr xs))) ?s)"
        using Cons.prems n k1 by (intro Cons.IH) auto
      moreover have "?f ys s = POk (Inl (ys @ [val x])) ?s"
        using st c by (simp add: pif_def run_bind run_return)
      ultimately show ?thesis using n False by (simp add: commas_Cons)
    qed
  qed
  have "length (kinds s) < Suc (remaining s)" by (simp add: kinds_def remaining_def)
  from loop [OF this, of "[]"] show ?thesis
    unfolding pwhile_def ploop_def by (simp only: append_Nil)
qed

lemma commas_start:
  assumes "es \<noteq> []"
  obtains k ks where "commas (map (print_expr 0) es) = k # ks" and "start_kind k"
proof -
  obtain e es' where es: "es = e # es'" using assms by (cases es) auto
  obtain k ks where "print_expr 0 e = k # ks" "start_kind k" by (rule print_expr_Cons)
  with es that show thesis by (cases es') auto
qed

lemma follow_closing: "follow 0 (TkComma # rest)" "follow 0 (TkRightParen # rest)"
  "follow 0 (TkRightBracket # rest)" "follow 0 (TkRightBrace # rest)"
  by (simp_all add: follow_def)

lemma positional_start:
  assumes "kinds s = print_expr 0 e @ k # rest" and "k \<noteq> TkColon"
  shows "named_arg_name s = None"
proof -
  have "\<not> second_colon (kinds s)" using assms by (simp add: print_expr_no_colon)
  moreover obtain k0 ks where "kinds s = k0 # ks" using assms(1) by (cases "print_expr 0 e") auto
  ultimately have "peek_kind s \<noteq> Some TkColon"
    using kinds_Cons(3) [of s k0 ks] by (auto simp: second_colon_def split: list.splits)
  then show ?thesis by (simp add: named_arg_name_def)
qed

lemma arguments_run:
  assumes "\<And>e. e \<in> set es \<Longrightarrow> full n 0 e"
    and "kinds s = commas (map (print_expr 0) es) @ TkRightParen # rest"
  shows "parse_argument_list (tie (Suc n)) s =
    POk (map (\<lambda>e. Positional (embed e)) es) (over (length (commas (map (print_expr 0) es))) s)"
proof (cases "es = []")
  case True
  then show ?thesis using assms(2) by (simp add: parse_argument_list_def run_simps)
next
  case False
  let ?f = "argument_step (tie (Suc n))"
  have "ploop_fuel N ?f acc s =
      POk (acc @ map (\<lambda>e. Positional (embed e)) es) (over (length (commas (map (print_expr 0) es))) s)"
    if "length (kinds s) < N" for N acc
    using assms False that
  proof (induction es arbitrary: N acc s)
    case (Cons e es)
    obtain N' where N: "N = Suc N'" using Cons.prems(4) by (cases N) auto
    show ?case
    proof (cases "es = []")
      case True
      then have k: "kinds s = print_expr 0 e @ TkRightParen # rest" using Cons.prems(2) by simp
      have e: "pe (tie (Suc n)) 0 s = POk (embed e) (over (length (print_expr 0 e)) s)"
        using pe_full [OF Cons.prems(1) k follow_closing(2)] by simp
      have k': "kinds (over (length (print_expr 0 e)) s) = TkRightParen # rest" using k by simp
      have "?f acc s = POk (Inr (acc @ [Positional (embed e)])) (over (length (print_expr 0 e)) s)"
        using positional_start [OF k]
        by (simp add: argument_step_def run_simps run_pe [OF e] run_check [OF k'])
      then show ?thesis using N True by simp
    next
      case False
      let ?m = "length (print_expr 0 e)"
      have k: "kinds s = print_expr 0 e @ TkComma # commas (map (print_expr 0) es) @ TkRightParen # rest"
        using Cons.prems(2) False by (simp add: commas_Cons)
      have e: "pe (tie (Suc n)) 0 s = POk (embed e) (over ?m s)"
        using pe_full [OF Cons.prems(1) k follow_closing(1)] by simp
      obtain k0 ks where hd: "commas (map (print_expr 0) es) = k0 # ks" "start_kind k0"
        using commas_start [OF False] by metis
      have k1: "kinds (over ?m s) = TkComma # k0 # ks @ TkRightParen # rest"
        and k2: "kinds (over (Suc ?m) s) = k0 # ks @ TkRightParen # rest" using k hd by simp_all
      have "?f acc s = POk (Inl (acc @ [Positional (embed e)])) (over (Suc ?m) s)"
        using positional_start [OF k] hd(2)
        by (simp add: argument_step_def run_simps run_pe [OF e] run_check [OF k1]
            run_check [OF k2] run_expect [OF k1] start_kind_def)
      moreover have "ploop_fuel N' ?f (acc @ [Positional (embed e)]) (over (Suc ?m) s) =
          POk ((acc @ [Positional (embed e)]) @ map (\<lambda>e. Positional (embed e)) es)
            (over (length (commas (map (print_expr 0) es))) (over (Suc ?m) s))"
        using Cons.prems N k False by (intro Cons.IH) auto
      ultimately show ?thesis using N False by (simp add: commas_Cons)
    qed
  qed simp
  note loop = this
  have "length (kinds s) < Suc (remaining s)" by (simp add: kinds_def remaining_def)
  from loop [OF this, of "[]"] have
    "ploop ?f [] s = POk (map (\<lambda>e. Positional (embed e)) es) (over (length (commas (map (print_expr 0) es))) s)"
    unfolding ploop_def by (simp only: append_Nil)
  moreover obtain k0 ks where "kinds s = k0 # ks" "start_kind k0"
    using commas_start [OF False] assms(2) by (metis append_Cons)
  then have "\<not> check TkRightParen s" by (auto simp: run_check start_kind_def)
  ultimately show ?thesis by (simp add: parse_argument_list_def run_pif)
qed

lemma list_literal_run:
  assumes "\<And>e. e \<in> set es \<Longrightarrow> full n 0 e"
    and k: "kinds s = print_expr p (CList es) @ rest"
  shows "parse_list_literal (tie (Suc n)) s =
    POk (embed (CList es)) (over (length (print_expr p (CList es))) s)"
proof -
  let ?step = "pbind (pe (tie (Suc n)) 0) (\<lambda>e.
    pseq (pif (check TkRightBracket) (preturn ()) (expect TkComma)) (preturn e))"
  let ?s = "over (Suc 0) s" and ?cs = "commas (map (print_expr 0) es)"
  have k0: "kinds s = TkLeftBracket # ?cs @ TkRightBracket # rest" using k by simp
  have elements: "pwhile (\<lambda>s. \<not> check TkRightBracket s \<and> \<not> at_end s) ?step ?s =
      POk (map embed es) (over (length ?cs) ?s)"
  proof (rule pwhile_commas)
    fix e s rest
    assume e: "e \<in> set es" and k: "kinds s = print_expr 0 e @ TkComma # rest"
    have k': "kinds (over (length (print_expr 0 e)) s) = TkComma # rest" using k by simp
    show "?step s = POk (embed e) (over (Suc (length (print_expr 0 e))) s)"
      using pe_full [OF assms(1) [OF e] k follow_closing(1)]
      by (simp add: run_pe run_simps run_check [OF k'] run_expect [OF k'])
  next
    fix e s rest
    assume e: "e \<in> set es" and k: "kinds s = print_expr 0 e @ TkRightBracket # rest"
    have k': "kinds (over (length (print_expr 0 e)) s) = TkRightBracket # rest" using k by simp
    show "?step s = POk (embed e) (over (length (print_expr 0 e)) s)"
      using pe_full [OF assms(1) [OF e] k follow_closing(3)]
      by (simp add: run_pe run_simps run_check [OF k'])
  qed (use print_expr_start k0 in \<open>auto simp: start_kind_def\<close>)
  have k2: "kinds (over (Suc (length ?cs)) s) = TkRightBracket # rest" using k0 by simp
  show ?thesis
    using k0 k2
    by (simp add: parse_list_literal_def run_advance [OF k0] pseq_def [of advance] run_bind [where p = "pwhile _ _", OF elements]
        pseq_def [of "expect _"] run_expect [OF k2] run_return)
qed

lemma map_literal_run:
  assumes "\<And>w e. (w, e) \<in> set kvs \<Longrightarrow> full n 0 e"
    and k: "kinds s = print_expr p (CMap kvs) @ rest"
  shows "parse_map_literal (tie (Suc n)) s =
    POk (embed (CMap kvs)) (over (length (print_expr p (CMap kvs))) s)"
proof -
  let ?step = "pbind (parse_pair (tie (Suc n))) (\<lambda>kv.
    pseq (pif (check TkRightBrace) (preturn ()) (expect TkComma)) (preturn kv))"
  let ?pr = "\<lambda>(w, e). TkIdentifier w # TkColon # print_expr 0 e"
  let ?s = "over (Suc 0) s" and ?cs = "commas (map ?pr kvs)"
  have k0: "kinds s = TkLeftBrace # ?cs @ TkRightBrace # rest" using k by simp
  have pair: "parse_pair (tie (Suc n)) s = POk (w, embed e) (over (length (?pr (w, e))) s)"
    if e: "(w, e) \<in> set kvs" and k: "kinds s = ?pr (w, e) @ rest" and f: "follow 0 rest" for w e s rest
  proof -
    obtain l c where name: "expect_name s = POk (w, l, c) (over 1 s)"
      using run_expect_name [of s w] k by fastforce
    have k1: "kinds (over (Suc 0) s) = TkColon # print_expr 0 e @ rest"
      and k2: "kinds (over (Suc (Suc 0)) s) = print_expr 0 e @ rest" using k by simp_all
    show ?thesis
      using pe_full [OF assms(1) [OF e] k2 f]
      by (simp add: parse_pair_def run_bind [where p = expect_name, OF name] pseq_def
          run_expect [OF k1] run_pe run_return)
  qed
  have pairs: "pwhile (\<lambda>s. \<not> check TkRightBrace s \<and> \<not> at_end s) ?step ?s =
      POk (map (\<lambda>(w, e). (w, embed e)) kvs) (over (length ?cs) ?s)"
  proof (rule pwhile_commas)
    fix x s rest
    assume e: "x \<in> set kvs" and k: "kinds s = ?pr x @ TkComma # rest"
    obtain w e where x: "x = (w, e)" by fastforce
    have k': "kinds (over (length (?pr x)) s) = TkComma # rest" using k by simp
    show "?step s = POk (case x of (w, e) \<Rightarrow> (w, embed e)) (over (Suc (length (?pr x))) s)"
      using pair [OF e [unfolded x] k [unfolded x] follow_closing(1)] k' x
      by (simp add: run_bind [where p = "parse_pair _"] run_simps run_check [where ks = rest]
          run_expect [where ks = rest])
  next
    fix x s rest
    assume e: "x \<in> set kvs" and k: "kinds s = ?pr x @ TkRightBrace # rest"
    obtain w e where x: "x = (w, e)" by fastforce
    have k': "kinds (over (length (?pr x)) s) = TkRightBrace # rest" using k by simp
    show "?step s = POk (case x of (w, e) \<Rightarrow> (w, embed e)) (over (length (?pr x)) s)"
      using pair [OF e [unfolded x] k [unfolded x] follow_closing(4)] k' x
      by (simp add: run_bind [where p = "parse_pair _"] run_simps run_check [where ks = rest])
  qed (use k0 in auto)
  have k2: "kinds (over (Suc (length ?cs)) s) = TkRightBrace # rest" using k0 by simp
  show ?thesis
    using k0 k2
    by (simp add: parse_map_literal_def run_advance [OF k0] pseq_def [of advance] run_bind [where p = "pwhile _ _", OF pairs]
        pseq_def [of "expect _"] run_expect [OF k2] run_return)
qed

subsection \<open>Every printed expression is read back\<close>

lemma length_commas: "ks \<in> set kss \<Longrightarrow> length ks \<le> length (commas kss)"
  by (induction kss rule: commas.induct) auto

lemma followE:
  assumes "follow p rest"
  obtains k ks where "rest = k # ks" and "infix_precedence k \<le> p"
    and "k \<notin> {TkLeftParen, TkLeftBrace, TkAs, TkRescue}"
  using assms by (cases rest) (auto simp: follow_def)

lemma spineI:
  assumes "\<And>s rest. kinds s = print_expr p e @ rest \<Longrightarrow> follow (Suc p) rest \<Longrightarrow>
    parse_prefix (tie n) s = POk (embed e) (over (length (print_expr p e)) s)"
  shows "spine n p e"
  unfolding spine_def using assms pratt_steps.refl by metis

lemma spine_paren:
  assumes "full n 0 e" and "print_expr p e = TkLeftParen # print_expr 0 e @ [TkRightParen]"
  shows "spine (Suc n) p e"
proof (rule spineI)
  fix s rest
  assume k: "kinds s = print_expr p e @ rest"
  let ?n = "length (print_expr 0 e)"
  have k0: "kinds s = TkLeftParen # print_expr 0 e @ TkRightParen # rest" using k assms(2) by simp
  have k1: "kinds (over (Suc 0) s) = print_expr 0 e @ TkRightParen # rest"
    and k2: "kinds (over (Suc ?n) s) = TkRightParen # rest" using k0 by simp_all
  have "pe (tie (Suc n)) 0 (over (Suc 0) s) = POk (embed e) (over (Suc ?n) s)"
    using pe_full [OF assms(1) k1 follow_closing(2)] by simp
  then show "parse_prefix (tie (Suc n)) s = POk (embed e) (over (length (print_expr p e)) s)"
    using kinds_Cons(1) [OF k0]
    by (simp add: parse_prefix_def word_identifier_def run_simps run_advance [OF k0] run_pe
        run_expect [OF k2] assms(2))
qed

lemma spine_atom: "spine n p (CAtom a)"
proof (rule spineI)
  fix s rest
  assume k: "kinds s = print_expr p (CAtom a) @ rest" and f: "follow (Suc p) rest"
  obtain k' ks where rest: "rest = k' # ks" "k' \<notin> {TkLeftParen, TkLeftBrace, TkAs, TkRescue}"
    using f by (rule followE)
  have k0: "kinds s = atom_kind a # rest" and k1: "kinds (over (Suc 0) s) = k' # ks"
    using k rest by simp_all
  show "parse_prefix (tie n) s = POk (embed (CAtom a)) (over (length (print_expr p (CAtom a))) s)"
    using kinds_Cons(1) [OF k0] rest(2)
    by (cases a) (simp_all add: parse_prefix_def parse_identifier_prefix_def word_identifier_def run_simps
        run_advance [OF k0] run_check [OF k1])
qed

lemma spine_unary:
  assumes "full n 8 e" and "p < 8"
  shows "spine (Suc n) p (CUnary u e)"
proof (rule spineI)
  fix s rest
  assume k: "kinds s = print_expr p (CUnary u e) @ rest" and f: "follow (Suc p) rest"
  have f8: "follow 8 rest" using follow_mono [OF f] assms(2) by simp
  have k0: "kinds s = unop_kind u # print_expr 8 e @ rest" using k assms(2) by (simp add: paren_def)
  have k1: "kinds (over (Suc 0) s) = print_expr 8 e @ rest" using k0 by simp
  have "pe (tie (Suc n)) 8 (over (Suc 0) s) = POk (embed e) (over (Suc (length (print_expr 8 e))) s)"
    using pe_full [OF assms(1) k1 f8] by simp
  then show "parse_prefix (tie (Suc n)) s =
      POk (embed (CUnary u e)) (over (length (print_expr p (CUnary u e))) s)"
    using kinds_Cons(1) [OF k0] assms(2)
    by (cases u) (simp_all add: parse_prefix_def word_identifier_def run_simps run_advance [OF k0]
        run_pe paren_def)
qed

lemma spine_binary:
  assumes l: "spine (Suc n) (binop_prec b - 1) l" and r: "full n (binop_prec b) r"
    and p: "p < binop_prec b"
  shows "spine (Suc n) p (CBinary l b r)"
  unfolding spine_def
proof (intro allI impI)
  fix s rest
  assume k: "kinds s = print_expr p (CBinary l b r) @ rest" and f: "follow (Suc p) rest"
  let ?q = "binop_prec b" and ?ks = "binop_kind b # print_expr (binop_prec b) r"
  have fq: "follow ?q rest" using follow_mono [OF f] p by simp
  show "\<exists>x s'. parse_prefix (tie (Suc n)) s = POk x s' \<and> pratt_steps (tie (Suc n)) p x s'
      (embed (CBinary l b r)) (over (length (print_expr p (CBinary l b r))) s)"
  proof (rule spine_turn [OF l _ _ _ _ _ _ k])
    fix s
    assume k: "kinds s = ?ks @ rest"
    have k0: "kinds s = binop_kind b # print_expr ?q r @ rest"
      and k1: "kinds (over (Suc 0) s) = print_expr ?q r @ rest" using k by simp_all
    show "parse_infix (tie (Suc n)) (embed l) (infix_precedence (hd ?ks)) s =
        POk (embed (CBinary l b r)) (over (length ?ks) s)"
      using pe_full [OF r k1 fq] kinds_Cons(1) [OF k0]
      by (simp add: parse_infix_def run_simps run_advance [OF k0] run_pe binop_kind_props)
  qed (use p binop_kind_props [of b] in \<open>auto simp: paren_def follow_def\<close>)
qed

lemma spine_postfix:
  assumes l: "spine n 8 l" and p: "p \<le> 8"
    and pr: "print_expr p e = print_expr 8 l @ ks" and hd: "ks \<noteq> []" "hd ks \<in> {TkDot, TkLeftBracket}"
    and turn: "\<And>s rest. kinds s = ks @ rest \<Longrightarrow> follow (Suc p) rest \<Longrightarrow>
      parse_infix (tie n) (embed l) 9 s = POk (embed e) (over (length ks) s)"
  shows "spine n p e"
  unfolding spine_def
proof (intro allI impI)
  fix s rest
  assume k: "kinds s = print_expr p e @ rest" and f: "follow (Suc p) rest"
  have nine: "infix_precedence (hd ks) = 9" using hd(2) by auto
  show "\<exists>x s'. parse_prefix (tie n) s = POk x s' \<and>
      pratt_steps (tie n) p x s' (embed e) (over (length (print_expr p e)) s)"
    by (rule spine_turn [OF l p pr hd(1) _ _ _ k])
      (use hd p nine turn [OF _ f] in \<open>auto simp: follow_def\<close>)
qed

lemma spine_property:
  assumes "spine n 8 e" and "p \<le> 8"
  shows "spine n p (CProperty e w)"
proof (rule spine_postfix [OF assms, where ks = "[TkDot, TkIdentifier w]"])
  fix s rest
  assume k: "kinds s = [TkDot, TkIdentifier w] @ rest" and f: "follow (Suc p) rest"
  obtain k' ks where rest: "rest = k' # ks" "k' \<notin> {TkLeftParen, TkLeftBrace, TkAs, TkRescue}"
    using f by (rule followE)
  have k0: "kinds s = TkDot # TkIdentifier w # rest"
    and k1: "kinds (over (Suc 0) s) = TkIdentifier w # rest"
    and k2: "kinds (over (Suc (Suc 0)) s) = k' # ks" using k rest by simp_all
  obtain l c where name: "expect_name (over (Suc 0) s) = POk (w, l, c) (over (Suc (Suc 0)) s)"
    using run_expect_name [OF k1] by auto
  show "parse_infix (tie n) (embed e) 9 s =
      POk (embed (CProperty e w)) (over (length [TkDot, TkIdentifier w]) s)"
    using kinds_Cons(1) [OF k0] rest(2)
    by (simp add: parse_infix_def parse_access_def run_simps run_advance [OF k0]
        run_bind [where p = expect_name, OF name] run_check [OF k2])
qed simp_all

lemma spine_subscript:
  assumes "spine (Suc n) 8 e" and "p \<le> 8" and key: "full n 0 i"
  shows "spine (Suc n) p (CSubscript e i)"
proof (rule spine_postfix [OF assms(1,2), where ks = "TkLeftBracket # print_expr 0 i @ [TkRightBracket]"])
  fix s rest
  assume k: "kinds s = (TkLeftBracket # print_expr 0 i @ [TkRightBracket]) @ rest"
  let ?n = "length (print_expr 0 i)"
  have k0: "kinds s = TkLeftBracket # print_expr 0 i @ TkRightBracket # rest"
    and k1: "kinds (over (Suc 0) s) = print_expr 0 i @ TkRightBracket # rest"
    and k2: "kinds (over (Suc ?n) s) = TkRightBracket # rest" using k by simp_all
  have "pe (tie (Suc n)) 0 (over (Suc 0) s) = POk (embed i) (over (Suc ?n) s)"
    using pe_full [OF key k1 follow_closing(3)] by simp
  then show "parse_infix (tie (Suc n)) (embed e) 9 s =
      POk (embed (CSubscript e i)) (over (length (TkLeftBracket # print_expr 0 i @ [TkRightBracket])) s)"
    using kinds_Cons(1) [OF k0]
    by (simp add: parse_infix_def run_simps run_advance [OF k0] run_pe run_expect [OF k2])
qed simp_all

lemma spine_call:
  assumes "\<And>e. e \<in> set es \<Longrightarrow> full n 0 e"
  shows "spine (Suc n) p (CCall w es)"
proof (rule spineI)
  fix s rest
  assume k: "kinds s = print_expr p (CCall w es) @ rest"
  let ?cs = "commas (map (print_expr 0) es)"
  have k0: "kinds s = TkIdentifier w # TkLeftParen # ?cs @ TkRightParen # rest"
    and k1: "kinds (over (Suc 0) s) = TkLeftParen # ?cs @ TkRightParen # rest"
    and k2: "kinds (over (Suc (Suc 0)) s) = ?cs @ TkRightParen # rest"
    and k3: "kinds (over (Suc (Suc (length ?cs))) s) = TkRightParen # rest" using k by simp_all
  show "parse_prefix (tie (Suc n)) s = POk (embed (CCall w es)) (over (length (print_expr p (CCall w es))) s)"
    using kinds_Cons(1) [OF k0] arguments_run [OF assms k2]
    by (simp add: parse_prefix_def parse_identifier_prefix_def word_identifier_def run_simps
        run_advance [OF k0] run_check [OF k1] run_advance [OF k1] run_bind [where p = "parse_argument_list _"]
        run_expect [OF k3])
qed

lemma spine_method:
  assumes "spine (Suc n) 8 e" and "p \<le> 8" and es: "\<And>e. e \<in> set es \<Longrightarrow> full n 0 e"
  shows "spine (Suc n) p (CMethod e w es)"
proof (rule spine_postfix [OF assms(1,2),
    where ks = "TkDot # TkIdentifier w # TkLeftParen # commas (map (print_expr 0) es) @ [TkRightParen]"])
  let ?cs = "commas (map (print_expr 0) es)"
  fix s rest
  assume k: "kinds s = (TkDot # TkIdentifier w # TkLeftParen # ?cs @ [TkRightParen]) @ rest"
  have k0: "kinds s = TkDot # TkIdentifier w # TkLeftParen # ?cs @ TkRightParen # rest"
    and k1: "kinds (over (Suc 0) s) = TkIdentifier w # TkLeftParen # ?cs @ TkRightParen # rest"
    and k2: "kinds (over (Suc (Suc 0)) s) = TkLeftParen # ?cs @ TkRightParen # rest"
    and k3: "kinds (over (Suc (Suc (Suc 0))) s) = ?cs @ TkRightParen # rest"
    and k4: "kinds (over (Suc (Suc (Suc (length ?cs)))) s) = TkRightParen # rest" using k by simp_all
  obtain l c where name: "expect_name (over (Suc 0) s) = POk (w, l, c) (over (Suc (Suc 0)) s)"
    using run_expect_name [OF k1] by auto
  show "parse_infix (tie (Suc n)) (embed e) 9 s = POk (embed (CMethod e w es))
      (over (length (TkDot # TkIdentifier w # TkLeftParen # ?cs @ [TkRightParen])) s)"
    using kinds_Cons(1) [OF k0] arguments_run [OF es k3]
    by (simp add: parse_infix_def parse_access_def run_simps run_advance [OF k0]
        run_bind [where p = expect_name, OF name] run_check [OF k2] run_advance [OF k2]
        run_bind [where p = "parse_argument_list _"] run_expect [OF k4])
qed simp_all

lemma spine_list:
  assumes "\<And>e. e \<in> set es \<Longrightarrow> full n 0 e"
  shows "spine (Suc n) p (CList es)"
proof (rule spineI)
  fix s rest
  assume k: "kinds s = print_expr p (CList es) @ rest"
  then have "cur_kind s = TkLeftBracket" by (simp add: kinds_Cons)
  with list_literal_run [OF assms k]
  show "parse_prefix (tie (Suc n)) s = POk (embed (CList es)) (over (length (print_expr p (CList es))) s)"
    by (simp add: parse_prefix_def word_identifier_def run_simps)
qed

lemma spine_map:
  assumes "\<And>w e. (w, e) \<in> set kvs \<Longrightarrow> full n 0 e"
  shows "spine (Suc n) p (CMap kvs)"
proof (rule spineI)
  fix s rest
  assume k: "kinds s = print_expr p (CMap kvs) @ rest"
  then have "cur_kind s = TkLeftBrace" by (simp add: kinds_Cons)
  with map_literal_run [OF assms k]
  show "parse_prefix (tie (Suc n)) s = POk (embed (CMap kvs)) (over (length (print_expr p (CMap kvs))) s)"
    by (simp add: parse_prefix_def word_identifier_def run_simps)
qed

text \<open>A level of the knot for each printed token is enough.\<close>

lemma spine_all: "length (print_expr p e) \<le> n \<Longrightarrow> p \<le> 8 \<Longrightarrow> spine n p e"
proof (induction e arbitrary: n p)
  case (CAtom a)
  then show ?case by (simp add: spine_atom)
next
  case (CUnary u e)
  have np: "spine n q (CUnary u e)" if np': "length (unop_kind u # print_expr 8 e) \<le> n" "q < 8" for n q
  proof -
    obtain n' where n: "n = Suc n'" using np' by (cases n) auto
    have "full n' 8 e" using np' n by (intro full_of_spine CUnary.IH) auto
    then show ?thesis unfolding n using np'(2) by (rule spine_unary)
  qed
  show ?case
  proof (cases "8 \<le> p")
    case True
    obtain n' where n: "n = Suc n'" using CUnary.prems True by (cases n) (auto simp: paren_def)
    have "full n' 0 (CUnary u e)"
      using CUnary.prems True n by (intro full_of_spine np) (auto simp: paren_def)
    then show ?thesis unfolding n by (rule spine_paren) (simp add: True paren_def)
  qed (use CUnary.prems np in \<open>auto simp: paren_def\<close>)
next
  case (CBinary l b r)
  have np: "spine n q (CBinary l b r)"
    if np': "length (print_expr (binop_prec b - 1) l @ binop_kind b # print_expr (binop_prec b) r) \<le> n"
      "q < binop_prec b" for n q
  proof -
    obtain n' where n: "n = Suc n'" using np' by (cases n) auto
    have r: "full n' (binop_prec b) r"
      using np' n binop_kind_props(4) [of b] by (intro full_of_spine CBinary.IH(2)) auto
    have "spine (Suc n') (binop_prec b - 1) l"
      using np' n binop_kind_props(4) [of b] by (intro CBinary.IH(1)) auto
    then show ?thesis unfolding n using r np'(2) by (rule spine_binary)
  qed
  show ?case
  proof (cases "binop_prec b \<le> p")
    case True
    obtain n' where n: "n = Suc n'" using CBinary.prems True by (cases n) (auto simp: paren_def)
    have "full n' 0 (CBinary l b r)"
      using CBinary.prems True n binop_kind_props(3) [of b]
      by (intro full_of_spine np) (auto simp: paren_def)
    then show ?thesis
      unfolding n by (rule spine_paren) (use True binop_kind_props(3) [of b] in \<open>simp add: paren_def\<close>)
  qed (use CBinary.prems np in \<open>auto simp: paren_def\<close>)
next
  case (CProperty e w)
  then show ?case by (intro spine_property CProperty.IH) auto
next
  case (CSubscript e i)
  obtain n' where n: "n = Suc n'" using CSubscript.prems by (cases n) auto
  show ?case
    unfolding n
    by (intro spine_subscript CSubscript.IH(1) full_of_spine CSubscript.IH(2)) (use CSubscript.prems n in auto)
next
  case (CCall w es)
  obtain n' where n: "n = Suc n'" using CCall.prems by (cases n) auto
  show ?case
    unfolding n
  proof (rule spine_call)
    fix e
    assume "e \<in> set es"
    then show "full n' 0 e"
      using CCall.prems n length_commas [of "print_expr 0 e" "map (print_expr 0) es"]
      by (intro full_of_spine CCall.IH) auto
  qed
next
  case (CMethod e w es)
  obtain n' where n: "n = Suc n'" using CMethod.prems by (cases n) auto
  show ?case
    unfolding n
  proof (rule spine_method)
    show "spine (Suc n') 8 e" using CMethod.prems n by (intro CMethod.IH(1)) auto
    fix x
    assume "x \<in> set es"
    then show "full n' 0 x"
      using CMethod.prems n length_commas [of "print_expr 0 x" "map (print_expr 0) es"]
      by (intro full_of_spine CMethod.IH(2)) auto
  qed (use CMethod.prems in simp)
next
  case (CList es)
  obtain n' where n: "n = Suc n'" using CList.prems by (cases n) auto
  show ?case
    unfolding n
  proof (rule spine_list)
    fix e
    assume "e \<in> set es"
    then show "full n' 0 e"
      using CList.prems n length_commas [of "print_expr 0 e" "map (print_expr 0) es"]
      by (intro full_of_spine CList.IH) auto
  qed
next
  case (CMap kvs)
  obtain n' where n: "n = Suc n'" using CMap.prems by (cases n) auto
  show ?case
    unfolding n
  proof (rule spine_map)
    fix w e
    assume e: "(w, e) \<in> set kvs"
    let ?pr = "\<lambda>(k, e). TkIdentifier k # TkColon # print_expr 0 e"
    have "length (?pr (w, e)) \<le> length (commas (map ?pr kvs))"
      by (rule length_commas) (use e in force)
    then have "length (print_expr 0 e) \<le> n'" using CMap.prems n by simp
    then show "full n' 0 e" using e by (intro full_of_spine CMap.IH) (auto simp: snds.simps)
  qed
qed

subsection \<open>Expression statements\<close>

fun prefix_start :: "token_kind \<Rightarrow> bool" where
  "prefix_start (TkInteger _) \<longleftrightarrow> True"
| "prefix_start (TkStringLiteral _) \<longleftrightarrow> True"
| "prefix_start TkTrue \<longleftrightarrow> True"
| "prefix_start TkFalse \<longleftrightarrow> True"
| "prefix_start TkNull \<longleftrightarrow> True"
| "prefix_start (TkIdentifier _) \<longleftrightarrow> True"
| "prefix_start (TkOperator p) \<longleftrightarrow> p = OpNot \<or> p = OpMinus"
| "prefix_start (TkDelimiter d) \<longleftrightarrow> d = DeLeftParen \<or> d = DeLeftBracket \<or> d = DeLeftBrace"
| "prefix_start _ \<longleftrightarrow> False"

lemma print_expr_prefix: "prefix_start (hd (print_expr p e))"
proof (induction p e rule: print_expr.induct)
  case (1 p a)
  then show ?case by (cases a) auto
next
  case (2 p u e)
  then show ?case by (cases u) (auto simp: paren_def)
qed (use print_expr_start in \<open>auto simp: paren_def\<close>)

definition after_name :: "token_kind \<Rightarrow> bool" where
  "after_name k \<longleftrightarrow> k \<in> {TkLeftParen, TkDot, TkLeftBracket} \<union> range binop_kind"

definition name_second :: "token_kind \<Rightarrow> token_kind list \<Rightarrow> bool" where
  "name_second d ks \<longleftrightarrow> (case ks of TkIdentifier _ # k # _ \<Rightarrow> after_name k \<or> k = d | _ \<Rightarrow> True)"

lemma name_second_simps [simp]:
  "name_second d (TkIdentifier w # k # ks) \<longleftrightarrow> after_name k \<or> k = d"
  "identifier_of k = None \<Longrightarrow> name_second d (k # ks)"
  by (auto simp: name_second_def split: list.splits token_kind.splits)

lemma after_name_simps [simp]: "after_name TkLeftParen" "after_name TkDot" "after_name TkLeftBracket"
  "after_name (binop_kind b)"
  by (simp_all add: after_name_def)

lemma after_name_not:
  assumes "after_name k \<or> k = TkEof"
  shows "string_of k = None \<and> k \<noteq> TkIdentifier ''jwt'' \<and> k \<noteq> TkIdentifier ''api_key''"
proof -
  have "string_of (binop_kind b) = None \<and> binop_kind b \<noteq> TkIdentifier ''jwt'' \<and>
      binop_kind b \<noteq> TkIdentifier ''api_key''" for b
    by (cases b) simp_all
  with assms show ?thesis by (auto simp: after_name_def)
qed

lemma name_second_weaken: "name_second k ks \<Longrightarrow> after_name k \<Longrightarrow> name_second d ks"
  by (auto simp: name_second_def split: list.splits token_kind.splits)

lemma print_expr_name_second: "name_second d (print_expr p e @ d # rest)"
proof (induction p e arbitrary: d rest rule: print_expr.induct)
  case (1 p a)
  then show ?case by (cases a) auto
next
  case (2 p u e)
  then show ?case by (cases u) (auto simp: paren_def)
next
  case (3 p l b r)
  have "name_second d (print_expr (binop_prec b - 1) l @ binop_kind b # print_expr (binop_prec b) r @ d # rest)"
    by (rule name_second_weaken [OF "3.IH"(1)]) simp
  then show ?case by (simp add: paren_def)
next
  case (4 p e w)
  show ?case using name_second_weaken [OF "4.IH" after_name_simps(2)] by simp
next
  case (5 p e k)
  show ?case using name_second_weaken [OF "5.IH"(1) after_name_simps(3)] by simp
next
  case (7 p e w es)
  show ?case using name_second_weaken [OF "7.IH"(1) after_name_simps(2)] by simp
qed auto

lemma set_commas: "set (commas kss) \<subseteq> insert TkComma (\<Union>ks \<in> set kss. set ks)"
  by (induction kss rule: commas.induct) auto

lemma print_expr_no_assign: "TkAssign \<notin> set (print_expr p e)"
proof (induction p e rule: print_expr.induct)
  case (1 p a)
  then show ?case by (cases a) auto
next
  case (2 p u e)
  then show ?case by (cases u) (auto simp: paren_def)
next
  case (3 p l b r)
  then show ?case by (cases b) (auto simp: paren_def)
next
  case (9 p kvs)
  then show ?case
    using set_commas [of "map (\<lambda>(k, e). TkIdentifier k # TkColon # print_expr 0 e) kvs"] by fastforce
qed (use set_commas [of "map (print_expr 0) es" for es] in auto)

lemma run_skip_newlines: "kinds s = k # ks \<Longrightarrow> k \<noteq> TkNewline \<Longrightarrow> pbind skip_newlines f s = f () s"
  by (simp add: pbind_def skip_newlines_def skip_newlines_state.simps [of s] kinds_Cons)

lemma expression_statement_run:
  assumes k: "kinds s = print_expr 0 e @ [TkEof]" and n: "length (print_expr 0 e) \<le> n"
  shows "\<exists>l c. parse_statement (tie (Suc n)) s =
    POk (SExpressionStatement (embed e) l c) (over (length (print_expr 0 e)) s)"
proof -
  obtain k0 ks where e: "print_expr 0 e = k0 # ks" "start_kind k0" by (rule print_expr_Cons)
  have k0: "kinds s = k0 # ks @ [TkEof]" using k e by simp
  note cur = kinds_Cons [OF k0]
  have start: "prefix_start k0" using print_expr_prefix [of 0 e] e by simp
  then have none: "parse_keyword_statement P k0 = None" for P
    by (cases k0) (auto simp: parse_keyword_statement_def)
  have sec: "name_second TkEof (k0 # ks @ [TkEof])"
    using print_expr_name_second [of TkEof 0 e "[]"] e by simp
  have peek: "cur_kind s = TkIdentifier w \<Longrightarrow> peek_kind s = Some k \<Longrightarrow> after_name k \<or> k = TkEof" for w k
    using sec cur(1,3) by (cases ks) auto
  have "\<not> at_auth_provider s" "\<not> at_scenario s"
    using peek after_name_not by (auto simp: at_auth_provider_def at_scenario_def split: option.splits)
  moreover have "\<not> at_assignment s"
    using print_expr_no_assign [of 0 e] e cur(3)
    by (cases ks) (auto simp: at_assignment_def peek_assign_def)
  moreover have "k0 \<noteq> TkIndent" using start by auto
  moreover have "pe (tie (Suc n)) 0 s = POk (embed e) (over (length (print_expr 0 e)) s)"
    by (rule pe_full [OF full_of_spine [OF spine_all [OF n]] k]) (simp_all add: follow_def)
  ultimately show ?thesis
    using none cur(1)
    by (simp add: parse_statement_def parse_expression_statement_def here_def run_simps run_pe)
qed

lemma parse_printed:
  assumes k: "map tk_kind ts = print_expr 0 e @ [TkEof]"
  shows "\<exists>l c s. parse ts = POk [SExpressionStatement (embed e) l c] s"
proof -
  let ?s = "parser_new ts" and ?L = "length ts" and ?n = "length (print_expr 0 e)"
  let ?step = "pbind (ps (tie (2 * ?L))) (\<lambda>x. pseq skip_newlines (preturn x))"
  let ?f = "\<lambda>xs. pif (\<lambda>s. \<not> at_end s) (pbind ?step (\<lambda>x. preturn (Inl (xs @ [x])))) (preturn (Inr xs))"
  have ks: "kinds ?s = print_expr 0 e @ [TkEof]" using k by (simp add: kinds_def parser_new_def)
  have L: "?L = Suc ?n" using arg_cong [OF k, of length] by simp
  obtain k0 ks0 where e: "print_expr 0 e = k0 # ks0" "start_kind k0" by (rule print_expr_Cons)
  have k0: "kinds ?s = k0 # ks0 @ [TkEof]" using ks e by simp
  have nl: "k0 \<noteq> TkNewline" using print_expr_prefix [of 0 e] e by auto
  have two: "2 * ?L = Suc (Suc (2 * ?n))" using L by simp
  obtain l c where st: "ps (tie (2 * ?L)) ?s = POk (SExpressionStatement (embed e) l c) (over ?n ?s)"
    using expression_statement_run [OF ks, of "2 * ?n"] unfolding two by (auto simp: tie_Suc)
  have k1: "kinds (over ?n ?s) = [TkEof]" using ks by simp
  have st': "?step ?s = POk (SExpressionStatement (embed e) l c) (over ?n ?s)"
    by (simp add: run_bind [where p = "ps _", OF st] pseq_def run_skip_newlines [OF k1] run_return)
  have turn: "?f [] ?s = POk (Inl [SExpressionStatement (embed e) l c]) (over ?n ?s)"
    using kinds_Cons(2) [OF k0] e(2)
    by (simp add: run_pif start_kind_def run_bind [where p = ?step, OF st'] run_return)
  have stop: "?f [x] (over ?n ?s) = POk (Inr [x]) (over ?n ?s)" for x
    using kinds_Cons(2) [OF k1] by (simp add: run_pif run_return)
  have "remaining ?s = Suc ?n" using L by (simp add: remaining_def parser_new_def)
  then have "pwhile (\<lambda>s. \<not> at_end s) ?step ?s = POk [SExpressionStatement (embed e) l c] (over ?n ?s)"
    using turn stop by (simp add: pwhile_def ploop_def)
  then show ?thesis
    by (auto simp: parse_def parse_program_def pseq_def run_skip_newlines [OF k0 nl])
qed

text \<open>\<open>(a - b) * -c.d[0] == f("x", [not true])\<close>\<close>

definition sample_expr :: cexpr where
  "sample_expr =
     CBinary
       (CBinary (CBinary (CAtom (AVariable ''a'')) BSubtract (CAtom (AVariable ''b''))) BMultiply
         (CUnary UNegate
           (CSubscript (CProperty (CAtom (AVariable ''c'')) ''d'') (CAtom (AInteger 0)))))
       BEqual
       (CCall ''f'' [CAtom (AString ''x''), CList [CUnary UNot (CAtom (ABoolean True))]])"



text \<open>C17: the same from source text to tree: the text of an expression of that fragment (with
  printable literals and names), tokenized and parsed, is the expression.\<close>

theorem parse_source_print:
  assumes "list_all (\<lambda>k. print_kind k \<noteq> None) (print_expr 0 e)"
  shows "\<exists>l c. parse_source (print_kinds (print_expr 0 e)) = Inr [SExpressionStatement (embed e) l c]"
proof -
  obtain ts where ts: "tokenize (print_kinds (print_expr 0 e)) = Inr ts"
    "map tk_kind ts = print_expr 0 e @ [TkEof]"
    using tokenize_printed [OF assms] by blast
  obtain l c s where "parse ts = POk [SExpressionStatement (embed e) l c] s"
    using parse_printed [OF ts(2)] by blast
  with ts(1) show ?thesis by (auto simp: parse_source_def)
qed

theorem parse_source_print_witness:
  "\<exists>l c. parse_source (print_kinds (print_expr 0 sample_expr)) =
     Inr [SExpressionStatement (embed sample_expr) l c]"
  by (rule parse_source_print) code_simp

end
