(* ===== verification/Schema_Cycle.thy ===== *)
theory Schema_Cycle
  imports Marreta_Prelude "HOL-Library.Char_ord" "HOL-Library.List_Lexorder" "HOL-Library.AList"
begin

text \<open>
  \<^verbatim>\<open>src/src/schema_cycle.rs\<close>: the depth-first search for a cycle of schema references that lies
  entirely within value schemas. A \<open>HashMap\<close> is an association list with distinct keys, a
  \<open>HashSet\<close> a set; the three \<open>&mut\<close> arguments of \<open>walk\<close> are the fields of a state record.
  The search terminates because every recursive call adds a key of \<open>refs\<close> to \<open>on_path\<close>.
\<close>

type_synonym ref_map = "(string \<times> string list) list"

record walk_state =
  ws_path :: "string list"
  ws_on_path :: "string set"
  ws_visited :: "string set"

definition neighbours :: "ref_map \<Rightarrow> string \<Rightarrow> string list" where
  "neighbours refs node = sort (case map_of refs node of Some v \<Rightarrow> v | None \<Rightarrow> [])"

text \<open>\<open>path[pos..]\<close> with \<open>pos\<close> the first position of \<open>next\<close>, followed by \<open>next\<close>.\<close>

definition close_cycle :: "string list \<Rightarrow> string \<Rightarrow> string list" where
  "close_cycle path next = (if next \<in> set path then dropWhile (\<lambda>n. n \<noteq> next) path else path) @ [next]"

function (sequential)
  walk :: "ref_map \<Rightarrow> string set \<Rightarrow> string \<Rightarrow> walk_state \<Rightarrow> string list option \<times> walk_state" and
  walk_neighbours ::
    "ref_map \<Rightarrow> string set \<Rightarrow> string list \<Rightarrow> walk_state \<Rightarrow> string list option \<times> walk_state"
where
  "walk refs persistent node st =
     (case walk_neighbours refs persistent (neighbours refs node)
             (st\<lparr>ws_path := ws_path st @ [node], ws_on_path := insert node (ws_on_path st)\<rparr>) of
        (Some cycle, st') \<Rightarrow> (Some cycle, st')
      | (None, st') \<Rightarrow>
          (None, st'\<lparr>ws_on_path := ws_on_path st' - {node},
                     ws_visited := insert node (ws_visited st'),
                     ws_path := butlast (ws_path st')\<rparr>))"
| "walk_neighbours refs persistent [] st = (None, st)"
| "walk_neighbours refs persistent (next # rest) st =
     (if next \<in> persistent then walk_neighbours refs persistent rest st
      else if next \<in> ws_on_path st then (Some (close_cycle (ws_path st) next), st)
      else if next \<in> fst ` set refs \<and> next \<notin> ws_visited st then
        (case walk refs persistent next st of
           (Some cycle, st') \<Rightarrow> (Some cycle, st')
         | (None, st') \<Rightarrow> walk_neighbours refs persistent rest st')
      else walk_neighbours refs persistent rest st)"
  by pat_completeness auto

text \<open>A search that finds nothing leaves \<open>on_path\<close> as it was: the loop of the caller goes on with
  the measure it had.\<close>

lemma walk_on_path_dom:
  "walk_walk_neighbours_dom (Inl (refs, P, node, st)) \<Longrightarrow>
     walk refs P node st = (None, st') \<Longrightarrow> node \<notin> ws_on_path st \<Longrightarrow> ws_on_path st' = ws_on_path st"
  "walk_walk_neighbours_dom (Inr (refs, P, ns, st)) \<Longrightarrow>
     walk_neighbours refs P ns st = (None, st') \<Longrightarrow> ws_on_path st' = ws_on_path st"
proof (induction refs P node st and refs P ns st arbitrary: st' and st'
    rule: walk_walk_neighbours.pinduct)
  case (1 refs P node st)
  from 1(3,4) show ?case
    by (auto simp: walk.psimps [OF 1(1)] dest!: 1(2) split: prod.splits option.splits)
next
  case (2 refs P st)
  then show ?case by (simp add: walk_neighbours.psimps)
next
  case (3 refs P m rest st)
  obtain r st1 where w: "walk refs P m st = (r, st1)" by (cases "walk refs P m st")
  note step = 3(6) [unfolded walk_neighbours.psimps(2) [OF 3(1)] w]
  consider "m \<in> P" | "m \<notin> P" "m \<notin> ws_on_path st" "m \<in> fst ` set refs \<and> m \<notin> ws_visited st"
    | "m \<notin> P" "m \<notin> ws_on_path st" "\<not> (m \<in> fst ` set refs \<and> m \<notin> ws_visited st)"
    using step by (auto split: if_splits)
  then show ?case
  proof cases
    case 1
    with step 3(2) show ?thesis by simp
  next
    case 2
    with step have r: "r = None" "walk_neighbours refs P rest st1 = (None, st')"
      by (simp_all only: if_False if_True simp_thms prod.case split: option.splits)
        (simp_all split: option.splits)
    from 2 w r(1) have "ws_on_path st1 = ws_on_path st" by (intro 3(3)) simp_all
    moreover from 2 w r have "ws_on_path st' = ws_on_path st1" by (intro 3(4)) simp_all
    ultimately show ?thesis by simp
  next
    case 3
    with step "3.IH"(4) show ?thesis by simp
  qed
qed

termination walk
proof (relation "inv_image (less_than <*lex*> less_than) (\<lambda>x. case x of
    Inl (refs, P, node, st) \<Rightarrow>
      (card (fst ` set refs - insert node (ws_on_path st)), Suc (length (neighbours refs node)))
  | Inr (refs, P, ns, st) \<Rightarrow> (card (fst ` set refs - ws_on_path st), length ns))", goal_cases)
  case (4 refs P m rest st)
  then have "card (fst ` set refs - insert m (ws_on_path st)) < card (fst ` set refs - ws_on_path st)"
    by (intro psubset_card_mono) auto
  then show ?case by simp
next
  case (5 refs P m rest st x y)
  then have "ws_on_path y = ws_on_path st" by (metis walk_on_path_dom(1))
  then show ?case by simp
qed (auto simp: wf_inv_image wf_lex_prod)

declare walk.simps [simp del] walk_neighbours.simps [simp del]

fun search_starts :: "ref_map \<Rightarrow> string set \<Rightarrow> string list \<Rightarrow> string list option" where
  "search_starts refs persistent [] = None"
| "search_starts refs persistent (start # rest) =
     (case fst (walk refs persistent start
                  \<lparr>ws_path = [], ws_on_path = {}, ws_visited = {}\<rparr>) of
        Some cycle \<Rightarrow> Some cycle
      | None \<Rightarrow> search_starts refs persistent rest)"

definition find_disallowed_cycle :: "ref_map \<Rightarrow> string set \<Rightarrow> string list option" where
  "find_disallowed_cycle refs persistent =
     search_starts refs persistent (sort (filter (\<lambda>name. name \<notin> persistent) (map fst refs)))"

subsection \<open>Specification\<close>

text \<open>The graph the validator recurses along: references between value schemas.\<close>

definition value_edges :: "ref_map \<Rightarrow> string set \<Rightarrow> (string \<times> string) set" where
  "value_edges refs persistent =
     {(a, b). a \<notin> persistent \<and> b \<notin> persistent \<and> b \<in> set (neighbours refs a)}"

definition value_cycle :: "ref_map \<Rightarrow> string set \<Rightarrow> string list \<Rightarrow> bool" where
  "value_cycle refs persistent c \<longleftrightarrow>
     2 \<le> length c \<and> hd c = last c \<and> distinct (tl c) \<and>
     successively (\<lambda>a b. (a, b) \<in> value_edges refs persistent) c"

lemma neighbours_key: "b \<in> set (neighbours refs a) \<Longrightarrow> a \<in> fst ` set refs"
  by (auto simp: neighbours_def split: option.splits) (metis map_of_SomeD image_eqI fst_conv)

lemma value_edges_iff:
  "(a, b) \<in> value_edges refs P \<longleftrightarrow>
     a \<notin> P \<and> b \<notin> P \<and> (\<exists>targets. map_of refs a = Some targets \<and> b \<in> set targets)"
  by (cases "map_of refs a") (auto simp: value_edges_def neighbours_def)

lemma value_edges_key: "(a, b) \<in> value_edges refs P \<Longrightarrow> a \<in> fst ` set refs"
  using neighbours_key by (fastforce simp: value_edges_def)

lemma successively_trancl:
  "successively (\<lambda>a b. (a, b) \<in> r) c \<Longrightarrow> 2 \<le> length c \<Longrightarrow> (hd c, last c) \<in> r\<^sup>+"
proof (induction c rule: induct_list012)
  case (3 x y zs)
  then show ?case by (cases zs) (auto intro: trancl_into_trancl2)
qed auto

lemma value_cycle_trancl:
  "value_cycle refs P c \<Longrightarrow> (hd c, hd c) \<in> (value_edges refs P)\<^sup>+"
  using successively_trancl by (metis value_cycle_def)

lemma close_cycle_value_cycle:
  assumes path: "successively (\<lambda>a b. (a, b) \<in> value_edges refs P) path" "distinct path"
    and m: "m \<in> set path" "(last path, m) \<in> value_edges refs P"
  shows "value_cycle refs P (close_cycle path m)"
proof -
  from m(1) obtain xs ys where split: "path = xs @ m # ys" "m \<notin> set xs"
    by (metis split_list_first)
  then have drop: "dropWhile (\<lambda>n. n \<noteq> m) path = m # ys" by (simp add: dropWhile_append3 dropWhile_append)
  from path split have "successively (\<lambda>a b. (a, b) \<in> value_edges refs P) (m # ys)" "distinct (m # ys)"
    by (auto simp: successively_append_iff)
  moreover from this m split have "successively (\<lambda>a b. (a, b) \<in> value_edges refs P) ((m # ys) @ [m])"
    by (simp only: successively_append_iff) (auto split: if_splits)
  ultimately show ?thesis using m drop
    by (simp add: value_cycle_def close_cycle_def)
qed

subsection \<open>The invariant of the search\<close>

text \<open>The path is a chain of value edges; the visited schemas are closed under references and
  carry no cycle among themselves.\<close>

definition search_inv :: "ref_map \<Rightarrow> string set \<Rightarrow> walk_state \<Rightarrow> bool" where
  "search_inv refs P st \<longleftrightarrow>
     ws_on_path st = set (ws_path st) \<and> distinct (ws_path st) \<and>
     successively (\<lambda>a b. (a, b) \<in> value_edges refs P) (ws_path st) \<and>
     ws_visited st \<inter> ws_on_path st = {} \<and>
     (\<forall>v \<in> ws_visited st. \<forall>w. (v, w) \<in> value_edges refs P \<longrightarrow> w \<in> fst ` set refs \<longrightarrow> w \<in> ws_visited st) \<and>
     acyclic (value_edges refs P \<inter> ws_visited st \<times> ws_visited st)"

lemma acyclic_insert_source:
  assumes "acyclic (r \<inter> V \<times> V)" and "n \<notin> V" and "\<And>v. v \<in> V \<Longrightarrow> (v, n) \<notin> r" and "(n, n) \<notin> r"
  shows "acyclic (r \<inter> insert n V \<times> insert n V)"
proof -
  have "y \<in> V \<and> (x \<in> V \<longrightarrow> (x, y) \<in> (r \<inter> V \<times> V)\<^sup>+)"
    if "(x, y) \<in> (r \<inter> insert n V \<times> insert n V)\<^sup>+" for x y
    using that
  proof (induction rule: trancl_induct)
    case (base y)
    with assms show ?case by auto
  next
    case (step y z)
    with assms have "z \<in> V" "(y, z) \<in> r \<inter> V \<times> V" by auto
    with step show ?case by (auto intro: trancl_into_trancl)
  qed
  with assms(1) show ?thesis unfolding acyclic_def by blast
qed

definition pushed :: "string \<Rightarrow> walk_state \<Rightarrow> walk_state" where
  "pushed node st =
     st\<lparr>ws_path := ws_path st @ [node], ws_on_path := insert node (ws_on_path st)\<rparr>"

definition popped :: "string \<Rightarrow> walk_state \<Rightarrow> walk_state" where
  "popped node st =
     st\<lparr>ws_on_path := ws_on_path st - {node}, ws_visited := insert node (ws_visited st),
        ws_path := butlast (ws_path st)\<rparr>"

lemma search_inv_pushed:
  assumes "search_inv refs P st" and "node \<notin> ws_on_path st" and "node \<notin> ws_visited st"
    and "ws_path st \<noteq> [] \<Longrightarrow> (last (ws_path st), node) \<in> value_edges refs P"
  shows "search_inv refs P (pushed node st)"
  using assms by (auto simp: search_inv_def pushed_def successively_append_iff)

lemma search_inv_popped:
  assumes inv: "search_inv refs P st" and path: "ws_path st = p @ [node]"
    and key: "node \<in> fst ` set refs"
    and succ: "\<And>w. (node, w) \<in> value_edges refs P \<Longrightarrow> w \<in> fst ` set refs \<Longrightarrow> w \<in> ws_visited st"
  shows "search_inv refs P (popped node st)"
proof -
  from inv path have node: "node \<notin> ws_visited st" "node \<notin> set p" "distinct p"
    "ws_on_path st = insert node (set p)" "ws_visited st \<inter> set p = {}"
    by (auto simp: search_inv_def)
  from inv key node have "(v, node) \<notin> value_edges refs P" if "v \<in> ws_visited st" for v
    using that unfolding search_inv_def by blast
  moreover from succ [OF _ key] node have "(node, node) \<notin> value_edges refs P" by blast
  ultimately have "acyclic (value_edges refs P \<inter> insert node (ws_visited st) \<times> insert node (ws_visited st))"
    using inv node by (intro acyclic_insert_source) (auto simp: search_inv_def)
  moreover from inv path have "successively (\<lambda>a b. (a, b) \<in> value_edges refs P) p"
    by (auto simp: search_inv_def successively_append_iff)
  ultimately show ?thesis
    using inv node path succ unfolding search_inv_def popped_def by auto
qed

text \<open>What a search returns: a cycle of value schemas, or a state that keeps the invariant, the
  path, and has visited what it was asked to.\<close>

definition search_post ::
    "ref_map \<Rightarrow> string set \<Rightarrow> walk_state \<Rightarrow> string set \<Rightarrow> string list option \<times> walk_state \<Rightarrow> bool" where
  "search_post refs P st ns res \<longleftrightarrow>
     (case res of
        (Some c, st') \<Rightarrow> value_cycle refs P c
      | (None, st') \<Rightarrow> search_inv refs P st' \<and> ws_path st' = ws_path st \<and>
          ws_visited st \<subseteq> ws_visited st' \<and> ns \<inter> fst ` set refs - P \<subseteq> ws_visited st')"

lemma search_post_trans:
  assumes "search_post refs P st ns (None, st1)" and "search_post refs P st1 ms res"
  shows "search_post refs P st (ns \<union> ms) res"
  using assms by (auto simp: search_post_def split: prod.splits option.splits)

lemma search_correct:
  "search_inv refs P st \<Longrightarrow> node \<notin> ws_on_path st \<Longrightarrow> node \<notin> ws_visited st \<Longrightarrow> node \<notin> P \<Longrightarrow>
     node \<in> fst ` set refs \<Longrightarrow>
     (ws_path st \<noteq> [] \<Longrightarrow> (last (ws_path st), node) \<in> value_edges refs P) \<Longrightarrow>
     search_post refs P st {node} (walk refs P node st)"
  "search_inv refs P st \<Longrightarrow> ws_path st \<noteq> [] \<Longrightarrow>
     (\<forall>n \<in> set ns. n \<notin> P \<longrightarrow> (last (ws_path st), n) \<in> value_edges refs P) \<Longrightarrow>
     search_post refs P st (set ns) (walk_neighbours refs P ns st)"
proof (induction refs P node st and refs P ns st rule: walk_walk_neighbours.induct)
  case (1 refs P node st)
  let ?W = "walk_neighbours refs P (neighbours refs node) (pushed node st)"
  have "search_inv refs P (pushed node st)" using 1 by (intro search_inv_pushed)
  moreover have "ws_path (pushed node st) \<noteq> []" "last (ws_path (pushed node st)) = node"
    by (simp_all add: pushed_def)
  moreover have "\<forall>n \<in> set (neighbours refs node). n \<notin> P \<longrightarrow> (node, n) \<in> value_edges refs P"
    using 1 by (simp add: value_edges_def)
  ultimately have IH: "search_post refs P (pushed node st) (set (neighbours refs node)) ?W"
    using 1(1) by (simp add: pushed_def)
  obtain r st' where w: "?W = (r, st')" by (cases ?W)
  show ?case
  proof (cases r)
    case (Some c)
    with IH w show ?thesis by (simp add: walk.simps search_post_def pushed_def)
  next
    case None
    with IH w have post: "search_inv refs P st'" "ws_path st' = ws_path st @ [node]"
      "ws_visited st \<subseteq> ws_visited st'"
      "set (neighbours refs node) \<inter> fst ` set refs - P \<subseteq> ws_visited st'"
      by (auto simp: search_post_def pushed_def)
    with 1 have "search_inv refs P (popped node st')"
      by (intro search_inv_popped) (auto simp: value_edges_def)
    moreover from None w have "walk refs P node st = (None, popped node st')"
      by (simp add: walk.simps pushed_def popped_def)
    ultimately show ?thesis using post by (auto simp: search_post_def popped_def)
  qed
next
  case (2 refs P st)
  then show ?case by (simp add: walk_neighbours.simps search_post_def)
next
  case (3 refs P m rest st)
  have rest: "search_post refs P st (set (m # rest)) (walk_neighbours refs P rest st)"
    if "search_post refs P st (set rest) (walk_neighbours refs P rest st)"
      "m \<in> P \<or> m \<notin> fst ` set refs \<or> m \<in> ws_visited st"
    using that by (auto simp: search_post_def split: prod.splits option.splits)
  consider "m \<in> P" | "m \<notin> P" "m \<in> ws_on_path st"
    | "m \<notin> P" "m \<notin> ws_on_path st" "m \<in> fst ` set refs" "m \<notin> ws_visited st"
    | "m \<notin> P" "m \<notin> ws_on_path st" "m \<notin> fst ` set refs \<or> m \<in> ws_visited st" by blast
  then show ?case
  proof cases
    case 1
    with 3 rest show ?thesis by (simp add: walk_neighbours.simps)
  next
    case 2
    with 3(5,6,7) show ?thesis
      by (simp add: walk_neighbours.simps search_post_def search_inv_def close_cycle_value_cycle)
  next
    case 3
    obtain r st1 where w: "walk refs P m st = (r, st1)" by (cases "walk refs P m st")
    from 3 "3.prems" "3.IH"(2) w have post: "search_post refs P st {m} (r, st1)" by simp
    show ?thesis
    proof (cases r)
      case (Some c)
      with 3 w post show ?thesis by (simp add: walk_neighbours.simps search_post_def)
    next
      case None
      with post have "search_inv refs P st1" "ws_path st1 = ws_path st" by (simp_all add: search_post_def)
      with 3 "3.prems" None "3.IH"(3) w
      have "search_post refs P st1 (set rest) (walk_neighbours refs P rest st1)" by simp
      with post None have "search_post refs P st ({m} \<union> set rest) (walk_neighbours refs P rest st1)"
        by (blast intro: search_post_trans)
      with 3 w None show ?thesis by (simp add: walk_neighbours.simps)
    qed
  next
    case 4
    with 3 rest show ?thesis by (auto simp: walk_neighbours.simps)
  qed
qed

lemma closed_restr_trancl:
  assumes "(x, y) \<in> (value_edges refs P)\<^sup>+" and "x \<in> V" and "y \<in> fst ` set refs"
    and "\<forall>v \<in> V. \<forall>w. (v, w) \<in> value_edges refs P \<longrightarrow> w \<in> fst ` set refs \<longrightarrow> w \<in> V"
  shows "y \<in> V \<and> (x, y) \<in> (value_edges refs P \<inter> V \<times> V)\<^sup>+"
  using assms
proof (induction rule: trancl_induct)
  case (base y)
  then show ?case by blast
next
  case (step y z)
  then have "y \<in> fst ` set refs" by (blast dest: value_edges_key)
  with step show ?case by (blast intro: trancl_into_trancl)
qed

lemma walk_start:
  assumes "start \<notin> P" and "start \<in> fst ` set refs"
  defines "W \<equiv> walk refs P start \<lparr>ws_path = [], ws_on_path = {}, ws_visited = {}\<rparr>"
  shows "fst W = Some c \<Longrightarrow> value_cycle refs P c"
    and "fst W = None \<Longrightarrow> (start, start) \<notin> (value_edges refs P)\<^sup>+"
proof -
  have post: "search_post refs P \<lparr>ws_path = [], ws_on_path = {}, ws_visited = {}\<rparr> {start} W"
    unfolding W_def by (rule search_correct(1)) (use assms in \<open>simp_all add: search_inv_def acyclic_def\<close>)
  show "fst W = Some c \<Longrightarrow> value_cycle refs P c"
    using post by (auto simp: search_post_def split: prod.splits)
  assume "fst W = None"
  with post assms(1,2) have "search_inv refs P (snd W)" "start \<in> ws_visited (snd W)"
    by (auto simp: search_post_def split: prod.splits)
  then show "(start, start) \<notin> (value_edges refs P)\<^sup>+"
    using closed_restr_trancl [OF _ _ assms(2), of start P "ws_visited (snd W)"]
    by (auto simp: search_inv_def acyclic_def)
qed

lemma search_starts_correct:
  assumes "set starts \<subseteq> fst ` set refs - P"
  shows "search_starts refs P starts = Some c \<Longrightarrow> value_cycle refs P c"
    and "search_starts refs P starts = None \<Longrightarrow> start \<in> set starts \<Longrightarrow>
           (start, start) \<notin> (value_edges refs P)\<^sup>+"
  using assms by (induction starts) (auto split: option.splits dest: walk_start)

subsection \<open>The interface of the search\<close>

text \<open>What the project loader and the linter rely on: a reported cycle is one, and silence means
  that references between value schemas are well-founded, so a recursion along them ends.\<close>

locale reference_cycle_search =
  fixes search :: "ref_map \<Rightarrow> string set \<Rightarrow> string list option"
  assumes search_sound: "search refs P = Some c \<Longrightarrow> value_cycle refs P c"
    and search_complete: "search refs P = None \<Longrightarrow> acyclic (value_edges refs P)"
begin

lemma search_None_iff: "search refs P = None \<longleftrightarrow> acyclic (value_edges refs P)"
proof
  assume "acyclic (value_edges refs P)"
  then have "search refs P \<noteq> Some c" for c
    using search_sound [of refs P c] value_cycle_trancl [of refs P c] by (auto simp: acyclic_def)
  then show "search refs P = None" by (cases "search refs P") auto
qed (rule search_complete)

lemma search_None_wf: "search refs P = None \<Longrightarrow> wf ((value_edges refs P)\<inverse>)"
proof (rule finite_acyclic_wf_converse)
  have "value_edges refs P \<subseteq> Sigma (fst ` set refs) (\<lambda>a. set (neighbours refs a))"
    using neighbours_key by (auto simp: value_edges_def)
  then show "finite (value_edges refs P)"
    by (rule finite_subset) (rule finite_SigmaI, simp_all)
qed (rule search_complete)

end

interpretation dfs: reference_cycle_search find_disallowed_cycle
proof
  fix refs P c
  show "find_disallowed_cycle refs P = Some c \<Longrightarrow> value_cycle refs P c"
    unfolding find_disallowed_cycle_def by (erule search_starts_correct(1) [rotated]) auto
  assume none: "find_disallowed_cycle refs P = None"
  have "(x, x) \<notin> (value_edges refs P)\<^sup>+" for x
  proof
    assume cyc: "(x, x) \<in> (value_edges refs P)\<^sup>+"
    then obtain y where "(x, y) \<in> value_edges refs P" by (meson tranclD)
    then have "x \<notin> P" "x \<in> fst ` set refs"
      by (auto simp: value_edges_def dest: neighbours_key)
    with cyc none show False
      unfolding find_disallowed_cycle_def by (auto dest!: search_starts_correct(2) [rotated])
  qed
  then show "acyclic (value_edges refs P)" by (simp add: acyclic_def)
qed

lemma map_of_eq_keys: "map_of refs = map_of refs' \<Longrightarrow> fst ` set refs = fst ` set refs'"
  by (metis dom_map_of_conv_image_fst)

lemma walk_cong_map:
  "map_of refs = map_of refs' \<Longrightarrow> walk refs P node st = walk refs' P node st"
  "map_of refs = map_of refs' \<Longrightarrow> walk_neighbours refs P ns st = walk_neighbours refs' P ns st"
proof (induction refs P node st and refs P ns st rule: walk_walk_neighbours.induct)
  case (1 refs P node st)
  then show ?case by (simp add: walk.simps neighbours_def)
next
  case (2 refs P st)
  then show ?case by (simp add: walk_neighbours.simps)
next
  case (3 refs P m rest st)
  then show ?case
    by (auto simp: walk_neighbours.simps map_of_eq_keys [OF 3(5)] split: prod.splits option.splits)
qed

lemma search_starts_cong_map:
  "map_of refs = map_of refs' \<Longrightarrow> search_starts refs P starts = search_starts refs' P starts"
  by (induction starts) (simp_all add: walk_cong_map(1) [of refs refs'] split: option.splits)

subsection \<open>Properties\<close>

text \<open>Every cycle the search reports is one: it starts and ends at the same schema, visits no
  schema twice in between, and each step is a reference between two schemas without a
  \<open>db:\<close> table.\<close>

theorem find_disallowed_cycle_sound:
  assumes "find_disallowed_cycle refs persistent = Some c"
  shows "2 \<le> length c \<and> hd c = last c \<and> distinct (tl c) \<and>
     (\<forall>i. Suc i < length c \<longrightarrow>
        c ! i \<notin> persistent \<and> c ! Suc i \<notin> persistent \<and>
        (\<exists>targets. map_of refs (c ! i) = Some targets \<and> c ! Suc i \<in> set targets))"
proof -
  note cyc = dfs.search_sound [OF assms, unfolded value_cycle_def]
  have "(c ! i, c ! Suc i) \<in> value_edges refs persistent" if "Suc i < length c" for i
    using cyc that by (auto simp: successively_conv_nth)
  with cyc show ?thesis by (auto simp: value_edges_iff)
qed

theorem find_disallowed_cycle_sound_witness:
  "find_disallowed_cycle [(''B'', [''C'', ''Db'']), (''A'', [''B'']), (''C'', [''B''])] {''Db''}
     = Some [''B'', ''C'', ''B''] \<and>
   hd [''B'', ''C'', ''B''] = last [''B'', ''C'', ''B'']"
proof -
  have "find_disallowed_cycle [(''B'', [''C'', ''Db'']), (''A'', [''B'']), (''C'', [''B''])] {''Db''}
     = Some [''B'', ''C'', ''B'']" by code_simp
  with find_disallowed_cycle_sound [OF this] show ?thesis by blast
qed

text \<open>C12: the search is complete: it reports nothing exactly when the references between value
  schemas are acyclic. A cycle through a persistent schema is not reported.\<close>

theorem find_disallowed_cycle_complete:
  "find_disallowed_cycle refs persistent = None \<longleftrightarrow>
     acyclic {(a, b). a \<notin> persistent \<and> b \<notin> persistent \<and>
                (\<exists>targets. map_of refs a = Some targets \<and> b \<in> set targets)}"
proof -
  have "value_edges refs persistent =
      {(a, b). a \<notin> persistent \<and> b \<notin> persistent \<and>
         (\<exists>targets. map_of refs a = Some targets \<and> b \<in> set targets)}"
    by (auto simp: value_edges_iff)
  then show ?thesis using dfs.search_None_iff [of refs persistent] by simp
qed

text \<open>The reported cycle is stable across runs: it does not depend on the order in which the
  hash map \<open>refs\<close> lists its entries.\<close>

theorem find_disallowed_cycle_stable:
  assumes "distinct (map fst refs)" and "distinct (map fst refs')" and "map_of refs = map_of refs'"
  shows "find_disallowed_cycle refs persistent = find_disallowed_cycle refs' persistent"
proof -
  have "sort (filter (\<lambda>n. n \<notin> persistent) (map fst refs)) =
      sort (filter (\<lambda>n. n \<notin> persistent) (map fst refs'))"
    by (rule sorted_distinct_set_unique)
      (use assms map_of_eq_keys [OF assms(3)] in \<open>auto\<close>)
  then show ?thesis
    by (simp add: find_disallowed_cycle_def search_starts_cong_map [OF assms(3)])
qed

theorem find_disallowed_cycle_stable_witness:
  "find_disallowed_cycle [(''B'', [''A'']), (''A'', [''A''])] {} = Some [''A'', ''A''] \<and>
   find_disallowed_cycle [(''A'', [''A'']), (''B'', [''A''])] {} = Some [''A'', ''A'']"
proof -
  have "map_of [(''B'', [''A'']), (''A'', [''A''])] = map_of [(''A'', [''A'']), (''B'', [''A''])]"
    by (auto simp: fun_eq_iff)
  moreover have "find_disallowed_cycle [(''B'', [''A'']), (''A'', [''A''])] {} = Some [''A'', ''A'']"
    by code_simp
  ultimately show ?thesis
    using find_disallowed_cycle_stable
      [of "[(''B'', [''A'']), (''A'', [''A''])]" "[(''A'', [''A'']), (''B'', [''A''])]" "{}"]
    by simp
qed

end
