(* ===== verification/Version.thy ===== *)
theory Version
  imports Marreta_Error "HOL-Library.Product_Lexorder"
begin

text \<open>
  \<^verbatim>\<open>src/src/version.rs\<close> and the compatibility gate of \<^verbatim>\<open>src/src/file_loader.rs\<close>: semantic
  versions are triples of \<open>u64\<close>, compared lexicographically as Rust compares tuples. The
  runtime version is that of \<^verbatim>\<open>src/Cargo.toml\<close>, which \<open>env!("CARGO_PKG_VERSION")\<close> reads.
\<close>

type_synonym u64 = "64 word"
type_synonym version = "u64 \<times> u64 \<times> u64"

definition MARRETA_NAME :: string where "MARRETA_NAME = ''MarretaLang''"
definition MARRETA_VERSION :: string where "MARRETA_VERSION = ''0.2.0''"
definition COMPAT_FLOOR :: string where "COMPAT_FLOOR = ''0.2.0''"

definition runtime_version_label :: string where
  "runtime_version_label = MARRETA_NAME @ '' v'' @ MARRETA_VERSION"

text \<open>\<open>str::parse::<u64>\<close>: an optional plus sign, then at least one digit, in range.\<close>

definition parse_u64 :: "string \<Rightarrow> u64 option" where
  "parse_u64 s =
     (let digits = (if s \<noteq> [] \<and> hd s = CHR ''+'' then tl s else s)
      in if digits \<noteq> [] \<and> list_all is_ascii_digit digits \<and> digits_value digits < 2 ^ 64
         then Some (of_int (digits_value digits)) else None)"

definition parse_version :: "string \<Rightarrow> version option" where
  "parse_version value =
     (case split_char (CHR ''.'') value of
        [a, b, c] \<Rightarrow>
          (case (parse_u64 a, parse_u64 b, parse_u64 c) of
             (Some major, Some minor, Some patch) \<Rightarrow> Some (major, minor, patch)
           | _ \<Rightarrow> None)
      | _ \<Rightarrow> None)"

definition parse_requires_marreta :: "string \<Rightarrow> version option" where
  "parse_requires_marreta value =
     (case strip_prefix ''>='' (trim value) of
        None \<Rightarrow> None
      | Some after_op \<Rightarrow>
          let version = (case strip_prefix '' '' after_op of Some v \<Rightarrow> v | None \<Rightarrow> after_op)
          in if list_ex is_whitespace version then None else parse_version version)"

definition check_runtime_compatibility :: "string \<Rightarrow> marreta_error + unit" where
  "check_runtime_compatibility requirement =
     (case parse_requires_marreta requirement of
        None \<Rightarrow> Inl (IoError (''invalid '' @ [CHR 0x27] @ ''requires_marreta'' @ [CHR 0x27] @
                  '' value '' @ [CHR 0x27] @ requirement @ [CHR 0x27] @
                  '': expected a minimum like '' @ [CHR 0x22] @ ''>=0.2.0'' @ [CHR 0x22]))
      | Some minimum \<Rightarrow>
          if the (parse_version MARRETA_VERSION) < minimum
          then Inl (IncompatibleRuntime (trim requirement) MARRETA_VERSION)
          else Inr ())"

subsection \<open>Numerals\<close>

definition print_version :: "version \<Rightarrow> string" where
  "print_version v =
     (case v of (a, b, c) \<Rightarrow>
        join ''.'' [nat_to_string (unat a), nat_to_string (unat b), nat_to_string (unat c)])"

lemma parse_u64_nat_to_string: "parse_u64 (nat_to_string (unat w)) = Some w"
proof -
  have "hd (nat_to_string (unat w)) \<noteq> CHR ''+''"
    using nat_to_string_digit [of "hd (nat_to_string (unat w))" "unat w"] digit_facts(2) by auto
  moreover have "uint w < 2 ^ 64" using uint_bounded [of w] by simp
  ultimately show ?thesis
    using nat_to_string_digits [of "unat w"] by (simp add: parse_u64_def)
qed

lemma print_version_chars: "c \<in> set (print_version v) \<Longrightarrow> is_ascii_digit c \<or> c = CHR ''.''"
  by (cases v) (auto simp: print_version_def dest: nat_to_string_digit)

lemma parse_version_printed: "parse_version (print_version v) = Some v"
proof (cases v)
  case (fields a b c)
  have "CHR ''.'' \<notin> set (nat_to_string n)" for n
    using nat_to_string_digit digit_facts(1) by blast
  then have "split_char (CHR ''.'') (print_version v) =
      [nat_to_string (unat a), nat_to_string (unat b), nat_to_string (unat c)]"
    unfolding print_version_def fields prod.case by (intro split_char_join) auto
  then show ?thesis by (simp add: fields parse_version_def parse_u64_nat_to_string)
qed

text \<open>A printed version has no white space and does not start with a blank: the trimming and the
  optional blank of the requirement syntax leave it alone.\<close>

lemma print_version_not_Nil [simp]: "print_version v \<noteq> []"
  by (cases v) (simp add: print_version_def)

lemma print_version_not_ws: "c \<in> set (print_version v) \<Longrightarrow> \<not> is_whitespace c"
proof -
  have "\<not> is_whitespace (CHR ''.'')" by (simp add: is_whitespace_def)
  then show "c \<in> set (print_version v) \<Longrightarrow> \<not> is_whitespace c"
    using print_version_chars digit_facts(3) by blast
qed

lemma parse_requires_printed:
  assumes "sep = [] \<or> sep = '' ''"
  shows "parse_requires_marreta (''>='' @ sep @ print_version v) = Some v"
proof -
  have last: "\<not> is_whitespace (last (print_version v))"
    using print_version_not_ws [of "last (print_version v)" v] by simp
  have trim: "trim (''>='' @ sep @ print_version v) = ''>='' @ sep @ print_version v"
    by (rule trim_no_ws) (use last in \<open>simp_all add: is_whitespace_def\<close>)
  have noblank: "strip_prefix '' '' (print_version v) = None"
    using print_version_not_ws [of "CHR '' ''" v]
    by (cases "print_version v") (auto simp: strip_prefix_def is_whitespace_def)
  have nows: "\<not> list_ex is_whitespace (print_version v)"
    using print_version_not_ws by (auto simp: list_ex_iff)
  from assms show ?thesis
  proof
    assume "sep = []"
    then show ?thesis using trim noblank nows
      by (simp add: parse_requires_marreta_def parse_version_printed strip_prefix_def)
  next
    assume "sep = '' ''"
    then show ?thesis using trim nows
      by (simp add: parse_requires_marreta_def parse_version_printed strip_prefix_def)
  qed
qed

subsection \<open>Properties\<close>

text \<open>A project that requires version \<open>v\<close> or later, written \<open>>=v\<close> or \<open>>= v\<close>, loads exactly
  when \<open>v\<close> is at most the version of the runtime; a greater requirement is the error
  \<open>IncompatibleRuntime\<close>.\<close>

theorem check_runtime_compatibility_printed:
  assumes "sep = [] \<or> sep = '' ''"
  shows "check_runtime_compatibility (''>='' @ sep @ print_version v) =
     (if v \<le> (0, 2, 0) then Inr ()
      else Inl (IncompatibleRuntime (trim (''>='' @ sep @ print_version v)) MARRETA_VERSION))"
proof -
  have "parse_version MARRETA_VERSION = Some (0, 2, 0)"
    unfolding MARRETA_VERSION_def by code_simp
  then show ?thesis
    unfolding check_runtime_compatibility_def parse_requires_printed [OF assms] option.case
    by (auto simp: not_less)
qed

theorem check_runtime_compatibility_printed_witness:
  "check_runtime_compatibility ''>= 0.2.0'' = Inr ()"
proof -
  have "print_version (0, 2, 0) = ''0.2.0''" by code_simp
  then show ?thesis using check_runtime_compatibility_printed [of "'' ''" "(0, 2, 0)"] by simp
qed

text \<open>The version parser is not limited to the plain \<open>MAJOR.MINOR.PATCH\<close> its comment promises: each
  component may carry a plus sign, as \<open>str::parse::<u64>\<close> allows.\<close>

lemma parse_version_accepts_plus:
  "parse_version ''+1.2.3'' = Some (1, 2, 3) \<and> parse_requires_marreta ''>=0.+2.0'' = Some (0, 2, 0)"
  by code_simp

end
