(* ===== verification/Feature_Flags.thy ===== *)
theory Feature_Flags
  imports Marreta_Prelude "HOL-Library.Char_ord" "HOL-Library.List_Lexorder" "HOL-Library.AList"
begin

text \<open>
  \<^verbatim>\<open>src/src/feature_flags.rs\<close>: feature flags read from environment variables. A \<open>HashMap\<close> is an
  association list with distinct keys whose order is the order of iteration, which Rust leaves
  unspecified.
\<close>

definition FEATURE_ENV_PREFIX :: string where
  "FEATURE_ENV_PREFIX = ''MARRETA_FEATURE_''"

definition FEATURE_ENV_NAME_HELP :: string where
  "FEATURE_ENV_NAME_HELP =
     ''after MARRETA_FEATURE_, use uppercase letters, digits, and single underscores; '' @
     ''start with a letter; '' @
     ''do not use double underscores or trailing underscores''"

record feature_flags =
  ff_flags :: "(string \<times> bool) list"

definition enabled :: "feature_flags \<Rightarrow> string \<Rightarrow> bool" where
  "enabled ff name = (case map_of (ff_flags ff) name of Some b \<Rightarrow> b | None \<Rightarrow> False)"

definition flags_is_empty :: "feature_flags \<Rightarrow> bool" where
  "flags_is_empty ff \<longleftrightarrow> ff_flags ff = []"

definition flags_entries :: "feature_flags \<Rightarrow> (string \<times> bool) list" where
  "flags_entries ff = sort_key fst (ff_flags ff)"

definition is_lower_or_digit :: "char \<Rightarrow> bool" where
  "is_lower_or_digit c \<longleftrightarrow> is_ascii_lowercase c \<or> is_ascii_digit c"

definition is_valid_feature_name :: "string \<Rightarrow> bool" where
  "is_valid_feature_name name =
     (case split_char (CHR ''_'') name of
        [] \<Rightarrow> False
      | first # parts \<Rightarrow>
          if first = [] \<or> \<not> is_ascii_lowercase (hd first) \<or> \<not> list_all is_lower_or_digit first
          then False
          else list_all (\<lambda>part. part \<noteq> [] \<and> list_all is_lower_or_digit part) parts)"

definition normalize_env_feature_name :: "string \<Rightarrow> string option" where
  "normalize_env_feature_name env_key =
     map_option (map to_ascii_lower) (strip_prefix FEATURE_ENV_PREFIX env_key)"

definition env_key_for_feature_name :: "string \<Rightarrow> string" where
  "env_key_for_feature_name name = FEATURE_ENV_PREFIX @ map to_ascii_upper name"

definition parse_feature_bool :: "string \<Rightarrow> string + bool" where
  "parse_feature_bool raw =
     (let s = map to_ascii_lower (trim raw)
      in if s \<in> {''true'', ''1'', ''yes'', ''on'', ''enabled''} then Inr True
         else if s \<in> {''false'', ''0'', ''no'', ''off'', ''disabled''} then Inr False
         else Inl raw)"

text \<open>One iteration of the loop of \<open>load_feature_flags\<close> over the state \<open>(flags, errors)\<close>.\<close>

definition load_flag ::
    "string \<times> string \<Rightarrow> (string \<times> bool) list \<times> string list \<Rightarrow> (string \<times> bool) list \<times> string list" where
  "load_flag kv st =
     (case (kv, st) of ((key, value), (flags, errors)) \<Rightarrow>
        case normalize_env_feature_name key of
          None \<Rightarrow> (flags, errors)
        | Some name \<Rightarrow>
            if \<not> is_valid_feature_name name
            then (flags, errors @ [''invalid '' @ key @ '': '' @ FEATURE_ENV_NAME_HELP])
            else (case parse_feature_bool value of
                    Inr b \<Rightarrow> (AList.update name b flags, errors)
                  | Inl raw \<Rightarrow> (flags, errors @ [key @ '' has invalid boolean value '' @
                                         [CHR 0x27] @ raw @ [CHR 0x27]])))"

definition load_feature_flags :: "(string \<times> string) list \<Rightarrow> feature_flags \<times> string list" where
  "load_feature_flags vars =
     (case fold load_flag vars ([], []) of (flags, errors) \<Rightarrow> (\<lparr>ff_flags = flags\<rparr>, errors))"

subsection \<open>Feature names\<close>

text \<open>The language of \<open>FEATURE_NAME_REGEX\<close>, \<open>^[a-z][a-z0-9]*(_[a-z0-9]+)*$\<close>.\<close>

inductive feature_name_lang :: "string \<Rightarrow> bool" where
  first: "is_ascii_lowercase c \<Longrightarrow> list_all is_lower_or_digit cs \<Longrightarrow> feature_name_lang (c # cs)"
| more: "feature_name_lang w \<Longrightarrow> part \<noteq> [] \<Longrightarrow> list_all is_lower_or_digit part \<Longrightarrow>
    feature_name_lang (w @ ''_'' @ part)"

lemma lower_or_digit_not_underscore: "is_lower_or_digit c \<Longrightarrow> c \<noteq> CHR ''_''"
  by (auto simp: is_lower_or_digit_def ascii_simps)

lemma list_all_lower_or_digit_no_underscore:
  "list_all is_lower_or_digit s \<Longrightarrow> CHR ''_'' \<notin> set s"
  by (auto simp: list_all_iff dest: lower_or_digit_not_underscore)

definition valid_parts :: "string list \<Rightarrow> bool" where
  "valid_parts ps \<longleftrightarrow> ps \<noteq> [] \<and> hd ps \<noteq> [] \<and> is_ascii_lowercase (hd (hd ps)) \<and>
     list_all (\<lambda>p. p \<noteq> [] \<and> list_all is_lower_or_digit p) ps"

lemma is_valid_feature_name_parts:
  "is_valid_feature_name s \<longleftrightarrow> valid_parts (split_char (CHR ''_'') s)"
  by (cases "split_char (CHR ''_'') s") (auto simp: is_valid_feature_name_def valid_parts_def)

lemma valid_parts_no_underscore: "valid_parts ps \<Longrightarrow> p \<in> set ps \<Longrightarrow> CHR ''_'' \<notin> set p"
  by (auto simp: valid_parts_def list_all_iff dest: lower_or_digit_not_underscore)

lemma valid_parts_lang: "valid_parts ps \<Longrightarrow> feature_name_lang (join ''_'' ps)"
proof (induction ps rule: rev_induct)
  case (snoc p ps)
  show ?case
  proof (cases "ps = []")
    case True
    with snoc.prems show ?thesis
      by (cases p) (auto simp: valid_parts_def intro: feature_name_lang.first)
  next
    case False
    with snoc.prems have "valid_parts ps" "p \<noteq> []" "list_all is_lower_or_digit p"
      by (auto simp: valid_parts_def)
    with snoc.IH False show ?thesis
      by (auto simp: join_snoc intro: feature_name_lang.more [simplified])
  qed
qed (simp add: valid_parts_def)

lemma lang_valid_parts: "feature_name_lang s \<Longrightarrow> \<exists>ps. valid_parts ps \<and> s = join ''_'' ps"
proof (induction rule: feature_name_lang.induct)
  case (first c cs)
  then have "valid_parts [c # cs]"
    by (auto simp: valid_parts_def is_lower_or_digit_def)
  then show ?case by (metis join.simps(2))
next
  case (more w part)
  then obtain ps where "valid_parts ps" "w = join ''_'' ps" by blast
  with more have "valid_parts (ps @ [part])" "w @ ''_'' @ part = join ''_'' (ps @ [part])"
    by (auto simp: valid_parts_def join_snoc)
  then show ?case by blast
qed

subsection \<open>Loading\<close>

lemma to_ascii_lower_upper: "is_ascii_lowercase c \<Longrightarrow> to_ascii_lower (to_ascii_upper c) = c"
  by (auto simp: to_ascii_lower_def to_ascii_upper_def ascii_simps)

lemma to_ascii_lower_upper_id: "\<not> is_ascii_uppercase c \<Longrightarrow> to_ascii_lower (to_ascii_upper c) = c"
  by (cases "is_ascii_lowercase c")
    (simp add: to_ascii_lower_upper, simp add: to_ascii_upper_def to_ascii_lower_def)

lemma valid_name_chars: "is_valid_feature_name s \<Longrightarrow> c \<in> set s \<Longrightarrow> is_lower_or_digit c \<or> c = CHR ''_''"
proof -
  assume valid: "is_valid_feature_name s" and c: "c \<in> set s"
  have "c \<in> set (join sep ps) \<Longrightarrow> c \<in> set sep \<or> (\<exists>p \<in> set ps. c \<in> set p)" for sep ps
    by (induction sep ps rule: join.induct) auto
  from this [of "''_''" "split_char (CHR ''_'') s"] c valid show ?thesis
    by (auto simp: join_split_char is_valid_feature_name_parts valid_parts_def list_all_iff)
qed

lemma valid_name_not_upper:
  assumes "is_valid_feature_name s" and "c \<in> set s"
  shows "\<not> is_ascii_uppercase c"
  using valid_name_chars [OF assms] by (auto simp: is_lower_or_digit_def ascii_simps)

text \<open>The flag an environment variable sets, if any.\<close>

definition var_flag :: "string \<times> string \<Rightarrow> (string \<times> bool) option" where
  "var_flag kv =
     (case normalize_env_feature_name (fst kv) of
        Some name \<Rightarrow>
          (if is_valid_feature_name name
           then (case parse_feature_bool (snd kv) of Inr b \<Rightarrow> Some (name, b) | Inl _ \<Rightarrow> None)
           else None)
      | None \<Rightarrow> None)"

lemma load_flag_flags:
  "map_of (fst (load_flag kv st)) =
     (case var_flag kv of Some (name, b) \<Rightarrow> (map_of (fst st))(name \<mapsto> b) | None \<Rightarrow> map_of (fst st))"
  by (cases kv; cases st)
    (auto simp: load_flag_def var_flag_def update_conv' split: option.splits sum.splits)

lemma fold_load_flag_flags:
  "map_of (fst (fold load_flag vars st)) = map_of (fst st) ++ map_of (rev (List.map_filter var_flag vars))"
proof (induction vars arbitrary: st)
  case (Cons kv vars)
  then show ?case
    by (auto simp: load_flag_flags map_add_def fun_eq_iff split: option.splits)
qed simp

text \<open>The errors are those of the malformed variables, in the order of iteration.\<close>

definition var_error :: "string \<times> string \<Rightarrow> bool" where
  "var_error kv \<longleftrightarrow> (\<exists>s. fst kv = FEATURE_ENV_PREFIX @ s) \<and> var_flag kv = None"

lemma load_flag_errors: "snd (load_flag kv st) = snd st \<longleftrightarrow> \<not> var_error kv"
  "snd (load_flag kv st) = snd st \<or> (\<exists>e. snd (load_flag kv st) = snd st @ [e])"
  by (cases kv; cases st; auto simp: load_flag_def var_error_def var_flag_def
      normalize_env_feature_name_def strip_prefix_Some split: option.splits sum.splits)+

lemma fold_load_flag_errors:
  "length (snd (fold load_flag vars st)) = length (snd st) + length (filter var_error vars)"
proof (induction vars arbitrary: st)
  case (Cons kv vars)
  from load_flag_errors [of kv st]
  have "length (snd (load_flag kv st)) = length (snd st) + (if var_error kv then 1 else 0)"
    by auto
  with Cons show ?case by simp
qed simp

subsection \<open>Properties\<close>

text \<open>C18: the hand-written validator of feature names accepts exactly the language of the
  documented regular expression \<open>^[a-z][a-z0-9]*(_[a-z0-9]+)*$\<close>.\<close>

theorem is_valid_feature_name_regex: "is_valid_feature_name s \<longleftrightarrow> feature_name_lang s"
proof
  assume "is_valid_feature_name s"
  then have "valid_parts (split_char (CHR ''_'') s)" by (simp add: is_valid_feature_name_parts)
  then have "feature_name_lang (join ''_'' (split_char (CHR ''_'') s))" by (rule valid_parts_lang)
  then show "feature_name_lang s" by (simp add: join_split_char)
next
  assume "feature_name_lang s"
  then obtain ps where ps: "valid_parts ps" "s = join ''_'' ps" using lang_valid_parts by blast
  then have "split_char (CHR ''_'') s = ps"
    using valid_parts_no_underscore [OF ps(1)] by (auto simp: valid_parts_def intro: split_char_join)
  with ps show "is_valid_feature_name s" by (simp add: is_valid_feature_name_parts)
qed

text \<open>C19: when no two variables name the same flag, loading is independent of the order of the
  environment: a flag is on exactly when its variable says so, and there is an error for
  every malformed variable with the prefix and for no other.\<close>

theorem load_feature_flags_correct:
  assumes "distinct (map fst (List.map_filter var_flag vars))"
  shows "(enabled (fst (load_feature_flags vars)) name \<longleftrightarrow>
            (\<exists>kv \<in> set vars. var_flag kv = Some (name, True))) \<and>
         length (snd (load_feature_flags vars)) = length (filter var_error vars)"
proof -
  have flags: "map_of (ff_flags (fst (load_feature_flags vars))) = map_of (List.map_filter var_flag vars)"
    using fold_load_flag_flags [of vars "([], [])"] map_of_rev_distinct [OF assms]
    by (simp add: load_feature_flags_def split_beta)
  have mem: "(name, b) \<in> set (List.map_filter var_flag vars) \<longleftrightarrow>
      (\<exists>kv \<in> set vars. var_flag kv = Some (name, b))" for b
    by (force simp: List.map_filter_def)
  have "enabled (fst (load_feature_flags vars)) name \<longleftrightarrow>
      map_of (List.map_filter var_flag vars) name = Some True"
    by (simp add: enabled_def flags split: option.splits)
  also have "\<dots> \<longleftrightarrow> (name, True) \<in> set (List.map_filter var_flag vars)"
    by (rule map_of_eq_Some_iff [OF assms])
  finally have "enabled (fst (load_feature_flags vars)) name \<longleftrightarrow>
      (name, True) \<in> set (List.map_filter var_flag vars)" .
  moreover have "length (snd (load_feature_flags vars)) = length (filter var_error vars)"
    using fold_load_flag_errors [of vars "([], [])"] by (simp add: load_feature_flags_def split_beta)
  ultimately show ?thesis by (simp add: mem)
qed

theorem load_feature_flags_correct_witness:
  "enabled (fst (load_feature_flags [(''MARRETA_FEATURE_NEW_UI'', '' Yes ''), (''PATH'', ''x''),
       (''MARRETA_FEATURE__X'', ''on'')])) ''new_ui'' \<and>
   length (snd (load_feature_flags [(''MARRETA_FEATURE_NEW_UI'', '' Yes ''), (''PATH'', ''x''),
       (''MARRETA_FEATURE__X'', ''on'')])) = 1"
proof -
  let ?vars = "[(''MARRETA_FEATURE_NEW_UI'', '' Yes ''), (''PATH'', ''x''), (''MARRETA_FEATURE__X'', ''on'')]"
  have f: "var_flag (?vars ! 0) = Some (''new_ui'', True)" "var_flag (?vars ! 1) = None"
    "var_flag (?vars ! 2) = None" by code_simp+
  have e: "strip_prefix FEATURE_ENV_PREFIX ''PATH'' = None"
    "strip_prefix FEATURE_ENV_PREFIX ''MARRETA_FEATURE__X'' = Some ''_X''" by code_simp+
  have "var_error (?vars ! 2)" "\<not> var_error (?vars ! 1)" "\<not> var_error (?vars ! 0)"
    using f e strip_prefix_append [of FEATURE_ENV_PREFIX]
    by (auto simp: var_error_def strip_prefix_Some [symmetric])
  then have "length (filter var_error ?vars) = 1" by simp
  moreover have "distinct (map fst (List.map_filter var_flag ?vars))" using f by simp
  ultimately show ?thesis
    using load_feature_flags_correct [of ?vars "''new_ui''"] f by auto
qed

text \<open>Two variables that differ in the case of their letters set the same flag, and then the last
  one in the order of iteration wins: the outcome depends on the order of the hash map.\<close>

lemma load_feature_flags_order_dependent:
  "enabled (fst (load_feature_flags [(''MARRETA_FEATURE_A'', ''on''), (''MARRETA_FEATURE_a'', ''off'')])) ''a''
     \<noteq> enabled (fst (load_feature_flags [(''MARRETA_FEATURE_a'', ''off''), (''MARRETA_FEATURE_A'', ''on'')])) ''a''"
  by code_simp

text \<open>The key the diagnostics print for a flag is one that sets it.\<close>

lemma load_env_key_for_feature_name:
  assumes "is_valid_feature_name name" and "parse_feature_bool value = Inr b"
  shows "load_feature_flags [(env_key_for_feature_name name, value)] = (\<lparr>ff_flags = [(name, b)]\<rparr>, [])"
proof -
  have "map (to_ascii_lower \<circ> to_ascii_upper) name = map id name"
    using valid_name_not_upper [OF assms(1)] by (intro map_cong) (simp_all add: to_ascii_lower_upper_id)
  then have "normalize_env_feature_name (env_key_for_feature_name name) = Some name"
    by (simp add: normalize_env_feature_name_def env_key_for_feature_name_def)
  with assms show ?thesis by (simp add: load_feature_flags_def load_flag_def)
qed

end
