(* ===== verification/Trace_Context.thy ===== *)
theory Trace_Context
  imports Marreta_Prelude
begin

text \<open>
  \<^verbatim>\<open>src/src/trace_context.rs\<close>: W3C trace context headers. The operating system's random source
  (the crate \<open>getrandom\<close>) is a parameter \<open>fill\<close> that draws \<open>n\<close> bytes, or fails, and returns the next
  state of the source. \<open>random_hex_nonzero\<close> panics when the source fails and draws until a byte is not zero; that
  it returns is a fact about the source, so the loop is a partial function and its result an
  option: \<open>None\<close> is both the panic and the loop without end.
\<close>

definition TRACEPARENT_VERSION :: string where "TRACEPARENT_VERSION = ''00''"
definition DEFAULT_TRACE_FLAGS :: string where "DEFAULT_TRACE_FLAGS = ''00''"
definition MAX_TRACESTATE_ENTRIES :: nat where "MAX_TRACESTATE_ENTRIES = 32"
definition MAX_TRACESTATE_LEN :: nat where "MAX_TRACESTATE_LEN = 512"

record trace_context =
  tc_trace_id :: string
  tc_span_id :: string
  tc_trace_flags :: string
  tc_tracestate :: "string option"

record parsed_traceparent =
  pt_trace_id :: string
  pt_trace_flags :: string

subsection \<open>Random identifiers\<close>

type_synonym 'r entropy = "nat \<Rightarrow> 'r \<Rightarrow> 8 word list option \<times> 'r"

definition hex_digit :: "nat \<Rightarrow> char" where
  "hex_digit n = ''0123456789abcdef'' ! n"

definition hex_byte :: "8 word \<Rightarrow> string" where
  "hex_byte b = [hex_digit (unat b div 16), hex_digit (unat b mod 16)]"

definition hex_lower :: "8 word list \<Rightarrow> string" where
  "hex_lower bytes = concat (map hex_byte bytes)"

partial_function (option) random_hex_nonzero ::
    "'r entropy \<Rightarrow> nat \<Rightarrow> 'r \<Rightarrow> (string \<times> 'r) option" where
  "random_hex_nonzero fill n r =
     (case fill n r of (filled, r') \<Rightarrow>
        Option.bind filled (\<lambda>bytes.
          if list_ex (\<lambda>b. b \<noteq> 0) bytes then Some (hex_lower bytes, r')
          else random_hex_nonzero fill n r'))"

subsection \<open>Headers\<close>

definition is_lower_hex_char :: "char \<Rightarrow> bool" where
  "is_lower_hex_char c \<longleftrightarrow> is_ascii_digit c \<or> (97 \<le> cp c \<and> cp c \<le> 102)"

definition is_lower_hex :: "string \<Rightarrow> nat \<Rightarrow> bool" where
  "is_lower_hex s expected_len \<longleftrightarrow> length s = expected_len \<and> list_all is_lower_hex_char s"

definition is_all_zero :: "string \<Rightarrow> bool" where
  "is_all_zero s \<longleftrightarrow> list_all (\<lambda>c. c = CHR ''0'') s"

definition parse_traceparent :: "string \<Rightarrow> parsed_traceparent option" where
  "parse_traceparent value =
     (case split_char (CHR ''-'') value of
        [version, trace_id, parent_id, trace_flags] \<Rightarrow>
          if version \<noteq> TRACEPARENT_VERSION then None
          else if \<not> is_lower_hex trace_id 32 \<or> is_all_zero trace_id then None
          else if \<not> is_lower_hex parent_id 16 \<or> is_all_zero parent_id then None
          else if \<not> is_lower_hex trace_flags 2 then None
          else Some \<lparr>pt_trace_id = trace_id, pt_trace_flags = trace_flags\<rparr>
      | _ \<Rightarrow> None)"

fun split_once :: "char \<Rightarrow> string \<Rightarrow> (string \<times> string) option" where
  "split_once c [] = None"
| "split_once c (x # xs) =
     (if x = c then Some ([], xs) else map_option (\<lambda>(a, b). (x # a, b)) (split_once c xs))"

definition is_valid_tracestate_key_tail_byte :: "char \<Rightarrow> bool" where
  "is_valid_tracestate_key_tail_byte c \<longleftrightarrow>
     is_ascii_lowercase c \<or> is_ascii_digit c \<or> c \<in> {CHR ''_'', CHR ''-'', CHR ''*'', CHR ''/''}"

definition is_valid_tracestate_key_part :: "string \<Rightarrow> nat \<Rightarrow> bool \<Rightarrow> bool" where
  "is_valid_tracestate_key_part part max_len allow_digit_first =
     (if part = [] \<or> length part > max_len then False
      else (is_ascii_lowercase (hd part) \<or> (allow_digit_first \<and> is_ascii_digit (hd part))) \<and>
           list_all is_valid_tracestate_key_tail_byte (tl part))"

definition is_valid_tracestate_key :: "string \<Rightarrow> bool" where
  "is_valid_tracestate_key key =
     (if key = [] then False
      else case split_once (CHR ''@'') key of
             Some (tenant_id, system_id) \<Rightarrow>
               CHR ''@'' \<notin> set system_id \<and>
               is_valid_tracestate_key_part tenant_id 241 True \<and>
               is_valid_tracestate_key_part system_id 14 False
           | None \<Rightarrow> is_valid_tracestate_key_part key 256 True)"

definition is_valid_tracestate_value_byte :: "char \<Rightarrow> bool" where
  "is_valid_tracestate_value_byte c \<longleftrightarrow>
     (0x20 \<le> cp c \<and> cp c \<le> 0x2b) \<or> (0x2d \<le> cp c \<and> cp c \<le> 0x3c) \<or> (0x3e \<le> cp c \<and> cp c \<le> 0x7e)"

definition is_valid_tracestate_value :: "string \<Rightarrow> bool" where
  "is_valid_tracestate_value value \<longleftrightarrow>
     value \<noteq> [] \<and> length value \<le> 256 \<and> list_all is_valid_tracestate_value_byte value \<and>
     ((0x21 \<le> cp (last value) \<and> cp (last value) \<le> 0x2b) \<or>
      (0x2d \<le> cp (last value) \<and> cp (last value) \<le> 0x3c) \<or>
      (0x3e \<le> cp (last value) \<and> cp (last value) \<le> 0x7e))"

definition is_valid_tracestate_entry :: "string \<Rightarrow> bool" where
  "is_valid_tracestate_entry entry =
     (case split_once (CHR ''='') entry of
        Some (key, value) \<Rightarrow> is_valid_tracestate_key key \<and> is_valid_tracestate_value value
      | None \<Rightarrow> False)"

definition tracestate_too_long :: "string list \<Rightarrow> bool" where
  "tracestate_too_long entries \<longleftrightarrow>
     length entries > MAX_TRACESTATE_ENTRIES \<or> length (join '','' entries) > MAX_TRACESTATE_LEN"

text \<open>The \<open>while\<close> loop: drop the last entry until the list is within both limits.\<close>

function pop_entries :: "string list \<Rightarrow> string list" where
  "pop_entries entries =
     (if tracestate_too_long entries then pop_entries (butlast entries) else entries)"
  by pat_completeness auto
termination
proof (relation "measure length")
  fix entries
  assume "tracestate_too_long entries"
  then have "entries \<noteq> []"
    by (auto simp: tracestate_too_long_def MAX_TRACESTATE_ENTRIES_def MAX_TRACESTATE_LEN_def)
  then show "(butlast entries, entries) \<in> measure length" by simp
qed simp

declare pop_entries.simps [simp del]

definition tracestate_entries :: "string \<Rightarrow> string list" where
  "tracestate_entries value =
     filter is_valid_tracestate_entry (filter (\<lambda>e. e \<noteq> []) (map trim (split_char (CHR '','') value)))"

definition sanitize_tracestate :: "string option \<Rightarrow> string option" where
  "sanitize_tracestate header =
     (case header of
        None \<Rightarrow> None
      | Some value \<Rightarrow>
          if value = [] \<or> list_ex is_ascii_control value then None
          else let entries = pop_entries (tracestate_entries value)
               in if entries = [] then None else Some (join '','' entries))"

subsection \<open>Operations\<close>

definition root :: "'r entropy \<Rightarrow> 'r \<Rightarrow> (trace_context \<times> 'r) option" where
  "root fill r =
     Option.bind (random_hex_nonzero fill 16 r) (\<lambda>(trace_id, r1).
     Option.bind (random_hex_nonzero fill 8 r1) (\<lambda>(span_id, r2).
       Some (\<lparr>tc_trace_id = trace_id, tc_span_id = span_id,
              tc_trace_flags = DEFAULT_TRACE_FLAGS, tc_tracestate = None\<rparr>, r2)))"

definition from_headers ::
    "'r entropy \<Rightarrow> string option \<Rightarrow> string option \<Rightarrow> 'r \<Rightarrow> (trace_context \<times> 'r) option" where
  "from_headers fill traceparent_header tracestate r =
     (case traceparent_header of
        None \<Rightarrow> root fill r
      | Some parent \<Rightarrow>
          (case parse_traceparent parent of
             None \<Rightarrow> root fill r
           | Some parsed \<Rightarrow>
               Option.bind (random_hex_nonzero fill 8 r) (\<lambda>(span_id, r1).
                 Some (\<lparr>tc_trace_id = pt_trace_id parsed, tc_span_id = span_id,
                        tc_trace_flags = pt_trace_flags parsed,
                        tc_tracestate = sanitize_tracestate tracestate\<rparr>, r1))))"

definition traceparent :: "trace_context \<Rightarrow> string" where
  "traceparent ctx =
     TRACEPARENT_VERSION @ ''-'' @ tc_trace_id ctx @ ''-'' @ tc_span_id ctx @ ''-'' @ tc_trace_flags ctx"

definition outbound_child :: "'r entropy \<Rightarrow> trace_context \<Rightarrow> 'r \<Rightarrow> (trace_context \<times> 'r) option" where
  "outbound_child fill ctx r =
     Option.bind (random_hex_nonzero fill 8 r) (\<lambda>(span_id, r1).
       Some (\<lparr>tc_trace_id = tc_trace_id ctx, tc_span_id = span_id,
              tc_trace_flags = tc_trace_flags ctx, tc_tracestate = tc_tracestate ctx\<rparr>, r1))"

subsection \<open>Random identifiers are well formed\<close>

definition nonzero_id :: "nat \<Rightarrow> string \<Rightarrow> bool" where
  "nonzero_id n s \<longleftrightarrow> is_lower_hex s n \<and> \<not> is_all_zero s"

fun after_draws :: "'r entropy \<Rightarrow> nat \<Rightarrow> nat \<Rightarrow> 'r \<Rightarrow> 'r" where
  "after_draws fill n 0 r = r"
| "after_draws fill n (Suc k) r = after_draws fill n k (snd (fill n r))"

text \<open>What the code relies on: the source does not fail, fills the whole buffer, and does not return zeros
  for ever.\<close>

definition entropy_source :: "'r entropy \<Rightarrow> bool" where
  "entropy_source fill \<longleftrightarrow>
     (\<forall>n r. \<exists>bytes. fst (fill n r) = Some bytes \<and> length bytes = n) \<and>
     (\<forall>n r. 0 < n \<longrightarrow> (\<exists>k bytes. fst (fill n (after_draws fill n k r)) = Some bytes \<and> list_ex (\<lambda>b. b \<noteq> 0) bytes))"

lemma hex_digit_facts:
  assumes "n < 16"
  shows "is_lower_hex_char (hex_digit n)" and "hex_digit n = CHR ''0'' \<longleftrightarrow> n = 0"
proof -
  have "list_all (\<lambda>n. is_lower_hex_char (hex_digit n) \<and> (hex_digit n = CHR ''0'' \<longleftrightarrow> n = 0)) [0..<16]"
    by code_simp
  with assms show "is_lower_hex_char (hex_digit n)" "hex_digit n = CHR ''0'' \<longleftrightarrow> n = 0"
    by (auto simp: list_all_iff)
qed

lemma byte_nibbles: "unat (b :: 8 word) div 16 < 16" "unat b mod 16 < 16"
proof -
  have "unat b < 256" using unsigned_less [of b, where ?'a = nat] by simp
  then show "unat b div 16 < 16" by (simp add: less_mult_imp_div_less)
qed simp

lemma hex_lower_lower_hex: "is_lower_hex (hex_lower bytes) (2 * length bytes)"
  by (induction bytes)
    (auto simp: hex_lower_def hex_byte_def is_lower_hex_def hex_digit_facts(1) byte_nibbles)

lemma hex_lower_all_zero: "is_all_zero (hex_lower bytes) \<longleftrightarrow> \<not> list_ex (\<lambda>b. b \<noteq> 0) bytes"
proof (induction bytes)
  case (Cons b bytes)
  have "unat b div 16 = 0 \<and> unat b mod 16 = 0 \<longleftrightarrow> b = 0"
    by (metis div_mult_mod_eq unat_eq_0 unsigned_0 div_0 mod_0 mult_0 add_0)
  with Cons show ?case
    by (auto simp: hex_lower_def hex_byte_def is_all_zero_def hex_digit_facts(2) byte_nibbles)
qed (simp add: hex_lower_def is_all_zero_def)

text \<open>The source never fills a part of a buffer.\<close>

definition fills :: "'r entropy \<Rightarrow> nat \<Rightarrow> bool" where
  "fills fill n \<longleftrightarrow> (\<forall>r bytes. fst (fill n r) = Some bytes \<longrightarrow> length bytes = n)"

lemma random_hex_nonzero_wf:
  assumes "random_hex_nonzero fill n r = Some (s, r')" and "fills fill n"
  shows "nonzero_id (2 * n) s"
proof -
  have "fills fill n \<longrightarrow> nonzero_id (2 * n) (fst (s, r'))"
  proof (rule random_hex_nonzero.raw_induct
      [where P = "\<lambda>fill n r y. fills fill n \<longrightarrow> nonzero_id (2 * n) (fst y)"])
    fix f :: "('a entropy) \<Rightarrow> nat \<Rightarrow> 'a \<Rightarrow> (string \<times> 'a) option"
    fix fill :: "'a entropy" and n r y
    assume IH: "\<And>fill n r y. f fill n r = Some y \<Longrightarrow> fills fill n \<longrightarrow> nonzero_id (2 * n) (fst y)"
      and eq: "(case fill n r of (filled, r') \<Rightarrow> Option.bind filled (\<lambda>bytes.
        if list_ex (\<lambda>b. b \<noteq> 0) bytes then Some (hex_lower bytes, r') else f fill n r')) = Some y"
    from eq obtain bytes r1 where draw: "fill n r = (Some bytes, r1)"
      by (cases "fill n r") (auto simp: bind_eq_Some_conv)
    show "fills fill n \<longrightarrow> nonzero_id (2 * n) (fst y)"
    proof (cases "list_ex (\<lambda>b. b \<noteq> 0) bytes")
      case True
      with eq draw have "y = (hex_lower bytes, r1)" by simp
      with True draw show ?thesis
        using hex_lower_lower_hex [of bytes] hex_lower_all_zero [of bytes]
        by (auto simp: nonzero_id_def fills_def dest: spec [where x = r])
    next
      case False
      with eq draw IH show ?thesis by simp
    qed
  qed (rule assms(1))
  with assms(2) show ?thesis by simp
qed

lemma random_hex_nonzero_live:
  assumes "\<forall>r. fst (fill n r) \<noteq> None"
    and "fst (fill n (after_draws fill n k r)) = Some bytes" and "list_ex (\<lambda>b. b \<noteq> 0) bytes"
  shows "\<exists>s r'. random_hex_nonzero fill n r = Some (s, r')"
  using assms(2,3)
proof (induction k arbitrary: r)
  case 0
  then show ?case by (subst random_hex_nonzero.simps) (auto split: prod.splits)
next
  case (Suc k)
  obtain drawn r1 where "fill n r = (Some drawn, r1)"
    using assms(1) by (metis option.exhaust_sel prod.collapse)
  with Suc show ?case by (subst random_hex_nonzero.simps) auto
qed

lemma entropy_fills: "entropy_source fill \<Longrightarrow> fills fill n"
  unfolding entropy_source_def fills_def by (metis option.inject)

lemma random_hex_nonzero_total:
  assumes "entropy_source fill" and "0 < n"
  shows "\<exists>s r'. random_hex_nonzero fill n r = Some (s, r') \<and> nonzero_id (2 * n) s"
proof -
  from assms obtain k bytes where "fst (fill n (after_draws fill n k r)) = Some bytes" "list_ex (\<lambda>b. b \<noteq> 0) bytes"
    unfolding entropy_source_def by blast
  moreover from assms(1) have "\<forall>r. fst (fill n r) \<noteq> None"
    unfolding entropy_source_def by (metis option.distinct(1))
  ultimately obtain s r' where "random_hex_nonzero fill n r = Some (s, r')"
    using random_hex_nonzero_live [of fill n k r] by blast
  with random_hex_nonzero_wf [OF _ entropy_fills [OF assms(1)]] show ?thesis by blast
qed

subsection \<open>The trace state\<close>

lemma split_once_Some: "split_once c s = Some (a, b) \<Longrightarrow> s = a @ c # b \<and> c \<notin> set a"
  by (induction s arbitrary: a) (auto split: if_splits)

lemma key_part_chars:
  "is_valid_tracestate_key_part part n d \<Longrightarrow>
     part \<noteq> [] \<and> list_all is_valid_tracestate_key_tail_byte part"
  by (cases part) (auto simp: is_valid_tracestate_key_part_def is_valid_tracestate_key_tail_byte_def
      split: if_splits)

lemma key_chars:
  "is_valid_tracestate_key key \<Longrightarrow>
     key \<noteq> [] \<and> list_all (\<lambda>c. is_valid_tracestate_key_tail_byte c \<or> c = CHR ''@'') key"
proof (cases "split_once (CHR ''@'') key")
  case None
  moreover assume "is_valid_tracestate_key key"
  ultimately show ?thesis
    by (auto simp: is_valid_tracestate_key_def list_all_iff dest!: key_part_chars split: if_splits)
next
  case (Some p)
  obtain a b where p: "p = (a, b)" by (cases p)
  with Some have "key = a @ CHR ''@'' # b" by (simp add: split_once_Some)
  moreover assume "is_valid_tracestate_key key"
  ultimately show ?thesis using Some p
    by (auto simp: is_valid_tracestate_key_def list_all_iff dest!: key_part_chars split: if_splits)
qed

definition entry_char :: "char \<Rightarrow> bool" where
  "entry_char c \<longleftrightarrow> c \<noteq> CHR '','' \<and> 0x20 \<le> cp c \<and> cp c \<le> 0x7e"

lemma entry_char_intros:
  "is_valid_tracestate_key_tail_byte c \<Longrightarrow> entry_char c \<and> \<not> is_whitespace c"
  "is_valid_tracestate_value_byte c \<Longrightarrow> entry_char c"
  by (auto simp: is_valid_tracestate_key_tail_byte_def is_valid_tracestate_value_byte_def
      entry_char_def ascii_simps)

lemma valid_entry_facts:
  assumes "is_valid_tracestate_entry e"
  shows "e \<noteq> []" and "list_all entry_char e" and "trim e = e"
proof -
  from assms obtain k v where kv: "split_once (CHR ''='') e = Some (k, v)"
    "is_valid_tracestate_key k" "is_valid_tracestate_value v"
    by (auto simp: is_valid_tracestate_entry_def split: option.splits)
  note e = split_once_Some [OF kv(1)] and k = key_chars [OF kv(2)]
    and v = kv(3) [unfolded is_valid_tracestate_value_def]
  from e show "e \<noteq> []" by simp
  show "list_all entry_char e"
  proof -
    have "entry_char (CHR ''@'')" "entry_char (CHR ''='')" by (simp_all add: entry_char_def)
    then have "list_all entry_char k" "list_all entry_char v" "entry_char (CHR ''='')"
      using k v entry_char_intros by (auto simp: list_all_iff)
    with e show ?thesis by simp
  qed
  have "\<not> is_whitespace (hd e)"
    using e k entry_char_intros(1) [of "hd k"]
    by (cases k) (auto simp: is_whitespace_def)
  moreover have "\<not> is_whitespace (last e)"
    using e v by (auto simp: is_whitespace_def)
  ultimately show "trim e = e" using e by (intro trim_no_ws) auto
qed

lemma pop_entries_prefix: "\<exists>k. pop_entries entries = take k entries"
proof (induction entries rule: pop_entries.induct)
  case (1 entries)
  show ?case
  proof (cases "tracestate_too_long entries")
    case True
    with 1 obtain k where "pop_entries (butlast entries) = take k (butlast entries)" by blast
    with True show ?thesis by (subst pop_entries.simps) (auto simp: butlast_conv_take)
  next
    case False
    then have "pop_entries entries = take (length entries) entries"
      by (subst pop_entries.simps) simp
    then show ?thesis by blast
  qed
qed

lemma pop_entries_within: "\<not> tracestate_too_long (pop_entries entries)"
proof (induction entries rule: pop_entries.induct)
  case (1 entries)
  then show ?case by (cases "tracestate_too_long entries") (subst pop_entries.simps, simp)+
qed

lemma pop_entries_id: "\<not> tracestate_too_long entries \<Longrightarrow> pop_entries entries = entries"
  by (subst pop_entries.simps) simp

definition sane_entries :: "string list \<Rightarrow> bool" where
  "sane_entries es \<longleftrightarrow> es \<noteq> [] \<and> list_all is_valid_tracestate_entry es \<and> \<not> tracestate_too_long es"

lemma sanitize_sane:
  assumes "sanitize_tracestate h = Some s"
  obtains es where "s = join '','' es" and "sane_entries es"
proof -
  from assms obtain str where v: "h = Some str" by (cases h) (auto simp: sanitize_tracestate_def)
  let ?es = "pop_entries (tracestate_entries str)"
  from assms v have s: "s = join '','' ?es" "?es \<noteq> []"
    by (auto simp: sanitize_tracestate_def Let_def split: if_splits)
  from pop_entries_prefix have "set ?es \<subseteq> set (tracestate_entries str)"
    by (metis set_take_subset)
  then have "list_all is_valid_tracestate_entry ?es"
    by (auto simp: tracestate_entries_def list_all_iff)
  with s that pop_entries_within show thesis by (simp add: sane_entries_def)
qed

lemma sane_entries_no_comma: "sane_entries es \<Longrightarrow> e \<in> set es \<Longrightarrow> CHR '','' \<notin> set e"
  using valid_entry_facts(2) by (fastforce simp: sane_entries_def list_all_iff entry_char_def)

lemma sane_entries_split: "sane_entries es \<Longrightarrow> split_char (CHR '','') (join '','' es) = es"
  using sane_entries_no_comma by (intro split_char_join) (auto simp: sane_entries_def)

lemma sanitize_join:
  assumes "sane_entries es"
  shows "sanitize_tracestate (Some (join '','' es)) = Some (join '','' es)"
proof -
  have valid: "is_valid_tracestate_entry e" if "e \<in> set es" for e
    using assms that by (auto simp: sane_entries_def list_all_iff)
  have "map trim es = es" using valid_entry_facts(3) [OF valid] by (simp add: map_idI)
  moreover have "filter (\<lambda>e. e \<noteq> []) es = es" "filter is_valid_tracestate_entry es = es"
    using valid valid_entry_facts(1) by (auto simp: filter_id_conv)
  ultimately have "tracestate_entries (join '','' es) = es"
    by (simp add: tracestate_entries_def sane_entries_split [OF assms])
  moreover have "entry_char c \<or> c = CHR '',''" if "c \<in> set (join '','' es)" for c
    using in_set_join [OF that] valid_entry_facts(2) [OF valid] by (auto simp: list_all_iff)
  then have "\<not> list_ex is_ascii_control (join '','' es)"
    by (force simp: list_ex_iff entry_char_def is_ascii_control_def)
  moreover have "join '','' es \<noteq> []"
    using assms valid valid_entry_facts(1) by (cases es rule: remdups_adj.cases) (auto simp: sane_entries_def)
  ultimately show ?thesis
    using assms by (simp add: sanitize_tracestate_def sane_entries_def pop_entries_id)
qed

subsection \<open>Well-formed contexts\<close>

definition wf_trace :: "trace_context \<Rightarrow> bool" where
  "wf_trace ctx \<longleftrightarrow>
     nonzero_id 32 (tc_trace_id ctx) \<and> nonzero_id 16 (tc_span_id ctx) \<and>
     is_lower_hex (tc_trace_flags ctx) 2 \<and> sanitize_tracestate (tc_tracestate ctx) = tc_tracestate ctx"

lemma sanitize_idem: "sanitize_tracestate (sanitize_tracestate h) = sanitize_tracestate h"
proof (cases "sanitize_tracestate h")
  case (Some s)
  then show ?thesis using sanitize_sane sanitize_join by metis
qed (simp add: sanitize_tracestate_def)

lemma parse_traceparent_wf:
  "parse_traceparent v = Some p \<Longrightarrow> nonzero_id 32 (pt_trace_id p) \<and> is_lower_hex (pt_trace_flags p) 2"
proof -
  assume parsed: "parse_traceparent v = Some p"
  show ?thesis
  proof (cases "\<exists>a b c d. split_char (CHR ''-'') v = [a, b, c, d]")
    case True
    then obtain a b c d where "split_char (CHR ''-'') v = [a, b, c, d]" by blast
    with parsed show ?thesis
      by (auto simp: parse_traceparent_def nonzero_id_def split: if_split_asm)
  next
    case False
    with parsed show ?thesis
      by (simp add: parse_traceparent_def split: list.split_asm)
  qed
qed

lemma lower_hex_no_dash: "is_lower_hex s n \<Longrightarrow> CHR ''-'' \<notin> set s"
  by (auto simp: is_lower_hex_def list_all_iff is_lower_hex_char_def ascii_simps)

lemma parse_traceparent_printed:
  assumes "wf_trace ctx"
  shows "parse_traceparent (traceparent ctx) =
     Some \<lparr>pt_trace_id = tc_trace_id ctx, pt_trace_flags = tc_trace_flags ctx\<rparr>"
proof -
  let ?parts = "[''00'', tc_trace_id ctx, tc_span_id ctx, tc_trace_flags ctx]"
  have printed: "traceparent ctx = join ''-'' ?parts"
    by (simp add: traceparent_def TRACEPARENT_VERSION_def)
  have "CHR ''-'' \<notin> set p" if "p \<in> set ?parts" for p
    using that assms lower_hex_no_dash by (auto simp: wf_trace_def nonzero_id_def)
  then have "split_char (CHR ''-'') (traceparent ctx) = ?parts"
    unfolding printed by (intro split_char_join) auto
  then show ?thesis
    using assms by (simp add: parse_traceparent_def wf_trace_def nonzero_id_def TRACEPARENT_VERSION_def)
qed

lemma random_option_cases:
  "Option.bind m f = Some y \<longleftrightarrow> (\<exists>x. m = Some x \<and> f x = Some y)"
  by (cases m) auto

lemma root_wf:
  assumes "entropy_source fill"
  shows "\<exists>ctx r'. root fill r = Some (ctx, r') \<and> wf_trace ctx"
proof -
  obtain t r1 where t: "random_hex_nonzero fill 16 r = Some (t, r1)" "nonzero_id (2 * 16) t"
    using random_hex_nonzero_total [OF assms, of 16 r] by fastforce
  obtain s r2 where s: "random_hex_nonzero fill 8 r1 = Some (s, r2)" "nonzero_id (2 * 8) s"
    using random_hex_nonzero_total [OF assms, of 8 r1] by fastforce
  have "is_lower_hex DEFAULT_TRACE_FLAGS 2" unfolding DEFAULT_TRACE_FLAGS_def by code_simp
  with t s show ?thesis by (simp add: root_def wf_trace_def sanitize_tracestate_def)
qed

subsection \<open>Properties\<close>

text \<open>C20: a context is always produced, whatever the headers hold, and it is well formed: 32 and 16
  lower-case hexadecimal digits that are not all zero, two flag digits, and a trace state that
  sanitising leaves alone. The random source is assumed not to fail, to fill its buffer and
  not to return zeros for ever.\<close>

theorem from_headers_wf:
  assumes "entropy_source fill"
  shows "\<exists>ctx r'. from_headers fill parent state r = Some (ctx, r') \<and> wf_trace ctx"
proof (cases "Option.bind parent parse_traceparent")
  case None
  then have "from_headers fill parent state r = root fill r"
    by (cases parent) (auto simp: from_headers_def)
  with root_wf [OF assms] show ?thesis by simp
next
  case (Some p)
  then obtain v where v: "parent = Some v" "parse_traceparent v = Some p"
    by (cases parent) auto
  obtain s r2 where s: "random_hex_nonzero fill 8 r = Some (s, r2)" "nonzero_id (2 * 8) s"
    using random_hex_nonzero_total [OF assms, of 8 r] by fastforce
  with v parse_traceparent_wf [OF v(2)] show ?thesis
    by (simp add: from_headers_def wf_trace_def sanitize_idem)
qed

text \<open>A source that counts its draws: the first block of zeros is followed by ones.\<close>

definition counting_source :: "nat entropy" where
  "counting_source n r = (Some (replicate n (if r = 0 then 0 else 1)), Suc r)"

lemma counting_source_ok: "entropy_source counting_source"
proof -
  have "fst (counting_source n (after_draws counting_source n 1 r)) = Some (replicate n 1) \<and>
      list_ex (\<lambda>b. b \<noteq> 0) (replicate n (1 :: 8 word))" if "0 < n" for n r
    using that by (cases n) (simp_all add: counting_source_def)
  moreover have "\<exists>bytes. fst (counting_source n r) = Some bytes \<and> length bytes = n" for n r
    by (simp add: counting_source_def)
  ultimately show ?thesis unfolding entropy_source_def by blast
qed

theorem from_headers_wf_witness:
  "\<exists>ctx r'. from_headers counting_source (Some ''bad'') None 0 = Some (ctx, r') \<and> wf_trace ctx"
  by (rule from_headers_wf [OF counting_source_ok])

text \<open>C21: a trace survives a hop: when a service sends the headers of an outbound child of a well
  formed context, the context the next service builds from them has the same trace id, flags
  and trace state.\<close>

theorem trace_propagates:
  assumes "wf_trace ctx" and "entropy_source fill"
    and "outbound_child fill ctx r = Some (child, r1)"
    and "from_headers fill' (Some (traceparent child)) (tc_tracestate child) r2 = Some (remote, r3)"
  shows "tc_trace_id remote = tc_trace_id ctx \<and> tc_trace_flags remote = tc_trace_flags ctx \<and>
         tc_tracestate remote = tc_tracestate ctx"
proof -
  from assms(3) obtain s where s: "random_hex_nonzero fill 8 r = Some (s, r1)"
    "child = \<lparr>tc_trace_id = tc_trace_id ctx, tc_span_id = s, tc_trace_flags = tc_trace_flags ctx,
       tc_tracestate = tc_tracestate ctx\<rparr>"
    by (auto simp: outbound_child_def random_option_cases)
  have "nonzero_id (2 * 8) s"
    by (rule random_hex_nonzero_wf [OF s(1) entropy_fills [OF assms(2)]])
  with s(2) assms(1) have wf: "wf_trace child" by (simp add: wf_trace_def)
  with s(2) assms(4) show ?thesis
    by (auto simp: from_headers_def parse_traceparent_printed random_option_cases wf_trace_def)
qed

definition sample_trace :: trace_context where
  "sample_trace = \<lparr>tc_trace_id = replicate 32 (CHR ''a''), tc_span_id = replicate 16 (CHR ''1''),
     tc_trace_flags = ''01'', tc_tracestate = Some ''k=v''\<rparr>"

theorem trace_propagates_witness:
  "\<exists>child r1 remote r3. outbound_child counting_source sample_trace 7 = Some (child, r1) \<and>
     from_headers counting_source (Some (traceparent child)) (tc_tracestate child) 9 = Some (remote, r3) \<and>
     tc_trace_id remote = tc_trace_id sample_trace"
proof -
  have wf: "wf_trace sample_trace" unfolding sample_trace_def by code_simp
  obtain s r1 where "random_hex_nonzero counting_source 8 7 = Some (s, r1)"
    using random_hex_nonzero_total [OF counting_source_ok, of 8 7] by fastforce
  then obtain child where child: "outbound_child counting_source sample_trace 7 = Some (child, r1)"
    by (simp add: outbound_child_def)
  obtain s' r3 where "random_hex_nonzero counting_source 8 9 = Some (s', r3)"
    using random_hex_nonzero_total [OF counting_source_ok, of 8 9] by fastforce
  then obtain remote r4 where remote:
    "from_headers counting_source (Some (traceparent child)) (tc_tracestate child) 9 = Some (remote, r4)"
    using root_wf [OF counting_source_ok, of 9]
    by (cases "parse_traceparent (traceparent child)") (auto simp: from_headers_def)
  from child remote trace_propagates [OF wf counting_source_ok child remote] show ?thesis by blast
qed

text \<open>A sanitised trace state is within the limits of the specification: at most 512 characters
  and 32 entries, each of them valid, and no control character.\<close>

theorem sanitize_tracestate_bounds:
  assumes "sanitize_tracestate header = Some s"
  shows "0 < length s \<and> length s \<le> 512 \<and> length (split_char (CHR '','') s) \<le> 32 \<and>
         list_all is_valid_tracestate_entry (split_char (CHR '','') s) \<and> \<not> list_ex is_ascii_control s"
proof -
  obtain es where es: "s = join '','' es" "sane_entries es" using sanitize_sane [OF assms] .
  have "s \<noteq> []" "\<not> list_ex is_ascii_control s"
    using sanitize_join [OF es(2)] es(1) by (auto simp: sanitize_tracestate_def split: if_splits)
  with es show ?thesis
    by (auto simp: sane_entries_split sane_entries_def tracestate_too_long_def
        MAX_TRACESTATE_ENTRIES_def MAX_TRACESTATE_LEN_def)
qed

theorem sanitize_tracestate_bounds_witness:
  "sanitize_tracestate (Some '' vendor=a b,=x,rojo=00f , '') = Some ''vendor=a b,rojo=00f'' \<and>
   length ''vendor=a b,rojo=00f'' \<le> 512"
proof -
  have "sanitize_tracestate (Some '' vendor=a b,=x,rojo=00f , '') = Some ''vendor=a b,rojo=00f''"
    by code_simp
  with sanitize_tracestate_bounds [OF this] show ?thesis by blast
qed

end
