(* ===== verification/F64_Text.thy ===== *)
theory F64_Text
  imports F64
begin

text \<open>
  The text of an \<open>f64\<close>: Rust's \<open>Display\<close>, which prints the shortest decimal that reads back as the
  number and never an exponent, and the integer-valued functions \<open>fract\<close>, \<open>floor\<close>, \<open>ceil\<close>, \<open>round\<close>,
  \<open>abs\<close>, \<open>min\<close>, \<open>max\<close>.
\<close>

fun f64_is_finite :: "f64 \<Rightarrow> bool" where
  "f64_is_finite F_NaN = False"
| "f64_is_finite (F_Inf s) = False"
| "f64_is_finite _ = True"

text \<open>\<open>fract() == 0.0\<close>: a zero or a whole number; the fraction of an infinity is NaN.\<close>

fun f64_is_whole :: "f64 \<Rightarrow> bool" where
  "f64_is_whole (F_Zero s) = True"
| "f64_is_whole (F_Num q) = (snd (quotient_of q) = 1)"
| "f64_is_whole _ = False"

definition f64_of_int_signed :: "bool \<Rightarrow> int \<Rightarrow> f64" where
  "f64_of_int_signed neg n = (if n = 0 then F_Zero neg else F_Num (of_int n))"

fun f64_abs :: "f64 \<Rightarrow> f64" where
  "f64_abs F_NaN = F_NaN"
| "f64_abs (F_Inf s) = F_Inf False"
| "f64_abs (F_Zero s) = F_Zero False"
| "f64_abs (F_Num q) = F_Num \<bar>q\<bar>"

fun f64_floor :: "f64 \<Rightarrow> f64" where
  "f64_floor (F_Num q) = f64_of_int_signed (q < 0) \<lfloor>q\<rfloor>"
| "f64_floor a = a"

fun f64_ceil :: "f64 \<Rightarrow> f64" where
  "f64_ceil (F_Num q) = f64_of_int_signed (q < 0) \<lceil>q\<rceil>"
| "f64_ceil a = a"

text \<open>\<open>round\<close>: to the nearest integer, half away from zero.\<close>

fun f64_round :: "f64 \<Rightarrow> f64" where
  "f64_round (F_Num q) =
     (let n = \<lfloor>\<bar>q\<bar> + 1 / 2\<rfloor> in f64_of_int_signed (q < 0) (if q < 0 then - n else n))"
| "f64_round a = a"

text \<open>\<open>min\<close> and \<open>max\<close> ignore a NaN operand.\<close>

definition f64_min :: "f64 \<Rightarrow> f64 \<Rightarrow> f64" where
  "f64_min a b = (case f64_partial_cmp a b of
     None \<Rightarrow> (if a = F_NaN then b else a) | Some Greater \<Rightarrow> b | Some _ \<Rightarrow> a)"

definition f64_max :: "f64 \<Rightarrow> f64 \<Rightarrow> f64" where
  "f64_max a b = (case f64_partial_cmp a b of
     None \<Rightarrow> (if a = F_NaN then b else a) | Some Less \<Rightarrow> b | Some _ \<Rightarrow> a)"

subsection \<open>Display\<close>

text \<open>The digits of a non-negative integer: \<open>nat_to_string\<close> on integers, which evaluate faster.\<close>

function digits_text :: "int \<Rightarrow> string" where
  "digits_text n =
     (if n < 10 then [char_of (48 + max 0 n)]
      else digits_text (n div 10) @ [char_of (48 + n mod 10)])"
  by pat_completeness auto
termination
  by (relation "measure nat") auto

declare digits_text.simps [simp del]

lemma digits_text_nat: "digits_text (int n) = nat_to_string n"
proof (induction n rule: nat_to_string.induct)
  case (1 n)
  then show ?case
    by (subst digits_text.simps, subst nat_to_string.simps) (auto simp: zdiv_int zmod_int)
qed

definition pad_left :: "nat \<Rightarrow> string \<Rightarrow> string" where
  "pad_left n s = replicate (n - length s) (CHR ''0'') @ s"

text \<open>The decimal \<open>m / 10^k\<close> with \<open>k > 0\<close> digits after the point.\<close>

definition decimal_text :: "nat \<Rightarrow> int \<Rightarrow> string" where
  "decimal_text k m =
     digits_text (m div 10 ^ k) @ ''.'' @ pad_left k (digits_text (m mod 10 ^ k))"

definition reads_back :: "rat \<Rightarrow> nat \<Rightarrow> int \<Rightarrow> bool" where
  "reads_back q k m \<longleftrightarrow> round64 (of_int m / 10 ^ k) = F_Num q"

text \<open>The decimal with the fewest digits after the point, and the closest one among those, that
  rounds to the positive number \<open>q\<close>. A finite number is a multiple of \<open>2^-1074\<close>, so 1074 digits
  are always enough.\<close>

fun shortest_text :: "nat \<Rightarrow> nat \<Rightarrow> rat \<Rightarrow> string" where
  "shortest_text fuel k q =
     (let lo = \<lfloor>q * 10 ^ k\<rfloor>; hi = \<lceil>q * 10 ^ k\<rceil>;
          near = (if q * 10 ^ k - of_int lo \<le> of_int hi - q * 10 ^ k then lo else hi);
          far = (if near = lo then hi else lo)
      in if reads_back q k near then decimal_text k near
         else if reads_back q k far then decimal_text k far
         else (case fuel of 0 \<Rightarrow> decimal_text k near | Suc f \<Rightarrow> shortest_text f (Suc k) q))"

declare shortest_text.simps [simp del]

definition sign_text :: "bool \<Rightarrow> string" where
  "sign_text neg = (if neg then ''-'' else '''')"

text \<open>\<open>{:.1}\<close> of a whole number.\<close>

fun whole_text :: "f64 \<Rightarrow> string" where
  "whole_text (F_Zero s) = sign_text s @ ''0.0''"
| "whole_text (F_Num q) = sign_text (q < 0) @ digits_text \<lfloor>\<bar>q\<bar>\<rfloor> @ ''.0''"
| "whole_text _ = ''''"

text \<open>\<open>{}\<close>: the fraction is left out when it is zero.\<close>

fun f64_display :: "f64 \<Rightarrow> string" where
  "f64_display F_NaN = ''NaN''"
| "f64_display (F_Inf s) = sign_text s @ ''inf''"
| "f64_display (F_Zero s) = sign_text s @ ''0''"
| "f64_display (F_Num q) =
     sign_text (q < 0) @
     (if f64_is_whole (F_Num q) then digits_text \<lfloor>\<bar>q\<bar>\<rfloor> else shortest_text 1074 1 \<bar>q\<bar>)"

definition i64_display :: "i64 \<Rightarrow> string" where
  "i64_display n = sign_text (sint n < 0) @ digits_text \<bar>sint n\<bar>"

end
