(* ===== verification/Value.thy ===== *)
theory Value
  imports Marreta_Error Ast F64_Text "HOL-Library.AList"
begin

text \<open>
  \<^verbatim>\<open>src/src/value.rs\<close>: the runtime value, with the lazy query accumulators of
  \<^verbatim>\<open>src/src/db/driver.rs\<close> and \<^verbatim>\<open>src/src/doc/query.rs\<close> it can hold.

  \<^item> \<open>Decimal\<close> (crate \<open>rust_decimal\<close>) is the type parameter \<open>'d\<close>; the date and time types of \<open>chrono\<close>
    are the type parameter \<open>'t\<close>. Their operations are the fields of the record \<open>ext\<close>, together with the
    Unicode case tables and the two floating-point functions whose precision Rust leaves to the
    platform. An operation that may panic returns an option.
  \<^item> A map (\<open>Arc<RwLock<IndexMap>>\<close>) is its association list in insertion order: no operation of the
    language writes to a shared map, so sharing is not observable. \<open>AList.update\<close> is \<open>IndexMap::insert\<close>: it
    replaces the value of a key in place and appends a new key.
  \<^item> A \<open>fault\<close> is an \<open>Err\<close> of the source or a panic.
\<close>

datatype fault = Err marreta_error | Panicked

type_synonym 'v value_map = "(string \<times> 'v) list"

subsection \<open>Query accumulators\<close>

datatype filter_op = OpEq | OpGt | OpGte | OpLt | OpLte | OpNe | OpLike | OpIn

fun filter_op_to_sql :: "filter_op \<Rightarrow> string" where
  "filter_op_to_sql OpEq = ''=''"
| "filter_op_to_sql OpGt = ''>''"
| "filter_op_to_sql OpGte = ''>=''"
| "filter_op_to_sql OpLt = ''<''"
| "filter_op_to_sql OpLte = ''<=''"
| "filter_op_to_sql OpNe = ''!=''"
| "filter_op_to_sql OpLike = ''LIKE''"
| "filter_op_to_sql OpIn = ''IN''"

datatype 'v filter_clause = FilterClause (fc_column: string) (fc_op: filter_op) (fc_value: 'v)

datatype join_kind = JoinInner | JoinLeft

datatype join_clause = JoinClause (jc_kind: join_kind) (jc_table: string) (jc_on: string)

datatype 'v query_state = QueryState
  (qs_table: string)
  (qs_filters: "'v filter_clause list")
  (qs_joins: "join_clause list")
  (qs_select_cols: "string list")
  (qs_order_by: "string option")
  (qs_limit: "i64 option")
  (qs_offset: "i64 option")
  (qs_count: bool)
  (qs_known_columns: "string set option")

definition query_state_new :: "string \<Rightarrow> 'v query_state" where
  "query_state_new table = QueryState table [] [] [] None None None False None"

datatype accumulator =
    AccSum string string | AccAvg string string | AccMin string string | AccMax string string
  | AccCount string

datatype 'v doc_filter =
    DfEq string 'v | DfNe string 'v | DfGt string 'v | DfGte string 'v | DfLt string 'v
  | DfLte string 'v | DfIn string "'v list" | DfLike string string

datatype sort_direction = Asc | Desc

datatype 'v doc_query_mode =
    DmFetch | DmCount | DmExists | DmUpdate 'v | DmUpsert 'v | DmDelete | DmAggregate

datatype 'v doc_query_state = DocQueryState
  (dq_collection: string)
  (dq_filters: "'v doc_filter list")
  (dq_projection: "string list option")
  (dq_sort: "(string \<times> sort_direction) option")
  (dq_limit: "i64 option")
  (dq_offset: "i64 option")
  (dq_mode: "'v doc_query_mode")
  (dq_group_by: "string option")
  (dq_accumulators: "accumulator list")
  (dq_post_sort: "(string \<times> sort_direction) option")
  (dq_post_limit: "i64 option")

definition doc_query_state_new :: "string \<Rightarrow> 'v doc_query_state" where
  "doc_query_state_new collection =
     DocQueryState collection [] None None None None DmFetch None [] None None"

definition is_aggregate :: "'v doc_query_state \<Rightarrow> bool" where
  "is_aggregate q = (case dq_mode q of DmAggregate \<Rightarrow> True | _ \<Rightarrow> False)"

subsection \<open>Values\<close>

datatype relation_cardinality = CardOne | CardMany

datatype 'v relation_handle = RelationHandle
  (rh_query: "'v query_state") (rh_cardinality: relation_cardinality) (rh_null_short_circuit: bool)

datatype 't temporal_value = TvInstant 't | TvDate 't | TvTime 't

datatype 't temporal_interval =
  TemporalInterval (ti_start: "'t temporal_value") (ti_end: "'t temporal_value")

datatype namespace =
    NsDb | NsDoc | NsCache | NsFs | NsJson | NsBase64 | NsUuid | NsFeature | NsLog | NsTime | NsMath
  | NsHttpClient

text \<open>The unit variants \<open>DbNamespace\<close>, \<open>DocNamespace\<close> and so on are \<open>VNamespace\<close> with their name.\<close>

datatype (plugins only: code size) ('d, 't) val =
    VInteger i64
  | VFloat f64
  | VDecimal 'd
  | VString string
  | VBoolean bool
  | VInstant 't
  | VDate 't
  | VTime 't
  | VDuration 't
  | VInterval "'t temporal_interval"
  | VNull
  | VList "('d, 't) val list"
  | VMap "(string \<times> ('d, 't) val) list"
  | VRelationalRecord string "(string \<times> ('d, 't) val) list"
  | VTask string "param_def list" "(expression, statement) task_body" "string option" "string option" nat nat
  | VDbTable string
  | VRelationHandle "('d, 't) val relation_handle"
  | VQueryBuilder "('d, 't) val query_state"
  | VDocCollection string
  | VDocQueryBuilder "('d, 't) val doc_query_state"
  | VNamespace namespace

subsection \<open>Code outside the repository\<close>

record ('d, 't) ext =
  dec_from_i64 :: "i64 \<Rightarrow> 'd"
  dec_is_zero :: "'d \<Rightarrow> bool"
  dec_cmp :: "'d \<Rightarrow> 'd \<Rightarrow> ordering"
  dec_add :: "'d \<Rightarrow> 'd \<Rightarrow> 'd option"
  dec_sub :: "'d \<Rightarrow> 'd \<Rightarrow> 'd option"
  dec_mul :: "'d \<Rightarrow> 'd \<Rightarrow> 'd option"
  dec_div :: "'d \<Rightarrow> 'd \<Rightarrow> 'd option"
  dec_neg :: "'d \<Rightarrow> 'd"
  dec_abs :: "'d \<Rightarrow> 'd"
  dec_floor :: "'d \<Rightarrow> 'd"
  dec_ceil :: "'d \<Rightarrow> 'd"
  dec_trunc :: "'d \<Rightarrow> 'd"
  dec_scale :: "'d \<Rightarrow> i64"
  dec_round_dp :: "nat \<Rightarrow> 'd \<Rightarrow> 'd"
  dec_to_string :: "'d \<Rightarrow> string"
  dec_parse :: "string \<Rightarrow> 'd option"
  dec_to_i64 :: "'d \<Rightarrow> i64 option"
  dec_to_f64 :: "'d \<Rightarrow> f64 option"
  fmt_instant :: "'t \<Rightarrow> string"
  fmt_date :: "'t \<Rightarrow> string"
  fmt_time :: "'t \<Rightarrow> string"
  parse_instant :: "string \<Rightarrow> 't option"
  parse_date :: "string \<Rightarrow> 't option"
  parse_time :: "string \<Rightarrow> 't option"
  dur_num_milliseconds :: "'t \<Rightarrow> i64"
  dur_num_seconds :: "'t \<Rightarrow> i64"
  dur_milliseconds :: "i64 \<Rightarrow> 't option"
  local_datetimes :: "'t \<Rightarrow> 't \<Rightarrow> 't list"
  naive_display :: "'t \<Rightarrow> 't \<Rightarrow> string"
  tz_display :: string
  str_upper :: "string \<Rightarrow> string"
  str_lower :: "string \<Rightarrow> string"
  ext_powi :: "f64 \<Rightarrow> 32 word \<Rightarrow> f64"
  ext_sqrt :: "f64 \<Rightarrow> f64"

subsection \<open>Classification\<close>

fun is_truthy :: "('d, 't) ext \<Rightarrow> ('d, 't) val \<Rightarrow> bool" where
  "is_truthy x VNull = False"
| "is_truthy x (VBoolean b) = b"
| "is_truthy x (VInteger n) = (n \<noteq> 0)"
| "is_truthy x (VFloat n) = (\<not> f64_eq n (F_Zero False))"
| "is_truthy x (VDecimal n) = (\<not> dec_is_zero x n)"
| "is_truthy x (VInstant _) = True"
| "is_truthy x (VDate _) = True"
| "is_truthy x (VTime _) = True"
| "is_truthy x (VDuration _) = True"
| "is_truthy x (VInterval _) = True"
| "is_truthy x (VString s) = (s \<noteq> [])"
| "is_truthy x (VList l) = (l \<noteq> [])"
| "is_truthy x (VMap m) = (m \<noteq> [])"
| "is_truthy x (VRelationalRecord _ fs) = (fs \<noteq> [])"
| "is_truthy x (VTask _ _ _ _ _ _ _) = True"
| "is_truthy x (VDbTable _) = False"
| "is_truthy x (VRelationHandle _) = False"
| "is_truthy x (VQueryBuilder _) = False"
| "is_truthy x (VDocCollection _) = False"
| "is_truthy x (VDocQueryBuilder _) = False"
| "is_truthy x (VNamespace _) = False"

fun namespace_type_name :: "namespace \<Rightarrow> string" where
  "namespace_type_name NsDb = ''DbNamespace''"
| "namespace_type_name NsDoc = ''DocNamespace''"
| "namespace_type_name NsCache = ''CacheNamespace''"
| "namespace_type_name NsFs = ''FsNamespace''"
| "namespace_type_name NsJson = ''JsonNamespace''"
| "namespace_type_name NsBase64 = ''Base64Namespace''"
| "namespace_type_name NsUuid = ''UuidNamespace''"
| "namespace_type_name NsFeature = ''FeatureNamespace''"
| "namespace_type_name NsLog = ''LogNamespace''"
| "namespace_type_name NsTime = ''TimeNamespace''"
| "namespace_type_name NsMath = ''MathNamespace''"
| "namespace_type_name NsHttpClient = ''HttpClientNamespace''"

fun type_name :: "('d, 't) val \<Rightarrow> string" where
  "type_name (VInteger _) = ''Integer''"
| "type_name (VFloat _) = ''Float''"
| "type_name (VDecimal _) = ''Decimal''"
| "type_name (VString _) = ''String''"
| "type_name (VBoolean _) = ''Boolean''"
| "type_name (VInstant _) = ''Instant''"
| "type_name (VDate _) = ''Date''"
| "type_name (VTime _) = ''Time''"
| "type_name (VDuration _) = ''Duration''"
| "type_name (VInterval _) = ''Interval''"
| "type_name VNull = ''Null''"
| "type_name (VList _) = ''List''"
| "type_name (VMap _) = ''Map''"
| "type_name (VRelationalRecord _ _) = ''RelationalRecord''"
| "type_name (VTask _ _ _ _ _ _ _) = ''Task''"
| "type_name (VDbTable _) = ''DbTable''"
| "type_name (VRelationHandle _) = ''RelationHandle''"
| "type_name (VQueryBuilder _) = ''QueryBuilder''"
| "type_name (VDocCollection _) = ''DocCollection''"
| "type_name (VDocQueryBuilder _) = ''DocQueryBuilder''"
| "type_name (VNamespace ns) = namespace_type_name ns"

fun as_integer :: "('d, 't) ext \<Rightarrow> ('d, 't) val \<Rightarrow> i64 option" where
  "as_integer x (VInteger n) = Some n"
| "as_integer x (VFloat f) = (if f64_is_whole f then Some (f64_to_i64 f) else None)"
| "as_integer x (VDecimal d) = dec_to_i64 x d"
| "as_integer x _ = None"

definition empty_map :: "('d, 't) val" where
  "empty_map = VMap []"

text \<open>\<open>collect\<close> into an \<open>IndexMap\<close>: insert the pairs one after the other.\<close>

definition index_map_of :: "(string \<times> 'v) list \<Rightarrow> 'v value_map" where
  "index_map_of pairs = fold (\<lambda>(k, v) m. AList.update k v m) pairs []"

definition map_from :: "(string \<times> ('d, 't) val) list \<Rightarrow> ('d, 't) val" where
  "map_from pairs = VMap (index_map_of pairs)"

end
