(* ===== verification/Value_Text.thy ===== *)
theory Value_Text
  imports Value
begin

text \<open>
  \<^verbatim>\<open>src/src/value.rs\<close>, second part: the \<open>Display\<close> text of a value and the equality of the language
  (\<open>impl PartialEq for Value\<close>), with the laws that hold of it.
\<close>

subsection \<open>Display\<close>

definition quote :: "string \<Rightarrow> string" where
  "quote s = [CHR 0x22] @ s @ [CHR 0x22]"

definition format_duration :: "('d, 't) ext \<Rightarrow> 't \<Rightarrow> string" where
  "format_duration x d =
     (let total_millis = sint (dur_num_milliseconds x d)
      in if total_millis mod 1000 = 0 then ''PT'' @ i64_display (dur_num_seconds x d) @ ''S''
         else ''PT'' @ f64_display (f64_div (round64 (of_int total_millis)) (round64 1000)) @ ''S'')"

fun temporal_value_to_string :: "('d, 't) ext \<Rightarrow> 't temporal_value \<Rightarrow> string" where
  "temporal_value_to_string x (TvInstant dt) = fmt_instant x dt"
| "temporal_value_to_string x (TvDate d) = fmt_date x d"
| "temporal_value_to_string x (TvTime t) = fmt_time x t"

fun namespace_display :: "namespace \<Rightarrow> string" where
  "namespace_display NsDb = ''<db>''"
| "namespace_display NsDoc = ''<doc>''"
| "namespace_display NsCache = ''<cache>''"
| "namespace_display NsFs = ''<fs>''"
| "namespace_display NsJson = ''<json>''"
| "namespace_display NsBase64 = ''<base64>''"
| "namespace_display NsUuid = ''<uuid>''"
| "namespace_display NsFeature = ''<feature>''"
| "namespace_display NsLog = ''<log>''"
| "namespace_display NsTime = ''<time>''"
| "namespace_display NsMath = ''<math>''"
| "namespace_display NsHttpClient = ''<http_client>''"

fun is_string :: "('d, 't) val \<Rightarrow> bool" where
  "is_string (VString _) = True"
| "is_string _ = False"

lemma size_list_member: "v \<in> set l \<Longrightarrow> size v < size_list size l + 1"
  using size_list_estimation' [of v l "size v" size] by simp

lemma size_map_member: "(k, v) \<in> set m \<Longrightarrow> size v < size_list (size_prod (\<lambda>x. 0) size) m + 1"
  using size_list_estimation' [of "(k, v)" m "size v" "size_prod (\<lambda>x. 0) size"] by simp

fun display :: "('d, 't) ext \<Rightarrow> ('d, 't) val \<Rightarrow> string" where
  "display x (VInteger n) = i64_display n"
| "display x (VFloat n) = (if f64_is_whole n then whole_text n else f64_display n)"
| "display x (VDecimal n) = dec_to_string x n"
| "display x (VString s) = s"
| "display x (VBoolean b) = (if b then ''true'' else ''false'')"
| "display x (VInstant dt) = fmt_instant x dt"
| "display x (VDate d) = fmt_date x d"
| "display x (VTime t) = fmt_time x t"
| "display x (VDuration d) = format_duration x d"
| "display x (VInterval i) =
     ''{start: '' @ temporal_value_to_string x (ti_start i) @ '', end: '' @
     temporal_value_to_string x (ti_end i) @ ''}''"
| "display x VNull = ''null''"
| "display x (VList items) =
     ''['' @ join '', '' (map (\<lambda>v. if is_string v then quote (display x v) else display x v) items) @ '']''"
| "display x (VMap m) =
     ''{'' @ join '', '' (map (\<lambda>(k, v). k @ '': '' @
        (if is_string v then quote (display x v) else display x v)) m) @ ''}''"
| "display x (VRelationalRecord _ m) =
     ''{'' @ join '', '' (map (\<lambda>(k, v). k @ '': '' @
        (if is_string v then quote (display x v) else display x v)) m) @ ''}''"
| "display x (VTask name params _ _ _ _ _) =
     ''<task '' @ name @ ''('' @ join '', '' (map pd_name params) @ '')>''"
| "display x (VDbTable t) = ''<db.'' @ t @ ''>''"
| "display x (VRelationHandle h) =
     (case rh_cardinality h of
        CardOne \<Rightarrow> ''<relation:'' @ qs_table (rh_query h) @ ''>''
      | CardMany \<Rightarrow> ''<relation_many:'' @ qs_table (rh_query h) @ ''>'')"
| "display x (VQueryBuilder q) = ''<query:'' @ qs_table q @ ''>''"
| "display x (VDocCollection t) = ''<doc.'' @ t @ ''>''"
| "display x (VDocQueryBuilder q) = ''<doc_query:'' @ dq_collection q @ ''>''"
| "display x (VNamespace ns) = namespace_display ns"

subsection \<open>Equality\<close>

definition relation_handle_eq :: "'v relation_handle \<Rightarrow> 'v relation_handle \<Rightarrow> bool" where
  "relation_handle_eq a b \<longleftrightarrow>
     rh_cardinality a = rh_cardinality b \<and>
     rh_null_short_circuit a = rh_null_short_circuit b \<and>
     qs_table (rh_query a) = qs_table (rh_query b) \<and>
     qs_select_cols (rh_query a) = qs_select_cols (rh_query b) \<and>
     qs_order_by (rh_query a) = qs_order_by (rh_query b) \<and>
     qs_limit (rh_query a) = qs_limit (rh_query b) \<and>
     qs_offset (rh_query a) = qs_offset (rh_query b)"

definition dec_eq :: "('d, 't) ext \<Rightarrow> 'd \<Rightarrow> 'd \<Rightarrow> bool" where
  "dec_eq x a b \<longleftrightarrow> dec_cmp x a b = Equal"

text \<open>\<open>Vec\<close> compares lengths and elements; \<open>IndexMap\<close> compares lengths and then looks every key of
  the left map up in the right one, whatever the order. The recursion is on the left value: the
  elements of a collection are first turned into the predicates \<open>== v\<close>.\<close>

definition list_eq :: "('v \<Rightarrow> bool) list \<Rightarrow> 'v list \<Rightarrow> bool" where
  "list_eq ps b \<longleftrightarrow> length ps = length b \<and> list_all (\<lambda>(p, w). p w) (zip ps b)"

definition index_map_eq :: "(string \<times> ('v \<Rightarrow> bool)) list \<Rightarrow> 'v value_map \<Rightarrow> bool" where
  "index_map_eq ps b \<longleftrightarrow>
     length ps = length b \<and>
     list_all (\<lambda>(k, p). case map_of b k of None \<Rightarrow> False | Some w \<Rightarrow> p w) ps"

primrec value_eq :: "('d, 't) ext \<Rightarrow> ('d, 't) val \<Rightarrow> ('d, 't) val \<Rightarrow> bool" where
  "value_eq x (VInteger a) = (\<lambda>other. case other of
     VInteger b \<Rightarrow> a = b | VDecimal b \<Rightarrow> dec_eq x (dec_from_i64 x a) b
   | VFloat b \<Rightarrow> f64_eq (f64_of_i64 a) b | _ \<Rightarrow> False)"
| "value_eq x (VFloat a) = (\<lambda>other. case other of
     VFloat b \<Rightarrow> f64_eq a b | VInteger b \<Rightarrow> f64_eq a (f64_of_i64 b) | _ \<Rightarrow> False)"
| "value_eq x (VDecimal a) = (\<lambda>other. case other of
     VDecimal b \<Rightarrow> dec_eq x a b | VInteger b \<Rightarrow> dec_eq x a (dec_from_i64 x b) | _ \<Rightarrow> False)"
| "value_eq x (VString a) = (\<lambda>other. case other of VString b \<Rightarrow> a = b | _ \<Rightarrow> False)"
| "value_eq x (VBoolean a) = (\<lambda>other. case other of VBoolean b \<Rightarrow> a = b | _ \<Rightarrow> False)"
| "value_eq x (VInstant a) = (\<lambda>other. case other of VInstant b \<Rightarrow> a = b | _ \<Rightarrow> False)"
| "value_eq x (VDate a) = (\<lambda>other. case other of VDate b \<Rightarrow> a = b | _ \<Rightarrow> False)"
| "value_eq x (VTime a) = (\<lambda>other. case other of VTime b \<Rightarrow> a = b | _ \<Rightarrow> False)"
| "value_eq x (VDuration a) = (\<lambda>other. case other of VDuration b \<Rightarrow> a = b | _ \<Rightarrow> False)"
| "value_eq x (VInterval a) = (\<lambda>other. case other of VInterval b \<Rightarrow> a = b | _ \<Rightarrow> False)"
| "value_eq x VNull = (\<lambda>other. case other of VNull \<Rightarrow> True | _ \<Rightarrow> False)"
| "value_eq x (VList a) = (\<lambda>other. case other of
     VList b \<Rightarrow> list_eq (map (value_eq x) a) b | _ \<Rightarrow> False)"
| "value_eq x (VMap a) = (\<lambda>other. case other of
     VMap b \<Rightarrow> index_map_eq (map (map_prod id (value_eq x)) a) b | _ \<Rightarrow> False)"
| "value_eq x (VRelationalRecord n a) = (\<lambda>other. case other of
     VRelationalRecord n' b \<Rightarrow> n = n' \<and> index_map_eq (map (map_prod id (value_eq x)) a) b | _ \<Rightarrow> False)"
| "value_eq x (VTask _ _ _ _ _ _ _) = (\<lambda>other. False)"
| "value_eq x (VDbTable a) = (\<lambda>other. case other of VDbTable b \<Rightarrow> a = b | _ \<Rightarrow> False)"
| "value_eq x (VRelationHandle a) = (\<lambda>other. case other of
     VRelationHandle b \<Rightarrow> relation_handle_eq a b | _ \<Rightarrow> False)"
| "value_eq x (VQueryBuilder _) = (\<lambda>other. False)"
| "value_eq x (VDocCollection a) = (\<lambda>other. case other of VDocCollection b \<Rightarrow> a = b | _ \<Rightarrow> False)"
| "value_eq x (VDocQueryBuilder _) = (\<lambda>other. False)"
| "value_eq x (VNamespace a) = (\<lambda>other. case other of VNamespace b \<Rightarrow> a = b | _ \<Rightarrow> False)"

subsection \<open>Laws of equality\<close>

text \<open>An \<open>IndexMap\<close> has distinct keys, at every level.\<close>

primrec wf_val :: "('d, 't) val \<Rightarrow> bool" where
  "wf_val (VInteger _) = True"
| "wf_val (VFloat _) = True"
| "wf_val (VDecimal _) = True"
| "wf_val (VString _) = True"
| "wf_val (VBoolean _) = True"
| "wf_val (VInstant _) = True"
| "wf_val (VDate _) = True"
| "wf_val (VTime _) = True"
| "wf_val (VDuration _) = True"
| "wf_val (VInterval _) = True"
| "wf_val VNull = True"
| "wf_val (VList l) = list_all id (map wf_val l)"
| "wf_val (VMap m) = (distinct (map fst m) \<and> list_all snd (map (map_prod id wf_val) m))"
| "wf_val (VRelationalRecord _ m) = (distinct (map fst m) \<and> list_all snd (map (map_prod id wf_val) m))"
| "wf_val (VTask _ _ _ _ _ _ _) = True"
| "wf_val (VDbTable _) = True"
| "wf_val (VRelationHandle _) = True"
| "wf_val (VQueryBuilder _) = True"
| "wf_val (VDocCollection _) = True"
| "wf_val (VDocQueryBuilder _) = True"
| "wf_val (VNamespace _) = True"

text \<open>The values with a literal form: no task, no query accumulator, no NaN.\<close>

primrec data_val :: "('d, 't) val \<Rightarrow> bool" where
  "data_val (VInteger _) = True"
| "data_val (VFloat f) = (f \<noteq> F_NaN)"
| "data_val (VDecimal _) = True"
| "data_val (VString _) = True"
| "data_val (VBoolean _) = True"
| "data_val (VInstant _) = True"
| "data_val (VDate _) = True"
| "data_val (VTime _) = True"
| "data_val (VDuration _) = True"
| "data_val (VInterval _) = True"
| "data_val VNull = True"
| "data_val (VList l) = list_all id (map data_val l)"
| "data_val (VMap m) = list_all snd (map (map_prod id data_val) m)"
| "data_val (VRelationalRecord _ m) = list_all snd (map (map_prod id data_val) m)"
| "data_val (VTask _ _ _ _ _ _ _) = False"
| "data_val (VDbTable _) = True"
| "data_val (VRelationHandle _) = True"
| "data_val (VQueryBuilder _) = False"
| "data_val (VDocCollection _) = True"
| "data_val (VDocQueryBuilder _) = False"
| "data_val (VNamespace _) = True"

text \<open>What \<open>Decimal\<close> documents of its comparison, as far as equality needs it.\<close>

definition decimal_equality :: "('d, 't) ext \<Rightarrow> bool" where
  "decimal_equality x \<longleftrightarrow> (\<forall>a. dec_eq x a a) \<and> (\<forall>a b. dec_eq x a b \<longrightarrow> dec_eq x b a)"

lemma list_eq_map:
  "list_eq (map p a) b \<longleftrightarrow> length a = length b \<and> (\<forall>i < length a. p (a ! i) (b ! i))"
  by (auto simp: list_eq_def list_all_length)

lemma index_map_eq_map:
  "index_map_eq (map (map_prod id p) a) b \<longleftrightarrow>
     length a = length b \<and> (\<forall>(k, v) \<in> set a. \<exists>w. map_of b k = Some w \<and> p v w)"
  by (auto simp: index_map_eq_def list_all_iff split: option.splits)

lemma index_map_eq_flip:
  assumes "distinct (map fst a)" "distinct (map fst b)"
    and eq: "index_map_eq (map (map_prod id p) a) b"
    and flip: "\<And>k v w. (k, v) \<in> set a \<Longrightarrow> (k, w) \<in> set b \<Longrightarrow> p v w \<Longrightarrow> p w v"
  shows "index_map_eq (map (map_prod id p) b) a"
proof -
  from eq have len: "length a = length b"
    and look: "\<And>k v. (k, v) \<in> set a \<Longrightarrow> \<exists>w. map_of b k = Some w \<and> p v w"
    by (auto simp: index_map_eq_map)
  have sub: "fst ` set a \<subseteq> fst ` set b" using look by (force dest: map_of_SomeD)
  moreover have "card (fst ` set a) = card (fst ` set b)"
    using assms(1,2) len by (metis distinct_card length_map set_map)
  ultimately have keys: "fst ` set a = fst ` set b" by (simp add: card_subset_eq)
  have "\<exists>v. map_of a k = Some v \<and> p w v" if kw: "(k, w) \<in> set b" for k w
  proof -
    from kw have "k \<in> fst ` set b" by force
    then obtain v where v: "(k, v) \<in> set a" unfolding keys [symmetric] by auto
    with look obtain w' where "map_of b k = Some w'" "p v w'" by blast
    with kw assms(2) have "p v w" by (simp add: map_of_is_SomeI)
    with flip v kw assms(1) show ?thesis by (auto intro: map_of_is_SomeI)
  qed
  with len show ?thesis by (auto simp: index_map_eq_map)
qed

definition is_collection :: "('d, 't) val \<Rightarrow> bool" where
  "is_collection v \<longleftrightarrow> (case v of VList _ \<Rightarrow> True | VMap _ \<Rightarrow> True | VRelationalRecord _ _ \<Rightarrow> True | _ \<Rightarrow> False)"

lemma value_eq_flip_atom:
  assumes "decimal_equality x" and "\<not> is_collection a" and "value_eq x a b"
  shows "value_eq x b a"
  using assms
  by (cases a; cases b; simp add: is_collection_def decimal_equality_def f64_eq_sym relation_handle_eq_def)

lemma value_eq_flip:
  assumes "decimal_equality x"
  shows "value_eq x a b \<Longrightarrow> wf_val a \<Longrightarrow> wf_val b \<Longrightarrow> value_eq x b a"
proof (induction a arbitrary: b)
  case (VList l)
  then obtain m where b: "b = VList m" "list_eq (map (value_eq x) l) m" by (cases b) auto
  with VList show ?case by (auto simp: list_eq_map list_all_length)
next
  case (VMap m)
  then obtain n where b: "b = VMap n" "index_map_eq (map (map_prod id (value_eq x)) m) n"
    by (cases b) auto
  have "index_map_eq (map (map_prod id (value_eq x)) n) m"
  proof (rule index_map_eq_flip [OF _ _ b(2)])
    fix k v w
    assume "(k, v) \<in> set m" "(k, w) \<in> set n" "value_eq x v w"
    with VMap b show "value_eq x w v" by (fastforce simp: list_all_iff)
  qed (use VMap b in simp_all)
  with b show ?case by simp
next
  case (VRelationalRecord r m)
  then obtain n where b: "b = VRelationalRecord r n" "index_map_eq (map (map_prod id (value_eq x)) m) n"
    by (cases b) auto
  have "index_map_eq (map (map_prod id (value_eq x)) n) m"
  proof (rule index_map_eq_flip [OF _ _ b(2)])
    fix k v w
    assume "(k, v) \<in> set m" "(k, w) \<in> set n" "value_eq x v w"
    with VRelationalRecord b show "value_eq x w v" by (fastforce simp: list_all_iff)
  qed (use VRelationalRecord b in simp_all)
  with b show ?case by simp
qed (rule value_eq_flip_atom [OF assms]; simp add: is_collection_def)+

lemma value_eq_refl_data:
  assumes "decimal_equality x"
  shows "data_val a \<Longrightarrow> wf_val a \<Longrightarrow> value_eq x a a"
proof (induction a)
  case (VList l)
  then show ?case by (auto simp: list_eq_map list_all_length)
next
  case (VMap m)
  then have "value_eq x v v" if "(k, v) \<in> set m" for k v
    using that by (fastforce simp: list_all_iff)
  with VMap show ?case by (auto simp: index_map_eq_map)
next
  case (VRelationalRecord r m)
  then have "value_eq x v v" if "(k, v) \<in> set m" for k v
    using that by (fastforce simp: list_all_iff)
  with VRelationalRecord show ?case by (auto simp: index_map_eq_map)
qed (use assms in \<open>simp_all add: decimal_equality_def f64_eq_refl relation_handle_eq_def\<close>)

subsection \<open>Properties\<close>

text \<open>A concrete instance of the code outside the repository: decimals are rationals, times are
  integers, and the functions that are not needed are constant.\<close>

definition rat_ext :: "(rat, int) ext" where
  "rat_ext = \<lparr>dec_from_i64 = (\<lambda>n. of_int (sint n)), dec_is_zero = (\<lambda>d. d = 0), dec_cmp = rat_cmp,
     dec_add = (\<lambda>a b. Some (a + b)), dec_sub = (\<lambda>a b. Some (a - b)), dec_mul = (\<lambda>a b. Some (a * b)),
     dec_div = (\<lambda>a b. if b = 0 then None else Some (a / b)), dec_neg = uminus, dec_abs = abs,
     dec_floor = (\<lambda>d. of_int \<lfloor>d\<rfloor>), dec_ceil = (\<lambda>d. of_int \<lceil>d\<rceil>), dec_trunc = (\<lambda>d. of_int (rat_trunc d)),
     dec_scale = (\<lambda>d. 0), dec_round_dp = (\<lambda>n d. of_int (round_half_even (d * 10 ^ n)) / 10 ^ n),
     dec_to_string = (\<lambda>d. ''decimal''), dec_parse = (\<lambda>s. map_option (\<lambda>n. of_int (sint n)) (parse_i64_digits s)),
     dec_to_i64 = (\<lambda>d. Some (of_int (rat_trunc d))), dec_to_f64 = (\<lambda>d. Some (round64 d)),
     fmt_instant = (\<lambda>t. ''instant''), fmt_date = (\<lambda>t. ''date''), fmt_time = (\<lambda>t. ''time''),
     parse_instant = (\<lambda>s. None), parse_date = (\<lambda>s. None), parse_time = (\<lambda>s. None),
     dur_num_milliseconds = of_int, dur_num_seconds = (\<lambda>t. of_int (t div 1000)),
     dur_milliseconds = (\<lambda>n. Some (sint n)), local_datetimes = (\<lambda>d t. [d + t]),
     naive_display = (\<lambda>d t. ''datetime''), tz_display = ''UTC'',
     str_upper = map to_ascii_upper, str_lower = map to_ascii_lower,
     ext_powi = (\<lambda>a n. a), ext_sqrt = (\<lambda>a. a)\<rparr>"

lemma decimal_equality_rat_ext: "decimal_equality rat_ext"
  by (auto simp: decimal_equality_def dec_eq_def rat_ext_def rat_cmp_def)

text \<open>The equality of the language is symmetric, across integers, floats and decimals and through
  nested lists and maps, and it is reflexive on every value without a NaN, a task or a query.\<close>

theorem value_eq_sym_refl:
  assumes "decimal_equality x" and "wf_val a" and "wf_val b"
  shows "value_eq x a b = value_eq x b a \<and> (data_val a \<longrightarrow> value_eq x a a)"
  using value_eq_flip [OF assms(1)] value_eq_refl_data [OF assms(1)] assms(2,3) by blast

theorem value_eq_sym_refl_witness:
  "value_eq rat_ext (VMap [(''a'', VInteger 1), (''b'', VNull)]) (VMap [(''b'', VNull), (''a'', VDecimal 1)]) =
   value_eq rat_ext (VMap [(''b'', VNull), (''a'', VDecimal 1)]) (VMap [(''a'', VInteger 1), (''b'', VNull)])"
  using value_eq_sym_refl [OF decimal_equality_rat_ext,
      of "VMap [(''a'', VInteger 1), (''b'', VNull)]" "VMap [(''b'', VNull), (''a'', VDecimal 1)]"]
  by simp

lemma f64_of_large:
  "f64_of_i64 9007199254740993 = F_Num 9007199254740992"
  "f64_of_i64 9007199254740992 = F_Num 9007199254740992"
  by code_simp+

text \<open>It is not transitive: two integers beyond \<open>2^53\<close> are both equal to the float between them.\<close>

lemma value_eq_not_transitive:
  "value_eq rat_ext (VInteger 9007199254740993) (VFloat (F_Num 9007199254740992)) \<and>
   value_eq rat_ext (VFloat (F_Num 9007199254740992)) (VInteger 9007199254740992) \<and>
   \<not> value_eq rat_ext (VInteger 9007199254740993) (VInteger 9007199254740992)"
  by (simp add: f64_of_large f64_eq_def rat_cmp_def)

end
