(* ===== verification/Value_Methods.thy ===== *)
theory Value_Methods
  imports Value_Text "HOL-Library.Char_ord" "HOL-Library.List_Lexorder"
begin

text \<open>
  \<^verbatim>\<open>src/src/value.rs\<close>, third part: the built-in methods of strings, lists, maps, numbers and times
  (\<open>call_method_at\<close>) and the conversions between types.
\<close>

subsection \<open>Strings of the standard library\<close>

text \<open>\<open>str::len\<close> counts bytes: a code point from 128 to 255 takes two.\<close>

definition utf8_len :: "string \<Rightarrow> nat" where
  "utf8_len s = sum_list (map (\<lambda>c. if cp c < 128 then 1 else 2) s)"

fun str_find :: "string \<Rightarrow> string \<Rightarrow> nat option" where
  "str_find p [] = (if p = [] then Some 0 else None)"
| "str_find p (c # s) =
     (if take (length p) (c # s) = p then Some 0 else map_option Suc (str_find p s))"

definition str_contains :: "string \<Rightarrow> string \<Rightarrow> bool" where
  "str_contains s p \<longleftrightarrow> str_find p s \<noteq> None"

text \<open>\<open>str::split(&str)\<close>: an empty pattern matches at every boundary.\<close>

function split_on :: "string \<Rightarrow> string \<Rightarrow> string list" where
  "split_on p s =
     (if p = [] then [s]
      else case str_find p s of
             None \<Rightarrow> [s]
           | Some i \<Rightarrow> take i s # split_on p (drop (i + length p) s))"
  by pat_completeness auto
termination
proof (relation "measure (\<lambda>(p, s). length s)")
  fix p s :: string and i
  assume "p \<noteq> []" "str_find p s = Some i"
  then have "s \<noteq> []" by (cases s) auto
  with \<open>p \<noteq> []\<close> show "((p, drop (i + length p) s), (p, s)) \<in> measure (\<lambda>(p, s). length s)"
    by (cases p; cases s) auto
qed simp

declare split_on.simps [simp del]

definition str_split :: "string \<Rightarrow> string \<Rightarrow> string list" where
  "str_split s sep = (if sep = [] then [[]] @ map (\<lambda>c. [c]) s @ [[]] else split_on sep s)"

definition str_replace :: "string \<Rightarrow> string \<Rightarrow> string \<Rightarrow> string" where
  "str_replace s old new = join new (str_split s old)"

definition starts_with :: "string \<Rightarrow> string \<Rightarrow> bool" where
  "starts_with s p \<longleftrightarrow> take (length p) s = p"

definition ends_with :: "string \<Rightarrow> string \<Rightarrow> bool" where
  "ends_with s p \<longleftrightarrow> length p \<le> length s \<and> drop (length s - length p) s = p"

text \<open>\<open>str::parse::<i64>\<close>: an optional sign, at least one digit, in range.\<close>

definition parse_i64 :: "string \<Rightarrow> i64 option" where
  "parse_i64 s =
     (let neg = (s \<noteq> [] \<and> hd s = CHR ''-'');
          digits = (if s \<noteq> [] \<and> hd s \<in> {CHR ''-'', CHR ''+''} then tl s else s);
          n = (if neg then - digits_value digits else digits_value digits)
      in if digits \<noteq> [] \<and> list_all is_ascii_digit digits \<and> - (2 ^ 63) \<le> n \<and> n < 2 ^ 63
         then Some (of_int n) else None)"

text \<open>\<open>str::parse::<f64>\<close>: an optional sign, then \<open>inf\<close>, \<open>infinity\<close> or \<open>nan\<close> in any case, or digits with an
  optional point and an optional exponent.\<close>

definition split_exponent :: "string \<Rightarrow> string \<times> string option" where
  "split_exponent s =
     (let m = takeWhile (\<lambda>c. c \<noteq> CHR ''e'' \<and> c \<noteq> CHR ''E'') s; r = drop (length m) s
      in if r = [] then (m, None) else (m, Some (tl r)))"

definition parse_exponent :: "string \<Rightarrow> int option" where
  "parse_exponent s =
     (let digits = (if s \<noteq> [] \<and> hd s \<in> {CHR ''-'', CHR ''+''} then tl s else s)
      in if digits \<noteq> [] \<and> list_all is_ascii_digit digits
         then Some (if hd s = CHR ''-'' then - digits_value digits else digits_value digits) else None)"

definition parse_mantissa :: "string \<Rightarrow> (int \<times> nat) option" where
  "parse_mantissa s =
     (case split_char (CHR ''.'') s of
        [a] \<Rightarrow> (if a \<noteq> [] \<and> list_all is_ascii_digit a then Some (digits_value a, 0) else None)
      | [a, b] \<Rightarrow> (if a @ b \<noteq> [] \<and> list_all is_ascii_digit (a @ b)
                  then Some (digits_value (a @ b), length b) else None)
      | _ \<Rightarrow> None)"

definition pow10 :: "int \<Rightarrow> rat" where
  "pow10 k = (if 0 \<le> k then 10 ^ nat k else 1 / 10 ^ nat (- k))"

definition parse_f64 :: "string \<Rightarrow> f64 option" where
  "parse_f64 s =
     (let neg = (s \<noteq> [] \<and> hd s = CHR ''-'');
          body = (if s \<noteq> [] \<and> hd s \<in> {CHR ''-'', CHR ''+''} then tl s else s);
          low = map to_ascii_lower body
      in if low = ''inf'' \<or> low = ''infinity'' then Some (F_Inf neg)
         else if low = ''nan'' then Some F_NaN
         else case split_exponent body of (m, e) \<Rightarrow>
           (case (parse_mantissa m, case e of None \<Rightarrow> Some 0 | Some t \<Rightarrow> parse_exponent t) of
              (Some (d, k), Some n) \<Rightarrow>
                Some (if d = 0 then F_Zero neg else round64_pos neg (of_int d * pow10 (n - int k)))
            | _ \<Rightarrow> None))"

subsection \<open>Argument checks and conversions\<close>

abbreviation type_error :: "string \<Rightarrow> nat \<Rightarrow> nat \<Rightarrow> marreta_error + 'a" where
  "type_error message line column \<equiv> Inl (TypeError message line column)"

definition expect_string_arg ::
    "('d, 't) val list \<Rightarrow> nat \<Rightarrow> string \<Rightarrow> nat \<Rightarrow> nat \<Rightarrow> marreta_error + string" where
  "expect_string_arg args index method_name line column =
     (if index < length args then
        (case args ! index of
           VString s \<Rightarrow> Inr s
         | other \<Rightarrow> type_error (method_name @ '' argument '' @ nat_to_string (index + 1) @
             '' must be a String, got '' @ type_name other) line column)
      else type_error (method_name @ '' requires at least '' @ nat_to_string (index + 1) @
             '' argument(s)'') line column)"

fun convert_to_integer :: "('d, 't) ext \<Rightarrow> ('d, 't) val \<Rightarrow> ('d, 't) val" where
  "convert_to_integer x (VInteger n) = VInteger n"
| "convert_to_integer x (VFloat n) = VInteger (f64_to_i64 n)"
| "convert_to_integer x (VDecimal n) =
     VInteger (case dec_to_i64 x (dec_trunc x n) of Some i \<Rightarrow> i | None \<Rightarrow> 0)"
| "convert_to_integer x (VString s) = VInteger (case parse_i64 (trim s) of Some i \<Rightarrow> i | None \<Rightarrow> 0)"
| "convert_to_integer x (VBoolean b) = VInteger (if b then 1 else 0)"
| "convert_to_integer x _ = VInteger 0"

fun convert_to_float :: "('d, 't) ext \<Rightarrow> ('d, 't) val \<Rightarrow> ('d, 't) val" where
  "convert_to_float x (VInteger n) = VFloat (f64_of_i64 n)"
| "convert_to_float x (VFloat n) = VFloat n"
| "convert_to_float x (VDecimal n) = VFloat (case dec_to_f64 x n of Some f \<Rightarrow> f | None \<Rightarrow> F_Zero False)"
| "convert_to_float x (VString s) = VFloat (case parse_f64 (trim s) of Some f \<Rightarrow> f | None \<Rightarrow> F_Zero False)"
| "convert_to_float x (VBoolean b) = VFloat (if b then F_Num 1 else F_Zero False)"
| "convert_to_float x _ = VFloat (F_Zero False)"

definition numeric_list ::
    "('d, 't) val list \<Rightarrow> string \<Rightarrow> nat \<Rightarrow> nat \<Rightarrow> marreta_error + f64 list" where
  "numeric_list values method_name line column =
     rmap (\<lambda>v. case v of
         VInteger n \<Rightarrow> Inr (f64_of_i64 n)
       | VFloat n \<Rightarrow> Inr n
       | other \<Rightarrow> type_error (method_name @ ''() requires a numeric list, got '' @ type_name other) line column)
       values"

subsection \<open>Methods\<close>

definition property_not_found :: "string \<Rightarrow> string \<Rightarrow> nat \<Rightarrow> nat \<Rightarrow> marreta_error + 'a" where
  "property_not_found object_type property line column =
     Inl (PropertyNotFound object_type property line column)"

definition string_method ::
    "('d, 't) ext \<Rightarrow> string \<Rightarrow> string \<Rightarrow> ('d, 't) val list \<Rightarrow> nat \<Rightarrow> nat \<Rightarrow> marreta_error + ('d, 't) val" where
  "string_method x s method args line column =
     (if method = ''length'' then Inr (VInteger (of_nat (utf8_len s)))
      else if method = ''upper'' then Inr (VString (str_upper x s))
      else if method = ''lower'' then Inr (VString (str_lower x s))
      else if method = ''trim'' then Inr (VString (trim s))
      else if method = ''contains'' then
        rbind (expect_string_arg args 0 ''contains'' line column) (\<lambda>substr.
          Inr (VBoolean (str_contains s substr)))
      else if method = ''split'' then
        rbind (expect_string_arg args 0 ''split'' line column) (\<lambda>sep.
          Inr (VList (map VString (str_split s sep))))
      else if method = ''replace'' then
        rbind (expect_string_arg args 0 ''replace'' line column) (\<lambda>old.
        rbind (expect_string_arg args 1 ''replace'' line column) (\<lambda>new.
          Inr (VString (str_replace s old new))))
      else if method = ''to_string'' then Inr (VString s)
      else if method = ''starts_with'' then
        rbind (expect_string_arg args 0 ''starts_with'' line column) (\<lambda>prefix.
          Inr (VBoolean (starts_with s prefix)))
      else if method = ''ends_with'' then
        rbind (expect_string_arg args 0 ''ends_with'' line column) (\<lambda>suffix.
          Inr (VBoolean (ends_with s suffix)))
      else if method = ''index_of'' then
        rbind (expect_string_arg args 0 ''index_of'' line column) (\<lambda>needle.
          Inr (VInteger (case str_find needle s of
                           Some i \<Rightarrow> of_nat (utf8_len (take i s)) | None \<Rightarrow> -1)))
      else property_not_found ''String'' method line column)"

text \<open>\<open>resolve_local_datetime\<close> with \<open>prefer_latest = false\<close>: the earliest reading of an ambiguous local time.\<close>

definition resolve_local_datetime ::
    "('d, 't) ext \<Rightarrow> 't \<Rightarrow> 't \<Rightarrow> bool \<Rightarrow> nat \<Rightarrow> nat \<Rightarrow> marreta_error + 't" where
  "resolve_local_datetime x date time prefer_latest line column =
     (case local_datetimes x date time of
        [] \<Rightarrow> type_error (''could not resolve local datetime '' @ [CHR 0x27] @ naive_display x date time @
                [CHR 0x27] @ '' in timezone '' @ [CHR 0x27] @ tz_display x @ [CHR 0x27]) line column
      | dts \<Rightarrow> Inr (if prefer_latest then last dts else hd dts))"

definition time_method ::
    "('d, 't) ext \<Rightarrow> 't \<Rightarrow> string \<Rightarrow> ('d, 't) val list \<Rightarrow> nat \<Rightarrow> nat \<Rightarrow> marreta_error + ('d, 't) val" where
  "time_method x time method args line column =
     (if method = ''on'' then
        (case args of
           VDate date # _ \<Rightarrow>
             rbind (resolve_local_datetime x date time False line column) (\<lambda>dt. Inr (VInstant dt))
         | other # _ \<Rightarrow> type_error (''time.on() requires Date, got '' @ type_name other) line column
         | [] \<Rightarrow> type_error ''time.on() requires a date argument'' line column)
      else property_not_found ''Time'' method line column)"

subsection \<open>Lists\<close>

text \<open>\<open>slice::sort_by\<close> is a stable sort; for a comparison that is a total preorder every stable sort gives
  the list of this insertion sort.\<close>

fun insert_by :: "('a \<Rightarrow> 'a \<Rightarrow> ordering) \<Rightarrow> 'a \<Rightarrow> 'a list \<Rightarrow> 'a list" where
  "insert_by cmp x [] = [x]"
| "insert_by cmp x (y # ys) = (if cmp x y = Greater then y # insert_by cmp x ys else x # y # ys)"

definition sort_by :: "('a \<Rightarrow> 'a \<Rightarrow> ordering) \<Rightarrow> 'a list \<Rightarrow> 'a list" where
  "sort_by cmp xs = foldr (insert_by cmp) xs []"

definition cmp_of :: "'a::linorder \<Rightarrow> 'a \<Rightarrow> ordering" where
  "cmp_of a b = (if a < b then Less else if a = b then Equal else Greater)"

definition f64_cmp_or_equal :: "f64 \<Rightarrow> f64 \<Rightarrow> ordering" where
  "f64_cmp_or_equal a b = (case f64_partial_cmp a b of Some o' \<Rightarrow> o' | None \<Rightarrow> Equal)"

fun type_order :: "('d, 't) val \<Rightarrow> nat" where
  "type_order (VInteger _) = 0"
| "type_order (VFloat _) = 1"
| "type_order (VString _) = 2"
| "type_order (VBoolean _) = 3"
| "type_order _ = 4"

fun val_to_f64 :: "('d, 't) val \<Rightarrow> f64 option" where
  "val_to_f64 (VInteger n) = Some (f64_of_i64 n)"
| "val_to_f64 (VFloat n) = Some n"
| "val_to_f64 _ = None"

definition sort_compare :: "('d, 't) val \<Rightarrow> ('d, 't) val \<Rightarrow> ordering" where
  "sort_compare a b =
     (if type_order a \<noteq> type_order b then cmp_of (type_order a) (type_order b)
      else case (val_to_f64 a, val_to_f64 b) of
             (Some fa, Some fb) \<Rightarrow> f64_cmp_or_equal fa fb
           | _ \<Rightarrow> (case (a, b) of
                    (VString sa, VString sb) \<Rightarrow> cmp_of sa sb
                  | (VBoolean ba, VBoolean bb) \<Rightarrow> cmp_of ba bb
                  | _ \<Rightarrow> Equal))"

definition list_unique :: "('d, 't) ext \<Rightarrow> ('d, 't) val list \<Rightarrow> ('d, 't) val list" where
  "list_unique x l =
     fold (\<lambda>item seen. if list_ex (\<lambda>v. value_eq x v item) seen then seen else seen @ [item]) l []"

definition list_flatten :: "('d, 't) val list \<Rightarrow> ('d, 't) val list" where
  "list_flatten l = concat (map (\<lambda>item. case item of VList inner \<Rightarrow> inner | other \<Rightarrow> [other]) l)"

definition slice_index ::
    "('d, 't) val list \<Rightarrow> nat \<Rightarrow> nat \<Rightarrow> nat \<Rightarrow> marreta_error + nat" where
  "slice_index args i line column =
     (if i < length args then
        (case args ! i of
           VInteger n \<Rightarrow> Inr (unat n)
         | other \<Rightarrow> type_error (''slice argument '' @ nat_to_string (i + 1) @ '' must be Integer, got '' @
             type_name other) line column)
      else type_error ''slice requires 2 arguments'' line column)"

text \<open>The loop of \<open>sum\<close>: the total so far and whether a float was seen.\<close>

fun sum_loop ::
    "('d, 't) val list \<Rightarrow> f64 \<Rightarrow> bool \<Rightarrow> nat \<Rightarrow> nat \<Rightarrow> marreta_error + (f64 \<times> bool)" where
  "sum_loop [] tot saw_float line column = Inr (tot, saw_float)"
| "sum_loop (item # rest) tot saw_float line column =
     (case item of
        VInteger n \<Rightarrow> sum_loop rest (f64_add tot (f64_of_i64 n)) saw_float line column
      | VFloat n \<Rightarrow> sum_loop rest (f64_add tot n) True line column
      | other \<Rightarrow> type_error (''sum() requires a numeric list, got '' @ type_name other) line column)"

text \<open>\<open>Iterator::sum::<f64>\<close> starts from negative zero.\<close>

definition f64_sum :: "f64 list \<Rightarrow> f64" where
  "f64_sum ns = fold (\<lambda>n acc. f64_add acc n) ns (F_Zero True)"

definition f64_mean :: "f64 list \<Rightarrow> f64" where
  "f64_mean ns = f64_div (f64_sum ns) (round64 (of_nat (length ns)))"

definition f64_median :: "f64 list \<Rightarrow> f64" where
  "f64_median ns =
     (let sorted = sort_by f64_cmp_or_equal ns; mid = length sorted div 2
      in if length sorted mod 2 = 0
         then f64_div (f64_add (sorted ! (mid - 1)) (sorted ! mid)) (F_Num 2)
         else sorted ! mid)"

definition f64_std_dev :: "('d, 't) ext \<Rightarrow> f64 list \<Rightarrow> f64" where
  "f64_std_dev x ns =
     (let mean = f64_mean ns;
          variance = f64_div (f64_sum (map (\<lambda>n. f64_mul (f64_sub n mean) (f64_sub n mean)) ns))
                       (round64 (of_nat (length ns)))
      in ext_sqrt x variance)"

definition list_method ::
    "('d, 't) ext \<Rightarrow> ('d, 't) val list \<Rightarrow> string \<Rightarrow> ('d, 't) val list \<Rightarrow> nat \<Rightarrow> nat \<Rightarrow>
     marreta_error + ('d, 't) val" where
  "list_method x l method args line column =
     (if method = ''length'' then Inr (VInteger (of_nat (length l)))
      else if method = ''first'' then Inr (case l of [] \<Rightarrow> VNull | v # _ \<Rightarrow> v)
      else if method = ''last'' then Inr (if l = [] then VNull else last l)
      else if method = ''empty?'' then Inr (VBoolean (l = []))
      else if method = ''push'' then
        (case args of [] \<Rightarrow> type_error ''push requires 1 argument'' line column
         | arg # _ \<Rightarrow> Inr (VList (l @ [arg])))
      else if method = ''includes'' then
        (case args of [] \<Rightarrow> type_error ''includes requires 1 argument'' line column
         | arg # _ \<Rightarrow> Inr (VBoolean (list_ex (\<lambda>v. value_eq x v arg) l)))
      else if method = ''reverse'' then Inr (VList (rev l))
      else if method = ''join'' then
        rbind (expect_string_arg args 0 ''join'' line column) (\<lambda>sep.
          Inr (VString (join sep (map (display x) l))))
      else if method = ''sort'' then Inr (VList (sort_by sort_compare l))
      else if method = ''unique'' then Inr (VList (list_unique x l))
      else if method = ''flatten'' then Inr (VList (list_flatten l))
      else if method = ''slice'' then
        rbind (slice_index args 0 line column) (\<lambda>from0.
        rbind (slice_index args 1 line column) (\<lambda>to0.
          let len = length l; from = min from0 len; to = max (min to0 len) from
          in Inr (VList (take (to - from) (drop from l)))))
      else if method = ''sum'' then
        (if l = [] then Inr (VInteger 0)
         else rbind (sum_loop l (F_Zero False) False line column) (\<lambda>(tot, saw_float).
           Inr (if saw_float then VFloat tot else VInteger (f64_to_i64 tot))))
      else if method \<in> {''mean'', ''median'', ''std_dev''} then
        (if l = [] then Inr VNull
         else rbind (numeric_list l method line column) (\<lambda>nums.
           Inr (VFloat (if method = ''mean'' then f64_mean nums
                        else if method = ''median'' then f64_median nums
                        else f64_std_dev x nums))))
      else if method = ''zip'' then
        (case args of
           [VList other] \<Rightarrow>
             (if length l \<noteq> length other
              then Inl (RuntimeError ''zip() requires lists of the same length'' line column)
              else Inr (VList (map (\<lambda>(a, b). VList [a, b]) (zip l other))))
         | [other] \<Rightarrow> type_error (''zip() requires a List argument, got '' @ type_name other) line column
         | _ \<Rightarrow> type_error ''zip() requires exactly 1 argument'' line column)
      else property_not_found ''List'' method line column)"

subsection \<open>Maps\<close>

definition map_method ::
    "('d, 't) val value_map \<Rightarrow> string \<Rightarrow> ('d, 't) val list \<Rightarrow> nat \<Rightarrow> nat \<Rightarrow> marreta_error + ('d, 't) val" where
  "map_method m method args line column =
     (if method = ''keys'' then Inr (VList (map (\<lambda>(k, v). VString k) m))
      else if method = ''values'' then Inr (VList (map snd m))
      else if method = ''has'' then
        rbind (expect_string_arg args 0 ''has'' line column) (\<lambda>key.
          Inr (VBoolean (map_of m key \<noteq> None)))
      else if method = ''merge'' then
        (case args of
           [] \<Rightarrow> type_error ''merge requires 1 argument'' line column
         | VMap other # _ \<Rightarrow> Inr (VMap (fold (\<lambda>(k, v) merged. AList.update k v merged) other m))
         | _ \<Rightarrow> type_error ''merge argument must be a Map'' line column)
      else if method = ''delete'' then
        rbind (expect_string_arg args 0 ''delete'' line column) (\<lambda>key.
          Inr (VMap (filter (\<lambda>(k, v). k \<noteq> key) m)))
      else if method = ''size'' then Inr (VInteger (of_nat (length m)))
      else property_not_found ''Map'' method line column)"

subsection \<open>Numbers\<close>

text \<open>\<open>i64::abs\<close> wraps at the least integer in a release build.\<close>

definition integer_method ::
    "i64 \<Rightarrow> string \<Rightarrow> ('d, 't) val list \<Rightarrow> nat \<Rightarrow> nat \<Rightarrow> marreta_error + ('d, 't) val" where
  "integer_method n method args line column =
     (if method = ''abs'' then Inr (VInteger (if sint n < 0 then - n else n))
      else if method = ''min'' then
        (case args of
           VInteger other # _ \<Rightarrow> Inr (VInteger (if sint n \<le> sint other then n else other))
         | VFloat other # _ \<Rightarrow> Inr (VFloat (f64_min (f64_of_i64 n) other))
         | other # _ \<Rightarrow> type_error (''min argument must be Integer or Float, got '' @ type_name other) line column
         | [] \<Rightarrow> type_error ''min requires 1 argument'' line column)
      else if method = ''max'' then
        (case args of
           VInteger other # _ \<Rightarrow> Inr (VInteger (if sint n \<le> sint other then other else n))
         | VFloat other # _ \<Rightarrow> Inr (VFloat (f64_max (f64_of_i64 n) other))
         | other # _ \<Rightarrow> type_error (''max argument must be Integer or Float, got '' @ type_name other) line column
         | [] \<Rightarrow> type_error ''max requires 1 argument'' line column)
      else property_not_found ''Integer'' method line column)"

definition boolean_method ::
    "bool \<Rightarrow> string \<Rightarrow> ('d, 't) val list \<Rightarrow> nat \<Rightarrow> nat \<Rightarrow> marreta_error + ('d, 't) val" where
  "boolean_method b method args line column = property_not_found ''Boolean'' method line column"

definition float_method ::
    "('d, 't) ext \<Rightarrow> f64 \<Rightarrow> string \<Rightarrow> ('d, 't) val list \<Rightarrow> nat \<Rightarrow> nat \<Rightarrow> marreta_error + ('d, 't) val" where
  "float_method x n method args line column =
     (if method = ''abs'' then Inr (VFloat (f64_abs n))
      else if method = ''round'' then
        (case args of
           [] \<Rightarrow> Inr (VFloat (f64_round n))
         | VInteger places # _ \<Rightarrow>
             let factor = ext_powi x (F_Num 10) (ucast places)
             in Inr (VFloat (f64_div (f64_round (f64_mul n factor)) factor))
         | other # _ \<Rightarrow> type_error (''round argument must be Integer, got '' @ type_name other) line column)
      else if method = ''floor'' then Inr (VFloat (f64_floor n))
      else if method = ''ceil'' then Inr (VFloat (f64_ceil n))
      else if method = ''min'' then
        (case args of
           VInteger other # _ \<Rightarrow> Inr (VFloat (f64_min n (f64_of_i64 other)))
         | VFloat other # _ \<Rightarrow> Inr (VFloat (f64_min n other))
         | other # _ \<Rightarrow> type_error (''min argument must be Integer or Float, got '' @ type_name other) line column
         | [] \<Rightarrow> type_error ''min requires 1 argument'' line column)
      else if method = ''max'' then
        (case args of
           VInteger other # _ \<Rightarrow> Inr (VFloat (f64_max n (f64_of_i64 other)))
         | VFloat other # _ \<Rightarrow> Inr (VFloat (f64_max n other))
         | other # _ \<Rightarrow> type_error (''max argument must be Integer or Float, got '' @ type_name other) line column
         | [] \<Rightarrow> type_error ''max requires 1 argument'' line column)
      else property_not_found ''Float'' method line column)"

text \<open>\<open>as u32\<close> keeps the low 32 bits of the number of places.\<close>

definition decimal_method ::
    "('d, 't) ext \<Rightarrow> 'd \<Rightarrow> string \<Rightarrow> ('d, 't) val list \<Rightarrow> nat \<Rightarrow> nat \<Rightarrow> marreta_error + ('d, 't) val" where
  "decimal_method x n method args line column =
     (if method = ''abs'' then Inr (VDecimal (dec_abs x n))
      else if method = ''floor'' then Inr (VDecimal (dec_floor x n))
      else if method = ''ceil'' then Inr (VDecimal (dec_ceil x n))
      else if method = ''trunc'' then Inr (VDecimal (dec_trunc x n))
      else if method = ''scale'' then Inr (VInteger (dec_scale x n))
      else if method = ''to_string'' then Inr (VString (dec_to_string x n))
      else if method = ''to_integer'' then
        Inr (VInteger (case dec_to_i64 x (dec_trunc x n) of Some i \<Rightarrow> i | None \<Rightarrow> 0))
      else if method = ''to_float'' then
        Inr (VFloat (case dec_to_f64 x n of Some f \<Rightarrow> f | None \<Rightarrow> F_Zero False))
      else if method = ''round'' then
        (case args of
           [] \<Rightarrow> Inr (VDecimal (dec_round_dp x 0 n))
         | [VInteger places] \<Rightarrow>
             (if 0 \<le> sint places then Inr (VDecimal (dec_round_dp x (unat places mod 2 ^ 32) n))
              else type_error ''round argument must be non-negative Integer, got Integer'' line column)
         | [other] \<Rightarrow>
             type_error (''round argument must be non-negative Integer, got '' @ type_name other) line column
         | _ \<Rightarrow> type_error ''round requires zero or one argument'' line column)
      else property_not_found ''Decimal'' method line column)"

subsection \<open>Dispatch\<close>

definition call_method_at ::
    "('d, 't) ext \<Rightarrow> ('d, 't) val \<Rightarrow> string \<Rightarrow> ('d, 't) val list \<Rightarrow> nat \<Rightarrow> nat \<Rightarrow>
     marreta_error + ('d, 't) val" where
  "call_method_at x self method args line column =
     (if args \<noteq> [] \<and> method \<in> {''to_integer'', ''to_float'', ''to_boolean'', ''to_string''}
      then type_error (method @ ''() takes no arguments'') line column
      else if method = ''to_integer'' then Inr (convert_to_integer x self)
      else if method = ''to_float'' then Inr (convert_to_float x self)
      else if method = ''to_boolean'' then Inr (VBoolean (is_truthy x self))
      else if method = ''to_string'' then Inr (VString (display x self))
      else case self of
             VString s \<Rightarrow> string_method x s method args line column
           | VList l \<Rightarrow> list_method x l method args line column
           | VMap m \<Rightarrow> map_method m method args line column
           | VInteger n \<Rightarrow> integer_method n method args line column
           | VBoolean b \<Rightarrow> boolean_method b method args line column
           | VFloat n \<Rightarrow> float_method x n method args line column
           | VDecimal n \<Rightarrow> decimal_method x n method args line column
           | VTime t \<Rightarrow> time_method x t method args line column
           | _ \<Rightarrow> property_not_found (type_name self) method line column)"

definition call_method ::
    "('d, 't) ext \<Rightarrow> ('d, 't) val \<Rightarrow> string \<Rightarrow> ('d, 't) val list \<Rightarrow> marreta_error + ('d, 't) val" where
  "call_method x self method args = call_method_at x self method args 0 0"

end
