(* ===== verification/Index_Map.thy ===== *)
theory Index_Map
  imports Marreta_Prelude "HOL-Library.AList"
begin

text \<open>
  The interface of the maps the engine uses: \<open>IndexMap\<close> keeps the order of first insertion, \<open>HashMap\<close>
  an order Rust leaves unspecified. Clients (the map methods, the environment, the validator, the
  response serialiser) rely on the laws of the locale only; the interpretation shows that an
  association list with \<open>AList.update\<close> has them.
\<close>

locale insertion_map =
  fixes empty :: "'m"
    and lookup :: "'m \<Rightarrow> 'k \<Rightarrow> 'v option"
    and insert :: "'k \<Rightarrow> 'v \<Rightarrow> 'm \<Rightarrow> 'm"
    and keys :: "'m \<Rightarrow> 'k list"
  assumes lookup_empty: "lookup empty k = None"
    and lookup_insert: "lookup (insert k v m) = (lookup m)(k \<mapsto> v)"
    and keys_empty: "keys empty = []"
    and keys_insert: "keys (insert k v m) = (if k \<in> set (keys m) then keys m else keys m @ [k])"
    and set_keys: "set (keys m) = dom (lookup m)"
begin

lemma distinct_keys_insert: "distinct (keys m) \<Longrightarrow> distinct (keys (insert k v m))"
  by (simp add: keys_insert)

lemma distinct_keys_insert_all:
  "distinct (keys m) \<Longrightarrow> distinct (keys (fold (\<lambda>(k, v). insert k v) kvs m))"
  by (induction kvs arbitrary: m) (auto simp: distinct_keys_insert)

lemma lookup_insert_all:
  "lookup (fold (\<lambda>(k, v). insert k v) kvs m) = lookup m ++ map_of (rev kvs)"
  by (induction kvs arbitrary: m) (auto simp: lookup_insert map_add_def fun_eq_iff split: option.splits)

text \<open>The last insertion wins; the pairs of a list without repeated keys are all found again.\<close>

lemma lookup_insert_all_distinct:
  assumes "distinct (map fst kvs)"
  shows "lookup (fold (\<lambda>(k, v). insert k v) kvs m) = lookup m ++ map_of kvs"
  by (simp add: lookup_insert_all map_of_rev_distinct [OF assms])

lemma keys_insert_all:
  "set (keys (fold (\<lambda>(k, v). insert k v) kvs m)) = set (keys m) \<union> fst ` set kvs"
  by (induction kvs arbitrary: m) (auto simp: keys_insert split: if_splits)

text \<open>New keys come after the old ones, in the order of their first insertion.\<close>

lemma keys_insert_all_order:
  "distinct (map fst kvs) \<Longrightarrow> set (map fst kvs) \<inter> set (keys m) = {} \<Longrightarrow>
     keys (fold (\<lambda>(k, v). insert k v) kvs m) = keys m @ map fst kvs"
  by (induction kvs arbitrary: m) (auto simp: keys_insert)

lemma keys_insert_present: "k \<in> dom (lookup m) \<Longrightarrow> keys (insert k v m) = keys m"
  by (simp add: keys_insert set_keys)

end

interpretation im: insertion_map "[]" map_of AList.update "map fst"
proof
  fix k :: 'a and v :: 'b and m :: "('a \<times> 'b) list"
  show "map fst (AList.update k v m) = (if k \<in> set (map fst m) then map fst m else map fst m @ [k])"
    by (induction m) auto
qed (auto simp: update_conv' dom_map_of_conv_image_fst)

text \<open>The entries after an update: the values at other keys are those of the map.\<close>

lemma set_update_subset: "set (AList.update k v m) \<subseteq> insert (k, v) (set m)"
  by (induction m) auto

lemma fold_update_subset:
  "set (fold (\<lambda>(k, v). AList.update k v) kvs m) \<subseteq> set m \<union> set kvs"
proof (induction kvs arbitrary: m)
  case (Cons kv kvs)
  obtain k v where kv: "kv = (k, v)" by (cases kv)
  from Cons [of "AList.update k v m"] set_update_subset [of k v m] show ?case
    by (auto simp: kv)
qed simp

lemma update_id: "map_of m k = Some v \<Longrightarrow> AList.update k v m = m"
  by (induction m) (auto split: if_splits)

end
