(* ===== verification/Value_Laws.thy ===== *)
theory Value_Laws
  imports Value_Methods Index_Map "HOL-Library.Multiset"
begin

text \<open>
  Laws of the built-in methods of \<^verbatim>\<open>src/src/value.rs\<close>: maps are ordered maps, sorting is a stable
  permutation in ascending order, \<open>unique\<close> leaves one representative per class, numbers survive their text.
\<close>

subsection \<open>Well-formed values\<close>

lemma wf_val_iffs [simp]:
  "wf_val (VList l) \<longleftrightarrow> (\<forall>v \<in> set l. wf_val v)"
  "wf_val (VMap m) \<longleftrightarrow> distinct (map fst m) \<and> (\<forall>(k, v) \<in> set m. wf_val v)"
  "wf_val (VRelationalRecord s m) \<longleftrightarrow> distinct (map fst m) \<and> (\<forall>(k, v) \<in> set m. wf_val v)"
  by (auto simp: list_all_iff)

declare wf_val.simps(12,13,14) [simp del]

lemma set_insert_by [simp]: "set (insert_by cmp x ys) = insert x (set ys)"
  by (induction ys) auto

lemma set_sort_by [simp]: "set (sort_by cmp xs) = set xs"
  by (induction xs) (auto simp: sort_by_def)

lemma list_unique_subset: "set (list_unique x l) \<subseteq> set l"
proof -
  have "set (fold (\<lambda>item seen. if list_ex (\<lambda>v. value_eq x v item) seen then seen else seen @ [item]) l acc)
      \<subseteq> set acc \<union> set l" for acc
  proof (induction l arbitrary: acc)
    case (Cons a l)
    show ?case using Cons [of acc] Cons [of "acc @ [a]"] by auto
  qed simp
  from this [of "[]"] show ?thesis by (simp add: list_unique_def)
qed

lemma flatten_wf: "\<forall>v \<in> set l. wf_val v \<Longrightarrow> w \<in> set (list_flatten l) \<Longrightarrow> wf_val w"
proof (induction l)
  case (Cons v l)
  then show ?case by (cases v) (auto simp: list_flatten_def)
qed (simp add: list_flatten_def)

lemma merge_wf:
  assumes "wf_val (VMap m)" and "wf_val (VMap other)"
  shows "wf_val (VMap (fold (\<lambda>(k, v). AList.update k v) other m))"
  using assms im.distinct_keys_insert_all [of m other] fold_update_subset [of other m] by auto

text \<open>The branches of the methods that inspect an argument.\<close>

lemma one_list_arg:
  assumes "(case args of [VList other] \<Rightarrow> f other | [other] \<Rightarrow> Inl (e other) | _ \<Rightarrow> Inl e') = Inr w"
  obtains other where "args = [VList other]" and "f other = Inr w"
proof (cases args)
  case (Cons a rest)
  with assms that show thesis by (cases rest; cases a) simp_all
qed (use assms in simp)

lemma map_arg:
  assumes "(case args of [] \<Rightarrow> Inl e | VMap other # _ \<Rightarrow> f other | _ \<Rightarrow> Inl e') = Inr w"
  obtains other rest where "args = VMap other # rest" and "f other = Inr w"
proof (cases args)
  case (Cons a rest)
  with assms that show thesis by (cases a) simp_all
qed (use assms in simp)

lemma if_branches: "(if c then a else b) = w \<Longrightarrow> (a = w \<Longrightarrow> Q) \<Longrightarrow> (b = w \<Longrightarrow> Q) \<Longrightarrow> Q"
  by (cases c) auto

lemma list_method_wf:
  assumes m: "list_method x l method args line column = Inr w"
    and l: "\<forall>v \<in> set l. wf_val v" and args: "\<forall>v \<in> set args. wf_val v"
  shows "wf_val w"
proof -
  have sub: "\<forall>v \<in> set (list_unique x l). wf_val v" "\<forall>v \<in> set (list_flatten l). wf_val v"
    "l \<noteq> [] \<Longrightarrow> wf_val (last l)"
    using l list_unique_subset [of x l] flatten_wf [OF l] by auto
  have part: "\<forall>v \<in> set (take i (drop j l)). wf_val v" for i j
    using l by (meson in_set_takeD in_set_dropD)
  have zipped: "wf_val a \<and> wf_val b" if "(a, b) \<in> set (zip l other)" "args = [VList other]" for a b other
    using that l args by (auto dest: set_zip_leftD set_zip_rightD)
  from m show ?thesis
    unfolding list_method_def property_not_found_def Let_def
    by (elim if_branches one_list_arg)
      (use l args sub part zipped in \<open>auto split: list.split_asm if_split_asm\<close>)
qed

lemma map_method_wf:
  assumes m: "map_method m method args line column = Inr w"
    and wf: "wf_val (VMap m)" and args: "\<forall>v \<in> set args. wf_val v"
  shows "wf_val w"
proof (cases "method = ''merge''")
  case True
  with m obtain other rest where "args = VMap other # rest"
    "Inr (VMap (fold (\<lambda>(k, v) merged. AList.update k v merged) other m)) = (Inr w :: marreta_error + _)"
    by (auto simp: map_method_def elim!: map_arg)
  with args merge_wf [OF wf, of other] show ?thesis by auto
next
  case False
  have "distinct (map fst (filter P m))" for P using wf by (simp add: distinct_map_filter)
  moreover have "\<forall>v \<in> set (map snd m). wf_val v" using wf by auto
  ultimately show ?thesis
    using m wf False by (auto simp: map_method_def property_not_found_def split: if_split_asm)
qed

text \<open>The other methods return a value without a map in it.\<close>

fun flat_val :: "('d, 't) val \<Rightarrow> bool" where
  "flat_val (VList l) = list_all is_string l"
| "flat_val (VMap m) = False"
| "flat_val (VRelationalRecord s m) = False"
| "flat_val _ = True"

lemma flat_val_wf: "flat_val v \<Longrightarrow> wf_val v"
proof (cases v)
  case (VList l)
  have "wf_val w" if "is_string w" for w :: "('a, 'b) val" using that by (cases w) simp_all
  moreover assume "flat_val v"
  ultimately show ?thesis using VList by (auto simp: list_all_iff)
qed simp_all

lemma string_method_flat: "string_method x s method args line column = Inr w \<Longrightarrow> flat_val w"
  by (auto simp: string_method_def property_not_found_def list_all_iff split: if_split_asm)

lemma number_args:
  assumes "(case args of VInteger n # _ \<Rightarrow> Inr (f n) | VFloat r # _ \<Rightarrow> Inr (g r)
      | other # _ \<Rightarrow> Inl (e other) | [] \<Rightarrow> Inl e') = Inr w"
  shows "(\<exists>n. w = f n) \<or> (\<exists>r. w = g r)"
proof (cases args)
  case (Cons a rest)
  with assms show ?thesis by (cases a) auto
qed (use assms in simp)

lemma integer_method_flat: "integer_method n method args line column = Inr w \<Longrightarrow> flat_val w"
  by (auto simp: integer_method_def property_not_found_def split: if_split_asm dest!: number_args)

lemma float_method_flat: "float_method x n method args line column = Inr w \<Longrightarrow> flat_val w"
proof (cases "method = ''round''")
  case True
  moreover assume "float_method x n method args line column = Inr w"
  ultimately show ?thesis
    by (cases args; cases "hd args") (auto simp: float_method_def Let_def)
qed (auto simp: float_method_def property_not_found_def split: if_split_asm dest!: number_args)

lemma decimal_method_flat: "decimal_method x n method args line column = Inr w \<Longrightarrow> flat_val w"
proof (cases "method = ''round''")
  case True
  moreover assume "decimal_method x n method args line column = Inr w"
  ultimately show ?thesis
    by (cases args; cases "tl args"; cases "hd args") (auto simp: decimal_method_def split: if_split_asm)
qed (auto simp: decimal_method_def property_not_found_def split: if_split_asm)

lemma time_method_flat: "time_method x t method args line column = Inr w \<Longrightarrow> flat_val w"
  by (cases args; cases "hd args") (auto simp: time_method_def property_not_found_def split: if_split_asm)

lemma convert_flat: "flat_val (convert_to_integer x v)" "flat_val (convert_to_float x v)"
  by (cases v; simp)+

subsection \<open>Sorting\<close>

lemma mset_insert_by [simp]: "mset (insert_by cmp x ys) = add_mset x (mset ys)"
  by (induction ys) auto

lemma mset_sort_by [simp]: "mset (sort_by cmp xs) = mset xs"
  by (induction xs) (auto simp: sort_by_def)

text \<open>A comparison that is a total preorder on the elements of a list sorts it.\<close>

definition preorder_on_set :: "'a set \<Rightarrow> ('a \<Rightarrow> 'a \<Rightarrow> ordering) \<Rightarrow> bool" where
  "preorder_on_set A cmp \<longleftrightarrow>
     (\<forall>a \<in> A. \<forall>b \<in> A. cmp a b = Greater \<longrightarrow> cmp b a \<noteq> Greater) \<and>
     (\<forall>a \<in> A. \<forall>b \<in> A. \<forall>c \<in> A. cmp a b \<noteq> Greater \<longrightarrow> cmp b c \<noteq> Greater \<longrightarrow> cmp a c \<noteq> Greater)"

lemma preorder_total: "preorder_on_set A cmp \<Longrightarrow> a \<in> A \<Longrightarrow> b \<in> A \<Longrightarrow> cmp a b = Greater \<Longrightarrow> cmp b a \<noteq> Greater"
  unfolding preorder_on_set_def by blast

lemma preorder_trans:
  "preorder_on_set A cmp \<Longrightarrow> a \<in> A \<Longrightarrow> b \<in> A \<Longrightarrow> c \<in> A \<Longrightarrow> cmp a b \<noteq> Greater \<Longrightarrow>
     cmp b c \<noteq> Greater \<Longrightarrow> cmp a c \<noteq> Greater"
  unfolding preorder_on_set_def by blast

lemma sorted_insert_by:
  assumes "preorder_on_set A cmp" and "x \<in> A" and "set ys \<subseteq> A"
    and "sorted_wrt (\<lambda>a b. cmp a b \<noteq> Greater) ys"
  shows "sorted_wrt (\<lambda>a b. cmp a b \<noteq> Greater) (insert_by cmp x ys)"
  using assms(3,4)
proof (induction ys)
  case (Cons y ys)
  show ?case
  proof (cases "cmp x y = Greater")
    case True
    with Cons.prems(1) have "cmp y x \<noteq> Greater"
      by (intro preorder_total [OF assms(1,2)]) simp_all
    with True Cons show ?thesis by auto
  next
    case False
    have "cmp x z \<noteq> Greater" if "z \<in> set ys" for z
      by (rule preorder_trans [OF assms(1,2), of y]) (use that False Cons.prems in auto)
    with False Cons show ?thesis by auto
  qed
qed simp

lemma sorted_sort_by:
  assumes "preorder_on_set (set xs) cmp"
  shows "sorted_wrt (\<lambda>a b. cmp a b \<noteq> Greater) (sort_by cmp xs)"
proof -
  have "sorted_wrt (\<lambda>a b. cmp a b \<noteq> Greater) (sort_by cmp ys)" if "set ys \<subseteq> set xs" for ys
    using that
  proof (induction ys)
    case (Cons y ys)
    then have "sorted_wrt (\<lambda>a b. cmp a b \<noteq> Greater) (insert_by cmp y (sort_by cmp ys))"
      by (intro sorted_insert_by [OF assms]) auto
    then show ?case by (simp add: sort_by_def)
  qed (simp add: sort_by_def)
  then show ?thesis by simp
qed

text \<open>Equal elements keep their order.\<close>

lemma insert_by_stable:
  "(\<And>y. y \<in> set ys \<Longrightarrow> P y \<Longrightarrow> P x \<Longrightarrow> cmp x y \<noteq> Greater) \<Longrightarrow>
     filter P (insert_by cmp x ys) = (if P x then x # filter P ys else filter P ys)"
  by (induction ys) auto

lemma sort_by_stable:
  assumes "\<And>a b. a \<in> set xs \<Longrightarrow> b \<in> set xs \<Longrightarrow> P a \<Longrightarrow> P b \<Longrightarrow> cmp a b \<noteq> Greater"
  shows "filter P (sort_by cmp xs) = filter P xs"
  using assms
proof (induction xs)
  case (Cons x xs)
  then have "filter P (sort_by cmp xs) = filter P xs" by simp
  moreover have "filter P (insert_by cmp x (sort_by cmp xs)) =
      (if P x then x # filter P (sort_by cmp xs) else filter P (sort_by cmp xs))"
    by (rule insert_by_stable) (use Cons.prems in simp)
  ultimately show ?case by (simp add: sort_by_def)
qed (simp add: sort_by_def)

text \<open>The comparison of \<open>sort\<close> orders values by a key: type class, then number, string or truth value.\<close>

fun f64_rank :: "f64 \<Rightarrow> int" where
  "f64_rank (F_Inf neg) = (if neg then - 1 else 1)"
| "f64_rank _ = 0"

definition f64_le :: "f64 \<Rightarrow> f64 \<Rightarrow> bool" where
  "f64_le a b \<longleftrightarrow> f64_rank a < f64_rank b \<or> f64_rank a = f64_rank b \<and> f64_val a \<le> f64_val b"

lemma f64_cmp_le: "a \<noteq> F_NaN \<Longrightarrow> b \<noteq> F_NaN \<Longrightarrow> f64_cmp_or_equal a b \<noteq> Greater \<longleftrightarrow> f64_le a b"
  by (cases a; cases b) (auto simp: f64_cmp_or_equal_def f64_le_def rat_cmp_def)

lemma f64_le_total: "f64_le a b \<or> f64_le b a"
  by (auto simp: f64_le_def)

lemma f64_le_trans: "f64_le a b \<Longrightarrow> f64_le b c \<Longrightarrow> f64_le a c"
  by (auto simp: f64_le_def)

definition no_nan :: "('d, 't) val \<Rightarrow> bool" where
  "no_nan v \<longleftrightarrow> v \<noteq> VFloat F_NaN"

lemma f64_of_i64_not_nan: "f64_of_i64 n \<noteq> F_NaN"
  by (auto simp: f64_of_i64_def round64_def round64_pos_def Let_def)

definition sort_le :: "('d, 't) val \<Rightarrow> ('d, 't) val \<Rightarrow> bool" where
  "sort_le a b \<longleftrightarrow> type_order a < type_order b \<or> type_order a = type_order b \<and>
     (case a of
        VInteger m \<Rightarrow> (\<exists>n. b = VInteger n \<and> f64_le (f64_of_i64 m) (f64_of_i64 n))
      | VFloat f \<Rightarrow> (\<exists>g. b = VFloat g \<and> f64_le f g)
      | VString r \<Rightarrow> (\<exists>t. b = VString t \<and> r \<le> t)
      | VBoolean p \<Rightarrow> (\<exists>q. b = VBoolean q \<and> p \<le> q)
      | _ \<Rightarrow> True)"

lemma type_order_inv:
  "type_order v = 0 \<longleftrightarrow> (\<exists>n. v = VInteger n)" "type_order v = Suc 0 \<longleftrightarrow> (\<exists>f. v = VFloat f)"
  "type_order v = 2 \<longleftrightarrow> (\<exists>s. v = VString s)" "type_order v = 3 \<longleftrightarrow> (\<exists>b. v = VBoolean b)"
  by (cases v; simp)+

lemma val_to_f64_Some: "val_to_f64 v = Some f \<Longrightarrow> no_nan v \<Longrightarrow> f \<noteq> F_NaN"
  by (cases v) (auto simp: no_nan_def f64_of_i64_not_nan)

lemma sort_compare_le:
  assumes "no_nan a" and "no_nan b"
  shows "sort_compare a b \<noteq> Greater \<longleftrightarrow> sort_le a b"
proof (cases "type_order a = type_order b")
  case False
  then show ?thesis by (auto simp: sort_compare_def sort_le_def cmp_of_def)
next
  case True
  then show ?thesis
  proof (cases a)
    case (VInteger n)
    with True obtain m where "b = VInteger m" using type_order_inv(1) [of b] by auto
    with VInteger show ?thesis
      by (simp add: sort_compare_def sort_le_def f64_cmp_le f64_of_i64_not_nan)
  next
    case (VFloat f)
    with True obtain g where "b = VFloat g" using type_order_inv(2) [of b] by auto
    with VFloat assms show ?thesis
      by (simp add: sort_compare_def sort_le_def f64_cmp_le no_nan_def)
  next
    case (VString r)
    with True obtain t where "b = VString t" using type_order_inv(3) [of b] by auto
    with VString show ?thesis by (auto simp: sort_compare_def sort_le_def cmp_of_def)
  next
    case (VBoolean p)
    with True obtain q where "b = VBoolean q" using type_order_inv(4) [of b] by auto
    with VBoolean show ?thesis by (auto simp: sort_compare_def sort_le_def cmp_of_def)
  qed (simp_all add: sort_compare_def sort_le_def)
qed

lemma sort_le_total: "sort_le a b \<or> sort_le b a"
proof (cases "type_order a = type_order b")
  case True
  then show ?thesis
  proof (cases a)
    case (VInteger n)
    with True obtain m where "b = VInteger m" using type_order_inv(1) [of b] by auto
    with VInteger f64_le_total show ?thesis by (simp add: sort_le_def)
  next
    case (VFloat f)
    with True obtain g where "b = VFloat g" using type_order_inv(2) [of b] by auto
    with VFloat f64_le_total show ?thesis by (simp add: sort_le_def)
  next
    case (VString r)
    with True obtain t where "b = VString t" using type_order_inv(3) [of b] by auto
    with VString show ?thesis by (auto simp: sort_le_def)
  next
    case (VBoolean p)
    with True obtain q where "b = VBoolean q" using type_order_inv(4) [of b] by auto
    with VBoolean show ?thesis by (auto simp: sort_le_def)
  qed (simp_all add: sort_le_def)
qed (auto simp: sort_le_def)

lemma sort_le_trans: "sort_le a b \<Longrightarrow> sort_le b c \<Longrightarrow> sort_le a c"
proof (cases "type_order a = type_order b \<and> type_order b = type_order c")
  case True
  moreover assume "sort_le a b" "sort_le b c"
  ultimately show ?thesis
    by (cases a) (auto simp: sort_le_def, (metis f64_le_trans)+)
qed (auto simp: sort_le_def)

lemma sort_compare_preorder: "\<forall>v \<in> A. no_nan v \<Longrightarrow> preorder_on_set A sort_compare"
  unfolding preorder_on_set_def
  using sort_compare_le sort_le_total sort_le_trans by meson

text \<open>The order in which \<open>sort\<close> is meant to leave values, and the values on which its comparison decides it.\<close>

definition ascending :: "('d, 't) val \<Rightarrow> ('d, 't) val \<Rightarrow> bool" where
  "ascending a b \<longleftrightarrow>
     (case a of
        VInteger m \<Rightarrow> (case b of VInteger n \<Rightarrow> sint m \<le> sint n | _ \<Rightarrow> True)
      | VFloat f \<Rightarrow> (case b of VInteger _ \<Rightarrow> False | VFloat g \<Rightarrow> f64_le f g | _ \<Rightarrow> True)
      | VString r \<Rightarrow> (case b of VInteger _ \<Rightarrow> False | VFloat _ \<Rightarrow> False | VString t \<Rightarrow> r \<le> t | _ \<Rightarrow> True)
      | VBoolean p \<Rightarrow>
          (case b of VInteger _ \<Rightarrow> False | VFloat _ \<Rightarrow> False | VString _ \<Rightarrow> False | VBoolean q \<Rightarrow> p \<longrightarrow> q | _ \<Rightarrow> True)
      | _ \<Rightarrow> (case b of VInteger _ \<Rightarrow> False | VFloat _ \<Rightarrow> False | VString _ \<Rightarrow> False | VBoolean _ \<Rightarrow> False | _ \<Rightarrow> True))"

definition sortable :: "('d, 't) val \<Rightarrow> bool" where
  "sortable v \<longleftrightarrow> no_nan v \<and> (\<forall>n. v = VInteger n \<longrightarrow> \<bar>sint n\<bar> < 2 ^ 53)"

lemma round_half_even_of_int: "round_half_even (of_int n) = n"
  by (simp add: round_half_even_def Let_def)

lemma ilog2_of_int:
  assumes "0 < n" and "n < 2 ^ 53"
  shows "ilog2 (of_int n) \<le> 52"
proof -
  have "bitlen n \<le> 53" using assms by (simp add: bitlen_le_iff_power)
  moreover have "bitlen 1 = 1" by (simp add: bitlen_alt_def)
  ultimately show ?thesis by (simp add: ilog2_def quotient_of_int Let_def)
qed

lemma round64_pos_exact:
  assumes "0 < n" and "n < 2 ^ 53"
  shows "round64_pos neg (of_int n) = F_Num (if neg then - of_int n else of_int n)"
proof -
  define e where "e = max (ilog2 (of_int n)) (- 1022)"
  have "e \<le> 52" using ilog2_of_int [OF assms] by (simp add: e_def)
  define k where "k = nat (52 - e)"
  have u: "pow2 (e - 52) = 1 / 2 ^ k"
  proof (cases "e = 52")
    case False
    with \<open>e \<le> 52\<close> show ?thesis by (simp add: pow2_def k_def)
  qed (simp add: pow2_def k_def)
  have scaled: "round_half_even (of_int n / pow2 (e - 52)) = n * 2 ^ k"
    unfolding u by (rule trans [OF arg_cong [where f = round_half_even] round_half_even_of_int]) simp
  have v: "of_int (round_half_even (of_int n / pow2 (e - 52))) * pow2 (e - 52) = (of_int n :: rat)"
    by (simp only: scaled) (simp add: u)
  have "(of_int n :: rat) < of_int (2 ^ 1024)" using assms(2) by (subst of_int_less_iff) simp
  then have "\<not> pow2 1024 \<le> (of_int n :: rat)" by (simp add: pow2_def not_le)
  with assms(1) show ?thesis unfolding round64_pos_def Let_def e_def [symmetric] v by simp
qed

lemma f64_of_i64_exact:
  assumes "\<bar>sint n\<bar> < 2 ^ 53"
  shows "f64_rank (f64_of_i64 n) = 0 \<and> f64_val (f64_of_i64 n) = of_int (sint n)"
proof (cases "sint n = 0")
  case True
  then show ?thesis by (simp add: f64_of_i64_def round64_def)
next
  case False
  have "\<bar>of_int (sint n) :: rat\<bar> = of_int \<bar>sint n\<bar>" by simp
  with False assms round64_pos_exact [of "\<bar>sint n\<bar>"] show ?thesis
    by (auto simp: f64_of_i64_def round64_def)
qed

lemma sort_compare_ascending:
  assumes "sortable a" and "sortable b"
  shows "sort_compare a b \<noteq> Greater \<longleftrightarrow> ascending a b"
proof -
  have "f64_le (f64_of_i64 m) (f64_of_i64 n) \<longleftrightarrow> sint m \<le> sint n" if "a = VInteger m" "b = VInteger n" for m n
    using assms f64_of_i64_exact [of m] f64_of_i64_exact [of n] of_int_le_iff [of "sint m" "sint n", where ?'a = rat] that
    by (simp add: sortable_def f64_le_def)
  then have "sort_le a b \<longleftrightarrow> ascending a b"
    by (cases a; cases b; simp add: sort_le_def ascending_def)
  with assms sort_compare_le [of a b] show ?thesis by (simp add: sortable_def)
qed

lemma unique_fold:
  fixes x :: "('d, 't) ext" and l acc :: "('d, 't) val list"
  defines "step \<equiv> \<lambda>item seen. if list_ex (\<lambda>v. value_eq x v item) seen then seen else seen @ [item]"
  assumes "sorted_wrt (\<lambda>v w. \<not> value_eq x v w) acc"
  shows "sorted_wrt (\<lambda>v w. \<not> value_eq x v w) (fold step l acc)"
    and "set acc \<subseteq> set (fold step l acc)"
    and "v \<in> set l \<Longrightarrow> value_eq x v v \<Longrightarrow> \<exists>w \<in> set (fold step l acc). value_eq x w v"
  using assms(2)
proof (induction l arbitrary: acc)
  case (Cons a l)
  {
    case 1
    then show ?case using Cons(1) by (auto simp: step_def sorted_wrt_append list_ex_iff)
  next
    case 2
    then show ?case using Cons(2) [of acc] Cons(2) [of "acc @ [a]"]
      by (auto simp: step_def sorted_wrt_append list_ex_iff)
  next
    case 3
    let ?acc = "step a acc"
    have inv: "sorted_wrt (\<lambda>v w. \<not> value_eq x v w) ?acc"
      using 3(3) by (auto simp: step_def sorted_wrt_append list_ex_iff)
    show ?case
    proof (cases "v = a")
      case True
      with 3(2) have "\<exists>w \<in> set ?acc. value_eq x w v" by (auto simp: step_def list_ex_iff)
      with Cons(2) [OF inv] show ?thesis by auto
    next
      case False
      with 3 Cons(3) [OF _ _ inv] show ?thesis by simp
    qed
  }
qed auto

subsection \<open>Numbers and their text\<close>

lemma digits_value_digits_text: "0 \<le> n \<Longrightarrow> digits_value (digits_text n) = n"
  using digits_text_nat [of "nat n"] digits_value_nat_to_string [of "nat n"] by simp

lemma digits_text_facts:
  assumes "0 \<le> n"
  shows "digits_text n \<noteq> []" and "list_all is_ascii_digit (digits_text n)"
  using digits_text_nat [of "nat n"] nat_to_string_digits [of "nat n"] nat_to_string_not_Nil [of "nat n"] assms
  by simp_all

lemma sint_i64_bounds: "- (2 ^ 63) \<le> sint (n :: i64)" "sint n < 2 ^ 63"
  using sint_greater_eq [of n] sint_less [of n] by simp_all

lemma parse_i64_display: "parse_i64 (i64_display n) = Some n"
proof -
  let ?d = "digits_text \<bar>sint n\<bar>"
  have d: "?d \<noteq> []" "list_all is_ascii_digit ?d" "digits_value ?d = \<bar>sint n\<bar>"
    by (simp_all add: digits_text_facts digits_value_digits_text)
  then have hd: "is_ascii_digit (hd ?d)" by (cases ?d) simp_all
  then have "hd ?d \<noteq> CHR ''-''" "hd ?d \<noteq> CHR ''+''" by (auto simp: ascii_simps)
  with d sint_i64_bounds [of n] show ?thesis
    by (auto simp: parse_i64_def i64_display_def sign_text_def Let_def)
qed

lemma i64_display_trim: "trim (i64_display n) = i64_display n"
proof (rule trim_no_ws)
  let ?d = "digits_text \<bar>sint n\<bar>"
  have d: "?d \<noteq> []" "list_all is_ascii_digit ?d" by (simp_all add: digits_text_facts)
  then have ends: "is_ascii_digit (hd ?d)" "is_ascii_digit (last ?d)"
    by (cases ?d, simp_all add: list_all_iff)
  show "i64_display n \<noteq> []" using d by (simp add: i64_display_def)
  show "\<not> is_whitespace (hd (i64_display n))" "\<not> is_whitespace (last (i64_display n))"
    using d(1) ends digit_facts(3) by (auto simp: i64_display_def sign_text_def is_whitespace_def)
qed

subsection \<open>Properties\<close>

text \<open>The built-in methods keep values well formed: whatever method is called, with whatever
  arguments, every map in the result has distinct keys when those of the receiver and of the
  arguments have.\<close>

lemma call_method_at_wf:
  assumes "call_method_at x self method args line column = Inr w"
    and "wf_val self" and "\<forall>v \<in> set args. wf_val v"
  shows "wf_val w"
  using assms
  by (cases self)
    (auto simp: call_method_at_def property_not_found_def boolean_method_def convert_flat flat_val_wf
      split: if_split_asm
      dest!: string_method_flat integer_method_flat float_method_flat decimal_method_flat time_method_flat
      intro: flat_val_wf list_method_wf map_method_wf)

text \<open>C23: \<open>sort\<close>, on a list without NaN whose integers an \<open>f64\<close> holds exactly, returns a permutation that stands in
  ascending order: integers by value, then floats by value from minus to plus infinity, then strings in lexicographic
  order of their bytes, then \<open>false\<close> before \<open>true\<close>, then everything else. Elements that the order does not
  separate keep their places.\<close>

theorem sort_method_correct:
  assumes "\<forall>v \<in> set l. sortable v"
  shows "\<exists>r. call_method_at x (VList l) ''sort'' args line column = Inr (VList r) \<and>
     mset r = mset l \<and> sorted_wrt ascending r \<and>
     (\<forall>P. (\<forall>a \<in> set l. \<forall>b \<in> set l. P a \<longrightarrow> P b \<longrightarrow> ascending a b) \<longrightarrow> filter P r = filter P l)"
proof -
  let ?r = "sort_by sort_compare l"
  have cmp: "sort_compare a b \<noteq> Greater \<longleftrightarrow> ascending a b" if "a \<in> set l" "b \<in> set l" for a b
    using that assms by (intro sort_compare_ascending) blast+
  have "call_method_at x (VList l) ''sort'' args line column = Inr (VList ?r)"
    by (simp add: call_method_at_def list_method_def)
  moreover have "sorted_wrt (\<lambda>a b. sort_compare a b \<noteq> Greater) ?r"
    by (rule sorted_sort_by, rule sort_compare_preorder) (use assms in \<open>simp add: sortable_def\<close>)
  then have "sorted_wrt ascending ?r"
    by (rule sorted_wrt_mono_rel [rotated]) (use cmp in auto)
  moreover have "filter P ?r = filter P l" if "\<forall>a \<in> set l. \<forall>b \<in> set l. P a \<longrightarrow> P b \<longrightarrow> ascending a b" for P
    by (rule sort_by_stable) (use that cmp in blast)
  ultimately show ?thesis by simp
qed

theorem sort_method_correct_witness:
  "\<exists>r. call_method_at rat_ext (VList [VString ''b'', VBoolean True, VInteger (- 2), VString ''a'']) ''sort'' [] 1 1 = Inr (VList r) \<and>
     mset r = mset [VString ''b'', VBoolean True, VInteger (- 2), VString ''a''] \<and> sorted_wrt ascending r"
proof -
  have "\<forall>v \<in> set [VString ''b'', VBoolean True, VInteger (- 2), VString ''a'']. sortable (v :: (rat, int) val)"
    by (simp add: sortable_def no_nan_def)
  from sort_method_correct [OF this, of rat_ext "[]" 1 1] show ?thesis by blast
qed

text \<open>The comparison reads integers as floats, so two large integers that differ compare as equal and
  stay in the order they had.\<close>

lemma sort_large_integers:
  "call_method_at x (VList [VInteger 9007199254740993, VInteger 9007199254740992]) ''sort'' [] l c =
     Inr (VList [VInteger 9007199254740993, VInteger 9007199254740992])"
proof -
  have "sort_compare (VInteger 9007199254740993) (VInteger 9007199254740992 :: ('a, 'b) val) = Equal"
    by (simp add: f64_of_large sort_compare_def f64_cmp_or_equal_def rat_cmp_def)
  then show ?thesis
    by (simp add: call_method_at_def list_method_def sort_by_def)
qed

lemma fold_update_keys:
  "distinct (map fst other) \<Longrightarrow> map fst (fold (\<lambda>(k, v) merged. AList.update k v merged) other m) =
     map fst m @ filter (\<lambda>k. k \<notin> set (map fst m)) (map fst other)"
proof (induction other arbitrary: m)
  case (Cons kv other)
  obtain k v where kv: "kv = (k, v)" by (cases kv)
  have "filter (\<lambda>j. j \<notin> insert k (fst ` set m)) (map fst other) = filter (\<lambda>j. j \<notin> fst ` set m) (map fst other)"
    using Cons.prems kv by (auto intro!: filter_cong)
  with Cons kv show ?case by (auto simp: update_keys dom_update)
qed simp

text \<open>C22: the methods of a map are the operations of an ordered map: \<open>merge\<close> is the union in which the argument wins, with the keys of
  the receiver in their places and the new keys after them in the order of the argument; \<open>delete\<close> removes exactly
  one key and keeps the order; \<open>has\<close> tells whether a key is there; \<open>keys\<close> and \<open>values\<close> list the entries in
  order; \<open>size\<close> counts them.\<close>

theorem map_methods_correct:
  fixes m other :: "(string \<times> ('d, 't) val) list"
  assumes "distinct (map fst m)" and "distinct (map fst other)"
  shows "(\<exists>r. call_method_at x (VMap m) ''merge'' [VMap other] line column = Inr (VMap r) \<and>
            map_of r = map_of m ++ map_of other \<and>
            map fst r = map fst m @ filter (\<lambda>k. k \<notin> set (map fst m)) (map fst other)) \<and>
         (\<exists>r. call_method_at x (VMap m) ''delete'' [VString k] line column = Inr (VMap r) \<and>
            map_of r = (map_of m)(k := None) \<and> map fst r = filter (\<lambda>j. j \<noteq> k) (map fst m)) \<and>
         call_method_at x (VMap m) ''has'' [VString k] line column = Inr (VBoolean (k \<in> set (map fst m))) \<and>
         (\<exists>ks vs. call_method_at x (VMap m) ''keys'' [] line column = Inr (VList (map VString ks)) \<and>
            call_method_at x (VMap m) ''values'' [] line column = Inr (VList vs) \<and> zip ks vs = m \<and> length ks = length vs) \<and>
         call_method_at x (VMap m) ''size'' [] line column = Inr (VInteger (of_nat (card (dom (map_of m)))))"
proof -
  note defs = call_method_at_def map_method_def expect_string_arg_def
  have "map_of (filter (\<lambda>(k', v). k' \<noteq> k) m) = (map_of m)(k := None)"
    by (induction m) (auto simp: fun_eq_iff)
  moreover have "map fst (filter (\<lambda>(k', v). k' \<noteq> k) m) = filter (\<lambda>j. j \<noteq> k) (map fst m)"
    by (induction m) auto
  moreover have "map_of m k \<noteq> None \<longleftrightarrow> k \<in> set (map fst m)" by (simp add: map_of_eq_None_iff)
  moreover have "card (dom (map_of m)) = length m"
    using distinct_card [OF assms(1)] by (simp add: dom_map_of_conv_image_fst)
  moreover have "zip (map fst m) (map snd m) = m" by (simp add: zip_map_fst_snd)
  moreover have "map (\<lambda>(k, v). VString k) m = (map VString (map fst m) :: ('d, 't) val list)" by auto
  ultimately show ?thesis
    using im.lookup_insert_all_distinct [OF assms(2), of m] fold_update_keys [OF assms(2), of m]
    by (intro conjI exI [of _ "map fst m"] exI [of _ "map snd m"]) (simp_all add: defs)
qed

theorem map_methods_correct_witness:
  "\<exists>r. call_method_at rat_ext (VMap [(''a'', VNull), (''b'', VNull)]) ''merge'' [VMap [(''c'', VNull), (''a'', VBoolean True)]] 1 1 =
     Inr (VMap r) \<and> map fst r = [''a'', ''b'', ''c''] \<and> map_of r ''a'' = Some (VBoolean True)"
  using map_methods_correct [of "[(''a'', VNull), (''b'', VNull)]" "[(''c'', VNull), (''a'', VBoolean True)]" rat_ext 1 1 "''a''"]
  by auto

text \<open>An integer survives its text: converting it to a string and back gives the integer, at every
  value of the 64-bit range.\<close>

lemma integer_text_roundtrip:
  "\<exists>s. call_method_at x (VInteger n) ''to_string'' [] line column = Inr (VString s) \<and>
     call_method_at x (VString s) ''to_integer'' [] line column = Inr (VInteger n)"
  by (simp add: call_method_at_def i64_display_trim parse_i64_display)

text \<open>\<open>unique\<close> leaves no two equal elements and a representative of every element equal to itself.\<close>

lemma unique_method_correct:
  "\<exists>r. call_method_at x (VList l) ''unique'' args line column = Inr (VList r) \<and>
     sorted_wrt (\<lambda>v w. \<not> value_eq x v w) r \<and> set r \<subseteq> set l \<and>
     (\<forall>v \<in> set l. value_eq x v v \<longrightarrow> (\<exists>w \<in> set r. value_eq x w v))"
  using unique_fold(1,3) [of x "[]"] list_unique_subset [of x l]
  by (auto simp: call_method_at_def list_method_def list_unique_def)

end
