(* ===== verification/Operators.thy ===== *)
theory Operators
  imports Value_Laws
begin

text \<open>
  \<^verbatim>\<open>src/src/interpreter/operators.rs\<close>: the binary and unary operators on values. The position of
  an error is the interpreter's current line and column. Integer \<open>+\<close>, \<open>-\<close>, \<open>*\<close> and unary minus wrap, as in
  the release build; \<open>/\<close> and \<open>%\<close> panic in every build when the least integer is divided by \<open>-1\<close>, and
  the operations of \<open>Decimal\<close> panic on overflow. \<open>BAnd\<close> and \<open>BOr\<close> never reach \<open>apply_binary_op\<close>: the
  evaluator short-circuits them, and the branch is \<open>unreachable!()\<close>.
\<close>

definition fail_at :: "string \<Rightarrow> nat \<Rightarrow> nat \<Rightarrow> fault + 'a" where
  "fail_at message line column = Inl (Err (TypeError message line column))"

definition or_panic :: "'a option \<Rightarrow> fault + 'a" where
  "or_panic r = (case r of Some v \<Rightarrow> Inr v | None \<Rightarrow> Inl Panicked)"

definition i64_div :: "i64 \<Rightarrow> i64 \<Rightarrow> i64 option" where
  "i64_div a b =
     (if b = 0 \<or> (sint a = - (2 ^ 63) \<and> sint b = - 1) then None
      else Some (of_int (sgn (sint a) * sgn (sint b) * (\<bar>sint a\<bar> div \<bar>sint b\<bar>))))"

definition i64_rem :: "i64 \<Rightarrow> i64 \<Rightarrow> i64 option" where
  "i64_rem a b =
     (if b = 0 \<or> (sint a = - (2 ^ 63) \<and> sint b = - 1) then None
      else Some (of_int (sgn (sint a) * (\<bar>sint a\<bar> mod \<bar>sint b\<bar>))))"

definition op_in ::
    "('d, 't) ext \<Rightarrow> ('d, 't) val \<Rightarrow> ('d, 't) val \<Rightarrow> nat \<Rightarrow> nat \<Rightarrow> fault + ('d, 't) val" where
  "op_in x left right line column =
     (case right of
        VList items \<Rightarrow> Inr (VBoolean (list_ex (\<lambda>item. value_eq x item left) items))
      | VString haystack \<Rightarrow>
          (case left of
             VString needle \<Rightarrow> Inr (VBoolean (str_contains haystack needle))
           | _ \<Rightarrow> fail_at (''left operand of '' @ [CHR 0x27] @ ''in'' @ [CHR 0x27] @
                    '' must be String when right operand is String, got '' @ type_name left) line column)
      | _ \<Rightarrow> fail_at (''right operand of '' @ [CHR 0x27] @ ''in'' @ [CHR 0x27] @
               '' must be List or String, got '' @ type_name right) line column)"

definition op_add ::
    "('d, 't) ext \<Rightarrow> ('d, 't) val \<Rightarrow> ('d, 't) val \<Rightarrow> nat \<Rightarrow> nat \<Rightarrow> fault + ('d, 't) val" where
  "op_add x left right line column =
     (case (left, right) of
        (VInteger a, VInteger b) \<Rightarrow> Inr (VInteger (a + b))
      | (VDecimal a, VDecimal b) \<Rightarrow> map_sum id VDecimal (or_panic (dec_add x a b))
      | (VDecimal a, VInteger b) \<Rightarrow> map_sum id VDecimal (or_panic (dec_add x a (dec_from_i64 x b)))
      | (VInteger a, VDecimal b) \<Rightarrow> map_sum id VDecimal (or_panic (dec_add x (dec_from_i64 x a) b))
      | (VDecimal _, VFloat _) \<Rightarrow> fail_at ''cannot mix Decimal and Float'' line column
      | (VFloat _, VDecimal _) \<Rightarrow> fail_at ''cannot mix Decimal and Float'' line column
      | (VInteger a, VFloat b) \<Rightarrow> Inr (VFloat (f64_add (f64_of_i64 a) b))
      | (VFloat a, VInteger b) \<Rightarrow> Inr (VFloat (f64_add a (f64_of_i64 b)))
      | (VFloat a, VFloat b) \<Rightarrow> Inr (VFloat (f64_add a b))
      | (VString a, b) \<Rightarrow> Inr (VString (a @ display x b))
      | (a, VString b) \<Rightarrow> Inr (VString (display x a @ b))
      | (VList a, VList b) \<Rightarrow> Inr (VList (a @ b))
      | _ \<Rightarrow> fail_at (''cannot add '' @ type_name left @ '' and '' @ type_name right) line column)"

text \<open>\<open>op_arith\<close> with the integer and float operations it is passed, and the decimal one its name selects.\<close>

definition op_arith ::
    "('d, 't) ext \<Rightarrow> ('d, 't) val \<Rightarrow> ('d, 't) val \<Rightarrow> (i64 \<Rightarrow> i64 \<Rightarrow> i64) \<Rightarrow> (f64 \<Rightarrow> f64 \<Rightarrow> f64) \<Rightarrow>
     ('d \<Rightarrow> 'd \<Rightarrow> 'd option) \<Rightarrow> string \<Rightarrow> nat \<Rightarrow> nat \<Rightarrow> fault + ('d, 't) val" where
  "op_arith x left right int_op float_op dec_op op_name line column =
     (case (left, right) of
        (VInteger a, VInteger b) \<Rightarrow> Inr (VInteger (int_op a b))
      | (VDecimal a, VDecimal b) \<Rightarrow> map_sum id VDecimal (or_panic (dec_op a b))
      | (VDecimal a, VInteger b) \<Rightarrow> map_sum id VDecimal (or_panic (dec_op a (dec_from_i64 x b)))
      | (VInteger a, VDecimal b) \<Rightarrow> map_sum id VDecimal (or_panic (dec_op (dec_from_i64 x a) b))
      | (VDecimal _, VFloat _) \<Rightarrow> fail_at ''cannot mix Decimal and Float'' line column
      | (VFloat _, VDecimal _) \<Rightarrow> fail_at ''cannot mix Decimal and Float'' line column
      | (VInteger a, VFloat b) \<Rightarrow> Inr (VFloat (float_op (f64_of_i64 a) b))
      | (VFloat a, VInteger b) \<Rightarrow> Inr (VFloat (float_op a (f64_of_i64 b)))
      | (VFloat a, VFloat b) \<Rightarrow> Inr (VFloat (float_op a b))
      | _ \<Rightarrow> fail_at (''cannot apply '' @ [CHR 0x27] @ op_name @ [CHR 0x27] @ '' to '' @ type_name left @
               '' and '' @ type_name right) line column)"

text \<open>The first four arms of \<open>op_divide\<close>: a numeric dividend and a divisor that is zero.\<close>

definition divides_by_zero :: "('d, 't) ext \<Rightarrow> ('d, 't) val \<Rightarrow> ('d, 't) val \<Rightarrow> bool" where
  "divides_by_zero x left right =
     (case (left, right) of
        (VInteger _, VInteger b) \<Rightarrow> b = 0
      | (VFloat _, VInteger b) \<Rightarrow> b = 0
      | (VDecimal _, VInteger b) \<Rightarrow> b = 0
      | (VInteger _, VDecimal b) \<Rightarrow> dec_is_zero x b
      | (VDecimal _, VDecimal b) \<Rightarrow> dec_is_zero x b
      | (VInteger _, VFloat b) \<Rightarrow> f64_eq b (F_Zero False)
      | (VFloat _, VFloat b) \<Rightarrow> f64_eq b (F_Zero False)
      | _ \<Rightarrow> False)"

definition op_divide ::
    "('d, 't) ext \<Rightarrow> ('d, 't) val \<Rightarrow> ('d, 't) val \<Rightarrow> nat \<Rightarrow> nat \<Rightarrow> fault + ('d, 't) val" where
  "op_divide x left right line column =
     (if divides_by_zero x left right then Inl (Err (DivisionByZero line column))
      else case (left, right) of
        (VInteger a, VInteger b) \<Rightarrow> map_sum id VInteger (or_panic (i64_div a b))
      | (VDecimal a, VDecimal b) \<Rightarrow> map_sum id VDecimal (or_panic (dec_div x a b))
      | (VDecimal a, VInteger b) \<Rightarrow> map_sum id VDecimal (or_panic (dec_div x a (dec_from_i64 x b)))
      | (VInteger a, VDecimal b) \<Rightarrow> map_sum id VDecimal (or_panic (dec_div x (dec_from_i64 x a) b))
      | (VDecimal _, VFloat _) \<Rightarrow> fail_at ''cannot mix Decimal and Float'' line column
      | (VFloat _, VDecimal _) \<Rightarrow> fail_at ''cannot mix Decimal and Float'' line column
      | (VInteger a, VFloat b) \<Rightarrow> Inr (VFloat (f64_div (f64_of_i64 a) b))
      | (VFloat a, VInteger b) \<Rightarrow> Inr (VFloat (f64_div a (f64_of_i64 b)))
      | (VFloat a, VFloat b) \<Rightarrow> Inr (VFloat (f64_div a b))
      | _ \<Rightarrow> fail_at (''cannot divide '' @ type_name left @ '' by '' @ type_name right) line column)"

definition op_modulo ::
    "('d, 't) val \<Rightarrow> ('d, 't) val \<Rightarrow> nat \<Rightarrow> nat \<Rightarrow> fault + ('d, 't) val" where
  "op_modulo left right line column =
     (case (left, right) of
        (VInteger a, VInteger b) \<Rightarrow>
          (if b = 0 then Inl (Err (DivisionByZero line column))
           else map_sum id VInteger (or_panic (i64_rem a b)))
      | (VInteger a, VFloat b) \<Rightarrow> Inr (VFloat (f64_rem (f64_of_i64 a) b))
      | (VFloat a, VInteger b) \<Rightarrow> Inr (VFloat (f64_rem a (f64_of_i64 b)))
      | (VFloat a, VFloat b) \<Rightarrow> Inr (VFloat (f64_rem a b))
      | _ \<Rightarrow> fail_at (''cannot apply '' @ [CHR 0x27] @ ''%'' @ [CHR 0x27] @ '' to '' @ type_name left @
               '' and '' @ type_name right) line column)"

definition op_compare ::
    "('d, 't) ext \<Rightarrow> ('d, 't) val \<Rightarrow> ('d, 't) val \<Rightarrow> (ordering \<Rightarrow> bool) \<Rightarrow> nat \<Rightarrow> nat \<Rightarrow>
     fault + ('d, 't) val" where
  "op_compare x left right pred line column =
     (case (left, right) of
        (VInteger a, VInteger b) \<Rightarrow> Inr (VBoolean (pred (cmp_of (sint a) (sint b))))
      | (VDecimal a, VDecimal b) \<Rightarrow> Inr (VBoolean (pred (dec_cmp x a b)))
      | (VDecimal a, VInteger b) \<Rightarrow> Inr (VBoolean (pred (dec_cmp x a (dec_from_i64 x b))))
      | (VInteger a, VDecimal b) \<Rightarrow> Inr (VBoolean (pred (dec_cmp x (dec_from_i64 x a) b)))
      | (VDecimal _, VFloat _) \<Rightarrow> fail_at ''cannot compare Decimal and Float'' line column
      | (VFloat _, VDecimal _) \<Rightarrow> fail_at ''cannot compare Decimal and Float'' line column
      | (VInteger a, VFloat b) \<Rightarrow> Inr (VBoolean (pred (f64_cmp_or_equal (f64_of_i64 a) b)))
      | (VFloat a, VInteger b) \<Rightarrow> Inr (VBoolean (pred (f64_cmp_or_equal a (f64_of_i64 b))))
      | (VFloat a, VFloat b) \<Rightarrow> Inr (VBoolean (pred (f64_cmp_or_equal a b)))
      | (VString a, VString b) \<Rightarrow> Inr (VBoolean (pred (cmp_of a b)))
      | _ \<Rightarrow> fail_at (''cannot compare '' @ type_name left @ '' and '' @ type_name right) line column)"

definition apply_binary_op ::
    "('d, 't) ext \<Rightarrow> binary_operator \<Rightarrow> ('d, 't) val \<Rightarrow> ('d, 't) val \<Rightarrow> nat \<Rightarrow> nat \<Rightarrow>
     fault + ('d, 't) val" where
  "apply_binary_op x bop left right line column =
     (case bop of
        BAdd \<Rightarrow> op_add x left right line column
      | BSubtract \<Rightarrow> op_arith x left right (-) f64_sub (dec_sub x) ''-'' line column
      | BMultiply \<Rightarrow> op_arith x left right (*) f64_mul (dec_mul x) ''*'' line column
      | BDivide \<Rightarrow> op_divide x left right line column
      | BModulo \<Rightarrow> op_modulo left right line column
      | BEqual \<Rightarrow> Inr (VBoolean (value_eq x left right))
      | BNotEqual \<Rightarrow> Inr (VBoolean (\<not> value_eq x left right))
      | BGreater \<Rightarrow> op_compare x left right (\<lambda>r. r = Greater) line column
      | BLess \<Rightarrow> op_compare x left right (\<lambda>r. r = Less) line column
      | BGreaterEqual \<Rightarrow> op_compare x left right (\<lambda>r. r \<noteq> Less) line column
      | BLessEqual \<Rightarrow> op_compare x left right (\<lambda>r. r \<noteq> Greater) line column
      | BIn \<Rightarrow> op_in x left right line column
      | BAnd \<Rightarrow> Inl Panicked
      | BOr \<Rightarrow> Inl Panicked)"

definition apply_unary_op ::
    "('d, 't) ext \<Rightarrow> unary_operator \<Rightarrow> ('d, 't) val \<Rightarrow> nat \<Rightarrow> nat \<Rightarrow> fault + ('d, 't) val" where
  "apply_unary_op x uop v line column =
     (case uop of
        UNegate \<Rightarrow>
          (case v of
             VInteger n \<Rightarrow> Inr (VInteger (- n))
           | VFloat n \<Rightarrow> Inr (VFloat (f64_neg n))
           | VDecimal n \<Rightarrow> Inr (VDecimal (dec_neg x n))
           | _ \<Rightarrow> fail_at (''cannot negate '' @ type_name v) line column)
      | UNot \<Rightarrow> Inr (VBoolean (\<not> is_truthy x v)))"

subsection \<open>Panics\<close>

definition not_decimal :: "('d, 't) val \<Rightarrow> bool" where
  "not_decimal v = (case v of VDecimal _ \<Rightarrow> False | _ \<Rightarrow> True)"

lemmas op_defs = fail_at_def or_panic_def not_decimal_def

lemma op_add_no_panic:
  "not_decimal l \<Longrightarrow> not_decimal r \<Longrightarrow> op_add x l r line column \<noteq> Inl Panicked"
  by (cases l; cases r) (simp_all add: op_add_def op_defs)

lemma op_arith_no_panic:
  "not_decimal l \<Longrightarrow> not_decimal r \<Longrightarrow> op_arith x l r f g h op_name line column \<noteq> Inl Panicked"
  by (cases l; cases r) (simp_all add: op_arith_def op_defs)

lemma op_compare_no_panic: "op_compare x l r p line column \<noteq> Inl Panicked"
  by (cases l; cases r) (simp_all add: op_compare_def op_defs)

lemma op_in_no_panic: "op_in x l r line column \<noteq> Inl Panicked"
proof (cases r)
  case (VString s)
  then show ?thesis by (cases l) (simp_all add: op_in_def op_defs)
qed (simp_all add: op_in_def op_defs)

lemma i64_of_sint: "sint (n :: i64) = k \<Longrightarrow> n = of_int k"
  by auto

lemma i64_panics:
  assumes "b \<noteq> 0"
  shows "i64_div a b = None \<longleftrightarrow> a = of_int (- (2 ^ 63)) \<and> b = - 1"
    and "i64_rem a b = None \<longleftrightarrow> a = of_int (- (2 ^ 63)) \<and> b = - 1"
proof -
  have "sint (of_int (- (2 ^ 63)) :: i64) = - (2 ^ 63)" "sint (- 1 :: i64) = - 1" by simp_all
  then have "sint a = - (2 ^ 63) \<longleftrightarrow> a = of_int (- (2 ^ 63))" "sint b = - 1 \<longleftrightarrow> b = - 1"
    using i64_of_sint [of a "- (2 ^ 63)"] i64_of_sint [of b "- 1"] by auto
  with assms show "i64_div a b = None \<longleftrightarrow> a = of_int (- (2 ^ 63)) \<and> b = - 1"
    "i64_rem a b = None \<longleftrightarrow> a = of_int (- (2 ^ 63)) \<and> b = - 1"
    by (simp_all add: i64_div_def i64_rem_def)
qed

lemma map_sum_panic: "map_sum id f (or_panic r) = Inl Panicked \<longleftrightarrow> r = None"
  by (cases r) (simp_all add: or_panic_def)

lemma op_divide_panic:
  "not_decimal l \<Longrightarrow> not_decimal r \<Longrightarrow> op_divide x l r line column = Inl Panicked \<longleftrightarrow>
     l = VInteger (of_int (- (2 ^ 63))) \<and> r = VInteger (- 1)"
  by (cases l; cases r)
    (simp_all add: op_divide_def divides_by_zero_def fail_at_def not_decimal_def map_sum_panic i64_panics)

lemma op_modulo_panic:
  "op_modulo l r line column = Inl Panicked \<longleftrightarrow> l = VInteger (of_int (- (2 ^ 63))) \<and> r = VInteger (- 1)"
  by (cases l; cases r)
    (simp_all add: op_modulo_def fail_at_def map_sum_panic i64_panics)

subsection \<open>Integer division\<close>

lemma sint_of_int_i64:
  assumes "- (2 ^ 63) \<le> k" and "k < 2 ^ 63"
  shows "sint (of_int k :: i64) = k"
  using assms by (simp add: int_word_sint)

lemma trunc_quotient_bound:
  fixes a b :: int
  assumes "b \<noteq> 0" and "- (2 ^ 63) \<le> a" and "a < 2 ^ 63" and "\<not> (a = - (2 ^ 63) \<and> b = - 1)"
  shows "- (2 ^ 63) \<le> sgn a * sgn b * (\<bar>a\<bar> div \<bar>b\<bar>) \<and> sgn a * sgn b * (\<bar>a\<bar> div \<bar>b\<bar>) < 2 ^ 63"
proof -
  have q: "0 \<le> \<bar>a\<bar> div \<bar>b\<bar>" "\<bar>a\<bar> div \<bar>b\<bar> \<le> \<bar>a\<bar>"
    using assms(1) zdiv_mono2 [of "\<bar>a\<bar>" 1 "\<bar>b\<bar>"] by (simp_all add: pos_imp_zdiv_nonneg_iff)
  show ?thesis
  proof (cases "a = - (2 ^ 63)")
    case True
    show ?thesis
    proof (cases "0 < b")
      case True
      with \<open>a = _\<close> q show ?thesis by (simp add: sgn_if)
    next
      case False
      with assms True have "2 \<le> \<bar>b\<bar>" by linarith
      then have "\<bar>a\<bar> div \<bar>b\<bar> \<le> \<bar>a\<bar> div 2" by (intro zdiv_mono2) simp_all
      with True False q assms(1) show ?thesis by (simp add: sgn_if)
    qed
  next
    case False
    with assms q show ?thesis by (auto simp: sgn_if split: if_splits)
  qed
qed

lemma trunc_rem_bound:
  fixes a b :: int
  assumes "b \<noteq> 0" and "- (2 ^ 63) \<le> a" and "a < 2 ^ 63"
  shows "- (2 ^ 63) \<le> sgn a * (\<bar>a\<bar> mod \<bar>b\<bar>) \<and> sgn a * (\<bar>a\<bar> mod \<bar>b\<bar>) < 2 ^ 63"
proof -
  have "0 \<le> \<bar>a\<bar> mod \<bar>b\<bar>" "\<bar>a\<bar> mod \<bar>b\<bar> \<le> \<bar>a\<bar>"
    using assms(1) by (simp_all add: zmod_le_nonneg_dividend)
  then have "- \<bar>a\<bar> \<le> sgn a * (\<bar>a\<bar> mod \<bar>b\<bar>)" "sgn a * (\<bar>a\<bar> mod \<bar>b\<bar>) \<le> max 0 a"
    by (auto simp: sgn_if)
  with assms show ?thesis by linarith
qed

lemma trunc_div_mod:
  fixes a b :: int
  assumes "b \<noteq> 0"
  shows "a = sgn a * sgn b * (\<bar>a\<bar> div \<bar>b\<bar>) * b + sgn a * (\<bar>a\<bar> mod \<bar>b\<bar>)"
proof -
  have "sgn a * sgn b * (\<bar>a\<bar> div \<bar>b\<bar>) * b + sgn a * (\<bar>a\<bar> mod \<bar>b\<bar>) =
      sgn a * ((\<bar>a\<bar> div \<bar>b\<bar>) * (sgn b * b) + \<bar>a\<bar> mod \<bar>b\<bar>)" by (simp add: algebra_simps)
  also have "sgn b * b = \<bar>b\<bar>" by (simp add: abs_sgn mult.commute)
  also have "(\<bar>a\<bar> div \<bar>b\<bar>) * \<bar>b\<bar> + \<bar>a\<bar> mod \<bar>b\<bar> = \<bar>a\<bar>" by simp
  also have "sgn a * \<bar>a\<bar> = a" by (simp add: sgn_mult_abs)
  finally show ?thesis by simp
qed

subsection \<open>Properties\<close>

text \<open>C24: without decimals, the only panic of a binary operator that the evaluator applies is the division
  or the remainder of the least integer by \<open>-1\<close>; every other pair of operands gives a value or an
  error of the language.\<close>

theorem binary_op_panic_iff:
  assumes "not_decimal left" and "not_decimal right" and "bop \<noteq> BAnd" and "bop \<noteq> BOr"
  shows "apply_binary_op x bop left right line column = Inl Panicked \<longleftrightarrow>
     (bop = BDivide \<or> bop = BModulo) \<and>
     left = VInteger (of_int (- (2 ^ 63))) \<and> right = VInteger (- 1)"
  using assms
  by (cases bop)
    (simp_all add: apply_binary_op_def op_add_no_panic op_arith_no_panic op_compare_no_panic
      op_in_no_panic op_divide_panic op_modulo_panic)

theorem binary_op_panic_iff_witness:
  "apply_binary_op rat_ext BModulo (VInteger (of_int (- (2 ^ 63)))) (VInteger (- 1)) 1 1 = Inl Panicked"
  using binary_op_panic_iff [of "VInteger (of_int (- (2 ^ 63)))" "VInteger (- 1)" BModulo rat_ext 1 1]
  by (simp add: not_decimal_def)

text \<open>C25: integer division truncates towards zero and the remainder has the sign of the dividend: outside
  the one overflow, \<open>a / b\<close> and \<open>a % b\<close> satisfy the division law over the integers and the remainder
  is smaller than the divisor; a zero divisor is the error \<open>DivisionByZero\<close> for both.\<close>

theorem integer_division_law:
  assumes "\<not> (a = of_int (- (2 ^ 63)) \<and> b = - 1)"
  shows "if b = 0 then
       apply_binary_op x BDivide (VInteger a) (VInteger b) line column = Inl (Err (DivisionByZero line column)) \<and>
       apply_binary_op x BModulo (VInteger a) (VInteger b) line column = Inl (Err (DivisionByZero line column))
     else (\<exists>q r. apply_binary_op x BDivide (VInteger a) (VInteger b) line column = Inr (VInteger q) \<and>
       apply_binary_op x BModulo (VInteger a) (VInteger b) line column = Inr (VInteger r) \<and>
       sint a = sint q * sint b + sint r \<and> \<bar>sint r\<bar> < \<bar>sint b\<bar> \<and> (sint r = 0 \<or> sgn (sint r) = sgn (sint a)))"
proof (cases "b = 0")
  case True
  then show ?thesis by (simp add: apply_binary_op_def op_divide_def op_modulo_def divides_by_zero_def)
next
  case False
  let ?q = "sgn (sint a) * sgn (sint b) * (\<bar>sint a\<bar> div \<bar>sint b\<bar>)"
  let ?r = "sgn (sint a) * (\<bar>sint a\<bar> mod \<bar>sint b\<bar>)"
  have b: "sint b \<noteq> 0" using False i64_of_sint [of b 0] by auto
  have no: "\<not> (sint a = - (2 ^ 63) \<and> sint b = - 1)"
    using assms i64_of_sint [of a "- (2 ^ 63)"] i64_of_sint [of b "- 1"] by auto
  have q: "sint (of_int ?q :: i64) = ?q"
    using trunc_quotient_bound [OF b sint_i64_bounds no] by (intro sint_of_int_i64) auto
  have r: "sint (of_int ?r :: i64) = ?r"
    using trunc_rem_bound [OF b sint_i64_bounds] by (intro sint_of_int_i64) auto
  have "apply_binary_op x BDivide (VInteger a) (VInteger b) line column = Inr (VInteger (of_int ?q))"
    "apply_binary_op x BModulo (VInteger a) (VInteger b) line column = Inr (VInteger (of_int ?r))"
    using False no
    by (auto simp: apply_binary_op_def op_divide_def op_modulo_def divides_by_zero_def i64_div_def
        i64_rem_def or_panic_def)
  moreover have "\<bar>?r\<bar> < \<bar>sint b\<bar>" using b by (simp add: abs_mult sgn_if)
  moreover have "0 \<le> \<bar>sint a\<bar> mod \<bar>sint b\<bar>" using b by simp
  then have "\<bar>sint a\<bar> mod \<bar>sint b\<bar> = 0 \<or> sgn (\<bar>sint a\<bar> mod \<bar>sint b\<bar>) = 1"
    unfolding sgn_1_pos by linarith
  then have "?r = 0 \<or> sgn ?r = sgn (sint a)" by (elim disjE) (simp_all add: sgn_mult)
  ultimately show ?thesis
    using False trunc_div_mod [OF b, of "sint a"] q r by (metis (no_types))
qed

theorem integer_division_law_witness:
  "\<exists>q r. apply_binary_op rat_ext BDivide (VInteger (- 7)) (VInteger 2) 1 1 = Inr (VInteger q) \<and>
     apply_binary_op rat_ext BModulo (VInteger (- 7)) (VInteger 2) 1 1 = Inr (VInteger r) \<and>
     sint (- 7 :: i64) = sint q * sint (2 :: i64) + sint r"
proof -
  have "\<not> ((- 7 :: i64) = of_int (- (2 ^ 63)) \<and> (2 :: i64) = - 1)" by simp
  from integer_division_law [OF this, of rat_ext 1 1] show ?thesis by (simp split: if_splits) blast
qed

end
