(* ===== verification/Environment.thy ===== *)
theory Environment
  imports Value_Text Index_Map "HOL-Library.Char_ord" "HOL-Library.List_Lexorder"
begin

text \<open>
  \<^verbatim>\<open>src/src/environment.rs\<close>: lexical scopes. The base is the frozen module scope that requests share;
  the scopes are the request's own, innermost last. A \<open>HashMap\<close> is an association list; the order
  in which it is iterated is not observable in \<open>get\<close> and is undone by the sort of \<open>all_variables\<close>.
\<close>

record 'v environment =
  env_base :: "(string \<times> 'v) list"
  env_scopes :: "(string \<times> 'v) list list"

definition env_new :: "'v environment" where
  "env_new = \<lparr>env_base = [], env_scopes = [[]]\<rparr>"

definition push_scope :: "'v environment \<Rightarrow> 'v environment" where
  "push_scope e = e\<lparr>env_scopes := env_scopes e @ [[]]\<rparr>"

definition pop_scope :: "'v environment \<Rightarrow> 'v environment" where
  "pop_scope e = (if length (env_scopes e) > 1 then e\<lparr>env_scopes := butlast (env_scopes e)\<rparr> else e)"

definition env_set :: "string \<Rightarrow> 'v \<Rightarrow> 'v environment \<Rightarrow> 'v environment" where
  "env_set name v e =
     (if env_scopes e = [] then e
      else e\<lparr>env_scopes := butlast (env_scopes e) @ [AList.update name v (last (env_scopes e))]\<rparr>)"

text \<open>The loops over \<open>scopes.iter().rev()\<close>, innermost scope first.\<close>

fun get_in_scopes :: "string \<Rightarrow> (string \<times> 'v) list list \<Rightarrow> 'v option" where
  "get_in_scopes name [] = None"
| "get_in_scopes name (scope # rest) =
     (case map_of scope name of Some v \<Rightarrow> Some v | None \<Rightarrow> get_in_scopes name rest)"

definition env_get :: "'v environment \<Rightarrow> string \<Rightarrow> 'v option" where
  "env_get e name =
     (case get_in_scopes name (rev (env_scopes e)) of
        Some v \<Rightarrow> Some v | None \<Rightarrow> map_of (env_base e) name)"

definition env_has :: "'v environment \<Rightarrow> string \<Rightarrow> bool" where
  "env_has e name \<longleftrightarrow>
     list_ex (\<lambda>scope. map_of scope name \<noteq> None) (rev (env_scopes e)) \<or> map_of (env_base e) name \<noteq> None"

fun update_in_scopes :: "string \<Rightarrow> 'v \<Rightarrow> (string \<times> 'v) list list \<Rightarrow> (string \<times> 'v) list list option" where
  "update_in_scopes name v [] = None"
| "update_in_scopes name v (scope # rest) =
     (if map_of scope name \<noteq> None then Some (AList.update name v scope # rest)
      else map_option (\<lambda>r. scope # r) (update_in_scopes name v rest))"

definition env_update :: "string \<Rightarrow> 'v \<Rightarrow> 'v environment \<Rightarrow> 'v environment" where
  "env_update name v e =
     (case update_in_scopes name v (rev (env_scopes e)) of
        Some scopes \<Rightarrow> e\<lparr>env_scopes := rev scopes\<rparr>
      | None \<Rightarrow> env_set name v e)"

definition env_depth :: "'v environment \<Rightarrow> nat" where
  "env_depth e = length (env_scopes e)"

text \<open>\<open>seen.entry(name).or_insert_with(value)\<close>: the first occurrence wins.\<close>

definition or_insert :: "(string \<times> 'v) list \<Rightarrow> string \<times> 'v \<Rightarrow> (string \<times> 'v) list" where
  "or_insert seen kv = (if map_of seen (fst kv) = None then AList.update (fst kv) (snd kv) seen else seen)"

definition local_variables :: "'v environment \<Rightarrow> (string \<times> 'v) list" where
  "local_variables e = foldl or_insert [] (concat (rev (env_scopes e)))"

definition all_variables :: "'v environment \<Rightarrow> (string \<times> 'v) list" where
  "all_variables e =
     sort_key fst (foldl or_insert (foldl or_insert [] (concat (rev (env_scopes e)))) (env_base e))"

fun is_task :: "('d, 't) val \<Rightarrow> bool" where
  "is_task (VTask _ _ _ _ _ _ _) = True"
| "is_task _ = False"

definition all_tasks :: "('d, 't) val environment \<Rightarrow> string list" where
  "all_tasks e = sort (map fst (filter (\<lambda>(_, v). is_task v) (all_variables e)))"

definition freeze :: "'v environment \<Rightarrow> 'v environment" where
  "freeze e =
     \<lparr>env_base = fold (\<lambda>(k, v). AList.update k v) (concat (env_scopes e)) (env_base e), env_scopes = [[]]\<rparr>"

subsection \<open>The environment as one map\<close>

text \<open>Abstractly an environment is the base overridden by the scopes from the outermost inwards.\<close>

definition env_abs :: "'v environment \<Rightarrow> string \<rightharpoonup> 'v" where
  "env_abs e = foldl (++) (map_of (env_base e)) (map map_of (env_scopes e))"

definition wf_env :: "'v environment \<Rightarrow> bool" where
  "wf_env e \<longleftrightarrow> env_scopes e \<noteq> [] \<and> distinct (map fst (env_base e)) \<and>
     (\<forall>s \<in> set (env_scopes e). distinct (map fst s))"

lemma get_in_scopes_append:
  "get_in_scopes n (xs @ ys) = (case get_in_scopes n xs of Some v \<Rightarrow> Some v | None \<Rightarrow> get_in_scopes n ys)"
  by (induction xs) (auto split: option.splits)

lemma env_get_abs: "env_get e = env_abs e"
proof -
  have "(case get_in_scopes n (rev ss) of Some v \<Rightarrow> Some v | None \<Rightarrow> b n) = foldl (++) b (map map_of ss) n"
    for n ss and b :: "string \<rightharpoonup> 'a"
    by (induction ss rule: rev_induct) (auto simp: map_add_def split: option.splits)
  then show ?thesis by (simp add: fun_eq_iff env_get_def env_abs_def)
qed

lemma env_has_abs: "env_has e n \<longleftrightarrow> n \<in> dom (env_abs e)"
proof -
  have "(list_ex (\<lambda>s. map_of s n \<noteq> None) (rev ss) \<or> b n \<noteq> None) \<longleftrightarrow> n \<in> dom (foldl (++) b (map map_of ss))"
    for ss and b :: "string \<rightharpoonup> 'a"
    by (induction ss rule: rev_induct) auto
  then show ?thesis by (simp add: env_has_def env_abs_def)
qed

lemma env_abs_snoc:
  "env_abs \<lparr>env_base = b, env_scopes = ss @ [s]\<rparr> = env_abs \<lparr>env_base = b, env_scopes = ss\<rparr> ++ map_of s"
  by (simp add: env_abs_def)

lemma env_abs_set: "env_scopes e \<noteq> [] \<Longrightarrow> env_abs (env_set n v e) = (env_abs e)(n \<mapsto> v)"
  by (cases "env_scopes e" rule: rev_cases) (auto simp: env_abs_def env_set_def update_conv')

lemma update_in_scopes_None:
  "update_in_scopes n v ss = None \<longleftrightarrow> (\<forall>s \<in> set ss. map_of s n = None)"
  by (induction ss) auto

lemma update_in_scopes_get:
  "update_in_scopes n v ss = Some ss' \<Longrightarrow>
     get_in_scopes k ss' = (if k = n then Some v else get_in_scopes k ss)"
  by (induction ss arbitrary: ss') (auto simp: update_conv' split: if_splits option.splits)

lemma env_get_update:
  assumes "env_scopes e \<noteq> []"
  shows "env_get (env_update n v e) = (env_get e)(n \<mapsto> v)"
proof (cases "update_in_scopes n v (rev (env_scopes e))")
  case None
  with env_abs_set [OF assms] show ?thesis by (simp add: env_update_def env_get_abs)
next
  case (Some ss)
  then show ?thesis
    by (auto simp: env_update_def env_get_def fun_eq_iff update_in_scopes_get split: option.splits)
qed

lemma or_insert_lookup: "map_of (foldl or_insert seen kvs) = map_of kvs ++ map_of seen"
  by (induction kvs arbitrary: seen)
    (auto simp: or_insert_def update_conv' fun_eq_iff map_add_def split: option.splits)

lemma or_insert_distinct: "distinct (map fst seen) \<Longrightarrow> distinct (map fst (foldl or_insert seen kvs))"
  by (induction kvs arbitrary: seen) (auto simp: or_insert_def im.distinct_keys_insert)

lemma map_of_concat_rev: "map_of (concat (rev ss)) = foldl (++) Map.empty (map map_of ss)"
  by (induction ss rule: rev_induct) (auto simp: map_of_append)

lemma foldl_map_add: "foldl (++) b ms = b ++ foldl (++) Map.empty ms"
  by (induction ms rule: rev_induct) (auto simp: map_add_assoc)

lemma map_of_sort_key: "distinct (map fst xs) \<Longrightarrow> map_of (sort_key fst xs) = map_of xs"
proof -
  assume "distinct (map fst xs)"
  moreover from this have "distinct (map fst (sort_key fst xs))"
    by (metis distinct_map distinct_sort inj_on_def set_sort)
  ultimately show ?thesis by (simp add: map_of_inject_set)
qed

lemma all_variables_abs: "map_of (all_variables e) = env_abs e"
proof -
  let ?seen = "foldl or_insert [] (concat (rev (env_scopes e)))"
  have "distinct (map fst (foldl or_insert ?seen (env_base e)))"
    by (intro or_insert_distinct) simp
  then have "map_of (all_variables e) = map_of (foldl or_insert ?seen (env_base e))"
    by (simp add: all_variables_def map_of_sort_key)
  also have "\<dots> = map_of (env_base e) ++ map_of (concat (rev (env_scopes e)))"
    by (simp only: or_insert_lookup) simp
  also have "\<dots> = env_abs e"
    by (simp add: env_abs_def map_of_concat_rev foldl_map_add [of "map_of (env_base e)"])
  finally show ?thesis .
qed

lemma fold_update_concat:
  "\<forall>s \<in> set ss. distinct (map fst s) \<Longrightarrow>
     map_of (fold (\<lambda>(k, v). AList.update k v) (concat ss) b) = foldl (++) (map_of b) (map map_of ss)"
proof (induction ss rule: rev_induct)
  case (snoc s ss)
  then show ?case using im.lookup_insert_all_distinct [of s] by simp
qed simp

lemma freeze_abs: "wf_env e \<Longrightarrow> env_abs (freeze e) = env_abs e"
  by (simp add: wf_env_def freeze_def env_abs_def fold_update_concat)

subsection \<open>Blocks\<close>

text \<open>
  The interpreter opens a scope for the body of a task, a pipeline stage and a rescue handler, binds
  names in it with \<open>set\<close>, assigns with \<open>update\<close>, and closes it. The interface of a scope stack says
  what each operation does to the innermost scope and to what is left when it is closed.
\<close>

datatype 'v block_op = Let string 'v | Assign string 'v

fun run_op ::
    "(string \<Rightarrow> 'v \<Rightarrow> 'e \<Rightarrow> 'e) \<Rightarrow> (string \<Rightarrow> 'v \<Rightarrow> 'e \<Rightarrow> 'e) \<Rightarrow> 'v block_op \<Rightarrow> 'e \<Rightarrow> 'e" where
  "run_op set_op update_op (Let n v) e = set_op n v e"
| "run_op set_op update_op (Assign n v) e = update_op n v e"

text \<open>The assignments of a block that reach the enclosing scopes: to a name declared there and not bound
  in the block before.\<close>

fun escaping :: "(string \<Rightarrow> bool) \<Rightarrow> string set \<Rightarrow> 'v block_op list \<Rightarrow> (string \<times> 'v) list" where
  "escaping outer inner [] = []"
| "escaping outer inner (Let n v # ops) = escaping outer (insert n inner) ops"
| "escaping outer inner (Assign n v # ops) =
     (if outer n \<and> n \<notin> inner then (n, v) # escaping outer inner ops
      else escaping outer (insert n inner) ops)"

locale scope_stack =
  fixes push pop :: "'e \<Rightarrow> 'e"
    and set_op update_op :: "string \<Rightarrow> 'v \<Rightarrow> 'e \<Rightarrow> 'e"
    and declared :: "'e \<Rightarrow> string \<Rightarrow> bool"
    and innermost :: "'e \<Rightarrow> string set"
    and nested :: "'e \<Rightarrow> bool"
    and ok :: "'e \<Rightarrow> bool"
  assumes push: "ok e \<Longrightarrow> nested (push e) \<and> innermost (push e) = {} \<and> pop (push e) = e"
    and set_nested: "nested e \<Longrightarrow> nested (set_op n v e) \<and> innermost (set_op n v e) = insert n (innermost e) \<and>
           pop (set_op n v e) = pop e"
    and update_inner: "nested e \<Longrightarrow> n \<in> innermost e \<or> \<not> declared (pop e) n \<Longrightarrow>
           nested (update_op n v e) \<and> innermost (update_op n v e) = insert n (innermost e) \<and>
           pop (update_op n v e) = pop e"
    and update_outer: "nested e \<Longrightarrow> n \<notin> innermost e \<Longrightarrow> declared (pop e) n \<Longrightarrow>
           nested (update_op n v e) \<and> innermost (update_op n v e) = innermost e \<and>
           pop (update_op n v e) = update_op n v (pop e)"
    and declared_update: "declared e n \<Longrightarrow> declared (update_op n v e) = declared e"
begin

lemma run_nested:
  "nested e \<Longrightarrow> pop (fold (run_op set_op update_op) ops e) =
     fold (\<lambda>(n, v). update_op n v) (escaping (declared (pop e)) (innermost e) ops) (pop e)"
proof (induction ops arbitrary: e)
  case (Cons op ops)
  show ?case
  proof (cases op)
    case (Let n v)
    with Cons set_nested show ?thesis by simp
  next
    case (Assign n v)
    show ?thesis
    proof (cases "declared (pop e) n \<and> n \<notin> innermost e")
      case True
      with Cons update_outer [of e n v] declared_update [of "pop e" n v] Assign show ?thesis
        by simp
    next
      case False
      with Cons update_inner [of e n v] Assign show ?thesis by auto
    qed
  qed
qed simp

lemma run_block:
  "ok e \<Longrightarrow> pop (fold (run_op set_op update_op) ops (push e)) =
     fold (\<lambda>(n, v). update_op n v) (escaping (declared e) {} ops) e"
  using run_nested [of "push e" ops] push [of e] by simp

end

definition env_declared :: "'v environment \<Rightarrow> string \<Rightarrow> bool" where
  "env_declared e n \<longleftrightarrow> (\<exists>s \<in> set (env_scopes e). map_of s n \<noteq> None)"

definition env_innermost :: "'v environment \<Rightarrow> string set" where
  "env_innermost e = dom (map_of (last (env_scopes e)))"

lemma env_cases:
  obtains "env_scopes e = []" | s where "env_scopes e = [s]"
  | ss t s where "env_scopes e = ss @ [t, s]"
  by (metis append_Cons append_Nil append_assoc rev_exhaust)

lemma update_in_scopes_declared:
  "update_in_scopes n v ss = Some ss' \<Longrightarrow>
     (\<exists>s \<in> set ss'. map_of s k \<noteq> None) \<longleftrightarrow> (\<exists>s \<in> set ss. map_of s k \<noteq> None)"
  by (induction ss arbitrary: ss') (auto simp: update_conv' split: if_splits)

interpretation env: scope_stack push_scope pop_scope env_set env_update env_declared env_innermost
    "\<lambda>e. length (env_scopes e) > 1" "\<lambda>e. env_scopes e \<noteq> []"
proof
  fix e :: "'a environment" and n v
  show "env_scopes e \<noteq> [] \<Longrightarrow> 1 < length (env_scopes (push_scope e)) \<and>
      env_innermost (push_scope e) = {} \<and> pop_scope (push_scope e) = e"
    by (simp add: push_scope_def pop_scope_def env_innermost_def)
  assume nested: "1 < length (env_scopes e)"
  then obtain ss t s where e: "env_scopes e = ss @ [t, s]"
    by (cases rule: env_cases [of e]) auto
  show "1 < length (env_scopes (env_set n v e)) \<and> env_innermost (env_set n v e) = insert n (env_innermost e) \<and>
      pop_scope (env_set n v e) = pop_scope e"
    using e by (simp add: env_set_def pop_scope_def env_innermost_def update_conv' butlast_append)
  {
    assume "n \<in> env_innermost e \<or> \<not> env_declared (pop_scope e) n"
    then consider v0 where "map_of s n = Some v0" | "map_of s n = None" "\<forall>u \<in> set (ss @ [t]). map_of u n = None"
      using e by (auto simp: env_innermost_def env_declared_def pop_scope_def butlast_append)
    then show "1 < length (env_scopes (env_update n v e)) \<and>
        env_innermost (env_update n v e) = insert n (env_innermost e) \<and> pop_scope (env_update n v e) = pop_scope e"
    proof cases
      case 1
      with e show ?thesis
        by (simp add: env_update_def pop_scope_def env_innermost_def update_conv' butlast_append)
    next
      case 2
      with e have "update_in_scopes n v (rev (env_scopes e)) = None"
        by (auto simp: update_in_scopes_None)
      with e show ?thesis
        by (simp add: env_update_def env_set_def pop_scope_def env_innermost_def update_conv' butlast_append)
    qed
  next
    assume "n \<notin> env_innermost e" "env_declared (pop_scope e) n"
    with e have s: "map_of s n = None" and u: "\<exists>u \<in> set (ss @ [t]). map_of u n \<noteq> None"
      by (auto simp: env_innermost_def env_declared_def pop_scope_def butlast_append)
    from u have "update_in_scopes n v (rev (ss @ [t])) \<noteq> None"
      unfolding update_in_scopes_None by simp
    then obtain rs where rs: "update_in_scopes n v (rev (ss @ [t])) = Some rs" by blast
    then have "rs \<noteq> []" by (cases "update_in_scopes n v (rev ss)") (auto split: if_splits)
    with rs s e show "1 < length (env_scopes (env_update n v e)) \<and> env_innermost (env_update n v e) = env_innermost e \<and>
        pop_scope (env_update n v e) = env_update n v (pop_scope e)"
      by (cases rs) (auto simp: env_update_def pop_scope_def env_innermost_def butlast_append)
  }
next
  fix e :: "'a environment" and n v
  assume "env_declared e n"
  then obtain ss where "update_in_scopes n v (rev (env_scopes e)) = Some ss"
    by (cases "update_in_scopes n v (rev (env_scopes e))") (auto simp: update_in_scopes_None env_declared_def)
  then show "env_declared (env_update n v e) = env_declared e"
    using update_in_scopes_declared by (fastforce simp: fun_eq_iff env_declared_def env_update_def)
qed

subsection \<open>Properties\<close>

text \<open>C26: an environment is one map: lookup, membership and the listing of all variables agree with the
  base overridden by the scopes from the outermost inwards, the listing has every name once, in
  order, and freezing the scopes into the base changes no lookup.\<close>

theorem env_refines_map:
  assumes "wf_env e"
  shows "env_get e = env_abs e \<and> (\<forall>n. env_has e n \<longleftrightarrow> n \<in> dom (env_abs e)) \<and>
     map_of (all_variables e) = env_abs e \<and> sorted (map fst (all_variables e)) \<and>
     distinct (map fst (all_variables e)) \<and> env_get (freeze e) = env_get e \<and> env_depth (freeze e) = 1"
proof -
  let ?seen = "foldl or_insert [] (concat (rev (env_scopes e)))"
  have "distinct (map fst (foldl or_insert ?seen (env_base e)))"
    by (intro or_insert_distinct) simp
  then have "distinct (map fst (all_variables e))"
    unfolding all_variables_def by (metis distinct_map distinct_sort inj_on_def set_sort)
  then show ?thesis
    using freeze_abs [OF assms]
    by (simp add: env_get_abs env_has_abs all_variables_abs env_depth_def freeze_def)
      (simp add: all_variables_def)
qed

theorem env_refines_map_witness:
  "env_get (freeze \<lparr>env_base = [(''x'', 1 :: nat)], env_scopes = [[(''y'', 2)], [(''x'', 3)]]\<rparr>) ''x'' = Some 3"
proof -
  let ?e = "\<lparr>env_base = [(''x'', 1 :: nat)], env_scopes = [[(''y'', 2)], [(''x'', 3)]]\<rparr>"
  have "wf_env ?e" by (simp add: wf_env_def)
  then have "env_get (freeze ?e) = env_get ?e" using env_refines_map by blast
  moreover have "env_get ?e ''x'' = Some 3" by (simp add: env_get_def)
  ultimately show ?thesis by (rule fun_cong [THEN trans])
qed

text \<open>Binding and assigning a variable both make it visible with the new value and change no other
  variable; the shared base is never written.\<close>

lemma env_write_visible:
  assumes "env_scopes e \<noteq> []"
  shows "env_get (env_set n v e) = (env_get e)(n \<mapsto> v) \<and> env_get (env_update n v e) = (env_get e)(n \<mapsto> v) \<and>
     env_base (env_set n v e) = env_base e \<and> env_base (env_update n v e) = env_base e"
  using env_abs_set [OF assms] env_get_update [OF assms] assms
  by (simp add: env_get_abs) (simp add: env_set_def env_update_def split: option.split)

theorem env_write_visible_witness:
  "env_get (env_update ''x'' (5 :: nat) (push_scope (env_set ''x'' 1 env_new))) ''x'' = Some 5"
  using env_write_visible [of "push_scope (env_set ''x'' 1 env_new)" "''x''" "5 :: nat"]
  by (simp add: push_scope_def env_set_def env_new_def)

text \<open>C27: closing a scope undoes what the block declared and keeps what it assigned outside: after opening
  a scope, binding and assigning in any order and closing it, the environment is the one the
  assignments to enclosing variables alone give, in their order.\<close>

theorem env_block_scope:
  assumes "env_scopes e \<noteq> []"
  shows "pop_scope (fold (run_op env_set env_update) ops (push_scope e)) =
     fold (\<lambda>(n, v). env_update n v) (escaping (env_declared e) {} ops) e"
  by (rule env.run_block [OF assms])

theorem env_block_scope_witness:
  "pop_scope (fold (run_op env_set env_update)
       [Let ''item'' 1, Assign ''count'' 2, Assign ''tmp'' 3, Assign ''item'' (4 :: nat)]
       (push_scope (env_set ''count'' 0 env_new))) =
     env_update ''count'' 2 (env_set ''count'' 0 env_new)"
proof -
  have "env_scopes (env_set ''count'' (0 :: nat) env_new) \<noteq> []" by (simp add: env_set_def env_new_def)
  from env_block_scope [OF this,
      of "[Let ''item'' 1, Assign ''count'' 2, Assign ''tmp'' 3, Assign ''item'' 4]"]
  show ?thesis by (simp add: env_declared_def env_set_def env_new_def)
qed

end
