(* ===== verification/Query_Builder.thy ===== *)
theory Query_Builder
  imports Value "HOL-Library.List_Lexorder" "HOL-Library.Char_ord"
begin

text \<open>
  \<^verbatim>\<open>src/src/db/query_builder.rs\<close>: the SQL text of a relational query and its bound parameters, and the
  statements of \<^verbatim>\<open>src/src/db/postgres.rs\<close> that are assembled without it.

  The values of a query are bound as \<open>$1\<close>, \<open>$2\<close>, ...; its column names are spliced into the text, each
  validated and put between double quotes.
\<close>

subsection \<open>Identifiers\<close>

definition truncate_for_message :: "string \<Rightarrow> string" where
  "truncate_for_message raw =
     (let s = trim raw in if 60 < length s then take 60 s @ ''...'' else s)"

definition invalid_identifier :: "string \<Rightarrow> marreta_error" where
  "invalid_identifier raw = DbIdentifierError EcInvalidIdentifier
     (''invalid SQL identifier '' @ [CHR 0x27] @ truncate_for_message raw @ [CHR 0x27])"

definition segment_ok :: "string \<Rightarrow> bool" where
  "segment_ok seg \<longleftrightarrow>
     (case seg of
        [] \<Rightarrow> False
      | c # cs \<Rightarrow> (is_ascii_alphabetic c \<or> c = CHR ''_'') \<and>
                  list_all (\<lambda>c. is_ascii_alphanumeric c \<or> c = CHR ''_'') cs)"

definition double_quoted :: "string \<Rightarrow> string" where
  "double_quoted s = [CHR 0x22] @ s @ [CHR 0x22]"

definition quote_identifier :: "string \<Rightarrow> marreta_error + string" where
  "quote_identifier raw =
     (let trimmed = trim raw; segments = split_char (CHR ''.'') trimmed
      in if (length segments = 1 \<or> length segments = 2) \<and> list_all segment_ok segments
         then Inr (join ''.'' (map double_quoted segments))
         else Inl (invalid_identifier trimmed))"

definition validate_column :: "string \<Rightarrow> string set option \<Rightarrow> marreta_error + string" where
  "validate_column raw known =
     rbind (quote_identifier raw) (\<lambda>quoted.
       case known of
         None \<Rightarrow> Inr quoted
       | Some cols \<Rightarrow>
           (let trimmed = trim raw
            in if CHR ''.'' \<notin> set trimmed \<and> trimmed \<notin> cols
               then Inl (DbIdentifierError EcUnknownColumn
                 (''unknown column '' @ [CHR 0x27] @ truncate_for_message trimmed @ [CHR 0x27]))
               else Inr quoted))"

text \<open>\<open>str::split_whitespace\<close>.\<close>

fun split_ws :: "string \<Rightarrow> string list" where
  "split_ws [] = [[]]"
| "split_ws (x # xs) =
     (if is_whitespace x then [] # split_ws xs
      else (case split_ws xs of [] \<Rightarrow> [[x]] | p # ps \<Rightarrow> (x # p) # ps))"

definition split_whitespace :: "string \<Rightarrow> string list" where
  "split_whitespace s = filter (\<lambda>w. w \<noteq> []) (split_ws s)"

definition order_part :: "string set option \<Rightarrow> string \<Rightarrow> marreta_error + string" where
  "order_part known part =
     (case split_whitespace part of
        [col] \<Rightarrow> validate_column col known
      | [col, dir] \<Rightarrow>
          (let direction = map to_ascii_upper dir
           in if direction \<noteq> ''ASC'' \<and> direction \<noteq> ''DESC'' then Inl (invalid_identifier part)
              else rbind (validate_column col known) (\<lambda>c. Inr (c @ '' '' @ dir)))
      | _ \<Rightarrow> Inl (invalid_identifier (trim part)))"

definition build_order_by :: "string \<Rightarrow> string set option \<Rightarrow> marreta_error + string" where
  "build_order_by order known =
     rbind (rmap (order_part known) (split_char (CHR '','') order)) (\<lambda>rendered.
       if rendered = [] then Inl (invalid_identifier order) else Inr (join '', '' rendered))"

subsection \<open>SELECT\<close>

definition placeholder :: "nat \<Rightarrow> string" where
  "placeholder n = CHR ''$'' # nat_to_string n"

text \<open>One filter of the \<open>WHERE\<close> clause, given the parameters so far: its text and the parameters with
  those of the filter pushed.\<close>

definition filter_sql ::
    "string set option \<Rightarrow> ('d, 't) val filter_clause \<Rightarrow> ('d, 't) val list \<Rightarrow>
     marreta_error + (string \<times> ('d, 't) val list)" where
  "filter_sql known f params =
     (let param_n = length params + 1
      in rbind (validate_column (fc_column f) known) (\<lambda>column.
        if fc_op f = OpIn then
          (case fc_value f of
             VList items \<Rightarrow>
               Inr (column @ '' IN ('' @
                      join '', '' (map (\<lambda>i. placeholder (param_n + i)) [0..<length items]) @ '')'',
                    params @ items)
           | v \<Rightarrow> Inr (column @ '' IN ('' @ placeholder param_n @ '')'', params @ [v]))
        else Inr (column @ '' '' @ filter_op_to_sql (fc_op f) @ '' '' @ placeholder param_n,
                  params @ [fc_value f])))"

fun filters_sql ::
    "string set option \<Rightarrow> ('d, 't) val filter_clause list \<Rightarrow> ('d, 't) val list \<Rightarrow>
     marreta_error + (string list \<times> ('d, 't) val list)" where
  "filters_sql known [] params = Inr ([], params)"
| "filters_sql known (f # fs) params =
     rbind (filter_sql known f params) (\<lambda>(c, params').
       rbind (filters_sql known fs params') (\<lambda>(cs, params''). Inr (c # cs, params'')))"

definition join_kind_sql :: "join_kind \<Rightarrow> string" where
  "join_kind_sql k = (case k of JoinInner \<Rightarrow> ''INNER JOIN'' | JoinLeft \<Rightarrow> ''LEFT JOIN'')"

definition join_sql :: "string \<Rightarrow> join_clause \<Rightarrow> string" where
  "join_sql table j =
     '' '' @ join_kind_sql (jc_kind j) @ '' '' @ jc_table j @ '' ON '' @ table @ ''.'' @ jc_on j @ '' = '' @
     jc_table j @ ''.id''"

definition select_list :: "('d, 't) val query_state \<Rightarrow> marreta_error + string" where
  "select_list q =
     (if qs_count q then Inr ''COUNT(*) AS count''
      else if qs_select_cols q = [] then Inr ''*''
      else rbind (rmap (\<lambda>c. validate_column c (qs_known_columns q)) (qs_select_cols q)) (\<lambda>cols.
             Inr (join '', '' cols)))"

definition where_sql ::
    "('d, 't) val query_state \<Rightarrow> marreta_error + (string \<times> ('d, 't) val list)" where
  "where_sql q =
     (if qs_filters q = [] then Inr ([], [])
      else rbind (filters_sql (qs_known_columns q) (qs_filters q) []) (\<lambda>(clauses, params).
             Inr ('' WHERE '' @ join '' AND '' clauses, params)))"

definition order_sql :: "('d, 't) val query_state \<Rightarrow> marreta_error + string" where
  "order_sql q =
     (case qs_order_by q of
        None \<Rightarrow> Inr []
      | Some order \<Rightarrow>
          rbind (build_order_by order (qs_known_columns q)) (\<lambda>s. Inr ('' ORDER BY '' @ s)))"

definition limit_sql :: "('d, 't) val query_state \<Rightarrow> string" where
  "limit_sql q =
     (case qs_limit q of None \<Rightarrow> [] | Some l \<Rightarrow> '' LIMIT '' @ i64_display l) @
     (case qs_offset q of None \<Rightarrow> [] | Some n \<Rightarrow> '' OFFSET '' @ i64_display n)"

definition build_select ::
    "('d, 't) val query_state \<Rightarrow> marreta_error + (string \<times> ('d, 't) val list)" where
  "build_select q =
     rbind (select_list q) (\<lambda>select.
     rbind (where_sql q) (\<lambda>(where_text, params).
     rbind (order_sql q) (\<lambda>order_text.
       Inr (''SELECT '' @ select @ '' FROM '' @ qs_table q @ concat (map (join_sql (qs_table q)) (qs_joins q)) @
            where_text @ order_text @ limit_sql q, params))))"

subsection \<open>UPDATE and DELETE\<close>

definition set_sql :: "string set option \<Rightarrow> nat \<times> string \<Rightarrow> marreta_error + string" where
  "set_sql known = (\<lambda>(i, k). rbind (validate_column k known) (\<lambda>c. Inr (c @ '' = '' @ placeholder (i + 1))))"

definition clause_sql ::
    "string set option \<Rightarrow> nat \<Rightarrow> nat \<times> 'v filter_clause \<Rightarrow> marreta_error + string" where
  "clause_sql known base = (\<lambda>(i, f).
     rbind (validate_column (fc_column f) known) (\<lambda>c.
       Inr (c @ '' '' @ filter_op_to_sql (fc_op f) @ '' '' @ placeholder (base + i))))"

definition build_update ::
    "string \<Rightarrow> string list \<Rightarrow> 'v filter_clause list \<Rightarrow> string set option \<Rightarrow>
     marreta_error + (string \<times> nat)" where
  "build_update table data_keys filters known =
     rbind (rmap (set_sql known) (enumerate 0 data_keys)) (\<lambda>set_clauses.
       let base_param = length data_keys + 1
       in rbind (rmap (clause_sql known base_param) (enumerate 0 filters)) (\<lambda>where_clauses.
         Inr (''UPDATE '' @ table @ '' SET '' @ join '', '' set_clauses @
              (if where_clauses = [] then [] else '' WHERE '' @ join '' AND '' where_clauses), base_param)))"

definition build_delete ::
    "string \<Rightarrow> 'v filter_clause list \<Rightarrow> string set option \<Rightarrow> marreta_error + (string \<times> nat)" where
  "build_delete table filters known =
     (if filters = [] then Inr (''DELETE FROM '' @ table, 1)
      else rbind (rmap (clause_sql known 1) (enumerate 0 filters)) (\<lambda>clauses.
             Inr (''DELETE FROM '' @ table @ '' WHERE '' @ join '' AND '' clauses, 1)))"

definition filters_from_equality_map :: "(string \<times> 'v) list \<Rightarrow> 'v filter_clause list" where
  "filters_from_equality_map pairs = map (\<lambda>(col, v). FilterClause col OpEq v) pairs"

subsection \<open>Statements of the PostgreSQL driver\<close>

text \<open>The statement and the parameters of each driver operation that binds and executes one; a row is a
  \<open>HashMap\<close>, here an association list with distinct keys.\<close>

definition row_values :: "(string \<times> 'v) list \<Rightarrow> string list \<Rightarrow> 'v list" where
  "row_values data keys = map (\<lambda>k. the (map_of data k)) keys"

definition save_statement :: "string \<Rightarrow> (string \<times> 'v) list \<Rightarrow> string \<times> 'v list" where
  "save_statement table data =
     (let keys = sort (map fst data)
      in (''INSERT INTO '' @ table @ '' ('' @ join '', '' keys @ '') VALUES ('' @
          join '', '' (map placeholder [1..<length keys + 1]) @ '') RETURNING *'', row_values data keys))"

definition update_by_id_statement :: "string \<Rightarrow> 'v \<Rightarrow> (string \<times> 'v) list \<Rightarrow> string \<times> 'v list" where
  "update_by_id_statement table ident data =
     (let keys = sort (map fst data)
      in (''UPDATE '' @ table @ '' SET '' @
          join '', '' (map (\<lambda>(i, k). k @ '' = '' @ placeholder (i + 1)) (enumerate 0 keys)) @
          '' WHERE id = '' @ placeholder (length keys + 1) @ '' RETURNING *'', row_values data keys @ [ident]))"

definition query_fetch_one_statement ::
    "('d, 't) val query_state \<Rightarrow> marreta_error + (string \<times> ('d, 't) val list)" where
  "query_fetch_one_statement q =
     rbind (build_select q) (\<lambda>(sql, params).
       Inr (if qs_limit q = None then sql @ '' LIMIT 1'' else sql, params))"

definition query_count_statement ::
    "('d, 't) val query_state \<Rightarrow> marreta_error + (string \<times> ('d, 't) val list)" where
  "query_count_statement q =
     build_select (QueryState (qs_table q) (qs_filters q) (qs_joins q) (qs_select_cols q) None None None True
       (qs_known_columns q))"

definition query_update_statement ::
    "('d, 't) val query_state \<Rightarrow> (string \<times> ('d, 't) val) list \<Rightarrow>
     marreta_error + (string \<times> ('d, 't) val list)" where
  "query_update_statement q data =
     (let keys = sort (map fst data)
      in rbind (build_update (qs_table q) keys (qs_filters q) (qs_known_columns q)) (\<lambda>(sql, _).
           Inr (sql, row_values data keys @ map fc_value (qs_filters q))))"

definition query_delete_statement ::
    "('d, 't) val query_state \<Rightarrow> marreta_error + (string \<times> ('d, 't) val list)" where
  "query_delete_statement q =
     rbind (build_delete (qs_table q) (qs_filters q) (qs_known_columns q)) (\<lambda>(sql, _).
       Inr (sql, map fc_value (qs_filters q)))"

subsection \<open>What is accepted as an identifier\<close>

lemma segment_ok_char:
  assumes "segment_ok s" and "c \<in> set s"
  shows "is_ascii_alphanumeric c \<or> c = CHR ''_''"
  using assms by (cases s) (auto simp: segment_ok_def is_ascii_alphanumeric_def list_all_iff)

lemma ident_char_safe:
  assumes "is_ascii_alphanumeric c \<or> c = CHR ''_''"
  shows "c \<noteq> CHR 0x22" and "c \<noteq> CHR ''$''" and "c \<noteq> CHR ''.''" and "\<not> is_whitespace c"
  using assms by (auto simp: ascii_simps)

lemma quote_identifier_Inr:
  "quote_identifier raw = Inr s \<longleftrightarrow>
     (\<exists>segs. segs \<noteq> [] \<and> length segs \<le> 2 \<and> list_all segment_ok segs \<and> trim raw = join ''.'' segs \<and>
        s = join ''.'' (map double_quoted segs))" (is "?L \<longleftrightarrow> (\<exists>segs. ?P segs)")
proof
  assume ?L
  then have "?P (split_char (CHR ''.'') (trim raw))"
    by (auto simp: quote_identifier_def Let_def join_split_char split: if_splits)
  then show "\<exists>segs. ?P segs" by blast
next
  assume "\<exists>segs. ?P segs"
  then obtain segs where s: "?P segs" by blast
  have "\<forall>p \<in> set segs. CHR ''.'' \<notin> set p"
    using s segment_ok_char ident_char_safe(3) by (fastforce simp: list_all_iff)
  with s have "split_char (CHR ''.'') (trim raw) = segs"
    using split_char_join [of segs "CHR ''.''"] by simp
  moreover have "length segs = 1 \<or> length segs = 2"
    using s by (cases segs) (auto simp: le_Suc_eq)
  ultimately show ?L using s by (simp add: quote_identifier_def)
qed

lemma validate_column_Inr:
  "validate_column raw known = Inr s \<Longrightarrow> quote_identifier raw = Inr s"
  by (auto simp: validate_column_def Let_def split: option.splits if_splits)

end
