(* ===== verification/Query_Safety.thy ===== *)
theory Query_Safety
  imports Query_Builder
begin

text \<open>
  Why the statements of \<^verbatim>\<open>src/src/db/query_builder.rs\<close> are safe. The placeholders of the text are exactly
  the numbers of the bound parameters, in order. And the text outside the quotes is a function of
  the shape of the query (which operators, how many columns and values, which directions): two
  queries over the same table and joins that differ only in the columns of their filters, selections and
  orderings and in values have the same skeleton, so no such column name can change what the statement does. The names in a join
  are not guarded: the last section shows what they can do. Both come from one proof, in the locale \<open>sql_reading\<close>, about any
  reading of a text that is compositional; its interpretations are the skeleton and the list of placeholders.
\<close>

subsection \<open>Two readings of the text\<close>

text \<open>The text outside double quotes, with a question mark for every quoted part.\<close>

fun outside :: "bool \<Rightarrow> string \<Rightarrow> string" where
  "outside q [] = []"
| "outside q (c # s) =
     (if c = CHR 0x22 then (if q then CHR ''?'' # outside False s else outside True s)
      else if q then outside True s else c # outside False s)"

text \<open>The numerals after the dollar signs, in order.\<close>

fun refs :: "string \<Rightarrow> string list" where
  "refs [] = []"
| "refs (c # s) = (if c = CHR ''$'' then takeWhile is_ascii_digit s # refs s else refs s)"

text \<open>The shape of a query: everything but the names of its columns and its values. A column counts
  by its number of dotted segments, the values of a filter by how many there are.\<close>

definition segments :: "string \<Rightarrow> nat" where
  "segments raw = length (split_char (CHR ''.'') (trim raw))"

definition filter_params :: "('d, 't) val filter_clause \<Rightarrow> ('d, 't) val list" where
  "filter_params f =
     (case fc_value f of VList items \<Rightarrow> if fc_op f = OpIn then items else [VList items] | v \<Rightarrow> [v])"

definition filter_shape :: "('d, 't) val filter_clause \<Rightarrow> nat \<times> filter_op \<times> nat" where
  "filter_shape f = (segments (fc_column f), fc_op f, length (filter_params f))"

definition order_part_shape :: "string \<Rightarrow> nat \<times> string" where
  "order_part_shape part =
     (case split_whitespace part of
        [col] \<Rightarrow> (segments col, []) | [col, dir] \<Rightarrow> (segments col, '' '' @ dir) | _ \<Rightarrow> (0, []))"

record query_shape =
  sh_table :: string
  sh_filters :: "(nat \<times> filter_op \<times> nat) list"
  sh_joins :: "join_clause list"
  sh_select :: "nat list option"
  sh_order :: "(nat \<times> string) list option"
  sh_limit :: string

definition shape :: "('d, 't) val query_state \<Rightarrow> query_shape" where
  "shape q = \<lparr>sh_table = qs_table q, sh_filters = map filter_shape (qs_filters q), sh_joins = qs_joins q,
     sh_select = (if qs_count q then None else Some (map segments (qs_select_cols q))),
     sh_order = map_option (\<lambda>s. map order_part_shape (split_char (CHR '','') s)) (qs_order_by q),
     sh_limit = limit_sql q\<rparr>"

text \<open>A reading of the text is assembled from the readings of literals, identifiers and placeholders.\<close>

fun join_with :: "'r list \<Rightarrow> 'r list list \<Rightarrow> 'r list" where
  "join_with sep [] = []"
| "join_with sep [p] = p"
| "join_with sep (p # q # ps) = p @ sep @ join_with sep (q # ps)"

definition filter_reading ::
    "(string \<Rightarrow> 'r list) \<Rightarrow> (nat \<Rightarrow> 'r list) \<Rightarrow> (nat \<Rightarrow> 'r list) \<Rightarrow> nat \<Rightarrow>
     nat \<times> filter_op \<times> nat \<Rightarrow> 'r list" where
  "filter_reading literal ident param n = (\<lambda>(k, fop, a). ident k @
     (if fop = OpIn
      then literal '' IN ('' @ join_with (literal '', '') (map (\<lambda>i. param (n + i)) [0..<a]) @ literal '')''
      else literal ('' '' @ filter_op_to_sql fop @ '' '') @ param n))"

fun filters_reading ::
    "(string \<Rightarrow> 'r list) \<Rightarrow> (nat \<Rightarrow> 'r list) \<Rightarrow> (nat \<Rightarrow> 'r list) \<Rightarrow> nat \<Rightarrow>
     (nat \<times> filter_op \<times> nat) list \<Rightarrow> 'r list list" where
  "filters_reading literal ident param n [] = []"
| "filters_reading literal ident param n (f # fs) =
     filter_reading literal ident param n f #
     filters_reading literal ident param (n + snd (snd f)) fs"

definition select_reading ::
    "(string \<Rightarrow> 'r list) \<Rightarrow> (nat \<Rightarrow> 'r list) \<Rightarrow> (nat \<Rightarrow> 'r list) \<Rightarrow> query_shape \<Rightarrow> 'r list" where
  "select_reading literal ident param sh =
     literal ''SELECT '' @
     (case sh_select sh of
        None \<Rightarrow> literal ''COUNT(*) AS count''
      | Some [] \<Rightarrow> literal ''*''
      | Some ks \<Rightarrow> join_with (literal '', '') (map ident ks)) @
     literal ('' FROM '' @ sh_table sh @ concat (map (join_sql (sh_table sh)) (sh_joins sh))) @
     (if sh_filters sh = [] then []
      else literal '' WHERE '' @
        join_with (literal '' AND '') (filters_reading literal ident param 1 (sh_filters sh))) @
     (case sh_order sh of
        None \<Rightarrow> []
      | Some parts \<Rightarrow> literal '' ORDER BY '' @
          join_with (literal '', '') (map (\<lambda>(k, dir). ident k @ literal dir) parts)) @
     literal (sh_limit sh)"

definition clauses_reading ::
    "(string \<Rightarrow> 'r list) \<Rightarrow> (nat \<Rightarrow> 'r list) \<Rightarrow> (nat \<Rightarrow> 'r list) \<Rightarrow> nat \<Rightarrow>
     (nat \<times> string) list \<Rightarrow> 'r list list" where
  "clauses_reading literal ident param n cs =
     map (\<lambda>(i, k, text). ident k @ literal text @ param (n + i)) (enumerate 0 cs)"

definition update_reading ::
    "(string \<Rightarrow> 'r list) \<Rightarrow> (nat \<Rightarrow> 'r list) \<Rightarrow> (nat \<Rightarrow> 'r list) \<Rightarrow> string \<Rightarrow>
     (nat \<times> string) list \<Rightarrow> (nat \<times> string) list \<Rightarrow> 'r list" where
  "update_reading literal ident param start ks fs =
     literal start @ join_with (literal '', '') (clauses_reading literal ident param 1 ks) @
     (if fs = [] then []
      else literal '' WHERE '' @
        join_with (literal '' AND '') (clauses_reading literal ident param (length ks + 1) fs))"

text \<open>The shapes of the assignments and of the conditions of an \<open>UPDATE\<close> or a \<open>DELETE\<close>.\<close>

definition key_shape :: "string \<Rightarrow> nat \<times> string" where
  "key_shape k = (segments k, '' = '')"

definition clause_shape :: "'v filter_clause \<Rightarrow> nat \<times> string" where
  "clause_shape f = (segments (fc_column f), '' '' @ filter_op_to_sql (fc_op f) @ '' '')"

text \<open>Text that holds no quote and no dollar sign and does not continue a numeral.\<close>

definition plain :: "string \<Rightarrow> bool" where
  "plain s \<longleftrightarrow> CHR 0x22 \<notin> set s \<and> CHR ''$'' \<notin> set s \<and> (s = [] \<or> \<not> is_ascii_digit (hd s))"

definition trusted :: "string \<Rightarrow> bool" where
  "trusted s \<longleftrightarrow> CHR 0x22 \<notin> set s \<and> CHR ''$'' \<notin> set s"

text \<open>The names the builder splices into the statement as they are. The table is an identifier of the program
  (\<open>db.orders\<close>), but the table and the key of a join are strings that the pipeline stage evaluates
  at run time: \<open>trusted_names\<close> is what the author of a route has to ensure of them.\<close>

definition trusted_names :: "('d, 't) val query_state \<Rightarrow> bool" where
  "trusted_names q \<longleftrightarrow> trusted (qs_table q) \<and>
     (\<forall>j \<in> set (qs_joins q). trusted (jc_table j) \<and> trusted (jc_on j))"

subsection \<open>Compositional readings\<close>

lemma plain_trusted: "trusted s \<Longrightarrow> s = [] \<or> \<not> is_ascii_digit (hd s) \<Longrightarrow> plain s"
  by (simp add: plain_def trusted_def)

lemma trusted_append [simp]: "trusted (s @ t) \<longleftrightarrow> trusted s \<and> trusted t"
  by (auto simp: trusted_def)

lemma trusted_Cons [simp]: "trusted (c # s) \<longleftrightarrow> c \<noteq> CHR 0x22 \<and> c \<noteq> CHR ''$'' \<and> trusted s"
  by (auto simp: trusted_def)

lemma trusted_Nil [simp]: "trusted []"
  by (simp add: trusted_def)

lemma plain_Cons [simp]: "plain (c # s) \<longleftrightarrow> \<not> is_ascii_digit c \<and> trusted (c # s)"
  by (auto simp: plain_def trusted_def)

lemma trusted_op [simp]: "trusted (filter_op_to_sql fop)"
  by (cases fop) simp_all

lemma trusted_i64_display [simp]: "trusted (i64_display n)"
proof -
  obtain k where "\<bar>sint n\<bar> = int k" by (metis abs_ge_zero nonneg_int_cases)
  then have "\<forall>c \<in> set (i64_display n). is_ascii_digit c \<or> c = CHR ''-''"
    by (auto simp: i64_display_def sign_text_def digits_text_nat dest: nat_to_string_digit)
  then show ?thesis by (auto simp: trusted_def is_ascii_digit_def)
qed

lemma plain_limit: "plain (limit_sql q)"
  by (auto simp: limit_sql_def is_ascii_digit_def plain_def [of "[]"] split: option.split)

lemma trusted_joins:
  assumes "trusted t" and "\<forall>j \<in> set js. trusted (jc_table j) \<and> trusted (jc_on j)"
  shows "trusted (concat (map (join_sql t) js))"
  using assms(2)
proof (induction js)
  case (Cons j js)
  with assms(1) show ?case by (cases "jc_kind j") (simp_all add: join_sql_def join_kind_sql_def)
qed simp

lemma filter_sql_params:
  "filter_sql known f params = Inr (s, params') \<Longrightarrow> params' = params @ filter_params f"
  by (cases "fc_value f") (auto simp: filter_sql_def filter_params_def Let_def split: if_splits)

lemma filters_sql_params:
  "filters_sql known fs params = Inr (cs, params') \<Longrightarrow> params' = params @ concat (map filter_params fs)"
proof (induction fs arbitrary: params cs)
  case (Cons f fs)
  then obtain cs' where "filters_sql known fs (params @ filter_params f) = Inr (cs', params')"
    by (auto dest!: filter_sql_params)
  from Cons.IH [OF this] show ?case by simp
qed simp

lemma trusted_direction:
  assumes "map to_ascii_upper dir \<in> {''ASC'', ''DESC''}"
  shows "trusted dir"
proof -
  have "c \<noteq> CHR 0x22 \<and> c \<noteq> CHR ''$''" if "c \<in> set dir" for c
  proof -
    have "to_ascii_upper c \<in> set (map to_ascii_upper dir)" using that by simp
    then have "to_ascii_upper c \<in> set ''ASC'' \<union> set ''DESC''" using assms by auto
    then show ?thesis by (auto simp: to_ascii_upper_def is_ascii_lowercase_def)
  qed
  then show ?thesis by (auto simp: trusted_def)
qed

lemma enumerate_map: "enumerate n (map g xs) = map (\<lambda>(i, x). (i, g x)) (enumerate n xs)"
  by (induction xs arbitrary: n) auto

locale sql_reading =
  fixes reads :: "string \<Rightarrow> 'r list \<Rightarrow> bool"
    and literal :: "string \<Rightarrow> 'r list"
    and ident :: "nat \<Rightarrow> 'r list"
    and param :: "nat \<Rightarrow> 'r list"
  assumes reads_Nil: "reads [] []"
    and reads_append: "reads s xs \<Longrightarrow> reads t ys \<Longrightarrow> reads (s @ t) (xs @ ys)"
    and reads_plain: "plain s \<Longrightarrow> reads s (literal s)"
    and reads_ident: "quote_identifier raw = Inr s \<Longrightarrow> reads s (ident (segments raw))"
    and reads_param: "reads (placeholder n) (param n)"
begin

lemma reads_join:
  assumes "list_all2 reads ps xs" and "plain sep"
  shows "reads (join sep ps) (join_with (literal sep) xs)"
  using assms
proof (induction sep ps arbitrary: xs rule: join.induct)
  case (3 sep p q ps)
  then obtain x y ys where "xs = x # y # ys" "reads p x" "list_all2 reads (q # ps) (y # ys)"
    by (auto simp: list_all2_Cons1)
  with 3 show ?case by (auto intro!: reads_append reads_plain)
qed (auto simp: list_all2_Cons1 reads_Nil)

lemma reads_rmap:
  assumes "rmap f xs = Inr ss" and "\<And>x s. f x = Inr s \<Longrightarrow> reads s (h x)"
  shows "list_all2 reads ss (map h xs)"
  using assms by (auto simp: rmap_Inr_iff list_all2_conv_all_nth)

lemma reads_column: "validate_column raw known = Inr s \<Longrightarrow> reads s (ident (segments raw))"
  by (rule reads_ident [OF validate_column_Inr])

lemma reads_columns:
  assumes "rmap (\<lambda>c. validate_column c known) cols = Inr ss" and "plain sep"
  shows "reads (join sep ss) (join_with (literal sep) (map ident (map segments cols)))"
  by (intro reads_join assms(2), unfold map_map, rule reads_rmap [OF assms(1)]) (simp add: reads_column)

lemma reads_params:
  "reads (join '', '' (map (\<lambda>i. placeholder (n + i)) [0..<a]))
     (join_with (literal '', '') (map (\<lambda>i. param (n + i)) [0..<a]))"
  by (rule reads_join) (auto simp: list_all2_conv_all_nth is_ascii_digit_def intro: reads_param)

lemma reads_filter:
  assumes "filter_sql known f params = Inr (s, params')"
  shows "reads s (filter_reading literal ident param (length params + 1) (filter_shape f))"
proof -
  from assms obtain c where c: "validate_column (fc_column f) known = Inr c"
    by (auto simp: filter_sql_def Let_def)
  note reading = reads_append reads_column [OF c] reads_params reads_param reads_plain
  have args: "reads (c @ '' IN ('' @ join '', '' (map (\<lambda>i. placeholder (length params + 1 + i)) [0..<a]) @ '')'')
      (ident (segments (fc_column f)) @ literal '' IN ('' @
       join_with (literal '', '') (map (\<lambda>i. param (length params + 1 + i)) [0..<a]) @ literal '')'')" for a
    by (intro reading) (simp_all add: is_ascii_digit_def)
  show ?thesis
  proof (cases "fc_op f = OpIn")
    case True
    with assms c args args [of 1] show ?thesis
      by (cases "fc_value f")
        (auto simp: filter_sql_def filter_reading_def filter_shape_def filter_params_def)
  next
    case False
    then have "length (filter_params f) = 1"
      by (cases "fc_value f") (simp_all add: filter_params_def)
    moreover have "reads (c @ ('' '' @ filter_op_to_sql (fc_op f) @ '' '') @ placeholder (length params + 1))
       (ident (segments (fc_column f)) @ literal ('' '' @ filter_op_to_sql (fc_op f) @ '' '') @
        param (length params + 1))"
      by (intro reading) (simp_all add: is_ascii_digit_def)
    ultimately show ?thesis
      using assms c False by (auto simp: filter_sql_def filter_reading_def filter_shape_def)
  qed
qed

lemma reads_filters:
  assumes "filters_sql known fs params = Inr (cs, params')"
  shows "list_all2 reads cs (filters_reading literal ident param (length params + 1) (map filter_shape fs))"
  using assms
proof (induction fs arbitrary: params cs)
  case (Cons f fs)
  from Cons.prems obtain c params1 cs' where
    c: "filter_sql known f params = Inr (c, params1)" "filters_sql known fs params1 = Inr (cs', params')"
       "cs = c # cs'"
    by auto
  have "params1 = params @ filter_params f" by (rule filter_sql_params [OF c(1)])
  with Cons.IH [OF c(2)] reads_filter [OF c(1)] c(3) show ?case
    by (simp add: filter_shape_def add.commute)
qed simp

lemma reads_where:
  assumes "where_sql q = Inr (s, params)"
  shows "reads s (if map filter_shape (qs_filters q) = [] then []
     else literal '' WHERE '' @
       join_with (literal '' AND '') (filters_reading literal ident param 1 (map filter_shape (qs_filters q))))"
proof (cases "qs_filters q = []")
  case True
  with assms show ?thesis by (simp add: where_sql_def reads_Nil)
next
  case False
  with assms obtain cs where cs: "filters_sql (qs_known_columns q) (qs_filters q) [] = Inr (cs, params)"
    "s = '' WHERE '' @ join '' AND '' cs"
    by (auto simp: where_sql_def)
  have "reads ('' WHERE '' @ join '' AND '' cs) (literal '' WHERE '' @
      join_with (literal '' AND '') (filters_reading literal ident param 1 (map filter_shape (qs_filters q))))"
    using reads_filters [OF cs(1)]
    by (intro reads_append reads_join reads_plain) (simp_all add: is_ascii_digit_def)
  with False cs(2) show ?thesis by simp
qed

lemma reads_order_part:
  assumes "order_part known part = Inr s"
  shows "reads s ((\<lambda>(k, dir). ident k @ literal dir) (order_part_shape part))"
proof -
  consider col where "split_whitespace part = [col]" "validate_column col known = Inr s"
    | col dir c where "split_whitespace part = [col, dir]" "validate_column col known = Inr c"
        "s = c @ '' '' @ dir" "map to_ascii_upper dir \<in> {''ASC'', ''DESC''}"
    using assms by (auto simp: order_part_def Let_def split: list.splits if_splits)
  then show ?thesis
  proof cases
    case 1
    then have "reads (s @ []) (ident (segments col) @ literal [])"
      by (intro reads_append reads_column reads_plain) (simp_all add: plain_def)
    with 1 show ?thesis by (simp add: order_part_shape_def)
  next
    case 2
    have "trusted dir" by (rule trusted_direction [OF 2(4)])
    with 2(2) have "reads (c @ '' '' @ dir) (ident (segments col) @ literal ('' '' @ dir))"
      by (intro reads_append reads_column reads_plain) (simp_all add: is_ascii_digit_def)
    with 2 show ?thesis by (simp add: order_part_shape_def)
  qed
qed

lemma reads_order:
  assumes "order_sql q = Inr s"
  shows "reads s (case sh_order (shape q) of
        None \<Rightarrow> []
      | Some parts \<Rightarrow> literal '' ORDER BY '' @
          join_with (literal '', '') (map (\<lambda>(k, dir). ident k @ literal dir) parts))"
proof (cases "qs_order_by q")
  case None
  with assms show ?thesis by (simp add: order_sql_def shape_def reads_Nil)
next
  case (Some order)
  with assms obtain ss where ss:
    "rmap (order_part (qs_known_columns q)) (split_char (CHR '','') order) = Inr ss"
    "s = '' ORDER BY '' @ join '', '' ss"
    by (auto simp: order_sql_def build_order_by_def split: if_splits)
  have "list_all2 reads ss (map (\<lambda>(k, dir). ident k @ literal dir)
      (map order_part_shape (split_char (CHR '','') order)))"
    unfolding map_map by (rule reads_rmap [OF ss(1)]) (use reads_order_part in simp)
  then have "reads ('' ORDER BY '' @ join '', '' ss) (literal '' ORDER BY '' @
      join_with (literal '', '') (map (\<lambda>(k, dir). ident k @ literal dir)
        (map order_part_shape (split_char (CHR '','') order))))"
    by (intro reads_append reads_join reads_plain) (simp_all add: is_ascii_digit_def)
  with Some ss(2) show ?thesis by (simp add: shape_def)
qed

lemma reads_select_list:
  assumes "select_list q = Inr s"
  shows "reads s (case sh_select (shape q) of
        None \<Rightarrow> literal ''COUNT(*) AS count''
      | Some [] \<Rightarrow> literal ''*''
      | Some ks \<Rightarrow> join_with (literal '', '') (map ident ks))"
proof -
  consider "qs_count q" "s = ''COUNT(*) AS count''" | "\<not> qs_count q" "qs_select_cols q = []" "s = ''*''"
    | ss where "\<not> qs_count q" "qs_select_cols q \<noteq> []" "s = join '', '' ss"
        "rmap (\<lambda>c. validate_column c (qs_known_columns q)) (qs_select_cols q) = Inr ss"
    using assms by (auto simp: select_list_def split: if_splits)
  then show ?thesis
  proof cases
    case 3
    with reads_columns [OF 3(4), of "'', ''"] show ?thesis
      by (cases "qs_select_cols q") (simp_all add: shape_def is_ascii_digit_def)
  qed (auto simp: shape_def is_ascii_digit_def intro!: reads_plain)
qed

lemma reads_select:
  assumes "build_select q = Inr (sql, params)" and "trusted_names q"
  shows "reads sql (select_reading literal ident param (shape q))"
proof -
  from assms(1) obtain select where_text order_text where parts:
    "select_list q = Inr select" "where_sql q = Inr (where_text, params)" "order_sql q = Inr order_text"
    "sql = ''SELECT '' @ select @ ('' FROM '' @ qs_table q @ concat (map (join_sql (qs_table q)) (qs_joins q))) @
       where_text @ order_text @ limit_sql q"
    by (auto simp: build_select_def)
  have tables: "sh_table (shape q) = qs_table q" "sh_joins (shape q) = qs_joins q"
      "sh_limit (shape q) = limit_sql q" "sh_filters (shape q) = map filter_shape (qs_filters q)"
    by (simp_all add: shape_def)
  have "trusted (concat (map (join_sql (qs_table q)) (qs_joins q)))" "trusted (qs_table q)"
    using assms(2) trusted_joins by (auto simp: trusted_names_def)
  then show ?thesis
    unfolding parts(4) select_reading_def tables
    by (intro reads_append reads_select_list [OF parts(1)] reads_where [OF parts(2)]
        reads_order [OF parts(3)] reads_plain plain_limit)
      (simp_all add: is_ascii_digit_def)
qed

lemma reads_clauses:
  assumes "rmap (clause_sql known n) (enumerate 0 fs) = Inr ss"
  shows "list_all2 reads ss (clauses_reading literal ident param n (map clause_shape fs))"
proof -
  have "reads s (ident (segments (fc_column f)) @ literal ('' '' @ filter_op_to_sql (fc_op f) @ '' '') @ param (n + i))"
    if s: "clause_sql known n (i, f) = Inr s" for s f i
  proof -
    from s obtain c where c: "validate_column (fc_column f) known = Inr c"
        "s = c @ ('' '' @ filter_op_to_sql (fc_op f) @ '' '') @ placeholder (n + i)"
      by (auto simp: clause_sql_def)
    show ?thesis unfolding c(2)
      by (intro reads_append reads_column [OF c(1)] reads_param reads_plain) (simp_all add: is_ascii_digit_def)
  qed
  then have "list_all2 reads ss (map (\<lambda>(i, f). ident (segments (fc_column f)) @
      literal ('' '' @ filter_op_to_sql (fc_op f) @ '' '') @ param (n + i)) (enumerate 0 fs))"
    by (intro reads_rmap [OF assms]) auto
  then show ?thesis
    by (simp add: clauses_reading_def clause_shape_def enumerate_map split_def comp_def)
qed

lemma reads_sets:
  assumes "rmap (set_sql known) (enumerate 0 ks) = Inr ss"
  shows "list_all2 reads ss (clauses_reading literal ident param 1 (map key_shape ks))"
proof -
  have "reads s (ident (segments k) @ literal '' = '' @ param (1 + i))"
    if s: "set_sql known (i, k) = Inr s" for s k i
  proof -
    from s obtain c where c: "validate_column k known = Inr c" "s = c @ '' = '' @ placeholder (1 + i)"
      by (auto simp: set_sql_def)
    show ?thesis unfolding c(2)
      by (intro reads_append reads_column [OF c(1)] reads_param reads_plain) (simp_all add: is_ascii_digit_def)
  qed
  then have "list_all2 reads ss
      (map (\<lambda>(i, k). ident (segments k) @ literal '' = '' @ param (1 + i)) (enumerate 0 ks))"
    by (intro reads_rmap [OF assms]) auto
  then show ?thesis
    by (simp add: clauses_reading_def key_shape_def enumerate_map split_def comp_def)
qed

lemma reads_update:
  assumes "build_update table ks fs known = Inr (sql, n)" and "trusted table"
  shows "reads sql (update_reading literal ident param (''UPDATE '' @ table @ '' SET '')
     (map key_shape ks) (map clause_shape fs))"
proof -
  from assms(1) obtain ss cs where
    parts: "rmap (set_sql known) (enumerate 0 ks) = Inr ss"
      "rmap (clause_sql known (length ks + 1)) (enumerate 0 fs) = Inr cs"
      "sql = (''UPDATE '' @ table @ '' SET '') @ join '', '' ss @
         (if cs = [] then [] else '' WHERE '' @ join '' AND '' cs)"
    by (auto simp: build_update_def Let_def)
  have len: "length cs = length fs"
    using parts(2) by (auto simp: rmap_Inr_iff dest: list_all2_lengthD)
  have "reads (if cs = [] then [] else '' WHERE '' @ join '' AND '' cs)
     (if map clause_shape fs = [] then [] else literal '' WHERE '' @ join_with (literal '' AND '')
        (clauses_reading literal ident param (length (map key_shape ks) + 1) (map clause_shape fs)))"
  proof (cases "fs = []")
    case False
    have "reads ('' WHERE '' @ join '' AND '' cs) (literal '' WHERE '' @ join_with (literal '' AND '')
        (clauses_reading literal ident param (length ks + 1) (map clause_shape fs)))"
      using reads_clauses [OF parts(2)]
      by (intro reads_append reads_join reads_plain) (simp_all add: is_ascii_digit_def)
    moreover have "cs \<noteq> []" using False len by auto
    ultimately show ?thesis using False by simp
  qed (use len in \<open>simp add: reads_Nil\<close>)
  then show ?thesis
    unfolding parts(3) update_reading_def
    using reads_sets [OF parts(1)] assms(2)
    by (intro reads_append reads_join reads_plain) (simp_all add: is_ascii_digit_def)
qed

lemma reads_delete:
  assumes "build_delete table fs known = Inr (sql, n)" and "trusted table"
  shows "reads sql (update_reading literal ident param (''DELETE FROM '' @ table) [] (map clause_shape fs))"
proof (cases "fs = []")
  case True
  have "reads (''DELETE FROM '' @ table) (literal (''DELETE FROM '' @ table))"
    using assms(2) by (intro reads_plain) (simp_all add: is_ascii_digit_def)
  with True assms(1) show ?thesis
    by (simp add: build_delete_def update_reading_def clauses_reading_def)
next
  case False
  with assms(1) obtain cs where
    parts: "rmap (clause_sql known 1) (enumerate 0 fs) = Inr cs"
      "sql = (''DELETE FROM '' @ table) @ '' WHERE '' @ join '' AND '' cs"
    by (auto simp: build_delete_def)
  have "reads sql (literal (''DELETE FROM '' @ table) @ literal '' WHERE '' @ join_with (literal '' AND '')
      (clauses_reading literal ident param 1 (map clause_shape fs)))"
    unfolding parts(2) using reads_clauses [OF parts(1)] assms(2)
    by (intro reads_append reads_join reads_plain) (simp_all add: is_ascii_digit_def)
  with False show ?thesis by (simp add: update_reading_def clauses_reading_def)
qed

end

subsection \<open>The skeleton\<close>

definition reads_outside :: "string \<Rightarrow> string \<Rightarrow> bool" where
  "reads_outside s k \<longleftrightarrow> (\<forall>t. outside False (s @ t) = k @ outside False t)"

definition mask :: "nat \<Rightarrow> string" where
  "mask k = join ''.'' (replicate k ''?'')"

lemma outside_plain: "CHR 0x22 \<notin> set s \<Longrightarrow> outside False (s @ t) = s @ outside False t"
  by (induction s) auto

lemma outside_quoted: "CHR 0x22 \<notin> set s \<Longrightarrow> outside True (s @ CHR 0x22 # t) = CHR ''?'' # outside False t"
  by (induction s) auto

lemma outside_double_quoted:
  assumes "segment_ok p"
  shows "outside False (double_quoted p @ t) = CHR ''?'' # outside False t"
proof -
  have "CHR 0x22 \<notin> set p"
    using segment_ok_char [OF assms] ident_char_safe(1) by blast
  then show ?thesis
    using outside_quoted [of p t] by (simp add: double_quoted_def)
qed

lemma reads_outside_identifier:
  assumes "quote_identifier raw = Inr s"
  shows "reads_outside s (mask (segments raw))"
proof -
  let ?segs = "split_char (CHR ''.'') (trim raw)"
  from assms have s: "s = join ''.'' (map double_quoted ?segs)" "list_all segment_ok ?segs"
      "length ?segs = 1 \<or> length ?segs = 2"
    by (auto simp: quote_identifier_def Let_def split: if_splits)
  from s(3) consider p where "?segs = [p]" | p q where "?segs = [p, q]"
    by (auto simp: length_Suc_conv numeral_2_eq_2)
  then show ?thesis
  proof cases
    case 1
    with s(1,2) show ?thesis
      by (simp add: reads_outside_def mask_def segments_def outside_double_quoted)
  next
    case (2 p q)
    have "outside False ((double_quoted p @ ''.'' @ double_quoted q) @ t) = ''?.?'' @ outside False t" for t
      using 2 s(2) by (simp add: outside_double_quoted)
    with 2 s(1) show ?thesis
      by (simp add: reads_outside_def mask_def segments_def numeral_2_eq_2)
  qed
qed

interpretation skeleton: sql_reading reads_outside "\<lambda>s. s" mask placeholder
proof
  show "reads_outside (placeholder n) (placeholder n)" for n
  proof -
    have "CHR 0x22 \<notin> set (placeholder n)"
      using nat_to_string_digit [of "CHR 0x22" n] by (auto simp: placeholder_def is_ascii_digit_def)
    then show ?thesis by (simp add: reads_outside_def outside_plain)
  qed
  show "plain s \<Longrightarrow> reads_outside s s" for s
    by (simp add: plain_def reads_outside_def outside_plain)
qed (simp_all add: reads_outside_def reads_outside_identifier [unfolded reads_outside_def])

subsection \<open>The placeholders\<close>

definition no_digit :: "string \<Rightarrow> bool" where
  "no_digit s \<longleftrightarrow> s = [] \<or> \<not> is_ascii_digit (hd s)"

definition reads_refs :: "string \<Rightarrow> string list \<Rightarrow> bool" where
  "reads_refs s ns \<longleftrightarrow> no_digit s \<and> (\<forall>t. no_digit t \<longrightarrow> refs (s @ t) = ns @ refs t)"

lemma refs_trusted: "CHR ''$'' \<notin> set s \<Longrightarrow> refs (s @ t) = refs t"
  by (induction s) auto

lemma refs_placeholder:
  assumes "no_digit t"
  shows "refs (placeholder n @ t) = nat_to_string n # refs t"
proof -
  have "takeWhile is_ascii_digit t = []" using assms by (cases t) (auto simp: no_digit_def)
  then have "takeWhile is_ascii_digit (nat_to_string n @ t) = nat_to_string n"
    using nat_to_string_digit [of _ n] by simp
  moreover have "CHR ''$'' \<notin> set (nat_to_string n)"
    using nat_to_string_digit [of "CHR ''$''" n] by (auto simp: is_ascii_digit_def)
  ultimately show ?thesis by (simp add: placeholder_def refs_trusted)
qed

lemma quoted_identifier_trusted:
  assumes "quote_identifier raw = Inr s"
  shows "CHR ''$'' \<notin> set s" and "no_digit s"
proof -
  obtain segs where segs: "segs \<noteq> []" "length segs \<le> 2" "list_all segment_ok segs"
      "s = join ''.'' (map double_quoted segs)"
    using assms unfolding quote_identifier_Inr by blast
  have "CHR ''$'' \<notin> set (double_quoted p) \<and> hd (double_quoted p) = CHR 0x22" if "p \<in> set segs" for p
    using segs(3) that segment_ok_char [of p] ident_char_safe(2)
    by (fastforce simp: double_quoted_def list_all_iff)
  then show "CHR ''$'' \<notin> set s" unfolding segs(4) by (auto dest!: in_set_join)
  show "no_digit s"
    using segs by (cases segs; cases "tl segs") (auto simp: no_digit_def double_quoted_def is_ascii_digit_def)
qed

interpretation placeholders: sql_reading reads_refs "\<lambda>_. []" "\<lambda>_. []" "\<lambda>n. [nat_to_string n]"
proof
  show "reads_refs s xs \<Longrightarrow> reads_refs t ys \<Longrightarrow> reads_refs (s @ t) (xs @ ys)" for s xs t ys
    by (cases t; cases s) (auto simp: reads_refs_def no_digit_def)
  show "reads_refs (placeholder n) [nat_to_string n]" for n
    by (simp add: reads_refs_def refs_placeholder) (simp add: no_digit_def placeholder_def is_ascii_digit_def)
  show "plain s \<Longrightarrow> reads_refs s []" for s
    by (simp add: reads_refs_def plain_def no_digit_def refs_trusted)
  show "quote_identifier raw = Inr s \<Longrightarrow> reads_refs s []" for raw s
    using quoted_identifier_trusted by (simp add: reads_refs_def refs_trusted)
qed (simp add: reads_refs_def no_digit_def)

lemma join_with_Nil: "join_with [] xs = concat xs"
proof (induction xs)
  case (Cons x xs)
  then show ?case by (cases xs) simp_all
qed simp

lemma concat_Nils [simp]: "concat (map (\<lambda>_. []) xs) = []"
  by simp

lemma map_upt_plus: "map (\<lambda>i. f (n + i)) [0..<a] = map f [n..<n + a]"
  by (rule nth_equalityI) simp_all

definition numerals :: "nat \<Rightarrow> nat \<Rightarrow> string list" where
  "numerals n k = map nat_to_string [n..<n + k]"

lemma numerals_append: "numerals n k @ numerals (n + k) l = numerals n (k + l)"
  using upt_add_eq_append [of n "n + k" l] by (simp add: numerals_def add.assoc flip: map_append)

lemma numerals_one: "numerals n 1 = [nat_to_string n]"
  by (simp add: numerals_def)

lemma refs_of_filter:
  "filter_reading (\<lambda>_. []) (\<lambda>_. []) (\<lambda>n. [nat_to_string n]) n (filter_shape f) =
     numerals n (length (filter_params f))"
proof (cases "fc_op f = OpIn")
  case True
  have "concat (map (\<lambda>i. [nat_to_string (n + i)]) [0..<k]) = numerals n k" for k
    using map_upt_plus [of nat_to_string n k] by (simp add: numerals_def concat_map_singleton)
  with True show ?thesis by (simp add: filter_reading_def filter_shape_def join_with_Nil)
next
  case False
  then have "length (filter_params f) = 1"
    by (cases "fc_value f") (simp_all add: filter_params_def)
  with False show ?thesis by (simp add: filter_reading_def filter_shape_def numerals_one [symmetric])
qed

lemma refs_of_filters:
  "concat (filters_reading (\<lambda>_. []) (\<lambda>_. []) (\<lambda>n. [nat_to_string n]) n (map filter_shape fs)) =
     numerals n (length (concat (map filter_params fs)))"
proof (induction fs arbitrary: n)
  case (Cons f fs)
  have "snd (snd (filter_shape f)) = length (filter_params f)" by (simp add: filter_shape_def)
  with Cons.IH [of "n + length (filter_params f)"] show ?case by (simp add: refs_of_filter numerals_append)
qed (simp add: numerals_def)

lemma refs_of_clauses:
  "concat (clauses_reading (\<lambda>_. []) (\<lambda>_. []) (\<lambda>n. [nat_to_string n]) n cs) = numerals n (length cs)"
proof -
  have "concat (map (\<lambda>(i, k, text). [nat_to_string (n + i)]) (enumerate 0 cs)) =
      map (\<lambda>i. nat_to_string (n + i)) (map fst (enumerate 0 cs))"
    by (simp add: split_def concat_map_singleton del: map_fst_enumerate)
  also have "\<dots> = numerals n (length cs)"
    using map_upt_plus [of nat_to_string n "length cs"] by (simp add: numerals_def)
  finally show ?thesis by (simp add: clauses_reading_def)
qed

lemma refs_of_update:
  "update_reading (\<lambda>_. []) (\<lambda>_. []) (\<lambda>n. [nat_to_string n]) start ks fs = numerals 1 (length ks + length fs)"
  using numerals_append [of 1 "length ks" "length fs"]
  by (simp add: update_reading_def join_with_Nil refs_of_clauses)

lemma refs_of_select:
  "select_reading (\<lambda>_. []) (\<lambda>_. []) (\<lambda>n. [nat_to_string n]) (shape q) =
     numerals 1 (length (concat (map filter_params (qs_filters q))))"
proof -
  have "(case ks of None \<Rightarrow> [] | Some [] \<Rightarrow> [] | Some (k # ks) \<Rightarrow> join_with [] (map (\<lambda>_. []) (k # ks))) = ([] :: string list)"
    for ks :: "nat list option"
    by (simp add: join_with_Nil split: option.split list.split)
  moreover have "(case parts of None \<Rightarrow> [] | Some ps \<Rightarrow> [] @ join_with [] (map (\<lambda>(k, dir). [] @ []) ps)) = ([] :: string list)"
    for parts :: "(nat \<times> string) list option"
    by (simp add: join_with_Nil split_def split: option.split)
  moreover have "numerals 1 0 = []" by (simp add: numerals_def)
  ultimately show ?thesis
    using refs_of_filters [of 1 "qs_filters q"]
    by (simp only: select_reading_def join_with_Nil append_Nil append_Nil2)
      (simp add: shape_def)
qed

lemma build_select_params:
  "build_select q = Inr (sql, params) \<Longrightarrow> params = concat (map filter_params (qs_filters q))"
  by (auto simp: build_select_def where_sql_def split: if_splits dest!: filters_sql_params)

lemma refs_of_reads: "reads_refs s ns \<Longrightarrow> refs s = ns"
  unfolding reads_refs_def by (metis append_Nil2 no_digit_def refs.simps(1))

lemma outside_of_reads: "reads_outside s k \<Longrightarrow> outside False s = k"
  unfolding reads_outside_def by (metis append_Nil2 outside.simps(1))

lemma trusted_names_shape: "shape q = shape q' \<Longrightarrow> trusted_names q \<longleftrightarrow> trusted_names q'"
  by (simp add: shape_def trusted_names_def)

subsection \<open>Safety of the statements\<close>

text \<open>C28: the placeholders of a \<open>SELECT\<close> are \<open>$1\<close>, \<open>$2\<close>, ... in the order of the text, one for each bound parameter, and
  the parameters are the values of the filters in order, with the list of an \<open>IN\<close> filter spread out. The names of the
  table and of the joins must hold no quote and no dollar sign.\<close>

theorem select_placeholders:
  assumes "build_select q = Inr (sql, params)" and "trusted_names q"
  shows "params = concat (map filter_params (qs_filters q)) \<and>
     refs sql = map nat_to_string [1..<length params + 1]"
  using refs_of_reads [OF placeholders.reads_select [OF assms]] build_select_params [OF assms(1)]
  by (simp add: refs_of_select numerals_def)

definition example_query :: "string \<Rightarrow> string \<Rightarrow> string \<Rightarrow> (rat, int) val query_state" where
  "example_query c1 c2 order =
     QueryState ''orders'' [FilterClause c1 OpIn (VList [VInteger 1, VInteger 2]), FilterClause c2 OpLike (VString ''a'')]
       [JoinClause JoinLeft ''users'' ''user_id''] [c1] (Some order) (Some 10) None False None"

theorem select_placeholders_witness:
  "refs (''SELECT '' @ double_quoted ''id'' @ '' FROM orders LEFT JOIN users ON orders.user_id = users.id WHERE '' @
      double_quoted ''id'' @ '' IN ($1, $2) AND '' @ double_quoted ''users'' @ ''.'' @ double_quoted ''name'' @
      '' LIKE $3 ORDER BY '' @ double_quoted ''id'' @ '' desc LIMIT 10'') =
   map nat_to_string [1..<length [VInteger 1, VInteger 2, VString ''a'' :: (rat, int) val] + 1]"
proof -
  have "build_select (example_query ''id'' ''users.name'' ''id desc'') =
     Inr (''SELECT '' @ double_quoted ''id'' @ '' FROM orders LEFT JOIN users ON orders.user_id = users.id WHERE '' @
      double_quoted ''id'' @ '' IN ($1, $2) AND '' @ double_quoted ''users'' @ ''.'' @ double_quoted ''name'' @
      '' LIKE $3 ORDER BY '' @ double_quoted ''id'' @ '' desc LIMIT 10'', [VInteger 1, VInteger 2, VString ''a''])"
    by code_simp
  moreover have "trusted_names (example_query ''id'' ''users.name'' ''id desc'')" by code_simp
  ultimately show ?thesis using select_placeholders by blast
qed

text \<open>C11: the columns of filters, selections and orderings, and the values, cannot change what a \<open>SELECT\<close> does: two queries
  over the same table, with the same joins (whose names hold no quote and no dollar sign), operators, directions and limits, that
  differ only in the names of those columns, of the same number of segments, and in their
  values, with \<open>IN\<close> lists of the same lengths, have the same text outside the quoted identifiers.\<close>

theorem select_noninterference:
  assumes "build_select q = Inr (sql, params)" and "build_select q' = Inr (sql', params')"
    and "shape q = shape q'" and "trusted_names q"
  shows "outside False sql = outside False sql'"
  using outside_of_reads [OF skeleton.reads_select [OF assms(1,4)]]
    outside_of_reads [OF skeleton.reads_select [OF assms(2)]] trusted_names_shape [OF assms(3)] assms(3,4)
  by simp

theorem select_noninterference_witness:
  "outside False (''SELECT '' @ double_quoted ''id'' @ '' FROM orders LEFT JOIN users ON orders.user_id = users.id WHERE '' @
      double_quoted ''id'' @ '' IN ($1, $2) AND '' @ double_quoted ''users'' @ ''.'' @ double_quoted ''name'' @
      '' LIKE $3 ORDER BY '' @ double_quoted ''id'' @ '' desc LIMIT 10'') =
   outside False (''SELECT '' @ double_quoted ''total'' @ '' FROM orders LEFT JOIN users ON orders.user_id = users.id WHERE '' @
      double_quoted ''total'' @ '' IN ($1, $2) AND '' @ double_quoted ''orders'' @ ''.'' @ double_quoted ''note'' @
      '' LIKE $3 ORDER BY '' @ double_quoted ''total'' @ '' desc LIMIT 10'')"
proof -
  let ?vs = "[VInteger 1, VInteger 2, VString ''a'']"
  have q: "build_select (example_query ''id'' ''users.name'' ''id desc'') =
     Inr (''SELECT '' @ double_quoted ''id'' @ '' FROM orders LEFT JOIN users ON orders.user_id = users.id WHERE '' @
      double_quoted ''id'' @ '' IN ($1, $2) AND '' @ double_quoted ''users'' @ ''.'' @ double_quoted ''name'' @
      '' LIKE $3 ORDER BY '' @ double_quoted ''id'' @ '' desc LIMIT 10'', ?vs)"
    by code_simp
  have q': "build_select (example_query ''total'' ''orders.note'' '' total   desc'') =
     Inr (''SELECT '' @ double_quoted ''total'' @ '' FROM orders LEFT JOIN users ON orders.user_id = users.id WHERE '' @
      double_quoted ''total'' @ '' IN ($1, $2) AND '' @ double_quoted ''orders'' @ ''.'' @ double_quoted ''note'' @
      '' LIKE $3 ORDER BY '' @ double_quoted ''total'' @ '' desc LIMIT 10'', ?vs)"
    by code_simp
  show ?thesis
    by (rule select_noninterference [OF q q']) code_simp+
qed

text \<open>In the \<open>UPDATE\<close> and the \<open>DELETE\<close> of a filtered query the placeholders are again the numbers of the bound
  parameters in order: the new values, then the values of the filters.\<close>

theorem update_delete_placeholders:
  assumes "trusted (qs_table q)"
  shows "(query_update_statement q data = Inr (sql, params) \<longrightarrow>
       refs sql = map nat_to_string [1..<length params + 1]) \<and>
     (query_delete_statement q = Inr (sql', params') \<longrightarrow>
       refs sql' = map nat_to_string [1..<length params' + 1])"
proof (intro conjI impI)
  assume u: "query_update_statement q data = Inr (sql, params)"
  obtain n where b: "build_update (qs_table q) (sort (map fst data)) (qs_filters q) (qs_known_columns q) = Inr (sql, n)"
    and len: "length params = length data + length (qs_filters q)"
    using u by (auto simp: query_update_statement_def Let_def row_values_def)
  show "refs sql = map nat_to_string [1..<length params + 1]"
    using refs_of_reads [OF placeholders.reads_update [OF b assms]] len
    by (simp add: refs_of_update numerals_def)
next
  assume d: "query_delete_statement q = Inr (sql', params')"
  obtain n where b: "build_delete (qs_table q) (qs_filters q) (qs_known_columns q) = Inr (sql', n)"
    and len: "length params' = length (qs_filters q)"
    using d by (auto simp: query_delete_statement_def)
  show "refs sql' = map nat_to_string [1..<length params' + 1]"
    using refs_of_reads [OF placeholders.reads_delete [OF b assms]] len
    by (simp add: refs_of_update numerals_def)
qed

theorem update_delete_placeholders_witness:
  "refs (''UPDATE orders SET '' @ double_quoted ''note'' @ '' = $1, '' @ double_quoted ''status'' @ '' = $2 WHERE '' @
      double_quoted ''id'' @ '' = $3'') = [''1'', ''2'', ''3''] \<and>
   refs (''DELETE FROM orders WHERE '' @ double_quoted ''id'' @ '' = $1'') = [''1'']"
proof -
  let ?q = "QueryState ''orders'' [FilterClause ''id'' OpEq (VInteger 7 :: (rat, int) val)] [] [] None None None False None"
  let ?data = "[(''status'', VString ''paid''), (''note'', VNull)]"
  have u: "query_update_statement ?q ?data =
      Inr (''UPDATE orders SET '' @ double_quoted ''note'' @ '' = $1, '' @ double_quoted ''status'' @ '' = $2 WHERE '' @
      double_quoted ''id'' @ '' = $3'', [VNull, VString ''paid'', VInteger 7])"
    by code_simp
  have d: "query_delete_statement ?q =
      Inr (''DELETE FROM orders WHERE '' @ double_quoted ''id'' @ '' = $1'', [VInteger 7])"
    by code_simp
  have t: "trusted (qs_table ?q)" by simp
  note conjunct1 [OF update_delete_placeholders [OF t], rule_format, OF u]
    and conjunct2 [OF update_delete_placeholders [OF t], rule_format, OF d]
  moreover have "map nat_to_string [1..<4] = [''1'', ''2'', ''3'']" "map nat_to_string [1..<2] = [''1'']"
    by code_simp+
  ultimately show ?thesis by (simp add: eval_nat_numeral del: upt_Suc)
qed

subsection \<open>Where the guard does not reach\<close>

text \<open>\<open>IN\<close> with a list is spread into one placeholder per element by \<open>build_select\<close> only: the same filter in
  front of a delete or an update gives \<open>IN $1\<close>, with the whole list as the one parameter. An empty list makes a
  \<open>SELECT\<close> with \<open>IN ()\<close>.\<close>

lemma in_filter_not_expanded:
  "query_delete_statement (QueryState ''t'' [FilterClause ''a'' OpIn (VList vs)] [] [] None None None False None) =
     Inr (''DELETE FROM t WHERE '' @ double_quoted ''a'' @ '' IN $1'', [VList vs])"
proof -
  have "validate_column ''a'' None = Inr (double_quoted ''a'')" "placeholder 1 = ''$1''" by code_simp+
  then show ?thesis
    by (simp add: query_delete_statement_def build_delete_def clause_sql_def double_quoted_def)
qed

lemma in_filter_empty:
  "build_select (QueryState ''t'' [FilterClause ''a'' OpIn (VList [] :: (rat, int) val)] [] [] None None None False None) =
     Inr (''SELECT * FROM t WHERE '' @ double_quoted ''a'' @ '' IN ()'', [])"
  by code_simp

text \<open>\<open>save\<close> and \<open>update_by_id\<close> do not go through the query builder: the keys of the row, which may be those of a
  request body, are spliced into the statement as they are.\<close>

lemma save_key_verbatim:
  "save_statement table [(key, v)] =
     (''INSERT INTO '' @ table @ '' ('' @ key @ '') VALUES ($1) RETURNING *'', [v])"
  "update_by_id_statement table rid [(key, v)] =
     (''UPDATE '' @ table @ '' SET '' @ key @ '' = $1 WHERE id = $2 RETURNING *'', [v, rid])"
proof -
  have "placeholder 1 = ''$1''" "placeholder 2 = ''$2''" by code_simp+
  then show "save_statement table [(key, v)] =
     (''INSERT INTO '' @ table @ '' ('' @ key @ '') VALUES ($1) RETURNING *'', [v])"
    "update_by_id_statement table rid [(key, v)] =
     (''UPDATE '' @ table @ '' SET '' @ key @ '' = $1 WHERE id = $2 RETURNING *'', [v, rid])"
    by (simp_all add: save_statement_def update_by_id_statement_def row_values_def numeral_2_eq_2)
qed

text \<open>The names of a join are spliced in as well: a key can end the statement and start another.\<close>

lemma join_key_changes_statement:
  "build_select (QueryState ''orders'' [] [JoinClause JoinInner ''users'' ''id = 1; DROP TABLE users; --''] [] None
      None None False None :: (rat, int) val query_state) =
     Inr (''SELECT * FROM orders INNER JOIN users ON orders.id = 1; DROP TABLE users; -- = users.id'', [])"
  by code_simp

lemma save_key_changes_statement:
  "fst (save_statement ''notes'' [(''body) SELECT secret FROM users WHERE $1 = $1 --'', v)]) =
     ''INSERT INTO notes (body) SELECT secret FROM users WHERE $1 = $1 --) VALUES ($1) RETURNING *''"
  by (simp add: save_key_verbatim)

end
