(* ===== verification/Validator.thy ===== *)
theory Validator
  imports Value_Laws
begin

text \<open>
  \<^verbatim>\<open>src/src/validator.rs\<close>: validation and coercion of a payload against a schema, and of the text inputs of
  a query string or of headers; with \<open>SchemaDefinition\<close> of \<^verbatim>\<open>src/src/route_loader.rs\<close>.

  The registry of schemas, a \<open>HashMap\<close>, is an association list. The parameter \<open>json\<close> is the text \<open>serde_json\<close> gives
  the object with the one key \<open>error\<close>. The mutual recursion of the source is one function, \<open>coerce_field_type\<close>, that
  hands itself to \<open>coerce_recursive\<close>; the depth test of the latter bounds it, so the function is total. The stack
  \<open>on_path\<close> is an argument: a push lasts as long as the nested call.
\<close>

record schema_definition =
  sd_db_table :: "string option"
  sd_fields :: "schema_field list"

type_synonym registry = "(string \<times> schema_definition) list"

definition MAX_DEPTH :: nat where
  "MAX_DEPTH = 20"

definition error_422 :: "(string \<Rightarrow> string) \<Rightarrow> string \<Rightarrow> fault" where
  "error_422 json msg = Err (HttpResponse 422 (json msg) ''application/json'' [] True)"

definition in_quotes :: "string \<Rightarrow> string" where
  "in_quotes s = [CHR 0x27] @ s @ [CHR 0x27]"

definition field_error :: "(string \<Rightarrow> string) \<Rightarrow> string \<Rightarrow> string \<Rightarrow> fault + 'a" where
  "field_error json path msg = Inl (error_422 json (''field '' @ in_quotes path @ msg))"

definition field_path :: "string \<Rightarrow> string \<Rightarrow> string" where
  "field_path prefix name = (if prefix = [] then name else prefix @ ''.'' @ name)"

fun schema_type_display :: "schema_type \<Rightarrow> string" where
  "schema_type_display StringType = ''string''"
| "schema_type_display IntegerType = ''integer''"
| "schema_type_display FloatType = ''float''"
| "schema_type_display DecimalType = ''decimal''"
| "schema_type_display BooleanType = ''boolean''"
| "schema_type_display InstantType = ''instant''"
| "schema_type_display DateType = ''date''"
| "schema_type_display TimeType = ''time''"
| "schema_type_display DurationType = ''duration''"
| "schema_type_display IntervalType = ''interval''"
| "schema_type_display ListType = ''list''"
| "schema_type_display MapType = ''map''"
| "schema_type_display (EnumType values) = ''enum ['' @ join '', '' (map quote values) @ '']''"
| "schema_type_display (Reference name) = name"
| "schema_type_display (TypedList inner) = ''list of '' @ schema_type_display inner"

subsection \<open>Scalars\<close>

definition got :: "string \<Rightarrow> ('d, 't) val \<Rightarrow> string" where
  "got expected v = '' expected '' @ expected @ '', got '' @ type_name v"

definition expect_direct_type ::
    "(string \<Rightarrow> string) \<Rightarrow> ('d, 't) val \<Rightarrow> schema_type \<Rightarrow> string \<Rightarrow> fault + ('d, 't) val" where
  "expect_direct_type json v expected path =
     (if (case (v, expected) of
            (VString _, StringType) \<Rightarrow> True
          | (VInteger _, IntegerType) \<Rightarrow> True
          | (VFloat _, FloatType) \<Rightarrow> True
          | (VBoolean _, BooleanType) \<Rightarrow> True
          | (VList _, ListType) \<Rightarrow> True
          | (VMap _, MapType) \<Rightarrow> True
          | _ \<Rightarrow> False)
      then Inr v
      else field_error json path (got (schema_type_display expected) v))"

definition coerce_enum ::
    "(string \<Rightarrow> string) \<Rightarrow> ('d, 't) val \<Rightarrow> string list \<Rightarrow> string \<Rightarrow> fault + ('d, 't) val" where
  "coerce_enum json v values path =
     (case v of
        VString s \<Rightarrow>
          if s \<in> set values then Inr v
          else field_error json path ('' expected one of ['' @ join '', '' values @ ''], got '' @ in_quotes s)
      | _ \<Rightarrow> field_error json path (got ''enum string'' v))"

definition coerce_decimal ::
    "('d, 't) ext \<Rightarrow> (string \<Rightarrow> string) \<Rightarrow> ('d, 't) val \<Rightarrow> string \<Rightarrow> fault + ('d, 't) val" where
  "coerce_decimal x json v path =
     (case v of
        VDecimal _ \<Rightarrow> Inr v
      | VInteger n \<Rightarrow> Inr (VDecimal (dec_from_i64 x n))
      | VString s \<Rightarrow>
          if CHR ''e'' \<notin> set s \<and> CHR ''E'' \<notin> set s then
            (case dec_parse x s of
               Some d \<Rightarrow> Inr (VDecimal d)
             | None \<Rightarrow> field_error json path '' expected decimal string'')
          else field_error json path '' expected plain decimal string, got scientific notation''
      | _ \<Rightarrow> field_error json path (got ''decimal'' v))"

definition coerce_instant ::
    "('d, 't) ext \<Rightarrow> (string \<Rightarrow> string) \<Rightarrow> ('d, 't) val \<Rightarrow> string \<Rightarrow> fault + ('d, 't) val" where
  "coerce_instant x json v path =
     (case v of
        VInstant _ \<Rightarrow> Inr v
      | VString s \<Rightarrow>
          (case parse_instant x s of
             Some dt \<Rightarrow> Inr (VInstant dt)
           | None \<Rightarrow> field_error json path '' expected instant RFC3339 string'')
      | _ \<Rightarrow> field_error json path (got ''instant'' v))"

definition coerce_date ::
    "('d, 't) ext \<Rightarrow> (string \<Rightarrow> string) \<Rightarrow> ('d, 't) val \<Rightarrow> string \<Rightarrow> fault + ('d, 't) val" where
  "coerce_date x json v path =
     (case v of
        VDate _ \<Rightarrow> Inr v
      | VString s \<Rightarrow>
          (case parse_date x s of
             Some d \<Rightarrow> Inr (VDate d)
           | None \<Rightarrow> field_error json path '' expected date YYYY-MM-DD string'')
      | _ \<Rightarrow> field_error json path (got ''date'' v))"

definition coerce_time ::
    "('d, 't) ext \<Rightarrow> (string \<Rightarrow> string) \<Rightarrow> ('d, 't) val \<Rightarrow> string \<Rightarrow> fault + ('d, 't) val" where
  "coerce_time x json v path =
     (case v of
        VTime _ \<Rightarrow> Inr v
      | VString s \<Rightarrow>
          (case parse_time x s of
             Some t \<Rightarrow> Inr (VTime t)
           | None \<Rightarrow> field_error json path '' expected time HH:MM:SS string'')
      | _ \<Rightarrow> field_error json path (got ''time'' v))"

text \<open>\<open>ChronoDuration::milliseconds\<close> panics out of its range. The outer option of \<open>parse_duration_string\<close> is the
  \<open>Result\<close>, the inner one the panic.\<close>

definition strip_suffix_char :: "char \<Rightarrow> string \<Rightarrow> string option" where
  "strip_suffix_char c s = (if s \<noteq> [] \<and> last s = c then Some (butlast s) else None)"

definition parse_duration_string :: "('d, 't) ext \<Rightarrow> string \<Rightarrow> 't option option" where
  "parse_duration_string x input =
     (case Option.bind (strip_prefix ''PT'' input) (\<lambda>s. Option.bind (strip_suffix_char (CHR ''S'') s) parse_f64) of
        None \<Rightarrow> None
      | Some seconds \<Rightarrow>
          Some (dur_milliseconds x (f64_to_i64 (f64_round (f64_mul seconds (round64 1000))))))"

definition duration_value :: "'t option \<Rightarrow> fault + ('d, 't) val" where
  "duration_value d = (case d of Some t \<Rightarrow> Inr (VDuration t) | None \<Rightarrow> Inl Panicked)"

definition coerce_duration ::
    "('d, 't) ext \<Rightarrow> (string \<Rightarrow> string) \<Rightarrow> ('d, 't) val \<Rightarrow> string \<Rightarrow> fault + ('d, 't) val" where
  "coerce_duration x json v path =
     (case v of
        VDuration _ \<Rightarrow> Inr v
      | VInteger ms \<Rightarrow> duration_value (dur_milliseconds x ms)
      | VFloat ms \<Rightarrow> duration_value (dur_milliseconds x (f64_to_i64 ms))
      | VString s \<Rightarrow>
          (case parse_duration_string x s of
             Some d \<Rightarrow> duration_value d
           | None \<Rightarrow> field_error json path '' expected duration string like PT3600S'')
      | _ \<Rightarrow> field_error json path (got ''duration'' v))"

definition coerce_temporal_component ::
    "('d, 't) ext \<Rightarrow> (string \<Rightarrow> string) \<Rightarrow> ('d, 't) val \<Rightarrow> string \<Rightarrow> fault + 't temporal_value" where
  "coerce_temporal_component x json v path =
     (case v of
        VInstant dt \<Rightarrow> Inr (TvInstant dt)
      | VDate d \<Rightarrow> Inr (TvDate d)
      | VTime t \<Rightarrow> Inr (TvTime t)
      | VString s \<Rightarrow>
          (case parse_instant x s of
             Some dt \<Rightarrow> Inr (TvInstant dt)
           | None \<Rightarrow>
               (case parse_date x s of
                  Some d \<Rightarrow> Inr (TvDate d)
                | None \<Rightarrow>
                    (case parse_time x s of
                       Some t \<Rightarrow> Inr (TvTime t)
                     | None \<Rightarrow> field_error json path '' expected temporal string'')))
      | _ \<Rightarrow> field_error json path (got ''temporal value'' v))"

fun same_temporal_kind :: "'t temporal_value \<Rightarrow> 't temporal_value \<Rightarrow> bool" where
  "same_temporal_kind (TvInstant _) (TvInstant _) = True"
| "same_temporal_kind (TvDate _) (TvDate _) = True"
| "same_temporal_kind (TvTime _) (TvTime _) = True"
| "same_temporal_kind _ _ = False"

definition ensure_same_temporal_component_kind ::
    "(string \<Rightarrow> string) \<Rightarrow> 't temporal_value \<Rightarrow> 't temporal_value \<Rightarrow> string \<Rightarrow> fault + unit" where
  "ensure_same_temporal_component_kind json start end' path =
     (if same_temporal_kind start end' then Inr ()
      else field_error json path '' interval start and end must share the same temporal type'')"

definition coerce_interval ::
    "('d, 't) ext \<Rightarrow> (string \<Rightarrow> string) \<Rightarrow> ('d, 't) val \<Rightarrow> string \<Rightarrow> fault + ('d, 't) val" where
  "coerce_interval x json v path =
     (case v of
        VInterval _ \<Rightarrow> Inr v
      | VMap m \<Rightarrow>
          (case (map_of m ''start'', map_of m ''end'') of
             (None, _) \<Rightarrow> field_error json (path @ ''.start'') '' is required''
           | (_, None) \<Rightarrow> field_error json (path @ ''.end'') '' is required''
           | (Some start, Some end') \<Rightarrow>
               rbind (coerce_temporal_component x json start (path @ ''.start'')) (\<lambda>s.
               rbind (coerce_temporal_component x json end' (path @ ''.end'')) (\<lambda>e.
               rbind (ensure_same_temporal_component_kind json s e path) (\<lambda>_.
                 Inr (VInterval (TemporalInterval s e))))))
      | _ \<Rightarrow> field_error json path (got ''interval object'' v))"

text \<open>The branches of \<open>coerce_field_type\<close> that do not recurse; \<open>Reference\<close> and \<open>TypedList\<close> do not reach the last line.\<close>

fun coerce_leaf ::
    "('d, 't) ext \<Rightarrow> (string \<Rightarrow> string) \<Rightarrow> schema_type \<Rightarrow> ('d, 't) val \<Rightarrow> string \<Rightarrow> fault + ('d, 't) val" where
  "coerce_leaf x json DecimalType v path = coerce_decimal x json v path"
| "coerce_leaf x json InstantType v path = coerce_instant x json v path"
| "coerce_leaf x json DateType v path = coerce_date x json v path"
| "coerce_leaf x json TimeType v path = coerce_time x json v path"
| "coerce_leaf x json DurationType v path = coerce_duration x json v path"
| "coerce_leaf x json IntervalType v path = coerce_interval x json v path"
| "coerce_leaf x json (EnumType values) v path = coerce_enum json v values path"
| "coerce_leaf x json expected v path = expect_direct_type json v expected path"

subsection \<open>Objects\<close>

fun is_null :: "('d, 't) val \<Rightarrow> bool" where
  "is_null VNull = True"
| "is_null _ = False"

text \<open>One turn of the loop over the fields: what to insert into the result, if anything.\<close>

definition coerce_field ::
    "(string \<Rightarrow> string) \<Rightarrow> (string \<Rightarrow> schema_type \<Rightarrow> ('d, 't) val \<Rightarrow> fault + ('d, 't) val) \<Rightarrow>
     ('d, 't) val value_map \<Rightarrow> string \<Rightarrow> schema_field \<Rightarrow> fault + (string \<times> ('d, 't) val) option" where
  "coerce_field json coerce_type m path_prefix field =
     (let path = field_path path_prefix (sf_name field)
      in case map_of m (sf_name field) of
           None \<Rightarrow> if sf_optional field then Inr None else field_error json path '' is required''
         | Some v \<Rightarrow>
             if is_null v then
               (if sf_optional field then Inr (Some (sf_name field, VNull))
                else field_error json path '' is required (got null)'')
             else rbind (coerce_type path (sf_field_type field) v) (\<lambda>coerced.
                    Inr (Some (sf_name field, coerced))))"

definition insert_coerced :: "(string \<times> 'v) option \<Rightarrow> 'v value_map \<Rightarrow> 'v value_map" where
  "insert_coerced u out = (case u of None \<Rightarrow> out | Some (k, v) \<Rightarrow> AList.update k v out)"

definition coerce_recursive ::
    "(string \<Rightarrow> string) \<Rightarrow> (string \<Rightarrow> schema_type \<Rightarrow> ('d, 't) val \<Rightarrow> fault + ('d, 't) val) \<Rightarrow>
     schema_definition \<Rightarrow> string \<Rightarrow> nat \<Rightarrow> ('d, 't) val \<Rightarrow> fault + ('d, 't) val" where
  "coerce_recursive json coerce_type schema path_prefix depth payload =
     (if MAX_DEPTH < depth then Inl (error_422 json ''schema validation exceeded maximum nesting depth'')
      else case payload of
        VMap m \<Rightarrow>
          rbind (rmap (coerce_field json coerce_type m path_prefix) (sd_fields schema)) (\<lambda>updates.
            Inr (VMap (fold insert_coerced updates m)))
      | VNull \<Rightarrow>
          (case find (\<lambda>field. \<not> sf_optional field) (sd_fields schema) of
             Some field \<Rightarrow>
               field_error json (field_path path_prefix (sf_name field))
                 '' is required but payload is null or missing''
           | None \<Rightarrow> Inr VNull)
      | _ \<Rightarrow> Inl (error_422 json ''payload must be a JSON object''))"

lemma coerce_recursive_cong [fundef_cong]:
  assumes "json = json'" "schema = schema'" "path_prefix = path_prefix'" "depth = depth'" "payload = payload'"
    and "\<And>path ty v. depth' \<le> MAX_DEPTH \<Longrightarrow> coerce_type path ty v = coerce_type' path ty v"
  shows "coerce_recursive json coerce_type schema path_prefix depth payload =
     coerce_recursive json' coerce_type' schema' path_prefix' depth' payload'"
proof -
  have "coerce_type = coerce_type'" if "depth' \<le> MAX_DEPTH"
    using assms(6) that by (simp add: fun_eq_iff)
  then show ?thesis
    using assms(1-5) by (cases "depth' \<le> MAX_DEPTH") (simp_all add: coerce_recursive_def)
qed

definition coerce_elements ::
    "(string \<Rightarrow> ('d, 't) val \<Rightarrow> fault + ('d, 't) val) \<Rightarrow> string \<Rightarrow> ('d, 't) val list \<Rightarrow>
     fault + ('d, 't) val list" where
  "coerce_elements coerce path l =
     rmap (\<lambda>(i, elem). coerce (path @ ''['' @ nat_to_string i @ '']'') elem) (enumerate 0 l)"

lemma coerce_elements_cong [fundef_cong]:
  assumes "path = path'" "l = l'" and "\<And>p v. coerce p v = coerce' p v"
  shows "coerce_elements coerce path l = coerce_elements coerce' path' l'"
  using assms by (simp add: coerce_elements_def)

function coerce_field_type ::
    "('d, 't) ext \<Rightarrow> (string \<Rightarrow> string) \<Rightarrow> registry \<Rightarrow> nat \<Rightarrow> string list \<Rightarrow> string \<Rightarrow> schema_type \<Rightarrow>
     ('d, 't) val \<Rightarrow> fault + ('d, 't) val" where
  "coerce_field_type x json schemas depth on_path path expected v =
     (case expected of
        Reference schema_name \<Rightarrow>
          (case map_of schemas schema_name of
             Some nested_schema \<Rightarrow>
               if sd_db_table nested_schema \<noteq> None then Inr v
               else if schema_name \<in> set on_path then
                 field_error json path ('' forms an infinite schema reference cycle via '' @ in_quotes schema_name)
               else coerce_recursive json
                 (coerce_field_type x json schemas (depth + 1) (on_path @ [schema_name]))
                 nested_schema path (depth + 1) v
           | None \<Rightarrow>
               if schema_name \<in> set on_path then
                 field_error json path ('' forms an infinite schema reference cycle via '' @ in_quotes schema_name)
               else field_error json path ('' references unknown schema '' @ in_quotes schema_name))
      | TypedList inner \<Rightarrow>
          (case v of
             VList l \<Rightarrow>
               map_sum id VList
                 (coerce_elements (\<lambda>p. coerce_field_type x json schemas depth on_path p inner) path l)
           | _ \<Rightarrow> field_error json path (got ''array'' v))
      | _ \<Rightarrow> coerce_leaf x json expected v path)"
  by pat_completeness auto
termination
  by (relation "inv_image (less_than <*lex*> less_than)
        (\<lambda>(x, json, schemas, depth, on_path, path, expected, v). (MAX_DEPTH + 1 - depth, size expected))")
    auto

declare coerce_field_type.simps [simp del]

definition coerce_payload ::
    "('d, 't) ext \<Rightarrow> (string \<Rightarrow> string) \<Rightarrow> ('d, 't) val \<Rightarrow> schema_definition \<Rightarrow> registry \<Rightarrow>
     fault + ('d, 't) val" where
  "coerce_payload x json payload schema schemas =
     coerce_recursive json (coerce_field_type x json schemas 0 []) schema [] 0 payload"

definition validate_payload ::
    "('d, 't) ext \<Rightarrow> (string \<Rightarrow> string) \<Rightarrow> ('d, 't) val \<Rightarrow> schema_definition \<Rightarrow> registry \<Rightarrow>
     fault + unit" where
  "validate_payload x json payload schema schemas = map_sum id (\<lambda>_. ()) (coerce_payload x json payload schema schemas)"

subsection \<open>Text inputs\<close>

definition canonical_header_key :: "string \<Rightarrow> string" where
  "canonical_header_key name = map (\<lambda>c. if c = CHR ''-'' then CHR ''_'' else c) (map to_ascii_lower name)"

fun coerce_scalar_string ::
    "('d, 't) ext \<Rightarrow> (string \<Rightarrow> string) \<Rightarrow> string \<Rightarrow> schema_type \<Rightarrow> string \<Rightarrow> fault + ('d, 't) val" where
  "coerce_scalar_string x json s StringType path = Inr (VString s)"
| "coerce_scalar_string x json s IntegerType path =
     (case parse_i64 s of
        Some n \<Rightarrow> Inr (VInteger n)
      | None \<Rightarrow> field_error json path ('' must be an integer, got '' @ in_quotes s))"
| "coerce_scalar_string x json s FloatType path =
     (case parse_f64 s of
        Some n \<Rightarrow> Inr (VFloat n)
      | None \<Rightarrow> field_error json path ('' must be a number, got '' @ in_quotes s))"
| "coerce_scalar_string x json s BooleanType path =
     (if s = ''true'' then Inr (VBoolean True)
      else if s = ''false'' then Inr (VBoolean False)
      else field_error json path ('' must be true or false, got '' @ in_quotes s))"
| "coerce_scalar_string x json s DecimalType path = coerce_decimal x json (VString s) path"
| "coerce_scalar_string x json s InstantType path = coerce_instant x json (VString s) path"
| "coerce_scalar_string x json s DateType path = coerce_date x json (VString s) path"
| "coerce_scalar_string x json s TimeType path = coerce_time x json (VString s) path"
| "coerce_scalar_string x json s DurationType path = coerce_duration x json (VString s) path"
| "coerce_scalar_string x json s IntervalType path = coerce_interval x json (VString s) path"
| "coerce_scalar_string x json s (EnumType values) path = coerce_enum json (VString s) values path"
| "coerce_scalar_string x json s _ path =
     field_error json path '' has a type that cannot be read from query or headers''"

text \<open>The inputs under their normalised names: of two names that become equal the one the \<open>HashMap\<close> lists
  last is kept.\<close>

definition normalized_inputs :: "(string \<times> string list) list \<Rightarrow> bool \<Rightarrow> (string \<times> string list) list" where
  "normalized_inputs inputs header_names =
     (if header_names then fold (\<lambda>(k, v). AList.update (canonical_header_key k) v) inputs [] else inputs)"

definition present_values ::
    "(string \<times> string list) list \<Rightarrow> bool \<Rightarrow> string \<Rightarrow> string list" where
  "present_values normalized header_names name =
     (case map_of normalized (if header_names then canonical_header_key name else name) of
        Some vals \<Rightarrow> filter (\<lambda>s. s \<noteq> []) vals
      | None \<Rightarrow> [])"

definition coerce_input_field ::
    "('d, 't) ext \<Rightarrow> (string \<Rightarrow> string) \<Rightarrow> (string \<Rightarrow> string list) \<Rightarrow> schema_field \<Rightarrow>
     fault + (string \<times> ('d, 't) val) option" where
  "coerce_input_field x json present_of field =
     (case (sf_field_type field, present_of (sf_name field)) of
        (_, []) \<Rightarrow>
          if sf_optional field then Inr None else field_error json (sf_name field) '' is required''
      | (TypedList inner, present) \<Rightarrow>
          rbind (rmap (\<lambda>s. coerce_scalar_string x json s inner (sf_name field)) present) (\<lambda>items.
            Inr (Some (sf_name field, VList items)))
      | (ListType, present) \<Rightarrow> Inr (Some (sf_name field, VList (map VString present)))
      | (scalar, s # _) \<Rightarrow>
          rbind (coerce_scalar_string x json s scalar (sf_name field)) (\<lambda>v.
            Inr (Some (sf_name field, v))))"

definition coerce_scalar_input ::
    "('d, 't) ext \<Rightarrow> (string \<Rightarrow> string) \<Rightarrow> (string \<times> string list) list \<Rightarrow> schema_definition \<Rightarrow> bool \<Rightarrow>
     fault + ('d, 't) val" where
  "coerce_scalar_input x json inputs schema header_names =
     rbind (rmap (coerce_input_field x json
              (present_values (normalized_inputs inputs header_names) header_names)) (sd_fields schema))
       (\<lambda>updates. Inr (VMap (fold insert_coerced updates [])))"

fun is_scalar :: "schema_type \<Rightarrow> bool" where
  "is_scalar ListType = False"
| "is_scalar MapType = False"
| "is_scalar (Reference _) = False"
| "is_scalar (TypedList _) = False"
| "is_scalar _ = True"

fun flat_type :: "schema_type \<Rightarrow> bool" where
  "flat_type ListType = True"
| "flat_type (TypedList inner) = is_scalar inner"
| "flat_type t = is_scalar t"

definition first_non_flat_field :: "schema_definition \<Rightarrow> string option" where
  "first_non_flat_field schema =
     map_option sf_name (find (\<lambda>field. \<not> flat_type (sf_field_type field)) (sd_fields schema))"

end
