(* ===== verification/Validator_Laws.thy ===== *)
theory Validator_Laws
  imports Validator
begin

text \<open>
  What the validator of \<^verbatim>\<open>src/src/validator.rs\<close> promises: the value it returns has the type of the schema, validating it again
  changes nothing, only declared fields are touched, and a refusal is always a response with status 422.
\<close>

subsection \<open>Specification\<close>

fun leaf_type :: "schema_type \<Rightarrow> ('d, 't) val \<Rightarrow> bool" where
  "leaf_type StringType v \<longleftrightarrow> type_name v = ''String''"
| "leaf_type IntegerType v \<longleftrightarrow> type_name v = ''Integer''"
| "leaf_type FloatType v \<longleftrightarrow> type_name v = ''Float''"
| "leaf_type DecimalType v \<longleftrightarrow> type_name v = ''Decimal''"
| "leaf_type BooleanType v \<longleftrightarrow> type_name v = ''Boolean''"
| "leaf_type InstantType v \<longleftrightarrow> type_name v = ''Instant''"
| "leaf_type DateType v \<longleftrightarrow> type_name v = ''Date''"
| "leaf_type TimeType v \<longleftrightarrow> type_name v = ''Time''"
| "leaf_type DurationType v \<longleftrightarrow> type_name v = ''Duration''"
| "leaf_type IntervalType v \<longleftrightarrow> type_name v = ''Interval''"
| "leaf_type ListType v \<longleftrightarrow> type_name v = ''List''"
| "leaf_type MapType v \<longleftrightarrow> type_name v = ''Map''"
| "leaf_type (EnumType values) v \<longleftrightarrow> (\<exists>s \<in> set values. v = VString s)"
| "leaf_type _ v \<longleftrightarrow> False"

text \<open>An object of a schema: a required field is there and not null, and every field that is there and not
  null has its type.\<close>

definition object_ok ::
    "(schema_type \<Rightarrow> ('d, 't) val \<Rightarrow> bool) \<Rightarrow> schema_definition \<Rightarrow> ('d, 't) val \<Rightarrow> bool" where
  "object_ok P schema v \<longleftrightarrow>
     (case v of
        VMap m \<Rightarrow> \<forall>f \<in> set (sd_fields schema).
          (case map_of m (sf_name f) of
             None \<Rightarrow> sf_optional f
           | Some w \<Rightarrow> if is_null w then sf_optional f else P (sf_field_type f) w)
      | VNull \<Rightarrow> \<forall>f \<in> set (sd_fields schema). sf_optional f
      | _ \<Rightarrow> False)"

lemma object_ok_mono [mono]:
  assumes "\<And>t w. P t w \<longrightarrow> Q t w"
  shows "object_ok P schema v \<longrightarrow> object_ok Q schema v"
  using assms by (cases v) (auto simp: object_ok_def split: option.splits if_splits)

text \<open>A reference to a schema with a table is a foreign key and is not looked into; any other reference is an embedded
  object.\<close>

inductive has_type :: "registry \<Rightarrow> schema_type \<Rightarrow> ('d, 't) val \<Rightarrow> bool" for schemas where
  leaf: "leaf_type t v \<Longrightarrow> has_type schemas t v"
| foreign_key: "map_of schemas n = Some sd \<Longrightarrow> sd_db_table sd \<noteq> None \<Longrightarrow> has_type schemas (Reference n) v"
| embedded: "map_of schemas n = Some sd \<Longrightarrow> sd_db_table sd = None \<Longrightarrow> object_ok (has_type schemas) sd v \<Longrightarrow>
    has_type schemas (Reference n) v"
| typed_list: "\<forall>v \<in> set l. has_type schemas t v \<Longrightarrow> has_type schemas (TypedList t) (VList l)"

definition distinct_fields :: "schema_definition \<Rightarrow> bool" where
  "distinct_fields schema \<longleftrightarrow> distinct (map sf_name (sd_fields schema))"

definition registry_ok :: "registry \<Rightarrow> bool" where
  "registry_ok schemas \<longleftrightarrow> list_all (\<lambda>(n, sd). distinct_fields sd) schemas"

text \<open>The outcomes of a validation: a value that satisfies \<open>P\<close>, a response 422, or the panic of a duration out of
  range.\<close>

definition outcome :: "(string \<Rightarrow> string) \<Rightarrow> ('a \<Rightarrow> bool) \<Rightarrow> fault + 'a \<Rightarrow> bool" where
  "outcome json P r \<longleftrightarrow> (case r of Inr w \<Rightarrow> P w | Inl e \<Rightarrow> e = Panicked \<or> (\<exists>msg. e = error_422 json msg))"

lemma outcome_simps [simp]:
  "outcome json P (Inr w) = P w"
  "outcome json P (Inl Panicked)"
  "outcome json P (Inl (error_422 json msg))"
  "outcome json P (field_error json path msg)"
  by (auto simp: outcome_def field_error_def)

lemma outcome_rbind:
  assumes "outcome json Q m" and "\<And>y. Q y \<Longrightarrow> outcome json P (f y)"
  shows "outcome json P (rbind m f)"
  using assms by (cases m) (auto simp: outcome_def)

lemma outcome_mono: "outcome json Q r \<Longrightarrow> (\<And>w. Q w \<Longrightarrow> P w) \<Longrightarrow> outcome json P r"
  by (auto simp: outcome_def split: sum.splits)

lemma outcome_rmap:
  assumes "\<And>a. a \<in> set as \<Longrightarrow> outcome json (Q a) (f a)"
  shows "outcome json (list_all2 Q as) (rmap f as)"
  using assms
proof (induction as)
  case (Cons a as)
  have a: "outcome json (Q a) (f a)" using Cons.prems by simp
  have as: "outcome json (list_all2 Q as) (rmap f as)" using Cons by simp
  show ?case unfolding rmap.simps
    by (rule outcome_rbind [OF a], rule outcome_rbind [OF as]) simp
qed simp

subsection \<open>Scalars\<close>

text \<open>A coerced value has the type, and coercing it again gives it back.\<close>

abbreviation settled ::
    "(string \<Rightarrow> string) \<Rightarrow> (string \<Rightarrow> ('d, 't) val \<Rightarrow> fault + ('d, 't) val) \<Rightarrow> (('d, 't) val \<Rightarrow> bool) \<Rightarrow> string \<Rightarrow>
     ('d, 't) val \<Rightarrow> bool" where
  "settled json coerce P path v \<equiv>
     outcome json (\<lambda>w. P w \<and> is_null w = is_null v \<and> (\<forall>path'. coerce path' w = Inr w)) (coerce path v)"

lemma settled_direct:
  "settled json (\<lambda>p v. expect_direct_type json v ty p) (leaf_type ty) path v"
  by (cases ty; cases v) (simp_all add: expect_direct_type_def)

lemma settled_decimal: "settled json (\<lambda>p v. coerce_decimal x json v p) (leaf_type DecimalType) path v"
  by (cases v) (simp_all add: coerce_decimal_def split: option.split)

lemma settled_instant: "settled json (\<lambda>p v. coerce_instant x json v p) (leaf_type InstantType) path v"
  by (cases v) (simp_all add: coerce_instant_def split: option.split)

lemma settled_date: "settled json (\<lambda>p v. coerce_date x json v p) (leaf_type DateType) path v"
  by (cases v) (simp_all add: coerce_date_def split: option.split)

lemma settled_time: "settled json (\<lambda>p v. coerce_time x json v p) (leaf_type TimeType) path v"
  by (cases v) (simp_all add: coerce_time_def split: option.split)

lemma settled_duration: "settled json (\<lambda>p v. coerce_duration x json v p) (leaf_type DurationType) path v"
proof -
  have "outcome json (\<lambda>w. leaf_type DurationType w \<and> \<not> is_null w \<and> (\<forall>path'. coerce_duration x json w path' = Inr w))
      (duration_value d)" for d
    by (simp add: duration_value_def coerce_duration_def split: option.split)
  then show ?thesis
    by (cases v) (simp_all add: coerce_duration_def split: option.split)
qed

lemma settled_enum: "settled json (\<lambda>p v. coerce_enum json v values p) (leaf_type (EnumType values)) path v"
  by (cases v) (simp_all add: coerce_enum_def)

lemma temporal_component_outcome: "outcome json (\<lambda>_. True) (coerce_temporal_component x json v path)"
  by (cases v) (simp_all add: coerce_temporal_component_def split: option.split)

lemma settled_interval: "settled json (\<lambda>p v. coerce_interval x json v p) (leaf_type IntervalType) path v"
proof -
  have "outcome json (\<lambda>w. leaf_type IntervalType w \<and> \<not> is_null w \<and> (\<forall>path'. coerce_interval x json w path' = Inr w))
     (rbind (coerce_temporal_component x json s p) (\<lambda>s. rbind (coerce_temporal_component x json e q) (\<lambda>e.
      rbind (ensure_same_temporal_component_kind json s e path) (\<lambda>_. Inr (VInterval (TemporalInterval s e))))))"
    for s e p q
    by (intro outcome_rbind [OF temporal_component_outcome] outcome_rbind [where Q = "\<lambda>_. True"])
      (simp_all add: ensure_same_temporal_component_kind_def coerce_interval_def)
  then show ?thesis
    by (cases v) (simp_all add: coerce_interval_def split: option.split)
qed

lemma settled_leaf: "settled json (\<lambda>p v. coerce_leaf x json ty v p) (leaf_type ty) path v"
  using settled_direct [where ty = ty] settled_decimal settled_instant settled_date settled_time settled_duration
    settled_interval settled_enum
  by (cases ty) simp_all

subsection \<open>Objects\<close>

lemma list_all2_left:
  assumes "list_all2 Q xs ys" and "x \<in> set xs"
  obtains y where "Q x y" and "y \<in> set ys"
  using assms by (auto simp: list_all2_conv_all_nth in_set_conv_nth [of x])

lemma list_all2_right:
  assumes "list_all2 Q xs ys" and "y \<in> set ys"
  obtains x where "Q x y" and "x \<in> set xs"
  using assms by (auto simp: list_all2_conv_all_nth in_set_conv_nth [of y])

text \<open>What an update of the result says of its field.\<close>

definition updates_field :: "'v value_map \<Rightarrow> schema_field \<Rightarrow> (string \<times> 'v) option \<Rightarrow> bool" where
  "updates_field m f u \<longleftrightarrow>
     (case u of None \<Rightarrow> map_of m (sf_name f) = None | Some (k, w) \<Rightarrow> k = sf_name f)"

lemma insert_coerced_field:
  "updates_field m f u \<Longrightarrow> map_of (insert_coerced u m) = (map_of m)(sf_name f := map_option snd u)"
  by (auto simp: updates_field_def insert_coerced_def update_conv' fun_upd_idem split: option.splits)

lemma updates_field_other:
  "updates_field m g u \<Longrightarrow> map_of m' (sf_name g) = map_of m (sf_name g) \<Longrightarrow> updates_field m' g u"
  by (auto simp: updates_field_def split: option.splits)

lemma fold_insert_coerced:
  assumes "list_all2 (updates_field m) fs us" and "distinct (map sf_name fs)"
  shows "(\<forall>k. k \<notin> sf_name ` set fs \<longrightarrow> map_of (fold insert_coerced us m) k = map_of m k) \<and>
    list_all2 (\<lambda>f u. map_of (fold insert_coerced us m) (sf_name f) = map_option snd u) fs us"
  using assms
proof (induction fs arbitrary: m us)
  case (Cons f fs)
  then obtain u us' where us: "us = u # us'" "updates_field m f u" "list_all2 (updates_field m) fs us'"
    by (auto simp: list_all2_Cons1)
  let ?m = "insert_coerced u m"
  note step = insert_coerced_field [OF us(2)]
  have other: "map_of ?m (sf_name g) = map_of m (sf_name g)" if "g \<in> set fs" for g
  proof -
    have "sf_name g \<noteq> sf_name f" using Cons.prems(2) that by (auto simp: image_iff)
    then show ?thesis by (simp add: step)
  qed
  have "list_all2 (updates_field ?m) fs us'"
    by (rule list.rel_mono_strong [OF us(3)]) (use other updates_field_other in blast)
  from Cons.IH [OF this] Cons.prems(2) have IH:
    "\<forall>k. k \<notin> sf_name ` set fs \<longrightarrow> map_of (fold insert_coerced us' ?m) k = map_of ?m k"
    "list_all2 (\<lambda>f u. map_of (fold insert_coerced us' ?m) (sf_name f) = map_option snd u) fs us'"
    by simp_all
  have "map_of (fold insert_coerced us' ?m) (sf_name f) = map_option snd u"
    using IH(1) Cons.prems(2) by (simp add: step)
  with IH show ?case by (simp add: us(1) step)
qed simp

lemma fold_insert_coerced_keys:
  "set (map fst (fold insert_coerced us m)) = set (map fst m) \<union> {k. \<exists>w. Some (k, w) \<in> set us}"
  "{k. \<exists>w. Some (k, w) \<in> set us} \<subseteq> set (map fst m) \<Longrightarrow> map fst (fold insert_coerced us m) = map fst m"
proof -
  have one: "map fst (insert_coerced u m) =
      (case u of Some (k, w) \<Rightarrow> if k \<in> set (map fst m) then map fst m else map fst m @ [k] | None \<Rightarrow> map fst m)"
    for u and m :: "'v value_map"
    by (simp add: insert_coerced_def im.keys_insert split: option.split)
  show "set (map fst (fold insert_coerced us m)) = set (map fst m) \<union> {k. \<exists>w. Some (k, w) \<in> set us}"
  proof (induction us arbitrary: m)
    case (Cons u us)
    show ?case
      unfolding fold_Cons comp_def Cons.IH one by (auto split: option.splits if_splits)
  qed simp
  show "{k. \<exists>w. Some (k, w) \<in> set us} \<subseteq> set (map fst m) \<Longrightarrow> map fst (fold insert_coerced us m) = map fst m"
  proof (induction us arbitrary: m)
    case (Cons u us)
    have "map fst (insert_coerced u m) = map fst m"
      using Cons.prems unfolding one by (auto split: option.split)
    moreover from this have "{k. \<exists>w. Some (k, w) \<in> set us} \<subseteq> set (map fst (insert_coerced u m))"
      using Cons.prems by auto
    ultimately show ?case using Cons.IH [of "insert_coerced u m"] by simp
  qed simp
qed

lemma fold_insert_coerced_id:
  "\<forall>u \<in> set us. \<forall>k v. u = Some (k, v) \<longrightarrow> map_of m k = Some v \<Longrightarrow> fold insert_coerced us m = m"
  by (induction us) (auto simp: insert_coerced_def update_id split: option.splits)

text \<open>The coercion of one field, for a coercion of types that is settled.\<close>

definition field_ok ::
    "(schema_type \<Rightarrow> ('d, 't) val \<Rightarrow> bool) \<Rightarrow> (string \<Rightarrow> schema_type \<Rightarrow> ('d, 't) val \<Rightarrow> fault + ('d, 't) val) \<Rightarrow>
     schema_field \<Rightarrow> ('d, 't) val option \<Rightarrow> bool" where
  "field_ok P coerce f u \<longleftrightarrow>
     (case u of
        None \<Rightarrow> sf_optional f
      | Some w \<Rightarrow> if is_null w then sf_optional f
                  else P (sf_field_type f) w \<and> (\<forall>path. coerce path (sf_field_type f) w = Inr w))"

lemma is_null_iff: "is_null v \<longleftrightarrow> v = VNull"
  by (cases v) simp_all

lemma coerce_field_outcome:
  assumes "\<And>path ty v. settled json (\<lambda>path. coerce path ty) (P ty) path v"
  shows "outcome json (\<lambda>u. updates_field m f u \<and> field_ok P coerce f (map_option snd u) \<and>
       (\<forall>k w. u = Some (k, w) \<longrightarrow> map_of m k \<noteq> None))
     (coerce_field json coerce m prefix f)"
proof (cases "map_of m (sf_name f)")
  case None
  then show ?thesis by (simp add: coerce_field_def updates_field_def field_ok_def)
next
  case (Some v)
  show ?thesis
  proof (cases "is_null v")
    case True
    with Some show ?thesis by (simp add: coerce_field_def updates_field_def field_ok_def)
  next
    case False
    have "outcome json (\<lambda>u. updates_field m f u \<and> field_ok P coerce f (map_option snd u) \<and>
          (\<forall>k w. u = Some (k, w) \<longrightarrow> map_of m k \<noteq> None))
        (rbind (coerce (field_path prefix (sf_name f)) (sf_field_type f) v) (\<lambda>w. Inr (Some (sf_name f, w))))"
      by (rule outcome_rbind [OF assms])
        (simp add: Some False updates_field_def field_ok_def)
    with Some False show ?thesis by (simp add: coerce_field_def Let_def)
  qed
qed

text \<open>The second coercion of a field reads back what the first one wrote.\<close>

lemma coerce_field_again:
  assumes "field_ok P coerce f (map_of m (sf_name f))"
  shows "coerce_field json coerce m prefix f = Inr (map_option (Pair (sf_name f)) (map_of m (sf_name f)))"
  using assms by (auto simp: coerce_field_def field_ok_def is_null_iff Let_def split: option.splits if_splits)

lemma coerce_fields_again:
  assumes "\<forall>f \<in> set fs. field_ok P coerce f (map_of m (sf_name f))"
  shows "rmap (coerce_field json coerce m prefix) fs =
     Inr (map (\<lambda>f. map_option (Pair (sf_name f)) (map_of m (sf_name f))) fs)"
  using assms by (induction fs) (simp_all add: coerce_field_again [of P])

definition same_but_declared :: "schema_definition \<Rightarrow> ('d, 't) val \<Rightarrow> ('d, 't) val \<Rightarrow> bool" where
  "same_but_declared schema v w \<longleftrightarrow>
     (\<forall>m. v = VMap m \<longrightarrow>
        (\<exists>m'. w = VMap m' \<and> map fst m' = map fst m \<and>
           (\<forall>k. k \<notin> sf_name ` set (sd_fields schema) \<longrightarrow> map_of m' k = map_of m k)))"

lemma coerce_recursive_outcome:
  assumes rec: "\<And>path ty v. depth \<le> MAX_DEPTH \<Longrightarrow> settled json (\<lambda>path. coerce path ty) (P ty) path v"
    and "distinct_fields schema"
  shows "settled json (\<lambda>prefix. coerce_recursive json coerce schema prefix depth)
     (\<lambda>w. object_ok P schema w \<and> same_but_declared schema v w) prefix v"
proof (cases "depth \<le> MAX_DEPTH")
  case False
  then show ?thesis by (simp add: coerce_recursive_def)
next
  case True
  consider m where "v = VMap m" | "v = VNull" | "\<forall>m. v \<noteq> VMap m" "v \<noteq> VNull" by blast
  then show ?thesis
  proof cases
    case (1 m)
    let ?fs = "sd_fields schema"
    let ?ok = "\<lambda>f u. updates_field m f u \<and> field_ok P coerce f (map_option snd u) \<and>
       (\<forall>k w. u = Some (k, w) \<longrightarrow> map_of m k \<noteq> None)"
    have fields: "outcome json (list_all2 ?ok ?fs) (rmap (coerce_field json coerce m prefix) ?fs)"
      by (rule outcome_rmap) (rule coerce_field_outcome [OF rec [OF True]])
    have result: "object_ok P schema (VMap m') \<and> same_but_declared schema v (VMap m') \<and>
        (\<forall>prefix'. coerce_recursive json coerce schema prefix' depth (VMap m') = Inr (VMap m'))"
      if us: "list_all2 ?ok ?fs us" and m': "m' = fold insert_coerced us m" for us m'
    proof -
      have inserted: "\<forall>k. k \<notin> sf_name ` set ?fs \<longrightarrow> map_of m' k = map_of m k"
        "list_all2 (\<lambda>f u. map_of m' (sf_name f) = map_option snd u) ?fs us"
        using fold_insert_coerced [of m ?fs us] us assms(2)
        by (auto simp: m' distinct_fields_def list_all2_conv_all_nth)
      have "{k. \<exists>w. Some (k, w) \<in> set us} \<subseteq> set (map fst m)"
        unfolding im.set_keys using us by (auto simp: domIff elim!: list_all2_right)
      then have keys: "map fst m' = map fst m" unfolding m' by (rule fold_insert_coerced_keys(2))
      have "list_all2 (\<lambda>f u. field_ok P coerce f (map_of m' (sf_name f))) ?fs us"
        using us inserted(2) by (auto simp: list_all2_conv_all_nth)
      then have ok: "\<forall>f \<in> set ?fs. field_ok P coerce f (map_of m' (sf_name f))"
        by (blast elim: list_all2_left)
      then have "object_ok P schema (VMap m')"
        by (auto simp: object_ok_def field_ok_def split: option.split)
      moreover have "fold insert_coerced (map (\<lambda>f. map_option (Pair (sf_name f)) (map_of m' (sf_name f))) ?fs) m' = m'"
        by (rule fold_insert_coerced_id) auto
      ultimately show ?thesis
        using coerce_fields_again [OF ok] inserted keys True 1
        by (simp add: coerce_recursive_def same_but_declared_def)
    qed
    show ?thesis
      using True 1 result
      by (simp add: coerce_recursive_def [of json coerce schema prefix])
        (rule outcome_rbind [OF fields], simp)
  next
    case 2
    show ?thesis
    proof (cases "find (\<lambda>field. \<not> sf_optional field) (sd_fields schema)")
      case None
      moreover from None have "\<forall>f \<in> set (sd_fields schema). sf_optional f" by (auto simp: find_None_iff)
      ultimately show ?thesis
        using True 2 by (simp add: coerce_recursive_def object_ok_def same_but_declared_def)
    next
      case (Some f)
      with True 2 show ?thesis by (simp add: coerce_recursive_def)
    qed
  next
    case 3
    with True show ?thesis by (cases v) (simp_all add: coerce_recursive_def)
  qed
qed

subsection \<open>The validator\<close>

lemma registry_lookup: "registry_ok schemas \<Longrightarrow> map_of schemas n = Some sd \<Longrightarrow> distinct_fields sd"
  by (auto simp: registry_ok_def list_all_iff dest: map_of_SomeD)

lemma has_type_leaf: "settled json (\<lambda>p v. coerce_leaf x json ty v p) (has_type schemas ty) path v"
  by (rule outcome_mono [OF settled_leaf]) (auto intro: has_type.leaf)

lemma coerce_elements_outcome:
  assumes "\<And>path v. settled json coerce P path v"
  shows "outcome json (\<lambda>ws. (\<forall>w \<in> set ws. P w) \<and> (\<forall>path'. coerce_elements coerce path' ws = Inr ws))
     (coerce_elements coerce path l)"
proof -
  have elements: "outcome json (list_all2 (\<lambda>(i, v) w. P w \<and> (\<forall>path'. coerce path' w = Inr w)) (enumerate 0 l))
      (coerce_elements coerce path l)"
    unfolding coerce_elements_def
    by (rule outcome_rmap) (auto intro: outcome_mono [OF assms])
  have again: "rmap (\<lambda>(i, elem). coerce (path' @ ''['' @ nat_to_string i @ '']'') elem) (enumerate n ws) = Inr ws"
    if "\<forall>w \<in> set ws. \<forall>path'. coerce path' w = Inr w" for ws n path'
    using that by (induction ws arbitrary: n) simp_all
  show ?thesis
  proof (rule outcome_mono [OF elements])
    fix ws
    assume "list_all2 (\<lambda>(i, v) w. P w \<and> (\<forall>path'. coerce path' w = Inr w)) (enumerate 0 l) ws"
    then have "\<forall>w \<in> set ws. P w \<and> (\<forall>path'. coerce path' w = Inr w)"
      by (auto simp: list_all2_conv_all_nth in_set_conv_nth split_def)
    with again show "(\<forall>w \<in> set ws. P w) \<and> (\<forall>path'. coerce_elements coerce path' ws = Inr ws)"
      by (simp add: coerce_elements_def)
  qed
qed

lemma coerce_field_type_list:
  "coerce_field_type x json schemas depth on_path path (TypedList t) (VList l) =
     map_sum id VList (coerce_elements (\<lambda>p. coerce_field_type x json schemas depth on_path p t) path l)"
  by (subst coerce_field_type.simps) simp

lemma outcome_map_sum: "outcome json P (map_sum id f r) \<longleftrightarrow> outcome json (\<lambda>w. P (f w)) r"
  by (cases r) (simp_all add: outcome_def)

lemma coerce_field_type_outcome:
  assumes "registry_ok schemas"
  shows "settled json (\<lambda>path. coerce_field_type x json schemas depth on_path path ty) (has_type schemas ty) path v"
  using assms
proof (induction x json schemas depth on_path path ty v rule: coerce_field_type.induct)
  case (1 x json schemas depth on_path path expected v)
  show ?case
  proof (cases expected)
    case (Reference n)
    show ?thesis
    proof (cases "map_of schemas n")
      case (Some sd)
      consider "sd_db_table sd \<noteq> None" | "sd_db_table sd = None" "n \<in> set on_path"
        | "sd_db_table sd = None" "n \<notin> set on_path"
        by blast
      then show ?thesis
      proof cases
        case 1
        with Reference Some show ?thesis by (auto simp: coerce_field_type.simps intro: has_type.foreign_key)
      next
        case 2
        with Reference Some show ?thesis by (simp add: coerce_field_type.simps)
      next
        case 3
        let ?rec = "coerce_field_type x json schemas (depth + 1) (on_path @ [n])"
        have rec: "settled json (\<lambda>path. ?rec path ty) (has_type schemas ty) path v"
          if "depth + 1 \<le> MAX_DEPTH" for path ty v
          using "1.IH"(1) [OF Reference Some] 3 that "1.prems" by auto
        have "settled json (\<lambda>path. coerce_recursive json ?rec sd path (depth + 1))
            (\<lambda>w. object_ok (has_type schemas) sd w \<and> same_but_declared sd v w) path v"
          by (rule coerce_recursive_outcome [OF rec]) (use registry_lookup "1.prems" Some in auto)
        then have "settled json (\<lambda>path. coerce_recursive json ?rec sd path (depth + 1))
            (has_type schemas (Reference n)) path v"
          by (rule outcome_mono) (use Some 3 in \<open>auto intro: has_type.embedded\<close>)
        with Reference Some 3 show ?thesis by (simp add: coerce_field_type.simps)
      qed
    qed (simp add: Reference coerce_field_type.simps)
  next
    case (TypedList t)
    show ?thesis
    proof (cases "\<exists>l. v = VList l")
      case True
      then obtain l where l: "v = VList l" by blast
      have rec: "settled json (\<lambda>p. coerce_field_type x json schemas depth on_path p t) (has_type schemas t) p w" for p w
        using "1.IH"(2) [OF TypedList l] "1.prems" by auto
      show ?thesis
        unfolding TypedList l coerce_field_type_list outcome_map_sum
        by (rule outcome_mono [OF coerce_elements_outcome [OF rec]])
          (simp add: has_type.typed_list coerce_field_type_list)
    next
      case False
      with TypedList show ?thesis by (cases v) (simp_all add: coerce_field_type.simps)
    qed
  qed (use has_type_leaf [where ty = expected and x = x and json = json and path = path and v = v and schemas = schemas] in \<open>simp_all add: coerce_field_type.simps\<close>)
qed

lemma coerce_payload_outcome:
  assumes "registry_ok schemas" and "distinct_fields schema"
  shows "outcome json (\<lambda>w. object_ok (has_type schemas) schema w \<and> same_but_declared schema payload w \<and>
       coerce_payload x json w schema schemas = Inr w) (coerce_payload x json payload schema schemas)"
  unfolding coerce_payload_def
  by (rule outcome_mono [OF coerce_recursive_outcome [OF coerce_field_type_outcome [OF assms(1)] assms(2)]]) simp

text \<open>C7: a value the validator returns has the type of the schema, at every depth: required fields are present and
  not null, scalars have their declared type after coercion, enums one of their values, lists and embedded
  schemas have typed elements and fields. A refusal is a response with status 422 and a JSON body; the
  one other outcome is the panic of a duration out of range.\<close>

theorem coerce_payload_sound:
  assumes "registry_ok schemas" and "distinct_fields schema"
  shows "case coerce_payload x json payload schema schemas of
       Inr w \<Rightarrow> object_ok (has_type schemas) schema w
     | Inl e \<Rightarrow> e = Panicked \<or> (\<exists>msg. e = Err (HttpResponse 422 (json msg) ''application/json'' [] True))"
  using coerce_payload_outcome [OF assms, of json payload x]
  by (auto simp: outcome_def error_422_def split: sum.splits)

definition address_schema :: schema_definition where
  "address_schema = \<lparr>sd_db_table = None, sd_fields =
     [\<lparr>sf_name = ''city'', sf_field_type = StringType, sf_optional = False\<rparr>]\<rparr>"

definition order_schema :: schema_definition where
  "order_schema = \<lparr>sd_db_table = None, sd_fields =
     [\<lparr>sf_name = ''total'', sf_field_type = DecimalType, sf_optional = False\<rparr>,
      \<lparr>sf_name = ''stops'', sf_field_type = TypedList (Reference ''address''), sf_optional = False\<rparr>,
      \<lparr>sf_name = ''note'', sf_field_type = StringType, sf_optional = True\<rparr>]\<rparr>"

abbreviation order_payload :: "(rat, int) val" where
  "order_payload \<equiv> VMap [(''extra'', VInteger 1), (''total'', VString ''12''),
     (''stops'', VList [VMap [(''city'', VString ''Recife'')]])]"

abbreviation order_result :: "(rat, int) val" where
  "order_result \<equiv> VMap [(''extra'', VInteger 1), (''total'', VDecimal 12),
     (''stops'', VList [VMap [(''city'', VString ''Recife'')]])]"

lemma order_example:
  "coerce_payload rat_ext json order_payload order_schema [(''address'', address_schema)] = Inr order_result"
  "registry_ok [(''address'', address_schema)]" "distinct_fields order_schema"
  by code_simp+

theorem coerce_payload_sound_witness:
  "object_ok (has_type [(''address'', address_schema)]) order_schema order_result"
  using coerce_payload_sound [OF order_example(2,3), where x = rat_ext and payload = order_payload] order_example(1)
  by simp

text \<open>C29: validation is stable and conservative: validating its result again gives the same result, no key of the
  payload is added, dropped or moved, and the values of undeclared keys are those of the payload.\<close>

theorem coerce_payload_stable:
  assumes "registry_ok schemas" and "distinct_fields schema"
    and "coerce_payload x json (VMap m) schema schemas = Inr w"
  shows "coerce_payload x json w schema schemas = Inr w \<and>
     (\<exists>m'. w = VMap m' \<and> map fst m' = map fst m \<and>
        (\<forall>k. k \<notin> sf_name ` set (sd_fields schema) \<longrightarrow> map_of m' k = map_of m k))"
  using coerce_payload_outcome [OF assms(1,2), of json "VMap m" x] assms(3)
  by (simp add: same_but_declared_def)

theorem coerce_payload_stable_witness:
  "coerce_payload rat_ext (\<lambda>s. s) order_result order_schema [(''address'', address_schema)] = Inr order_result"
  using coerce_payload_stable [OF order_example(2,3) order_example(1)] by blast

subsection \<open>Text inputs\<close>

lemma coerce_scalar_string_type:
  assumes "is_scalar ty"
  shows "outcome json (\<lambda>v. leaf_type ty v \<and> \<not> is_null v) (coerce_scalar_string x json s ty path)"
proof -
  have leaf: "outcome json (\<lambda>v. leaf_type ty v \<and> \<not> is_null v) (coerce_leaf x json ty (VString s) path)"
    by (rule outcome_mono [OF settled_leaf]) simp
  with assms show ?thesis
    by (cases ty) (simp_all split: option.split)
qed

lemma coerce_input_field_outcome:
  assumes "flat_type (sf_field_type f)"
  shows "outcome json (\<lambda>u. updates_field [] f u \<and> (case u of
       None \<Rightarrow> sf_optional f
     | Some (k, v) \<Rightarrow> \<not> is_null v \<and> has_type schemas (sf_field_type f) v)) (coerce_input_field x json present_of f)"
proof (cases "present_of (sf_name f)")
  case Nil
  then show ?thesis by (cases "sf_field_type f") (simp_all add: coerce_input_field_def updates_field_def)
next
  case (Cons s ss)
  have scalar: "outcome json (\<lambda>u. updates_field [] f u \<and> (case u of
       None \<Rightarrow> sf_optional f
     | Some (k, v) \<Rightarrow> \<not> is_null v \<and> has_type schemas (sf_field_type f) v))
     (rbind (coerce_scalar_string x json s (sf_field_type f) (sf_name f)) (\<lambda>v. Inr (Some (sf_name f, v))))"
    if "is_scalar (sf_field_type f)"
    by (rule outcome_rbind [OF coerce_scalar_string_type [OF that]])
      (auto simp: updates_field_def intro: has_type.leaf)
  show ?thesis
  proof (cases "sf_field_type f")
    case (TypedList t)
    have "is_scalar t" using assms TypedList by simp
    have items: "outcome json (list_all2 (\<lambda>_ v. leaf_type t v \<and> \<not> is_null v) (s # ss))
        (rmap (\<lambda>s. coerce_scalar_string x json s t (sf_name f)) (s # ss))"
      by (rule outcome_rmap) (rule coerce_scalar_string_type [OF \<open>is_scalar t\<close>])
    have "outcome json (\<lambda>u. updates_field [] f u \<and> (case u of
         None \<Rightarrow> sf_optional f
       | Some (k, v) \<Rightarrow> \<not> is_null v \<and> has_type schemas (sf_field_type f) v))
       (rbind (rmap (\<lambda>s. coerce_scalar_string x json s t (sf_name f)) (s # ss))
         (\<lambda>items. Inr (Some (sf_name f, VList items))))"
      by (rule outcome_rbind [OF items])
        (auto simp: updates_field_def TypedList intro!: has_type.typed_list intro: has_type.leaf
          elim!: list_all2_right)
    with Cons TypedList show ?thesis by (simp add: coerce_input_field_def)
  next
    case ListType
    with Cons show ?thesis
      by (simp add: coerce_input_field_def updates_field_def has_type.leaf)
  qed (use assms scalar Cons in \<open>simp_all add: coerce_input_field_def\<close>)
qed

text \<open>The value read from a query string or from headers binds declared fields only, every required field, and
  each with a value of its declared type; a flat schema never meets the branch for types that cannot be
  read from text.\<close>

theorem coerce_scalar_input_sound:
  assumes "first_non_flat_field schema = None" and "distinct_fields schema"
  shows "case coerce_scalar_input x json inputs schema header_names of
       Inr w \<Rightarrow> object_ok (has_type schemas) schema w \<and>
         (\<exists>m. w = VMap m \<and> set (map fst m) \<subseteq> sf_name ` set (sd_fields schema))
     | Inl e \<Rightarrow> e = Panicked \<or> (\<exists>msg. e = error_422 json msg)"
proof -
  let ?fs = "sd_fields schema"
  let ?ok = "\<lambda>f u. updates_field [] f u \<and> (case u of
       None \<Rightarrow> sf_optional f | Some (k, v) \<Rightarrow> \<not> is_null v \<and> has_type schemas (sf_field_type f) v)"
  let ?step = "coerce_input_field x json (present_values (normalized_inputs inputs header_names) header_names)"
  have flat: "flat_type (sf_field_type f)" if "f \<in> set ?fs" for f
    using assms(1) that by (auto simp: first_non_flat_field_def find_None_iff)
  have fields: "outcome json (list_all2 ?ok ?fs) (rmap ?step ?fs)"
    by (rule outcome_rmap) (rule coerce_input_field_outcome [OF flat])
  have result: "object_ok (has_type schemas) schema (VMap m) \<and> set (map fst m) \<subseteq> sf_name ` set ?fs"
    if us: "list_all2 ?ok ?fs us" and m: "m = fold insert_coerced us []" for us m
  proof
    have "list_all2 (\<lambda>f u. map_of m (sf_name f) = map_option snd u) ?fs us"
      using fold_insert_coerced [of "[]" ?fs us] us assms(2)
      by (auto simp: m distinct_fields_def list_all2_conv_all_nth)
    with us have "list_all2 (\<lambda>f u. case map_of m (sf_name f) of None \<Rightarrow> sf_optional f
        | Some w \<Rightarrow> if is_null w then sf_optional f else has_type schemas (sf_field_type f) w) ?fs us"
      by (auto simp: list_all2_conv_all_nth split: option.splits)
    then have "\<forall>f \<in> set ?fs. case map_of m (sf_name f) of None \<Rightarrow> sf_optional f
        | Some w \<Rightarrow> if is_null w then sf_optional f else has_type schemas (sf_field_type f) w"
      by (blast elim: list_all2_left)
    then show "object_ok (has_type schemas) schema (VMap m)" by (simp add: object_ok_def)
    show "set (map fst m) \<subseteq> sf_name ` set ?fs"
      using us unfolding m fold_insert_coerced_keys(1)
      by (auto simp: updates_field_def elim!: list_all2_right)
  qed
  have "outcome json (\<lambda>w. object_ok (has_type schemas) schema w \<and>
         (\<exists>m. w = VMap m \<and> set (map fst m) \<subseteq> sf_name ` set (sd_fields schema)))
      (coerce_scalar_input x json inputs schema header_names)"
    unfolding coerce_scalar_input_def
    by (rule outcome_rbind [OF fields]) (use result [OF _ refl] in simp)
  then show ?thesis unfolding outcome_def .
qed

definition paging_schema :: schema_definition where
  "paging_schema = \<lparr>sd_db_table = None, sd_fields =
     [\<lparr>sf_name = ''x_page'', sf_field_type = IntegerType, sf_optional = False\<rparr>,
      \<lparr>sf_name = ''tags'', sf_field_type = TypedList StringType, sf_optional = True\<rparr>]\<rparr>"

theorem coerce_scalar_input_sound_witness:
  "object_ok (has_type []) paging_schema (VMap [(''x_page'', VInteger 7)] :: (rat, int) val) \<and>
   (\<exists>m. (VMap [(''x_page'', VInteger 7)] :: (rat, int) val) = VMap m \<and>
      set (map fst m) \<subseteq> sf_name ` set (sd_fields paging_schema))"
proof -
  have "coerce_scalar_input rat_ext (\<lambda>s. s) [(''X-Page'', [[], ''7'']), (''other'', [''z''])] paging_schema True =
      Inr (VMap [(''x_page'', VInteger 7)])"
    "first_non_flat_field paging_schema = None" "distinct_fields paging_schema"
    by code_simp+
  with coerce_scalar_input_sound [OF this(2,3), where x = rat_ext and json = "\<lambda>s. s" and
      inputs = "[(''X-Page'', [[], ''7'']), (''other'', [''z''])]" and header_names = True and schemas = "[]"]
  show ?thesis by simp
qed

subsection \<open>Limits\<close>

text \<open>A duration out of the range of \<open>chrono\<close> panics; the least 64-bit integer is such a number of milliseconds.\<close>

lemma duration_panic:
  assumes "dur_milliseconds x (of_int (- (2 ^ 63))) = None"
  shows "coerce_payload x json (VMap [(''ttl'', VInteger (of_int (- (2 ^ 63))))])
     \<lparr>sd_db_table = None, sd_fields = [\<lparr>sf_name = ''ttl'', sf_field_type = DurationType, sf_optional = False\<rparr>]\<rparr> [] =
     Inl Panicked"
  using assms
  by (simp add: coerce_payload_def coerce_recursive_def coerce_field_def coerce_field_type.simps coerce_duration_def
      duration_value_def)

text \<open>A chain of embedded schemas longer than \<open>MAX_DEPTH\<close> is refused although it has no cycle.\<close>

fun nested_payload :: "nat \<Rightarrow> (rat, int) val" where
  "nested_payload 0 = VMap []"
| "nested_payload (Suc n) = VMap [(''next'', nested_payload n)]"

definition chain_schema :: "nat \<Rightarrow> schema_definition" where
  "chain_schema n = \<lparr>sd_db_table = None, sd_fields =
     (if n = 0 then [] else [\<lparr>sf_name = ''next'', sf_field_type = Reference (nat_to_string (n - 1)), sf_optional = True\<rparr>])\<rparr>"

definition chain_registry :: "nat \<Rightarrow> registry" where
  "chain_registry n = map (\<lambda>i. (nat_to_string i, chain_schema i)) [0..<n]"

lemma deep_chain_refused:
  "coerce_payload rat_ext (\<lambda>s. s) (nested_payload 20) (chain_schema 20) (chain_registry 20) = Inr (nested_payload 20)"
  "coerce_payload rat_ext (\<lambda>s. s) (nested_payload 21) (chain_schema 21) (chain_registry 21) =
     Inl (error_422 (\<lambda>s. s) ''schema validation exceeded maximum nesting depth'')"
  by code_simp+

text \<open>A header matches a field by its whole name: the prefix \<open>X-\<close> is not dropped.\<close>

lemma canonical_header_key_keeps_prefix:
  "canonical_header_key ''X-Request-Id'' = ''x_request_id''" "canonical_header_key ''request_id'' = ''request_id''"
  by code_simp+

end
