(* ===== verification/Response_Serializer.thy ===== *)
theory Response_Serializer
  imports Validator_Laws
begin

text \<open>
  \<^verbatim>\<open>src/src/response_serializer.rs\<close>: the filter that cuts a response down to the fields of its schema.
\<close>

definition serialize_field :: "('d, 't) val value_map \<Rightarrow> schema_field \<Rightarrow> (string \<times> ('d, 't) val) list" where
  "serialize_field m field =
     (case map_of m (sf_name field) of
        Some v \<Rightarrow> [(sf_name field, v)]
      | None \<Rightarrow> if sf_optional field then [] else [(sf_name field, VNull)])"

definition serialize :: "('d, 't) val \<Rightarrow> schema_definition \<Rightarrow> ('d, 't) val" where
  "serialize v schema =
     (case v of
        VMap m \<Rightarrow> map_from (concat (map (serialize_field m) (sd_fields schema)))
      | _ \<Rightarrow> v)"

lemma index_map_of_distinct:
  assumes "distinct (map fst kvs)"
  shows "index_map_of kvs = kvs"
proof -
  have "fold (\<lambda>(k, v). AList.update k v) kvs m = m @ kvs"
    if "distinct (map fst kvs)" "fst ` set kvs \<inter> fst ` set m = {}" for m
    using that
  proof (induction kvs arbitrary: m)
    case (Cons kv kvs)
    obtain k v where kv: "kv = (k, v)" by (cases kv)
    have "AList.update k v m = m @ [(k, v)]"
      using Cons.prems(2) by (induction m) (auto simp: kv)
    with Cons show ?case by (auto simp: kv)
  qed simp
  from this [of "[]"] assms show ?thesis by (simp add: index_map_of_def)
qed

definition kept :: "('d, 't) val value_map \<Rightarrow> schema_field \<Rightarrow> bool" where
  "kept m f \<longleftrightarrow> map_of m (sf_name f) \<noteq> None \<or> \<not> sf_optional f"

lemma serialize_pairs:
  "concat (map (serialize_field m) fs) =
     map (\<lambda>f. (sf_name f, case map_of m (sf_name f) of Some v \<Rightarrow> v | None \<Rightarrow> VNull)) (filter (kept m) fs)"
  by (induction fs) (auto simp: serialize_field_def kept_def split: option.split)

lemma serialize_map:
  assumes "distinct_fields schema"
  shows "serialize (VMap m) schema = VMap
     (map (\<lambda>f. (sf_name f, case map_of m (sf_name f) of Some v \<Rightarrow> v | None \<Rightarrow> VNull))
       (filter (kept m) (sd_fields schema)))"
proof -
  have "distinct (map sf_name (filter (kept m) (sd_fields schema)))"
    using assms by (simp add: distinct_fields_def distinct_map_filter)
  then show ?thesis
    by (simp add: serialize_def map_from_def serialize_pairs index_map_of_distinct comp_def)
qed

lemma map_of_fields:
  assumes "distinct (map sf_name fs)" and "f \<in> set fs"
  shows "map_of (map (\<lambda>f. (sf_name f, g f)) (filter P fs)) (sf_name f) = (if P f then Some (g f) else None)"
  using assms by (induction fs) (auto simp: map_of_eq_None_iff image_iff)

text \<open>C30: a serialised response holds exactly the declared fields, in the order of the schema: a field that is present keeps its
  value, a required field that is missing becomes null, an optional one is left out, and no undeclared key
  passes. If the response had the type of the schema it still has it, and serialising again changes nothing.\<close>

theorem serialize_contract:
  assumes "distinct_fields schema"
  shows "\<exists>m'. serialize (VMap m) schema = VMap m' \<and>
     map fst m' = map sf_name (filter (kept m) (sd_fields schema)) \<and>
     (\<forall>f \<in> set (sd_fields schema). map_of m' (sf_name f) =
        (case map_of m (sf_name f) of
           Some v \<Rightarrow> Some v | None \<Rightarrow> if sf_optional f then None else Some VNull)) \<and>
     serialize (VMap m') schema = VMap m' \<and>
     (object_ok P schema (VMap m) \<longrightarrow> object_ok P schema (VMap m'))"
proof -
  let ?fs = "sd_fields schema"
  let ?g = "\<lambda>m f. case map_of m (sf_name f) of Some v \<Rightarrow> v | None \<Rightarrow> VNull"
  let ?m = "map (\<lambda>f. (sf_name f, ?g m f)) (filter (kept m) ?fs)"
  have dist: "distinct (map sf_name ?fs)" using assms by (simp add: distinct_fields_def)
  have lookup: "map_of ?m (sf_name f) =
      (case map_of m (sf_name f) of Some v \<Rightarrow> Some v | None \<Rightarrow> if sf_optional f then None else Some VNull)"
    if "f \<in> set ?fs" for f
    unfolding map_of_fields [OF dist that] by (auto simp: kept_def split: option.split)
  have "filter (kept ?m) ?fs = filter (kept m) ?fs"
    by (rule filter_cong [OF refl]) (auto simp: kept_def [of ?m] kept_def [of m] lookup split: option.splits)
  moreover have "?g ?m f = ?g m f" if "f \<in> set ?fs" for f
    using lookup [OF that] by (auto split: option.splits)
  ultimately have "map (\<lambda>f. (sf_name f, ?g ?m f)) (filter (kept ?m) ?fs) = ?m"
    by auto
  then have "serialize (VMap ?m) schema = VMap ?m"
    by (simp only: serialize_map [OF assms])
  moreover have "object_ok P schema (VMap ?m)" if "object_ok P schema (VMap m)"
    using that lookup by (auto simp: object_ok_def split: option.splits)
  ultimately show ?thesis
    using lookup by (intro exI [of _ ?m]) (simp add: serialize_map [OF assms] comp_def)
qed

theorem serialize_contract_witness:
  "map_of [(''total'', VNull), (''stops'', VList [])] (sf_name \<lparr>sf_name = ''total'', sf_field_type = DecimalType, sf_optional = False\<rparr>) =
     Some (VNull :: (rat, int) val)"
proof -
  let ?f = "\<lparr>sf_name = ''total'', sf_field_type = DecimalType, sf_optional = False\<rparr>"
  have s: "serialize (VMap [(''password'', VString ''x''), (''stops'', VList [])]) order_schema =
      (VMap [(''total'', VNull), (''stops'', VList [])] :: (rat, int) val)"
    and f: "?f \<in> set (sd_fields order_schema)" and d: "distinct_fields order_schema"
    by code_simp+
  from serialize_contract [OF d, of "[(''password'', VString ''x''), (''stops'', VList [])]" "\<lambda>_ _. True"] s f
  show ?thesis by fastforce
qed

end
