(* ===== verification/Route_Loader.thy ===== *)
theory Route_Loader
  imports Validator
begin

text \<open>
  \<^verbatim>\<open>src/src/route_loader.rs\<close>: route and consumer definitions, the patterns by which routes conflict, and the
  check that a route without authentication does not mention \<open>auth\<close>.

  The functions \<open>*_references_auth\<close> are one recursion over the syntax tree: the structs and enums between expressions
  and statements are mapped to trees of answers first, so that the recursion is primitive.
\<close>

record route_definition =
  rd_verb :: http_verb
  rd_path :: string
  rd_auth :: "route_auth option"
  rd_allow :: "expression list"
  rd_take :: "take_binding list"
  rd_body :: "statement list"
  rd_line :: nat
  rd_column :: nat
  rd_source_file :: "string option"
  rd_module_id :: "string option"

datatype consumer_kind = CkQueue | CkTopic

record consumer_definition =
  cd_kind :: consumer_kind
  cd_target :: expression
  cd_binding :: string
  cd_schema :: "string option"
  cd_body :: "statement list"
  cd_line :: nat
  cd_column :: nat
  cd_source_file :: "string option"
  cd_module_id :: "string option"

fun http_verb_display :: "http_verb \<Rightarrow> string" where
  "http_verb_display VGet = ''GET''"
| "http_verb_display VPost = ''POST''"
| "http_verb_display VPut = ''PUT''"
| "http_verb_display VPatch = ''PATCH''"
| "http_verb_display VDelete = ''DELETE''"

text \<open>\<open>for x in xs \{ f(x)?; \}\<close>.\<close>

definition each :: "('a \<Rightarrow> 'e + unit) \<Rightarrow> 'a list \<Rightarrow> 'e + unit" where
  "each f xs = rbind (rmap f xs) (\<lambda>_. Inr ())"

lemma each_Inr: "each f xs = Inr () \<longleftrightarrow> (\<forall>x \<in> set xs. f x = Inr ())"
proof -
  have "(\<exists>ys. rmap f xs = Inr ys) \<longleftrightarrow> (\<forall>x \<in> set xs. f x = Inr ())"
    by (induction xs) auto
  then show ?thesis by (simp add: each_def)
qed

subsection \<open>Schema names\<close>

definition is_pascal_case_schema_name :: "string \<Rightarrow> bool" where
  "is_pascal_case_schema_name name \<longleftrightarrow>
     (case name of
        [] \<Rightarrow> False
      | first # _ \<Rightarrow> is_ascii_uppercase first \<and> list_all is_ascii_alphanumeric name \<and> CHR ''_'' \<notin> set name)"

definition validate_schema_naming :: "registry \<Rightarrow> marreta_error + unit" where
  "validate_schema_naming schemas =
     each (\<lambda>(schema_name, _).
       if is_pascal_case_schema_name schema_name then Inr ()
       else Inl (InvalidSchemaDefinition schema_name ''schema names must use PascalCase'')) schemas"

subsection \<open>Patterns\<close>

definition is_param :: "string \<Rightarrow> bool" where
  "is_param seg \<longleftrightarrow> strip_prefix '':'' seg \<noteq> None"

definition path_pattern :: "string \<Rightarrow> string" where
  "path_pattern path =
     join ''/'' (map (\<lambda>seg. if is_param seg then '':*'' else seg) (split_char (CHR ''/'') path))"

definition validate_path_params :: "string \<Rightarrow> nat \<Rightarrow> nat \<Rightarrow> marreta_error + unit" where
  "validate_path_params path line column =
     each (\<lambda>segment.
       case strip_prefix '':'' segment of
         Some param \<Rightarrow> if keyword_lookup param \<noteq> None then Inl (ReservedWord param line column) else Inr ()
       | None \<Rightarrow> Inr ()) (split_char (CHR ''/'') path)"

subsection \<open>References to \<open>auth\<close>\<close>

fun argument_references_auth :: "bool argument \<Rightarrow> bool" where
  "argument_references_auth (Positional e) = e"
| "argument_references_auth (Named _ e) = e"

fun task_body_references_auth :: "(bool, bool) task_body \<Rightarrow> bool" where
  "task_body_references_auth (TbInline e) = e"
| "task_body_references_auth (TbBlock statements e) = (list_ex id statements \<or> e)"

fun map_statement_references_auth :: "(bool, bool) map_statement \<Rightarrow> bool" where
  "map_statement_references_auth (MsStatement stmt) = stmt"
| "map_statement_references_auth (MsKeep v condition) = (v \<or> condition = Some True)"
| "map_statement_references_auth (MsSkip condition) = condition"

fun rescue_handler_references_auth :: "(bool, bool) rescue_handler \<Rightarrow> bool" where
  "rescue_handler_references_auth (RhInline e) = e"
| "rescue_handler_references_auth (RhBlock statements) = list_ex id statements"

fun pipeline_stage_references_auth :: "(bool, bool) pipeline_stage \<Rightarrow> bool" where
  "pipeline_stage_references_auth (PsExpression e) = e"
| "pipeline_stage_references_auth (PsMap _ body) = list_ex map_statement_references_auth body"
| "pipeline_stage_references_auth (PsReduce initial _ _ body) = (initial \<or> task_body_references_auth body)"
| "pipeline_stage_references_auth (PsRescue handler) = rescue_handler_references_auth handler"

fun match_arm_references_auth :: "bool match_arm \<Rightarrow> bool" where
  "match_arm_references_auth (MatchArm (MpLiteral e) v) = (e \<or> v)"
| "match_arm_references_auth (MatchArm MpFallback v) = v"

primrec expression_references_auth :: "expression \<Rightarrow> bool"
  and statement_references_auth :: "statement \<Rightarrow> bool" where
  "expression_references_auth (EInteger _) = False"
| "expression_references_auth (EFloat _) = False"
| "expression_references_auth (EStringLiteral _) = False"
| "expression_references_auth (EBoolean _) = False"
| "expression_references_auth ENull = False"
| "expression_references_auth (EList items) = list_ex id (map expression_references_auth items)"
| "expression_references_auth (EMapLiteral entries) =
     list_ex snd (map (map_prod id expression_references_auth) entries)"
| "expression_references_auth (ESchemaConstructor _ entries) =
     list_ex snd (map (map_prod id expression_references_auth) entries)"
| "expression_references_auth (EIdentifier name) = (name = ''auth'')"
| "expression_references_auth (EBinaryOp left _ right) =
     (expression_references_auth left \<or> expression_references_auth right)"
| "expression_references_auth (EUnaryOp _ operand) = expression_references_auth operand"
| "expression_references_auth (EPropertyAccess obj _) = expression_references_auth obj"
| "expression_references_auth (EMethodCall obj _ arguments) =
     (expression_references_auth obj \<or>
      list_ex argument_references_auth (map (map_argument expression_references_auth) arguments))"
| "expression_references_auth (EHttpClientResponseSchema call _) = expression_references_auth call"
| "expression_references_auth (EFunctionCall _ arguments) =
     list_ex argument_references_auth (map (map_argument expression_references_auth) arguments)"
| "expression_references_auth (ETaskCall _) = False"
| "expression_references_auth (EMatch subject arms) =
     (expression_references_auth subject \<or>
      list_ex match_arm_references_auth (map (map_match_arm expression_references_auth) arms))"
| "expression_references_auth (EIf condition then_branch else_branch) =
     (expression_references_auth condition \<or>
      task_body_references_auth (map_task_body expression_references_auth statement_references_auth then_branch) \<or>
      map_option (\<lambda>b. task_body_references_auth b)
        (map_option (map_task_body expression_references_auth statement_references_auth) else_branch) = Some True)"
| "expression_references_auth (ESubscript obj key) =
     (expression_references_auth obj \<or> expression_references_auth key)"
| "expression_references_auth (EPipeline inp stages) =
     (expression_references_auth inp \<or>
      list_ex pipeline_stage_references_auth
        (map (map_pipeline_stage expression_references_auth statement_references_auth) stages))"
| "expression_references_auth (EBroadcast inp targets) =
     (expression_references_auth inp \<or> list_ex id (map expression_references_auth targets))"
| "expression_references_auth (ERescue e handler) =
     (expression_references_auth e \<or> expression_references_auth handler)"
| "expression_references_auth (EQueuePush queue_name _ payload) =
     (expression_references_auth queue_name \<or> map_option expression_references_auth payload = Some True)"
| "expression_references_auth (ETopicPublish topic _ payload) =
     (expression_references_auth topic \<or> map_option expression_references_auth payload = Some True)"
| "statement_references_auth (SAssignment _ v _ _) = expression_references_auth v"
| "statement_references_auth (SConditionalAssignment _ v condition _ _) =
     (expression_references_auth v \<or> expression_references_auth condition)"
| "statement_references_auth (SRequire condition _ _ _ _) = expression_references_auth condition"
| "statement_references_auth (SReject condition _ _ _ _) = expression_references_auth condition"
| "statement_references_auth (SWhile condition body _ _) =
     (expression_references_auth condition \<or> list_ex id (map statement_references_auth body))"
| "statement_references_auth (STaskDef _ _ body _ _) =
     task_body_references_auth (map_task_body expression_references_auth statement_references_auth body)"
| "statement_references_auth (SExpressionStatement e _ _) = expression_references_auth e"
| "statement_references_auth (SRoute _ _ auth allow _ body _ _) =
     (auth \<noteq> None \<or> list_ex id (map expression_references_auth allow) \<or>
      list_ex id (map statement_references_auth body))"
| "statement_references_auth (SSchema _ _ _ _ _) = False"
| "statement_references_auth (SAuthProvider _ _ _) = False"
| "statement_references_auth (SReply status_code _ body _ extra_headers _ _) =
     (expression_references_auth status_code \<or> expression_references_auth body \<or>
      map_option expression_references_auth extra_headers = Some True)"
| "statement_references_auth (SFail _ message _ _) = expression_references_auth message"
| "statement_references_auth (SRaise message condition _ _) =
     (expression_references_auth message \<or> map_option expression_references_auth condition = Some True)"
| "statement_references_auth (SExport inner) = statement_references_auth inner"
| "statement_references_auth (STransaction body _ _) = list_ex id (map statement_references_auth body)"
| "statement_references_auth (SOnQueue queue_name _ _ body _ _) =
     (expression_references_auth queue_name \<or> list_ex id (map statement_references_auth body))"
| "statement_references_auth (SOnTopic pattern _ _ body _ _) =
     (expression_references_auth pattern \<or> list_ex id (map statement_references_auth body))"
| "statement_references_auth (SNack _ condition _ _) = (map_option expression_references_auth condition = Some True)"
| "statement_references_auth (SScenario _ _ _ _) = False"

definition statements_reference_auth :: "statement list \<Rightarrow> bool" where
  "statements_reference_auth statements = list_ex statement_references_auth statements"

subsection \<open>The authentication contract\<close>

type_synonym auth_providers = "(string \<times> expression auth_provider) list"

definition route_label :: "route_definition \<Rightarrow> string" where
  "route_label route = http_verb_display (rd_verb route) @ '' '' @ rd_path route"

definition check_route_auth :: "auth_providers \<Rightarrow> route_definition \<Rightarrow> marreta_error + unit" where
  "check_route_auth providers route =
     (case rd_auth route of
        Some auth \<Rightarrow>
          if map_of providers (ra_provider auth) = None then
            Inl (RuntimeError (''route '' @ route_label route @ '' requires unknown auth provider '' @
              in_quotes (ra_provider auth)) (ra_line auth) (ra_column auth))
          else Inr ()
      | None \<Rightarrow>
          if rd_allow route \<noteq> [] then
            Inl (RuntimeError (''route '' @ route_label route @ '' declares allow without require auth'')
              (rd_line route) (rd_column route))
          else if statements_reference_auth (rd_body route) then
            Inl (RuntimeError (''public route '' @ route_label route @
              '' cannot access auth; add `require auth <provider>` first'') (rd_line route) (rd_column route))
          else Inr ())"

definition validate_auth_contract :: "route_definition list \<Rightarrow> auth_providers \<Rightarrow> marreta_error + unit" where
  "validate_auth_contract routes providers = each (check_route_auth providers) routes"

end
