(* ===== verification/Persistent_Schema.thy ===== *)
theory Persistent_Schema
  imports Route_Loader
begin

text \<open>
  \<^verbatim>\<open>src/src/persistent_schema.rs\<close>: the schemas with a table, and the rules their fields must keep.
\<close>

definition collect_persistent_schemas :: "registry \<Rightarrow> registry" where
  "collect_persistent_schemas schemas = filter (\<lambda>(_, schema). sd_db_table schema \<noteq> None) schemas"

definition persistent_error :: "string \<Rightarrow> string \<Rightarrow> marreta_error + 'a" where
  "persistent_error schema_name message = Inl (InvalidPersistentSchemaDefinition schema_name message)"

definition check_id_field :: "string \<Rightarrow> schema_definition \<Rightarrow> marreta_error + unit" where
  "check_id_field schema_name schema =
     (case filter (\<lambda>field. sf_name field = ''id'') (sd_fields schema) of
        [] \<Rightarrow> persistent_error schema_name ''persistent schema must declare `id: integer`''
      | [id_field] \<Rightarrow>
          if sf_optional id_field then
            persistent_error schema_name ''persistent schema `id` must not be optional''
          else if sf_field_type id_field \<noteq> IntegerType then
            persistent_error schema_name ''persistent schema `id` must be typed as integer''
          else Inr ()
      | _ \<Rightarrow> persistent_error schema_name ''persistent schema declares `id` more than once'')"

definition inverse_fields :: "string \<Rightarrow> schema_definition \<Rightarrow> schema_field list" where
  "inverse_fields schema_name target =
     filter (\<lambda>target_field. sf_field_type target_field = Reference schema_name) (sd_fields target)"

definition check_reference_field ::
    "registry \<Rightarrow> string \<Rightarrow> schema_field \<Rightarrow> marreta_error + unit" where
  "check_reference_field schemas schema_name field =
     (case sf_field_type field of
        Reference target_schema \<Rightarrow>
          (case map_of schemas target_schema of
             Some target \<Rightarrow>
               if sd_db_table target = None then
                 Inl (InvalidPersistentSchemaReference schema_name (sf_name field) target_schema)
               else Inr ()
           | None \<Rightarrow> Inr ())
      | TypedList (Reference target_schema) \<Rightarrow>
          (case map_of schemas target_schema of
             Some target \<Rightarrow>
               if sd_db_table target = None then Inr ()
               else
                 (let inverse = inverse_fields schema_name target;
                      relation = ''list relation '' @ in_quotes (sf_name field)
                  in if length inverse = 1 then Inr ()
                     else if inverse = [] then
                       persistent_error schema_name (relation @ '' cannot be inferred because target schema '' @
                         in_quotes target_schema @ '' does not reference '' @ in_quotes schema_name)
                     else
                       persistent_error schema_name (relation @ '' is ambiguous because target schema '' @
                         in_quotes target_schema @ '' references '' @ in_quotes schema_name @
                         '' through multiple fields: '' @ join '', '' (map sf_name inverse)))
           | None \<Rightarrow> Inr ())
      | _ \<Rightarrow> Inr ())"

definition check_persistent_schema ::
    "registry \<Rightarrow> string \<times> schema_definition \<Rightarrow> marreta_error + unit" where
  "check_persistent_schema schemas = (\<lambda>(schema_name, schema).
     if sd_db_table schema = None then Inr ()
     else rbind (check_id_field schema_name schema) (\<lambda>_.
            each (check_reference_field schemas schema_name) (sd_fields schema)))"

definition validate_persistent_schema_references :: "registry \<Rightarrow> marreta_error + unit" where
  "validate_persistent_schema_references schemas = each (check_persistent_schema schemas) schemas"

end
