(* ===== verification/Project_Loader.thy ===== *)
theory Project_Loader
  imports Persistent_Schema Schema_Cycle Version Front_End Value_Laws Environment
begin

text \<open>
  \<^verbatim>\<open>src/src/file_loader.rs\<close>: the assembly of a project from its parsed files. \<open>load_files\<close> is the body of
  \<open>load_project_with_feature_flags\<close> from the parsed programs to the last check of the contracts; finding and
  reading the files before it is I/O, and building the configuration of the authentication providers and running the startup statements
  after it belong to \<^verbatim>\<open>auth.rs\<close> and \<^verbatim>\<open>interpreter.rs\<close>. A \<open>HashMap\<close> is an association list; the order in which
  Rust iterates over it is the order of the list, which no theorem relies on.
\<close>

subsection \<open>Modules\<close>

record module_definition =
  md_id :: string
  md_is_entrypoint :: bool
  md_startup_stmts :: "statement list"
  md_public_symbols :: "string list"
  md_routes :: "route_definition list"
  md_consumers :: "consumer_definition list"
  md_auth_providers :: auth_providers
  md_private_schemas :: registry
  md_public_schemas :: registry

fun declared_symbol_name :: "statement \<Rightarrow> string option" where
  "declared_symbol_name (STaskDef name _ _ _ _) = Some name"
| "declared_symbol_name (SSchema name _ _ _ _) = Some name"
| "declared_symbol_name (SAssignment target _ _ _) = Some target"
| "declared_symbol_name (SConditionalAssignment target _ _ _ _) = Some target"
| "declared_symbol_name _ = None"

definition exported_symbol_name :: "statement \<Rightarrow> string option" where
  "exported_symbol_name stmt = declared_symbol_name stmt"

fun is_task_def :: "statement \<Rightarrow> bool" where
  "is_task_def (STaskDef _ _ _ _ _) = True"
| "is_task_def _ = False"

definition dedupe :: "string list \<Rightarrow> string list" where
  "dedupe items = fold (\<lambda>item seen. if item \<in> set seen then seen else seen @ [item]) items []"

fun auth_provider_name :: "'e auth_provider \<Rightarrow> string" where
  "auth_provider_name (ApJwt name _) = name"
| "auth_provider_name (ApApiKey name _) = name"

text \<open>The state of the loop of \<open>build_module_definition\<close>: the module so far, the tasks it exports and the names
  exported by the whole project, each with the module that did.\<close>

record build_state =
  bs_module :: module_definition
  bs_exported_tasks :: "string list"
  bs_exported_names :: "(string \<times> string) list"

definition duplicate_provider :: "string \<Rightarrow> marreta_error" where
  "duplicate_provider name = RuntimeError (''duplicate auth provider '' @ in_quotes name) 0 0"

definition note_export :: "string \<Rightarrow> statement \<Rightarrow> build_state \<Rightarrow> marreta_error + build_state" where
  "note_export module_id inner st =
     (case exported_symbol_name inner of
        None \<Rightarrow> Inr st
      | Some name \<Rightarrow>
          let public = (\<lambda>st. st\<lparr>bs_module := (bs_module st)
                \<lparr>md_public_symbols := md_public_symbols (bs_module st) @ [name]\<rparr>\<rparr>)
          in if is_task_def inner then
               (if name \<in> set (bs_exported_tasks st) then
                  Inl (RuntimeError (''duplicate exported task '' @ in_quotes name @ '' in '' @
                    in_quotes (module_id @ ''.marreta'')) 0 0)
                else Inr (public (st\<lparr>bs_exported_tasks := name # bs_exported_tasks st\<rparr>)))
             else
               (case map_of (bs_exported_names st) name of
                  Some prev \<Rightarrow> Inl (ExportConflict name prev module_id)
                | None \<Rightarrow> Inr (public (st\<lparr>bs_exported_names := AList.update name module_id (bs_exported_names st)\<rparr>))))"

definition add_startup :: "statement \<Rightarrow> module_definition \<Rightarrow> module_definition" where
  "add_startup stmt md = md\<lparr>md_startup_stmts := md_startup_stmts md @ [stmt]\<rparr>"

definition add_public_schema :: "string \<Rightarrow> schema_definition \<Rightarrow> module_definition \<Rightarrow> module_definition" where
  "add_public_schema name schema md = md\<lparr>md_public_schemas := AList.update name schema (md_public_schemas md)\<rparr>"

fun export_schema :: "statement \<Rightarrow> module_definition \<Rightarrow> module_definition" where
  "export_schema (SSchema name db_table fields' _ _) md =
     add_public_schema name \<lparr>sd_db_table = db_table, sd_fields = fields'\<rparr> md"
| "export_schema _ md = md"

definition build_statement ::
    "string \<Rightarrow> string \<Rightarrow> bool \<Rightarrow> statement \<Rightarrow> build_state \<Rightarrow> marreta_error + build_state" where
  "build_statement module_id source_tag is_entrypoint stmt st =
     (let change = (\<lambda>f. Inr (st\<lparr>bs_module := f (bs_module st)\<rparr>)) in
      case stmt of
        SExport inner \<Rightarrow>
          rbind (note_export module_id inner st) (\<lambda>st.
            Inr (st\<lparr>bs_module := add_startup stmt (export_schema inner (bs_module st))\<rparr>))
      | SSchema name db_table fields' _ _ \<Rightarrow>
          let schema = \<lparr>sd_db_table = db_table, sd_fields = fields'\<rparr>
          in change (\<lambda>md. add_startup stmt
               (if is_entrypoint
                then add_public_schema name schema (md\<lparr>md_public_symbols := md_public_symbols md @ [name]\<rparr>)
                else md\<lparr>md_private_schemas := AList.update name schema (md_private_schemas md)\<rparr>))
      | SRoute verb path auth allow take' body line column \<Rightarrow>
          change (\<lambda>md. md\<lparr>md_routes := md_routes md @
            [\<lparr>rd_verb = verb, rd_path = path, rd_auth = auth, rd_allow = allow, rd_take = take', rd_body = body,
              rd_line = line, rd_column = column, rd_source_file = Some source_tag, rd_module_id = Some module_id\<rparr>]\<rparr>)
      | SAuthProvider provider _ _ \<Rightarrow>
          let name = auth_provider_name provider
          in if map_of (md_auth_providers (bs_module st)) name \<noteq> None then Inl (duplicate_provider name)
             else change (\<lambda>md. md\<lparr>md_auth_providers := AList.update name provider (md_auth_providers md)\<rparr>)
      | SOnQueue queue_name binding schema body line column \<Rightarrow>
          change (\<lambda>md. md\<lparr>md_consumers := md_consumers md @
            [\<lparr>cd_kind = CkQueue, cd_target = queue_name, cd_binding = binding, cd_schema = schema, cd_body = body,
              cd_line = line, cd_column = column, cd_source_file = Some source_tag, cd_module_id = Some module_id\<rparr>]\<rparr>)
      | SOnTopic pattern binding schema body line column \<Rightarrow>
          change (\<lambda>md. md\<lparr>md_consumers := md_consumers md @
            [\<lparr>cd_kind = CkTopic, cd_target = pattern, cd_binding = binding, cd_schema = schema, cd_body = body,
              cd_line = line, cd_column = column, cd_source_file = Some source_tag, cd_module_id = Some module_id\<rparr>]\<rparr>)
      | _ \<Rightarrow>
          change (\<lambda>md. add_startup stmt
            (case declared_symbol_name stmt of
               Some name \<Rightarrow> if is_entrypoint then md\<lparr>md_public_symbols := md_public_symbols md @ [name]\<rparr> else md
             | None \<Rightarrow> md)))"

text \<open>A loop whose body may fail.\<close>

fun rfold :: "('a \<Rightarrow> 's \<Rightarrow> 'e + 's) \<Rightarrow> 'a list \<Rightarrow> 's \<Rightarrow> 'e + 's" where
  "rfold f [] st = Inr st"
| "rfold f (x # xs) st = rbind (f x st) (rfold f xs)"

definition empty_module :: "string \<Rightarrow> bool \<Rightarrow> module_definition" where
  "empty_module module_id is_entrypoint =
     \<lparr>md_id = module_id, md_is_entrypoint = is_entrypoint, md_startup_stmts = [], md_public_symbols = [],
      md_routes = [], md_consumers = [], md_auth_providers = [], md_private_schemas = [], md_public_schemas = []\<rparr>"

definition build_module_definition ::
    "program \<Rightarrow> string \<Rightarrow> string \<Rightarrow> bool \<Rightarrow> (string \<times> string) list \<Rightarrow>
     marreta_error + (module_definition \<times> (string \<times> string) list)" where
  "build_module_definition program' module_id source_tag is_entrypoint exported_names =
     rbind (rfold (build_statement module_id source_tag is_entrypoint) program'
              \<lparr>bs_module = empty_module module_id is_entrypoint, bs_exported_tasks = [],
               bs_exported_names = exported_names\<rparr>) (\<lambda>st.
       Inr ((bs_module st)\<lparr>md_public_symbols := dedupe (md_public_symbols (bs_module st))\<rparr>, bs_exported_names st))"

subsection \<open>Checks\<close>

fun collect_schema_type_refs :: "schema_type \<Rightarrow> string list" where
  "collect_schema_type_refs (Reference name) = [name]"
| "collect_schema_type_refs (TypedList inner) = collect_schema_type_refs inner"
| "collect_schema_type_refs _ = []"

definition schema_refs :: "schema_definition \<Rightarrow> string list" where
  "schema_refs def = concat (map (\<lambda>field. collect_schema_type_refs (sf_field_type field)) (sd_fields def))"

text \<open>The arrow between the schemas of a cycle is not a character below 256; it is written as its UTF-8 bytes.\<close>

definition arrow :: string where
  "arrow = [CHR 0x20, CHR 0xE2, CHR 0x86, CHR 0x92, CHR 0x20]"

definition detect_schema_cycle :: "registry \<Rightarrow> marreta_error + unit" where
  "detect_schema_cycle schemas =
     (let refs = map (\<lambda>(name, def). (name, schema_refs def)) schemas;
          persistent = fst ` set (filter (\<lambda>(name, def). sd_db_table def \<noteq> None) schemas)
      in case find_disallowed_cycle refs persistent of
           Some cycle \<Rightarrow> Inl (CircularSchemaReference (join arrow cycle))
         | None \<Rightarrow> Inr ())"

definition check_take_binding :: "registry \<Rightarrow> take_binding \<Rightarrow> marreta_error + unit" where
  "check_take_binding schemas binding =
     (case tb_schema binding of
        None \<Rightarrow> Inr ()
      | Some schema_name \<Rightarrow>
          let no_contract = (\<lambda>take'. Inl (InvalidSchemaDefinition schema_name
                (''a schema cannot be bound to a `'' @ take' @
                 ''` take; schema binding is for payload, query, and headers'')));
              flat = (\<lambda>location. case map_of schemas schema_name of
                  None \<Rightarrow> Inr ()
                | Some schema \<Rightarrow>
                    (case first_non_flat_field schema of
                       None \<Rightarrow> Inr ()
                     | Some field \<Rightarrow> Inl (InvalidSchemaDefinition schema_name
                         (''schema bound to '' @ location @ '' must be flat: field '' @ in_quotes field @
                          '' is a nested object or schema reference; '' @ location @
                          '' parameters cannot carry nested objects''))))
          in (case tb_kind binding of
                TakeRaw \<Rightarrow> no_contract ''raw''
              | TakeForm \<Rightarrow> no_contract ''form''
              | TakeQuery \<Rightarrow> flat ''query''
              | TakeHeaders \<Rightarrow> flat ''headers''
              | TakePayload \<Rightarrow> Inr ()))"

definition validate_take_input_schemas :: "route_definition list \<Rightarrow> registry \<Rightarrow> marreta_error + unit" where
  "validate_take_input_schemas routes schemas =
     each (\<lambda>route. each (check_take_binding schemas) (rd_take route)) routes"

definition check_route_conflict ::
    "route_definition list \<Rightarrow> http_verb \<Rightarrow> string \<Rightarrow> nat \<Rightarrow> nat \<Rightarrow> marreta_error + unit" where
  "check_route_conflict routes verb path line column =
     (case find (\<lambda>existing. rd_verb existing = verb \<and> path_pattern (rd_path existing) = path_pattern path) routes of
        Some existing \<Rightarrow> Inl (RouteConflict (http_verb_display verb) (rd_path existing) path line column)
      | None \<Rightarrow> Inr ())"

text \<open>The last assignment to each name counts.\<close>

fun string_assignment :: "string \<Rightarrow> statement \<Rightarrow> string option" where
  "string_assignment name (SAssignment target (EStringLiteral v) _ _) = (if target = name then Some v else None)"
| "string_assignment name _ = None"

fun non_string_assignment :: "string \<Rightarrow> statement \<Rightarrow> bool" where
  "non_string_assignment name (SAssignment target (EStringLiteral v) _ _) = False"
| "non_string_assignment name (SAssignment target _ _ _) = (target = name)"
| "non_string_assignment name _ = False"

definition metadata :: "string \<Rightarrow> program \<Rightarrow> string option" where
  "metadata name program' =
     fold (\<lambda>stmt acc. case string_assignment name stmt of Some v \<Rightarrow> Some v | None \<Rightarrow> acc) program' None"

definition entrypoint_error :: "string \<Rightarrow> string \<Rightarrow> marreta_error" where
  "entrypoint_error path problem = IoError (''invalid project entrypoint '' @ in_quotes path @ '': '' @ problem)"

definition validate_entrypoint_metadata :: "string \<Rightarrow> program \<Rightarrow> marreta_error + unit" where
  "validate_entrypoint_metadata path program' =
     (if metadata ''project_name'' program' = None then
        Inl (entrypoint_error path (''missing required string assignment '' @ in_quotes ''project_name''))
      else if metadata ''project_version'' program' = None then
        Inl (entrypoint_error path (''missing required string assignment '' @ in_quotes ''project_version''))
      else if list_ex (non_string_assignment ''requires_marreta'') program' then
        Inl (entrypoint_error path
          (in_quotes ''requires_marreta'' @ '' must be a string like '' @ [CHR 0x22] @ ''>=0.2.0'' @ [CHR 0x22]))
      else case metadata ''requires_marreta'' program' of
             Some requirement \<Rightarrow> check_runtime_compatibility requirement
           | None \<Rightarrow> Inr ())"

subsection \<open>The project\<close>

record source_file =
  src_path :: string
  src_module_id :: string
  src_tag :: string
  src_is_entrypoint :: bool
  src_text :: string

record project_state =
  ps_modules :: "module_definition list"
  ps_routes :: "route_definition list"
  ps_schemas :: registry
  ps_all_schemas :: registry
  ps_startup :: "statement list"
  ps_statements :: "statement list"
  ps_consumers :: "consumer_definition list"
  ps_auth_providers :: auth_providers
  ps_exported_names :: "(string \<times> string) list"

definition empty_project :: project_state where
  "empty_project = \<lparr>ps_modules = [], ps_routes = [], ps_schemas = [], ps_all_schemas = [], ps_startup = [],
     ps_statements = [], ps_consumers = [], ps_auth_providers = [], ps_exported_names = []\<rparr>"

definition insert_all :: "(string \<times> 'v) list \<Rightarrow> (string \<times> 'v) list \<Rightarrow> (string \<times> 'v) list" where
  "insert_all kvs m = fold (\<lambda>(k, v). AList.update k v) kvs m"

definition merge_provider ::
    "string \<times> expression auth_provider \<Rightarrow> auth_providers \<Rightarrow> marreta_error + auth_providers" where
  "merge_provider = (\<lambda>(name, provider) merged.
     if map_of merged name \<noteq> None then Inl (duplicate_provider name)
     else Inr (AList.update name provider merged))"

fun is_export :: "statement \<Rightarrow> bool" where
  "is_export (SExport _) = True"
| "is_export _ = False"

definition merge_module :: "module_definition \<Rightarrow> project_state \<Rightarrow> marreta_error + project_state" where
  "merge_module md st =
     rbind (each (\<lambda>route. check_route_conflict (ps_routes st) (rd_verb route) (rd_path route) (rd_line route)
              (rd_column route)) (md_routes md)) (\<lambda>_.
     rbind (rfold merge_provider (md_auth_providers md) (ps_auth_providers st)) (\<lambda>providers.
       Inr (st\<lparr>ps_modules := ps_modules st @ [md],
               ps_routes := ps_routes st @ md_routes md,
               ps_schemas := insert_all (md_public_schemas md) (ps_schemas st),
               ps_all_schemas := insert_all (md_private_schemas md)
                 (insert_all (md_public_schemas md) (ps_all_schemas st)),
               ps_startup := ps_startup st @
                 (if md_is_entrypoint md then md_startup_stmts md else filter is_export (md_startup_stmts md)),
               ps_consumers := ps_consumers st @ md_consumers md,
               ps_auth_providers := providers\<rparr>)))"

definition load_program :: "source_file \<Rightarrow> program \<Rightarrow> project_state \<Rightarrow> marreta_error + project_state" where
  "load_program file program' st =
     rbind (if src_is_entrypoint file then validate_entrypoint_metadata (src_path file) program'
            else Inr ()) (\<lambda>_.
     rbind (build_module_definition program' (src_module_id file) (src_tag file)
              (src_is_entrypoint file) (ps_exported_names st)) (\<lambda>(md, exported).
       merge_module md (st\<lparr>ps_statements := ps_statements st @ program', ps_exported_names := exported\<rparr>)))"

definition as_source :: "marreta_error + 'a \<Rightarrow> source_failure + 'a" where
  "as_source r = map_sum SourceError (\<lambda>v. v) r"

definition load_file :: "source_file \<Rightarrow> project_state \<Rightarrow> source_failure + project_state" where
  "load_file file st =
     rbind (parse_source (src_text file)) (\<lambda>program'. as_source (load_program file program' st))"

definition check_project :: "project_state \<Rightarrow> marreta_error + unit" where
  "check_project st =
     rbind (validate_schema_naming (ps_all_schemas st)) (\<lambda>_.
     rbind (detect_schema_cycle (ps_all_schemas st)) (\<lambda>_.
     rbind (validate_persistent_schema_references (ps_all_schemas st)) (\<lambda>_.
     rbind (validate_take_input_schemas (ps_routes st) (ps_all_schemas st)) (\<lambda>_.
       validate_auth_contract (ps_routes st) (ps_auth_providers st)))))"

definition load_files :: "source_file list \<Rightarrow> source_failure + project_state" where
  "load_files files =
     rbind (rfold load_file files empty_project) (\<lambda>st. rbind (as_source (check_project st)) (\<lambda>_. Inr st))"

end
