(* ===== verification/Loader_Laws.thy ===== *)
theory Loader_Laws
  imports Project_Loader Validator_Laws
begin

text \<open>
  What loading a project promises (\<^verbatim>\<open>src/src/file_loader.rs\<close>). The locale \<open>project_invariant\<close> is the loop over the
  files: a property of the state that the empty project has and that every file keeps holds of the loaded project.
\<close>

subsection \<open>The loop over the files\<close>

lemma rfold_inv:
  assumes "rfold f xs st = Inr st'" and "I st"
    and "\<And>x s s'. x \<in> set xs \<Longrightarrow> f x s = Inr s' \<Longrightarrow> I s \<Longrightarrow> I s'"
  shows "I st'"
  using assms by (induction xs arbitrary: st) (auto split: sum.splits)

lemma as_source_Inr [simp]: "as_source r = Inr v \<longleftrightarrow> r = Inr v"
  by (cases r) (auto simp: as_source_def)

locale project_invariant =
  fixes I :: "project_state \<Rightarrow> bool"
  assumes empty: "I empty_project"
    and step: "load_program src program' st = Inr st' \<Longrightarrow> I st \<Longrightarrow> I st'"
begin

lemma load_file_inv: "load_file src st = Inr st' \<Longrightarrow> I st \<Longrightarrow> I st'"
  by (auto simp: load_file_def intro: step)

lemma loaded:
  assumes "load_files files = Inr st"
  shows "I st"
  using assms
  by (auto simp: load_files_def intro: rfold_inv [where I = I, OF _ empty] load_file_inv)

end

lemma load_programE:
  assumes "load_program src program' st = Inr st'"
  obtains md exported providers where
    "build_module_definition program' (src_module_id src) (src_tag src) (src_is_entrypoint src)
       (ps_exported_names st) = Inr (md, exported)"
    "\<forall>route \<in> set (md_routes md). check_route_conflict (ps_routes st) (rd_verb route) (rd_path route)
       (rd_line route) (rd_column route) = Inr ()"
    "rfold merge_provider (md_auth_providers md) (ps_auth_providers st) = Inr providers"
    "ps_modules st' = ps_modules st @ [md]" "ps_routes st' = ps_routes st @ md_routes md"
    "ps_all_schemas st' = insert_all (md_private_schemas md) (insert_all (md_public_schemas md) (ps_all_schemas st))"
    "ps_statements st' = ps_statements st @ program'"
    "ps_auth_providers st' = providers" "ps_exported_names st' = exported"
  using assms by (auto simp: load_program_def merge_module_def each_Inr)

lemma load_files_checked:
  assumes "load_files files = Inr st"
  shows "validate_schema_naming (ps_all_schemas st) = Inr ()" "detect_schema_cycle (ps_all_schemas st) = Inr ()"
    "validate_persistent_schema_references (ps_all_schemas st) = Inr ()"
    "validate_take_input_schemas (ps_routes st) (ps_all_schemas st) = Inr ()"
    "validate_auth_contract (ps_routes st) (ps_auth_providers st) = Inr ()"
  using assms by (auto simp: load_files_def check_project_def)

subsection \<open>Routes\<close>

text \<open>Two routes clash when they have the verb in common and their paths agree segment by segment, two parameters
  being alike whatever their names.\<close>

definition segments_clash :: "string \<Rightarrow> string \<Rightarrow> bool" where
  "segments_clash a b \<longleftrightarrow> (is_param a \<and> is_param b) \<or> a = b"

definition routes_clash :: "route_definition \<Rightarrow> route_definition \<Rightarrow> bool" where
  "routes_clash r s \<longleftrightarrow> rd_verb r = rd_verb s \<and>
     list_all2 segments_clash (split_char (CHR ''/'') (rd_path r)) (split_char (CHR ''/'') (rd_path s))"

lemma segment_pattern_eq:
  "(if is_param a then '':*'' else a) = (if is_param b then '':*'' else b) \<longleftrightarrow> segments_clash a b"
  by (auto simp: segments_clash_def is_param_def strip_prefix_def)

lemma path_pattern_eq_iff:
  "path_pattern p = path_pattern q \<longleftrightarrow>
     list_all2 segments_clash (split_char (CHR ''/'') p) (split_char (CHR ''/'') q)"
proof -
  let ?seg = "\<lambda>seg. if is_param seg then '':*'' else seg"
  have split: "split_char (CHR ''/'') (path_pattern s) = map ?seg (split_char (CHR ''/'') s)" for s
    unfolding path_pattern_def
    by (rule split_char_join) (auto dest: split_char_no_sep split: if_splits)
  have "path_pattern p = path_pattern q \<longleftrightarrow>
      map ?seg (split_char (CHR ''/'') p) = map ?seg (split_char (CHR ''/'') q)"
    using split [of p] split [of q] join_split_char [of "CHR ''/''"] by (metis path_pattern_def)
  also have "\<dots> \<longleftrightarrow> list_all2 segments_clash (split_char (CHR ''/'') p) (split_char (CHR ''/'') q)"
    by (simp only: list.rel_eq [symmetric] list.rel_map) (simp only: list.rel_eq segment_pattern_eq)
  finally show ?thesis .
qed

lemma check_route_conflict_Inr:
  "check_route_conflict routes (rd_verb r) (rd_path r) l c = Inr () \<longleftrightarrow> (\<forall>s \<in> set routes. \<not> routes_clash s r)"
  by (auto simp: check_route_conflict_def routes_clash_def path_pattern_eq_iff find_None_iff find_Some_iff
      split: option.splits)

definition routes_apart :: "project_state \<Rightarrow> bool" where
  "routes_apart st \<longleftrightarrow> ps_routes st = concat (map md_routes (ps_modules st)) \<and>
     sorted_wrt (\<lambda>m n. \<forall>r \<in> set (md_routes m). \<forall>s \<in> set (md_routes n). \<not> routes_clash r s) (ps_modules st)"

interpretation routes: project_invariant routes_apart
proof
  show "routes_apart empty_project" by (simp add: routes_apart_def empty_project_def)
next
  fix src program' st st'
  assume "load_program src program' st = Inr st'" and "routes_apart st"
  then show "routes_apart st'"
    by (elim load_programE) (auto simp: routes_apart_def sorted_wrt_append check_route_conflict_Inr)
qed

subsection \<open>Names\<close>

text \<open>The values and schemas a list of statements exports, and the providers it declares, in order.\<close>

fun exported_value :: "statement \<Rightarrow> string list" where
  "exported_value (SExport inner) =
     (if is_task_def inner then [] else case declared_symbol_name inner of Some name \<Rightarrow> [name] | None \<Rightarrow> [])"
| "exported_value _ = []"

fun declared_provider :: "statement \<Rightarrow> string list" where
  "declared_provider (SAuthProvider provider _ _) = [auth_provider_name provider]"
| "declared_provider _ = []"

definition exported_values :: "statement list \<Rightarrow> string list" where
  "exported_values stmts = concat (map exported_value stmts)"

definition declared_providers :: "statement list \<Rightarrow> string list" where
  "declared_providers stmts = concat (map declared_provider stmts)"

lemma names_append:
  "exported_values (xs @ ys) = exported_values xs @ exported_values ys"
  "declared_providers (xs @ ys) = declared_providers xs @ declared_providers ys"
  by (simp_all add: exported_values_def declared_providers_def)

lemma map_fst_update: "map fst (AList.update k v al) = (if k \<in> fst ` set al then map fst al else map fst al @ [k])"
  by (induction al) (auto simp: image_iff)

lemma export_schema_keeps [simp]:
  "md_auth_providers (export_schema stmt md) = md_auth_providers md"
  "md_routes (export_schema stmt md) = md_routes md"
  by (cases stmt; simp add: add_public_schema_def)+

lemma build_statement_names:
  assumes "build_statement mid tag e stmt st = Inr st'"
  shows "map fst (bs_exported_names st') = map fst (bs_exported_names st) @ exported_value stmt \<and>
     (distinct (map fst (bs_exported_names st)) \<longrightarrow> distinct (map fst (bs_exported_names st')))"
    "map fst (md_auth_providers (bs_module st')) = map fst (md_auth_providers (bs_module st)) @ declared_provider stmt"
  using assms
  by (cases stmt; auto simp: build_statement_def note_export_def exported_symbol_name_def map_fst_update
      map_of_eq_None_iff add_startup_def add_public_schema_def Let_def split: option.splits if_splits; fail)+

lemma build_module_names:
  assumes "build_module_definition program' mid tag e exported = Inr (md, exported')"
  shows "map fst exported' = map fst exported @ exported_values program'"
    "distinct (map fst exported) \<Longrightarrow> distinct (map fst exported')"
    "map fst (md_auth_providers md) = declared_providers program'"
proof -
  obtain st where st: "rfold (build_statement mid tag e) program'
      \<lparr>bs_module = empty_module mid e, bs_exported_tasks = [], bs_exported_names = exported\<rparr> = Inr st"
    and md: "md_auth_providers md = md_auth_providers (bs_module st)" "exported' = bs_exported_names st"
    using assms by (auto simp: build_module_definition_def)
  have "map fst (bs_exported_names st) = map fst (bs_exported_names st0) @ exported_values program' \<and>
      (distinct (map fst (bs_exported_names st0)) \<longrightarrow> distinct (map fst (bs_exported_names st))) \<and>
      map fst (md_auth_providers (bs_module st)) = map fst (md_auth_providers (bs_module st0)) @ declared_providers program'"
    if "rfold (build_statement mid tag e) program' st0 = Inr st" for st0
    using that
  proof (induction program' arbitrary: st0)
    case (Cons stmt rest)
    then obtain st1 where st1: "build_statement mid tag e stmt st0 = Inr st1"
      and rest: "rfold (build_statement mid tag e) rest st1 = Inr st" by auto
    note names = build_statement_names [OF st1] Cons.IH [OF rest]
    have "distinct (map fst (bs_exported_names st0)) \<longrightarrow> distinct (map fst (bs_exported_names st))"
      using names by blast
    moreover from names have "map fst (bs_exported_names st) = map fst (bs_exported_names st0) @ exported_values (stmt # rest)"
      "map fst (md_auth_providers (bs_module st)) =
         map fst (md_auth_providers (bs_module st0)) @ declared_providers (stmt # rest)"
      by (simp_all add: exported_values_def declared_providers_def)
    ultimately show ?case by blast
  qed (simp add: exported_values_def declared_providers_def)
  note names = this [OF st, simplified build_state.simps empty_module_def module_definition.simps]
  show "map fst exported' = map fst exported @ exported_values program'"
    "map fst (md_auth_providers md) = declared_providers program'"
    using names md by simp_all
  show "distinct (map fst exported')" if "distinct (map fst exported)"
    using names that unfolding md by blast
qed

lemma merge_providers_names:
  assumes "rfold merge_provider new merged = Inr merged'" and "distinct (map fst merged)"
  shows "map fst merged' = map fst merged @ map fst new \<and> distinct (map fst merged')"
  using assms
proof (induction new arbitrary: merged)
  case (Cons p rest)
  obtain merged1 where step: "merge_provider p merged = Inr merged1" and rest: "rfold merge_provider rest merged1 = Inr merged'"
    using Cons.prems by auto
  have "map fst merged1 = map fst merged @ [fst p]" and "distinct (map fst merged1)"
    using step Cons.prems(2)
    by (auto simp: merge_provider_def map_fst_update map_of_eq_None_iff split: prod.splits if_splits)
  with Cons.IH [OF rest] show ?case by (metis append.assoc append_Cons append_Nil list.simps(9))
qed simp

definition names_unique :: "project_state \<Rightarrow> bool" where
  "names_unique st \<longleftrightarrow>
     map fst (ps_exported_names st) = exported_values (ps_statements st) \<and> distinct (map fst (ps_exported_names st)) \<and>
     map fst (ps_auth_providers st) = declared_providers (ps_statements st) \<and> distinct (map fst (ps_auth_providers st))"

interpretation names: project_invariant names_unique
proof
  show "names_unique empty_project"
    by (simp add: names_unique_def empty_project_def exported_values_def declared_providers_def)
next
  fix src program' st st'
  assume load: "load_program src program' st = Inr st'" and inv: "names_unique st"
  from load obtain md where md: "build_module_definition program' (src_module_id src) (src_tag src)
      (src_is_entrypoint src) (ps_exported_names st) = Inr (md, ps_exported_names st')"
    and providers: "rfold merge_provider (md_auth_providers md) (ps_auth_providers st) = Inr (ps_auth_providers st')"
    and stmts: "ps_statements st' = ps_statements st @ program'"
    by (elim load_programE) blast
  show "names_unique st'"
    using build_module_names [OF md] merge_providers_names [OF providers] inv
    unfolding names_unique_def stmts names_append by metis
qed

subsection \<open>Schemas\<close>

lemma insert_all_distinct: "distinct (map fst m) \<Longrightarrow> distinct (map fst (insert_all kvs m))"
  unfolding insert_all_def
  by (induction kvs arbitrary: m) (auto simp: distinct_update)

interpretation schemas: project_invariant "\<lambda>st. distinct (map fst (ps_all_schemas st))"
proof
  show "distinct (map fst (ps_all_schemas empty_project))" by (simp add: empty_project_def)
next
  fix src program' st st'
  assume "load_program src program' st = Inr st'" and "distinct (map fst (ps_all_schemas st))"
  then show "distinct (map fst (ps_all_schemas st'))"
    by (elim load_programE) (simp add: insert_all_distinct)
qed

text \<open>The validator without its stack of open schemas: a reference is followed whenever its schema is known.\<close>

function coerce_unguarded ::
    "('d, 't) ext \<Rightarrow> (string \<Rightarrow> string) \<Rightarrow> registry \<Rightarrow> nat \<Rightarrow> string \<Rightarrow> schema_type \<Rightarrow> ('d, 't) val \<Rightarrow>
     fault + ('d, 't) val" where
  "coerce_unguarded x json schemas depth path expected v =
     (case expected of
        Reference schema_name \<Rightarrow>
          (case map_of schemas schema_name of
             Some nested_schema \<Rightarrow>
               if sd_db_table nested_schema \<noteq> None then Inr v
               else coerce_recursive json (coerce_unguarded x json schemas (depth + 1)) nested_schema path (depth + 1) v
           | None \<Rightarrow> field_error json path ('' references unknown schema '' @ in_quotes schema_name))
      | TypedList inner \<Rightarrow>
          (case v of
             VList l \<Rightarrow> map_sum id VList (coerce_elements (\<lambda>p. coerce_unguarded x json schemas depth p inner) path l)
           | _ \<Rightarrow> field_error json path (got ''array'' v))
      | _ \<Rightarrow> coerce_leaf x json expected v path)"
  by pat_completeness auto
termination
  by (relation "inv_image (less_than <*lex*> less_than)
        (\<lambda>(x, json, schemas, depth, path, expected, v). (MAX_DEPTH + 1 - depth, size expected))")
    auto

declare coerce_unguarded.simps [simp del]

lemma coerce_recursive_fields_cong:
  assumes "\<And>path f v. f \<in> set (sd_fields schema) \<Longrightarrow> depth \<le> MAX_DEPTH \<Longrightarrow>
      coerce_type path (sf_field_type f) v = coerce_type' path (sf_field_type f) v"
  shows "coerce_recursive json coerce_type schema path depth payload =
     coerce_recursive json coerce_type' schema path depth payload"
proof -
  have "rmap (coerce_field json coerce_type m path) (sd_fields schema) =
      rmap (coerce_field json coerce_type' m path) (sd_fields schema)" if "depth \<le> MAX_DEPTH" for m
    using assms that by (intro rmap_cong) (auto simp: coerce_field_def Let_def split: option.splits)
  then show ?thesis by (cases payload) (simp_all add: coerce_recursive_def)
qed

abbreviation schema_edges :: "registry \<Rightarrow> (string \<times> string) set" where
  "schema_edges schemas \<equiv> value_edges (map (\<lambda>(name, def). (name, schema_refs def)) schemas)
     (fst ` set (filter (\<lambda>(name, def). sd_db_table def \<noteq> None) schemas))"

lemma detect_schema_cycle_acyclic: "detect_schema_cycle schemas = Inr () \<longleftrightarrow> acyclic (schema_edges schemas)"
  using dfs.search_None_iff [of "map (\<lambda>(name, def). (name, schema_refs def)) schemas"
      "fst ` set (filter (\<lambda>(name, def). sd_db_table def \<noteq> None) schemas)"]
  unfolding detect_schema_cycle_def Let_def by (auto split: option.splits)

lemma persistent_iff:
  assumes "distinct (map fst schemas)"
  shows "n \<in> fst ` set (filter (\<lambda>(name, def). sd_db_table def \<noteq> None) schemas) \<longleftrightarrow>
     (\<exists>def. map_of schemas n = Some def \<and> sd_db_table def \<noteq> None)"
proof -
  have "(n, def) \<in> set schemas \<longleftrightarrow> map_of schemas n = Some def" for def
    using map_of_eq_Some_iff [OF assms] by simp
  then show ?thesis by (auto simp del: not_None_eq simp: image_iff)
qed

lemma schema_edge:
  assumes "distinct (map fst schemas)" and "map_of schemas a = Some def" and "sd_db_table def = None"
    and "f \<in> set (sd_fields def)" and "b \<in> set (collect_schema_type_refs (sf_field_type f))"
    and "\<forall>target. map_of schemas b = Some target \<longrightarrow> sd_db_table target = None"
  shows "(a, b) \<in> schema_edges schemas"
proof -
  have "map_of (map (\<lambda>(name, def). (name, schema_refs def)) schemas) a = Some (schema_refs def)"
    by (simp only: map_of_map assms(2) comp_apply option.map)
  moreover have "b \<in> set (schema_refs def)" using assms(4,5) by (auto simp: schema_refs_def)
  moreover have "a \<notin> fst ` set (filter (\<lambda>(name, def). sd_db_table def \<noteq> None) schemas)"
    "b \<notin> fst ` set (filter (\<lambda>(name, def). sd_db_table def \<noteq> None) schemas)"
    unfolding persistent_iff [OF assms(1)] using assms(2,3,6) by auto
  ultimately show ?thesis unfolding value_edges_iff by blast
qed

text \<open>The schemas on the stack reach every value schema the current type refers to.\<close>

definition stack_reaches :: "registry \<Rightarrow> string list \<Rightarrow> schema_type \<Rightarrow> bool" where
  "stack_reaches schemas on_path ty \<longleftrightarrow>
     (\<forall>m \<in> set on_path. \<forall>n \<in> set (collect_schema_type_refs ty).
        (\<forall>target. map_of schemas n = Some target \<longrightarrow> sd_db_table target = None) \<longrightarrow> (m, n) \<in> (schema_edges schemas)\<^sup>+)"

lemma coerce_field_type_unguarded:
  assumes "distinct (map fst schemas)" and "acyclic (schema_edges schemas)" and "stack_reaches schemas on_path ty"
  shows "coerce_field_type x json schemas depth on_path path ty v = coerce_unguarded x json schemas depth path ty v"
  using assms
proof (induction x json schemas depth path ty v arbitrary: on_path rule: coerce_unguarded.induct)
  case (1 x json schemas depth path ty v)
  show ?case
  proof (cases ty)
    case (Reference n)
    have fresh: "n \<notin> set on_path" if "\<forall>target. map_of schemas n = Some target \<longrightarrow> sd_db_table target = None"
      using "1.prems"(2,3) that by (auto simp: Reference stack_reaches_def acyclic_def)
    show ?thesis
    proof (cases "map_of schemas n")
      case (Some def)
      show ?thesis
      proof (cases "sd_db_table def = None")
        case True
        have "stack_reaches schemas (on_path @ [n]) (sf_field_type f)" if f: "f \<in> set (sd_fields def)" for f
        proof -
          have edge: "(n, k) \<in> schema_edges schemas"
            if "k \<in> set (collect_schema_type_refs (sf_field_type f))"
              "\<forall>target. map_of schemas k = Some target \<longrightarrow> sd_db_table target = None" for k
            by (rule schema_edge [OF "1.prems"(1) Some True f that])
          have "(m, n) \<in> (schema_edges schemas)\<^sup>+" if "m \<in> set on_path" for m
            using "1.prems"(3) that Some True by (simp add: Reference stack_reaches_def)
          with edge show ?thesis unfolding stack_reaches_def by (auto intro: trancl.trancl_into_trancl)
        qed
        then have "coerce_recursive json (coerce_field_type x json schemas (depth + 1) (on_path @ [n])) def path (depth + 1) v =
            coerce_recursive json (coerce_unguarded x json schemas (depth + 1)) def path (depth + 1) v"
          using "1.IH"(1) [OF Reference Some] True "1.prems"(1,2) by (intro coerce_recursive_fields_cong) simp
        with fresh Some True show ?thesis
          by (simp add: Reference coerce_field_type.simps coerce_unguarded.simps)
      qed (use Some in \<open>simp add: Reference coerce_field_type.simps coerce_unguarded.simps\<close>)
    qed (use fresh in \<open>simp add: Reference coerce_field_type.simps coerce_unguarded.simps\<close>)
  next
    case (TypedList inner)
    show ?thesis
    proof (cases "\<exists>l. v = VList l")
      case True
      then obtain l where l: "v = VList l" by blast
      have "coerce_field_type x json schemas depth on_path p inner = coerce_unguarded x json schemas depth p inner" for p
        using "1.IH"(2) [OF TypedList l] "1.prems" by (intro ext) (simp add: TypedList stack_reaches_def)
      then show ?thesis
        by (subst coerce_field_type.simps, subst coerce_unguarded.simps) (simp add: TypedList l)
    qed (cases v; simp add: TypedList coerce_field_type.simps coerce_unguarded.simps)
  qed (simp_all add: coerce_field_type.simps coerce_unguarded.simps)
qed

subsection \<open>The loaded project\<close>

definition route_auth_ok :: "string list \<Rightarrow> route_definition \<Rightarrow> bool" where
  "route_auth_ok providers r \<longleftrightarrow> (case rd_auth r of
     Some auth \<Rightarrow> ra_provider auth \<in> set providers
   | None \<Rightarrow> rd_allow r = [] \<and> \<not> statements_reference_auth (rd_body r))"

lemma check_route_auth_Inr: "check_route_auth providers r = Inr () \<longleftrightarrow> route_auth_ok (map fst providers) r"
  by (simp add: check_route_auth_def route_auth_ok_def map_of_eq_None_iff split: option.split)

text \<open>C9: in a project that loads, the routes are those of the modules in order; two routes of different files never
  clash; a protected route names a declared provider, and a public one has no \<open>allow\<close> and does not mention \<open>auth\<close>.\<close>

theorem load_files_routes:
  assumes "load_files files = Inr st"
  shows "ps_routes st = concat (map md_routes (ps_modules st)) \<and>
     sorted_wrt (\<lambda>m n. \<forall>r \<in> set (md_routes m). \<forall>s \<in> set (md_routes n). \<not> routes_clash r s) (ps_modules st) \<and>
     (\<forall>r \<in> set (ps_routes st). route_auth_ok (declared_providers (ps_statements st)) r)"
proof -
  have providers: "map fst (ps_auth_providers st) = declared_providers (ps_statements st)"
    using names.loaded [OF assms] by (simp add: names_unique_def)
  have "check_route_auth (ps_auth_providers st) r = Inr ()" if "r \<in> set (ps_routes st)" for r
    using load_files_checked(5) [OF assms] that by (simp add: validate_auth_contract_def each_Inr)
  then have "\<forall>r \<in> set (ps_routes st). route_auth_ok (declared_providers (ps_statements st)) r"
    using providers by (simp add: check_route_auth_Inr)
  with routes.loaded [OF assms] show ?thesis by (simp add: routes_apart_def)
qed

text \<open>C31: in a project that loads, no two files export a value or a schema of the same name, and no authentication
  provider is declared twice.\<close>

theorem load_files_names:
  assumes "load_files files = Inr st"
  shows "distinct (exported_values (ps_statements st)) \<and> distinct (declared_providers (ps_statements st))"
  using names.loaded [OF assms] unfolding names_unique_def by metis

text \<open>C32: on schemas without a cycle of value references the validator never meets a schema that is already open:
  it computes the same as without its stack.\<close>

theorem coerce_payload_unguarded:
  assumes "distinct (map fst schemas)" and "detect_schema_cycle schemas = Inr ()"
  shows "coerce_payload x json payload schema schemas =
     coerce_recursive json (coerce_unguarded x json schemas 0) schema [] 0 payload"
  unfolding coerce_payload_def
  by (rule coerce_recursive_fields_cong, rule coerce_field_type_unguarded)
    (use assms detect_schema_cycle_acyclic in \<open>simp_all add: stack_reaches_def\<close>)

theorem coerce_payload_unguarded_witness:
  "coerce_recursive (\<lambda>s. s) (coerce_unguarded rat_ext (\<lambda>s. s) [(''address'', address_schema)] 0) order_schema [] 0
     order_payload = Inr order_result"
proof -
  have "detect_schema_cycle [(''address'', address_schema)] = Inr ()" by code_simp
  with coerce_payload_unguarded [where schemas = "[(''address'', address_schema)]" and x = rat_ext and
      json = "\<lambda>s. s" and payload = order_payload and schema = order_schema]
  show ?thesis by (simp add: order_example(1))
qed

subsection \<open>Examples\<close>

abbreviation nl :: string where
  "nl \<equiv> [CHR 0x0A]"

definition dq :: "string \<Rightarrow> string" where
  "dq s = [CHR 0x22] @ s @ [CHR 0x22]"

definition users_file :: source_file where
  "users_file = \<lparr>src_path = ''users.marreta'', src_module_id = ''users'', src_tag = ''users'', src_is_entrypoint = False,
     src_text = ''auth api_key k {'' @ nl @ ''    header: '' @ dq ''x'' @ nl @ ''    secret_hash: env.K'' @ nl @ ''}'' @ nl @ ''export limit = 5'' @ nl @
       ''route GET '' @ dq ''/u/:id'' @ nl @ ''    require auth k'' @ nl @ ''    reply 200, auth'' @ nl\<rparr>"

definition app_file :: source_file where
  "app_file = \<lparr>src_path = ''app.marreta'', src_module_id = ''app'', src_tag = ''app'', src_is_entrypoint = True,
     src_text = ''project_name = '' @ dq ''a'' @ nl @ ''project_version = '' @ dq ''1.0.0'' @ nl @
       ''route GET '' @ dq ''/h'' @ nl @ ''    reply 200, 1'' @ nl\<rparr>"

lemma example_loads:
  "case load_files [users_file, app_file] of
     Inr st \<Rightarrow> map rd_path (ps_routes st) = [''/u/:id'', ''/h''] \<and> exported_values (ps_statements st) = [''limit''] \<and>
       declared_providers (ps_statements st) = [''k'']
   | Inl _ \<Rightarrow> False"
  by code_simp

lemma example_loaded:
  obtains st where "load_files [users_file, app_file] = Inr st" "map rd_path (ps_routes st) = [''/u/:id'', ''/h'']"
    "exported_values (ps_statements st) = [''limit'']" "declared_providers (ps_statements st) = [''k'']"
  using example_loads by (auto split: sum.splits)

theorem load_files_routes_witness:
  "\<exists>st. load_files [users_file, app_file] = Inr st \<and> map rd_path (ps_routes st) = [''/u/:id'', ''/h''] \<and>
     (\<forall>r \<in> set (ps_routes st). route_auth_ok [''k''] r)"
proof (rule example_loaded)
  fix st
  assume st: "load_files [users_file, app_file] = Inr st" "map rd_path (ps_routes st) = [''/u/:id'', ''/h'']"
    "declared_providers (ps_statements st) = [''k'']"
  with load_files_routes [OF st(1)] show ?thesis by auto
qed

theorem load_files_names_witness:
  "\<exists>st. load_files [users_file, app_file] = Inr st \<and> distinct (exported_values (ps_statements st)) \<and>
     exported_values (ps_statements st) = [''limit'']"
proof (rule example_loaded)
  fix st
  assume st: "load_files [users_file, app_file] = Inr st" "exported_values (ps_statements st) = [''limit'']"
  with load_files_names [OF st(1)] show ?thesis by auto
qed

text \<open>Two routes of one file may clash: only the routes of the files before are compared with.\<close>

definition get_route :: "string \<Rightarrow> statement list \<Rightarrow> statement" where
  "get_route path body = SRoute VGet path None [] [] body 1 1"

lemma same_file_clash_loads:
  "case load_program users_file [get_route ''/u/:id'' [], get_route ''/u/:name'' []] empty_project of
     Inr st \<Rightarrow> check_project st = Inr () \<and> routes_clash (ps_routes st ! 0) (ps_routes st ! 1)
   | Inl _ \<Rightarrow> False"
  by code_simp

text \<open>A string is not searched for interpolations: a public route may refer to \<open>auth\<close> in one.\<close>

lemma interpolated_auth_unseen:
  "\<not> statements_reference_auth [SExpressionStatement (EStringLiteral ''#{auth.id}'') 1 1]"
  by code_simp

text \<open>Private schemas of different files share one name space in the check for cycles: a later one hides the cycle of
  an earlier one, which its own module still sees.\<close>

definition own_schema :: "schema_type \<Rightarrow> statement" where
  "own_schema ty = SSchema ''Node'' None [\<lparr>sf_name = ''next'', sf_field_type = ty, sf_optional = True\<rparr>] 1 1"

lemma hidden_cycle_loads:
  "case rbind (load_program users_file [own_schema (Reference ''Node'')] empty_project)
          (load_program (users_file\<lparr>src_module_id := ''later''\<rparr>) [own_schema StringType]) of
     Inr st \<Rightarrow> check_project st = Inr () \<and>
       detect_schema_cycle (md_private_schemas (hd (ps_modules st))) =
         Inl (CircularSchemaReference (''Node'' @ arrow @ ''Node''))
   | Inl _ \<Rightarrow> False"
  by code_simp

end
