(* ===== verification/Migrations.thy ===== *)
theory Migrations
  imports Persistent_Schema Query_Builder Schema_Cycle
begin

text \<open>
  \<^verbatim>\<open>src/src/migrations.rs\<close>, first part: tables of the persistent schemas, the plan from the schema of the history to
  the desired tables, the report of drift, and the SQL text of a plan.

  A \<open>HashMap\<close> is an association list. The parameter \<open>debug\<close> is the text \<open>derive(Debug)\<close> gives an expression; it only
  appears in the message for a default that cannot be rendered.
\<close>

subsection \<open>Data\<close>

record persistent_column =
  pc_field_name :: string
  pc_column_name :: string
  pc_field_type :: schema_type
  pc_nullable :: bool
  pc_primary :: bool
  pc_generated :: bool
  pc_unique :: bool
  pc_default :: "expression option"

record persistent_foreign_key =
  pf_field_name :: string
  pf_column_name :: string
  pf_references_schema :: string
  pf_references_table :: string
  pf_references_column :: string
  pf_nullable :: bool

record persistent_table =
  pt_schema_name :: string
  pt_table_name :: string
  pt_columns :: "persistent_column list"
  pt_foreign_keys :: "persistent_foreign_key list"

record database_column =
  dc_name :: string
  dc_rendered_type :: "string option"
  dc_nullable :: "bool option"

record database_foreign_key =
  df_name :: string
  df_column_name :: string
  df_references_table :: string
  df_references_column :: string

record database_table =
  dt_name :: string
  dt_columns :: "(string \<times> database_column) list"
  dt_foreign_keys :: "(string \<times> database_foreign_key) list"

record database_schema =
  ds_tables :: "(string \<times> database_table) list"

datatype schema_drift =
    ColumnTypeDiffers string string string string
  | ColumnNullabilityDiffers string string bool bool
  | ColumnRemoved string string
  | TableRemoved string

datatype migration_op =
    CreateTable string "persistent_column list"
  | AddColumn string persistent_column
  | AddForeignKey string persistent_foreign_key

definition nullability_text :: "bool \<Rightarrow> string" where
  "nullability_text nullable = (if nullable then ''nullable'' else ''NOT NULL'')"

fun report_line :: "schema_drift \<Rightarrow> string" where
  "report_line (ColumnTypeDiffers table column history schema) =
     ''  '' @ table @ ''.'' @ column @ '': type differs (history '' @ history @ '', schema '' @ schema @ '')''"
| "report_line (ColumnNullabilityDiffers table column history_nullable schema_nullable) =
     ''  '' @ table @ ''.'' @ column @ '': nullability differs (history '' @ nullability_text history_nullable @
     '', schema '' @ nullability_text schema_nullable @ '')''"
| "report_line (ColumnRemoved table column) =
     ''  '' @ table @ ''.'' @ column @ '': present in history, no longer in any schema''"
| "report_line (TableRemoved table) =
     ''  '' @ table @ '': present in history, no schema declares it anymore''"

subsection \<open>Tables of the schemas\<close>

definition build_primitive_column :: "schema_field \<Rightarrow> persistent_column" where
  "build_primitive_column field =
     \<lparr>pc_field_name = sf_name field, pc_column_name = sf_name field, pc_field_type = sf_field_type field,
      pc_nullable = sf_optional field, pc_primary = (sf_name field = ''id''),
      pc_generated = (sf_name field = ''id'' \<and> sf_field_type field = IntegerType),
      pc_unique = False, pc_default = None\<rparr>"

text \<open>One turn of the loop over the fields: the columns and the foreign keys to push.\<close>

definition field_columns ::
    "registry \<Rightarrow> string \<Rightarrow> schema_field \<Rightarrow> marreta_error + (persistent_column list \<times> persistent_foreign_key list)" where
  "field_columns schemas schema_name field =
     (case sf_field_type field of
        Reference target_schema \<Rightarrow>
          (case map_of schemas target_schema of
             None \<Rightarrow> Inl (InvalidPersistentSchemaDefinition schema_name
               (''field '' @ in_quotes (sf_name field) @ '' references unknown schema '' @ in_quotes target_schema))
           | Some target \<Rightarrow>
               (case sd_db_table target of
                  None \<Rightarrow> Inl (InvalidPersistentSchemaReference schema_name (sf_name field) target_schema)
                | Some target_table \<Rightarrow>
                    (let column_name = sf_name field @ ''_id''
                     in Inr ([\<lparr>pc_field_name = sf_name field, pc_column_name = column_name,
                               pc_field_type = IntegerType, pc_nullable = sf_optional field, pc_primary = False,
                               pc_generated = False, pc_unique = False, pc_default = None\<rparr>],
                             [\<lparr>pf_field_name = sf_name field, pf_column_name = column_name,
                               pf_references_schema = target_schema, pf_references_table = target_table,
                               pf_references_column = ''id'', pf_nullable = sf_optional field\<rparr>]))))
      | TypedList _ \<Rightarrow> Inr ([], [])
      | ListType \<Rightarrow> Inl (InvalidPersistentSchemaDefinition schema_name
          (''field '' @ in_quotes (sf_name field) @ '' uses unsupported persistent type '' @
           in_quotes (schema_type_display (sf_field_type field))))
      | MapType \<Rightarrow> Inl (InvalidPersistentSchemaDefinition schema_name
          (''field '' @ in_quotes (sf_name field) @ '' uses unsupported persistent type '' @
           in_quotes (schema_type_display (sf_field_type field))))
      | _ \<Rightarrow> Inr ([build_primitive_column field], []))"

definition build_table ::
    "registry \<Rightarrow> string \<times> schema_definition \<Rightarrow> marreta_error + (string \<times> persistent_table) list" where
  "build_table schemas = (\<lambda>(schema_name, schema).
     case sd_db_table schema of
       None \<Rightarrow> Inr []
     | Some table_name \<Rightarrow>
         rbind (rmap (field_columns schemas schema_name) (sd_fields schema)) (\<lambda>pushed.
           Inr [(schema_name, \<lparr>pt_schema_name = schema_name, pt_table_name = table_name,
                  pt_columns = concat (map fst pushed), pt_foreign_keys = concat (map snd pushed)\<rparr>)]))"

definition build_persistent_tables :: "registry \<Rightarrow> marreta_error + (string \<times> persistent_table) list" where
  "build_persistent_tables schemas =
     rbind (validate_persistent_schema_references schemas) (\<lambda>_.
     rbind (rmap (build_table schemas) schemas) (\<lambda>tables. Inr (concat tables)))"

subsection \<open>The plan\<close>

definition foreign_key_constraint_name :: "string \<Rightarrow> string \<Rightarrow> string" where
  "foreign_key_constraint_name table_name column_name = ''fk_'' @ table_name @ ''_'' @ column_name"

definition create_ops :: "database_schema \<Rightarrow> persistent_table \<Rightarrow> migration_op list" where
  "create_ops current table =
     (case map_of (ds_tables current) (pt_table_name table) of
        None \<Rightarrow> [CreateTable (pt_table_name table) (pt_columns table)]
      | Some _ \<Rightarrow> [])"

definition add_column_ops :: "database_schema \<Rightarrow> persistent_table \<Rightarrow> migration_op list" where
  "add_column_ops current table =
     (case map_of (ds_tables current) (pt_table_name table) of
        None \<Rightarrow> []
      | Some existing \<Rightarrow>
          map (AddColumn (pt_table_name table))
            (filter (\<lambda>column. map_of (dt_columns existing) (pc_column_name column) = None) (pt_columns table)))"

definition add_fk_ops :: "database_schema \<Rightarrow> persistent_table \<Rightarrow> migration_op list" where
  "add_fk_ops current table =
     (case map_of (ds_tables current) (pt_table_name table) of
        None \<Rightarrow> map (AddForeignKey (pt_table_name table)) (pt_foreign_keys table)
      | Some existing \<Rightarrow>
          map (AddForeignKey (pt_table_name table))
            (filter (\<lambda>fk. map_of (dt_foreign_keys existing)
                (foreign_key_constraint_name (pt_table_name table) (pf_column_name fk)) = None)
              (pt_foreign_keys table)))"

definition plan_migration :: "database_schema \<Rightarrow> (string \<times> persistent_table) list \<Rightarrow> migration_op list" where
  "plan_migration current desired =
     (let desired_tables = sort_key pt_table_name (map snd desired)
      in concat (map (create_ops current) desired_tables) @
         concat (map (add_column_ops current) desired_tables) @
         concat (map (add_fk_ops current) desired_tables))"

subsection \<open>SQL text\<close>

fun postgres_type :: "schema_type \<Rightarrow> marreta_error + string" where
  "postgres_type StringType = Inr ''TEXT''"
| "postgres_type IntegerType = Inr ''BIGINT''"
| "postgres_type FloatType = Inr ''DOUBLE PRECISION''"
| "postgres_type DecimalType = Inr ''NUMERIC''"
| "postgres_type BooleanType = Inr ''BOOLEAN''"
| "postgres_type InstantType = Inr ''TIMESTAMPTZ''"
| "postgres_type DateType = Inr ''DATE''"
| "postgres_type TimeType = Inr ''TIME''"
| "postgres_type DurationType = Inr ''BIGINT''"
| "postgres_type IntervalType = Inr ''JSONB''"
| "postgres_type (EnumType _) = Inr ''TEXT''"
| "postgres_type other =
     Inl (RuntimeError (''unsupported postgres type mapping for '' @ in_quotes (schema_type_display other)) 0 0)"

definition postgres_default_expr :: "(expression \<Rightarrow> string) \<Rightarrow> expression \<Rightarrow> marreta_error + string" where
  "postgres_default_expr debug expr =
     (case expr of
        EInteger n \<Rightarrow> Inr (i64_display n)
      | EFloat n \<Rightarrow> Inr (f64_display n)
      | EBoolean v \<Rightarrow> Inr (if v then ''true'' else ''false'')
      | EStringLiteral s \<Rightarrow> Inr (in_quotes (str_replace s [CHR 0x27] [CHR 0x27, CHR 0x27]))
      | EIdentifier name \<Rightarrow>
          if name = ''now'' then Inr ''now()''
          else Inl (RuntimeError (''unsupported default expression '' @ in_quotes (debug expr)) 0 0)
      | _ \<Rightarrow> Inl (RuntimeError (''unsupported default expression '' @ in_quotes (debug expr)) 0 0))"

definition render_postgres_column :: "(expression \<Rightarrow> string) \<Rightarrow> persistent_column \<Rightarrow> marreta_error + string" where
  "render_postgres_column debug column =
     rbind (postgres_type (pc_field_type column)) (\<lambda>ty.
     rbind (case pc_default column of
              None \<Rightarrow> Inr []
            | Some e \<Rightarrow> rbind (postgres_default_expr debug e) (\<lambda>text. Inr [''DEFAULT '' @ text])) (\<lambda>default.
       Inr (join '' ''
         ([pc_column_name column, ty] @
          (if pc_primary column then [''PRIMARY KEY''] else []) @
          (if pc_generated column then [''GENERATED BY DEFAULT AS IDENTITY''] else []) @
          (if pc_nullable column then [] else [''NOT NULL'']) @
          (if pc_unique column then [''UNIQUE''] else []) @
          default))))"

fun render_postgres_op :: "(expression \<Rightarrow> string) \<Rightarrow> migration_op \<Rightarrow> marreta_error + string" where
  "render_postgres_op debug (CreateTable table_name columns) =
     rbind (rmap (render_postgres_column debug) columns) (\<lambda>defs.
       Inr (''CREATE TABLE '' @ table_name @ '' ('' @ [CHR 0x0A] @ ''  '' @ join ('','' @ [CHR 0x0A] @ ''  '') defs @
            [CHR 0x0A] @ '');''))"
| "render_postgres_op debug (AddColumn table_name column) =
     rbind (render_postgres_column debug column) (\<lambda>def.
       Inr (''ALTER TABLE '' @ table_name @ '' ADD COLUMN '' @ def @ '';''))"
| "render_postgres_op debug (AddForeignKey table_name foreign_key) =
     Inr (''ALTER TABLE '' @ table_name @ '' ADD CONSTRAINT '' @
          foreign_key_constraint_name table_name (pf_column_name foreign_key) @
          '' FOREIGN KEY ('' @ pf_column_name foreign_key @ '') REFERENCES '' @ pf_references_table foreign_key @
          ''('' @ pf_references_column foreign_key @ '');'')"

fun render_postgres_down_op :: "migration_op \<Rightarrow> string" where
  "render_postgres_down_op (CreateTable table_name _) = ''DROP TABLE '' @ table_name @ '';''"
| "render_postgres_down_op (AddColumn table_name column) =
     ''ALTER TABLE '' @ table_name @ '' DROP COLUMN '' @ pc_column_name column @ '';''"
| "render_postgres_down_op (AddForeignKey table_name foreign_key) =
     ''ALTER TABLE '' @ table_name @ '' DROP CONSTRAINT '' @
     foreign_key_constraint_name table_name (pf_column_name foreign_key) @ '';''"

definition render_postgres_up_sql :: "(expression \<Rightarrow> string) \<Rightarrow> migration_op list \<Rightarrow> marreta_error + string list" where
  "render_postgres_up_sql debug ops = rmap (render_postgres_op debug) ops"

definition render_postgres_down_sql :: "migration_op list \<Rightarrow> string list" where
  "render_postgres_down_sql ops = map render_postgres_down_op (rev ops)"

fun op_table_name :: "migration_op \<Rightarrow> string" where
  "op_table_name (CreateTable table_name _) = table_name"
| "op_table_name (AddColumn table_name _) = table_name"
| "op_table_name (AddForeignKey table_name _) = table_name"

fun default_migration_name :: "migration_op list \<Rightarrow> string" where
  "default_migration_name [] = ''empty_migration''"
| "default_migration_name [CreateTable table_name _] = ''create_'' @ table_name"
| "default_migration_name [op] = ''alter_'' @ op_table_name op"
| "default_migration_name (op # _) = ''update_'' @ op_table_name op"

definition join_migration_sql :: "string list \<Rightarrow> string" where
  "join_migration_sql statements =
     (let joined = join [CHR 0x0A, CHR 0x0A] statements
      in if ends_with joined [CHR 0x0A] then joined else joined @ [CHR 0x0A])"

subsection \<open>Drift\<close>

definition collapse_whitespace :: "string \<Rightarrow> string" where
  "collapse_whitespace text = join '' '' (split_whitespace text)"

definition normalize_pg_type :: "string \<Rightarrow> string" where
  "normalize_pg_type rendered =
     (let collapsed = map to_ascii_lower (collapse_whitespace rendered)
      in if collapsed = ''int8'' \<or> collapsed = ''bigint'' then ''bigint''
         else if collapsed = ''float8'' \<or> collapsed = ''double precision'' then ''double precision''
         else if collapsed = ''bool'' \<or> collapsed = ''boolean'' then ''boolean''
         else if collapsed = ''timestamptz'' \<or> collapsed = ''timestamp with time zone'' then ''timestamptz''
         else if collapsed = ''decimal'' \<or> collapsed = ''numeric'' then ''numeric''
         else collapsed)"

text \<open>Collecting pairs into a \<open>HashMap\<close> keeps the last value of a key.\<close>

definition collect_map :: "('a \<Rightarrow> string) \<Rightarrow> 'a list \<Rightarrow> string \<Rightarrow> 'a option" where
  "collect_map key xs = map_of (rev (map (\<lambda>x. (key x, x)) xs))"

definition type_drift :: "string \<Rightarrow> string \<Rightarrow> database_column \<Rightarrow> persistent_column \<Rightarrow> schema_drift list" where
  "type_drift table column history desired =
     (case (dc_rendered_type history, postgres_type (pc_field_type desired)) of
        (Some history_type, Inr desired_type) \<Rightarrow>
          if normalize_pg_type history_type \<noteq> normalize_pg_type desired_type
          then [ColumnTypeDiffers table column history_type desired_type] else []
      | _ \<Rightarrow> [])"

definition nullability_drift :: "string \<Rightarrow> string \<Rightarrow> database_column \<Rightarrow> persistent_column \<Rightarrow> schema_drift list" where
  "nullability_drift table column history desired =
     (case dc_nullable history of
        None \<Rightarrow> []
      | Some history_nullable \<Rightarrow>
          (let schema_nullable = pc_nullable desired \<and> \<not> pc_primary desired
           in if history_nullable \<noteq> schema_nullable
              then [ColumnNullabilityDiffers table column history_nullable schema_nullable] else []))"

definition column_drift ::
    "string \<Rightarrow> (string \<Rightarrow> persistent_column option) \<Rightarrow> (string \<times> database_column) list \<Rightarrow> string \<Rightarrow> schema_drift list" where
  "column_drift table desired_cols columns col_name =
     (case map_of columns col_name of
        None \<Rightarrow> []
      | Some history_col \<Rightarrow>
          (case desired_cols col_name of
             None \<Rightarrow> [ColumnRemoved table col_name]
           | Some desired_col \<Rightarrow>
               type_drift table col_name history_col desired_col @
               nullability_drift table col_name history_col desired_col))"

definition table_drift ::
    "(string \<Rightarrow> persistent_table option) \<Rightarrow> (string \<times> database_table) list \<Rightarrow> string \<Rightarrow> schema_drift list" where
  "table_drift desired_by_table tables table_name =
     (case map_of tables table_name of
        None \<Rightarrow> []
      | Some current_table \<Rightarrow>
          (case desired_by_table table_name of
             None \<Rightarrow> [TableRemoved table_name]
           | Some desired_table \<Rightarrow>
               concat (map (column_drift table_name (collect_map pc_column_name (pt_columns desired_table))
                   (dt_columns current_table)) (sort (map fst (dt_columns current_table))))))"

definition detect_schema_drift :: "database_schema \<Rightarrow> (string \<times> persistent_table) list \<Rightarrow> schema_drift list" where
  "detect_schema_drift current desired =
     concat (map (table_drift (collect_map pt_table_name (map snd desired)) (ds_tables current))
       (sort (map fst (ds_tables current))))"

end
