(* ===== verification/Migration_Replay.thy ===== *)
theory Migration_Replay
  imports Migrations
begin

text \<open>
  \<^verbatim>\<open>src/src/migrations.rs\<close>, second part: the replay that derives a database schema from the text of the local
  migrations. A position of the source's scanners is the text from there on: a \<open>skip_\<close> function maps the text at the
  position it is given to the text at the position it returns. A slice between two positions is accumulated as the
  scanner moves. A slice whose end lies before its start is the panic of \<open>fault\<close>.
\<close>

record local_migration =
  lm_version :: string
  lm_name :: string
  lm_up_path :: string
  lm_down_path :: "string option"
  lm_up_sql :: string
  lm_down_sql :: "string option"
  lm_checksum :: string

subsection \<open>Scanners\<close>

abbreviation apostrophe :: char where
  "apostrophe \<equiv> CHR 0x27"

text \<open>From just after the opening \<open>--\<close>, \<open>/*\<close> and apostrophe.\<close>

definition skip_line_comment :: "string \<Rightarrow> string" where
  "skip_line_comment s = dropWhile (\<lambda>c. c \<noteq> CHR 0x0A) s"

fun skip_block_comment :: "string \<Rightarrow> string" where
  "skip_block_comment (c # d # s) = (if c = CHR ''*'' \<and> d = CHR ''/'' then s else skip_block_comment (d # s))"
| "skip_block_comment _ = []"

fun skip_single_quoted :: "string \<Rightarrow> string" where
  "skip_single_quoted [] = []"
| "skip_single_quoted [c] = []"
| "skip_single_quoted (c # d # s) =
     (if c = apostrophe then (if d = apostrophe then skip_single_quoted s else d # s)
      else skip_single_quoted (d # s))"

text \<open>At the dollar sign.\<close>

definition tag_char :: "char \<Rightarrow> bool" where
  "tag_char c \<longleftrightarrow> is_ascii_alphanumeric c \<or> c = CHR ''_''"

definition dollar_tag_len :: "string \<Rightarrow> nat option" where
  "dollar_tag_len s =
     (case tl s of
        [] \<Rightarrow> None
      | c # _ \<Rightarrow>
          if c = CHR ''$'' then Some 2
          else if is_ascii_alphabetic c \<or> c = CHR ''_'' then
            (case dropWhile tag_char (tl s) of
               [] \<Rightarrow> None
             | d # _ \<Rightarrow> if d = CHR ''$'' then Some (length (takeWhile tag_char (tl s)) + 2) else None)
          else None)"

definition skip_dollar_quoted :: "string \<Rightarrow> nat \<Rightarrow> string" where
  "skip_dollar_quoted s tag_len =
     (let tag = take tag_len s; body = drop tag_len s
      in case str_find tag body of
           Some rel \<Rightarrow> drop (rel + tag_len) body
         | None \<Rightarrow> [])"

lemma skip_le:
  "length (skip_line_comment s) \<le> length s" "length (skip_block_comment s) \<le> length s"
  "length (skip_single_quoted s) \<le> length s"
proof -
  show "length (skip_line_comment s) \<le> length s" by (simp add: skip_line_comment_def length_dropWhile_le)
  show "length (skip_block_comment s) \<le> length s" by (induction s rule: skip_block_comment.induct) auto
  show "length (skip_single_quoted s) \<le> length s" by (induction s rule: skip_single_quoted.induct) auto
qed

lemma skip_tl_le: "length (skip_line_comment (tl s)) \<le> length s" "length (skip_block_comment (tl s)) \<le> length s"
  using skip_le(1,2) [of "tl s"] by simp_all

lemma skip_dollar_less:
  assumes "dollar_tag_len (c # s) = Some n"
  shows "length (skip_dollar_quoted (c # s) n) < Suc (length s)"
proof -
  have "0 < n" using assms by (auto simp: dollar_tag_len_def split: list.splits if_splits)
  then show ?thesis by (auto simp: skip_dollar_quoted_def Let_def split: option.split)
qed

text \<open>The text passed when the scanner moves from \<open>here\<close> to \<open>there\<close>.\<close>

definition passed :: "string \<Rightarrow> string \<Rightarrow> string" where
  "passed here there = take (length here - length there) here"

definition opens :: "string \<Rightarrow> char \<Rightarrow> char \<Rightarrow> bool" where
  "opens here c d \<longleftrightarrow> (case here of a # b # _ \<Rightarrow> a = c \<and> b = d | _ \<Rightarrow> False)"

text \<open>The arms that \<open>split_sql_statements\<close> and \<open>strip_sql_comments\<close> have in common: where a scanner goes from here,
  over a literal, a comment or one character.\<close>

definition opens_comment :: "string \<Rightarrow> bool" where
  "opens_comment here \<longleftrightarrow> opens here (CHR ''-'') (CHR ''-'') \<or> opens here (CHR ''/'') (CHR ''*'')"

definition skip_lexeme :: "string \<Rightarrow> string" where
  "skip_lexeme here =
     (let s = tl here
      in if opens here (CHR ''-'') (CHR ''-'') then skip_line_comment (tl s)
         else if opens here (CHR ''/'') (CHR ''*'') then skip_block_comment (tl s)
         else if hd here = apostrophe then skip_single_quoted s
         else if hd here = CHR ''$'' then
           (case dollar_tag_len here of
              Some tag_len \<Rightarrow> skip_dollar_quoted here tag_len
            | None \<Rightarrow> s)
         else s)"

lemma skip_lexeme_le: "length (skip_lexeme (c # s)) \<le> length s"
  using skip_le skip_tl_le skip_dollar_less
  by (auto simp: skip_lexeme_def Let_def less_Suc_eq_le split: option.splits)

function split_scan :: "string \<Rightarrow> string \<Rightarrow> string list" where
  "split_scan cur [] = (if cur = [] then [] else [cur])"
| "split_scan cur (c # s) =
     (if c = CHR '';'' then cur # split_scan [] s
      else split_scan (cur @ passed (c # s) (skip_lexeme (c # s))) (skip_lexeme (c # s)))"
  by pat_completeness auto
termination
  by (relation "measure (\<lambda>(cur, s). length s)") (auto simp: less_Suc_eq_le skip_lexeme_le)

declare split_scan.simps [simp del]

definition split_sql_statements :: "string \<Rightarrow> string list" where
  "split_sql_statements sql = split_scan [] sql"

function split_defs :: "int \<Rightarrow> string \<Rightarrow> string \<Rightarrow> string list" where
  "split_defs depth cur [] = (if cur = [] then [] else [cur])"
| "split_defs depth cur (c # s) =
     (if c = apostrophe then split_defs depth (cur @ passed (c # s) (skip_single_quoted s)) (skip_single_quoted s)
      else if c = CHR ''('' then split_defs (depth + 1) (cur @ [c]) s
      else if c = CHR '')'' then split_defs (depth - 1) (cur @ [c]) s
      else if c = CHR '','' \<and> depth = 0 then cur # split_defs depth [] s
      else split_defs depth (cur @ [c]) s)"
  by pat_completeness auto
termination
  by (relation "measure (\<lambda>(depth, cur, s). length s)") (use skip_le in \<open>auto simp: less_Suc_eq_le\<close>)

declare split_defs.simps [simp del]

definition split_column_defs :: "string \<Rightarrow> string list" where
  "split_column_defs body = split_defs 0 [] body"

function strip_sql_comments :: "string \<Rightarrow> string" where
  "strip_sql_comments [] = []"
| "strip_sql_comments (c # s) =
     (if opens_comment (c # s) then strip_sql_comments (skip_lexeme (c # s))
      else passed (c # s) (skip_lexeme (c # s)) @ strip_sql_comments (skip_lexeme (c # s)))"
  by pat_completeness auto
termination
  by (relation "measure length") (auto simp: less_Suc_eq_le skip_lexeme_le)

declare strip_sql_comments.simps [simp del]

function blank_string_literals :: "string \<Rightarrow> string" where
  "blank_string_literals [] = []"
| "blank_string_literals (c # s) =
     (if c = apostrophe then CHR '' '' # blank_string_literals (skip_single_quoted s)
      else c # blank_string_literals s)"
  by pat_completeness auto
termination
  by (relation "measure length") (use skip_le in \<open>auto simp: less_Suc_eq_le\<close>)

declare blank_string_literals.simps [simp del]

text \<open>\<open>u8::is_ascii_whitespace\<close>, which leaves out the vertical tab.\<close>

definition is_ascii_whitespace :: "char \<Rightarrow> bool" where
  [ascii_simps]: "is_ascii_whitespace c \<longleftrightarrow> c \<in> {CHR 0x20, CHR 0x09, CHR 0x0A, CHR 0x0C, CHR 0x0D}"

fun tokenize_parens :: "int \<Rightarrow> string option \<Rightarrow> string \<Rightarrow> string list" where
  "tokenize_parens depth start [] = (case start of Some t \<Rightarrow> [t] | None \<Rightarrow> [])"
| "tokenize_parens depth start (c # s) =
     (let longer = (case start of Some t \<Rightarrow> Some (t @ [c]) | None \<Rightarrow> Some [c])
      in if c = CHR ''('' then tokenize_parens (depth + 1) longer s
         else if c = CHR '')'' then tokenize_parens (depth - 1) (map_option (\<lambda>t. t @ [c]) start) s
         else if depth = 0 \<and> is_ascii_whitespace c then
           (case start of Some t \<Rightarrow> t # tokenize_parens depth None s | None \<Rightarrow> tokenize_parens depth None s)
         else tokenize_parens depth longer s)"

definition tokenize_paren_aware :: "string \<Rightarrow> string list" where
  "tokenize_paren_aware s = tokenize_parens 0 None s"

subsection \<open>Statements\<close>

definition AUTO_TOLERATED_PREFIXES :: "string list" where
  "AUTO_TOLERATED_PREFIXES =
     [''CREATE INDEX'', ''CREATE UNIQUE INDEX'', ''DROP INDEX'', ''INSERT'', ''UPDATE'', ''DELETE'', ''WITH'']"

definition REPLAY_SKIP_MARKER :: string where
  "REPLAY_SKIP_MARKER = ''-- marreta: skip-replay''"

definition TYPE_TERMINATORS :: "string list" where
  "TYPE_TERMINATORS =
     [''PRIMARY'', ''GENERATED'', ''NOT'', ''NULL'', ''DEFAULT'', ''UNIQUE'', ''REFERENCES'', ''CHECK'', ''COLLATE'']"

definition CONSTRAINT_LEADS :: "string list" where
  "CONSTRAINT_LEADS = [''CONSTRAINT'', ''PRIMARY KEY'', ''FOREIGN KEY'', ''UNIQUE'', ''CHECK'', ''EXCLUDE'']"

definition to_ascii_uppercase :: "string \<Rightarrow> string" where
  "to_ascii_uppercase s = map to_ascii_upper s"

definition eq_ignore_ascii_case :: "string \<Rightarrow> string \<Rightarrow> bool" where
  "eq_ignore_ascii_case a b \<longleftrightarrow> map to_ascii_lower a = map to_ascii_lower b"

text \<open>\<open>str::lines\<close>.\<close>

definition str_lines :: "string \<Rightarrow> string list" where
  "str_lines s =
     (let parts = split_char (CHR 0x0A) s
      in map (\<lambda>l. if l \<noteq> [] \<and> last l = CHR 0x0D then butlast l else l)
           (if last parts = [] then butlast parts else parts))"

definition chunk_has_skip_marker :: "string \<Rightarrow> bool" where
  "chunk_has_skip_marker chunk \<longleftrightarrow> list_ex (\<lambda>line. trim line = REPLAY_SKIP_MARKER) (str_lines chunk)"

definition strip_keyword_ci :: "string \<Rightarrow> string \<Rightarrow> string option" where
  "strip_keyword_ci stmt keyword =
     (if length keyword \<le> length stmt \<and> eq_ignore_ascii_case (take (length keyword) stmt) keyword
      then Some (drop (length keyword) stmt) else None)"

definition is_auto_tolerated :: "string \<Rightarrow> bool" where
  "is_auto_tolerated upper_stmt \<longleftrightarrow>
     list_ex (\<lambda>prefix. upper_stmt = prefix \<or>
       (case strip_prefix prefix upper_stmt of
          Some (c # _) \<Rightarrow> is_whitespace c \<or> c = CHR ''(''
        | _ \<Rightarrow> False)) AUTO_TOLERATED_PREFIXES"

definition is_table_level_constraint :: "string \<Rightarrow> bool" where
  "is_table_level_constraint def \<longleftrightarrow>
     (let upper = to_ascii_uppercase def
      in list_ex (\<lambda>lead. upper = lead \<or> starts_with upper (lead @ '' '') \<or> starts_with upper (lead @ ''(''))
           CONSTRAINT_LEADS)"

definition local_migration_parse_error :: "local_migration \<Rightarrow> string \<Rightarrow> marreta_error" where
  "local_migration_parse_error migration detail =
     IoError (''could not derive schema from local migration '' @ lm_version migration @ ''_'' @ lm_name migration @
       '': '' @ detail)"

definition rejected_ddl_error :: "local_migration \<Rightarrow> string \<Rightarrow> marreta_error" where
  "rejected_ddl_error migration statement =
     local_migration_parse_error migration
       (''unsupported statement '' @ in_quotes (collapse_whitespace statement) @
        ''. The replay derives schema state from generated DDL, and this statement changes columns in a way it '' @
        ''cannot derive. Either rewrite the change as a schema edit plus a generated migration, or, if the '' @
        ''statement is actually schema-neutral, put a line '' @ in_quotes REPLAY_SKIP_MARKER @
        '' before it to skip it during derivation.'')"

definition capture_type_and_nullability :: "string \<Rightarrow> string option \<times> bool option" where
  "capture_type_and_nullability after_name =
     (let type_tokens = takeWhile (\<lambda>token. \<not> list_ex (eq_ignore_ascii_case token) TYPE_TERMINATORS)
            (tokenize_paren_aware after_name);
          modifiers = to_ascii_uppercase (blank_string_literals after_name)
      in if type_tokens = [] then (None, None)
         else (Some (join '' '' type_tokens),
               Some (\<not> (str_contains modifiers ''NOT NULL'' \<or> str_contains modifiers ''PRIMARY KEY''))))"

text \<open>\<open>str::split_once\<close> with a predicate, and with a text.\<close>

fun split_once_by :: "(char \<Rightarrow> bool) \<Rightarrow> string \<Rightarrow> (string \<times> string) option" where
  "split_once_by p [] = None"
| "split_once_by p (c # s) =
     (if p c then Some ([], s) else map_option (\<lambda>(a, b). (c # a, b)) (split_once_by p s))"

definition split_once_str :: "string \<Rightarrow> string \<Rightarrow> (string \<times> string) option" where
  "split_once_str sep s = map_option (\<lambda>i. (take i s, drop (i + length sep) s)) (str_find sep s)"

definition new_column :: "string \<Rightarrow> string \<Rightarrow> database_column" where
  "new_column column_name after_name =
     (case capture_type_and_nullability after_name of (rendered_type, nullable) \<Rightarrow>
        \<lparr>dc_name = column_name, dc_rendered_type = rendered_type, dc_nullable = nullable\<rparr>)"

definition insert_column :: "string \<Rightarrow> string \<Rightarrow> database_table \<Rightarrow> database_table" where
  "insert_column column_name after_name table =
     table\<lparr>dt_columns := AList.update column_name (new_column column_name after_name) (dt_columns table)\<rparr>"

definition empty_table :: "string \<Rightarrow> database_table" where
  "empty_table table_name = \<lparr>dt_name = table_name, dt_columns = [], dt_foreign_keys = []\<rparr>"

definition parse_error :: "string \<Rightarrow> string \<Rightarrow> fault + 'a" where
  "parse_error version problem = Inl (Err (IoError (''could not parse local migration '' @ version @ '': '' @ problem)))"

definition apply_column_def :: "string \<Rightarrow> string \<Rightarrow> database_table \<Rightarrow> fault + database_table" where
  "apply_column_def version raw_def table =
     (let def = trim (rev (dropWhile (\<lambda>c. c = CHR '','') (rev (trim raw_def))))
      in if def = [] \<or> is_table_level_constraint def then Inr table
         else case split_once_by is_whitespace def of
                Some (column_name, after_name) \<Rightarrow> Inr (insert_column column_name after_name table)
              | None \<Rightarrow> parse_error version (''invalid column definition '' @ in_quotes def))"

fun apply_column_defs :: "string \<Rightarrow> string list \<Rightarrow> database_table \<Rightarrow> fault + database_table" where
  "apply_column_defs version [] table = Inr table"
| "apply_column_defs version (def # defs) table =
     rbind (apply_column_def version def table) (apply_column_defs version defs)"

definition put_table :: "string \<Rightarrow> database_table \<Rightarrow> database_schema \<Rightarrow> database_schema" where
  "put_table table_name table schema = schema\<lparr>ds_tables := AList.update table_name table (ds_tables schema)\<rparr>"

definition apply_create_table_stmt :: "database_schema \<Rightarrow> string \<Rightarrow> string \<Rightarrow> fault + database_schema" where
  "apply_create_table_stmt schema rest version =
     (case split_once_by (\<lambda>c. c = CHR ''('') rest of
        None \<Rightarrow> parse_error version (''CREATE TABLE missing '' @ in_quotes ''('')
      | Some (before, after) \<Rightarrow>
          (let table_name = trim before
           in case strip_suffix_char (CHR '')'') (trim after) of
                None \<Rightarrow> parse_error version (''CREATE TABLE missing closing '' @ in_quotes '')'')
              | Some body \<Rightarrow>
                  rbind (apply_column_defs version (split_column_defs body) (empty_table table_name)) (\<lambda>table.
                    Inr (put_table table_name table schema))))"

definition alter_table_entry :: "database_schema \<Rightarrow> string \<Rightarrow> database_table" where
  "alter_table_entry schema table_name =
     (case map_of (ds_tables schema) table_name of Some table \<Rightarrow> table | None \<Rightarrow> empty_table table_name)"

text \<open>The text between the first opening and the first closing parenthesis, the text before and the text after.\<close>

definition parenthesised :: "(string \<Rightarrow> fault) \<Rightarrow> string \<Rightarrow> fault + (string \<times> string \<times> string)" where
  "parenthesised missing s =
     (case str_find ''('' s of
        None \<Rightarrow> Inl (missing ''('')
      | Some open' \<Rightarrow>
          (case str_find '')'' s of
             None \<Rightarrow> Inl (missing '')'')
           | Some close \<Rightarrow>
               if close < open' + 1 then Inl Panicked
               else Inr (take open' s, take (close - (open' + 1)) (drop (open' + 1) s), drop (close + 1) s)))"

definition apply_foreign_key ::
    "database_schema \<Rightarrow> string \<Rightarrow> string \<Rightarrow> string \<Rightarrow> fault + database_schema" where
  "apply_foreign_key schema table_name fk_def version =
     (let problem = (\<lambda>text. Err (IoError (''could not parse local migration '' @ version @ '': '' @ text)))
      in case split_once_str '' FOREIGN KEY '' fk_def of
           None \<Rightarrow> Inl (problem (''invalid ADD CONSTRAINT '' @ in_quotes fk_def))
         | Some (constraint_name, fk_rest) \<Rightarrow>
             rbind (parenthesised (\<lambda>p. problem (''foreign key missing '' @ in_quotes p)) fk_rest)
               (\<lambda>(_, column_name, after).
             case strip_prefix ''REFERENCES '' (trim after) of
               None \<Rightarrow> Inl (problem ''foreign key missing REFERENCES'')
             | Some refs \<Rightarrow>
                 rbind (parenthesised (\<lambda>p. problem (''references missing '' @ in_quotes p)) refs)
                   (\<lambda>(references_table, references_column, _).
                 let name = trim constraint_name;
                     table = alter_table_entry schema table_name;
                     fk = \<lparr>df_name = name, df_column_name = trim column_name,
                           df_references_table = trim references_table,
                           df_references_column = trim references_column\<rparr>
                 in Inr (put_table table_name
                      (table\<lparr>dt_foreign_keys := AList.update name fk (dt_foreign_keys table)\<rparr>) schema))))"

definition apply_alter_table_stmt ::
    "database_schema \<Rightarrow> local_migration \<Rightarrow> string \<Rightarrow> string \<Rightarrow> fault + database_schema" where
  "apply_alter_table_stmt schema migration stmt rest =
     (let version = lm_version migration
      in case split_once_by (\<lambda>c. c = CHR '' '') rest of
           None \<Rightarrow> parse_error version (''invalid ALTER TABLE '' @ in_quotes rest)
         | Some (table_name, remainder) \<Rightarrow>
             (case strip_keyword_ci remainder ''ADD COLUMN '' of
                Some column_def \<Rightarrow>
                  (case split_once_by is_whitespace column_def of
                     None \<Rightarrow> parse_error version (''invalid ADD COLUMN '' @ in_quotes column_def)
                   | Some (column_name, after_name) \<Rightarrow>
                       Inr (put_table table_name
                         (insert_column column_name after_name (alter_table_entry schema table_name)) schema))
              | None \<Rightarrow>
                  (case strip_keyword_ci remainder ''ADD CONSTRAINT '' of
                     Some fk_def \<Rightarrow> apply_foreign_key schema table_name fk_def version
                   | None \<Rightarrow> Inl (Err (rejected_ddl_error migration stmt)))))"

definition apply_statement :: "local_migration \<Rightarrow> string \<Rightarrow> database_schema \<Rightarrow> fault + database_schema" where
  "apply_statement migration raw_stmt schema =
     (let stmt = trim (strip_sql_comments raw_stmt)
      in if stmt = [] \<or> chunk_has_skip_marker raw_stmt then Inr schema
         else case strip_keyword_ci stmt ''CREATE TABLE '' of
                Some rest \<Rightarrow> apply_create_table_stmt schema rest (lm_version migration)
              | None \<Rightarrow>
                  (case strip_keyword_ci stmt ''ALTER TABLE '' of
                     Some rest \<Rightarrow> apply_alter_table_stmt schema migration stmt rest
                   | None \<Rightarrow>
                       if is_auto_tolerated (to_ascii_uppercase stmt) then Inr schema
                       else Inl (Err (rejected_ddl_error migration stmt))))"

fun apply_statements :: "local_migration \<Rightarrow> string list \<Rightarrow> database_schema \<Rightarrow> fault + database_schema" where
  "apply_statements migration [] schema = Inr schema"
| "apply_statements migration (stmt # stmts) schema =
     rbind (apply_statement migration stmt schema) (apply_statements migration stmts)"

definition apply_local_migration_to_schema ::
    "local_migration \<Rightarrow> database_schema \<Rightarrow> fault + database_schema" where
  "apply_local_migration_to_schema migration schema =
     apply_statements migration (split_sql_statements (lm_up_sql migration)) schema"

fun replay_migrations :: "local_migration list \<Rightarrow> database_schema \<Rightarrow> fault + database_schema" where
  "replay_migrations [] schema = Inr schema"
| "replay_migrations (migration # rest) schema =
     rbind (apply_local_migration_to_schema migration schema) (replay_migrations rest)"

definition build_schema_from_local_migrations :: "local_migration list \<Rightarrow> fault + database_schema" where
  "build_schema_from_local_migrations locals = replay_migrations locals \<lparr>ds_tables = []\<rparr>"

end
