(* ===== verification/Migration_Text.thy ===== *)
theory Migration_Text
  imports Migration_Replay
begin

text \<open>
  The text of migrations (\<^verbatim>\<open>src/src/migrations.rs\<close>). A plan has a meaning of its own, \<open>apply_op\<close>: the change of
  the database schema each operation stands for. Replaying the SQL text of a plan computes exactly that meaning.
\<close>

subsection \<open>The meaning of a plan\<close>

definition type_text :: "schema_type \<Rightarrow> string" where
  "type_text ty = (case postgres_type ty of Inr text \<Rightarrow> text | Inl _ \<Rightarrow> [])"

definition column_of :: "persistent_column \<Rightarrow> database_column" where
  "column_of c = \<lparr>dc_name = pc_column_name c, dc_rendered_type = Some (type_text (pc_field_type c)),
     dc_nullable = Some (pc_nullable c \<and> \<not> pc_primary c)\<rparr>"

definition put_column :: "persistent_column \<Rightarrow> database_table \<Rightarrow> database_table" where
  "put_column c table = table\<lparr>dt_columns := AList.update (pc_column_name c) (column_of c) (dt_columns table)\<rparr>"

definition put_fk :: "string \<Rightarrow> persistent_foreign_key \<Rightarrow> database_table \<Rightarrow> database_table" where
  "put_fk t fk table =
     (let name = foreign_key_constraint_name t (pf_column_name fk)
      in table\<lparr>dt_foreign_keys := AList.update name
           \<lparr>df_name = name, df_column_name = pf_column_name fk, df_references_table = pf_references_table fk,
            df_references_column = pf_references_column fk\<rparr> (dt_foreign_keys table)\<rparr>)"

fun apply_op :: "migration_op \<Rightarrow> database_schema \<Rightarrow> database_schema" where
  "apply_op (CreateTable t cols) schema = put_table t (fold put_column cols (empty_table t)) schema"
| "apply_op (AddColumn t c) schema = put_table t (put_column c (alter_table_entry schema t)) schema"
| "apply_op (AddForeignKey t fk) schema = put_table t (put_fk t fk (alter_table_entry schema t)) schema"

text \<open>Names the replay can read back.\<close>

definition word :: "string \<Rightarrow> bool" where
  "word s \<longleftrightarrow> s \<noteq> [] \<and> list_all tag_char s"

definition column_word :: "string \<Rightarrow> bool" where
  "column_word s \<longleftrightarrow> word s \<and>
     to_ascii_uppercase s \<notin> {''CONSTRAINT'', ''PRIMARY'', ''FOREIGN'', ''UNIQUE'', ''CHECK'', ''EXCLUDE''}"

definition column_ok :: "persistent_column \<Rightarrow> bool" where
  "column_ok c \<longleftrightarrow> column_word (pc_column_name c) \<and> pc_default c = None \<and> \<not> pc_unique c \<and>
     (pc_generated c \<longrightarrow> pc_primary c) \<and> (\<exists>text. postgres_type (pc_field_type c) = Inr text)"

fun op_ok :: "migration_op \<Rightarrow> bool" where
  "op_ok (CreateTable t cols) \<longleftrightarrow> word t \<and> cols \<noteq> [] \<and> list_all column_ok cols"
| "op_ok (AddColumn t c) \<longleftrightarrow> word t \<and> column_ok c"
| "op_ok (AddForeignKey t fk) \<longleftrightarrow> word t \<and> word (pf_column_name fk) \<and> word (pf_references_table fk) \<and>
     word (pf_references_column fk)"

subsection \<open>Columns\<close>

text \<open>The text after the name of a column is a list of words: those of the type, then those of the modifiers.\<close>

definition plain_word :: "string \<Rightarrow> bool" where
  "plain_word w \<longleftrightarrow> w \<noteq> [] \<and> list_all is_ascii_alphanumeric w"

lemma alphanumeric_char:
  assumes "is_ascii_alphanumeric c"
  shows "c \<noteq> CHR ''(''" "c \<noteq> CHR '')''" "\<not> is_ascii_whitespace c" "\<not> is_whitespace c" "c \<noteq> apostrophe" "tag_char c"
    "c \<noteq> CHR '',''"
  using assms by (auto simp: ascii_simps tag_char_def)

lemma tokenize_word:
  assumes "list_all is_ascii_alphanumeric w"
  shows "tokenize_parens 0 (Some t) (w @ s) = tokenize_parens 0 (Some (t @ w)) s"
  using assms by (induction w arbitrary: t) (simp_all add: alphanumeric_char)

lemma tokenize_plain_words:
  "list_all plain_word ws \<Longrightarrow> tokenize_parens 0 None (join '' '' ws) = ws"
proof (induction "'' ''" ws rule: join.induct)
  case (2 p)
  then obtain c w where p: "p = c # w" by (cases p) (auto simp: plain_word_def)
  with 2 show ?case using tokenize_word [of w "[c]" "[]"] by (simp add: plain_word_def alphanumeric_char)
next
  case (3 p q ps)
  then obtain c w where p: "p = c # w" by (cases p) (auto simp: plain_word_def)
  have space: "is_ascii_whitespace CHR '' ''" by (simp add: is_ascii_whitespace_def)
  with 3 p show ?case
    using tokenize_word [of w "[c]" "CHR '' '' # join '' '' (q # ps)"] by (simp add: plain_word_def alphanumeric_char)
qed simp

lemma join_concat:
  "\<forall>ws \<in> set wss. ws \<noteq> [] \<Longrightarrow> join sep (map (join sep) wss) = join sep (concat wss)"
proof (induction wss)
  case (Cons ws wss)
  have append: "join sep (xs @ ys) = join sep xs @ sep @ join sep ys" if "xs \<noteq> []" "ys \<noteq> []" for xs ys
    using that by (induction sep xs rule: join.induct) (simp_all add: join_Cons)
  show ?case
  proof (cases "concat wss = []")
    case True
    then have "wss = []" using Cons.prems by (cases wss) auto
    then show ?thesis by simp
  next
    case False
    then have "wss \<noteq> []" by auto
    with False Cons append show ?thesis by (simp add: join_Cons)
  qed
qed simp

definition pg_words :: "string list list" where
  "pg_words = [[''TEXT''], [''BIGINT''], [''DOUBLE'', ''PRECISION''], [''NUMERIC''], [''BOOLEAN''], [''TIMESTAMPTZ''],
     [''DATE''], [''TIME''], [''JSONB'']]"

definition terminator :: "string \<Rightarrow> bool" where
  "terminator token \<longleftrightarrow> list_ex (eq_ignore_ascii_case token) TYPE_TERMINATORS"

lemma pg_words_plain:
  "\<forall>ws \<in> set pg_words. ws \<noteq> [] \<and> list_all plain_word ws \<and> list_all (\<lambda>w. \<not> terminator w) ws \<and>
     \<not> str_contains (to_ascii_uppercase (join '' '' ws)) ''NOT NULL'' \<and>
     \<not> str_contains (to_ascii_uppercase (join '' '' ws)) ''PRIMARY KEY''"
  by code_simp

lemma postgres_type_words:
  assumes "postgres_type ty = Inr text"
  obtains ws where "ws \<in> set pg_words" "text = join '' '' ws" "type_text ty = text"
proof -
  have "type_text ty = text" using assms by (simp add: type_text_def)
  moreover have "\<exists>ws \<in> set pg_words. text = join '' '' ws"
    using assms by (cases ty) (auto simp: pg_words_def)
  ultimately show ?thesis using that by blast
qed

definition modifier_words :: "bool \<Rightarrow> bool \<Rightarrow> bool \<Rightarrow> string list list" where
  "modifier_words primary generated nullable =
     (if primary then [[''PRIMARY'', ''KEY'']] else []) @
     (if generated then [[''GENERATED'', ''BY'', ''DEFAULT'', ''AS'', ''IDENTITY'']] else []) @
     (if nullable then [] else [[''NOT'', ''NULL'']])"

lemma modifier_words_plain:
  "\<forall>p g n. list_all (\<lambda>ws. ws \<noteq> [] \<and> list_all plain_word ws \<and> terminator (hd ws)) (modifier_words p g n)"
  by code_simp

lemma str_find_append: "str_find p (a @ p @ b) \<noteq> None"
proof (induction a)
  case Nil
  have "take (length p) (p @ b) = p" by simp
  then show ?case by (cases "p @ b") simp_all
qed simp

lemma join_contains:
  obtains a b where "join sep (pre @ w1 # w2 # rest) = a @ (w1 @ sep @ w2) @ b"
proof (induction pre arbitrary: thesis)
  case Nil
  show ?case by (cases rest) (rule Nil [of "[]"], simp)+
next
  case (Cons x xs)
  obtain a b where "join sep (xs @ w1 # w2 # rest) = a @ (w1 @ sep @ w2) @ b" using Cons.IH by blast
  then show ?case by (intro Cons.prems [of "x @ sep @ a" b]) (simp add: join_Cons)
qed

lemma str_contains_join: "str_contains (join sep (pre @ w1 # w2 # rest)) (w1 @ sep @ w2)"
  unfolding str_contains_def
  by (rule join_contains [of sep pre w1 w2 rest]) (simp only: str_find_append, simp)

lemma to_ascii_uppercase_join: "to_ascii_uppercase (join '' '' ws) = join '' '' (map to_ascii_uppercase ws)"
  by (induction "'' ''" ws rule: join.induct) (simp_all add: to_ascii_uppercase_def to_ascii_upper_def ascii_simps)

lemma blank_plain: "apostrophe \<notin> set s \<Longrightarrow> blank_string_literals s = s"
  by (induction s) (auto simp: blank_string_literals.simps)

lemma plain_words_chars:
  assumes "list_all plain_word ws" and "c \<in> set (join '' '' ws)"
  shows "is_ascii_alphanumeric c \<or> c = CHR '' ''"
  using in_set_join [OF assms(2)] assms(1) by (auto simp: plain_word_def list_all_iff)

lemma modifiers_nullability:
  assumes "pre \<noteq> []"
  shows "p \<Longrightarrow> str_contains (to_ascii_uppercase (join '' '' (pre @ concat (modifier_words p g n)))) ''PRIMARY KEY''"
    "\<not> n \<Longrightarrow> str_contains (to_ascii_uppercase (join '' '' (pre @ concat (modifier_words p g n)))) ''NOT NULL''"
proof -
  have upper: "map to_ascii_uppercase [''PRIMARY'', ''KEY''] = [''PRIMARY'', ''KEY'']"
    "map to_ascii_uppercase [''NOT'', ''NULL''] = [''NOT'', ''NULL'']"
    by code_simp+
  show "str_contains (to_ascii_uppercase (join '' '' (pre @ concat (modifier_words p g n)))) ''PRIMARY KEY''" if p
    using that str_contains_join [of "'' ''" "map to_ascii_uppercase pre" "''PRIMARY''" "''KEY''"] upper
    by (simp add: modifier_words_def to_ascii_uppercase_join)
  show "str_contains (to_ascii_uppercase (join '' '' (pre @ concat (modifier_words p g n)))) ''NOT NULL''" if "\<not> n"
    using that str_contains_join [of "'' ''" "map to_ascii_uppercase (pre @ concat (modifier_words p g True))" "''NOT''" "''NULL''" "[]"]
      upper
    by (simp add: modifier_words_def to_ascii_uppercase_join)
qed

lemma capture_words:
  assumes "ws \<in> set pg_words" and "g \<longrightarrow> p"
  shows "capture_type_and_nullability (join '' '' (ws @ concat (modifier_words p g n))) =
     (Some (join '' '' ws), Some (n \<and> \<not> p))"
proof -
  let ?mods = "concat (modifier_words p g n)"
  let ?text = "join '' '' (ws @ ?mods)"
  have ws: "ws \<noteq> []" "list_all plain_word ws" "list_all (\<lambda>w. \<not> terminator w) ws"
    "\<not> str_contains (to_ascii_uppercase (join '' '' ws)) ''NOT NULL''"
    "\<not> str_contains (to_ascii_uppercase (join '' '' ws)) ''PRIMARY KEY''"
    using pg_words_plain assms(1) by blast+
  have mods: "list_all plain_word ?mods" "?mods = [] \<or> terminator (hd ?mods)"
    using modifier_words_plain [rule_format, of p g n] by (auto simp: list_all_iff modifier_words_def)
  have "tokenize_paren_aware ?text = ws @ ?mods"
    unfolding tokenize_paren_aware_def using ws mods by (intro tokenize_plain_words) simp
  moreover have "takeWhile (\<lambda>token. \<not> terminator token) (ws @ ?mods) = ws"
  proof -
    have "takeWhile (\<lambda>token. \<not> terminator token) ?mods = []"
      using mods(2) by (cases ?mods) (simp_all del: concat_eq_Nil_conv)
    with ws(3) show ?thesis by (simp add: list_all_iff takeWhile_append2)
  qed
  moreover have "apostrophe \<notin> set ?text"
    using plain_words_chars [of "ws @ ?mods" apostrophe] ws(2) mods(1) by (auto simp: ascii_simps)
  moreover have "\<not> (str_contains (to_ascii_uppercase ?text) ''NOT NULL'' \<or>
      str_contains (to_ascii_uppercase ?text) ''PRIMARY KEY'') \<longleftrightarrow> n \<and> \<not> p"
  proof (cases "n \<and> \<not> p")
    case True
    with assms(2) have "modifier_words p g n = []" by (simp add: modifier_words_def)
    with ws True show ?thesis by simp
  next
    case False
    with modifiers_nullability [OF ws(1)] show ?thesis by blast
  qed
  ultimately show ?thesis
    using ws(1) by (simp add: capture_type_and_nullability_def terminator_def blank_plain)
qed

lemma join_plain_last:
  "ws \<noteq> [] \<Longrightarrow> list_all plain_word ws \<Longrightarrow> join '' '' ws \<noteq> [] \<and> is_ascii_alphanumeric (last (join '' '' ws))"
proof (induction ws rule: rev_induct)
  case (snoc w us)
  then show ?case by (cases "us = []") (auto simp: join_snoc plain_word_def list_all_iff)
qed simp

definition tail_char :: "char \<Rightarrow> bool" where
  "tail_char c \<longleftrightarrow> is_ascii_alphanumeric c \<or> c = CHR '' ''"

lemma render_column:
  assumes "column_ok c"
  obtains tail where "render_postgres_column debug c = Inr (pc_column_name c @ '' '' @ tail)"
    "new_column (pc_column_name c) tail = column_of c" "list_all tail_char tail" "tail \<noteq> []"
    "is_ascii_alphanumeric (last tail)"
proof -
  from assms obtain ty where ty: "postgres_type (pc_field_type c) = Inr ty" by (auto simp: column_ok_def)
  then obtain ws where ws: "ws \<in> set pg_words" "ty = join '' '' ws" "type_text (pc_field_type c) = ty"
    by (rule postgres_type_words)
  let ?mods = "modifier_words (pc_primary c) (pc_generated c) (pc_nullable c)"
  let ?words = "ws @ concat ?mods"
  let ?tail = "join '' '' ?words"
  have plain: "ws \<noteq> []" "list_all plain_word ?words" "\<forall>us \<in> set (ws # ?mods). us \<noteq> []"
    using pg_words_plain ws(1) modifier_words_plain [rule_format, of "pc_primary c" "pc_generated c" "pc_nullable c"]
    by (auto simp: list_all_iff)
  have parts: "map (join '' '') ?mods = (if pc_primary c then [''PRIMARY KEY''] else []) @
      (if pc_generated c then [''GENERATED BY DEFAULT AS IDENTITY''] else []) @ (if pc_nullable c then [] else [''NOT NULL''])"
    by (simp add: modifier_words_def)
  have "join '' '' (ty # map (join '' '') ?mods) = ?tail"
    using join_concat [OF plain(3), of "'' ''"] ws(2) by simp
  then have "render_postgres_column debug c = Inr (pc_column_name c @ '' '' @ ?tail)"
    using assms ty unfolding parts by (simp add: render_postgres_column_def column_ok_def)
  moreover have "new_column (pc_column_name c) ?tail = column_of c"
    using capture_words [OF ws(1)] assms ws(2,3) by (simp add: new_column_def column_of_def column_ok_def)
  moreover have "list_all tail_char ?tail"
    using plain_words_chars [OF plain(2)] by (auto simp: list_all_iff tail_char_def)
  moreover have last: "?tail \<noteq> [] \<and> is_ascii_alphanumeric (last ?tail)"
    by (rule join_plain_last) (use plain in simp_all)
  ultimately show ?thesis using that by blast
qed

end
