(* ===== verification/Migration_Script.thy ===== *)
theory Migration_Script
  imports Migration_Text
begin

text \<open>
  The replay of \<^verbatim>\<open>src/src/migrations.rs\<close> on generated scripts: each statement of the text of a plan is split off, read
  and applied as the operation it came from.
\<close>

subsection \<open>Plain text\<close>

definition sql_plain :: "char \<Rightarrow> bool" where
  "sql_plain c \<longleftrightarrow> c \<notin> {CHR '';'', apostrophe, CHR ''-'', CHR ''/'', CHR ''$''}"

lemma tag_char_facts:
  assumes "tag_char c"
  shows "sql_plain c" "\<not> is_whitespace c" "c \<noteq> CHR ''(''" "c \<noteq> CHR '')''" "c \<noteq> CHR '',''" "c \<noteq> CHR '' ''"
    "c \<noteq> apostrophe"
  using assms by (auto simp: tag_char_def sql_plain_def ascii_simps)

lemma tail_char_facts:
  assumes "tail_char c"
  shows "sql_plain c" "c \<noteq> CHR ''(''" "c \<noteq> CHR '')''" "c \<noteq> CHR '',''" "c \<noteq> apostrophe"
  using assms by (auto simp: tail_char_def sql_plain_def ascii_simps)

lemma word_chars: "word s \<Longrightarrow> c \<in> set s \<Longrightarrow> tag_char c"
  by (auto simp: word_def list_all_iff)

lemma skip_lexeme_plain: "sql_plain c \<Longrightarrow> skip_lexeme (c # s) = s" "sql_plain c \<Longrightarrow> \<not> opens_comment (c # s)"
  by (auto simp: skip_lexeme_def opens_comment_def opens_def sql_plain_def split: list.splits)

lemma passed_one: "passed (c # s) s = [c]"
  by (simp add: passed_def)

lemma split_scan_plain: "list_all sql_plain p \<Longrightarrow> split_scan cur (p @ s) = split_scan (cur @ p) s"
proof (induction p arbitrary: cur)
  case (Cons c p)
  then have "c \<noteq> CHR '';''" by (simp add: sql_plain_def)
  with Cons show ?case by (simp add: split_scan.simps skip_lexeme_plain passed_one)
qed simp

lemma strip_sql_comments_plain: "list_all sql_plain p \<Longrightarrow> strip_sql_comments p = p"
  by (induction p) (simp_all add: strip_sql_comments.simps skip_lexeme_plain passed_one)

lemma split_char_subset: "p \<in> set (split_char c s) \<Longrightarrow> set p \<subseteq> set s"
  by (induction c s arbitrary: p rule: split_char.induct) (fastforce split: if_splits list.splits)+

lemma set_trim: "set (trim s) \<subseteq> set s"
  unfolding trim_def trim_start_def by (auto dest!: set_dropWhileD)

lemma no_skip_marker:
  assumes "CHR ''-'' \<notin> set chunk"
  shows "\<not> chunk_has_skip_marker chunk"
proof -
  have "set l \<subseteq> set chunk" if "l \<in> set (str_lines chunk)" for l
    using that by (auto simp: str_lines_def Let_def dest!: split_char_subset in_set_butlastD split: if_splits)
  then have "CHR ''-'' \<notin> set (trim l)" if "l \<in> set (str_lines chunk)" for l
    using that assms set_trim by blast
  moreover have "CHR ''-'' \<in> set REPLAY_SKIP_MARKER" by (simp add: REPLAY_SKIP_MARKER_def)
  ultimately show ?thesis unfolding chunk_has_skip_marker_def list_ex_iff by metis
qed

lemma trim_padded:
  assumes "list_all is_whitespace p" "list_all is_whitespace q" "s \<noteq> []" "\<not> is_whitespace (hd s)" "\<not> is_whitespace (last s)"
  shows "trim (p @ s @ q) = s"
proof -
  have start: "dropWhile is_whitespace (u @ t @ v) = t @ v"
    if "list_all is_whitespace u" "t \<noteq> []" "\<not> is_whitespace (hd t)" for u t v
    using that by (cases t) (auto simp: list_all_iff dropWhile_append1 dropWhile_append2)
  have "trim_start (p @ s @ q) = s @ q" unfolding trim_start_def using start assms by blast
  moreover have "dropWhile is_whitespace (rev q @ rev s @ []) = rev s @ []"
    by (rule start) (use assms in \<open>simp_all add: list_all_iff hd_rev\<close>)
  ultimately show ?thesis by (simp add: trim_def trim_start_def)
qed

lemma trim_blank: "list_all is_whitespace p \<Longrightarrow> trim p = []"
proof -
  assume "list_all is_whitespace p"
  then have "dropWhile is_whitespace p = []" by (metis dropWhile_eq_Nil_conv list_all_iff)
  then show ?thesis by (simp only: trim_def trim_start_def rev.simps dropWhile.simps)
qed

lemma split_once_by_append: "\<forall>x \<in> set a. \<not> p x \<Longrightarrow> p c \<Longrightarrow> split_once_by p (a @ c # b) = Some (a, b)"
  by (induction a) simp_all

lemma str_find_first:
  assumes "\<forall>x \<in> set a. x \<noteq> c"
  shows "str_find (c # p) (a @ (c # p) @ b) = Some (length a)"
  using assms by (induction a) auto

lemma strip_keyword_ci_append: "strip_keyword_ci (k @ s) k = Some s"
  by (simp add: strip_keyword_ci_def eq_ignore_ascii_case_def)

subsection \<open>Column definitions\<close>

text \<open>The text of a column that the replay reads as the column \<open>c\<close>.\<close>

definition column_text :: "persistent_column \<Rightarrow> string \<Rightarrow> bool" where
  "column_text c d \<longleftrightarrow> (\<exists>tail. d = pc_column_name c @ '' '' @ tail \<and> column_word (pc_column_name c) \<and>
     new_column (pc_column_name c) tail = column_of c \<and> list_all tail_char tail \<and> tail \<noteq> [] \<and>
     is_ascii_alphanumeric (last tail))"

lemma render_column_text:
  assumes "column_ok c"
  obtains d where "render_postgres_column debug c = Inr d" "column_text c d"
  using render_column [OF assms, of debug] assms unfolding column_text_def column_ok_def by metis

lemma column_text_chars:
  assumes "column_text c d"
  shows "d \<noteq> []" "tag_char (hd d)" "is_ascii_alphanumeric (last d)" "x \<in> set d \<Longrightarrow> tag_char x \<or> x = CHR '' ''"
proof -
  obtain tail where d: "d = pc_column_name c @ '' '' @ tail" and name: "column_word (pc_column_name c)"
    and tail: "list_all tail_char tail" "tail \<noteq> []" "is_ascii_alphanumeric (last tail)"
    using assms unfolding column_text_def by blast
  from name have word: "word (pc_column_name c)" by (simp add: column_word_def)
  then have "pc_column_name c \<noteq> []" by (simp add: word_def)
  with d tail show "d \<noteq> []" "is_ascii_alphanumeric (last d)" by simp_all
  show "tag_char (hd d)" using word d by (cases "pc_column_name c") (auto simp: word_def)
  show "tag_char x \<or> x = CHR '' ''" if "x \<in> set d"
    using that d word_chars [OF word] tail(1) by (auto simp: tail_char_def tag_char_def list_all_iff)
qed

lemma to_ascii_upper_cases: "to_ascii_upper c = c \<or> is_ascii_alphabetic (to_ascii_upper c)"
  by (auto simp: to_ascii_upper_def ascii_simps)

lemma upper_no:
  assumes "\<not> is_ascii_alphabetic x" and "x \<notin> set s"
  shows "x \<notin> set (to_ascii_uppercase s)"
proof
  assume "x \<in> set (to_ascii_uppercase s)"
  then obtain c where c: "c \<in> set s" "x = to_ascii_upper c" by (auto simp: to_ascii_uppercase_def)
  with to_ascii_upper_cases [of c] assms show False by auto
qed

lemma starts_with_first_word:
  assumes "starts_with (a @ '' '' @ s) (l @ '' '' @ t)" and "CHR '' '' \<notin> set a" and "CHR '' '' \<notin> set l"
  shows "a = l"
proof -
  from assms(1) obtain r where "a @ '' '' @ s = (l @ '' '' @ t) @ r"
    unfolding starts_with_def by (metis append_take_drop_id)
  then have "takeWhile (\<lambda>x. x \<noteq> CHR '' '') (a @ '' '' @ s) = takeWhile (\<lambda>x. x \<noteq> CHR '' '') (l @ '' '' @ t @ r)" by simp
  moreover have "takeWhile (\<lambda>x. x \<noteq> CHR '' '') (u @ '' '' @ v) = u" if "CHR '' '' \<notin> set u" for u v
    using that by (induction u) auto
  ultimately show ?thesis using assms(2,3) by simp
qed

lemma starts_with_set: "starts_with s p \<Longrightarrow> set p \<subseteq> set s"
  unfolding starts_with_def by (metis set_take_subset)

lemma column_not_constraint:
  assumes "column_text c d"
  shows "\<not> is_table_level_constraint d"
proof -
  obtain tail where d: "d = pc_column_name c @ '' '' @ tail" and name: "column_word (pc_column_name c)"
    and tail: "list_all tail_char tail"
    using assms unfolding column_text_def by blast
  let ?a = "to_ascii_uppercase (pc_column_name c)"
  have upper: "to_ascii_uppercase d = ?a @ '' '' @ to_ascii_uppercase tail"
    by (simp add: d to_ascii_uppercase_def to_ascii_upper_def ascii_simps)
  have space: "CHR '' '' \<notin> set ?a"
    using name word_chars tag_char_facts(6) by (intro upper_no) (auto simp: ascii_simps column_word_def)
  have paren: "CHR ''('' \<notin> set (to_ascii_uppercase d)"
    using column_text_chars(4) [OF assms] tag_char_facts(3) by (intro upper_no) (auto simp: ascii_simps)
  let ?leads = "\<lambda>lead. to_ascii_uppercase d = lead \<or> starts_with (to_ascii_uppercase d) (lead @ '' '') \<or>
      starts_with (to_ascii_uppercase d) (lead @ ''('')"
  have no_paren: "\<not> starts_with (to_ascii_uppercase d) (lead @ ''('')" for lead
    using starts_with_set [of "to_ascii_uppercase d" "lead @ ''(''"] paren by auto
  have no_word: "\<not> starts_with (to_ascii_uppercase d) (l @ '' '' @ t)" if "?a \<noteq> l" "CHR '' '' \<notin> set l" for l t
    using starts_with_first_word [of ?a "to_ascii_uppercase tail" l t] that space upper by auto
  have one: "\<not> ?leads l" if "?a \<noteq> l" "CHR '' '' \<notin> set l" for l
    using no_paren no_word [OF that, of "[]"] that(2) upper by auto
  have two: "\<not> ?leads (l @ '' '' @ t)" if "?a \<noteq> l" "CHR '' '' \<notin> set l" for l t
    using no_paren [of "l @ '' '' @ t"] no_word [OF that, of t] no_word [OF that, of "t @ '' ''"]
    by (auto simp: starts_with_def)
  have "\<not> ?leads lead" if "lead \<in> set CONSTRAINT_LEADS" for lead
    using that name one [of "''CONSTRAINT''"] one [of "''UNIQUE''"] one [of "''CHECK''"] one [of "''EXCLUDE''"]
      two [of "''PRIMARY''" "''KEY''"] two [of "''FOREIGN''" "''KEY''"]
    by (auto simp: CONSTRAINT_LEADS_def column_word_def)
  then show ?thesis unfolding is_table_level_constraint_def list_ex_iff Let_def by blast
qed

lemma apply_column_def_text:
  assumes "column_text c d" and "list_all is_whitespace p" and "list_all is_whitespace q"
  shows "apply_column_def v (p @ d @ q) table = Inr (put_column c table)"
proof -
  obtain tail where d: "d = pc_column_name c @ '' '' @ tail" and name: "column_word (pc_column_name c)"
    and col: "new_column (pc_column_name c) tail = column_of c"
    using assms unfolding column_text_def by blast
  note chars = column_text_chars [OF assms(1)]
  have ends: "\<not> is_whitespace (hd d)" "\<not> is_whitespace (last d)" "last d \<noteq> CHR '',''"
    using chars(2,3) tag_char_facts(2) alphanumeric_char by auto
  have "trim (p @ d @ q) = d" by (rule trim_padded) (use assms chars ends in auto)
  moreover have "rev (dropWhile (\<lambda>c. c = CHR '','') (rev d)) = d"
    using chars(1) ends(3) by (cases d rule: rev_cases) auto
  moreover have "trim d = d" using trim_no_ws chars(1) ends by blast
  moreover have "split_once_by is_whitespace d = Some (pc_column_name c, tail)"
    unfolding d using name word_chars tag_char_facts(2)
    by (simp add: column_word_def, intro split_once_by_append) (auto simp: ascii_simps)
  ultimately show ?thesis
    using column_not_constraint [OF assms(1)] chars(1) col
    by (simp add: apply_column_def_def insert_column_def put_column_def)
qed

definition def_plain :: "char \<Rightarrow> bool" where
  "def_plain c \<longleftrightarrow> c \<notin> {apostrophe, CHR ''('', CHR '')'', CHR '',''}"

lemma split_defs_plain: "list_all def_plain p \<Longrightarrow> split_defs n cur (p @ s) = split_defs n (cur @ p) s"
  by (induction p arbitrary: cur) (simp_all add: split_defs.simps def_plain_def)

lemma column_text_plain:
  assumes "column_text c d"
  shows "list_all def_plain d" "list_all sql_plain d"
proof -
  have "def_plain x \<and> sql_plain x" if "x \<in> set d" for x
    using column_text_chars(4) [OF assms that] tag_char_facts [of x] by (auto simp: def_plain_def sql_plain_def)
  then show "list_all def_plain d" "list_all sql_plain d" by (simp_all add: list_all_iff)
qed

definition def_sep :: string where
  "def_sep = [CHR '','', CHR 0x0A, CHR '' '', CHR '' '']"

lemma apply_column_defs_text:
  assumes "list_all2 column_text cols ds" and "ds \<noteq> []" and "list_all is_whitespace cur"
  shows "apply_column_defs v (split_defs 0 cur (join def_sep ds @ [CHR 0x0A])) table = Inr (fold put_column cols table)"
  using assms
proof (induction cols ds arbitrary: cur table rule: list_all2_induct)
  case (Cons c cols d ds)
  have ws: "list_all is_whitespace [CHR 0x0A]" "list_all is_whitespace [CHR 0x0A, CHR '' '', CHR '' '']"
    by (simp_all add: ascii_simps)
  show ?case
  proof (cases ds)
    case Nil
    then have "cols = []" using Cons.hyps(2) by simp
    have nl: "list_all def_plain [CHR 0x0A]" by (simp add: def_plain_def)
    have "split_defs 0 cur (d @ [CHR 0x0A]) = [cur @ d @ [CHR 0x0A]]"
      using split_defs_plain [OF column_text_plain(1) [OF Cons.hyps(1)], of 0 cur "[CHR 0x0A]"]
        split_defs_plain [OF nl, of 0 "cur @ d" "[]"]
      by (simp add: split_defs.simps)
    with Nil \<open>cols = []\<close> show ?thesis
      using apply_column_def_text [OF Cons.hyps(1) Cons.prems(2) ws(1)] by simp
  next
    case (Cons e es)
    have plain: "list_all def_plain [CHR 0x0A, CHR '' '', CHR '' '']" by (simp add: def_plain_def)
    have "split_defs 0 cur (join def_sep (d # ds) @ [CHR 0x0A]) =
        (cur @ d) # split_defs 0 [CHR 0x0A, CHR '' '', CHR '' ''] (join def_sep ds @ [CHR 0x0A])"
      using split_defs_plain [OF column_text_plain(1) [OF Cons.hyps(1)], of 0 cur]
        split_defs_plain [OF plain, of 0 "[]"] Cons
      by (simp add: split_defs.simps join_Cons def_sep_def)
    then show ?thesis
      using apply_column_def_text [OF Cons.hyps(1) Cons.prems(2), of "[]"] Cons.IH [OF _ ws(2)] Cons by simp
  qed
qed simp

lemma apply_create_table:
  assumes "word t" and "list_all2 column_text cols ds" and "ds \<noteq> []"
  shows "apply_create_table_stmt schema (t @ '' ('' @ [CHR 0x0A] @ ''  '' @ join def_sep ds @ [CHR 0x0A] @ '')'') v =
     Inr (apply_op (CreateTable t cols) schema)"
proof -
  let ?body = "join def_sep ds @ [CHR 0x0A]"
  have "split_once_by (\<lambda>c. c = CHR ''('') ((t @ '' '') @ CHR ''('' # (CHR 0x0A # ''  '' @ ?body @ '')'')) =
      Some (t @ '' '', CHR 0x0A # ''  '' @ ?body @ '')'')"
    using word_chars [OF assms(1)] tag_char_facts(3) by (intro split_once_by_append) auto
  moreover have "trim (t @ '' '') = t"
    using trim_padded [of "[]" "'' ''" t] assms(1) tag_char_facts(2) by (simp add: word_def list_all_iff ascii_simps)
  moreover have "trim (CHR 0x0A # ''  '' @ ?body @ '')'') = ?body @ '')''"
  proof -
    obtain d es where ds: "ds = d # es" using assms(3) by (cases ds) auto
    then obtain c where "column_text c d" using assms(2) by (auto simp: list_all2_Cons2)
    then have "d \<noteq> []" "\<not> is_whitespace (hd d)" using column_text_chars tag_char_facts by blast+
    then have "hd (?body @ '')'') = hd d" by (cases es) (simp_all add: ds join_Cons)
    then show ?thesis
      using trim_padded [of "[CHR 0x0A, CHR '' '', CHR '' '']" "[]" "?body @ '')''"] \<open>\<not> is_whitespace (hd d)\<close>
      by (simp add: ascii_simps)
  qed
  moreover have "strip_suffix_char (CHR '')'') (?body @ '')'') = Some ?body"
    by (simp add: strip_suffix_char_def butlast_append)
  moreover have "apply_column_defs v (split_column_defs ?body) (empty_table t) = Inr (fold put_column cols (empty_table t))"
    unfolding split_column_defs_def by (rule apply_column_defs_text [OF assms(2,3)]) simp
  ultimately show ?thesis by (simp add: apply_create_table_stmt_def)
qed

subsection \<open>Statements\<close>

lemma word_no:
  assumes "word t"
  shows "CHR '' '' \<notin> set t" "CHR ''('' \<notin> set t" "CHR '')'' \<notin> set t" "list_all sql_plain t"
    "t \<noteq> []" "\<not> is_whitespace (hd t)" "\<not> is_whitespace (last t)"
proof -
  show "CHR '' '' \<notin> set t" "CHR ''('' \<notin> set t" "CHR '')'' \<notin> set t"
    using word_chars [OF assms] tag_char_facts(3,4,6) by blast+
  show "list_all sql_plain t" using word_chars [OF assms] tag_char_facts(1) by (simp add: list_all_iff)
  show "t \<noteq> []" using assms by (simp add: word_def)
  then show "\<not> is_whitespace (hd t)" "\<not> is_whitespace (last t)"
    using word_chars [OF assms] tag_char_facts(2) by simp_all
qed

lemma trim_word: "word t \<Longrightarrow> trim t = t"
  using word_no trim_no_ws by blast

lemma apply_add_column:
  assumes "word t" and "column_text c d"
  shows "apply_alter_table_stmt schema m stmt (t @ '' ADD COLUMN '' @ d) = Inr (apply_op (AddColumn t c) schema)"
proof -
  obtain tail where d: "d = pc_column_name c @ '' '' @ tail" and name: "column_word (pc_column_name c)"
    and col: "new_column (pc_column_name c) tail = column_of c"
    using assms unfolding column_text_def by blast
  have "split_once_by (\<lambda>c. c = CHR '' '') (t @ CHR '' '' # ''ADD COLUMN '' @ d) = Some (t, ''ADD COLUMN '' @ d)"
    using word_no(1) [OF assms(1)] by (intro split_once_by_append) auto
  moreover have "strip_keyword_ci (''ADD COLUMN '' @ d) ''ADD COLUMN '' = Some d" by (rule strip_keyword_ci_append)
  moreover have "split_once_by is_whitespace (pc_column_name c @ CHR '' '' # tail) = Some (pc_column_name c, tail)"
    using name word_chars tag_char_facts(2)
    by (intro split_once_by_append) (auto simp: ascii_simps column_word_def)
  ultimately show ?thesis
    using col by (simp add: apply_alter_table_stmt_def d insert_column_def put_column_def)
qed

lemma parenthesised_word:
  assumes "CHR ''('' \<notin> set a" "CHR '')'' \<notin> set a" "CHR '')'' \<notin> set b"
  shows "parenthesised missing (a @ ''('' @ b @ '')'' @ s) = Inr (a, b, s)"
proof -
  have "str_find ''('' (a @ ''('' @ b @ '')'' @ s) = Some (length a)"
    using str_find_first [of a "CHR ''(''" "[]"] assms(1) by auto
  moreover have "str_find '')'' ((a @ ''('' @ b) @ '')'' @ s) = Some (length (a @ ''('' @ b))"
    using str_find_first [of "a @ ''('' @ b" "CHR '')''" "[]"] assms(2,3) by auto
  ultimately show ?thesis by (simp add: parenthesised_def)
qed

lemma foreign_key_name_no_space:
  assumes "word t" and "word c"
  shows "word (foreign_key_constraint_name t c)"
  using assms by (simp add: foreign_key_constraint_name_def word_def tag_char_def ascii_simps)

lemma apply_add_constraint:
  assumes "word t" and "word (pf_column_name fk)" and "word (pf_references_table fk)" and "word (pf_references_column fk)"
  shows "apply_alter_table_stmt schema m stmt (t @ '' ADD CONSTRAINT '' @
       foreign_key_constraint_name t (pf_column_name fk) @ '' FOREIGN KEY ('' @ pf_column_name fk @ '') REFERENCES '' @
       pf_references_table fk @ ''('' @ pf_references_column fk @ '')'') = Inr (apply_op (AddForeignKey t fk) schema)"
proof -
  let ?name = "foreign_key_constraint_name t (pf_column_name fk)"
  let ?refs = "pf_references_table fk @ ''('' @ pf_references_column fk @ '')'' @ []"
  let ?def = "?name @ '' FOREIGN KEY '' @ ''('' @ pf_column_name fk @ '')'' @ '' REFERENCES '' @ ?refs"
  have name: "word ?name" by (rule foreign_key_name_no_space [OF assms(1,2)])
  have "split_once_by (\<lambda>c. c = CHR '' '') (t @ CHR '' '' # ''ADD CONSTRAINT '' @ ?def) = Some (t, ''ADD CONSTRAINT '' @ ?def)"
    using word_no(1) [OF assms(1)] by (intro split_once_by_append) auto
  moreover have "strip_keyword_ci (''ADD CONSTRAINT '' @ ?def) ''ADD COLUMN '' = None"
    by (simp add: strip_keyword_ci_def eq_ignore_ascii_case_def to_ascii_lower_def ascii_simps)
  moreover have "strip_keyword_ci (''ADD CONSTRAINT '' @ ?def) ''ADD CONSTRAINT '' = Some ?def"
    by (rule strip_keyword_ci_append)
  moreover have "apply_foreign_key schema t ?def (lm_version m) = Inr (apply_op (AddForeignKey t fk) schema)"
  proof -
    have "str_find '' FOREIGN KEY '' ?def = Some (length ?name)"
      using str_find_first [of ?name "CHR '' ''" "''FOREIGN KEY ''"] word_no(1) [OF name] by auto
    then have "split_once_str '' FOREIGN KEY '' ?def =
        Some (?name, ''('' @ pf_column_name fk @ '')'' @ '' REFERENCES '' @ ?refs)"
      by (simp add: split_once_str_def)
    moreover have "parenthesised missing ([] @ ''('' @ pf_column_name fk @ '')'' @ '' REFERENCES '' @ ?refs) =
        Inr ([], pf_column_name fk, '' REFERENCES '' @ ?refs)" for missing
      by (rule parenthesised_word) (use word_no [OF assms(2)] in auto)
    moreover have "trim ('' '' @ (''REFERENCES '' @ ?refs) @ []) = ''REFERENCES '' @ ?refs"
      by (rule trim_padded) (simp_all add: ascii_simps)
    moreover have "parenthesised missing ?refs = Inr (pf_references_table fk, pf_references_column fk, [])" for missing
      by (rule parenthesised_word) (use word_no [OF assms(3)] word_no [OF assms(4)] in auto)
    moreover have "strip_prefix ''REFERENCES '' (''REFERENCES '' @ ?refs) = Some ?refs" by (rule strip_prefix_append)
    ultimately show ?thesis
      using trim_word [OF name] trim_word [OF assms(2)] trim_word [OF assms(3)] trim_word [OF assms(4)]
      by (simp add: apply_foreign_key_def put_fk_def Let_def)
  qed
  ultimately show ?thesis by (simp add: apply_alter_table_stmt_def)
qed

text \<open>The text of an operation, without the semicolon.\<close>

definition op_text :: "migration_op \<Rightarrow> string \<Rightarrow> bool" where
  "op_text op body \<longleftrightarrow> list_all sql_plain body \<and> body \<noteq> [] \<and> \<not> is_whitespace (hd body) \<and> \<not> is_whitespace (last body) \<and>
     (\<forall>m p schema. list_all is_whitespace p \<longrightarrow> apply_statement m (p @ body) schema = Inr (apply_op op schema))"

lemma ws_plain: "is_whitespace c \<Longrightarrow> sql_plain c"
  by (auto simp: sql_plain_def ascii_simps)

lemma op_textI:
  assumes "list_all sql_plain body" "body \<noteq> []" "\<not> is_whitespace (hd body)" "\<not> is_whitespace (last body)"
    and "\<And>m schema. (case strip_keyword_ci body ''CREATE TABLE '' of
            Some rest \<Rightarrow> apply_create_table_stmt schema rest (lm_version m)
          | None \<Rightarrow>
              (case strip_keyword_ci body ''ALTER TABLE '' of
                 Some rest \<Rightarrow> apply_alter_table_stmt schema m body rest
               | None \<Rightarrow> Inl Panicked)) = Inr (apply_op op schema)"
  shows "op_text op body"
proof -
  have "apply_statement m (p @ body) schema = Inr (apply_op op schema)" if p: "list_all is_whitespace p" for m p schema
  proof -
    have plain: "list_all sql_plain (p @ body)" using p assms(1) ws_plain by (auto simp: list_all_iff)
    then have "CHR ''-'' \<notin> set (p @ body)" by (auto simp: list_all_iff sql_plain_def)
    then have "\<not> chunk_has_skip_marker (p @ body)" by (rule no_skip_marker)
    moreover have "trim (strip_sql_comments (p @ body)) = body"
      using strip_sql_comments_plain [OF plain] trim_padded [OF p, of "[]" body] assms(2-4) by simp
    ultimately show ?thesis
      using assms(5) [of schema m] assms(2) by (auto simp: apply_statement_def Let_def split: option.splits)
  qed
  with assms(1-4) show ?thesis by (simp add: op_text_def)
qed

lemma render_columns_text:
  assumes "list_all column_ok cols"
  obtains ds where "rmap (render_postgres_column debug) cols = Inr ds" "list_all2 column_text cols ds"
  using assms
proof (induction cols arbitrary: thesis)
  case (Cons c cols)
  obtain d where d: "render_postgres_column debug c = Inr d" "column_text c d"
    using Cons.prems(2) render_column_text [of c debug] by auto
  obtain ds where "rmap (render_postgres_column debug) cols = Inr ds" "list_all2 column_text cols ds"
    using Cons.IH Cons.prems(2) by auto
  with d show ?case by (intro Cons.prems(1) [of "d # ds"]) simp_all
qed simp

lemma defs_plain:
  assumes "list_all2 column_text cols ds"
  shows "list_all sql_plain (join def_sep ds)"
proof -
  have sep: "\<forall>c \<in> set def_sep. sql_plain c" by (simp add: def_sep_def sql_plain_def)
  have "\<forall>d \<in> set ds. list_all sql_plain d"
    using assms by (induction rule: list_all2_induct) (simp_all add: column_text_plain(2))
  with sep show ?thesis using in_set_join [of _ def_sep ds] unfolding list_all_iff by blast
qed

lemma create_not_alter: "strip_keyword_ci (''ALTER TABLE '' @ s) ''CREATE TABLE '' = None"
  by (simp add: strip_keyword_ci_def eq_ignore_ascii_case_def to_ascii_lower_def ascii_simps)

lemma render_op_text:
  assumes "op_ok op"
  obtains body where "render_postgres_op debug op = Inr (body @ '';'')" "op_text op body"
proof (cases op)
  case (CreateTable t cols)
  with assms have ok: "word t" "cols \<noteq> []" "list_all column_ok cols" by simp_all
  obtain ds where ds: "rmap (render_postgres_column debug) cols = Inr ds" "list_all2 column_text cols ds"
    using render_columns_text [OF ok(3)] .
  let ?rest = "t @ '' ('' @ [CHR 0x0A] @ ''  '' @ join def_sep ds @ [CHR 0x0A] @ '')''"
  have "ds \<noteq> []" using ds(2) ok(2) by auto
  have "op_text op (''CREATE TABLE '' @ ?rest)"
  proof (rule op_textI)
    show "list_all sql_plain (''CREATE TABLE '' @ ?rest)"
      using defs_plain [OF ds(2)] word_no(4) [OF ok(1)] by (simp add: sql_plain_def)
    show "(case strip_keyword_ci (''CREATE TABLE '' @ ?rest) ''CREATE TABLE '' of
            Some rest \<Rightarrow> apply_create_table_stmt schema rest (lm_version m)
          | None \<Rightarrow>
              (case strip_keyword_ci (''CREATE TABLE '' @ ?rest) ''ALTER TABLE '' of
                 Some rest \<Rightarrow> apply_alter_table_stmt schema m (''CREATE TABLE '' @ ?rest) rest
               | None \<Rightarrow> Inl Panicked)) = Inr (apply_op op schema)" for m schema
      unfolding strip_keyword_ci_append option.case CreateTable
      by (rule apply_create_table [OF ok(1) ds(2) \<open>ds \<noteq> []\<close>])
  qed (simp_all add: ascii_simps)
  moreover have "render_postgres_op debug op = Inr ((''CREATE TABLE '' @ ?rest) @ '';'')"
    using ds(1) by (simp add: CreateTable def_sep_def)
  ultimately show ?thesis using that by blast
next
  case (AddColumn t c)
  with assms have ok: "word t" "column_ok c" by simp_all
  obtain d where d: "render_postgres_column debug c = Inr d" "column_text c d" using render_column_text [OF ok(2)] .
  let ?rest = "t @ '' ADD COLUMN '' @ d"
  have "op_text op (''ALTER TABLE '' @ ?rest)"
  proof (rule op_textI)
    show "list_all sql_plain (''ALTER TABLE '' @ ?rest)"
      using column_text_plain(2) [OF d(2)] word_no(4) [OF ok(1)] by (simp add: sql_plain_def)
    show "\<not> is_whitespace (last (''ALTER TABLE '' @ ?rest))"
      using column_text_chars(1,3) [OF d(2)] alphanumeric_char(4) by simp
    show "(case strip_keyword_ci (''ALTER TABLE '' @ ?rest) ''CREATE TABLE '' of
            Some rest \<Rightarrow> apply_create_table_stmt schema rest (lm_version m)
          | None \<Rightarrow>
              (case strip_keyword_ci (''ALTER TABLE '' @ ?rest) ''ALTER TABLE '' of
                 Some rest \<Rightarrow> apply_alter_table_stmt schema m (''ALTER TABLE '' @ ?rest) rest
               | None \<Rightarrow> Inl Panicked)) = Inr (apply_op op schema)" for m schema
      unfolding create_not_alter strip_keyword_ci_append option.case AddColumn
      by (rule apply_add_column [OF ok(1) d(2)])
  qed (simp_all add: ascii_simps)
  moreover have "render_postgres_op debug op = Inr ((''ALTER TABLE '' @ ?rest) @ '';'')" using d(1) by (simp add: AddColumn)
  ultimately show ?thesis using that by blast
next
  case (AddForeignKey t fk)
  with assms have ok: "word t" "word (pf_column_name fk)" "word (pf_references_table fk)" "word (pf_references_column fk)"
    by simp_all
  let ?rest = "t @ '' ADD CONSTRAINT '' @ foreign_key_constraint_name t (pf_column_name fk) @ '' FOREIGN KEY ('' @
      pf_column_name fk @ '') REFERENCES '' @ pf_references_table fk @ ''('' @ pf_references_column fk @ '')''"
  have "op_text op (''ALTER TABLE '' @ ?rest)"
  proof (rule op_textI)
    show "list_all sql_plain (''ALTER TABLE '' @ ?rest)"
      using word_no(4) [OF ok(1)] word_no(4) [OF ok(2)] word_no(4) [OF ok(3)] word_no(4) [OF ok(4)]
        word_no(4) [OF foreign_key_name_no_space [OF ok(1,2)]]
      by (simp add: sql_plain_def)
    show "(case strip_keyword_ci (''ALTER TABLE '' @ ?rest) ''CREATE TABLE '' of
            Some rest \<Rightarrow> apply_create_table_stmt schema rest (lm_version m)
          | None \<Rightarrow>
              (case strip_keyword_ci (''ALTER TABLE '' @ ?rest) ''ALTER TABLE '' of
                 Some rest \<Rightarrow> apply_alter_table_stmt schema m (''ALTER TABLE '' @ ?rest) rest
               | None \<Rightarrow> Inl Panicked)) = Inr (apply_op op schema)" for m schema
      unfolding create_not_alter strip_keyword_ci_append option.case AddForeignKey
      by (rule apply_add_constraint [OF ok])
  qed (simp_all add: ascii_simps)
  moreover have "render_postgres_op debug op = Inr ((''ALTER TABLE '' @ ?rest) @ '';'')" by (simp add: AddForeignKey)
  ultimately show ?thesis using that by blast
qed

subsection \<open>Scripts\<close>

lemma split_scan_semicolon: "split_scan cur (CHR '';'' # s) = cur # split_scan [] s"
  by (simp add: split_scan.simps)

lemma apply_blank:
  assumes "list_all is_whitespace p"
  shows "apply_statement m p schema = Inr schema"
proof -
  have "strip_sql_comments p = p" using assms ws_plain by (intro strip_sql_comments_plain) (auto simp: list_all_iff)
  with trim_blank [OF assms] show ?thesis by (simp add: apply_statement_def)
qed

abbreviation blank_line :: string where
  "blank_line \<equiv> [CHR 0x0A, CHR 0x0A]"

lemma replay_script:
  assumes "list_all2 op_text ops bodies" and "list_all is_whitespace cur"
  shows "apply_statements m (split_scan cur (join blank_line (map (\<lambda>b. b @ '';'') bodies) @ [CHR 0x0A])) schema =
     Inr (fold apply_op ops schema)"
  using assms
proof (induction ops bodies arbitrary: cur schema rule: list_all2_induct)
  case Nil
  have "is_whitespace CHR 0x0A" by (simp add: ascii_simps)
  with Nil have "list_all sql_plain [CHR 0x0A]" "list_all is_whitespace (cur @ [CHR 0x0A])"
    by (simp_all add: ws_plain)
  then show ?case
    using split_scan_plain [of "[CHR 0x0A]" cur "[]"] by (simp add: split_scan.simps apply_blank)
next
  case (Cons op ops b bodies)
  have b: "list_all sql_plain b" "apply_statement m (cur @ b) schema = Inr (apply_op op schema)"
    using Cons.hyps(1) Cons.prems by (auto simp: op_text_def)
  have ws: "list_all is_whitespace blank_line" "list_all sql_plain blank_line"
    by (simp_all add: ascii_simps sql_plain_def)
  have script: "split_scan cur (join blank_line (map (\<lambda>b. b @ '';'') (b # bodies)) @ [CHR 0x0A]) =
      (cur @ b) # split_scan (if bodies = [] then [] else blank_line)
        (join blank_line (map (\<lambda>b. b @ '';'') bodies) @ [CHR 0x0A])"
  proof (cases bodies)
    case Nil
    then show ?thesis
      using split_scan_plain [OF b(1), of cur "CHR '';'' # [CHR 0x0A]"] by (simp add: split_scan_semicolon)
  next
    case (Cons e es)
    then show ?thesis
      using split_scan_plain [OF b(1), of cur] split_scan_plain [OF ws(2), of "[]"]
      by (simp add: split_scan_semicolon join_Cons)
  qed
  show ?case
    unfolding script using b(2) Cons.IH ws(1) by simp
qed

lemma render_ops_text:
  assumes "list_all op_ok ops"
  obtains bodies where "render_postgres_up_sql debug ops = Inr (map (\<lambda>b. b @ '';'') bodies)" "list_all2 op_text ops bodies"
  using assms unfolding render_postgres_up_sql_def
proof (induction ops arbitrary: thesis)
  case (Cons op ops)
  obtain b where b: "render_postgres_op debug op = Inr (b @ '';'')" "op_text op b"
    using Cons.prems(2) render_op_text [of op debug] by auto
  obtain bodies where "rmap (render_postgres_op debug) ops = Inr (map (\<lambda>b. b @ '';'') bodies)" "list_all2 op_text ops bodies"
    using Cons.IH Cons.prems(2) by auto
  with b show ?case by (intro Cons.prems(1) [of "b # bodies"]) simp_all
qed simp

lemma join_migration_sql_text:
  "join_migration_sql (map (\<lambda>b. b @ '';'') bodies) = join blank_line (map (\<lambda>b. b @ '';'') bodies) @ [CHR 0x0A]"
proof -
  let ?sql = "join blank_line (map (\<lambda>b. b @ '';'') bodies)"
  have "\<exists>s. ?sql = s @ '';''" if "bodies \<noteq> []"
    using that
  proof (induction bodies rule: rev_induct)
    case (snoc b bs)
    then show ?case by (cases "bs = []") (auto simp: join_snoc)
  qed simp
  then have "\<not> ends_with ?sql [CHR 0x0A]"
    by (cases "bodies = []") (auto simp: ends_with_def)
  then show ?thesis by (simp add: join_migration_sql_def Let_def)
qed

lemma replay_rendered:
  assumes "list_all op_ok ops"
  shows "\<exists>up. render_postgres_up_sql debug ops = Inr up \<and>
     (\<forall>m schema. lm_up_sql m = join_migration_sql up \<longrightarrow>
        apply_local_migration_to_schema m schema = Inr (fold apply_op ops schema))"
proof (rule render_ops_text [OF assms, of debug])
  fix bodies
  assume bodies: "render_postgres_up_sql debug ops = Inr (map (\<lambda>b. b @ '';'') bodies)" "list_all2 op_text ops bodies"
  then show ?thesis
    using replay_script [OF bodies(2), of "[]"]
    by (simp add: apply_local_migration_to_schema_def split_sql_statements_def join_migration_sql_text)
qed

end
