(* ===== verification/Migration_Laws.thy ===== *)
theory Migration_Laws
  imports Migration_Script
begin

text \<open>
  What migrations promise (\<^verbatim>\<open>src/src/migrations.rs\<close>): the generated script, replayed, changes the schema as the plan
  says; then nothing is left to plan, and nothing drifts that did not drift before.
\<close>

subsection \<open>Schemas as maps\<close>

definition col_at :: "database_schema \<Rightarrow> string \<Rightarrow> string \<Rightarrow> database_column option" where
  "col_at S t c = Option.bind (map_of (ds_tables S) t) (\<lambda>e. map_of (dt_columns e) c)"

definition fk_at :: "database_schema \<Rightarrow> string \<Rightarrow> string \<Rightarrow> database_foreign_key option" where
  "fk_at S t k = Option.bind (map_of (ds_tables S) t) (\<lambda>e. map_of (dt_foreign_keys e) k)"

definition has_table :: "database_schema \<Rightarrow> string \<Rightarrow> bool" where
  "has_table S t \<longleftrightarrow> map_of (ds_tables S) t \<noteq> None"

lemma map_of_put_table: "map_of (ds_tables (put_table t e S)) t' = (if t' = t then Some e else map_of (ds_tables S) t')"
  by (simp add: put_table_def update_conv')

lemma put_columns:
  "map_of (dt_columns (fold put_column cols e)) c =
     (case collect_map pc_column_name cols c of Some col \<Rightarrow> Some (column_of col) | None \<Rightarrow> map_of (dt_columns e) c)"
  by (induction cols arbitrary: e)
    (auto simp: collect_map_def put_column_def update_conv' map_add_def map_of_append split: option.splits)

lemma put_columns_fks: "dt_foreign_keys (fold put_column cols e) = dt_foreign_keys e"
  by (induction cols arbitrary: e) (simp_all add: put_column_def)

lemma collect_map_mem:
  assumes "collect_map key xs k = Some x"
  shows "x \<in> set xs \<and> key x = k"
  using map_of_SomeD [OF assms [unfolded collect_map_def]] by auto

lemma collect_map_None: "collect_map key xs k = None \<longleftrightarrow> k \<notin> key ` set xs"
  by (force simp: collect_map_def map_of_eq_None_iff)

lemma collect_map_distinct:
  assumes "distinct (map key xs)" and "x \<in> set xs"
  shows "collect_map key xs (key x) = Some x"
proof -
  have "distinct (map fst (rev (map (\<lambda>x. (key x, x)) xs)))" using assms(1) by (simp add: rev_map [symmetric] comp_def)
  with assms(2) show ?thesis unfolding collect_map_def by (subst map_of_eq_Some_iff) auto
qed

lemma apply_op_table: "has_table (apply_op op S) t \<longleftrightarrow> has_table S t \<or> t = op_table_name op"
  by (cases op) (auto simp: has_table_def map_of_put_table)

lemma apply_op_col:
  "col_at (apply_op (CreateTable t cols) S) t' c =
     (if t' = t then map_option column_of (collect_map pc_column_name cols c) else col_at S t' c)"
  "col_at (apply_op (AddColumn t col) S) t' c =
     (if t' = t \<and> c = pc_column_name col then Some (column_of col) else col_at S t' c)"
  "col_at (apply_op (AddForeignKey t fk) S) t' c = col_at S t' c"
  by (auto simp: col_at_def map_of_put_table put_columns put_column_def put_fk_def Let_def alter_table_entry_def
      empty_table_def update_conv' split: option.splits)

lemma apply_op_fk:
  "t' \<noteq> t \<Longrightarrow> fk_at (apply_op (CreateTable t cols) S) t' k = fk_at S t' k"
  "fk_at (apply_op (AddColumn t col) S) t' k = fk_at S t' k"
  "fk_at (apply_op (AddForeignKey t fk) S) t' k \<noteq> None \<longleftrightarrow>
     (t' = t \<and> k = foreign_key_constraint_name t (pf_column_name fk)) \<or> fk_at S t' k \<noteq> None"
  by (auto simp: fk_at_def map_of_put_table put_column_def put_fk_def Let_def alter_table_entry_def
      empty_table_def update_conv' split: option.splits)

declare apply_op.simps [simp del]

subsection \<open>Applying a plan\<close>

fun is_create :: "migration_op \<Rightarrow> bool" where
  "is_create (CreateTable _ _) = True"
| "is_create _ = False"

text \<open>What an operation is there for.\<close>

fun satisfied :: "database_schema \<Rightarrow> migration_op \<Rightarrow> bool" where
  "satisfied S (CreateTable t cols) \<longleftrightarrow> has_table S t \<and> (\<forall>col \<in> set cols. col_at S t (pc_column_name col) \<noteq> None)"
| "satisfied S (AddColumn t col) \<longleftrightarrow> col_at S t (pc_column_name col) \<noteq> None"
| "satisfied S (AddForeignKey t fk) \<longleftrightarrow> fk_at S t (foreign_key_constraint_name t (pf_column_name fk)) \<noteq> None"

lemma satisfied_apply: "satisfied (apply_op op S) op"
  by (cases op) (auto simp: apply_op_table apply_op_col apply_op_fk collect_map_None simp del: not_None_eq)

lemma satisfied_keep:
  assumes "satisfied S op" and "is_create op' \<Longrightarrow> op_table_name op \<noteq> op_table_name op'"
  shows "satisfied (apply_op op' S) op"
proof (cases op')
  case (CreateTable t cols)
  with assms show ?thesis
    by (cases op) (auto simp: apply_op_table apply_op_col apply_op_fk)
next
  case (AddColumn t c)
  with assms(1) show ?thesis
    by (cases op) (auto simp: apply_op_table apply_op_col apply_op_fk)
next
  case (AddForeignKey t fk)
  with assms(1) show ?thesis
    by (cases op) (auto simp: apply_op_table apply_op_col apply_op_fk simp del: not_None_eq)
qed

lemma satisfied_fold_keep:
  assumes "satisfied S op" and "\<forall>op' \<in> set ops. is_create op' \<longrightarrow> op_table_name op \<noteq> op_table_name op'"
  shows "satisfied (fold apply_op ops S) op"
  using assms by (induction ops arbitrary: S) (simp_all add: satisfied_keep)

text \<open>A plan is in order when a table is created at most once, and before anything is added to it.\<close>

fun in_order :: "migration_op list \<Rightarrow> bool" where
  "in_order [] = True"
| "in_order (op # ops) \<longleftrightarrow> (\<forall>op' \<in> set ops. is_create op' \<longrightarrow> op_table_name op \<noteq> op_table_name op') \<and> in_order ops"

lemma in_order_satisfied:
  assumes "in_order ops" and "op \<in> set ops"
  shows "satisfied (fold apply_op ops S) op"
  using assms
proof (induction ops arbitrary: S)
  case (Cons op' ops)
  show ?case
  proof (cases "op \<in> set ops")
    case False
    then have "op = op'" using Cons.prems by simp
    then show ?thesis using Cons.prems satisfied_fold_keep [OF satisfied_apply [of op' S], where ops = ops] by simp
  qed (use Cons in simp)
qed simp

lemma in_order_append:
  "in_order (xs @ ys) \<longleftrightarrow> in_order xs \<and> in_order ys \<and>
     (\<forall>x \<in> set xs. \<forall>y \<in> set ys. is_create y \<longrightarrow> op_table_name x \<noteq> op_table_name y)"
  by (induction xs) auto

lemma in_order_adds: "\<forall>op \<in> set ops. \<not> is_create op \<Longrightarrow> in_order ops"
  by (induction ops) auto

definition desired_ok :: "(string \<times> persistent_table) list \<Rightarrow> bool" where
  "desired_ok desired \<longleftrightarrow> distinct (map (pt_table_name \<circ> snd) desired) \<and>
     (\<forall>(_, tb) \<in> set desired. distinct (map pc_column_name (pt_columns tb)))"

abbreviation sorted_tables :: "(string \<times> persistent_table) list \<Rightarrow> persistent_table list" where
  "sorted_tables desired \<equiv> sort_key pt_table_name (map snd desired)"

lemma create_ops_in_order:
  assumes "distinct (map pt_table_name ts)"
  shows "in_order (concat (map (create_ops S) ts))"
  using assms by (induction ts) (auto simp: create_ops_def in_order_append split: option.splits)

lemma plan_in_order:
  assumes "desired_ok desired"
  shows "in_order (plan_migration S desired)"
proof -
  have "distinct (map pt_table_name (map snd desired))"
    using assms by (simp only: desired_ok_def map_map)
  then have "distinct (map pt_table_name (sorted_tables desired))"
    unfolding distinct_map [of pt_table_name] distinct_sort set_sort .
  then have "in_order (concat (map (create_ops S) (sorted_tables desired)))" by (rule create_ops_in_order)
  moreover have "\<not> is_create op" if "op \<in> set (add_column_ops S tb) \<union> set (add_fk_ops S tb)" for op tb
    using that by (auto simp: add_column_ops_def add_fk_ops_def split: option.splits)
  ultimately show ?thesis
    using in_order_adds [of "concat (map (add_column_ops S) (sorted_tables desired))"]
      in_order_adds [of "concat (map (add_fk_ops S) (sorted_tables desired))"]
    unfolding plan_migration_def Let_def in_order_append by auto
qed

text \<open>The schema after the plan has every desired table, column and foreign key.\<close>

lemma plan_covers:
  assumes "desired_ok desired" and "tb \<in> snd ` set desired" and "S' = fold apply_op (plan_migration S desired) S"
  shows "has_table S' (pt_table_name tb)"
    "col \<in> set (pt_columns tb) \<Longrightarrow> col_at S' (pt_table_name tb) (pc_column_name col) \<noteq> None"
    "fk \<in> set (pt_foreign_keys tb) \<Longrightarrow>
       fk_at S' (pt_table_name tb) (foreign_key_constraint_name (pt_table_name tb) (pf_column_name fk)) \<noteq> None"
proof -
  let ?t = "pt_table_name tb"
  let ?plan = "plan_migration S desired"
  have mem: "set (create_ops S tb) \<union> set (add_column_ops S tb) \<union> set (add_fk_ops S tb) \<subseteq> set ?plan"
    using assms(2) by (auto simp: plan_migration_def Let_def)
  have planned: "satisfied S' op" if "op \<in> set ?plan" for op
    unfolding assms(3) by (rule in_order_satisfied [OF plan_in_order [OF assms(1)] that])
  have kept: "satisfied S' op" if "satisfied S op" "op_table_name op = ?t" "has_table S ?t" for op
    unfolding assms(3)
  proof (rule satisfied_fold_keep [OF that(1)], intro ballI impI)
    fix op'
    assume "op' \<in> set ?plan" "is_create op'"
    then have "\<not> has_table S (op_table_name op')"
      by (auto simp: plan_migration_def Let_def create_ops_def add_column_ops_def add_fk_ops_def has_table_def
          split: option.splits)
    then show "op_table_name op \<noteq> op_table_name op'" using that by metis
  qed
  show "has_table S' ?t"
  proof (cases "has_table S ?t")
    case True
    then show ?thesis using kept [of "CreateTable ?t []"] by simp
  next
    case False
    then have "CreateTable ?t (pt_columns tb) \<in> set ?plan"
      using mem by (auto simp: create_ops_def has_table_def)
    from planned [OF this] show ?thesis by simp
  qed
  show "col_at S' ?t (pc_column_name col) \<noteq> None" if col: "col \<in> set (pt_columns tb)"
  proof (cases "has_table S ?t")
    case True
    show ?thesis
    proof (cases "col_at S ?t (pc_column_name col)")
      case None
      then have "AddColumn ?t col \<in> set ?plan"
        using mem True col by (auto simp: add_column_ops_def has_table_def col_at_def)
      from planned [OF this] show ?thesis by simp
    next
      case Some
      then show ?thesis using kept [of "AddColumn ?t col"] True by simp
    qed
  next
    case False
    then have "CreateTable ?t (pt_columns tb) \<in> set ?plan"
      using mem by (auto simp: create_ops_def has_table_def)
    from planned [OF this] col show ?thesis by simp
  qed
  show "fk_at S' ?t (foreign_key_constraint_name ?t (pf_column_name fk)) \<noteq> None" if fk: "fk \<in> set (pt_foreign_keys tb)"
  proof (cases "fk_at S ?t (foreign_key_constraint_name ?t (pf_column_name fk))")
    case None
    then have "AddForeignKey ?t fk \<in> set ?plan"
      using mem fk by (auto simp: add_fk_ops_def fk_at_def split: option.splits)
    from planned [OF this] show ?thesis by simp
  next
    case (Some f)
    then have "has_table S ?t" by (auto simp: fk_at_def has_table_def split: bind_splits)
    then show ?thesis using kept [of "AddForeignKey ?t fk"] Some by simp
  qed
qed

lemma covered_plan_empty:
  assumes "\<And>tb. tb \<in> snd ` set desired \<Longrightarrow> has_table S (pt_table_name tb) \<and>
      (\<forall>col \<in> set (pt_columns tb). col_at S (pt_table_name tb) (pc_column_name col) \<noteq> None) \<and>
      (\<forall>fk \<in> set (pt_foreign_keys tb).
         fk_at S (pt_table_name tb) (foreign_key_constraint_name (pt_table_name tb) (pf_column_name fk)) \<noteq> None)"
  shows "plan_migration S desired = []"
proof -
  have "create_ops S tb = [] \<and> add_column_ops S tb = [] \<and> add_fk_ops S tb = []" if "tb \<in> snd ` set desired" for tb
    using assms [OF that]
    by (auto simp: create_ops_def add_column_ops_def add_fk_ops_def has_table_def col_at_def fk_at_def filter_empty_conv
        split: option.splits)
  then show ?thesis by (simp add: plan_migration_def Let_def)
qed

lemma plan_converges:
  assumes "desired_ok desired"
  shows "plan_migration (fold apply_op (plan_migration S desired) S) desired = []"
  by (rule covered_plan_empty, intro conjI ballI) (rule plan_covers [OF assms _ refl]; assumption)+

subsection \<open>Drift\<close>

lemma set_concat_keys: "set (concat (map f (sort (map fst al)))) = (\<Union>k \<in> dom (map_of al). set (f k))"
  by (simp add: dom_map_of_conv_image_fst)

text \<open>The drift of one column of the history.\<close>

definition drift_of :: "persistent_table \<Rightarrow> string \<Rightarrow> string \<Rightarrow> database_column \<Rightarrow> schema_drift list" where
  "drift_of tb t c h =
     (case collect_map pc_column_name (pt_columns tb) c of
        None \<Rightarrow> [ColumnRemoved t c]
      | Some col \<Rightarrow> type_drift t c h col @ nullability_drift t c h col)"

lemma set_column_drift:
  "set (column_drift t (collect_map pc_column_name (pt_columns tb)) cols c) =
     (case map_of cols c of None \<Rightarrow> {} | Some h \<Rightarrow> set (drift_of tb t c h))"
  by (simp add: column_drift_def drift_of_def split: option.split)

lemma set_table_drift:
  assumes "map_of (ds_tables S) t = Some e"
  shows "set (table_drift desired (ds_tables S) t) =
     (case desired t of None \<Rightarrow> {TableRemoved t} | Some tb \<Rightarrow> {d. \<exists>c h. col_at S t c = Some h \<and> d \<in> set (drift_of tb t c h)})"
proof (cases "desired t")
  case (Some tb)
  have "set (table_drift desired (ds_tables S) t) =
      (\<Union>c \<in> dom (map_of (dt_columns e)). case map_of (dt_columns e) c of None \<Rightarrow> {} | Some h \<Rightarrow> set (drift_of tb t c h))"
    by (simp only: table_drift_def assms Some option.case set_concat_keys set_column_drift)
  also have "\<dots> = {d. \<exists>c h. col_at S t c = Some h \<and> d \<in> set (drift_of tb t c h)}"
    unfolding col_at_def assms dom_def by (auto split: option.splits; blast)
  finally show ?thesis by (simp add: Some)
qed (simp add: table_drift_def assms)

lemma set_detect_drift:
  "set (detect_schema_drift S desired) =
     {d. \<exists>t. has_table S t \<and> (case collect_map pt_table_name (map snd desired) t of
        None \<Rightarrow> d = TableRemoved t
      | Some tb \<Rightarrow> \<exists>c h. col_at S t c = Some h \<and> d \<in> set (drift_of tb t c h))}"
proof -
  have "d \<in> set (table_drift des (ds_tables S) t) \<longleftrightarrow> (case des t of None \<Rightarrow> d = TableRemoved t
      | Some tb \<Rightarrow> \<exists>c h. col_at S t c = Some h \<and> d \<in> set (drift_of tb t c h))" if "has_table S t" for d des t
    using that set_table_drift [of S t _ des] by (cases "des t") (auto simp: has_table_def)
  moreover have "t \<in> dom (map_of (ds_tables S)) \<longleftrightarrow> has_table S t" for t by (auto simp: has_table_def)
  ultimately show ?thesis
    unfolding detect_schema_drift_def set_concat_keys by (simp only: set_eq_iff UN_iff Bex_def mem_Collect_eq cong: conj_cong) simp
qed

text \<open>Where the columns and tables of the schema after a plan come from.\<close>

definition from_tables :: "persistent_table set \<Rightarrow> string \<Rightarrow> string \<Rightarrow> database_column \<Rightarrow> bool" where
  "from_tables T t c h \<longleftrightarrow>
     (\<exists>tb \<in> T. pt_table_name tb = t \<and> (\<exists>col \<in> set (pt_columns tb). pc_column_name col = c \<and> h = column_of col))"

fun op_from :: "persistent_table set \<Rightarrow> migration_op \<Rightarrow> bool" where
  "op_from T (CreateTable t cols) \<longleftrightarrow> (\<exists>tb \<in> T. pt_table_name tb = t \<and> pt_columns tb = cols)"
| "op_from T (AddColumn t col) \<longleftrightarrow> (\<exists>tb \<in> T. pt_table_name tb = t \<and> col \<in> set (pt_columns tb))"
| "op_from T (AddForeignKey t fk) \<longleftrightarrow> (\<exists>tb \<in> T. pt_table_name tb = t \<and> fk \<in> set (pt_foreign_keys tb))"

lemma table_ops_from:
  assumes "tb \<in> T"
  shows "op \<in> set (create_ops S tb) \<Longrightarrow> op_from T op" "op \<in> set (add_column_ops S tb) \<Longrightarrow> op_from T op"
    "op \<in> set (add_fk_ops S tb) \<Longrightarrow> op_from T op"
  using assms by (auto simp: create_ops_def add_column_ops_def add_fk_ops_def split: option.splits)

lemma plan_from:
  assumes "op \<in> set (plan_migration S desired)"
  shows "op_from (snd ` set desired) op"
proof -
  obtain tb where "tb \<in> snd ` set desired"
    "op \<in> set (create_ops S tb) \<or> op \<in> set (add_column_ops S tb) \<or> op \<in> set (add_fk_ops S tb)"
    using assms by (auto simp: plan_migration_def Let_def)
  then show ?thesis by (elim disjE) (rule table_ops_from; assumption)+
qed

lemma apply_op_from:
  assumes "op_from T op"
  shows "col_at (apply_op op S) t c = Some h \<Longrightarrow> col_at S t c = Some h \<or> from_tables T t c h"
    "has_table (apply_op op S) t \<Longrightarrow> has_table S t \<or> t \<in> pt_table_name ` T"
proof -
  show "col_at S t c = Some h \<or> from_tables T t c h" if "col_at (apply_op op S) t c = Some h"
  proof (cases op)
    case (CreateTable t' cols)
    with assms that show ?thesis
      by (auto simp: apply_op_col from_tables_def split: if_splits dest!: collect_map_mem)
  next
    case (AddColumn t' col)
    with assms that show ?thesis by (auto simp: apply_op_col from_tables_def split: if_splits)
  qed (use that in \<open>simp add: apply_op_col\<close>)
  show "has_table S t \<or> t \<in> pt_table_name ` T" if "has_table (apply_op op S) t"
    using assms that by (cases op) (auto simp: apply_op_table)
qed

lemma fold_apply_from:
  assumes "\<forall>op \<in> set ops. op_from T op"
  shows "col_at (fold apply_op ops S) t c = Some h \<longrightarrow> col_at S t c = Some h \<or> from_tables T t c h"
    "has_table (fold apply_op ops S) t \<longrightarrow> has_table S t \<or> t \<in> pt_table_name ` T"
proof -
  show "col_at (fold apply_op ops S) t c = Some h \<longrightarrow> col_at S t c = Some h \<or> from_tables T t c h"
    using assms by (induction ops arbitrary: S) (use apply_op_from(1) in \<open>force+\<close>)
  show "has_table (fold apply_op ops S) t \<longrightarrow> has_table S t \<or> t \<in> pt_table_name ` T"
    using assms by (induction ops arbitrary: S) (use apply_op_from(2) in \<open>force+\<close>)
qed

lemma column_of_no_drift:
  assumes "collect_map pc_column_name (pt_columns tb) c = Some col"
  shows "drift_of tb t c (column_of col) = []"
  using assms
  by (simp add: drift_of_def type_drift_def nullability_drift_def column_of_def type_text_def Let_def split: sum.split)

lemma plan_no_new_drift:
  assumes "desired_ok desired"
  shows "set (detect_schema_drift (fold apply_op (plan_migration S desired) S) desired) \<subseteq> set (detect_schema_drift S desired)"
proof
  fix d
  let ?S = "fold apply_op (plan_migration S desired) S"
  let ?desired = "collect_map pt_table_name (map snd desired)"
  note source = fold_apply_from [OF ballI [OF plan_from [where S = S and desired = desired]], where S = S]
  assume "d \<in> set (detect_schema_drift ?S desired)"
  then obtain t where t: "has_table ?S t" "case ?desired t of None \<Rightarrow> d = TableRemoved t
      | Some tb \<Rightarrow> \<exists>c h. col_at ?S t c = Some h \<and> d \<in> set (drift_of tb t c h)"
    unfolding set_detect_drift by blast
  show "d \<in> set (detect_schema_drift S desired)"
  proof (cases "?desired t")
    case None
    then have "t \<notin> pt_table_name ` snd ` set desired" by (simp add: collect_map_None)
    with source(2) t(1) have "has_table S t" by blast
    with None t(2) show ?thesis unfolding set_detect_drift by auto
  next
    case (Some tb)
    with t(2) obtain c h where h: "col_at ?S t c = Some h" "d \<in> set (drift_of tb t c h)" by auto
    have "\<not> from_tables (snd ` set desired) t c h"
    proof
      assume "from_tables (snd ` set desired) t c h"
      then obtain tb' col where tb': "tb' \<in> snd ` set desired" "pt_table_name tb' = t" and
        col: "col \<in> set (pt_columns tb')" "pc_column_name col = c" "h = column_of col"
        unfolding from_tables_def by blast
      have "distinct (map pt_table_name (map snd desired))" using assms by (simp only: desired_ok_def map_map)
      then have "?desired (pt_table_name tb') = Some tb'" using tb'(1) by (intro collect_map_distinct) auto
      then have "tb' = tb" using Some tb'(2) by simp
      moreover have "distinct (map pc_column_name (pt_columns tb'))" using assms tb'(1) by (auto simp: desired_ok_def)
      ultimately have "collect_map pc_column_name (pt_columns tb) c = Some col"
        using collect_map_distinct col by metis
      with h(2) col(3) show False by (simp add: column_of_no_drift)
    qed
    with source(1) h(1) have "col_at S t c = Some h" by blast
    moreover from this have "has_table S t" by (auto simp: col_at_def has_table_def split: bind_splits)
    ultimately show ?thesis
      using h(2) Some unfolding set_detect_drift by (intro CollectI exI [of _ t]) (simp, blast)
  qed
qed

subsection \<open>Plans of schemas\<close>

lemma rmap_Inr_mem:
  assumes "rmap f xs = Inr ys"
  shows "y \<in> set ys \<Longrightarrow> \<exists>x \<in> set xs. f x = Inr y" "x \<in> set xs \<Longrightarrow> \<exists>y \<in> set ys. f x = Inr y"
  using assms [unfolded rmap_Inr_iff] by (induction rule: list_all2_induct) auto

lemma build_tableE:
  assumes "build_persistent_tables schemas = Inr desired" and "(n, tb) \<in> set desired"
  obtains schema pushed where "(n, schema) \<in> set schemas" "sd_db_table schema = Some (pt_table_name tb)"
    "rmap (field_columns schemas n) (sd_fields schema) = Inr pushed"
    "pt_columns tb = concat (map fst pushed)" "pt_foreign_keys tb = concat (map snd pushed)"
    "check_persistent_schema schemas (n, schema) = Inr ()"
proof -
  obtain tables where tables: "rmap (build_table schemas) schemas = Inr tables" "desired = concat tables"
    and valid: "validate_persistent_schema_references schemas = Inr ()"
    using assms(1) by (auto simp: build_persistent_tables_def)
  obtain ts where "ts \<in> set tables" "(n, tb) \<in> set ts" using assms(2) tables(2) by auto
  then obtain entry where entry: "entry \<in> set schemas" "build_table schemas entry = Inr ts"
    using tables(1) by (blast dest: rmap_Inr_mem(1))
  obtain n' schema where e: "entry = (n', schema)" by (cases entry)
  have "check_persistent_schema schemas (n', schema) = Inr ()"
    using valid entry(1) e by (auto simp: validate_persistent_schema_references_def each_Inr)
  moreover obtain t pushed where "sd_db_table schema = Some t"
    "rmap (field_columns schemas n') (sd_fields schema) = Inr pushed"
    "ts = [(n', \<lparr>pt_schema_name = n', pt_table_name = t, pt_columns = concat (map fst pushed),
       pt_foreign_keys = concat (map snd pushed)\<rparr>)]"
    using entry(2) \<open>(n, tb) \<in> set ts\<close> by (auto simp: build_table_def e split: option.splits)
  ultimately show ?thesis using that [of schema pushed] entry(1) \<open>(n, tb) \<in> set ts\<close> e by simp
qed

lemma field_columns_ok:
  assumes "field_columns schemas n f = Inr (cols, fks)"
  shows "col \<in> set cols \<Longrightarrow> pc_default col = None \<and> \<not> pc_unique col \<and> (pc_generated col \<longrightarrow> pc_primary col) \<and>
      (\<exists>ty. postgres_type (pc_field_type col) = Inr ty)"
    "fk \<in> set fks \<Longrightarrow> \<exists>col \<in> set cols. pf_column_name fk = pc_column_name col"
    "fk \<in> set fks \<Longrightarrow> pf_references_column fk = ''id'' \<and>
      (\<exists>target. map_of schemas (pf_references_schema fk) = Some target \<and> sd_db_table target = Some (pf_references_table fk))"
    "sf_field_type f = IntegerType \<Longrightarrow> cols \<noteq> []"
  using assms
  by (auto simp: field_columns_def build_primitive_column_def Let_def split: schema_type.splits option.splits)

definition names_ok :: "(string \<times> persistent_table) list \<Rightarrow> bool" where
  "names_ok desired \<longleftrightarrow> (\<forall>(_, tb) \<in> set desired. word (pt_table_name tb) \<and>
     (\<forall>col \<in> set (pt_columns tb). column_word (pc_column_name col)))"

text \<open>Every persistent schema has a table.\<close>

lemma build_table_of:
  assumes "build_persistent_tables schemas = Inr desired" and "(n, schema) \<in> set schemas" and "sd_db_table schema = Some t"
  shows "\<exists>tb. (n, tb) \<in> set desired \<and> pt_table_name tb = t"
proof -
  obtain tables where tables: "rmap (build_table schemas) schemas = Inr tables" "desired = concat tables"
    using assms(1) by (auto simp: build_persistent_tables_def)
  obtain ts where "ts \<in> set tables" "build_table schemas (n, schema) = Inr ts"
    using rmap_Inr_mem(2) [OF tables(1) assms(2)] by blast
  with tables(2) assms(3) show ?thesis by (force simp: build_table_def)
qed

lemma build_tables_ok:
  assumes "build_persistent_tables schemas = Inr desired" and "names_ok desired" and "(n, tb) \<in> set desired"
  shows "word (pt_table_name tb)" "pt_columns tb \<noteq> []" "list_all column_ok (pt_columns tb)"
    "fk \<in> set (pt_foreign_keys tb) \<Longrightarrow> op_ok (AddForeignKey (pt_table_name tb) fk)"
proof -
  obtain schema pushed where s: "(n, schema) \<in> set schemas" "sd_db_table schema = Some (pt_table_name tb)"
    "rmap (field_columns schemas n) (sd_fields schema) = Inr pushed"
    "pt_columns tb = concat (map fst pushed)" "pt_foreign_keys tb = concat (map snd pushed)"
    "check_persistent_schema schemas (n, schema) = Inr ()"
    using build_tableE [OF assms(1,3)] .
  have names: "word (pt_table_name tb)" "\<forall>col \<in> set (pt_columns tb). column_word (pc_column_name col)"
    using assms(2,3) by (auto simp: names_ok_def)
  then show "word (pt_table_name tb)" by simp
  have pushedE: "\<exists>f \<in> set (sd_fields schema). field_columns schemas n f = Inr p" if "p \<in> set pushed" for p
    using rmap_Inr_mem(1) [OF s(3) that] .
  show "list_all column_ok (pt_columns tb)"
    unfolding list_all_iff
  proof
    fix col
    assume col: "col \<in> set (pt_columns tb)"
    then obtain cols fks where "(cols, fks) \<in> set pushed" "col \<in> set cols" using s(4) by auto
    then obtain f where "field_columns schemas n f = Inr (cols, fks)" using pushedE by blast
    from field_columns_ok(1) [OF this \<open>col \<in> set cols\<close>] names(2) col show "column_ok col"
      by (simp add: column_ok_def)
  qed
  show "pt_columns tb \<noteq> []"
  proof -
    have "check_id_field n schema = Inr ()" using s(2,6) by (auto simp: check_persistent_schema_def)
    then obtain f where f: "f \<in> set (sd_fields schema)" "sf_field_type f = IntegerType"
      by (auto simp: check_id_field_def persistent_error_def filter_eq_Cons_iff split: list.splits if_splits)
    obtain cols fks where "(cols, fks) \<in> set pushed" "field_columns schemas n f = Inr (cols, fks)"
      using rmap_Inr_mem(2) [OF s(3) f(1)] by (metis surj_pair)
    with field_columns_ok(4) [OF this(2) f(2)] show ?thesis using s(4) by force
  qed
  show "op_ok (AddForeignKey (pt_table_name tb) fk)" if fk: "fk \<in> set (pt_foreign_keys tb)"
  proof -
    obtain cols fks where p: "(cols, fks) \<in> set pushed" "fk \<in> set fks" using fk s(5) by auto
    then obtain f where f: "field_columns schemas n f = Inr (cols, fks)" using pushedE by blast
    obtain col where "col \<in> set cols" "pf_column_name fk = pc_column_name col"
      using field_columns_ok(2) [OF f p(2)] by blast
    moreover from this p(1) have "col \<in> set (pt_columns tb)" using s(4) by force
    ultimately have "word (pf_column_name fk)" using names(2) by (simp add: column_word_def)
    moreover obtain target where t: "map_of schemas (pf_references_schema fk) = Some target"
      "sd_db_table target = Some (pf_references_table fk)" "pf_references_column fk = ''id''"
      using field_columns_ok(3) [OF f p(2)] by blast
    moreover have "word (pf_references_table fk)"
      using build_table_of [OF assms(1) map_of_SomeD [OF t(1)] t(2)] assms(2) by (auto simp: names_ok_def)
    moreover have "word ''id''" by (simp add: word_def tag_char_def ascii_simps)
    ultimately show ?thesis using names(1) by simp
  qed
qed

lemma plan_ops_ok:
  assumes "build_persistent_tables schemas = Inr desired" and "names_ok desired"
  shows "list_all op_ok (plan_migration S desired)"
  unfolding list_all_iff
proof
  fix op
  assume "op \<in> set (plan_migration S desired)"
  from plan_from [OF this] obtain n tb where tb: "(n, tb) \<in> set desired" and op: "op_from {tb} op"
    by (cases op) auto
  note ok = build_tables_ok [OF assms tb]
  from op show "op_ok op"
    using ok(1-3) by (cases op) (auto simp: list_all_iff dest: ok(4))
qed

text \<open>C8: the script generated for a plan is read back as the plan: replaying the text changes the schema exactly as the
  operations say, in order. Rendering never fails on the plan of valid schemas.\<close>

theorem migration_replay:
  assumes "build_persistent_tables schemas = Inr desired" and "names_ok desired"
  shows "\<exists>up. render_postgres_up_sql debug (plan_migration S desired) = Inr up \<and>
     (\<forall>m. lm_up_sql m = join_migration_sql up \<longrightarrow>
        apply_local_migration_to_schema m S = Inr (fold apply_op (plan_migration S desired) S))"
  using replay_rendered [OF plan_ops_ok [OF assms, of S], of debug] by blast

subsection \<open>Examples\<close>

definition demo_schemas :: registry where
  "demo_schemas =
     [(''User'', \<lparr>sd_db_table = Some ''users'', sd_fields =
         [\<lparr>sf_name = ''id'', sf_field_type = IntegerType, sf_optional = False\<rparr>,
          \<lparr>sf_name = ''name'', sf_field_type = StringType, sf_optional = True\<rparr>]\<rparr>),
      (''Post'', \<lparr>sd_db_table = Some ''posts'', sd_fields =
         [\<lparr>sf_name = ''id'', sf_field_type = IntegerType, sf_optional = False\<rparr>,
          \<lparr>sf_name = ''author'', sf_field_type = Reference ''User'', sf_optional = False\<rparr>]\<rparr>)]"

definition demo_desired :: "(string \<times> persistent_table) list" where
  "demo_desired = (case build_persistent_tables demo_schemas of Inr d \<Rightarrow> d | Inl _ \<Rightarrow> [])"

definition demo_migration :: "string list \<Rightarrow> local_migration" where
  "demo_migration up = \<lparr>lm_version = ''20260101_000000'', lm_name = ''create_posts'', lm_up_path = [], lm_down_path = None,
     lm_up_sql = join_migration_sql up, lm_down_sql = None, lm_checksum = []\<rparr>"

lemma demo_up_sql: "lm_up_sql (demo_migration up) = join_migration_sql up"
  by (simp add: demo_migration_def)

lemma demo_ok:
  "build_persistent_tables demo_schemas = Inr demo_desired" "names_ok demo_desired" "desired_ok demo_desired"
  by code_simp+

lemma demo_plan:
  "map op_table_name (plan_migration \<lparr>ds_tables = []\<rparr> demo_desired) = [''posts'', ''users'', ''posts'']"
  by code_simp

theorem migration_replay_witness:
  "\<exists>up. apply_local_migration_to_schema (demo_migration up) \<lparr>ds_tables = []\<rparr> =
     Inr (fold apply_op (plan_migration \<lparr>ds_tables = []\<rparr> demo_desired) \<lparr>ds_tables = []\<rparr>)"
  using migration_replay [OF demo_ok(1,2), of "\<lambda>_. []" "\<lparr>ds_tables = []\<rparr>"]
    demo_up_sql
  by blast

text \<open>A column named like a constraint is lost in the replay: it is planned again after every migration.\<close>

definition exclude_desired :: "(string \<times> persistent_table) list" where
  "exclude_desired = [(''Rule'', \<lparr>pt_schema_name = ''Rule'', pt_table_name = ''rules'', pt_columns =
     map build_primitive_column
       [\<lparr>sf_name = ''id'', sf_field_type = IntegerType, sf_optional = False\<rparr>,
        \<lparr>sf_name = ''exclude'', sf_field_type = StringType, sf_optional = True\<rparr>], pt_foreign_keys = []\<rparr>)]"

lemma exclude_column_lost:
  "case render_postgres_up_sql (\<lambda>_. []) (plan_migration \<lparr>ds_tables = []\<rparr> exclude_desired) of
     Inl _ \<Rightarrow> False
   | Inr up \<Rightarrow>
       (case apply_local_migration_to_schema (demo_migration up) \<lparr>ds_tables = []\<rparr> of
          Inl _ \<Rightarrow> False
        | Inr S \<Rightarrow> map op_table_name (plan_migration S exclude_desired) = [''rules''])"
  by code_simp

text \<open>A closing parenthesis before the opening one panics.\<close>

lemma foreign_key_panics:
  "apply_local_migration_to_schema
     (demo_migration [''ALTER TABLE t ADD CONSTRAINT k FOREIGN KEY )x( REFERENCES u(id);'']) \<lparr>ds_tables = []\<rparr> = Inl Panicked"
  by code_simp

text \<open>Two schemas may name the same table: it is created twice.\<close>

lemma same_table_twice:
  "case build_persistent_tables (map (\<lambda>name. (name, \<lparr>sd_db_table = Some ''t'', sd_fields =
         [\<lparr>sf_name = ''id'', sf_field_type = IntegerType, sf_optional = False\<rparr>]\<rparr>)) [''A'', ''B'']) of
     Inl _ \<Rightarrow> False
   | Inr desired \<Rightarrow>
       map (\<lambda>op. (is_create op, op_table_name op)) (plan_migration \<lparr>ds_tables = []\<rparr> desired) = [(True, ''t''), (True, ''t'')]"
  by code_simp

end
