(* ===== verification/Migration_Files.thy ===== *)
theory Migration_Files
  imports Migration_Laws
begin

text \<open>
  \<^verbatim>\<open>src/src/migrations.rs\<close>, third part: the files of the migrations, their names and checksums, and the comparison of the
  local migrations with the applied ones.

  The migrations directory is a list of file names with their contents, or \<open>None\<close> when it does not exist; a path is
  the name of the file in it. Failures of the file system are not modelled. The parameter \<open>digest\<close> is SHA-256 in
  hexadecimal, and the time of the clock is the argument \<open>version\<close>.
\<close>

type_synonym directory = "(string \<times> string) list"

record applied_migration =
  am_version :: string
  am_name :: string
  am_checksum :: string
  am_applied_at :: string

datatype migration_state = Applied | Pending | Changed | MissingLocal

fun migration_state_as_str :: "migration_state \<Rightarrow> string" where
  "migration_state_as_str Applied = ''applied''"
| "migration_state_as_str Pending = ''pending''"
| "migration_state_as_str Changed = ''changed''"
| "migration_state_as_str MissingLocal = ''missing_local''"

record migration_list_entry =
  me_version :: string
  me_name :: string
  me_state :: migration_state

record migration_status_report =
  sr_applied :: "string list"
  sr_pending :: "string list"
  sr_changed :: "string list"
  sr_missing_local :: "string list"

subsection \<open>Names\<close>

text \<open>The loop with its two variables, the result so far and whether the last character was a separator.\<close>

fun sanitize_loop :: "string \<Rightarrow> bool \<Rightarrow> string \<Rightarrow> string" where
  "sanitize_loop result last_was_sep [] = result"
| "sanitize_loop result last_was_sep (ch # rest) =
     (let normalized = (if is_ascii_alphanumeric ch then to_ascii_lower ch else CHR ''_'')
      in if normalized = CHR ''_'' then
           sanitize_loop (if \<not> last_was_sep \<and> result \<noteq> [] then result @ ''_'' else result) True rest
         else sanitize_loop (result @ [normalized]) False rest)"

definition trim_underscores :: "string \<Rightarrow> string" where
  "trim_underscores s = rev (dropWhile (\<lambda>c. c = CHR ''_'') (rev (dropWhile (\<lambda>c. c = CHR ''_'') s)))"

definition sanitize_migration_name :: "string \<Rightarrow> string" where
  "sanitize_migration_name name = trim_underscores (sanitize_loop [] False name)"

text \<open>\<open>str::splitn(n, c)\<close>.\<close>

fun splitn :: "nat \<Rightarrow> char \<Rightarrow> string \<Rightarrow> string list" where
  "splitn 0 c s = []"
| "splitn (Suc 0) c s = [s]"
| "splitn (Suc (Suc n)) c s =
     (case split_once_by (\<lambda>x. x = c) s of
        None \<Rightarrow> [s]
      | Some (a, b) \<Rightarrow> a # splitn (Suc n) c b)"

definition strip_suffix :: "string \<Rightarrow> string \<Rightarrow> string option" where
  "strip_suffix suffix s = (if ends_with s suffix then Some (take (length s - length suffix) s) else None)"

definition invalid_filename :: "string \<Rightarrow> marreta_error" where
  "invalid_filename filename = IoError (''invalid migration filename '' @ in_quotes filename)"

definition parse_migration_filename :: "string \<Rightarrow> string \<Rightarrow> marreta_error + (string \<times> string)" where
  "parse_migration_filename filename suffix =
     (case strip_suffix suffix filename of
        None \<Rightarrow> Inl (invalid_filename filename)
      | Some stem \<Rightarrow>
          (case splitn 3 (CHR ''_'') stem of
             [d, t, name] \<Rightarrow>
               if utf8_len d \<noteq> 8 \<or> utf8_len t \<noteq> 6 \<or> name = [] then Inl (invalid_filename filename)
               else Inr (d @ ''_'' @ t, name)
           | _ \<Rightarrow> Inl (invalid_filename filename)))"

definition migration_checksum :: "(string \<Rightarrow> string) \<Rightarrow> string \<Rightarrow> string option \<Rightarrow> string" where
  "migration_checksum digest up_sql down_sql =
     digest (up_sql @ [CHR 0x0A] @ ''-- marreta:down --'' @ [CHR 0x0A] @ (case down_sql of Some d \<Rightarrow> d | None \<Rightarrow> []))"

subsection \<open>Files\<close>

definition up_file :: "string \<Rightarrow> string \<Rightarrow> string" where
  "up_file version name = version @ ''_'' @ name @ ''.up.sql''"

definition down_file :: "string \<Rightarrow> string \<Rightarrow> string" where
  "down_file version name = version @ ''_'' @ name @ ''.down.sql''"

definition migration_version_exists :: "directory \<Rightarrow> string \<Rightarrow> bool" where
  "migration_version_exists dir version \<longleftrightarrow> list_ex (\<lambda>(name, _). starts_with name (version @ ''_'')) dir"

definition write_migration_files ::
    "(string \<Rightarrow> string) \<Rightarrow> string \<Rightarrow> string \<Rightarrow> string list \<Rightarrow> string list \<Rightarrow> directory option \<Rightarrow>
     marreta_error + (local_migration \<times> directory)" where
  "write_migration_files digest version name up_sql down_sql dir =
     (let files = (case dir of Some files \<Rightarrow> files | None \<Rightarrow> [])
      in if migration_version_exists files version then
           Inl (IoError (''a migration with version '' @ in_quotes version @ '' already exists (two '' @
             in_quotes ''generate'' @ '' runs in the same second); retry in a moment so the timestamp advances''))
         else
           (let sanitized_name = sanitize_migration_name name;
                up_path = up_file version sanitized_name;
                down_path = down_file version sanitized_name;
                up_content = join_migration_sql up_sql;
                down_content = join_migration_sql down_sql
            in Inr (\<lparr>lm_version = version, lm_name = sanitized_name, lm_up_path = up_path,
                     lm_down_path = Some down_path, lm_up_sql = up_content, lm_down_sql = Some down_content,
                     lm_checksum = migration_checksum digest up_content (Some down_content)\<rparr>,
                   AList.update down_path down_content (AList.update up_path up_content files))))"

definition read_migration ::
    "(string \<Rightarrow> string) \<Rightarrow> directory \<Rightarrow> string \<Rightarrow> marreta_error + local_migration" where
  "read_migration digest files up_path =
     rbind (parse_migration_filename up_path ''.up.sql'') (\<lambda>(version, name).
       let down_path = down_file version name;
           up_sql = (case map_of files up_path of Some s \<Rightarrow> s | None \<Rightarrow> []);
           down_sql = map_of files down_path
       in Inr \<lparr>lm_version = version, lm_name = name, lm_up_path = up_path,
               lm_down_path = (if down_sql = None then None else Some down_path),
               lm_up_sql = up_sql, lm_down_sql = down_sql,
               lm_checksum = migration_checksum digest up_sql down_sql\<rparr>)"

definition up_entries :: "directory \<Rightarrow> string list" where
  "up_entries files = sort (filter (\<lambda>name. ends_with name ''.up.sql'') (map fst files))"

definition discover_local_migrations ::
    "(string \<Rightarrow> string) \<Rightarrow> directory option \<Rightarrow> marreta_error + local_migration list" where
  "discover_local_migrations digest dir =
     (case dir of
        None \<Rightarrow> Inr []
      | Some files \<Rightarrow> rmap (read_migration digest files) (up_entries files))"

subsection \<open>Comparison with the applied migrations\<close>

definition inventory_entry ::
    "local_migration list \<Rightarrow> applied_migration list \<Rightarrow> string \<Rightarrow> migration_list_entry option" where
  "inventory_entry locals applied version =
     (case (collect_map lm_version locals version, collect_map am_version applied version) of
        (Some l, Some a) \<Rightarrow>
          Some \<lparr>me_version = version, me_name = lm_name l,
                me_state = (if lm_checksum l = am_checksum a then Applied else Changed)\<rparr>
      | (Some l, None) \<Rightarrow> Some \<lparr>me_version = version, me_name = lm_name l, me_state = Pending\<rparr>
      | (None, Some a) \<Rightarrow> Some \<lparr>me_version = version, me_name = am_name a, me_state = MissingLocal\<rparr>
      | (None, None) \<Rightarrow> None)"

definition build_migration_inventory ::
    "local_migration list \<Rightarrow> applied_migration list \<Rightarrow> migration_list_entry list" where
  "build_migration_inventory locals applied =
     List.map_filter (inventory_entry locals applied)
       (sort (remdups (map lm_version locals @ map am_version applied)))"

definition entry_label :: "migration_list_entry \<Rightarrow> string" where
  "entry_label entry = me_version entry @ ''_'' @ me_name entry"

definition compare_migration_state ::
    "local_migration list \<Rightarrow> applied_migration list \<Rightarrow> migration_status_report" where
  "compare_migration_state locals applied =
     (let inventory = build_migration_inventory locals applied;
          labels = (\<lambda>state. sort (map entry_label (filter (\<lambda>entry. me_state entry = state) inventory)))
      in \<lparr>sr_applied = labels Applied, sr_pending = labels Pending, sr_changed = labels Changed,
          sr_missing_local = labels MissingLocal\<rparr>)"

definition discard_pending_migration ::
    "string \<Rightarrow> local_migration list \<Rightarrow> applied_migration list \<Rightarrow> directory \<Rightarrow> marreta_error + (string \<times> directory)" where
  "discard_pending_migration version locals applied files =
     (let report = compare_migration_state locals applied;
          names = list_ex (\<lambda>item. starts_with item (version @ ''_''));
          refuse = (\<lambda>reason. Inl (IoError (''cannot discard migration '' @ version @ '' because it is '' @ reason)))
      in if names (sr_applied report) then refuse ''already applied''
         else if names (sr_changed report) then refuse ''in changed state''
         else if names (sr_missing_local report) then refuse ''in missing_local state''
         else case find (\<lambda>migration. lm_version migration = version) locals of
                None \<Rightarrow> Inl (IoError (''pending migration '' @ version @ '' was not found locally''))
              | Some migration \<Rightarrow>
                  (let label = lm_version migration @ ''_'' @ lm_name migration
                   in case lm_down_path migration of
                        None \<Rightarrow> Inl (IoError (''cannot discard migration '' @ label @
                          '' because the down migration file is missing''))
                      | Some down_path \<Rightarrow>
                          if map_of files (lm_up_path migration) = None \<or> map_of files down_path = None then
                            Inl (IoError (''cannot discard migration '' @ label @
                              '' because the local migration pair is incomplete''))
                          else Inr (label, AList.delete down_path (AList.delete (lm_up_path migration) files))))"

subsection \<open>The command \<open>migrate generate\<close>\<close>

text \<open>\<open>compute_migration_plan\<close> and \<open>run_migrate_generate\<close> of \<^verbatim>\<open>src/src/main.rs\<close>, from the schemas of the loaded project; an
  exit of the process is the error it reports, and what is printed is left out. \<open>None\<close> is the exit of a project
  without \<open>db:\<close> schemas, which is no error.\<close>

definition as_fault :: "marreta_error + 'a \<Rightarrow> fault + 'a" where
  "as_fault r = map_sum Err (\<lambda>v. v) r"

definition compute_migration_plan ::
    "(string \<Rightarrow> string) \<Rightarrow> registry \<Rightarrow> directory option \<Rightarrow> fault + (migration_op list \<times> schema_drift list) option" where
  "compute_migration_plan digest schemas dir =
     (if schemas = [] then Inr None
      else
        rbind (as_fault (build_persistent_tables schemas)) (\<lambda>desired_tables.
        rbind (as_fault (discover_local_migrations digest dir)) (\<lambda>locals.
        rbind (build_schema_from_local_migrations locals) (\<lambda>current_schema.
          Inr (Some (plan_migration current_schema desired_tables, detect_schema_drift current_schema desired_tables))))))"

definition run_migrate_generate ::
    "(expression \<Rightarrow> string) \<Rightarrow> (string \<Rightarrow> string) \<Rightarrow> string \<Rightarrow> registry \<Rightarrow> directory option \<Rightarrow>
     fault + directory option" where
  "run_migrate_generate debug digest version schemas dir =
     rbind (compute_migration_plan digest schemas dir) (\<lambda>computed.
       case computed of
         None \<Rightarrow> Inr dir
       | Some (plan, drift) \<Rightarrow>
           if plan = [] then Inr dir
           else
             rbind (as_fault (render_postgres_up_sql debug plan)) (\<lambda>up_sql.
             rbind (as_fault (write_migration_files digest version (default_migration_name plan) up_sql
                      (render_postgres_down_sql plan) dir)) (\<lambda>(_, files).
               Inr (Some files))))"

subsection \<open>Names that are read back\<close>

definition stamp :: "string \<Rightarrow> bool" where
  "stamp version \<longleftrightarrow> (\<exists>d t. version = d @ ''_'' @ t \<and> length d = 8 \<and> length t = 6 \<and>
     list_all is_ascii_digit d \<and> list_all is_ascii_digit t)"

lemma strip_suffix_append: "strip_suffix q (p @ q) = Some p"
  by (simp add: strip_suffix_def ends_with_def)

lemma digits_text_chars:
  assumes "list_all is_ascii_digit d"
  shows "\<forall>x \<in> set d. x \<noteq> CHR ''_''" "utf8_len d = length d"
proof -
  have "\<not> is_ascii_digit CHR ''_''" by (simp add: ascii_simps)
  with assms show "\<forall>x \<in> set d. x \<noteq> CHR ''_''" by (auto simp: list_all_iff)
  have "cp x < 128" if "is_ascii_digit x" for x using that by (simp add: is_ascii_digit_def)
  with assms show "utf8_len d = length d" by (induction d) (simp_all add: utf8_len_def)
qed

lemma parse_up_file:
  assumes "stamp version" and "name \<noteq> []"
  shows "parse_migration_filename (up_file version name) ''.up.sql'' = Inr (version, name)"
proof -
  obtain d t where v: "version = d @ ''_'' @ t" "length d = 8" "length t = 6"
    and digits: "list_all is_ascii_digit d" "list_all is_ascii_digit t"
    using assms(1) unfolding stamp_def by (elim exE conjE) (rule that)
  note plain = digits_text_chars [OF digits(1)] digits_text_chars [OF digits(2)]
  have "strip_suffix ''.up.sql'' (up_file version name) = Some (d @ CHR ''_'' # t @ CHR ''_'' # name)"
    unfolding up_file_def v(1) using strip_suffix_append [of "''.up.sql''" "d @ CHR ''_'' # t @ CHR ''_'' # name"] by simp
  moreover have "splitn 3 (CHR ''_'') (d @ CHR ''_'' # t @ CHR ''_'' # name) = [d, t, name]"
  proof -
    have "split_once_by (\<lambda>x. x = CHR ''_'') (d @ CHR ''_'' # t @ CHR ''_'' # name) = Some (d, t @ CHR ''_'' # name)"
      "split_once_by (\<lambda>x. x = CHR ''_'') (t @ CHR ''_'' # name) = Some (t, name)"
      by (rule split_once_by_append; use plain in simp)+
    then show ?thesis by (simp add: numeral_3_eq_3)
  qed
  moreover have "utf8_len d = 8" "utf8_len t = 6" using plain(2,4) v(2,3) by simp_all
  ultimately show ?thesis unfolding parse_migration_filename_def using assms(2) v(1) by simp
qed

lemma sanitize_loop_hd:
  "result \<noteq> [] \<Longrightarrow> sanitize_loop result b s \<noteq> [] \<and> hd (sanitize_loop result b s) = hd result"
  by (induction s arbitrary: result b) (simp_all add: Let_def)

lemma sanitize_nonempty:
  assumes "is_ascii_alphanumeric c"
  shows "sanitize_migration_name (c # s) \<noteq> []"
proof -
  have lower: "to_ascii_lower c \<noteq> CHR ''_''"
  proof
    assume eq: "to_ascii_lower c = CHR ''_''"
    show False
    proof (cases "is_ascii_uppercase c")
      case True
      with eq have "cp (char_of (cp c + 32)) = 95" by (simp add: to_ascii_lower_def)
      then have "(cp c + 32) mod 256 = 95" by simp
      with True show False by (simp add: ascii_simps)
    next
      case False
      with eq have "c = CHR ''_''" by (simp add: to_ascii_lower_def)
      with assms show False by (simp add: ascii_simps)
    qed
  qed
  let ?r = "sanitize_loop [to_ascii_lower c] False s"
  have r1: "sanitize_loop [] False (c # s) = ?r" using assms lower by (simp add: Let_def)
  have r: "?r \<noteq> []" "hd ?r \<noteq> CHR ''_''" using lower sanitize_loop_hd [of "[to_ascii_lower c]" False s] by simp_all
  then have "dropWhile (\<lambda>c. c = CHR ''_'') ?r = ?r" by (cases ?r) auto
  moreover have "dropWhile (\<lambda>c. c = CHR ''_'') (rev ?r) \<noteq> []"
    using r(2) hd_in_set [OF r(1)] unfolding dropWhile_eq_Nil_conv set_rev by blast
  ultimately show ?thesis unfolding sanitize_migration_name_def trim_underscores_def r1 by simp
qed

lemma default_name_nonempty: "sanitize_migration_name (default_migration_name ops) \<noteq> []"
proof -
  have "\<exists>c s. default_migration_name ops = c # s \<and> is_ascii_alphanumeric c"
    by (cases ops rule: default_migration_name.cases) (auto simp: ascii_simps)
  then show ?thesis using sanitize_nonempty by auto
qed

lemma split_once_by_Some: "split_once_by (\<lambda>x. x = c) s = Some (a, b) \<Longrightarrow> s = a @ c # b"
  by (induction s arbitrary: a b) (auto split: if_splits)

lemma parse_migration_filename_inverse:
  assumes "parse_migration_filename f ''.up.sql'' = Inr (v, n)"
  shows "f = up_file v n"
proof -
  obtain stem d t where stem: "strip_suffix ''.up.sql'' f = Some stem" and parts: "splitn 3 (CHR ''_'') stem = [d, t, n]"
    and v: "v = d @ ''_'' @ t"
    using assms by (auto simp: parse_migration_filename_def split: option.splits list.splits if_splits)
  have "f = stem @ ''.up.sql''"
    using stem unfolding strip_suffix_def ends_with_def
    by (metis append_take_drop_id option.distinct(1) option.inject)
  moreover have "stem = d @ CHR ''_'' # t @ CHR ''_'' # n"
    using parts by (auto simp: numeral_3_eq_3 dest!: split_once_by_Some split: option.splits)
  ultimately show ?thesis by (simp add: up_file_def v)
qed

lemma up_not_down: "up_file v n \<noteq> down_file w k"
proof
  assume "up_file v n = down_file w k"
  then have "rev (up_file v n) = rev (down_file w k)" by simp
  then show False by (simp add: up_file_def down_file_def)
qed

lemma down_file_inj: "down_file v n = down_file w k \<Longrightarrow> up_file v n = up_file w k"
  by (simp add: up_file_def down_file_def flip: append_assoc)

lemma ends_up_file: "ends_with (up_file v n) ''.up.sql''" "\<not> ends_with (down_file v n) ''.up.sql''"
proof -
  show "ends_with (up_file v n) ''.up.sql''"
    unfolding up_file_def ends_with_def by (simp flip: append_assoc)
  show "\<not> ends_with (down_file v n) ''.up.sql''"
  proof
    assume "ends_with (down_file v n) ''.up.sql''"
    then obtain p where "down_file v n = p @ ''.up.sql''" unfolding ends_with_def by (metis append_take_drop_id)
    then have "rev (down_file v n) = rev (p @ ''.up.sql'')" by simp
    then show False by (simp add: down_file_def)
  qed
qed

subsection \<open>Order\<close>

lemma le_append: "(s :: string) \<le> s @ r"
  by (induction s) simp_all

lemma insort_last: "x \<le> y \<Longrightarrow> insort x (l @ [y]) = insort x l @ [y]"
  by (induction l) auto

lemma sort_last: "\<forall>x \<in> set xs. x \<le> y \<Longrightarrow> sort (xs @ [y]) = sort xs @ [y]"
  by (induction xs) (simp_all add: insort_last)

definition later :: "directory \<Rightarrow> string \<Rightarrow> bool" where
  "later files version \<longleftrightarrow> (\<forall>f \<in> fst ` set files. f < version)"

lemma later_facts:
  assumes "later files version"
  shows "\<not> migration_version_exists files version" "version @ s \<notin> fst ` set files"
    "f \<in> fst ` set files \<Longrightarrow> f < version @ s"
proof -
  have less: "f < version @ s" if "f \<in> fst ` set files" for f s
    using assms that le_append less_le_trans unfolding later_def by blast
  then show "f \<in> fst ` set files \<Longrightarrow> f < version @ s" by blast
  show "version @ s \<notin> fst ` set files" using less by blast
  have "\<not> starts_with f (version @ ''_'')" if "f \<in> fst ` set files" for f
    using less [OF that] unfolding starts_with_def by (metis append_take_drop_id less_irrefl append_assoc)
  then show "\<not> migration_version_exists files version"
    by (force simp: migration_version_exists_def list_ex_iff)
qed

lemma update_new: "k \<notin> fst ` set al \<Longrightarrow> AList.update k v al = al @ [(k, v)]"
  by (induction al) auto

lemma write_discover:
  assumes "later files version" and "stamp version" and "sanitize_migration_name name \<noteq> []"
    and "discover_local_migrations digest (Some files) = Inr locals"
  obtains m files' where
    "write_migration_files digest version name up down (Some files) = Inr (m, files')"
    "discover_local_migrations digest (Some files') = Inr (locals @ [m])"
    "lm_up_sql m = join_migration_sql up" "lm_version m = version"
proof -
  let ?n = "sanitize_migration_name name"
  let ?up = "up_file version ?n" and ?down = "down_file version ?n"
  let ?files = "files @ [(?up, join_migration_sql up), (?down, join_migration_sql down)]"
  let ?m = "\<lparr>lm_version = version, lm_name = ?n, lm_up_path = ?up, lm_down_path = Some ?down,
      lm_up_sql = join_migration_sql up, lm_down_sql = Some (join_migration_sql down),
      lm_checksum = migration_checksum digest (join_migration_sql up) (Some (join_migration_sql down))\<rparr>"
  have new: "?up \<notin> fst ` set files" "?down \<notin> fst ` set files"
    unfolding up_file_def down_file_def by (rule later_facts(2) [OF assms(1)])+
  have written: "write_migration_files digest version name up down (Some files) = Inr (?m, ?files)"
    using later_facts(1) [OF assms(1)] new up_not_down [of version ?n version ?n]
    by (simp add: write_migration_files_def update_new Let_def)
  have lookup: "map_of ?files k = map_of files k" if "k \<noteq> ?up" "k \<noteq> ?down" for k
    using that by (simp add: map_add_def split: option.split)
  have new_lookup: "map_of ?files ?up = Some (join_migration_sql up)" "map_of ?files ?down = Some (join_migration_sql down)"
  proof -
    have "map_of files ?up = None" "map_of files ?down = None" using new by (simp_all add: map_of_eq_None_iff)
    then show "map_of ?files ?up = Some (join_migration_sql up)" "map_of ?files ?down = Some (join_migration_sql down)"
      using up_not_down [of version ?n version ?n] by (simp_all add: map_add_def)
  qed
  have "up_entries ?files = up_entries files @ [?up]"
  proof -
    have "f \<le> ?up" if "f \<in> fst ` set files" for f
      using later_facts(3) [OF assms(1) that] unfolding up_file_def by (rule less_imp_le)
    then show ?thesis
      using sort_last [of "filter (\<lambda>name. ends_with name ''.up.sql'') (map fst files)" ?up]
      by (simp add: up_entries_def ends_up_file)
  qed
  moreover have "read_migration digest ?files f = read_migration digest files f" if "f \<in> set (up_entries files)" for f
  proof (cases "parse_migration_filename f ''.up.sql''")
    case (Inr vn)
    obtain v n where vn: "vn = (v, n)" by (cases vn)
    have f: "f = up_file v n" using parse_migration_filename_inverse Inr vn by simp
    have "f \<in> fst ` set files" using that by (auto simp: up_entries_def)
    then have "f \<noteq> ?up" "f \<noteq> ?down" using new by blast+
    moreover from this have "down_file v n \<noteq> ?down" using down_file_inj f by blast
    moreover have "down_file v n \<noteq> ?up" using up_not_down by metis
    ultimately show ?thesis using Inr lookup by (simp add: read_migration_def vn Let_def)
  qed (simp add: read_migration_def)
  moreover have "read_migration digest ?files ?up = Inr ?m"
    using parse_up_file [OF assms(2,3)] new_lookup by (simp add: read_migration_def Let_def)
  moreover from calculation(2) have "rmap (read_migration digest ?files) (up_entries files) = Inr locals"
    using assms(4) rmap_cong [OF refl, of "up_entries files" "read_migration digest ?files" "read_migration digest files"]
    by (simp add: discover_local_migrations_def)
  ultimately have "discover_local_migrations digest (Some ?files) = Inr (locals @ [?m])"
    by (simp add: discover_local_migrations_def rmap_Inr_iff list_all2_appendI)
  with written show ?thesis by (rule that) simp_all
qed

lemma as_fault_Inr [simp]: "as_fault r = Inr v \<longleftrightarrow> r = Inr v"
  by (cases r) (auto simp: as_fault_def)

lemma as_fault_Inr_intro [simp]: "as_fault (Inr v) = Inr v"
  by (simp add: as_fault_def)

lemma replay_snoc: "replay_migrations (ms @ [m]) S = rbind (replay_migrations ms S) (apply_local_migration_to_schema m)"
proof (induction ms arbitrary: S)
  case Nil
  then show ?case by (cases "apply_local_migration_to_schema m S") simp_all
next
  case (Cons x ms)
  then show ?case by (cases "apply_local_migration_to_schema x S") simp_all
qed

text \<open>C33: \<open>migrate generate\<close> does its work at once: in a project with a migrations directory, when the history can be read, the desired
  tables are ones whose names the replay can read back, and the clock gives a later version, the
  command succeeds, and after it the same project has an empty plan and no drift it had not before.\<close>

theorem generate_converges:
  assumes "compute_migration_plan digest schemas (Some files) = Inr (Some (plan, drift))"
    and "build_persistent_tables schemas = Inr desired" and "names_ok desired" and "desired_ok desired"
    and "stamp version" and "later files version"
  shows "\<exists>dir drift'. run_migrate_generate debug digest version schemas (Some files) = Inr dir \<and>
     compute_migration_plan digest schemas dir = Inr (Some ([], drift')) \<and> set drift' \<subseteq> set drift"
proof (cases "plan = []")
  case True
  with assms(1) show ?thesis by (auto simp: run_migrate_generate_def)
next
  case False
  obtain locals S where ls: "discover_local_migrations digest (Some files) = Inr locals"
    "build_schema_from_local_migrations locals = Inr S" "plan = plan_migration S desired" "drift = detect_schema_drift S desired"
    using assms(1,2) by (auto simp: compute_migration_plan_def split: if_splits)
  let ?S = "fold apply_op plan S"
  obtain up where up: "render_postgres_up_sql debug plan = Inr up"
    and replay: "\<forall>m schema. lm_up_sql m = join_migration_sql up \<longrightarrow>
        apply_local_migration_to_schema m schema = Inr (fold apply_op plan schema)"
    using replay_rendered [OF plan_ops_ok [OF assms(2,3), of S], of debug] unfolding ls(3) by blast
  obtain m files' where m: "write_migration_files digest version (default_migration_name plan) up
        (render_postgres_down_sql plan) (Some files) = Inr (m, files')"
    "discover_local_migrations digest (Some files') = Inr (locals @ [m])" "lm_up_sql m = join_migration_sql up"
    by (rule write_discover [OF assms(6,5) default_name_nonempty ls(1)])
  have "build_schema_from_local_migrations (locals @ [m]) = Inr ?S"
    using ls(2) replay m(3) by (simp add: build_schema_from_local_migrations_def replay_snoc)
  then have "compute_migration_plan digest schemas (Some files') = Inr (Some ([], detect_schema_drift ?S desired))"
    using plan_converges [OF assms(4), of S] assms(1,2) m(2) ls(3) by (auto simp: compute_migration_plan_def split: if_splits)
  moreover have "set (detect_schema_drift ?S desired) \<subseteq> set drift"
    using plan_no_new_drift [OF assms(4), of S] ls(3,4) by simp
  moreover have "run_migrate_generate debug digest version schemas (Some files) = Inr (Some files')"
    using assms(1) False up m(1) by (simp add: run_migrate_generate_def)
  ultimately show ?thesis by blast
qed

theorem generate_converges_witness:
  "\<exists>dir drift'. run_migrate_generate (\<lambda>_. []) (\<lambda>s. s) ''20260101_000000'' demo_schemas (Some []) = Inr dir \<and>
     compute_migration_plan (\<lambda>s. s) demo_schemas dir = Inr (Some ([], drift'))"
proof -
  have "compute_migration_plan (\<lambda>s. s) demo_schemas (Some []) =
      Inr (Some (plan_migration \<lparr>ds_tables = []\<rparr> demo_desired, detect_schema_drift \<lparr>ds_tables = []\<rparr> demo_desired))"
    using demo_ok(1)
    by (simp add: demo_schemas_def compute_migration_plan_def discover_local_migrations_def up_entries_def
        build_schema_from_local_migrations_def)
  moreover have "stamp ''20260101_000000''"
    unfolding stamp_def
    by (rule exI [of _ "''20260101''"], rule exI [of _ "''000000''"]) (simp add: ascii_simps)
  moreover have "later [] ''20260101_000000''" by (simp add: later_def)
  ultimately show ?thesis
    using generate_converges [OF _ demo_ok, where files = "[]" and digest = "\<lambda>s. s" and debug = "\<lambda>_. []"] by blast
qed

subsection \<open>The state of the migrations\<close>

lemma set_inventory:
  "e \<in> set (build_migration_inventory locals applied) \<longleftrightarrow>
     (\<exists>v \<in> lm_version ` set locals \<union> am_version ` set applied. inventory_entry locals applied v = Some e)"
proof -
  have "e \<in> set (List.map_filter f xs) \<longleftrightarrow> (\<exists>x \<in> set xs. f x = Some e)" for f and xs :: "string list"
    by (induction xs) (auto simp: map_filter_simps split: option.splits)
  then show ?thesis by (simp add: build_migration_inventory_def)
qed

lemma inventory_entry_version: "inventory_entry locals applied v = Some e \<Longrightarrow> me_version e = v"
  by (auto simp: inventory_entry_def split: option.splits)

lemma inventory_versions:
  "map me_version (build_migration_inventory locals applied) = sort (remdups (map lm_version locals @ map am_version applied))"
proof -
  have ex: "\<exists>e. inventory_entry locals applied v = Some e \<and> me_version e = v"
    if "v \<in> lm_version ` set locals \<union> am_version ` set applied" for v
  proof (cases "inventory_entry locals applied v")
    case None
    then have "collect_map lm_version locals v = None" "collect_map am_version applied v = None"
      by (auto simp: inventory_entry_def split: option.splits)
    with that show ?thesis by (simp add: collect_map_None)
  next
    case (Some e)
    with inventory_entry_version show ?thesis by blast
  qed
  have all: "map me_version (List.map_filter f vs) = vs" if "\<forall>v \<in> set vs. \<exists>e. f v = Some e \<and> me_version e = v" for f vs
    using that by (induction vs) (auto simp: map_filter_simps)
  show ?thesis unfolding build_migration_inventory_def by (rule all) (simp add: ex)
qed

text \<open>The state the report gives a version, from the migrations with that version.\<close>

definition state_of :: "local_migration \<Rightarrow> applied_migration list \<Rightarrow> migration_state" where
  "state_of l applied =
     (if \<exists>a \<in> set applied. am_version a = lm_version l \<and> am_checksum a = lm_checksum l then Applied
      else if \<exists>a \<in> set applied. am_version a = lm_version l then Changed else Pending)"

lemma inventory_entry_local:
  assumes "distinct (map lm_version locals)" and "distinct (map am_version applied)" and l: "l \<in> set locals"
  shows "inventory_entry locals applied (lm_version l) =
      Some \<lparr>me_version = lm_version l, me_name = lm_name l, me_state = state_of l applied\<rparr>"
proof (cases "collect_map am_version applied (lm_version l)")
  case None
  then have "\<not> (\<exists>a \<in> set applied. am_version a = lm_version l)"
    unfolding collect_map_None by (metis imageI)
  then have "state_of l applied = Pending" by (simp add: state_of_def)
  with None show ?thesis by (simp add: inventory_entry_def collect_map_distinct [OF assms(1) l])
next
  case (Some a)
  have a: "a \<in> set applied" "am_version a = lm_version l" using collect_map_mem [OF Some] by simp_all
  have "b = a" if "b \<in> set applied" "am_version b = lm_version l" for b
    using collect_map_distinct [OF assms(2) that(1)] that(2) Some by simp
  with a have "(\<exists>b \<in> set applied. am_version b = lm_version l \<and> am_checksum b = lm_checksum l) \<longleftrightarrow> am_checksum a = lm_checksum l"
    "\<exists>b \<in> set applied. am_version b = lm_version l"
    by blast+
  then have "state_of l applied = (if lm_checksum l = am_checksum a then Applied else Changed)"
    by (simp add: state_of_def)
  with Some show ?thesis by (simp add: inventory_entry_def collect_map_distinct [OF assms(1) l])
qed

lemma inventory_entry_missing:
  assumes "distinct (map am_version applied)" and "a \<in> set applied" and "am_version a \<notin> lm_version ` set locals"
  shows "inventory_entry locals applied (am_version a) =
      Some \<lparr>me_version = am_version a, me_name = am_name a, me_state = MissingLocal\<rparr>"
proof -
  have "collect_map lm_version locals (am_version a) = None" using assms(3) by (simp add: collect_map_None)
  with collect_map_distinct [OF assms(1,2)] show ?thesis by (simp add: inventory_entry_def)
qed

lemma set_inventory_split:
  "e \<in> set (build_migration_inventory locals applied) \<longleftrightarrow>
      (\<exists>l \<in> set locals. inventory_entry locals applied (lm_version l) = Some e) \<or>
      (\<exists>a \<in> {a \<in> set applied. am_version a \<notin> lm_version ` set locals}. inventory_entry locals applied (am_version a) = Some e)"
  (is "_ \<longleftrightarrow> ?local \<or> ?missing")
proof
  assume "e \<in> set (build_migration_inventory locals applied)"
  then obtain v where v: "v \<in> lm_version ` set locals \<union> am_version ` set applied" "inventory_entry locals applied v = Some e"
    unfolding set_inventory by blast
  show "?local \<or> ?missing"
  proof (cases "v \<in> lm_version ` set locals")
    case False
    with v(1) obtain a where "a \<in> set applied" "v = am_version a" by blast
    with False v(2) have ?missing by (intro bexI [of _ a]) simp_all
    then show ?thesis ..
  qed (use v(2) in blast)
next
  assume "?local \<or> ?missing"
  then show "e \<in> set (build_migration_inventory locals applied)" unfolding set_inventory by blast
qed

text \<open>The inventory lists every version of the local and of the applied migrations once, in order, and its state:
  applied when the checksums agree, changed when they do not, pending when it was not applied, missing when there
  is no local migration.\<close>

theorem inventory_correct:
  assumes "distinct (map lm_version locals)" and "distinct (map am_version applied)"
  shows "sorted (map me_version (build_migration_inventory locals applied)) \<and>
     distinct (map me_version (build_migration_inventory locals applied)) \<and>
     set (build_migration_inventory locals applied) =
       (\<lambda>l. \<lparr>me_version = lm_version l, me_name = lm_name l, me_state = state_of l applied\<rparr>) ` set locals \<union>
       (\<lambda>a. \<lparr>me_version = am_version a, me_name = am_name a, me_state = MissingLocal\<rparr>) `
         {a \<in> set applied. am_version a \<notin> lm_version ` set locals}"
proof -
  have "(\<exists>l \<in> set locals. inventory_entry locals applied (lm_version l) = Some e) \<longleftrightarrow>
      e \<in> (\<lambda>l. \<lparr>me_version = lm_version l, me_name = lm_name l, me_state = state_of l applied\<rparr>) ` set locals" for e
    using inventory_entry_local [OF assms] by (auto simp: image_iff)
  moreover have "(\<exists>a \<in> {a \<in> set applied. am_version a \<notin> lm_version ` set locals}.
        inventory_entry locals applied (am_version a) = Some e) \<longleftrightarrow>
      e \<in> (\<lambda>a. \<lparr>me_version = am_version a, me_name = am_name a, me_state = MissingLocal\<rparr>) `
        {a \<in> set applied. am_version a \<notin> lm_version ` set locals}" for e
  proof -
    have "inventory_entry locals applied (am_version a) = Some e \<longleftrightarrow>
        e = \<lparr>me_version = am_version a, me_name = am_name a, me_state = MissingLocal\<rparr>"
      if "a \<in> {a \<in> set applied. am_version a \<notin> lm_version ` set locals}" for a
      using inventory_entry_missing [OF assms(2), of a locals] that by auto
    then show ?thesis unfolding image_iff by (rule bex_cong [OF refl])
  qed
  ultimately have "set (build_migration_inventory locals applied) =
       (\<lambda>l. \<lparr>me_version = lm_version l, me_name = lm_name l, me_state = state_of l applied\<rparr>) ` set locals \<union>
       (\<lambda>a. \<lparr>me_version = am_version a, me_name = am_name a, me_state = MissingLocal\<rparr>) `
         {a \<in> set applied. am_version a \<notin> lm_version ` set locals}"
    by (simp only: set_eq_iff Un_iff set_inventory_split) simp
  then show ?thesis by (simp add: inventory_versions)
qed

theorem inventory_correct_witness:
  "sorted (map me_version (build_migration_inventory
     [demo_migration []] [\<lparr>am_version = ''20250101_000000'', am_name = ''x'', am_checksum = [], am_applied_at = []\<rparr>]))"
  using inventory_correct [of "[demo_migration []]"
      "[\<lparr>am_version = ''20250101_000000'', am_name = ''x'', am_checksum = [], am_applied_at = []\<rparr>]"] by simp

text \<open>C34: discarding removes the two files of one local migration that is not recorded as applied, and nothing else.\<close>

theorem discard_pending_safe:
  assumes "discard_pending_migration version locals applied files = Inr (label, files')"
  shows "version \<notin> am_version ` set applied \<and>
     (\<exists>m \<in> set locals. lm_version m = version \<and> label = version @ ''_'' @ lm_name m \<and>
        (\<exists>down_path. lm_down_path m = Some down_path \<and>
           map_of files' = (map_of files)(lm_up_path m := None, down_path := None)))"
proof -
  let ?report = "compare_migration_state locals applied"
  have ok: "\<not> list_ex (\<lambda>item. starts_with item (version @ ''_'')) (sr_applied ?report)"
    "\<not> list_ex (\<lambda>item. starts_with item (version @ ''_'')) (sr_changed ?report)"
    "\<not> list_ex (\<lambda>item. starts_with item (version @ ''_'')) (sr_missing_local ?report)"
    using assms by (auto simp: discard_pending_migration_def Let_def split: if_splits)
  have "version \<notin> am_version ` set applied"
  proof
    assume v: "version \<in> am_version ` set applied"
    then obtain a where "collect_map am_version applied version = Some a"
      using collect_map_None [of am_version applied version] by (cases "collect_map am_version applied version") auto
    then obtain e where e: "inventory_entry locals applied version = Some e" "me_state e \<noteq> Pending"
      by (cases "collect_map lm_version locals version") (auto simp: inventory_entry_def)
    then have mem: "e \<in> set (build_migration_inventory locals applied)" using v unfolding set_inventory by blast
    have "starts_with (entry_label e) (version @ ''_'')"
      using inventory_entry_version [OF e(1)] by (simp add: entry_label_def starts_with_def)
    with mem ok e(2) show False
      by (cases "me_state e") (auto simp: compare_migration_state_def Let_def list_ex_iff)
  qed
  moreover obtain m where m: "find (\<lambda>migration. lm_version migration = version) locals = Some m"
    using assms ok by (auto simp: discard_pending_migration_def Let_def split: option.splits)
  moreover from this have "m \<in> set locals" "lm_version m = version" by (auto simp: find_Some_iff)
  moreover obtain d where "lm_down_path m = Some d" "label = version @ ''_'' @ lm_name m"
    "files' = AList.delete d (AList.delete (lm_up_path m) files)"
    using assms ok m \<open>lm_version m = version\<close>
    by (auto simp: discard_pending_migration_def Let_def split: option.splits if_splits)
  ultimately show ?thesis by (auto simp: delete_conv' fun_upd_twist)
qed

definition demo_local :: local_migration where
  "demo_local = \<lparr>lm_version = ''20260101_000000'', lm_name = ''n'', lm_up_path = ''u'', lm_down_path = Some ''d'',
     lm_up_sql = [], lm_down_sql = Some [], lm_checksum = ''c''\<rparr>"

theorem discard_pending_safe_witness:
  "discard_pending_migration ''20260101_000000'' [demo_local] [] [(''u'', []), (''d'', []), (''x'', [])] =
     Inr (''20260101_000000_n'', [(''x'', [])]) \<and> ''20260101_000000'' \<notin> am_version ` set []"
proof -
  have "discard_pending_migration ''20260101_000000'' [demo_local] [] [(''u'', []), (''d'', []), (''x'', [])] =
     Inr (''20260101_000000_n'', [(''x'', [])])"
    by code_simp
  with discard_pending_safe [OF this] show ?thesis by simp
qed

end
