(* ===== verification/Json.thy ===== *)
theory Json
  imports Response_Serializer
begin

text \<open>
  \<^verbatim>\<open>src/src/value.rs\<close>, last part: values and JSON. The tree of \<open>serde_json\<close> (with its feature
  \<open>preserve_order\<close>, so that an object is an \<open>IndexMap\<close>) is the datatype \<open>json\<close>; a number is a \<open>u64\<close>, a
  negative \<open>i64\<close> or a finite \<open>f64\<close>, as the crate documents. \<open>json!\<close> of a float that is not finite is null.

  A serialiser is the record of the operations the implementation of \<open>serde::Serialize\<close> calls, and
  \<open>json_text\<close> is what \<open>serde_json\<close> documents of writing a tree with it.
\<close>

datatype json_number = JnPosInt "64 word" | JnNegInt i64 | JnFloat f64

datatype (plugins only: code size) json =
    JNull
  | JBool bool
  | JNumber json_number
  | JString string
  | JArray "json list"
  | JObject "(string \<times> json) list"

definition json_of_i64 :: "i64 \<Rightarrow> json" where
  "json_of_i64 n = JNumber (if sint n < 0 then JnNegInt n else JnPosInt n)"

definition json_of_f64 :: "f64 \<Rightarrow> json" where
  "json_of_f64 f = (if f64_is_finite f then JNumber (JnFloat f) else JNull)"

fun json_number_as_i64 :: "json_number \<Rightarrow> i64 option" where
  "json_number_as_i64 (JnPosInt n) = (if uint n < 2 ^ 63 then Some n else None)"
| "json_number_as_i64 (JnNegInt n) = Some n"
| "json_number_as_i64 (JnFloat f) = None"

fun json_number_as_f64 :: "json_number \<Rightarrow> f64" where
  "json_number_as_f64 (JnPosInt n) = (if n = 0 then F_Zero False else round64 (of_int (uint n)))"
| "json_number_as_f64 (JnNegInt n) = f64_of_i64 n"
| "json_number_as_f64 (JnFloat f) = f"

text \<open>The text of an interval, \<open>json!({"start": .., "end": ..})\<close>.\<close>

definition interval_json :: "('d, 't) ext \<Rightarrow> 't temporal_interval \<Rightarrow> json" where
  "interval_json x i =
     JObject [(''start'', JString (temporal_value_to_string x (ti_start i))),
              (''end'', JString (temporal_value_to_string x (ti_end i)))]"

primrec value_to_json :: "('d, 't) ext \<Rightarrow> ('d, 't) val \<Rightarrow> json" where
  "value_to_json x (VInteger n) = json_of_i64 n"
| "value_to_json x (VFloat n) = json_of_f64 n"
| "value_to_json x (VDecimal n) = JString (dec_to_string x n)"
| "value_to_json x (VString s) = JString s"
| "value_to_json x (VBoolean b) = JBool b"
| "value_to_json x (VInstant dt) = JString (fmt_instant x dt)"
| "value_to_json x (VDate d) = JString (fmt_date x d)"
| "value_to_json x (VTime t) = JString (fmt_time x t)"
| "value_to_json x (VDuration d) = JString (format_duration x d)"
| "value_to_json x (VInterval i) = interval_json x i"
| "value_to_json x VNull = JNull"
| "value_to_json x (VList items) = JArray (map (value_to_json x) items)"
| "value_to_json x (VMap m) = JObject (index_map_of (map (map_prod id (value_to_json x)) m))"
| "value_to_json x (VRelationalRecord _ m) = JObject (index_map_of (map (map_prod id (value_to_json x)) m))"
| "value_to_json x (VTask name _ _ _ _ _ _) = JObject [(''task'', JString name)]"
| "value_to_json x (VDbTable _) = JNull"
| "value_to_json x (VRelationHandle _) = JNull"
| "value_to_json x (VQueryBuilder _) = JNull"
| "value_to_json x (VDocCollection _) = JNull"
| "value_to_json x (VDocQueryBuilder _) = JNull"
| "value_to_json x (VNamespace _) = JNull"

subsection \<open>Direct serialisation\<close>

record 'o serializer =
  serialize_i64 :: "i64 \<Rightarrow> 'o"
  serialize_u64 :: "64 word \<Rightarrow> 'o"
  serialize_f64 :: "f64 \<Rightarrow> 'o"
  serialize_str :: "string \<Rightarrow> 'o"
  serialize_bool :: "bool \<Rightarrow> 'o"
  serialize_none :: 'o
  serialize_unit :: 'o
  serialize_seq :: "'o list \<Rightarrow> 'o"
  serialize_map :: "(string \<times> 'o) list \<Rightarrow> 'o"

primrec serialize_value :: "'o serializer \<Rightarrow> ('d, 't) ext \<Rightarrow> ('d, 't) val \<Rightarrow> 'o" where
  "serialize_value z x (VInteger n) = serialize_i64 z n"
| "serialize_value z x (VFloat n) = (if f64_is_finite n then serialize_f64 z n else serialize_none z)"
| "serialize_value z x (VDecimal n) = serialize_str z (dec_to_string x n)"
| "serialize_value z x (VString s) = serialize_str z s"
| "serialize_value z x (VBoolean b) = serialize_bool z b"
| "serialize_value z x (VInstant dt) = serialize_str z (fmt_instant x dt)"
| "serialize_value z x (VDate d) = serialize_str z (fmt_date x d)"
| "serialize_value z x (VTime t) = serialize_str z (fmt_time x t)"
| "serialize_value z x (VDuration d) = serialize_str z (format_duration x d)"
| "serialize_value z x (VInterval i) =
     serialize_map z [(''start'', serialize_str z (temporal_value_to_string x (ti_start i))),
                      (''end'', serialize_str z (temporal_value_to_string x (ti_end i)))]"
| "serialize_value z x VNull = serialize_none z"
| "serialize_value z x (VList items) = serialize_seq z (map (serialize_value z x) items)"
| "serialize_value z x (VMap m) = serialize_map z (map (map_prod id (serialize_value z x)) m)"
| "serialize_value z x (VRelationalRecord _ m) = serialize_map z (map (map_prod id (serialize_value z x)) m)"
| "serialize_value z x (VTask name _ _ _ _ _ _) = serialize_map z [(''task'', serialize_str z name)]"
| "serialize_value z x (VDbTable _) = serialize_none z"
| "serialize_value z x (VRelationHandle _) = serialize_none z"
| "serialize_value z x (VQueryBuilder _) = serialize_none z"
| "serialize_value z x (VDocCollection _) = serialize_none z"
| "serialize_value z x (VDocQueryBuilder _) = serialize_none z"
| "serialize_value z x (VNamespace _) = serialize_none z"

fun number_text :: "'o serializer \<Rightarrow> json_number \<Rightarrow> 'o" where
  "number_text z (JnPosInt n) = serialize_u64 z n"
| "number_text z (JnNegInt n) = serialize_i64 z n"
| "number_text z (JnFloat f) = serialize_f64 z f"

primrec json_text :: "'o serializer \<Rightarrow> json \<Rightarrow> 'o" where
  "json_text z JNull = serialize_unit z"
| "json_text z (JBool b) = serialize_bool z b"
| "json_text z (JNumber n) = number_text z n"
| "json_text z (JString s) = serialize_str z s"
| "json_text z (JArray items) = serialize_seq z (map (json_text z) items)"
| "json_text z (JObject m) = serialize_map z (map (map_prod id (json_text z)) m)"

text \<open>What the serialiser of \<open>serde_json\<close> documents: the text of a nonnegative integer does not depend on its Rust
  type, and \<open>None\<close> and the unit are both written as null.\<close>

definition json_texts_agree :: "'o serializer \<Rightarrow> bool" where
  "json_texts_agree z \<longleftrightarrow> (\<forall>n. 0 \<le> sint n \<longrightarrow> serialize_u64 z n = serialize_i64 z n) \<and> serialize_unit z = serialize_none z"

text \<open>\<open>serde_json::to_string\<close> succeeds on every value, since the keys of a map are strings.\<close>

definition value_to_json_string :: "string serializer \<Rightarrow> ('d, 't) ext \<Rightarrow> ('d, 't) val \<Rightarrow> string" where
  "value_to_json_string z x v = serialize_value z x v"

subsection \<open>Strict conversion\<close>

definition strict_items :: "(string + json) list \<Rightarrow> string + json list" where
  "strict_items rs = rmap (\<lambda>r. r) rs"

definition strict_entries :: "(string \<times> (string + json)) list \<Rightarrow> string + json" where
  "strict_entries rs =
     rbind (rmap (\<lambda>(k, r). rbind r (\<lambda>j. Inr (k, j))) rs) (\<lambda>es. Inr (JObject (index_map_of es)))"

definition cannot_serialize :: "('d, 't) val \<Rightarrow> string + json" where
  "cannot_serialize v = Inl (''json values cannot serialize '' @ type_name v)"

primrec value_to_json_strict :: "('d, 't) ext \<Rightarrow> ('d, 't) val \<Rightarrow> string + json" where
  "value_to_json_strict x (VInteger n) = Inr (json_of_i64 n)"
| "value_to_json_strict x (VFloat n) = Inr (json_of_f64 n)"
| "value_to_json_strict x (VDecimal n) = Inr (JString (dec_to_string x n))"
| "value_to_json_strict x (VString s) = Inr (JString s)"
| "value_to_json_strict x (VBoolean b) = Inr (JBool b)"
| "value_to_json_strict x (VInstant dt) = Inr (JString (fmt_instant x dt))"
| "value_to_json_strict x (VDate d) = Inr (JString (fmt_date x d))"
| "value_to_json_strict x (VTime t) = Inr (JString (fmt_time x t))"
| "value_to_json_strict x (VDuration d) = Inr (JString (format_duration x d))"
| "value_to_json_strict x (VInterval i) = Inr (interval_json x i)"
| "value_to_json_strict x VNull = Inr JNull"
| "value_to_json_strict x (VList items) =
     rbind (strict_items (map (value_to_json_strict x) items)) (\<lambda>js. Inr (JArray js))"
| "value_to_json_strict x (VMap m) = strict_entries (map (map_prod id (value_to_json_strict x)) m)"
| "value_to_json_strict x (VRelationalRecord _ m) = strict_entries (map (map_prod id (value_to_json_strict x)) m)"
| "value_to_json_strict x (VTask a b c d e f g) = cannot_serialize (VTask a b c d e f g :: ('d, 't) val)"
| "value_to_json_strict x (VDbTable t) = cannot_serialize (VDbTable t :: ('d, 't) val)"
| "value_to_json_strict x (VRelationHandle h) = cannot_serialize (VRelationHandle h :: ('d, 't) val)"
| "value_to_json_strict x (VQueryBuilder q) = cannot_serialize (VQueryBuilder q :: ('d, 't) val)"
| "value_to_json_strict x (VDocCollection c) = cannot_serialize (VDocCollection c :: ('d, 't) val)"
| "value_to_json_strict x (VDocQueryBuilder q) = cannot_serialize (VDocQueryBuilder q :: ('d, 't) val)"
| "value_to_json_strict x (VNamespace ns) = cannot_serialize (VNamespace ns :: ('d, 't) val)"

primrec json_to_value :: "json \<Rightarrow> ('d, 't) val" where
  "json_to_value JNull = VNull"
| "json_to_value (JBool b) = VBoolean b"
| "json_to_value (JNumber n) =
     (case json_number_as_i64 n of Some i \<Rightarrow> VInteger i | None \<Rightarrow> VFloat (json_number_as_f64 n))"
| "json_to_value (JString s) = VString s"
| "json_to_value (JArray items) = VList (map json_to_value items)"
| "json_to_value (JObject m) = VMap (index_map_of (map (map_prod id json_to_value) m))"

subsection \<open>Laws\<close>

text \<open>The values that JSON can hold exactly: numbers but for floats that are not finite, strings, booleans,
  null, and lists and maps of them.\<close>

primrec json_data :: "('d, 't) val \<Rightarrow> bool" where
  "json_data (VInteger _) = True"
| "json_data (VFloat f) = f64_is_finite f"
| "json_data (VDecimal _) = False"
| "json_data (VString _) = True"
| "json_data (VBoolean _) = True"
| "json_data (VInstant _) = False"
| "json_data (VDate _) = False"
| "json_data (VTime _) = False"
| "json_data (VDuration _) = False"
| "json_data (VInterval _) = False"
| "json_data VNull = True"
| "json_data (VList l) = list_all id (map json_data l)"
| "json_data (VMap m) = list_all snd (map (map_prod id json_data) m)"
| "json_data (VRelationalRecord _ _) = False"
| "json_data (VTask _ _ _ _ _ _ _) = False"
| "json_data (VDbTable _) = False"
| "json_data (VRelationHandle _) = False"
| "json_data (VQueryBuilder _) = False"
| "json_data (VDocCollection _) = False"
| "json_data (VDocQueryBuilder _) = False"
| "json_data (VNamespace _) = False"

text \<open>The values the namespace \<open>json\<close> accepts: everything but tasks, queries and namespaces, at any depth.\<close>

primrec serializable :: "('d, 't) val \<Rightarrow> bool" where
  "serializable (VInteger _) = True"
| "serializable (VFloat _) = True"
| "serializable (VDecimal _) = True"
| "serializable (VString _) = True"
| "serializable (VBoolean _) = True"
| "serializable (VInstant _) = True"
| "serializable (VDate _) = True"
| "serializable (VTime _) = True"
| "serializable (VDuration _) = True"
| "serializable (VInterval _) = True"
| "serializable VNull = True"
| "serializable (VList l) = list_all id (map serializable l)"
| "serializable (VMap m) = list_all snd (map (map_prod id serializable) m)"
| "serializable (VRelationalRecord _ m) = list_all snd (map (map_prod id serializable) m)"
| "serializable (VTask _ _ _ _ _ _ _) = False"
| "serializable (VDbTable _) = False"
| "serializable (VRelationHandle _) = False"
| "serializable (VQueryBuilder _) = False"
| "serializable (VDocCollection _) = False"
| "serializable (VDocQueryBuilder _) = False"
| "serializable (VNamespace _) = False"

lemma map_prod_id_cong: "(\<And>k v. (k, v) \<in> set m \<Longrightarrow> f v = g v) \<Longrightarrow> map (map_prod id f) m = map (map_prod id g) m"
  by (auto simp: map_prod_def)

lemma serialize_value_tree:
  assumes "json_texts_agree z" and "wf_val v"
  shows "serialize_value z x v = json_text z (value_to_json x v)"
  using assms(2)
proof (induction v)
  case (VInteger n)
  then show ?case using assms(1) by (simp add: json_of_i64_def json_texts_agree_def)
next
  case (VFloat f)
  then show ?case using assms(1) by (simp add: json_of_f64_def json_texts_agree_def)
next
  case (VInterval i)
  then show ?case by (simp add: interval_json_def)
next
  case (VList l)
  then show ?case by (simp add: list_all_iff cong: map_cong)
next
  case (VMap m)
  then have "map (map_prod id (serialize_value z x)) m = map (map_prod id (json_text z) \<circ> map_prod id (value_to_json x)) m"
    by (force simp: list_all_iff)
  with VMap.prems show ?case by (simp add: index_map_of_distinct comp_def del: map_eq_conv)
next
  case (VRelationalRecord n m)
  then have "map (map_prod id (serialize_value z x)) m = map (map_prod id (json_text z) \<circ> map_prod id (value_to_json x)) m"
    by (force simp: list_all_iff)
  with VRelationalRecord.prems show ?case by (simp add: index_map_of_distinct comp_def del: map_eq_conv)
qed (use assms(1) in \<open>simp_all add: json_texts_agree_def\<close>)

lemma json_number_i64: "json_to_value (json_of_i64 n) = (VInteger n :: ('d, 't) val)"
proof -
  have "uint n < 2 ^ 63" if "0 \<le> sint n"
    using that sint_less [of n] by (simp add: uint_sint take_bit_int_eq_self)
  then show ?thesis by (simp add: json_of_i64_def)
qed

text \<open>What JSON keeps.\<close>

lemma json_to_value_same:
  fixes v :: "('d, 't) val"
  shows "wf_val v \<Longrightarrow> json_to_value (value_to_json x v) = v \<longleftrightarrow> json_data v"
proof (induction v)
  case (VFloat f)
  then show ?case by (simp add: json_of_f64_def)
next
  case (VInterval i)
  then show ?case by (simp add: interval_json_def)
next
  case (VList l)
  have "map (\<lambda>v. json_to_value (value_to_json x v)) l = l \<longleftrightarrow> (\<forall>v \<in> set l. json_to_value (value_to_json x v) = v)"
    by (induction l) auto
  with VList show ?case by (auto simp: list_all_iff comp_def)
next
  case (VMap m)
  have "map (\<lambda>kv. (fst kv, json_to_value (value_to_json x (snd kv)))) m = m \<longleftrightarrow>
      (\<forall>kv \<in> set m. json_to_value (value_to_json x (snd kv)) = (snd kv :: ('d, 't) val))"
    by (induction m) auto
  moreover have "json_to_value (value_to_json x (snd kv)) = snd kv \<longleftrightarrow> json_data (snd kv)" if "kv \<in> set m" for kv
    using VMap that by (cases kv) (force simp: list_all_iff)
  ultimately show ?case
    using VMap.prems by (auto simp: index_map_of_distinct comp_def map_prod_def split_beta list_all_iff)
qed (simp_all add: json_number_i64)

lemma json_to_value_stable: "wf_val v \<Longrightarrow> json_data (json_to_value (value_to_json x v)) \<and> wf_val (json_to_value (value_to_json x v))"
proof (induction v)
  case (VInteger n)
  then show ?case by (simp add: json_number_i64)
next
  case (VFloat f)
  then show ?case by (simp add: json_of_f64_def)
next
  case (VInterval i)
  then show ?case by (simp add: interval_json_def index_map_of_distinct)
next
  case (VList l)
  then show ?case by (auto simp: list_all_iff)
next
  case (VMap m)
  then show ?case by (force simp: index_map_of_distinct comp_def map_prod_def split_beta list_all_iff)
next
  case (VRelationalRecord n m)
  then show ?case by (force simp: index_map_of_distinct comp_def map_prod_def split_beta list_all_iff)
qed (simp_all add: index_map_of_distinct)

text \<open>The strict conversion succeeds exactly on the serializable values, and then it agrees with the
  lenient one.\<close>

definition strict_agrees :: "('d, 't) ext \<Rightarrow> ('d, 't) val \<Rightarrow> bool" where
  "strict_agrees x v \<longleftrightarrow>
     (if serializable v then value_to_json_strict x v = Inr (value_to_json x v)
      else \<exists>e. value_to_json_strict x v = Inl e)"

lemma rmap_strict:
  assumes "\<And>v. v \<in> set l \<Longrightarrow> ok v \<Longrightarrow> f v = Inr (g v)" and "\<And>v. v \<in> set l \<Longrightarrow> \<not> ok v \<Longrightarrow> \<exists>e. f v = Inl e"
  shows "list_all ok l \<Longrightarrow> rmap f l = Inr (map g l)" and "\<not> list_all ok l \<Longrightarrow> \<exists>e. rmap f l = Inl e"
  using assms
proof (induction l)
  case (Cons a l)
  { case 1
    with Cons.IH(1) show ?case by auto
  next
    case 2
    show ?case
    proof (cases "ok a")
      case True
      with 2 Cons.IH(2) show ?thesis by auto
    next
      case False
      with 2(3) [of a] show ?thesis by auto
    qed }
qed simp_all

lemma strict_entries_agree:
  assumes "distinct (map fst m)" and "\<And>k v. (k, v) \<in> set m \<Longrightarrow> strict_agrees x v"
  shows "list_all (\<lambda>(k, v). serializable v) m \<Longrightarrow>
           strict_entries (map (map_prod id (value_to_json_strict x)) m) =
             Inr (JObject (index_map_of (map (map_prod id (value_to_json x)) m)))"
    and "\<not> list_all (\<lambda>(k, v). serializable v) m \<Longrightarrow>
           \<exists>e. strict_entries (map (map_prod id (value_to_json_strict x)) m) = Inl e"
proof -
  let ?f = "\<lambda>(k, v). rbind (value_to_json_strict x v) (\<lambda>j. Inr (k, j))"
  have f: "rmap (\<lambda>(k, r). rbind r (\<lambda>j. Inr (k, j))) (map (map_prod id (value_to_json_strict x)) l) = rmap ?f l" for l
    by (induction l) auto
  have ok: "v \<in> set m \<Longrightarrow> (case v of (k, v) \<Rightarrow> serializable v) \<Longrightarrow> ?f v = Inr (map_prod id (value_to_json x) v)" for v
    using assms(2) by (force simp: strict_agrees_def)
  have ko: "v \<in> set m \<Longrightarrow> \<not> (case v of (k, v) \<Rightarrow> serializable v) \<Longrightarrow> \<exists>e. ?f v = Inl e" for v
    using assms(2) [of "fst v" "snd v"] by (auto simp: strict_agrees_def split_beta)
  show "list_all (\<lambda>(k, v). serializable v) m \<Longrightarrow>
           strict_entries (map (map_prod id (value_to_json_strict x)) m) =
             Inr (JObject (index_map_of (map (map_prod id (value_to_json x)) m)))"
    unfolding strict_entries_def f using rmap_strict(1) [where l = m and ok = "\<lambda>(k, v). serializable v" and f = ?f and g = "map_prod id (value_to_json x)", OF ok ko] by simp
  show "\<not> list_all (\<lambda>(k, v). serializable v) m \<Longrightarrow>
           \<exists>e. strict_entries (map (map_prod id (value_to_json_strict x)) m) = Inl e"
    unfolding strict_entries_def f using rmap_strict(2) [where l = m and ok = "\<lambda>(k, v). serializable v" and f = ?f and g = "map_prod id (value_to_json x)", OF ok ko]
    by (metis (lifting) rbind_simps(1))
qed

lemma rmap_map: "rmap f (map g xs) = rmap (\<lambda>a. f (g a)) xs"
  by (induction xs) auto

lemma list_all_map_prod: "list_all snd (map (map_prod id p) m) = list_all (\<lambda>(k, v). p v) m"
  by (induction m) auto

lemma strict_agrees_all: "wf_val v \<Longrightarrow> strict_agrees x v"
proof (induction v)
  case (VList l)
  then have "strict_agrees x v" if "v \<in> set l" for v using that by (simp add: list_all_iff)
  then show ?case
    using rmap_strict [where l = l and ok = serializable and f = "value_to_json_strict x" and g = "value_to_json x"]
    by (force simp: strict_agrees_def strict_items_def rmap_map list_all_iff)
next
  case (VMap m)
  then have "strict_agrees x v" if "(k, v) \<in> set m" for k v using that by (force simp: list_all_iff)
  with VMap.prems show ?case using strict_entries_agree [where m = m and x = x]
    by (auto simp: strict_agrees_def [of x "VMap m"] list_all_map_prod)
next
  case (VRelationalRecord n m)
  then have "strict_agrees x v" if "(k, v) \<in> set m" for k v using that by (force simp: list_all_iff)
  with VRelationalRecord.prems show ?case using strict_entries_agree [where m = m and x = x]
    by (auto simp: strict_agrees_def [of x "VRelationalRecord n m"] list_all_map_prod)
qed (simp_all add: strict_agrees_def cannot_serialize_def)

lemma json_data_serializable: "json_data v \<Longrightarrow> serializable v"
  by (induction v) (force simp: list_all_iff)+

text \<open>The serialiser that builds the tree itself.\<close>

definition tree_serializer :: "json serializer" where
  "tree_serializer = \<lparr>serialize_i64 = json_of_i64, serialize_u64 = (\<lambda>n. JNumber (JnPosInt n)),
     serialize_f64 = (\<lambda>f. JNumber (JnFloat f)), serialize_str = JString, serialize_bool = JBool,
     serialize_none = JNull, serialize_unit = JNull, serialize_seq = JArray, serialize_map = JObject\<rparr>"

lemma tree_serializer_agrees: "json_texts_agree tree_serializer"
  by (simp add: json_texts_agree_def tree_serializer_def json_of_i64_def)

text \<open>C37: a value comes back from JSON as it was exactly when it is made of integers, finite floats, strings, booleans,
  null, lists and maps, and the strict conversion of the namespace \<open>json\<close> then accepts it with the same tree. A decimal
  comes back as the string of its digits and a float that is not finite as null. Whatever comes back
  survives every further trip unchanged.\<close>

theorem json_roundtrip:
  fixes v :: "('d, 't) val"
  assumes "wf_val v"
  shows "(json_to_value (value_to_json x v) = v \<longleftrightarrow> json_data v) \<and>
    (json_data v \<longrightarrow> value_to_json_strict x v = Inr (value_to_json x v)) \<and>
    (\<forall>d. v = VDecimal d \<longrightarrow> json_to_value (value_to_json x v) = (VString (dec_to_string x d) :: ('d, 't) val)) \<and>
    (\<forall>f. v = VFloat f \<longrightarrow> \<not> f64_is_finite f \<longrightarrow> json_to_value (value_to_json x v) = (VNull :: ('d, 't) val)) \<and>
    json_to_value (value_to_json x (json_to_value (value_to_json x v) :: ('d, 't) val)) = (json_to_value (value_to_json x v) :: ('d, 't) val)"
  using strict_agrees_all [OF assms, of x] json_data_serializable [of v] json_to_value_same [OF assms, of x]
    json_to_value_stable [OF assms, of x] json_to_value_same [of "json_to_value (value_to_json x v)" x]
  by (auto simp: strict_agrees_def json_of_f64_def)

theorem json_roundtrip_witness:
  "json_to_value (value_to_json rat_ext (VMap [(''a'', VList [VInteger (- 1), VNull]), (''b'', VFloat (F_Num 1))])) =
     (VMap [(''a'', VList [VInteger (- 1), VNull]), (''b'', VFloat (F_Num 1))] :: (rat, int) val) \<and>
   json_to_value (value_to_json rat_ext (VDecimal 2)) \<noteq> (VDecimal 2 :: (rat, int) val)"
  using json_roundtrip [of "VMap [(''a'', VList [VInteger (- 1), VNull]), (''b'', VFloat (F_Num 1))]" rat_ext]
    json_roundtrip [of "VDecimal 2" rat_ext]
  by simp

text \<open>C38: the direct serialiser of HTTP responses writes what serialising the JSON tree would write, with
  any serialiser that does not distinguish the type of a nonnegative integer nor none from unit; and the strict conversion
  fails exactly on values that hold a task, a query or a namespace somewhere.\<close>

theorem serialization_parity:
  assumes "wf_val v" and "json_texts_agree z"
  shows "serialize_value z x v = json_text z (value_to_json x v) \<and>
         (if serializable v then value_to_json_strict x v = Inr (value_to_json x v)
          else \<exists>e. value_to_json_strict x v = Inl e)"
  using serialize_value_tree [OF assms(2,1)] strict_agrees_all [OF assms(1)] by (simp add: strict_agrees_def)

theorem serialization_parity_witness:
  "serialize_value tree_serializer rat_ext (VList [VFloat F_NaN, VInteger 3, VTask ''t'' [] (TbInline ENull) None None 1 1]) =
     json_text tree_serializer
       (value_to_json rat_ext (VList [VFloat F_NaN, VInteger 3, VTask ''t'' [] (TbInline ENull) None None 1 1]))"
  using serialization_parity [OF _ tree_serializer_agrees,
      of "VList [VFloat F_NaN, VInteger 3, VTask ''t'' [] (TbInline ENull) None None 1 1]" rat_ext]
  by simp

end
