(* ===== verification/Error_Text.thy ===== *)
theory Error_Text
  imports Marreta_Error F64_Text
begin

text \<open>
  \<^verbatim>\<open>src/src/error.rs\<close>, second part: the \<open>Display\<close> text of an error and the message a rescue handler
  reads. The argument \<open>dbg\<close> stands for the derived \<open>Debug\<close> text of a token kind, which the parser puts
  into the expectation of its errors.
\<close>

definition single_quoted :: "string \<Rightarrow> string" where
  "single_quoted s = [CHR 0x27] @ s @ [CHR 0x27]"

definition error_at :: "nat \<Rightarrow> nat \<Rightarrow> string \<Rightarrow> string" where
  "error_at line column msg = ''Error at '' @ nat_to_string line @ '':'' @ nat_to_string column @ '': '' @ msg"

definition reserved_word_role :: "string \<Rightarrow> string option" where
  "reserved_word_role word = map_of
     [(''doc'', ''the document database namespace''),
      (''feature'', ''the feature-flag namespace''),
      (''env'', ''the environment accessor''),
      (''db'', ''the database namespace''),
      (''queue'', ''the queue namespace''),
      (''topic'', ''the topic namespace''),
      (''cache'', ''the cache namespace''),
      (''fs'', ''the filesystem namespace''),
      (''json'', ''the JSON namespace''),
      (''base64'', ''the base64 namespace''),
      (''uuid'', ''the UUID namespace''),
      (''log'', ''the log namespace''),
      (''time'', ''the time namespace''),
      (''math'', ''the math namespace''),
      (''http_client'', ''the HTTP client namespace'')] word"

definition reserved_word_message :: "string \<Rightarrow> string" where
  "reserved_word_message word =
     (case reserved_word_role word of
        Some role \<Rightarrow> single_quoted word @ '' is a reserved word ('' @ role @ ''); rename the variable.''
      | None \<Rightarrow> single_quoted word @ '' is a reserved word; rename the variable.'')"

fun expectation_text :: "(token_kind \<Rightarrow> string) \<Rightarrow> expectation \<Rightarrow> string" where
  "expectation_text dbg (Expected s) = s"
| "expectation_text dbg (ExpectedKind k) = dbg k"

definition arity_text :: "string \<Rightarrow> nat \<Rightarrow> nat \<Rightarrow> string" where
  "arity_text name expected got =
     ''task '' @ single_quoted name @ '' expects '' @ nat_to_string expected @ '' argument(s), got '' @ nat_to_string got"

definition bool_text :: "bool \<Rightarrow> string" where
  "bool_text b = (if b then ''true'' else ''false'')"

definition error_display :: "(token_kind \<Rightarrow> string) \<Rightarrow> marreta_error \<Rightarrow> string" where
  "error_display dbg e =
     (case e of
        UnexpectedCharacter c line column \<Rightarrow> error_at line column (''unexpected character '' @ single_quoted [c])
      | UnterminatedString line column \<Rightarrow> error_at line column ''unterminated string literal''
      | InvalidIndentation line expected got \<Rightarrow>
          ''Error at line '' @ nat_to_string line @ '': invalid indentation (expected '' @ nat_to_string expected @
          '' spaces, got '' @ nat_to_string got @ '')''
      | UnexpectedIndentation line \<Rightarrow>
          ''Error at line '' @ nat_to_string line @
          '': invalid indentation (this line is indented deeper than expected)''
      | InvalidNumber lexeme line column \<Rightarrow> error_at line column (''invalid number '' @ single_quoted lexeme)
      | UnexpectedToken expected lexeme line column \<Rightarrow>
          error_at line column (''expected '' @ expectation_text dbg expected @ '', got '' @ single_quoted lexeme)
      | UnexpectedEndOfInput expected \<Rightarrow>
          ''Error: unexpected end of input, expected '' @ expectation_text dbg expected
      | ReservedWord word line column \<Rightarrow> error_at line column (reserved_word_message word)
      | UndefinedVariable name line column \<Rightarrow>
          error_at line column (''variable '' @ single_quoted name @ '' is not defined'')
      | UndefinedTask name line column \<Rightarrow>
          error_at line column (''task '' @ single_quoted name @ '' is not defined'')
      | TypeError message line column \<Rightarrow> error_at line column message
      | DivisionByZero line column \<Rightarrow> error_at line column ''division by zero''
      | WrongArity name expected got line column \<Rightarrow> error_at line column (arity_text name expected got)
      | NotCallable name line column \<Rightarrow> error_at line column (single_quoted name @ '' is not callable'')
      | RuntimeError message line column \<Rightarrow> error_at line column message
      | PropertyNotFound object_type property line column \<Rightarrow>
          error_at line column (''property '' @ single_quoted property @ '' not found on '' @ object_type)
      | HttpError status message \<Rightarrow> ''HTTP '' @ i64_display status @ '': '' @ message
      | HttpResponse status body content_type headers is_error \<Rightarrow>
          (if is_error then ''HTTP error '' @ digits_text (uint status)
           else ''HTTP response '' @ digits_text (uint status) @ '' ('' @ content_type @ '')'')
      | RouteConflict verb path_a path_b line column \<Rightarrow>
          error_at line column (''route conflict '' @ em_dash @ '' '' @ verb @ '' '' @ [CHR 0x22] @ path_a @ [CHR 0x22] @
            '' and '' @ verb @ '' '' @ [CHR 0x22] @ path_b @ [CHR 0x22] @
            '' match the same URL pattern.'' @ [CHR 0x0A] @
            ''  Use distinct path segments or different HTTP verbs.'')
      | ExportConflict name file_a file_b \<Rightarrow>
          ''Export conflict: '' @ single_quoted name @ '' is already exported by '' @ single_quoted file_a @
          '', redeclared in '' @ single_quoted file_b
      | IncompatibleRuntime required actual \<Rightarrow>
          ''this project requires marreta runtime '' @ required @ '', but you are running '' @ actual
      | CircularSchemaReference cycle \<Rightarrow>
          ''Circular schema reference detected: '' @ cycle @ ''. The server cannot start.''
      | InvalidSchemaDefinition name message \<Rightarrow> ''Invalid schema '' @ single_quoted name @ '': '' @ message
      | InvalidPersistentSchemaReference name field target \<Rightarrow>
          ''Persistent schema '' @ single_quoted name @ '' field '' @ single_quoted field @
          '' references non-persistent schema '' @ single_quoted target
      | InvalidPersistentSchemaDefinition name message \<Rightarrow>
          ''Invalid persistent schema '' @ single_quoted name @ '': '' @ message
      | RaiseError message \<Rightarrow> ''raise: '' @ message
      | DbError message op \<Rightarrow> ''database error: '' @ message
      | UniqueConstraintViolation message op \<Rightarrow> ''unique constraint violation: '' @ message
      | DbIdentifierError code message \<Rightarrow> message
      | NackSignal requeue \<Rightarrow> ''nack(requeue='' @ bool_text requeue @ '')''
      | QueueError message op \<Rightarrow> ''queue error: '' @ message
      | CacheError message op \<Rightarrow> ''cache error: '' @ message
      | HttpClientError message op \<Rightarrow> ''http client error: '' @ message
      | FileNotFound path \<Rightarrow> ''Error: file not found '' @ single_quoted path
      | IoError message \<Rightarrow> ''Error: '' @ message)"

definition display_message :: "(token_kind \<Rightarrow> string) \<Rightarrow> marreta_error \<Rightarrow> string" where
  "display_message dbg e =
     (case e of
        RaiseError message \<Rightarrow> message
      | DbError message op \<Rightarrow> message
      | UniqueConstraintViolation message op \<Rightarrow> message
      | DbIdentifierError code message \<Rightarrow> message
      | NackSignal requeue \<Rightarrow> ''nack(requeue='' @ bool_text requeue @ '')''
      | QueueError message op \<Rightarrow> message
      | CacheError message op \<Rightarrow> message
      | HttpClientError message op \<Rightarrow> message
      | TypeError message line column \<Rightarrow> message
      | RuntimeError message line column \<Rightarrow> message
      | UndefinedVariable name line column \<Rightarrow> ''variable '' @ single_quoted name @ '' is not defined''
      | UndefinedTask name line column \<Rightarrow> ''task '' @ single_quoted name @ '' is not defined''
      | DivisionByZero line column \<Rightarrow> ''division by zero''
      | WrongArity name expected got line column \<Rightarrow> arity_text name expected got
      | PropertyNotFound object_type property line column \<Rightarrow>
          ''property '' @ single_quoted property @ '' not found on '' @ object_type
      | NotCallable name line column \<Rightarrow>
          single_quoted name @ '' is not callable '' @ em_dash @ '' expected a task''
      | HttpError status message \<Rightarrow> message
      | FileNotFound path \<Rightarrow> ''file not found: '' @ path
      | IoError message \<Rightarrow> message
      | RouteConflict verb path_a path_b line column \<Rightarrow> ''route conflict: '' @ path_a
      | ExportConflict name file_a file_b \<Rightarrow>
          ''export conflict: '' @ single_quoted name @ '' defined more than once''
      | CircularSchemaReference cycle \<Rightarrow> ''circular schema reference involving '' @ single_quoted cycle
      | InvalidSchemaDefinition name message \<Rightarrow> ''invalid schema '' @ single_quoted name @ '': '' @ message
      | InvalidPersistentSchemaReference name field target \<Rightarrow>
          ''persistent schema '' @ single_quoted name @ '' field '' @ single_quoted field @
          '' references non-persistent schema '' @ single_quoted target
      | InvalidPersistentSchemaDefinition name message \<Rightarrow>
          ''invalid persistent schema '' @ single_quoted name @ '': '' @ message
      | UnexpectedToken expected lexeme line column \<Rightarrow>
          ''unexpected token '' @ single_quoted lexeme @ '', expected '' @ expectation_text dbg expected
      | UnexpectedCharacter c line column \<Rightarrow> ''unexpected character '' @ single_quoted [c]
      | UnterminatedString line column \<Rightarrow> ''unterminated string literal''
      | InvalidIndentation line expected got \<Rightarrow> ''invalid indentation''
      | UnexpectedIndentation line \<Rightarrow> ''invalid indentation''
      | InvalidNumber lexeme line column \<Rightarrow> ''invalid number literal: '' @ lexeme
      | UnexpectedEndOfInput expected \<Rightarrow>
          ''unexpected end of input, expected '' @ expectation_text dbg expected
      | ReservedWord word line column \<Rightarrow> reserved_word_message word
      | _ \<Rightarrow> error_display dbg e)"

end
