(* ===== verification/Interp_State.thy ===== *)
theory Interp_State
  imports Json Error_Text Environment Query_Builder Feature_Flags Trace_Context Front_End Operators
begin

text \<open>
  The state of the interpreter, \<^verbatim>\<open>src/src/interpreter.rs\<close>, with the runtime of a project
  (\<^verbatim>\<open>src/src/file_loader.rs\<close>) and the driver traits it calls.

  \<^item> The drivers (\<^verbatim>\<open>db/driver.rs\<close>, \<^verbatim>\<open>doc/mongodb.rs\<close>, \<^verbatim>\<open>cache/driver.rs\<close>, \<^verbatim>\<open>queue/driver.rs\<close>,
    \<^verbatim>\<open>http_client/driver.rs\<close>) are records of functions over a world \<open>'w\<close> that stands for everything
    outside the process. An operation of \<open>db_driver\<close> takes the transaction it runs in, or \<open>None\<close> for the
    operation of the same name on the connection pool; the state of a transaction is in the world.
  \<^item> The record \<open>lib\<close> holds the code outside the repository that the interpreter calls: JSON text,
    \<open>chrono\<close>, \<open>base64\<close>, \<open>uuid\<close>, the file system, standard output and the derived \<open>Debug\<close> texts.
  \<^item> \<open>interp\<close> is the struct \<open>Interpreter\<close>, with the world as one more field. The cell \<open>active_tx\<close> is shared
    between an interpreter and its forks but not with its clones: a fork hands its content back
    (\<open>cross_module_call\<close>), a clone starts with an empty one (\<open>clone_branch\<close>). The profiling fields are left
    out: they only measure time.
  \<^item> The branches of a broadcast run concurrently and share the world. How their effects interleave, with each other
    and with everything else that acts on the world, is up to the scheduler, two fields of \<open>lib\<close> about which
    nothing is assumed: \<open>branch_world i w\<close> is the world that the \<open>i\<close>-th branch meets, with the effects of others
    that its own calls will observe, and \<open>joined_world w ws\<close> the world after the branches that left
    \<open>ws\<close> behind. The world is any type, so it may hold what the drivers are going to answer.
  \<^item> A computation of the interpreter maps a state to an outcome and a state, or to \<open>None\<close> when it does
    not return. \<open>Panicked\<close> unwinds through everything.
\<close>

subsection \<open>Drivers\<close>

type_synonym 'v row = "(string \<times> 'v) list"

record ('v, 'tx, 'w) db_driver =
  db_save :: "'tx option \<Rightarrow> string \<Rightarrow> 'v row \<Rightarrow> 'w \<Rightarrow> (marreta_error + 'v row) \<times> 'w"
  db_find :: "'tx option \<Rightarrow> string \<Rightarrow> 'v \<Rightarrow> 'w \<Rightarrow> (marreta_error + 'v row option) \<times> 'w"
  db_find_all :: "'tx option \<Rightarrow> string \<Rightarrow> 'v filter_clause list \<Rightarrow> 'w \<Rightarrow> (marreta_error + 'v row list) \<times> 'w"
  db_update_by_id :: "'tx option \<Rightarrow> string \<Rightarrow> 'v \<Rightarrow> 'v row \<Rightarrow> 'w \<Rightarrow> (marreta_error + 'v row option) \<times> 'w"
  db_delete_by_id :: "'tx option \<Rightarrow> string \<Rightarrow> 'v \<Rightarrow> 'w \<Rightarrow> (marreta_error + bool) \<times> 'w"
  db_query_fetch :: "'tx option \<Rightarrow> 'v query_state \<Rightarrow> 'w \<Rightarrow> (marreta_error + 'v row list) \<times> 'w"
  db_query_fetch_one :: "'tx option \<Rightarrow> 'v query_state \<Rightarrow> 'w \<Rightarrow> (marreta_error + 'v row option) \<times> 'w"
  db_query_count :: "'tx option \<Rightarrow> 'v query_state \<Rightarrow> 'w \<Rightarrow> (marreta_error + i64) \<times> 'w"
  db_query_exists :: "'tx option \<Rightarrow> 'v query_state \<Rightarrow> 'w \<Rightarrow> (marreta_error + bool) \<times> 'w"
  db_query_update :: "'tx option \<Rightarrow> 'v query_state \<Rightarrow> 'v row \<Rightarrow> 'w \<Rightarrow> (marreta_error + 64 word) \<times> 'w"
  db_query_delete :: "'tx option \<Rightarrow> 'v query_state \<Rightarrow> 'w \<Rightarrow> (marreta_error + 64 word) \<times> 'w"
  db_native_query :: "'tx option \<Rightarrow> string \<Rightarrow> 'v list \<Rightarrow> 'w \<Rightarrow> (marreta_error + 'v row list) \<times> 'w"
  db_begin :: "'w \<Rightarrow> (marreta_error + 'tx) \<times> 'w"
  db_commit :: "'tx \<Rightarrow> 'w \<Rightarrow> (marreta_error + unit) \<times> 'w"
  db_rollback :: "'tx \<Rightarrow> 'w \<Rightarrow> (marreta_error + unit) \<times> 'w"

record ('v, 'w) doc_driver =
  doc_save :: "string \<Rightarrow> 'v row \<Rightarrow> 'w \<Rightarrow> (marreta_error + 'v row) \<times> 'w"
  doc_find :: "string \<Rightarrow> 'v \<Rightarrow> 'w \<Rightarrow> (marreta_error + 'v row option) \<times> 'w"
  doc_find_all :: "string \<Rightarrow> 'w \<Rightarrow> (marreta_error + 'v row list) \<times> 'w"
  doc_update_by_id :: "string \<Rightarrow> 'v \<Rightarrow> 'v row \<Rightarrow> 'w \<Rightarrow> (marreta_error + 'v row) \<times> 'w"
  doc_delete_by_id :: "string \<Rightarrow> 'v \<Rightarrow> 'w \<Rightarrow> (marreta_error + bool) \<times> 'w"
  doc_query_fetch :: "'v doc_query_state \<Rightarrow> 'w \<Rightarrow> (marreta_error + 'v row list) \<times> 'w"
  doc_query_fetch_one :: "'v doc_query_state \<Rightarrow> 'w \<Rightarrow> (marreta_error + 'v row option) \<times> 'w"
  doc_query_count :: "'v doc_query_state \<Rightarrow> 'w \<Rightarrow> (marreta_error + i64) \<times> 'w"
  doc_query_exists :: "'v doc_query_state \<Rightarrow> 'w \<Rightarrow> (marreta_error + bool) \<times> 'w"
  doc_query_update :: "'v doc_query_state \<Rightarrow> 'v row \<Rightarrow> 'w \<Rightarrow> (marreta_error + i64) \<times> 'w"
  doc_query_upsert :: "'v doc_query_state \<Rightarrow> 'v row \<Rightarrow> 'w \<Rightarrow> (marreta_error + i64) \<times> 'w"
  doc_query_delete :: "'v doc_query_state \<Rightarrow> 'w \<Rightarrow> (marreta_error + i64) \<times> 'w"
  doc_query_aggregate :: "'v doc_query_state \<Rightarrow> 'w \<Rightarrow> (marreta_error + 'v row list) \<times> 'w"
  doc_raw_pipeline :: "string \<Rightarrow> 'v list \<Rightarrow> 'w \<Rightarrow> (marreta_error + 'v row list) \<times> 'w"

text \<open>The errors of the other drivers are their texts; times to live are seconds.\<close>

record ('v, 'w) cache_driver =
  cache_get :: "string \<Rightarrow> 'w \<Rightarrow> (string + 'v option) \<times> 'w"
  cache_set :: "string \<Rightarrow> 'v \<Rightarrow> nat option \<Rightarrow> bool \<Rightarrow> 'w \<Rightarrow> (string + 'v option) \<times> 'w"
  cache_delete :: "string \<Rightarrow> 'w \<Rightarrow> (string + bool) \<times> 'w"
  cache_exists :: "string \<Rightarrow> 'w \<Rightarrow> (string + bool) \<times> 'w"
  cache_ttl :: "string \<Rightarrow> 'w \<Rightarrow> (string + nat option) \<times> 'w"
  cache_expire :: "string \<Rightarrow> nat \<Rightarrow> 'w \<Rightarrow> (string + bool) \<times> 'w"
  cache_incr :: "string \<Rightarrow> i64 \<Rightarrow> nat option \<Rightarrow> 'w \<Rightarrow> (string + i64) \<times> 'w"
  cache_decr :: "string \<Rightarrow> i64 \<Rightarrow> nat option \<Rightarrow> 'w \<Rightarrow> (string + i64) \<times> 'w"
  cache_get_many :: "string list \<Rightarrow> 'w \<Rightarrow> (string + (string \<times> 'v option) list) \<times> 'w"
  cache_set_many :: "(string \<times> 'v) list \<Rightarrow> nat option \<Rightarrow> 'w \<Rightarrow> (string + unit) \<times> 'w"

record 'v queue_message =
  qm_payload :: 'v
  qm_metadata :: "(string \<times> string) list"

record ('v, 'w) queue_driver =
  queue_push :: "string \<Rightarrow> 'v queue_message \<Rightarrow> 'w \<Rightarrow> (string + unit) \<times> 'w"
  queue_publish :: "string \<Rightarrow> 'v queue_message \<Rightarrow> 'w \<Rightarrow> (string + unit) \<times> 'w"

datatype http_method = HmGet | HmPost | HmPut | HmPatch | HmDelete

record 'v http_request =
  hq_method :: http_method
  hq_url :: string
  hq_body :: "'v option"
  hq_headers :: "(string \<times> string) list"
  hq_query :: "(string \<times> string) list"
  hq_timeout :: "nat option"

record 'v http_response =
  hr_status :: "16 word"
  hr_body :: 'v
  hr_headers :: "(string \<times> string) list"

record ('v, 'w) http_driver =
  http_execute :: "'v http_request \<Rightarrow> 'w \<Rightarrow> (string + 'v http_response) \<times> 'w"

subsection \<open>Code outside the repository\<close>

datatype io_failure = IoNotFound | IoOther string

record ('d, 't, 'w) lib =
  lx :: "('d, 't) ext"
  lz :: "string serializer"
  json_pretty :: "json \<Rightarrow> string"
  json_from_str :: "string \<Rightarrow> string + json"
  debug_kind :: "token_kind \<Rightarrow> string"
  debug_value :: "('d, 't) val \<Rightarrow> string"
  debug_expression :: "expression \<Rightarrow> string"
  debug_operator :: "binary_operator \<Rightarrow> string"
  env_log_level :: "string option"
  utc_now :: "'w \<Rightarrow> 't \<times> 'w"
  uuid_v4 :: "'w \<Rightarrow> string \<times> 'w"
  uuid_v7 :: "'w \<Rightarrow> string \<times> 'w"
  fill_random :: "'w entropy"
  print_line :: "string \<Rightarrow> 'w \<Rightarrow> 'w"
  write_stdout :: "string \<Rightarrow> 'w \<Rightarrow> (string + unit) \<times> 'w"
  branch_world :: "nat \<Rightarrow> 'w \<Rightarrow> 'w"
  joined_world :: "'w \<Rightarrow> 'w list \<Rightarrow> 'w"
  fs_read :: "string \<Rightarrow> 'w \<Rightarrow> (io_failure + string) \<times> 'w"
  fs_write :: "string \<Rightarrow> string \<Rightarrow> 'w \<Rightarrow> (io_failure + unit) \<times> 'w"
  fs_append :: "string \<Rightarrow> string \<Rightarrow> 'w \<Rightarrow> (io_failure + unit) \<times> 'w"
  fs_exists :: "string \<Rightarrow> 'w \<Rightarrow> bool \<times> 'w"
  fs_remove :: "string \<Rightarrow> 'w \<Rightarrow> (io_failure + unit) \<times> 'w"
  base64_encode :: "bool \<Rightarrow> string \<Rightarrow> string"
  base64_decode :: "bool \<Rightarrow> bool \<Rightarrow> string \<Rightarrow> string + 8 word list"
  utf8_decode :: "8 word list \<Rightarrow> string + string"
  local_date :: "'t \<Rightarrow> 't"
  local_time :: "'t \<Rightarrow> 't"
  date_year :: "'t \<Rightarrow> int"
  date_month :: "'t \<Rightarrow> int"
  date_day :: "'t \<Rightarrow> int"
  date_weekday :: "'t \<Rightarrow> int"
  time_hour :: "'t \<Rightarrow> int"
  time_minute :: "'t \<Rightarrow> int"
  time_second :: "'t \<Rightarrow> int"
  instant_timestamp :: "'t \<Rightarrow> i64"
  instant_from_timestamp :: "i64 \<Rightarrow> 't option"
  midnight :: 't
  last_millisecond :: 't
  temporal_le :: "'t temporal_value \<Rightarrow> 't temporal_value \<Rightarrow> bool"
  temporal_diff :: "'t temporal_value \<Rightarrow> 't temporal_value \<Rightarrow> 't"
  format_instant_mask :: "'t \<Rightarrow> string \<Rightarrow> string option"
  format_date_mask :: "'t \<Rightarrow> string \<Rightarrow> string option"
  format_time_mask :: "'t \<Rightarrow> string \<Rightarrow> string option"

text \<open>\<open>serde_json::json!({ "error": msg }).to_string()\<close>.\<close>

definition error_body :: "('d, 't, 'w) lib \<Rightarrow> string \<Rightarrow> string" where
  "error_body l msg = json_text (lz l) (JObject [(''error'', JString msg)])"

definition value_json :: "('d, 't, 'w) lib \<Rightarrow> ('d, 't) val \<Rightarrow> string" where
  "value_json l v = value_to_json_string (lz l) (lx l) v"

subsection \<open>The runtime of a project\<close>

record 'v module_runtime =
  mr_env :: "'v environment"
  mr_visible_schemas :: registry

record 'v project_runtime =
  pr_global_env :: "'v environment"
  pr_modules :: "(string \<times> 'v module_runtime) list"
  pr_public_schemas :: registry
  pr_persistent_schemas :: registry
  pr_feature_flags :: feature_flags
  pr_task_namespaces :: "(string \<times> (string \<times> 'v) list) list"
  pr_db_columns :: "(string \<times> string set) list"

definition module_task :: "'v project_runtime \<Rightarrow> string \<Rightarrow> string \<Rightarrow> 'v option" where
  "module_task rt ns task = Option.bind (map_of (pr_task_namespaces rt) ns) (\<lambda>tasks. map_of tasks task)"

definition is_module_namespace :: "'v project_runtime \<Rightarrow> string \<Rightarrow> bool" where
  "is_module_namespace rt ns \<longleftrightarrow> map_of (pr_task_namespaces rt) ns \<noteq> None"

definition env_for_module :: "'v project_runtime \<Rightarrow> string option \<Rightarrow> 'v environment" where
  "env_for_module rt module_id =
     (case Option.bind module_id (map_of (pr_modules rt)) of Some m \<Rightarrow> mr_env m | None \<Rightarrow> pr_global_env rt)"

definition visible_schemas_for :: "'v project_runtime \<Rightarrow> string option \<Rightarrow> registry" where
  "visible_schemas_for rt module_id =
     (case Option.bind module_id (map_of (pr_modules rt)) of
        Some m \<Rightarrow> mr_visible_schemas m | None \<Rightarrow> pr_public_schemas rt)"

definition runtime_resolve_schema ::
    "'v project_runtime \<Rightarrow> string option \<Rightarrow> string \<Rightarrow> schema_definition option" where
  "runtime_resolve_schema rt module_id name =
     (case Option.bind (Option.bind module_id (map_of (pr_modules rt))) (\<lambda>m. map_of (mr_visible_schemas m) name) of
        Some schema \<Rightarrow> Some schema | None \<Rightarrow> map_of (pr_public_schemas rt) name)"

definition schema_for_table :: "registry \<Rightarrow> string \<Rightarrow> (string \<times> schema_definition) option" where
  "schema_for_table schemas table = find (\<lambda>(name, schema). sd_db_table schema = Some table) schemas"

subsection \<open>The interpreter\<close>

datatype frame_label =
    FlRoute http_verb string
  | FlTask string
  | FlConsumer string string
  | FlOp string
  | FlRaw string

record marreta_frame =
  mf_label :: frame_label
  mf_source_module :: "string option"
  mf_line :: "nat option"
  mf_column :: "nat option"

record ('d, 't, 'tx, 'w) interp =
  it_env :: "('d, 't) val environment"
  it_line :: nat
  it_column :: nat
  it_call_depth :: nat
  it_max_depth :: nat
  it_module :: "string option"
  it_runtime :: "('d, 't) val project_runtime option"
  it_schemas :: "registry option"
  it_db :: "(('d, 't) val, 'tx, 'w) db_driver option"
  it_doc :: "(('d, 't) val, 'w) doc_driver option"
  it_queue :: "(('d, 't) val, 'w) queue_driver option"
  it_cache :: "(('d, 't) val, 'w) cache_driver option"
  it_default_ttl :: "nat option"
  it_http :: "(('d, 't) val, 'w) http_driver option"
  it_trace :: "trace_context option"
  it_flags :: feature_flags
  it_in_tx :: bool
  it_tx :: "'tx option"
  it_frames :: "marreta_frame list"
  it_world :: 'w

type_synonym ('d, 't, 'tx, 'w, 'a) im =
  "('d, 't, 'tx, 'w) interp \<Rightarrow> ((fault + 'a) \<times> ('d, 't, 'tx, 'w) interp) option"

end
