(* ===== verification/Interp_Monad.thy ===== *)
theory Interp_Monad
  imports Interp_State
begin

text \<open>
  The computations of the interpreter, \<^verbatim>\<open>src/src/interpreter.rs\<close>: the monad of faults and state, the
  primitive changes of the state, and the helpers that do not evaluate expressions (schema lookup,
  rows of the database, relation handles, drivers, transactions).
\<close>

subsection \<open>The monad\<close>

definition iret :: "'a \<Rightarrow> ('d, 't, 'tx, 'w, 'a) im" where
  "iret a s = Some (Inr a, s)"

definition ithrow :: "fault \<Rightarrow> ('d, 't, 'tx, 'w, 'a) im" where
  "ithrow f s = Some (Inl f, s)"

definition ilift :: "fault + 'a \<Rightarrow> ('d, 't, 'tx, 'w, 'a) im" where
  "ilift r s = Some (r, s)"

definition ibind ::
    "('d, 't, 'tx, 'w, 'a) im \<Rightarrow> ('a \<Rightarrow> ('d, 't, 'tx, 'w, 'b) im) \<Rightarrow> ('d, 't, 'tx, 'w, 'b) im" where
  "ibind m f s =
     Option.bind (m s) (\<lambda>(r, s1). case r of Inl e \<Rightarrow> Some (Inl e, s1) | Inr a \<Rightarrow> f a s1)"

abbreviation iseq ::
    "('d, 't, 'tx, 'w, unit) im \<Rightarrow> ('d, 't, 'tx, 'w, 'b) im \<Rightarrow> ('d, 't, 'tx, 'w, 'b) im" where
  "iseq m k \<equiv> ibind m (\<lambda>_. k)"

text \<open>Reading the state, \<open>self.field\<close>.\<close>

definition iask :: "(('d, 't, 'tx, 'w) interp \<Rightarrow> 'a) \<Rightarrow> ('d, 't, 'tx, 'w, 'a) im" where
  "iask g s = Some (Inr (g s), s)"

definition env_do ::
    "(('d, 't) val environment \<Rightarrow> ('d, 't) val environment) \<Rightarrow> ('d, 't, 'tx, 'w, unit) im" where
  "env_do h s = Some (Inr (), s\<lparr>it_env := h (it_env s)\<rparr>)"

definition set_position :: "nat \<Rightarrow> nat \<Rightarrow> ('d, 't, 'tx, 'w, unit) im" where
  "set_position line column s = Some (Inr (), s\<lparr>it_line := line, it_column := column\<rparr>)"

text \<open>A call that reaches the world.\<close>

definition world_do :: "('w \<Rightarrow> 'a \<times> 'w) \<Rightarrow> ('d, 't, 'tx, 'w, 'a) im" where
  "world_do h s = (let (a, w) = h (it_world s) in Some (Inr a, s\<lparr>it_world := w\<rparr>))"

text \<open>\<open>collect\<close> of results, in order, stopping at the first fault.\<close>

primrec imap :: "('a \<Rightarrow> ('d, 't, 'tx, 'w, 'b) im) \<Rightarrow> 'a list \<Rightarrow> ('d, 't, 'tx, 'w, 'b list) im" where
  "imap f [] = iret []"
| "imap f (x # xs) = ibind (f x) (\<lambda>y. ibind (imap f xs) (\<lambda>ys. iret (y # ys)))"

primrec ifor :: "('a \<Rightarrow> ('d, 't, 'tx, 'w, unit) im) \<Rightarrow> 'a list \<Rightarrow> ('d, 't, 'tx, 'w, unit) im" where
  "ifor f [] = iret ()"
| "ifor f (x # xs) = iseq (f x) (ifor f xs)"

subsection \<open>Errors at the current position\<close>

definition fail_with :: "marreta_error \<Rightarrow> ('d, 't, 'tx, 'w, 'a) im" where
  "fail_with e = ithrow (Err e)"

definition type_error :: "string \<Rightarrow> ('d, 't, 'tx, 'w, 'a) im" where
  "type_error msg s = Some (Inl (Err (TypeError msg (it_line s) (it_column s))), s)"

definition runtime_error :: "string \<Rightarrow> ('d, 't, 'tx, 'w, 'a) im" where
  "runtime_error msg s = Some (Inl (Err (RuntimeError msg (it_line s) (it_column s))), s)"

definition wrong_arity :: "string \<Rightarrow> nat \<Rightarrow> nat \<Rightarrow> ('d, 't, 'tx, 'w, 'a) im" where
  "wrong_arity name expected actual s =
     Some (Inl (Err (WrongArity name expected actual (it_line s) (it_column s))), s)"

definition no_property :: "string \<Rightarrow> string \<Rightarrow> ('d, 't, 'tx, 'w, 'a) im" where
  "no_property object_type property s =
     Some (Inl (Err (PropertyNotFound object_type property (it_line s) (it_column s))), s)"

definition undefined_variable :: "string \<Rightarrow> ('d, 't, 'tx, 'w, 'a) im" where
  "undefined_variable name s = Some (Inl (Err (UndefinedVariable name (it_line s) (it_column s))), s)"

definition undefined_task :: "string \<Rightarrow> ('d, 't, 'tx, 'w, 'a) im" where
  "undefined_task name s = Some (Inl (Err (UndefinedTask name (it_line s) (it_column s))), s)"

definition not_callable :: "string \<Rightarrow> ('d, 't, 'tx, 'w, 'a) im" where
  "not_callable name s = Some (Inl (Err (NotCallable name (it_line s) (it_column s))), s)"

text \<open>A driver call whose error is an error of the engine already.\<close>

definition driver_do :: "('w \<Rightarrow> (marreta_error + 'a) \<times> 'w) \<Rightarrow> ('d, 't, 'tx, 'w, 'a) im" where
  "driver_do h = ibind (world_do h) (\<lambda>r. case r of Inl e \<Rightarrow> fail_with e | Inr a \<Rightarrow> iret a)"

text \<open>A driver call whose error text is wrapped.\<close>

definition wrapped_do ::
    "(string \<Rightarrow> marreta_error) \<Rightarrow> ('w \<Rightarrow> (string + 'a) \<times> 'w) \<Rightarrow> ('d, 't, 'tx, 'w, 'a) im" where
  "wrapped_do wrap h = ibind (world_do h) (\<lambda>r. case r of Inl e \<Rightarrow> fail_with (wrap e) | Inr a \<Rightarrow> iret a)"

subsection \<open>Scopes, branches, frames\<close>

text \<open>\<open>push_scope\<close>, bind the variables, run, \<open>pop_scope\<close> whatever the result.\<close>

definition in_scope ::
    "(string \<times> ('d, 't) val) list \<Rightarrow> ('d, 't, 'tx, 'w, 'a) im \<Rightarrow> ('d, 't, 'tx, 'w, 'a) im" where
  "in_scope binds m s =
     Option.bind (m (s\<lparr>it_env := fold (\<lambda>(n, v). env_set n v) binds (push_scope (it_env s))\<rparr>))
       (\<lambda>(r, s1). Some (r, s1\<lparr>it_env := pop_scope (it_env s1)\<rparr>))"

text \<open>\<open>evaluate_branch_body\<close> restores the environment it found.\<close>

definition restoring_env :: "('d, 't, 'tx, 'w, 'a) im \<Rightarrow> ('d, 't, 'tx, 'w, 'a) im" where
  "restoring_env m s = Option.bind (m s) (\<lambda>(r, s1). Some (r, s1\<lparr>it_env := it_env s\<rparr>))"

fun is_http_response :: "fault \<Rightarrow> bool" where
  "is_http_response (Err (HttpResponse _ _ _ _ _)) = True"
| "is_http_response _ = False"

text \<open>
  \<open>rescue\<close>: a response propagates, any other error drops the frames pushed since \<open>depth\<close> and runs
  the handler. A panic is not caught.
\<close>

definition catching ::
    "nat \<Rightarrow> ('d, 't, 'tx, 'w, 'a) im \<Rightarrow> (marreta_error \<Rightarrow> ('d, 't, 'tx, 'w, 'a) im) \<Rightarrow> ('d, 't, 'tx, 'w, 'a) im" where
  "catching depth m h s =
     Option.bind (m s) (\<lambda>(r, s1).
       case r of
         Inr a \<Rightarrow> Some (Inr a, s1)
       | Inl Panicked \<Rightarrow> Some (Inl Panicked, s1)
       | Inl (Err e) \<Rightarrow>
           if is_http_response (Err e) then Some (Inl (Err e), s1)
           else h e (s1\<lparr>it_frames := take depth (it_frames s1)\<rparr>))"

text \<open>Any error becomes null (\<open>unwrap_or(Value::Null)\<close> in string interpolation); the frames stay.\<close>

definition or_null :: "('d, 't, 'tx, 'w, ('d, 't) val) im \<Rightarrow> ('d, 't, 'tx, 'w, ('d, 't) val) im" where
  "or_null m s =
     Option.bind (m s) (\<lambda>(r, s1). case r of Inl (Err e) \<Rightarrow> Some (Inr VNull, s1) | _ \<Rightarrow> Some (r, s1))"

text \<open>
  The body of a task of the current module: one more call, a frame that is dropped on success and
  kept on an error, a scope of its own.
\<close>

definition task_frame :: "string \<Rightarrow> string option \<Rightarrow> nat \<Rightarrow> nat \<Rightarrow> marreta_frame" where
  "task_frame name source_module line column =
     \<lparr>mf_label = FlTask name, mf_source_module = source_module, mf_line = Some line, mf_column = Some column\<rparr>"

definition same_module_call ::
    "marreta_frame \<Rightarrow> (string \<times> ('d, 't) val) list \<Rightarrow> ('d, 't, 'tx, 'w, 'a) im \<Rightarrow> ('d, 't, 'tx, 'w, 'a) im" where
  "same_module_call fr binds m s =
     (let depth = length (it_frames s);
          s0 = s\<lparr>it_call_depth := it_call_depth s + 1, it_frames := it_frames s @ [fr]\<rparr>
      in Option.bind (in_scope binds m s0) (\<lambda>(r, s1).
           let s2 = s1\<lparr>it_call_depth := it_call_depth s1 - 1\<rparr>
           in case r of
                Inr a \<Rightarrow> Some (Inr a, s2\<lparr>it_frames := take depth (it_frames s2)\<rparr>)
              | Inl e \<Rightarrow> Some (Inl e, s2)))"

text \<open>
  The body of a task of another module runs in a fork: the environment of its module, below the
  local variables of the caller and the parameters. What the fork leaves behind for the caller is
  the world, the shared transaction cell and, on an error, the frames.
\<close>

definition cross_module_call ::
    "string \<Rightarrow> marreta_frame \<Rightarrow> (string \<times> ('d, 't) val) list \<Rightarrow> ('d, 't, 'tx, 'w, 'a) im \<Rightarrow>
     ('d, 't, 'tx, 'w, 'a) im" where
  "cross_module_call owner fr binds m s =
     (let base_env = (case it_runtime s of Some rt \<Rightarrow> env_for_module rt (Some owner) | None \<Rightarrow> it_env s);
          locals = local_variables (it_env s);
          env1 = fold (\<lambda>(n, v). env_set n v) locals (push_scope base_env);
          env2 = fold (\<lambda>(n, v). env_set n v) binds (push_scope env1);
          f0 = s\<lparr>it_env := env2, it_module := Some owner, it_call_depth := it_call_depth s + 1,
                 it_frames := it_frames s @ [fr]\<rparr>
      in Option.bind (m f0) (\<lambda>(r, f1).
           let s1 = s\<lparr>it_world := it_world f1, it_tx := it_tx f1\<rparr>
           in case r of
                Inr a \<Rightarrow> Some (Inr a, s1)
              | Inl e \<Rightarrow> Some (Inl e, s1\<lparr>it_frames := it_frames f1\<rparr>)))"

text \<open>
  A branch of a broadcast runs in a clone of the interpreter, with a transaction cell of its own;
  only the world outlives it. A branch in a thread or task of its own runs from the world that the scheduler
  gives it; its outcome and the world it leaves are values, and its panic is the error of joining it.
\<close>

definition clone_branch :: "('d, 't, 'tx, 'w, 'a) im \<Rightarrow> ('d, 't, 'tx, 'w, 'a) im" where
  "clone_branch m s =
     Option.bind (m (s\<lparr>it_tx := None\<rparr>)) (\<lambda>(r, b). Some (r, s\<lparr>it_world := it_world b\<rparr>))"

definition spawned_branch ::
    "'w \<Rightarrow> ('d, 't, 'tx, 'w, 'a) im \<Rightarrow> ('d, 't, 'tx, 'w, (fault + 'a) \<times> 'w) im" where
  "spawned_branch w m s =
     Option.bind (m (s\<lparr>it_tx := None, it_world := w\<rparr>)) (\<lambda>(r, b). Some (Inr (r, it_world b), s))"

definition joined_branch :: "fault + 'a \<Rightarrow> ('d, 't, 'tx, 'w, 'a) im" where
  "joined_branch r =
     (case r of
        Inl Panicked \<Rightarrow> type_error ''broadcast branch panicked during parallel execution''
      | Inl (Err e) \<Rightarrow> fail_with e
      | Inr a \<Rightarrow> iret a)"

subsection \<open>Transactions\<close>

definition require_db_engine :: "('d, 't, 'tx, 'w, (('d, 't) val, 'tx, 'w) db_driver) im" where
  "require_db_engine =
     ibind (iask it_db) (\<lambda>db. case db of
         Some engine \<Rightarrow> iret engine
       | None \<Rightarrow> type_error (''db.* called but no DB is configured (set MARRETA_DB_PROVIDER, MARRETA_DB_HOST, '' @
           ''MARRETA_DB_PORT, MARRETA_DB_NAME, MARRETA_DB_USER, and optional MARRETA_DB_PASSWORD)''))"

definition require_doc_engine :: "('d, 't, 'tx, 'w, (('d, 't) val, 'w) doc_driver) im" where
  "require_doc_engine =
     ibind (iask it_doc) (\<lambda>doc. case doc of
         Some engine \<Rightarrow> iret engine
       | None \<Rightarrow> type_error (''doc.* called but no document DB is configured (set MARRETA_DOC_PROVIDER, '' @
           ''MARRETA_DOC_HOST, MARRETA_DOC_PORT, MARRETA_DOC_NAME, optional MARRETA_DOC_USER, '' @
           ''and optional MARRETA_DOC_PASSWORD)''))"

definition restore_tx :: "'tx \<Rightarrow> ('d, 't, 'tx, 'w, unit) im" where
  "restore_tx tx s = Some (Inr (), s\<lparr>it_tx := Some tx\<rparr>)"

text \<open>\<open>take_tx\<close> panics when there is no transaction.\<close>

definition take_tx :: "('d, 't, 'tx, 'w, 'tx) im" where
  "take_tx s = (case it_tx s of Some tx \<Rightarrow> Some (Inr tx, s\<lparr>it_tx := None\<rparr>) | None \<Rightarrow> Some (Inl Panicked, s))"

text \<open>
  A database call: in the active transaction, which is taken out of its cell for the call and put back
  whatever the result, or else on the pool.
\<close>

definition db_do :: "('tx option \<Rightarrow> 'w \<Rightarrow> (marreta_error + 'a) \<times> 'w) \<Rightarrow> ('d, 't, 'tx, 'w, 'a) im" where
  "db_do call =
     ibind (iask it_tx) (\<lambda>active.
       if active \<noteq> None then
         ibind take_tx (\<lambda>tx. ibind (world_do (call (Some tx))) (\<lambda>r.
           iseq (restore_tx tx) (case r of Inl e \<Rightarrow> fail_with e | Inr a \<Rightarrow> iret a)))
       else driver_do (call None))"

text \<open>
  The statement \<open>transaction\<close> around its body: \<open>begin\<close>, the body, then \<open>commit\<close>, or \<open>rollback\<close> (whose own
  error is dropped) when the body ends in an error.
\<close>

definition set_in_tx :: "bool \<Rightarrow> ('d, 't, 'tx, 'w, unit) im" where
  "set_in_tx b s = Some (Inr (), s\<lparr>it_in_tx := b\<rparr>)"

definition transaction_block ::
    "('d, 't, 'w) lib \<Rightarrow> ('d, 't, 'tx, 'w, unit) im \<Rightarrow> ('d, 't, 'tx, 'w, ('d, 't) val) im" where
  "transaction_block l body =
     ibind (iask it_in_tx) (\<lambda>inside.
       if inside then type_error ''nested transaction blocks are not allowed''
       else ibind require_db_engine (\<lambda>engine.
         ibind (world_do (db_begin engine)) (\<lambda>begun.
           case begun of
             Inl e \<Rightarrow> type_error (''transaction BEGIN failed: '' @ error_display (debug_kind l) e)
           | Inr tx \<Rightarrow>
               iseq (restore_tx tx) (iseq (set_in_tx True)
                 (\<lambda>s. Option.bind (body s) (\<lambda>(r, s1).
                    case r of
                      Inl Panicked \<Rightarrow> Some (Inl Panicked, s1)
                    | Inl (Err e) \<Rightarrow>
                        iseq (set_in_tx False) (ibind take_tx (\<lambda>tx1.
                          ibind (world_do (db_rollback engine tx1)) (\<lambda>_. fail_with e))) s1
                    | Inr _ \<Rightarrow>
                        iseq (set_in_tx False) (ibind take_tx (\<lambda>tx1.
                          ibind (world_do (db_commit engine tx1)) (\<lambda>committed.
                            case committed of
                              Inl e \<Rightarrow> type_error (''transaction COMMIT failed: '' @ error_display (debug_kind l) e)
                            | Inr _ \<Rightarrow> iret VNull))) s1))))))"

end
