(* ===== verification/Interp_Schema.thy ===== *)
theory Interp_Schema
  imports Interp_Monad
begin

text \<open>
  The helpers of \<^verbatim>\<open>src/src/interpreter.rs\<close> and \<^verbatim>\<open>src/src/interpreter/access.rs\<close> that read the interpreter
  but evaluate nothing: schema lookup, undeclared fields of a constructor, relation handles, rows of the
  database, property access and the built-in functions. The order of a \<open>HashMap\<close> is the order of its list.
\<close>

subsection \<open>Schemas\<close>

definition schema_registry_for :: "('d, 't, 'tx, 'w) interp \<Rightarrow> string option \<Rightarrow> registry" where
  "schema_registry_for s module_id =
     (case it_runtime s of
        Some rt \<Rightarrow> visible_schemas_for rt module_id
      | None \<Rightarrow> (case it_schemas s of Some schemas \<Rightarrow> schemas | None \<Rightarrow> []))"

definition resolve_schema :: "('d, 't, 'tx, 'w) interp \<Rightarrow> string \<Rightarrow> schema_definition option" where
  "resolve_schema s name =
     (case it_runtime s of
        Some rt \<Rightarrow>
          (case runtime_resolve_schema rt (it_module s) name of
             Some schema \<Rightarrow> Some schema
           | None \<Rightarrow> map_of (pr_persistent_schemas rt) name)
      | None \<Rightarrow> Option.bind (it_schemas s) (\<lambda>schemas. map_of schemas name))"

definition optional_id :: "schema_definition \<Rightarrow> schema_definition" where
  "optional_id schema =
     (if sd_db_table schema \<noteq> None then
        schema\<lparr>sd_fields := map (\<lambda>f. if sf_name f = ''id'' then f\<lparr>sf_optional := True\<rparr> else f) (sd_fields schema)\<rparr>
      else schema)"

definition constructor_schema_registry ::
    "('d, 't, 'tx, 'w) interp \<Rightarrow> string \<Rightarrow> registry \<times> schema_definition option" where
  "constructor_schema_registry s name =
     (let visible = schema_registry_for s (it_module s);
          schemas = (if map_of visible name = None then
                       (case resolve_schema s name of
                          Some schema \<Rightarrow> AList.update name schema visible | None \<Rightarrow> visible)
                     else visible);
          schemas' = map (map_prod id optional_id) schemas
      in (schemas', map_of schemas' name))"

text \<open>\<open>json["error"].as_str()\<close>: indexing anything but an object gives null.\<close>

fun json_error_field :: "json \<Rightarrow> string option" where
  "json_error_field (JObject m) = (case map_of m ''error'' of Some (JString s) \<Rightarrow> Some s | _ \<Rightarrow> None)"
| "json_error_field _ = None"

definition validation_error_detail :: "('d, 't, 'w) lib \<Rightarrow> marreta_error \<Rightarrow> string" where
  "validation_error_detail l e =
     (case e of
        HttpResponse _ body _ _ _ \<Rightarrow>
          (case json_from_str l body of
             Inr j \<Rightarrow> (case json_error_field j of Some msg \<Rightarrow> msg | None \<Rightarrow> body)
           | Inl _ \<Rightarrow> body)
      | _ \<Rightarrow> error_display (debug_kind l) e)"

text \<open>The fields of a schema constructor must be declared, at every level. The recursion is on the value.\<close>

definition path_key :: "string \<Rightarrow> string \<Rightarrow> string" where
  "path_key prefix key = (if prefix = [] then key else prefix @ ''.'' @ key)"

primrec first_error :: "(string + unit) list \<Rightarrow> string + unit" where
  "first_error [] = Inr ()"
| "first_error (r # rs) = (case r of Inl e \<Rightarrow> Inl e | Inr _ \<Rightarrow> first_error rs)"

definition undeclared_key :: "schema_definition \<Rightarrow> string list \<Rightarrow> string option" where
  "undeclared_key schema ks = find (\<lambda>k. k \<notin> set (map sf_name (sd_fields schema))) ks"

function reject_undeclared_schema_fields ::
    "registry \<Rightarrow> schema_definition \<Rightarrow> string \<Rightarrow> ('d, 't) val \<Rightarrow> string + unit" where
  "reject_undeclared_schema_fields schemas schema prefix v =
     (case v of
        VMap m \<Rightarrow>
          (case undeclared_key schema (map fst m) of
             Some key \<Rightarrow> Inl (''received undeclared field '' @ in_quotes (path_key prefix key))
           | None \<Rightarrow>
               first_error (map (\<lambda>field.
                 case map_of m (sf_name field) of
                   None \<Rightarrow> Inr ()
                 | Some fv \<Rightarrow>
                     (case sf_field_type field of
                        Reference name \<Rightarrow>
                          (case map_of schemas name of
                             Some nested \<Rightarrow>
                               reject_undeclared_schema_fields schemas nested (path_key prefix (sf_name field)) fv
                           | None \<Rightarrow> Inr ())
                      | TypedList (Reference name) \<Rightarrow>
                          (case (map_of schemas name, fv) of
                             (Some nested, VList items) \<Rightarrow>
                               first_error (map (\<lambda>(i, item).
                                 reject_undeclared_schema_fields schemas nested
                                   (path_key prefix (sf_name field) @ ''['' @ nat_to_string i @ '']'') item)
                                 (enumerate 0 items))
                           | _ \<Rightarrow> Inr ())
                      | _ \<Rightarrow> Inr ())) (sd_fields schema)))
      | _ \<Rightarrow> Inr ())"
  by pat_completeness auto

lemma map_of_size: "map_of m k = Some v \<Longrightarrow> size v < size (VMap m :: ('d, 't) val)"
  for v :: "('d, 't) val"
  using size_map_member [of k v m] by (simp add: map_of_SomeD)

lemma enumerate_size: "(i, item) \<in> set (enumerate n items) \<Longrightarrow> size item < size (VList items :: ('d, 't) val)"
  for item :: "('d, 't) val"
  using size_list_member [of item items] by (auto simp: in_set_enumerate_eq)

termination reject_undeclared_schema_fields
  by (relation "measure (\<lambda>(schemas, schema, prefix, v). size v)")
    (auto dest!: map_of_size enumerate_size)

declare reject_undeclared_schema_fields.simps [simp del]

subsection \<open>Tables, relations and rows\<close>

definition resolve_schema_name_for_table :: "('d, 't, 'tx, 'w) interp \<Rightarrow> string \<Rightarrow> string option" where
  "resolve_schema_name_for_table s table =
     (case Option.bind (it_runtime s) (\<lambda>rt. schema_for_table (pr_persistent_schemas rt) table) of
        Some (name, _) \<Rightarrow> Some name
      | None \<Rightarrow> map_option fst (schema_for_table (schema_registry_for s (it_module s)) table))"

definition infer_inverse_reference_field :: "('d, 't, 'tx, 'w) interp \<Rightarrow> string \<Rightarrow> string \<Rightarrow> string option" where
  "infer_inverse_reference_field s owner target =
     Option.bind (resolve_schema s target) (\<lambda>schema.
       case filter (\<lambda>f. sf_field_type f = Reference owner) (sd_fields schema) of
         [f] \<Rightarrow> Some (sf_name f) | _ \<Rightarrow> None)"

definition filter_eq :: "string \<Rightarrow> 'v \<Rightarrow> 'v query_state \<Rightarrow> 'v query_state" where
  "filter_eq column v q =
     QueryState (qs_table q) (qs_filters q @ [FilterClause column OpEq v]) (qs_joins q) (qs_select_cols q)
       (qs_order_by q) (qs_limit q) (qs_offset q) (qs_count q) (qs_known_columns q)"

definition relation_handle_for_property ::
    "('d, 't, 'tx, 'w) interp \<Rightarrow> string \<Rightarrow> ('d, 't) val value_map \<Rightarrow> string \<Rightarrow> ('d, 't) val option" where
  "relation_handle_for_property s schema_name m property =
     Option.bind (resolve_schema s schema_name) (\<lambda>schema.
     Option.bind (find (\<lambda>f. sf_name f = property) (sd_fields schema)) (\<lambda>field.
       case sf_field_type field of
         Reference target \<Rightarrow>
           Option.bind (resolve_schema s target) (\<lambda>target_schema.
           Option.bind (sd_db_table target_schema) (\<lambda>table.
             let fk = (case map_of m (property @ ''_id'') of Some v \<Rightarrow> v | None \<Rightarrow> VNull)
             in Some (VRelationHandle (RelationHandle (filter_eq ''id'' fk (query_state_new table)) CardOne (is_null fk)))))
       | TypedList (Reference target) \<Rightarrow>
           Option.bind (resolve_schema s target) (\<lambda>target_schema.
           Option.bind (sd_db_table target_schema) (\<lambda>table.
           Option.bind (infer_inverse_reference_field s schema_name target) (\<lambda>inverse.
             let owner_id = (case map_of m ''id'' of Some v \<Rightarrow> v | None \<Rightarrow> VNull)
             in Some (VRelationHandle
                  (RelationHandle (filter_eq (inverse @ ''_id'') owner_id (query_state_new table)) CardMany False)))))
       | _ \<Rightarrow> None))"

definition value_to_db_row :: "('d, 't) val \<Rightarrow> ('d, 't, 'tx, 'w, ('d, 't) val row) im" where
  "value_to_db_row v =
     (case v of VMap m \<Rightarrow> iret m | _ \<Rightarrow> type_error (''expected a map, got '' @ type_name v))"

definition db_row_to_value :: "('d, 't) val row \<Rightarrow> ('d, 't) val" where
  "db_row_to_value row = map_from row"

text \<open>A row of a table with a schema is a record, its columns coerced when they fit the schema.\<close>

definition db_row_to_runtime_value ::
    "('d, 't, 'w) lib \<Rightarrow> string \<Rightarrow> ('d, 't) val row \<Rightarrow> ('d, 't, 'tx, 'w, ('d, 't) val) im" where
  "db_row_to_runtime_value l table row =
     ibind (iask (\<lambda>s. s)) (\<lambda>s.
       case resolve_schema_name_for_table s table of
         None \<Rightarrow> iret (db_row_to_value row)
       | Some name \<Rightarrow>
           (case resolve_schema s name of
              None \<Rightarrow> iret (VRelationalRecord name (index_map_of row))
            | Some schema \<Rightarrow>
                (case coerce_payload (lx l) (error_body l) (VMap (index_map_of row)) schema
                        (schema_registry_for s (it_module s)) of
                   Inl Panicked \<Rightarrow> ithrow Panicked
                 | Inr (VMap m) \<Rightarrow> iret (VRelationalRecord name m)
                 | _ \<Rightarrow> iret (VRelationalRecord name (index_map_of row)))))"

subsection \<open>Property access\<close>

definition int_value :: "int \<Rightarrow> ('d, 't) val" where
  "int_value n = VInteger (word_of_int n)"

definition access_instant_property ::
    "('d, 't, 'w) lib \<Rightarrow> 't \<Rightarrow> string \<Rightarrow> ('d, 't, 'tx, 'w, ('d, 't) val) im" where
  "access_instant_property l dt property =
     (if property = ''year'' then iret (int_value (date_year l (local_date l dt)))
      else if property = ''month'' then iret (int_value (date_month l (local_date l dt)))
      else if property = ''day'' then iret (int_value (date_day l (local_date l dt)))
      else if property = ''hour'' then iret (int_value (time_hour l (local_time l dt)))
      else if property = ''minute'' then iret (int_value (time_minute l (local_time l dt)))
      else if property = ''second'' then iret (int_value (time_second l (local_time l dt)))
      else if property = ''weekday'' then iret (int_value (date_weekday l (local_date l dt)))
      else if property = ''unix'' then iret (VInteger (instant_timestamp l dt))
      else if property = ''date'' then iret (VDate (local_date l dt))
      else if property = ''time'' then iret (VTime (local_time l dt))
      else no_property ''Instant'' property)"

definition local_date_time_to_utc ::
    "('d, 't, 'w) lib \<Rightarrow> 't \<Rightarrow> 't \<Rightarrow> bool \<Rightarrow> ('d, 't, 'tx, 'w, 't) im" where
  "local_date_time_to_utc l date time prefer_latest =
     (case local_datetimes (lx l) date time of
        [] \<Rightarrow> type_error (''could not resolve local datetime '' @ in_quotes (naive_display (lx l) date time) @
                '' in timezone '' @ in_quotes (tz_display (lx l)))
      | dts \<Rightarrow> iret (if prefer_latest then last dts else hd dts))"

definition access_date_property ::
    "('d, 't, 'w) lib \<Rightarrow> 't \<Rightarrow> string \<Rightarrow> ('d, 't, 'tx, 'w, ('d, 't) val) im" where
  "access_date_property l date property =
     (if property = ''year'' then iret (int_value (date_year l date))
      else if property = ''month'' then iret (int_value (date_month l date))
      else if property = ''day'' then iret (int_value (date_day l date))
      else if property = ''weekday'' then iret (int_value (date_weekday l date))
      else if property = ''start_of_day'' then
        ibind (local_date_time_to_utc l date (midnight l) False) (\<lambda>dt. iret (VInstant dt))
      else if property = ''end_of_day'' then
        ibind (local_date_time_to_utc l date (last_millisecond l) True) (\<lambda>dt. iret (VInstant dt))
      else no_property ''Date'' property)"

definition access_time_property ::
    "('d, 't, 'w) lib \<Rightarrow> 't \<Rightarrow> string \<Rightarrow> ('d, 't, 'tx, 'w, ('d, 't) val) im" where
  "access_time_property l time property =
     (if property = ''hour'' then iret (int_value (time_hour l time))
      else if property = ''minute'' then iret (int_value (time_minute l time))
      else if property = ''second'' then iret (int_value (time_second l time))
      else no_property ''Time'' property)"

definition duration_in :: "('d, 't, 'w) lib \<Rightarrow> 't \<Rightarrow> rat \<Rightarrow> ('d, 't) val" where
  "duration_in l d unit_ms =
     VFloat (f64_div (f64_of_i64 (dur_num_milliseconds (lx l) d)) (round64 unit_ms))"

definition access_duration_property ::
    "('d, 't, 'w) lib \<Rightarrow> 't \<Rightarrow> string \<Rightarrow> ('d, 't, 'tx, 'w, ('d, 't) val) im" where
  "access_duration_property l d property =
     (if property = ''total_days'' then iret (duration_in l d 86400000)
      else if property = ''total_hours'' then iret (duration_in l d 3600000)
      else if property = ''total_minutes'' then iret (duration_in l d 60000)
      else if property = ''total_seconds'' then iret (duration_in l d 1000)
      else no_property ''Duration'' property)"

fun temporal_value_to_runtime_value :: "'t temporal_value \<Rightarrow> ('d, 't) val" where
  "temporal_value_to_runtime_value (TvInstant dt) = VInstant dt"
| "temporal_value_to_runtime_value (TvDate d) = VDate d"
| "temporal_value_to_runtime_value (TvTime t) = VTime t"

definition temporal_value_from_runtime_value ::
    "('d, 't) val \<Rightarrow> ('d, 't, 'tx, 'w, 't temporal_value) im" where
  "temporal_value_from_runtime_value v =
     (case v of
        VInstant dt \<Rightarrow> iret (TvInstant dt)
      | VDate d \<Rightarrow> iret (TvDate d)
      | VTime t \<Rightarrow> iret (TvTime t)
      | _ \<Rightarrow> type_error (''expected temporal value (instant, date, or time), got '' @ type_name v))"

definition interval_duration ::
    "('d, 't, 'w) lib \<Rightarrow> 't temporal_interval \<Rightarrow> ('d, 't, 'tx, 'w, 't) im" where
  "interval_duration l i =
     (if same_temporal_kind (ti_start i) (ti_end i) then iret (temporal_diff l (ti_end i) (ti_start i))
      else type_error ''interval start and end must share the same temporal type'')"

definition access_interval_property ::
    "('d, 't, 'w) lib \<Rightarrow> 't temporal_interval \<Rightarrow> string \<Rightarrow> ('d, 't, 'tx, 'w, ('d, 't) val) im" where
  "access_interval_property l i property =
     (if property = ''start'' then iret (temporal_value_to_runtime_value (ti_start i))
      else if property = ''end'' then iret (temporal_value_to_runtime_value (ti_end i))
      else if property = ''duration'' then ibind (interval_duration l i) (\<lambda>d. iret (VDuration d))
      else no_property ''Interval'' property)"

definition access_property ::
    "('d, 't, 'w) lib \<Rightarrow> ('d, 't) val \<Rightarrow> string \<Rightarrow> ('d, 't, 'tx, 'w, ('d, 't) val) im" where
  "access_property l obj property =
     (case obj of
        VMap m \<Rightarrow> iret (case map_of m property of Some v \<Rightarrow> v | None \<Rightarrow> VNull)
      | VRelationalRecord name m \<Rightarrow>
          (case map_of m property of
             Some v \<Rightarrow> iret v
           | None \<Rightarrow> ibind (iask (\<lambda>s. relation_handle_for_property s name m property)) (\<lambda>h.
               iret (case h of Some v \<Rightarrow> v | None \<Rightarrow> VNull)))
      | VInstant dt \<Rightarrow> access_instant_property l dt property
      | VDate d \<Rightarrow> access_date_property l d property
      | VTime t \<Rightarrow> access_time_property l t property
      | VDuration d \<Rightarrow> access_duration_property l d property
      | VInterval i \<Rightarrow> access_interval_property l i property
      | _ \<Rightarrow> no_property (type_name obj) property)"

subsection \<open>Built-in functions\<close>

text \<open>The body of \<open>fail\<close>: a map or list as it is, anything else under the key \<open>error\<close>.\<close>

definition fail_body :: "('d, 't, 'w) lib \<Rightarrow> ('d, 't) val \<Rightarrow> string" where
  "fail_body l msg =
     (case msg of
        VMap _ \<Rightarrow> value_json l msg
      | VList _ \<Rightarrow> value_json l msg
      | _ \<Rightarrow> error_body l (display (lx l) msg))"

definition builtin_fail :: "('d, 't, 'w) lib \<Rightarrow> ('d, 't) val list \<Rightarrow> ('d, 't, 'tx, 'w, ('d, 't) val) im" where
  "builtin_fail l args =
     (let status = (case args of VInteger n # _ \<Rightarrow> ucast n | _ \<Rightarrow> 500);
          msg = (case args of _ # m # _ \<Rightarrow> m | _ \<Rightarrow> VNull)
      in fail_with (HttpResponse status (fail_body l msg) ''application/json'' [] True))"

definition builtin_len :: "('d, 't) val list \<Rightarrow> ('d, 't, 'tx, 'w, ('d, 't) val) im" where
  "builtin_len args =
     (case args of
        [v] \<Rightarrow>
          (case v of
             VString str \<Rightarrow> iret (int_value (int (utf8_len str)))
           | VList items \<Rightarrow> iret (int_value (int (length items)))
           | VMap m \<Rightarrow> iret (int_value (int (length m)))
           | _ \<Rightarrow> type_error (''len() not supported for '' @ type_name v))
      | _ \<Rightarrow> wrong_arity ''len'' 1 (length args))"

definition builtin_range :: "('d, 't) val list \<Rightarrow> ('d, 't, 'tx, 'w, ('d, 't) val) im" where
  "builtin_range args =
     (let interval = (\<lambda>a b. VList (map int_value [a..b]))
      in case args of
        [VInteger b] \<Rightarrow> iret (interval 1 (sint b))
      | [VInteger a, VInteger b] \<Rightarrow> iret (interval (sint a) (sint b))
      | [v] \<Rightarrow> type_error (''range() expects Integer arguments, got '' @ type_name v)
      | [u, v] \<Rightarrow>
          type_error (''range() expects Integer arguments, got '' @ type_name u @ '' and '' @ type_name v)
      | _ \<Rightarrow> wrong_arity ''range'' 1 (length args))"

definition builtin_decimal :: "('d, 't, 'w) lib \<Rightarrow> ('d, 't) val list \<Rightarrow> ('d, 't, 'tx, 'w, ('d, 't) val) im" where
  "builtin_decimal l args =
     (case args of
        [v] \<Rightarrow>
          (case v of
             VDecimal d \<Rightarrow> iret (VDecimal d)
           | VInteger n \<Rightarrow> iret (VDecimal (dec_from_i64 (lx l) n))
           | VString str \<Rightarrow>
               (if CHR ''e'' \<in> set str \<or> CHR ''E'' \<in> set str then
                  type_error ''decimal() rejects scientific notation; use a plain decimal string''
                else (case dec_parse (lx l) str of
                        Some d \<Rightarrow> iret (VDecimal d)
                      | None \<Rightarrow> type_error ''decimal() requires a plain decimal string or Integer''))
           | _ \<Rightarrow> type_error (''decimal() requires String or Integer, got '' @ type_name v))
      | _ \<Rightarrow> wrong_arity ''decimal'' 1 (length args))"

definition builtin_print :: "('d, 't, 'w) lib \<Rightarrow> ('d, 't) val list \<Rightarrow> ('d, 't, 'tx, 'w, ('d, 't) val) im" where
  "builtin_print l args =
     ibind (world_do (\<lambda>w. ((), print_line l (join '' '' (map (display (lx l)) args)) w))) (\<lambda>_. iret VNull)"

definition builtin_type :: "('d, 't) val list \<Rightarrow> ('d, 't, 'tx, 'w, ('d, 't) val) im" where
  "builtin_type args =
     (case args of [v] \<Rightarrow> iret (VString (type_name v)) | _ \<Rightarrow> wrong_arity ''type'' 1 (length args))"

definition builtin_function ::
    "('d, 't, 'w) lib \<Rightarrow> string \<Rightarrow> ('d, 't) val list \<Rightarrow> ('d, 't, 'tx, 'w, ('d, 't) val) im option" where
  "builtin_function l name args =
     (if name = ''__fail__'' then Some (builtin_fail l args)
      else if name = ''print'' then Some (builtin_print l args)
      else if name = ''type'' then Some (builtin_type args)
      else if name = ''decimal'' then Some (builtin_decimal l args)
      else if name = ''len'' then Some (builtin_len args)
      else if name = ''range'' then Some (builtin_range args)
      else None)"

end
