(* ===== verification/Interp_Namespaces.thy ===== *)
theory Interp_Namespaces
  imports Interp_Schema
begin

text \<open>
  \<^verbatim>\<open>src/src/interpreter/namespaces.rs\<close>: the built-in namespaces \<open>log\<close>, \<open>fs\<close>, \<open>json\<close>, \<open>base64\<close>, \<open>uuid\<close>, \<open>feature\<close>,
  \<open>math\<close> and \<open>time\<close>. The argument \<open>ev\<close> is \<open>Interpreter::evaluate\<close>.
\<close>

type_synonym ('d, 't, 'tx, 'w) evaluator = "expression \<Rightarrow> ('d, 't, 'tx, 'w, ('d, 't) val) im"

subsection \<open>Arguments\<close>

fun argument_expression :: "'e argument \<Rightarrow> 'e" where
  "argument_expression (Positional e) = e"
| "argument_expression (Named _ e) = e"

definition evaluate_args ::
    "('d, 't, 'tx, 'w) evaluator \<Rightarrow> expression argument list \<Rightarrow> ('d, 't, 'tx, 'w, ('d, 't) val list) im" where
  "evaluate_args ev args = imap (\<lambda>a. ev (argument_expression a)) args"

primrec collect_args ::
    "('d, 't, 'tx, 'w) evaluator \<Rightarrow> expression argument list \<Rightarrow>
     ('d, 't, 'tx, 'w, ('d, 't) val list \<times> (string \<times> ('d, 't) val) list) im" where
  "collect_args ev [] = iret ([], [])"
| "collect_args ev (a # as) =
     ibind (ev (argument_expression a)) (\<lambda>v. ibind (collect_args ev as) (\<lambda>(pos, named).
       iret (case a of Positional _ \<Rightarrow> (v # pos, named) | Named n _ \<Rightarrow> (pos, (n, v) # named))))"

definition collect_named_and_positional ::
    "('d, 't, 'tx, 'w) evaluator \<Rightarrow> expression argument list \<Rightarrow> ('d, 't) val option \<Rightarrow>
     ('d, 't, 'tx, 'w, ('d, 't) val list \<times> (string \<times> ('d, 't) val) list) im" where
  "collect_named_and_positional ev args input =
     ibind (collect_args ev args) (\<lambda>(pos, named).
       iret ((case input of Some v \<Rightarrow> [v] | None \<Rightarrow> []) @ pos, named))"

definition ensure_no_named_args ::
    "(string \<times> ('d, 't) val) list \<Rightarrow> string \<Rightarrow> ('d, 't, 'tx, 'w, unit) im" where
  "ensure_no_named_args named callee =
     (case named of
        [] \<Rightarrow> iret ()
      | (n, _) # _ \<Rightarrow> type_error (callee @ ''() does not accept named argument '' @ in_quotes n))"

text \<open>The argument at an index, of type string.\<close>

definition expect_string_value ::
    "('d, 't) val list \<Rightarrow> nat \<Rightarrow> string \<Rightarrow> ('d, 't, 'tx, 'w, string) im" where
  "expect_string_value args i callee =
     (if i < length args then
        (case args ! i of
           VString str \<Rightarrow> iret str
         | v \<Rightarrow> type_error (callee @ ''() argument '' @ nat_to_string (i + 1) @ '' must be String, got '' @ type_name v))
      else type_error (callee @ ''() missing required argument '' @ nat_to_string (i + 1)))"

definition expect_numeric_i64_value ::
    "('d, 't, 'w) lib \<Rightarrow> ('d, 't) val list \<Rightarrow> nat \<Rightarrow> string \<Rightarrow> ('d, 't, 'tx, 'w, i64) im" where
  "expect_numeric_i64_value l args i callee =
     (if i < length args then
        (case as_integer (lx l) (args ! i) of
           Some n \<Rightarrow> iret n
         | None \<Rightarrow> type_error (callee @ ''() argument '' @ nat_to_string (i + 1) @ '' must be Integer, got '' @
                     type_name (args ! i)))
      else type_error (callee @ ''() missing required argument '' @ nat_to_string (i + 1)))"

fun resolve_named_i64 ::
    "('d, 't) ext \<Rightarrow> (string \<times> ('d, 't) val) list \<Rightarrow> string \<Rightarrow> i64 \<Rightarrow> i64" where
  "resolve_named_i64 x [] key dflt = dflt"
| "resolve_named_i64 x ((n, v) # named) key dflt =
     (if n = key then (case as_integer x v of Some i \<Rightarrow> i | None \<Rightarrow> resolve_named_i64 x named key dflt)
      else resolve_named_i64 x named key dflt)"

subsection \<open>log\<close>

datatype log_level = LogDebug | LogInfo | LogWarn | LogError

fun log_level_as_str :: "log_level \<Rightarrow> string" where
  "log_level_as_str LogDebug = ''debug''"
| "log_level_as_str LogInfo = ''info''"
| "log_level_as_str LogWarn = ''warn''"
| "log_level_as_str LogError = ''error''"

fun log_level_rank :: "log_level \<Rightarrow> nat" where
  "log_level_rank LogDebug = 0"
| "log_level_rank LogInfo = 1"
| "log_level_rank LogWarn = 2"
| "log_level_rank LogError = 3"

definition configured_log_level :: "string option \<Rightarrow> log_level" where
  "configured_log_level var =
     (case map_option (map to_ascii_lower) var of
        Some v \<Rightarrow> if v = ''debug'' then LogDebug else if v = ''warn'' then LogWarn
                   else if v = ''error'' then LogError else LogInfo
      | None \<Rightarrow> LogInfo)"

definition log_level_for_method :: "string \<Rightarrow> ('d, 't, 'tx, 'w, log_level) im" where
  "log_level_for_method callee =
     (if callee = ''debug'' then iret LogDebug
      else if callee = ''info'' then iret LogInfo
      else if callee = ''warn'' then iret LogWarn
      else if callee = ''error'' then iret LogError
      else no_property ''LogNamespace'' callee)"

definition should_emit_log_level :: "('d, 't, 'w) lib \<Rightarrow> log_level \<Rightarrow> bool" where
  "should_emit_log_level l level \<longleftrightarrow>
     log_level_rank (configured_log_level (env_log_level l)) \<le> log_level_rank level"

definition build_log_event ::
    "('d, 't, 'w) lib \<Rightarrow> log_level \<Rightarrow> ('d, 't) val \<Rightarrow> ('d, 't, 'tx, 'w, json) im" where
  "build_log_event l level v =
     ibind (world_do (utc_now l)) (\<lambda>now. ibind (iask it_trace) (\<lambda>trace.
       let head = [(''timestamp'', JString (fmt_instant (lx l) now)), (''kind'', JString ''app_log''),
                   (''level'', JString (log_level_as_str level))] @
                  (case trace of
                     Some t \<Rightarrow> [(''trace_id'', JString (tc_trace_id t)), (''span_id'', JString (tc_span_id t))]
                   | None \<Rightarrow> [])
       in case value_to_json_strict (lx l) v of
            Inl msg \<Rightarrow> type_error (''log.'' @ log_level_as_str level @ ''() '' @ msg)
          | Inr data \<Rightarrow> iret (JObject (head @ [(''data'', data)]))))"

definition emit_log_value ::
    "('d, 't, 'w) lib \<Rightarrow> log_level \<Rightarrow> ('d, 't) val \<Rightarrow> ('d, 't, 'tx, 'w, unit) im" where
  "emit_log_value l level v =
     (if \<not> should_emit_log_level l level then iret ()
      else ibind (build_log_event l level v) (\<lambda>event.
        ibind (world_do (write_stdout l (json_text (lz l) event @ [CHR 0x0A]))) (\<lambda>r.
          case r of
            Inl e \<Rightarrow> runtime_error (''log.'' @ log_level_as_str level @ ''() failed: '' @ e)
          | Inr _ \<Rightarrow> iret ())))"

definition dispatch_log_with_input ::
    "('d, 't, 'w) lib \<Rightarrow> ('d, 't, 'tx, 'w) evaluator \<Rightarrow> string \<Rightarrow> expression argument list \<Rightarrow> ('d, 't) val option \<Rightarrow>
     ('d, 't, 'tx, 'w, ('d, 't) val) im" where
  "dispatch_log_with_input l ev callee args input =
     ibind (log_level_for_method callee) (\<lambda>level.
     ibind (collect_named_and_positional ev args input) (\<lambda>(pos, named).
     iseq (ensure_no_named_args named (''log.'' @ callee))
       (case pos of
          [v] \<Rightarrow> iseq (emit_log_value l level v) (iret v)
        | _ \<Rightarrow> wrong_arity (''log.'' @ callee) 1 (length pos))))"

subsection \<open>fs\<close>

definition fs_runtime_error :: "string \<Rightarrow> io_failure \<Rightarrow> marreta_error" where
  "fs_runtime_error path err =
     (case err of
        IoNotFound \<Rightarrow> FileNotFound path
      | IoOther msg \<Rightarrow> IoError (''fs operation failed for '' @ in_quotes path @ '': '' @ msg))"

definition fs_do :: "string \<Rightarrow> ('w \<Rightarrow> (io_failure + 'a) \<times> 'w) \<Rightarrow> ('d, 't, 'tx, 'w, 'a) im" where
  "fs_do path h =
     ibind (world_do h) (\<lambda>r. case r of Inl e \<Rightarrow> fail_with (fs_runtime_error path e) | Inr a \<Rightarrow> iret a)"

definition fs_string_arg :: "('d, 't) val list \<Rightarrow> nat \<Rightarrow> string \<Rightarrow> ('d, 't, 'tx, 'w, string) im" where
  "fs_string_arg args i callee = expect_string_value args i (''fs.'' @ callee)"

text \<open>\<open>fs.write\<close> and \<open>fs.append\<close>: in a pipeline the injected content comes before the path.\<close>

definition fs_put ::
    "string \<Rightarrow> (string \<Rightarrow> string \<Rightarrow> 'w \<Rightarrow> (io_failure + unit) \<times> 'w) \<Rightarrow> bool \<Rightarrow> ('d, 't) val list \<Rightarrow>
     ('d, 't, 'tx, 'w, ('d, 't) val) im" where
  "fs_put callee write injected pos =
     (if length pos \<noteq> 2 then wrong_arity (''fs.'' @ callee) 2 (length pos)
      else ibind (fs_string_arg pos (if injected then 1 else 0) callee) (\<lambda>path.
           ibind (fs_string_arg pos (if injected then 0 else 1) callee) (\<lambda>content.
             iseq (fs_do path (write path content)) (iret (VString content)))))"

definition fs_path_call ::
    "string \<Rightarrow> ('d, 't) val list \<Rightarrow> (string \<Rightarrow> ('d, 't, 'tx, 'w, ('d, 't) val) im) \<Rightarrow>
     ('d, 't, 'tx, 'w, ('d, 't) val) im" where
  "fs_path_call callee pos k =
     ibind (fs_string_arg pos 0 callee) (\<lambda>path.
       if length pos \<noteq> 1 then wrong_arity (''fs.'' @ callee) 1 (length pos) else k path)"

definition dispatch_fs_with_input ::
    "('d, 't, 'w) lib \<Rightarrow> ('d, 't, 'tx, 'w) evaluator \<Rightarrow> string \<Rightarrow> expression argument list \<Rightarrow> ('d, 't) val option \<Rightarrow>
     ('d, 't, 'tx, 'w, ('d, 't) val) im" where
  "dispatch_fs_with_input l ev callee args input =
     ibind (collect_named_and_positional ev args input) (\<lambda>(pos, named).
     iseq (ensure_no_named_args named (''fs.'' @ callee))
       (if callee = ''read'' then
          fs_path_call ''read'' pos (\<lambda>path. ibind (fs_do path (fs_read l path)) (\<lambda>content. iret (VString content)))
        else if callee = ''write'' then fs_put ''write'' (fs_write l) (input \<noteq> None) pos
        else if callee = ''append'' then fs_put ''append'' (fs_append l) (input \<noteq> None) pos
        else if callee = ''exists'' then
          fs_path_call ''exists'' pos (\<lambda>path. ibind (world_do (fs_exists l path)) (\<lambda>b. iret (VBoolean b)))
        else if callee = ''delete'' then
          fs_path_call ''delete'' pos (\<lambda>path. ibind (world_do (fs_remove l path)) (\<lambda>r.
            case r of
              Inr _ \<Rightarrow> iret (VBoolean True)
            | Inl IoNotFound \<Rightarrow> iret (VBoolean False)
            | Inl e \<Rightarrow> fail_with (fs_runtime_error path e)))
        else no_property ''FsNamespace'' callee))"

subsection \<open>json\<close>

definition dispatch_json_with_input ::
    "('d, 't, 'w) lib \<Rightarrow> ('d, 't, 'tx, 'w) evaluator \<Rightarrow> string \<Rightarrow> expression argument list \<Rightarrow> ('d, 't) val option \<Rightarrow>
     ('d, 't, 'tx, 'w, ('d, 't) val) im" where
  "dispatch_json_with_input l ev callee args input =
     ibind (collect_named_and_positional ev args input) (\<lambda>(pos, named).
     iseq (ensure_no_named_args named (''json.'' @ callee))
       (if callee = ''parse'' then
          (case pos of
             [v] \<Rightarrow>
               (case v of
                  VString text \<Rightarrow>
                    (case json_from_str l text of
                       Inl e \<Rightarrow> runtime_error (''json.parse() invalid JSON: '' @ e)
                     | Inr j \<Rightarrow> iret (json_to_value j))
                | _ \<Rightarrow> type_error (''json.parse() argument 1 must be String, got '' @ type_name v))
           | _ \<Rightarrow> wrong_arity ''json.parse'' 1 (length pos))
        else if callee = ''stringify'' \<or> callee = ''pretty'' then
          (case pos of
             [v] \<Rightarrow>
               (case value_to_json_strict (lx l) v of
                  Inl msg \<Rightarrow> type_error (''json.'' @ callee @ ''() '' @ msg)
                | Inr j \<Rightarrow> iret (VString (if callee = ''pretty'' then json_pretty l j else json_text (lz l) j)))
           | _ \<Rightarrow> wrong_arity (''json.'' @ callee) 1 (length pos))
        else no_property ''JsonNamespace'' callee))"

subsection \<open>base64, uuid, feature\<close>

primrec base64_flag_from ::
    "('d, 't, 'w) lib \<Rightarrow> string \<Rightarrow> bool \<Rightarrow> (string \<times> ('d, 't) val) list \<Rightarrow> ('d, 't, 'tx, 'w, bool) im" where
  "base64_flag_from l callee flag [] = iret flag"
| "base64_flag_from l callee flag (nv # named) =
     (if fst nv \<noteq> ''url_safe'' then
        type_error (''base64.'' @ callee @ ''() does not accept named argument '' @ in_quotes (fst nv))
      else base64_flag_from l callee (is_truthy (lx l) (snd nv)) named)"

definition base64_url_safe_flag ::
    "('d, 't, 'w) lib \<Rightarrow> (string \<times> ('d, 't) val) list \<Rightarrow> string \<Rightarrow> ('d, 't, 'tx, 'w, bool) im" where
  "base64_url_safe_flag l named callee = base64_flag_from l callee False named"

definition base64_decode_bytes ::
    "('d, 't, 'w) lib \<Rightarrow> string \<Rightarrow> bool \<Rightarrow> ('d, 't, 'tx, 'w, 8 word list) im" where
  "base64_decode_bytes l text url_safe =
     (case base64_decode l url_safe True text of
        Inr bytes \<Rightarrow> iret bytes
      | Inl _ \<Rightarrow>
          (case base64_decode l url_safe False text of
             Inr bytes \<Rightarrow> iret bytes
           | Inl e \<Rightarrow> runtime_error (''base64.decode() invalid Base64: '' @ e)))"

definition dispatch_base64_with_input ::
    "('d, 't, 'w) lib \<Rightarrow> ('d, 't, 'tx, 'w) evaluator \<Rightarrow> string \<Rightarrow> expression argument list \<Rightarrow> ('d, 't) val option \<Rightarrow>
     ('d, 't, 'tx, 'w, ('d, 't) val) im" where
  "dispatch_base64_with_input l ev callee args input =
     ibind (collect_named_and_positional ev args input) (\<lambda>(pos, named).
     ibind (base64_url_safe_flag l named callee) (\<lambda>url_safe.
       if callee = ''encode'' then
         (if length pos \<noteq> 1 then wrong_arity ''base64.encode'' 1 (length pos)
          else ibind (expect_string_value pos 0 ''base64.encode'') (\<lambda>text.
                 iret (VString (base64_encode l url_safe text))))
       else if callee = ''decode'' then
         (if length pos \<noteq> 1 then wrong_arity ''base64.decode'' 1 (length pos)
          else ibind (expect_string_value pos 0 ''base64.decode'') (\<lambda>text.
               ibind (base64_decode_bytes l text url_safe) (\<lambda>bytes.
                 case utf8_decode l bytes of
                   Inr str \<Rightarrow> iret (VString str)
                 | Inl e \<Rightarrow> runtime_error (''base64.decode() decoded bytes are not valid UTF-8: '' @ e))))
       else no_property ''Base64Namespace'' callee))"

definition dispatch_uuid ::
    "('d, 't, 'w) lib \<Rightarrow> ('d, 't, 'tx, 'w) evaluator \<Rightarrow> string \<Rightarrow> expression argument list \<Rightarrow>
     ('d, 't, 'tx, 'w, ('d, 't) val) im" where
  "dispatch_uuid l ev callee args =
     ibind (evaluate_args ev args) (\<lambda>vs.
       if vs \<noteq> [] then wrong_arity (''uuid.'' @ callee) 0 (length vs)
       else if callee = ''v4'' then ibind (world_do (uuid_v4 l)) (\<lambda>u. iret (VString u))
       else if callee = ''v7'' then ibind (world_do (uuid_v7 l)) (\<lambda>u. iret (VString u))
       else no_property ''UuidNamespace'' callee)"

definition FEATURE_NAME_HELP :: string where
  "FEATURE_NAME_HELP = ''use lowercase letters, digits, and single underscores; start with a letter; '' @
     ''do not use double underscores or trailing underscores''"

definition dispatch_feature ::
    "('d, 't, 'tx, 'w) evaluator \<Rightarrow> string \<Rightarrow> expression argument list \<Rightarrow> ('d, 't, 'tx, 'w, ('d, 't) val) im" where
  "dispatch_feature ev callee args =
     ibind (evaluate_args ev args) (\<lambda>vs.
       if callee = ''enabled'' then
         (case vs of
            [v] \<Rightarrow>
              (case v of
                 VString name \<Rightarrow>
                   (if \<not> is_valid_feature_name name then
                      runtime_error (''invalid feature flag name '' @ in_quotes name @ '': '' @ FEATURE_NAME_HELP)
                    else ibind (iask (\<lambda>s. enabled
                           (case it_runtime s of Some rt \<Rightarrow> pr_feature_flags rt | None \<Rightarrow> it_flags s) name)) (\<lambda>b.
                             iret (VBoolean b)))
               | _ \<Rightarrow> type_error (''feature.enabled() argument 1 must be String, got '' @ type_name v))
          | _ \<Rightarrow> wrong_arity ''feature.enabled'' 1 (length vs))
       else no_property ''FeatureNamespace'' callee)"

end
