(* ===== verification/Interp_Numeric.thy ===== *)
theory Interp_Numeric
  imports Interp_Namespaces
begin

text \<open>
  \<^verbatim>\<open>src/src/interpreter/namespaces.rs\<close>, second part: the namespaces \<open>math\<close> and \<open>time\<close>, and how calls on a
  namespace are dispatched.
\<close>

subsection \<open>math\<close>

record math_numeric_value =
  mn_value :: f64
  mn_is_float :: bool

definition math_numeric_value :: "('d, 't) val \<Rightarrow> string \<Rightarrow> ('d, 't, 'tx, 'w, math_numeric_value) im" where
  "math_numeric_value v callee =
     (case v of
        VInteger n \<Rightarrow> iret \<lparr>mn_value = f64_of_i64 n, mn_is_float = False\<rparr>
      | VFloat f \<Rightarrow> iret \<lparr>mn_value = f, mn_is_float = True\<rparr>
      | _ \<Rightarrow> type_error (callee @ ''() requires Integer or Float, got '' @ type_name v))"

definition math_number_arg :: "('d, 't) val list \<Rightarrow> string \<Rightarrow> ('d, 't, 'tx, 'w, f64) im" where
  "math_number_arg args callee =
     (case args of
        [v] \<Rightarrow> ibind (math_numeric_value v callee) (\<lambda>n. iret (mn_value n))
      | _ \<Rightarrow> wrong_arity callee 1 (length args))"

definition math_two_number_args ::
    "('d, 't) val list \<Rightarrow> string \<Rightarrow> ('d, 't, 'tx, 'w, math_numeric_value \<times> math_numeric_value) im" where
  "math_two_number_args args callee =
     (case args of
        [a, b] \<Rightarrow> ibind (math_numeric_value a callee) (\<lambda>m. ibind (math_numeric_value b callee) (\<lambda>n. iret (m, n)))
      | _ \<Rightarrow> wrong_arity callee 2 (length args))"

text \<open>Integers go through \<open>f64\<close> and back.\<close>

definition math_result :: "bool \<Rightarrow> f64 \<Rightarrow> ('d, 't) val" where
  "math_result is_float f = (if is_float then VFloat f else VInteger (f64_to_i64 f))"

definition math_min_max_result ::
    "math_numeric_value \<Rightarrow> math_numeric_value \<Rightarrow> (f64 \<Rightarrow> f64 \<Rightarrow> f64) \<Rightarrow> ('d, 't) val" where
  "math_min_max_result a b op = math_result (mn_is_float a \<or> mn_is_float b) (op (mn_value a) (mn_value b))"

primrec round_places ::
    "('d, 't, 'w) lib \<Rightarrow> i64 option \<Rightarrow> (string \<times> ('d, 't) val) list \<Rightarrow> ('d, 't, 'tx, 'w, i64 option) im" where
  "round_places l places [] = iret places"
| "round_places l places (nv # named) =
     (if fst nv = ''places'' then
        (case as_integer (lx l) (snd nv) of
           None \<Rightarrow> type_error (''math.round() places: must be Integer, got '' @ type_name (snd nv))
         | Some n \<Rightarrow>
             if sint n < 0 then runtime_error ''math.round() places: must be zero or greater''
             else round_places l (Some n) named)
      else type_error (''math.round() does not accept named argument '' @ in_quotes (fst nv)))"

definition dispatch_math_round ::
    "('d, 't, 'w) lib \<Rightarrow> ('d, 't) val list \<Rightarrow> (string \<times> ('d, 't) val) list \<Rightarrow> ('d, 't, 'tx, 'w, ('d, 't) val) im" where
  "dispatch_math_round l pos named =
     ibind (round_places l None named) (\<lambda>places.
       if length pos \<noteq> 1 then wrong_arity ''math.round'' 1 (length pos)
       else ibind (math_numeric_value (hd pos) ''math.round'') (\<lambda>n.
         iret (case places of
                 Some p \<Rightarrow>
                   let scale = ext_powi (lx l) (round64 10) (ucast p)
                   in VFloat (f64_div (f64_round (f64_mul (mn_value n) scale)) scale)
               | None \<Rightarrow> VInteger (f64_to_i64 (f64_round (mn_value n))))))"

primrec clamp_bounds ::
    "('d, 't) val option \<times> ('d, 't) val option \<Rightarrow> (string \<times> ('d, 't) val) list \<Rightarrow>
     ('d, 't, 'tx, 'w, ('d, 't) val option \<times> ('d, 't) val option) im" where
  "clamp_bounds b [] = iret b"
| "clamp_bounds b (nv # named) =
     (if fst nv = ''min'' then clamp_bounds (Some (snd nv), snd b) named
      else if fst nv = ''max'' then clamp_bounds (fst b, Some (snd nv)) named
      else type_error (''math.clamp() does not accept named argument '' @ in_quotes (fst nv)))"

definition dispatch_math_clamp ::
    "('d, 't) val list \<Rightarrow> (string \<times> ('d, 't) val) list \<Rightarrow> ('d, 't, 'tx, 'w, ('d, 't) val) im" where
  "dispatch_math_clamp pos named =
     ibind (clamp_bounds (None, None) named) (\<lambda>b.
       if length pos \<noteq> 1 then wrong_arity ''math.clamp'' 1 (length pos)
       else case b of
         (Some mn, Some mx) \<Rightarrow>
           ibind (math_numeric_value (hd pos) ''math.clamp'') (\<lambda>v.
           ibind (math_numeric_value mn ''math.clamp'') (\<lambda>lo.
           ibind (math_numeric_value mx ''math.clamp'') (\<lambda>hi.
             if f64_partial_cmp (mn_value lo) (mn_value hi) = Some Greater then
               runtime_error ''math.clamp() requires min <= max''
             else iret (math_result (mn_is_float v \<or> mn_is_float lo \<or> mn_is_float hi)
                    (f64_min (f64_max (mn_value v) (mn_value lo)) (mn_value hi))))))
       | _ \<Rightarrow> type_error ''math.clamp() requires min: and max:'')"

definition math_abs :: "('d, 't) val list \<Rightarrow> ('d, 't, 'tx, 'w, ('d, 't) val) im" where
  "math_abs pos =
     (case pos of
        [] \<Rightarrow> type_error ''math.abs() requires one numeric argument''
      | v # _ \<Rightarrow>
          (case v of
             VInteger n \<Rightarrow> iret (VInteger (if sint n < 0 then - n else n))
           | VFloat f \<Rightarrow> iret (VFloat (f64_abs f))
           | _ \<Rightarrow> type_error (''math.abs() requires Integer or Float, got '' @ type_name v)))"

definition dispatch_math_with_input ::
    "('d, 't, 'w) lib \<Rightarrow> ('d, 't, 'tx, 'w) evaluator \<Rightarrow> string \<Rightarrow> expression argument list \<Rightarrow> ('d, 't) val option \<Rightarrow>
     ('d, 't, 'tx, 'w, ('d, 't) val) im" where
  "dispatch_math_with_input l ev callee args input =
     ibind (collect_named_and_positional ev args input) (\<lambda>(pos, named).
       if callee = ''abs'' then iseq (ensure_no_named_args named ''math.abs'') (math_abs pos)
       else if callee = ''floor'' then
         iseq (ensure_no_named_args named ''math.floor'')
           (ibind (math_number_arg pos ''math.floor'') (\<lambda>f. iret (VInteger (f64_to_i64 (f64_floor f)))))
       else if callee = ''ceil'' then
         iseq (ensure_no_named_args named ''math.ceil'')
           (ibind (math_number_arg pos ''math.ceil'') (\<lambda>f. iret (VInteger (f64_to_i64 (f64_ceil f)))))
       else if callee = ''round'' then dispatch_math_round l pos named
       else if callee = ''min'' then
         iseq (ensure_no_named_args named ''math.min'')
           (ibind (math_two_number_args pos ''math.min'') (\<lambda>(a, b). iret (math_min_max_result a b f64_min)))
       else if callee = ''max'' then
         iseq (ensure_no_named_args named ''math.max'')
           (ibind (math_two_number_args pos ''math.max'') (\<lambda>(a, b). iret (math_min_max_result a b f64_max)))
       else if callee = ''clamp'' then dispatch_math_clamp pos named
       else no_property ''MathNamespace'' callee)"

subsection \<open>time\<close>

definition parse_temporal_string :: "('d, 't, 'w) lib \<Rightarrow> string \<Rightarrow> ('d, 't, 'tx, 'w, ('d, 't) val) im" where
  "parse_temporal_string l input =
     (case parse_instant (lx l) input of
        Some dt \<Rightarrow> iret (VInstant dt)
      | None \<Rightarrow> (case parse_date (lx l) input of
           Some d \<Rightarrow> iret (VDate d)
         | None \<Rightarrow> (case parse_time (lx l) input of
              Some t \<Rightarrow> iret (VTime t)
            | None \<Rightarrow> type_error (''time.parse() could not parse '' @ in_quotes input))))"

definition parse_instant_string :: "('d, 't, 'w) lib \<Rightarrow> string \<Rightarrow> ('d, 't, 'tx, 'w, ('d, 't) val) im" where
  "parse_instant_string l input =
     (case parse_instant (lx l) input of
        Some dt \<Rightarrow> iret (VInstant dt)
      | None \<Rightarrow> type_error (''time.instant() requires RFC3339 timestamp, got '' @ in_quotes input))"

text \<open>\<open>ChronoDuration::milliseconds\<close> panics out of range.\<close>

definition duration_from_unit ::
    "('d, 't, 'w) lib \<Rightarrow> ('d, 't) val list \<Rightarrow> string \<Rightarrow> rat \<Rightarrow> ('d, 't, 'tx, 'w, ('d, 't) val) im" where
  "duration_from_unit l args callee millis =
     (let build = (\<lambda>amount. case dur_milliseconds (lx l) (f64_to_i64 (f64_round (f64_mul amount (round64 millis)))) of
                              Some d \<Rightarrow> iret (VDuration d) | None \<Rightarrow> ithrow Panicked)
      in case args of
        [] \<Rightarrow> type_error (callee @ ''() requires a numeric amount'')
      | v # _ \<Rightarrow>
          (case v of
             VInteger n \<Rightarrow> build (f64_of_i64 n)
           | VFloat f \<Rightarrow> build f
           | _ \<Rightarrow> type_error (callee @ ''() requires numeric amount, got '' @ type_name v)))"

definition ensure_same_temporal_kind ::
    "'t temporal_value \<Rightarrow> 't temporal_value \<Rightarrow> ('d, 't, 'tx, 'w, unit) im" where
  "ensure_same_temporal_kind a b =
     (if same_temporal_kind a b then iret () else type_error ''temporal values must share the same type'')"

definition interval_contains ::
    "('d, 't, 'w) lib \<Rightarrow> 't temporal_interval \<Rightarrow> 't temporal_value \<Rightarrow> ('d, 't, 'tx, 'w, bool) im" where
  "interval_contains l i v =
     (if same_temporal_kind (ti_start i) (ti_end i) \<and> same_temporal_kind (ti_end i) v
      then iret (temporal_le l (ti_start i) v \<and> temporal_le l v (ti_end i))
      else type_error ''time.contains() requires interval and value of the same temporal type'')"

definition intervals_overlap ::
    "('d, 't, 'w) lib \<Rightarrow> 't temporal_interval \<Rightarrow> 't temporal_interval \<Rightarrow> ('d, 't, 'tx, 'w, bool) im" where
  "intervals_overlap l a b =
     (if same_temporal_kind (ti_start a) (ti_end a) \<and> same_temporal_kind (ti_end a) (ti_start b) \<and>
         same_temporal_kind (ti_start b) (ti_end b)
      then iret (temporal_le l (ti_start a) (ti_end b) \<and> temporal_le l (ti_start b) (ti_end a))
      else type_error ''time.overlaps() requires intervals with matching temporal types'')"

definition chrono_mask :: "string \<Rightarrow> string" where
  "chrono_mask msk =
     str_replace (str_replace (str_replace (str_replace (str_replace (str_replace msk
       ''yyyy'' ''%Y'') ''MM'' ''%m'') ''dd'' ''%d'') ''HH'' ''%H'') ''mm'' ''%M'') ''ss'' ''%S''"

text \<open>\<open>to_string\<close> of a \<open>chrono\<close> format panics on a mask the value cannot answer.\<close>

definition format_temporal_value ::
    "('d, 't, 'w) lib \<Rightarrow> ('d, 't) val \<Rightarrow> string \<Rightarrow> ('d, 't, 'tx, 'w, string) im" where
  "format_temporal_value l v msk =
     (let shown = (\<lambda>r. case r of Some str \<Rightarrow> iret str | None \<Rightarrow> ithrow Panicked)
      in case v of
        VInstant dt \<Rightarrow> shown (format_instant_mask l dt (chrono_mask msk))
      | VDate d \<Rightarrow> shown (format_date_mask l d (chrono_mask msk))
      | VTime t \<Rightarrow> shown (format_time_mask l t (chrono_mask msk))
      | _ \<Rightarrow> type_error (''time.format() requires instant, date, or time, got '' @ type_name v))"

definition time_interval_arg ::
    "('d, 't) val list \<Rightarrow> nat \<Rightarrow> string \<Rightarrow> string \<Rightarrow> ('d, 't, 'tx, 'w, 't temporal_interval) im" where
  "time_interval_arg args i expectation missing =
     (if i < length args then
        (case args ! i of VInterval iv \<Rightarrow> iret iv | v \<Rightarrow> type_error (expectation @ '', got '' @ type_name v))
      else type_error missing)"

definition time_interval ::
    "('d, 't) val list \<Rightarrow> ('d, 't, 'tx, 'w, ('d, 't) val) im" where
  "time_interval args =
     (case args of
        a # b # _ \<Rightarrow>
          ibind (temporal_value_from_runtime_value a) (\<lambda>start.
          ibind (temporal_value_from_runtime_value b) (\<lambda>stop.
            iseq (ensure_same_temporal_kind start stop) (iret (VInterval (TemporalInterval start stop)))))
      | _ \<Rightarrow> type_error ''time.interval() requires start and end'')"

definition time_contains ::
    "('d, 't, 'w) lib \<Rightarrow> ('d, 't) val list \<Rightarrow> ('d, 't, 'tx, 'w, ('d, 't) val) im" where
  "time_contains l args =
     ibind (time_interval_arg args 0 ''time.contains() requires Interval as first argument''
              ''time.contains() requires interval and value'') (\<lambda>iv.
       if length args < 2 then type_error ''time.contains() requires interval and value''
       else ibind (temporal_value_from_runtime_value (args ! 1)) (\<lambda>v.
         iseq (ensure_same_temporal_kind (ti_start iv) v)
           (ibind (interval_contains l iv v) (\<lambda>b. iret (VBoolean b)))))"

definition time_overlaps ::
    "('d, 't, 'w) lib \<Rightarrow> ('d, 't) val list \<Rightarrow> ('d, 't, 'tx, 'w, ('d, 't) val) im" where
  "time_overlaps l args =
     ibind (time_interval_arg args 0 ''time.overlaps() requires Interval as first argument''
              ''time.overlaps() requires two intervals'') (\<lambda>a.
     ibind (time_interval_arg args 1 ''time.overlaps() requires Interval as second argument''
              ''time.overlaps() requires two intervals'') (\<lambda>b.
       iseq (ensure_same_temporal_kind (ti_start a) (ti_start b))
         (ibind (intervals_overlap l a b) (\<lambda>r. iret (VBoolean r)))))"

definition time_parsed ::
    "('d, 't) val list \<Rightarrow> string \<Rightarrow> (string \<Rightarrow> ('d, 't) val option) \<Rightarrow> string \<Rightarrow> ('d, 't, 'tx, 'w, ('d, 't) val) im" where
  "time_parsed args callee reader msk =
     ibind (expect_string_value args 0 callee) (\<lambda>input.
       case reader input of
         Some v \<Rightarrow> iret v
       | None \<Rightarrow> type_error (callee @ ''() requires '' @ msk @ '', got '' @ in_quotes input))"

definition dispatch_time ::
    "('d, 't, 'w) lib \<Rightarrow> ('d, 't, 'tx, 'w) evaluator \<Rightarrow> string \<Rightarrow> expression argument list \<Rightarrow>
     ('d, 't, 'tx, 'w, ('d, 't) val) im" where
  "dispatch_time l ev callee arguments =
     ibind (evaluate_args ev arguments) (\<lambda>args.
       if callee = ''now'' then
         (if args \<noteq> [] then type_error ''time.now() takes no arguments''
          else ibind (world_do (utc_now l)) (\<lambda>dt. iret (VInstant dt)))
       else if callee = ''today'' then
         (if args \<noteq> [] then type_error ''time.today() takes no arguments''
          else ibind (world_do (utc_now l)) (\<lambda>dt. iret (VDate (local_date l dt))))
       else if callee = ''parse'' then
         ibind (expect_string_value args 0 ''time.parse'') (\<lambda>input. parse_temporal_string l input)
       else if callee = ''date'' then
         time_parsed args ''time.date'' (\<lambda>i. map_option VDate (parse_date (lx l) i)) ''YYYY-MM-DD''
       else if callee = ''at'' then
         time_parsed args ''time.at'' (\<lambda>i. map_option VTime (parse_time (lx l) i)) ''HH:MM:SS''
       else if callee = ''instant'' then
         ibind (expect_string_value args 0 ''time.instant'') (\<lambda>input. parse_instant_string l input)
       else if callee = ''days'' then duration_from_unit l args ''time.days'' 86400000
       else if callee = ''hours'' then duration_from_unit l args ''time.hours'' 3600000
       else if callee = ''minutes'' then duration_from_unit l args ''time.minutes'' 60000
       else if callee = ''seconds'' then duration_from_unit l args ''time.seconds'' 1000
       else if callee = ''interval'' then time_interval args
       else if callee = ''contains'' then time_contains l args
       else if callee = ''overlaps'' then time_overlaps l args
       else if callee = ''format'' then
         (if args = [] then type_error ''time.format() requires value and mask''
          else ibind (expect_string_value args 1 ''time.format'') (\<lambda>msk.
               ibind (format_temporal_value l (hd args) msk) (\<lambda>str. iret (VString str))))
       else if callee = ''from_unix'' then
         ibind (expect_numeric_i64_value l args 0 ''time.from_unix'') (\<lambda>secs.
           case instant_from_timestamp l secs of
             Some dt \<Rightarrow> iret (VInstant dt)
           | None \<Rightarrow> type_error (''time.from_unix() received invalid epoch seconds '' @ in_quotes (i64_display secs)))
       else if callee = ''unix'' then
         (case args of
            [] \<Rightarrow> type_error ''time.unix() requires an instant''
          | v # _ \<Rightarrow>
              (case v of
                 VInstant dt \<Rightarrow> iret (VInteger (instant_timestamp l dt))
               | _ \<Rightarrow> type_error (''time.unix() requires Instant, got '' @ type_name v)))
       else no_property ''TimeNamespace'' callee)"

end
