(* ===== verification/Interp_Infra.thy ===== *)
theory Interp_Infra
  imports Interp_Numeric
begin

text \<open>
  \<^verbatim>\<open>src/src/interpreter/infra.rs\<close>: calls on the cache, the HTTP client, the document store and the
  relational database, the parameters of a native query, and the queue producers of
  \<^verbatim>\<open>src/src/interpreter.rs\<close>.
\<close>

subsection \<open>Interpolation\<close>

datatype segment = SegText char | SegSource string

text \<open>The text up to the matching closing brace, and what follows it.\<close>

fun take_braces :: "nat \<Rightarrow> string \<Rightarrow> string \<times> string" where
  "take_braces depth [] = ([], [])"
| "take_braces depth (c # cs) =
     (let depth' = (if c = CHR ''{'' then depth + 1 else if c = CHR ''}'' then depth - 1 else depth)
      in if depth' = 0 then ([], cs)
         else (case take_braces depth' cs of (inner, rest) \<Rightarrow> (c # inner, rest)))"

lemma take_braces_length: "length (snd (take_braces depth cs)) \<le> length cs"
  by (induction depth cs rule: take_braces.induct) (auto simp: Let_def split_beta)

function segments :: "string \<Rightarrow> segment list" where
  "segments [] = []"
| "segments (c # cs) =
     (if c = CHR ''#'' \<and> cs \<noteq> [] \<and> hd cs = CHR ''{'' then
        SegSource (fst (take_braces 1 (tl cs))) # segments (snd (take_braces 1 (tl cs)))
      else SegText c # segments cs)"
  by pat_completeness auto
termination
proof (relation "measure length")
  fix c :: char and cs :: string
  show "(snd (take_braces 1 (tl cs)), c # cs) \<in> measure length"
    using take_braces_length [of 1 "tl cs"] by (auto simp: less_Suc_eq_le)
qed auto

declare segments.simps [simp del]

text \<open>
  An expression given as text. The text is parsed as the right-hand side of an assignment; the
  parser never runs out of its fuel (\<open>Front_End\<close>), so that branch is dead.
\<close>

definition evaluate_source_expression ::
    "('d, 't, 'w) lib \<Rightarrow> ('d, 't, 'tx, 'w) evaluator \<Rightarrow> string \<Rightarrow> ('d, 't, 'tx, 'w, ('d, 't) val) im" where
  "evaluate_source_expression l ev src =
     (case parse_source (''__nq_param = '' @ src) of
        Inl (SourceError e) \<Rightarrow>
          type_error (''invalid expression in native_query #{'' @ src @ ''}: '' @ error_display (debug_kind l) e)
      | Inl SourcePanic \<Rightarrow> ithrow Panicked
      | Inl SourceFuel \<Rightarrow> ithrow Panicked
      | Inr (SAssignment _ value _ _ # _) \<Rightarrow> ev value
      | Inr _ \<Rightarrow> type_error (''could not parse expression in native_query #{'' @ src @ ''}''))"

primrec interpolate_segments ::
    "('d, 't, 'w) lib \<Rightarrow> ('d, 't, 'tx, 'w) evaluator \<Rightarrow> segment list \<Rightarrow> ('d, 't, 'tx, 'w, string) im" where
  "interpolate_segments l ev [] = iret []"
| "interpolate_segments l ev (seg # segs) =
     (case seg of
        SegText c \<Rightarrow> ibind (interpolate_segments l ev segs) (\<lambda>rest. iret (c # rest))
      | SegSource src \<Rightarrow>
          ibind (or_null (evaluate_source_expression l ev (trim src))) (\<lambda>v.
          ibind (interpolate_segments l ev segs) (\<lambda>rest. iret (display (lx l) v @ rest))))"

definition interpolate_string ::
    "('d, 't, 'w) lib \<Rightarrow> ('d, 't, 'tx, 'w) evaluator \<Rightarrow> string \<Rightarrow> ('d, 't, 'tx, 'w, ('d, 't) val) im" where
  "interpolate_string l ev str =
     (if \<not> str_contains str ''#{'' then iret (VString str)
      else ibind (interpolate_segments l ev (segments str)) (\<lambda>text. iret (VString text)))"

text \<open>The parameters of a native query: every interpolation becomes a placeholder.\<close>

primrec native_segments ::
    "('d, 't, 'w) lib \<Rightarrow> ('d, 't, 'tx, 'w) evaluator \<Rightarrow> segment list \<Rightarrow> nat \<Rightarrow>
     ('d, 't, 'tx, 'w, string \<times> ('d, 't) val list) im" where
  "native_segments l ev [] n = iret ([], [])"
| "native_segments l ev (seg # segs) n =
     (case seg of
        SegText c \<Rightarrow> ibind (native_segments l ev segs n) (\<lambda>(sql, params). iret (c # sql, params))
      | SegSource src \<Rightarrow>
          ibind (evaluate_source_expression l ev (trim src)) (\<lambda>v.
          ibind (native_segments l ev segs (n + 1)) (\<lambda>(sql, params).
            iret (''$'' @ nat_to_string (n + 1) @ sql, v # params))))"

definition extract_native_query_params ::
    "('d, 't, 'w) lib \<Rightarrow> ('d, 't, 'tx, 'w) evaluator \<Rightarrow> string \<Rightarrow> ('d, 't, 'tx, 'w, string \<times> ('d, 't) val list) im" where
  "extract_native_query_params l ev template =
     (if \<not> str_contains template ''#{'' then iret (template, [])
      else native_segments l ev (segments template) 0)"

text \<open>The template of a literal is taken as it is, before interpolation.\<close>

fun literal_template :: "expression argument list \<Rightarrow> string option" where
  "literal_template (Positional (EStringLiteral str) # _) = Some str"
| "literal_template _ = None"

definition native_query_template ::
    "('d, 't, 'tx, 'w) evaluator \<Rightarrow> expression argument list \<Rightarrow> ('d, 't, 'tx, 'w, string) im" where
  "native_query_template ev raw_args =
     (if raw_args = [] then type_error ''db.native_query requires a SQL string as the first argument''
      else case literal_template raw_args of
        Some str \<Rightarrow> iret str
      | None \<Rightarrow>
          ibind (evaluate_args ev raw_args) (\<lambda>args.
            case args of
              [] \<Rightarrow> ithrow Panicked
            | v # _ \<Rightarrow>
                (case v of
                   VString str \<Rightarrow> iret str
                 | _ \<Rightarrow> type_error (''db.native_query first argument must be a string, got '' @ type_name v))))"

definition dispatch_native_query ::
    "('d, 't, 'w) lib \<Rightarrow> ('d, 't, 'tx, 'w) evaluator \<Rightarrow> expression argument list \<Rightarrow>
     ('d, 't, 'tx, 'w, ('d, 't) val) im" where
  "dispatch_native_query l ev raw_args =
     ibind require_db_engine (\<lambda>engine.
     ibind (native_query_template ev raw_args) (\<lambda>template.
     ibind (extract_native_query_params l ev template) (\<lambda>(sql, params).
     ibind (db_do (\<lambda>tx. db_native_query engine tx sql params)) (\<lambda>rows.
       iret (VList (map db_row_to_value rows))))))"

subsection \<open>Cache\<close>

definition require_cache_driver :: "string \<Rightarrow> ('d, 't, 'tx, 'w, (('d, 't) val, 'w) cache_driver) im" where
  "require_cache_driver op =
     ibind (iask it_cache) (\<lambda>c. case c of
         Some driver \<Rightarrow> iret driver
       | None \<Rightarrow> fail_with (CacheError (''cache.* called but no cache is configured (set MARRETA_CACHE_PROVIDER, '' @
           ''MARRETA_CACHE_HOST, MARRETA_CACHE_PORT, and optional MARRETA_CACHE_PASSWORD)'') op))"

fun resolve_explicit_ttl :: "('d, 't) ext \<Rightarrow> (string \<times> ('d, 't) val) list \<Rightarrow> nat option" where
  "resolve_explicit_ttl x [] = None"
| "resolve_explicit_ttl x ((n, v) # named) =
     (case as_integer x v of
        Some secs \<Rightarrow> if n = ''ttl'' \<and> sint secs > 0 then Some (nat (sint secs)) else resolve_explicit_ttl x named
      | None \<Rightarrow> resolve_explicit_ttl x named)"

definition resolve_ttl ::
    "('d, 't, 'w) lib \<Rightarrow> (string \<times> ('d, 't) val) list \<Rightarrow> ('d, 't, 'tx, 'w, nat option) im" where
  "resolve_ttl l named =
     (case resolve_explicit_ttl (lx l) named of Some secs \<Rightarrow> iret (Some secs) | None \<Rightarrow> iask it_default_ttl)"

definition resolve_named_bool :: "('d, 't) ext \<Rightarrow> (string \<times> ('d, 't) val) list \<Rightarrow> string \<Rightarrow> bool" where
  "resolve_named_bool x named key \<longleftrightarrow> list_ex (\<lambda>(n, v). n = key \<and> is_truthy x v) named"

definition cache_error :: "string \<Rightarrow> string \<Rightarrow> ('d, 't, 'tx, 'w, 'a) im" where
  "cache_error op msg = fail_with (CacheError msg op)"

definition cache_do ::
    "string \<Rightarrow> ('w \<Rightarrow> (string + 'a) \<times> 'w) \<Rightarrow> ('d, 't, 'tx, 'w, 'a) im" where
  "cache_do op h = wrapped_do (\<lambda>msg. CacheError msg op) h"

text \<open>The key, the text of the first argument.\<close>

definition cache_key ::
    "('d, 't, 'w) lib \<Rightarrow> string \<Rightarrow> ('d, 't) val list \<Rightarrow> ('d, 't, 'tx, 'w, string) im" where
  "cache_key l op pos =
     (case pos of
        v # _ \<Rightarrow> iret (display (lx l) v)
      | [] \<Rightarrow> cache_error op (op @ '' requires a key argument''))"

definition or_null_value :: "('d, 't) val option \<Rightarrow> ('d, 't) val" where
  "or_null_value r = (case r of Some v \<Rightarrow> v | None \<Rightarrow> VNull)"

definition dispatch_cache ::
    "('d, 't, 'w) lib \<Rightarrow> ('d, 't, 'tx, 'w) evaluator \<Rightarrow> string \<Rightarrow> expression argument list \<Rightarrow>
     ('d, 't, 'tx, 'w, ('d, 't) val) im" where
  "dispatch_cache l ev callee args =
     (let op = ''cache.'' @ callee
      in ibind (require_cache_driver op) (\<lambda>driver.
         ibind (collect_args ev args) (\<lambda>(pos, named).
       if callee = ''get'' then
         ibind (cache_key l op pos) (\<lambda>key.
         ibind (cache_do op (cache_get driver key)) (\<lambda>r. iret (or_null_value r)))
       else if callee = ''set'' then
         ibind (cache_key l op pos) (\<lambda>key.
           if length pos < 2 then cache_error op ''cache.set requires a value argument''
           else ibind (resolve_ttl l named) (\<lambda>ttl.
             ibind (cache_do op (cache_set driver key (pos ! 1) ttl (resolve_named_bool (lx l) named ''only_if_absent'')))
               (\<lambda>r. iret (or_null_value r))))
       else if callee = ''delete'' then
         ibind (cache_key l op pos) (\<lambda>key.
         ibind (cache_do op (cache_delete driver key)) (\<lambda>b. iret (VBoolean b)))
       else if callee = ''exists'' then
         ibind (cache_key l op pos) (\<lambda>key.
         ibind (cache_do op (cache_exists driver key)) (\<lambda>b. iret (VBoolean b)))
       else if callee = ''ttl'' then
         ibind (cache_key l op pos) (\<lambda>key.
         ibind (cache_do op (cache_ttl driver key)) (\<lambda>ttl.
           iret (case ttl of Some secs \<Rightarrow> int_value (int secs) | None \<Rightarrow> VNull)))
       else if callee = ''expire'' then
         ibind (cache_key l op pos) (\<lambda>key.
           case resolve_explicit_ttl (lx l) named of
             None \<Rightarrow> cache_error op ''cache.expire requires ttl: N named argument''
           | Some secs \<Rightarrow> ibind (cache_do op (cache_expire driver key secs)) (\<lambda>b. iret (VBoolean b)))
       else if callee = ''incr'' then
         ibind (cache_key l op pos) (\<lambda>key.
         ibind (cache_do op (cache_incr driver key (resolve_named_i64 (lx l) named ''by'' 1)
             (resolve_explicit_ttl (lx l) named))) (\<lambda>n. iret (VInteger n)))
       else if callee = ''decr'' then
         ibind (cache_key l op pos) (\<lambda>key.
         ibind (cache_do op (cache_decr driver key (resolve_named_i64 (lx l) named ''by'' 1)
             (resolve_explicit_ttl (lx l) named))) (\<lambda>n. iret (VInteger n)))
       else if callee = ''get_many'' then
         (case pos of
            [] \<Rightarrow> cache_error op ''cache.get_many requires a list of keys''
          | VList items # _ \<Rightarrow>
              ibind (cache_do op (cache_get_many driver (map (display (lx l)) items))) (\<lambda>kvs.
                iret (map_from (map (map_prod id or_null_value) kvs)))
          | _ \<Rightarrow> cache_error op ''cache.get_many argument must be a list'')
       else if callee = ''set_many'' then
         (case pos of
            [] \<Rightarrow> cache_error op ''cache.set_many requires a map argument''
          | VMap m # _ \<Rightarrow>
              ibind (resolve_ttl l named) (\<lambda>ttl. iseq (cache_do op (cache_set_many driver m ttl)) (iret VNull))
          | _ \<Rightarrow> cache_error op ''cache.set_many argument must be a map'')
       else cache_error op (''unknown cache operation '' @ in_quotes callee))))"

text \<open>\<open>value >> cache.set("key")\<close>: the pipeline input is the value.\<close>

primrec collect_named ::
    "('d, 't, 'tx, 'w) evaluator \<Rightarrow> expression argument list \<Rightarrow> ('d, 't, 'tx, 'w, (string \<times> ('d, 't) val) list) im" where
  "collect_named ev [] = iret []"
| "collect_named ev (a # as) =
     (case a of
        Named n e \<Rightarrow> ibind (ev e) (\<lambda>v. ibind (collect_named ev as) (\<lambda>named. iret ((n, v) # named)))
      | Positional _ \<Rightarrow> collect_named ev as)"

definition cache_set_stage ::
    "('d, 't, 'w) lib \<Rightarrow> ('d, 't, 'tx, 'w) evaluator \<Rightarrow> expression argument list \<Rightarrow> ('d, 't) val \<Rightarrow>
     ('d, 't, 'tx, 'w, ('d, 't) val) im" where
  "cache_set_stage l ev args input =
     ibind (require_cache_driver ''cache.set'') (\<lambda>driver.
       case args of
         Positional e # rest \<Rightarrow>
           ibind (ev e) (\<lambda>key.
           ibind (collect_named ev rest) (\<lambda>named.
           ibind (resolve_ttl l named) (\<lambda>ttl.
             ibind (cache_do ''cache.set'' (cache_set driver (display (lx l) key) input ttl
                 (resolve_named_bool (lx l) named ''only_if_absent''))) (\<lambda>_. iret input))))
       | _ \<Rightarrow> cache_error ''cache.set'' ''cache.set in pipeline requires a key argument'')"

end
