(* ===== verification/Interp_Query.thy ===== *)
theory Interp_Query
  imports Interp_Infra
begin

text \<open>
  \<^verbatim>\<open>src/src/interpreter/infra.rs\<close>, second part, and the helpers of \<^verbatim>\<open>src/src/interpreter.rs\<close> for queries: the HTTP client, and the
  reading of filters from the arguments of a query.
\<close>

subsection \<open>HTTP client\<close>

definition http_client_error :: "string \<Rightarrow> string \<Rightarrow> ('d, 't, 'tx, 'w, 'a) im" where
  "http_client_error op msg = fail_with (HttpClientError msg op)"

definition require_http_client_driver :: "string \<Rightarrow> ('d, 't, 'tx, 'w, (('d, 't) val, 'w) http_driver) im" where
  "require_http_client_driver op =
     ibind (iask it_http) (\<lambda>h. case h of
         Some driver \<Rightarrow> iret driver
       | None \<Rightarrow> http_client_error op ''http_client.* called but no HTTP client is configured'')"

definition http_method_of :: "string \<Rightarrow> http_method option" where
  "http_method_of callee =
     map_of [(''get'', HmGet), (''post'', HmPost), (''put'', HmPut), (''patch'', HmPatch), (''delete'', HmDelete)] callee"

definition has_body :: "http_method \<Rightarrow> bool" where
  "has_body m \<longleftrightarrow> m = HmPost \<or> m = HmPut \<or> m = HmPatch"

text \<open>The entries of a map as texts, added to a \<open>HashMap\<close>.\<close>

definition add_texts ::
    "('d, 't) ext \<Rightarrow> (string \<Rightarrow> string) \<Rightarrow> ('d, 't) val value_map \<Rightarrow> (string \<times> string) list \<Rightarrow> (string \<times> string) list" where
  "add_texts x key m acc = fold (\<lambda>(k, v). AList.update (key k) (display x v)) m acc"

fun named_texts ::
    "('d, 't) ext \<Rightarrow> (string \<Rightarrow> string) \<Rightarrow> string \<Rightarrow> (string \<times> ('d, 't) val) list \<Rightarrow> (string \<times> string) list \<Rightarrow>
     (string \<times> string) list" where
  "named_texts x key label [] acc = acc"
| "named_texts x key label ((n, v) # named) acc =
     named_texts x key label named
       (if n = label then (case v of VMap m \<Rightarrow> add_texts x key m acc | _ \<Rightarrow> acc) else acc)"

text \<open>The child span of the active trace context; drawing its identifier reads the random source.\<close>

definition draw_outbound_child :: "('d, 't, 'w) lib \<Rightarrow> trace_context \<Rightarrow> ('d, 't, 'tx, 'w, trace_context) im" where
  "draw_outbound_child l ctx s =
     Option.bind (outbound_child (fill_random l) ctx (it_world s)) (\<lambda>(child, w). Some (Inr child, s\<lparr>it_world := w\<rparr>))"

definition insert_absent :: "string \<Rightarrow> 'v \<Rightarrow> (string \<times> 'v) list \<Rightarrow> (string \<times> 'v) list" where
  "insert_absent k v m = (if map_of m k = None then AList.update k v m else m)"

definition trace_headers ::
    "('d, 't, 'w) lib \<Rightarrow> (string \<times> string) list \<Rightarrow> ('d, 't, 'tx, 'w, (string \<times> string) list) im" where
  "trace_headers l headers =
     ibind (iask it_trace) (\<lambda>trace.
       case trace of
         None \<Rightarrow> iret headers
       | Some ctx \<Rightarrow>
           ibind (draw_outbound_child l ctx) (\<lambda>child.
             let h1 = insert_absent ''traceparent'' (traceparent child) headers
             in iret (case tc_tracestate child of Some ts \<Rightarrow> insert_absent ''tracestate'' ts h1 | None \<Rightarrow> h1)))"

definition request_timeout :: "('d, 't) ext \<Rightarrow> (string \<times> ('d, 't) val) list \<Rightarrow> nat option" where
  "request_timeout x named =
     (case find (\<lambda>(n, _). n = ''timeout'') named of
        Some (_, v) \<Rightarrow> (case as_integer x v of Some ms \<Rightarrow> if sint ms > 0 then Some (nat (sint ms)) else None | None \<Rightarrow> None)
      | None \<Rightarrow> None)"

definition http_response_to_value :: "('d, 't) val http_response \<Rightarrow> ('d, 't) val" where
  "http_response_to_value r =
     VMap [(''status'', int_value (uint (hr_status r))), (''body'', hr_body r),
           (''headers'', map_from (map (map_prod id VString) (hr_headers r)))]"

definition request_url :: "string \<Rightarrow> string \<Rightarrow> ('d, 't) val list \<Rightarrow> ('d, 't, 'tx, 'w, string) im" where
  "request_url op callee pos =
     (case pos of
        [] \<Rightarrow> http_client_error op (''http_client.'' @ callee @ '' requires a URL argument'')
      | v # _ \<Rightarrow>
          (case v of
             VString url \<Rightarrow> iret url
           | _ \<Rightarrow> http_client_error op (''http_client.'' @ callee @ '' first argument must be a URL string, got '' @ type_name v)))"

definition request_query ::
    "('d, 't, 'w) lib \<Rightarrow> string \<Rightarrow> string \<Rightarrow> http_method \<Rightarrow> ('d, 't) val option \<Rightarrow> (string \<times> ('d, 't) val) list \<Rightarrow>
     ('d, 't, 'tx, 'w, (string \<times> string) list) im" where
  "request_query l op callee m input named =
     (let base = named_texts (lx l) id ''query'' named []
      in case input of
        Some v \<Rightarrow>
          (if has_body m then iret base
           else (case v of
                   VMap kvs \<Rightarrow> iret (add_texts (lx l) id kvs base)
                 | _ \<Rightarrow> http_client_error op (''pipeline input to http_client.'' @ callee @
                           '' must be a Map (query params), got '' @ type_name v)))
      | None \<Rightarrow> iret base)"

definition dispatch_http_client_with_pipeline ::
    "('d, 't, 'w) lib \<Rightarrow> ('d, 't, 'tx, 'w) evaluator \<Rightarrow> string \<Rightarrow> expression argument list \<Rightarrow> ('d, 't) val option \<Rightarrow>
     ('d, 't, 'tx, 'w, ('d, 't) val) im" where
  "dispatch_http_client_with_pipeline l ev callee args input =
     (let op = ''http_client.'' @ callee
      in case http_method_of callee of
        None \<Rightarrow> http_client_error op (''unknown http_client operation '' @ in_quotes callee @
                  ''. Valid: get, post, put, patch, delete'')
      | Some m \<Rightarrow>
          ibind (require_http_client_driver op) (\<lambda>driver.
          ibind (collect_args ev args) (\<lambda>(pos, named).
          ibind (request_url op callee pos) (\<lambda>url.
          ibind (request_query l op callee m input named) (\<lambda>query.
          ibind (trace_headers l (named_texts (lx l) (str_lower (lx l)) ''headers'' named [])) (\<lambda>headers.
          ibind (wrapped_do (\<lambda>msg. HttpClientError msg op)
              (http_execute driver
                \<lparr>hq_method = m, hq_url = url,
                 hq_body = (if has_body m then
                              (case input of Some v \<Rightarrow> Some v
                               | None \<Rightarrow> if 1 < length pos then Some (pos ! 1) else None)
                            else None),
                 hq_headers = headers, hq_query = query, hq_timeout = request_timeout (lx l) named\<rparr>)) (\<lambda>response.
            iret (http_response_to_value response))))))))"

subsection \<open>Filters\<close>

definition filter_op_of :: "binary_operator \<Rightarrow> filter_op option" where
  "filter_op_of op =
     (case op of
        BGreater \<Rightarrow> Some OpGt | BGreaterEqual \<Rightarrow> Some OpGte | BLess \<Rightarrow> Some OpLt | BLessEqual \<Rightarrow> Some OpLte
      | BNotEqual \<Rightarrow> Some OpNe | BEqual \<Rightarrow> Some OpEq | _ \<Rightarrow> None)"

definition extract_filter_from_expr ::
    "('d, 't, 'w) lib \<Rightarrow> ('d, 't, 'tx, 'w) evaluator \<Rightarrow> expression \<Rightarrow> ('d, 't, 'tx, 'w, ('d, 't) val filter_clause) im" where
  "extract_filter_from_expr l ev e =
     (case e of
        EBinaryOp left op right \<Rightarrow>
          (case filter_op_of op of
             None \<Rightarrow> type_error (''unsupported operator '' @ debug_operator l op @ '' in where() '' @ em_dash @
                       '' supported: >, >=, <, <=, !=, =='')
           | Some fop \<Rightarrow>
               (case left of
                  EIdentifier column \<Rightarrow> ibind (ev right) (\<lambda>v. iret (FilterClause column fop v))
                | _ \<Rightarrow> type_error (''left side of where() filter must be a column identifier '' @ ''(e.g. total > 1000)'')))
      | _ \<Rightarrow> type_error (''unsupported expression in where() '' @ em_dash @ '' use '' @ in_quotes ''col > val'' @ '' or '' @
               in_quotes ''col: val'' @ '' (got '' @ debug_expression l e @ '')''))"

definition parse_where_args ::
    "('d, 't, 'w) lib \<Rightarrow> ('d, 't, 'tx, 'w) evaluator \<Rightarrow> expression argument list \<Rightarrow>
     ('d, 't, 'tx, 'w, ('d, 't) val filter_clause list) im" where
  "parse_where_args l ev args =
     imap (\<lambda>a. case a of
                 Named n e \<Rightarrow> ibind (ev e) (\<lambda>v. iret (FilterClause n OpEq v))
               | Positional e \<Rightarrow> extract_filter_from_expr l ev e) args"

definition args_to_equality_filters ::
    "('d, 't, 'tx, 'w) evaluator \<Rightarrow> expression argument list \<Rightarrow> ('d, 't, 'tx, 'w, ('d, 't) val filter_clause list) im" where
  "args_to_equality_filters ev args =
     imap (\<lambda>a. case a of
                 Named n e \<Rightarrow> ibind (ev e) (\<lambda>v. iret (FilterClause n OpEq v))
               | Positional e \<Rightarrow> type_error (''find_all filters must be named arguments (e.g. find_all(status: '' @
                   quote ''active'' @ ''))'')) args"

definition doc_filter_of :: "binary_operator \<Rightarrow> string \<Rightarrow> 'v \<Rightarrow> 'v doc_filter option" where
  "doc_filter_of op column v =
     (case op of
        BGreater \<Rightarrow> Some (DfGt column v) | BGreaterEqual \<Rightarrow> Some (DfGte column v) | BLess \<Rightarrow> Some (DfLt column v)
      | BLessEqual \<Rightarrow> Some (DfLte column v) | BNotEqual \<Rightarrow> Some (DfNe column v) | BEqual \<Rightarrow> Some (DfEq column v)
      | _ \<Rightarrow> None)"

definition extract_doc_filter_from_expr ::
    "('d, 't, 'w) lib \<Rightarrow> ('d, 't, 'tx, 'w) evaluator \<Rightarrow> expression \<Rightarrow> ('d, 't, 'tx, 'w, ('d, 't) val doc_filter) im" where
  "extract_doc_filter_from_expr l ev e =
     (case e of
        EBinaryOp left op right \<Rightarrow>
          (case left of
             EStringLiteral column \<Rightarrow>
               ibind (ev right) (\<lambda>v.
                 case doc_filter_of op column v of
                   Some f \<Rightarrow> iret f
                 | None \<Rightarrow> type_error (''unsupported operator '' @ debug_operator l op @ '' in where()''))
           | EIdentifier _ \<Rightarrow> type_error (''doc.* where() requires string field names '' @ em_dash @ '' use where('' @
               quote ''field'' @ '' == value) not where(field == value). String field names support dot-notation paths like '' @
               quote ''address.city'' @ ''.'')
           | _ \<Rightarrow> type_error (''left side of doc where() filter must be a string field name, e.g. where('' @
               quote ''status'' @ '' == '' @ quote ''pending'' @ '')''))
      | _ \<Rightarrow> type_error ''unsupported expression in where()'')"

definition parse_doc_where_args ::
    "('d, 't, 'w) lib \<Rightarrow> ('d, 't, 'tx, 'w) evaluator \<Rightarrow> expression argument list \<Rightarrow>
     ('d, 't, 'tx, 'w, ('d, 't) val doc_filter list) im" where
  "parse_doc_where_args l ev args =
     imap (\<lambda>a. case a of
                 Named _ _ \<Rightarrow> type_error (''doc.* where() requires string field names '' @ em_dash @ '' use where('' @
                   quote ''field'' @ '' == value) instead of named arguments'')
               | Positional e \<Rightarrow> extract_doc_filter_from_expr l ev e) args"

fun extract_named_string_arg ::
    "('d, 't, 'tx, 'w) evaluator \<Rightarrow> expression argument list \<Rightarrow> string \<Rightarrow> ('d, 't, 'tx, 'w, string option) im" where
  "extract_named_string_arg ev [] key = iret None"
| "extract_named_string_arg ev (Positional e # args) key = extract_named_string_arg ev args key"
| "extract_named_string_arg ev (Named n e # args) key =
     (if n = key then
        ibind (ev e) (\<lambda>v.
          case v of
            VString str \<Rightarrow> iret (Some str)
          | _ \<Rightarrow> type_error (in_quotes (key @ '':'') @ '' argument must be a string, got '' @ type_name v))
      else extract_named_string_arg ev args key)"

end
