(* ===== verification/Doc_Bson.thy ===== *)
theory Doc_Bson
  imports Json Error_Text Value_Methods
begin

text \<open>
  The document store: the conversion between values and BSON (\<^verbatim>\<open>src/src/doc/bson.rs\<close>) and the MQL documents
  that \<^verbatim>\<open>src/src/doc/mongodb.rs\<close> builds from a query and from the stages of \<open>doc.pipeline\<close>.

  The types of the crate \<open>bson\<close> that the code only passes on are parameters: object ids \<open>'o\<close> and 128-bit
  decimals \<open>'n\<close>. A document keeps the order of first insertion, like an \<open>IndexMap\<close>.
\<close>

datatype (plugins only: code size) ('o, 'n) bson =
    BsonNull
  | BsonBoolean bool
  | BsonInt32 "32 word"
  | BsonInt64 i64
  | BsonDouble f64
  | BsonDecimal128 'n
  | BsonString string
  | BsonObjectId 'o
  | BsonDateTime i64
  | BsonSymbol string
  | BsonRegularExpression string string
  | BsonArray "('o, 'n) bson list"
  | BsonDocument "(string \<times> ('o, 'n) bson) list"
  | BsonOther

record ('t, 'o, 'n) bson_lib =
  oid_parse :: "string \<Rightarrow> 'o option"
  oid_to_hex :: "'o \<Rightarrow> string"
  dec128_parse :: "string \<Rightarrow> 'n option"
  dec128_to_string :: "'n \<Rightarrow> string"
  timestamp_millis :: "'t \<Rightarrow> i64"
  instant_of_millis :: "i64 \<Rightarrow> 't"

subsection \<open>Values and BSON\<close>

definition is_id_key :: "string \<Rightarrow> bool" where
  "is_id_key k \<longleftrightarrow> k = ''_id'' \<or> k = ''id''"

text \<open>A string under an id key that reads as an object id becomes one.\<close>

fun cast_id :: "('t, 'o, 'n) bson_lib \<Rightarrow> string \<Rightarrow> ('o, 'n) bson \<Rightarrow> ('o, 'n) bson" where
  "cast_id b k (BsonString s) =
     (if is_id_key k then (case oid_parse b s of Some oid \<Rightarrow> BsonObjectId oid | None \<Rightarrow> BsonString s) else BsonString s)"
| "cast_id b k v = v"

text \<open>
  In a map the cast applies to a value that is a string, not to one whose BSON is a string (a date).
\<close>

primrec is_string_value :: "('d, 't) val \<Rightarrow> bool" where
  "is_string_value (VString _) = True"
| "is_string_value (VInteger _) = False"
| "is_string_value (VFloat _) = False"
| "is_string_value (VDecimal _) = False"
| "is_string_value (VBoolean _) = False"
| "is_string_value (VInstant _) = False"
| "is_string_value (VDate _) = False"
| "is_string_value (VTime _) = False"
| "is_string_value (VDuration _) = False"
| "is_string_value (VInterval _) = False"
| "is_string_value VNull = False"
| "is_string_value (VList _) = False"
| "is_string_value (VMap _) = False"
| "is_string_value (VRelationalRecord _ _) = False"
| "is_string_value (VTask _ _ _ _ _ _ _) = False"
| "is_string_value (VDbTable _) = False"
| "is_string_value (VRelationHandle _) = False"
| "is_string_value (VQueryBuilder _) = False"
| "is_string_value (VDocCollection _) = False"
| "is_string_value (VDocQueryBuilder _) = False"
| "is_string_value (VNamespace _) = False"

primrec value_to_bson :: "('t, 'o, 'n) bson_lib \<Rightarrow> ('d, 't) ext \<Rightarrow> ('d, 't) val \<Rightarrow> ('o, 'n) bson" where
  "value_to_bson b x VNull = BsonNull"
| "value_to_bson b x (VBoolean v) = BsonBoolean v"
| "value_to_bson b x (VInteger i) = BsonInt64 i"
| "value_to_bson b x (VFloat f) = BsonDouble f"
| "value_to_bson b x (VDecimal d) =
     (case dec128_parse b (dec_to_string x d) of Some n \<Rightarrow> BsonDecimal128 n | None \<Rightarrow> BsonNull)"
| "value_to_bson b x (VString s) = BsonString s"
| "value_to_bson b x (VInstant dt) = BsonDateTime (timestamp_millis b dt)"
| "value_to_bson b x (VDate d) = BsonString (fmt_date x d)"
| "value_to_bson b x (VTime t) = BsonString (fmt_time x t)"
| "value_to_bson b x (VDuration d) = BsonInt64 (dur_num_milliseconds x d)"
| "value_to_bson b x (VInterval i) =
     BsonDocument [(''start'', BsonString (temporal_value_to_string x (ti_start i))),
                   (''end'', BsonString (temporal_value_to_string x (ti_end i)))]"
| "value_to_bson b x (VList l) = BsonArray (map (value_to_bson b x) l)"
| "value_to_bson b x (VMap m) =
     BsonDocument (index_map_of (map (\<lambda>(k, is_str, bv). (k, if is_str then cast_id b k bv else bv))
       (map (map_prod id (\<lambda>v. (is_string_value v, value_to_bson b x v))) m)))"
| "value_to_bson b x (VRelationalRecord _ _) = BsonNull"
| "value_to_bson b x (VTask _ _ _ _ _ _ _) = BsonNull"
| "value_to_bson b x (VDbTable _) = BsonNull"
| "value_to_bson b x (VRelationHandle _) = BsonNull"
| "value_to_bson b x (VQueryBuilder _) = BsonNull"
| "value_to_bson b x (VDocCollection _) = BsonNull"
| "value_to_bson b x (VDocQueryBuilder _) = BsonNull"
| "value_to_bson b x (VNamespace _) = BsonNull"

primrec bson_to_value :: "('t, 'o, 'n) bson_lib \<Rightarrow> ('d, 't) ext \<Rightarrow> ('o, 'n) bson \<Rightarrow> ('d, 't) val" where
  "bson_to_value b x (BsonDouble f) = VFloat f"
| "bson_to_value b x (BsonDecimal128 n) =
     (case dec_parse x (dec128_to_string b n) of Some d \<Rightarrow> VDecimal d | None \<Rightarrow> VNull)"
| "bson_to_value b x (BsonString s) = VString s"
| "bson_to_value b x (BsonArray l) = VList (map (bson_to_value b x) l)"
| "bson_to_value b x (BsonDocument m) = VMap (index_map_of (map (map_prod id (bson_to_value b x)) m))"
| "bson_to_value b x (BsonBoolean v) = VBoolean v"
| "bson_to_value b x BsonNull = VNull"
| "bson_to_value b x (BsonInt32 i) = VInteger (scast i)"
| "bson_to_value b x (BsonInt64 i) = VInteger i"
| "bson_to_value b x (BsonObjectId oid) = VString (oid_to_hex b oid)"
| "bson_to_value b x (BsonDateTime ms) = VInstant (instant_of_millis b ms)"
| "bson_to_value b x (BsonSymbol s) = VString s"
| "bson_to_value b x (BsonRegularExpression pattern options) = VString pattern"
| "bson_to_value b x BsonOther = VNull"

subsection \<open>Stages of doc.pipeline\<close>

definition db_err :: "string \<Rightarrow> marreta_error + 'a" where
  "db_err msg = Inl (DbError msg ''doc.pipeline'')"

definition accumulator_mql_key :: "string \<Rightarrow> string option" where
  "accumulator_mql_key k =
     map_of [(''sum'', ''$sum''), (''avg'', ''$avg''), (''min'', ''$min''), (''max'', ''$max''), (''first'', ''$first''),
             (''last'', ''$last''), (''push'', ''$push''), (''addToSet'', ''$addToSet''), (''count'', ''$sum'')] k"

definition mql_key :: "string \<Rightarrow> string" where
  "mql_key k = (case accumulator_mql_key k of Some op \<Rightarrow> op | None \<Rightarrow> k)"

primrec translate_stage_value_to_bson ::
    "('t, 'o, 'n) bson_lib \<Rightarrow> ('d, 't) ext \<Rightarrow> ('d, 't) val \<Rightarrow> ('o, 'n) bson" where
  "translate_stage_value_to_bson b x (VMap m) =
     BsonDocument (index_map_of (map (map_prod mql_key id) (map (map_prod id (translate_stage_value_to_bson b x)) m)))"
| "translate_stage_value_to_bson b x (VList l) = BsonArray (map (translate_stage_value_to_bson b x) l)"
| "translate_stage_value_to_bson b x (VInteger i) = value_to_bson b x (VInteger i)"
| "translate_stage_value_to_bson b x (VFloat f) = value_to_bson b x (VFloat f)"
| "translate_stage_value_to_bson b x (VDecimal d) = value_to_bson b x (VDecimal d)"
| "translate_stage_value_to_bson b x (VString s) = value_to_bson b x (VString s)"
| "translate_stage_value_to_bson b x (VBoolean v) = value_to_bson b x (VBoolean v)"
| "translate_stage_value_to_bson b x (VInstant dt) = value_to_bson b x (VInstant dt)"
| "translate_stage_value_to_bson b x (VDate d) = value_to_bson b x (VDate d)"
| "translate_stage_value_to_bson b x (VTime t) = value_to_bson b x (VTime t)"
| "translate_stage_value_to_bson b x (VDuration d) = value_to_bson b x (VDuration d)"
| "translate_stage_value_to_bson b x (VInterval i) = value_to_bson b x (VInterval i)"
| "translate_stage_value_to_bson b x VNull = value_to_bson b x VNull"
| "translate_stage_value_to_bson b x (VRelationalRecord n m) = value_to_bson b x (VRelationalRecord n m)"
| "translate_stage_value_to_bson b x (VTask n p bd om s li c) = value_to_bson b x (VTask n p bd om s li c)"
| "translate_stage_value_to_bson b x (VDbTable t) = value_to_bson b x (VDbTable t)"
| "translate_stage_value_to_bson b x (VRelationHandle r) = value_to_bson b x (VRelationHandle r)"
| "translate_stage_value_to_bson b x (VQueryBuilder q) = value_to_bson b x (VQueryBuilder q)"
| "translate_stage_value_to_bson b x (VDocCollection c) = value_to_bson b x (VDocCollection c)"
| "translate_stage_value_to_bson b x (VDocQueryBuilder q) = value_to_bson b x (VDocQueryBuilder q)"
| "translate_stage_value_to_bson b x (VNamespace n) = value_to_bson b x (VNamespace n)"

definition translate_stage_value_to_doc ::
    "('t, 'o, 'n) bson_lib \<Rightarrow> ('d, 't) ext \<Rightarrow> ('d, 't) val \<Rightarrow> marreta_error + (string \<times> ('o, 'n) bson) list" where
  "translate_stage_value_to_doc b x v =
     (case v of
        VMap m \<Rightarrow> Inr (index_map_of (map (map_prod id (translate_stage_value_to_bson b x)) m))
      | _ \<Rightarrow> db_err (''expected a map for stage inner value, got '' @ type_name v))"

definition dollar :: "string \<Rightarrow> string" where
  "dollar field = (if take 1 field = ''$'' then field else ''$'' @ field)"

definition translate_lookup ::
    "('t, 'o, 'n) bson_lib \<Rightarrow> ('d, 't) ext \<Rightarrow> ('d, 't) val \<Rightarrow> marreta_error + (string \<times> ('o, 'n) bson) list" where
  "translate_lookup b x v =
     (case v of
        VMap m \<Rightarrow>
          Inr (index_map_of (map (\<lambda>(k, inner).
            (if k = ''local'' then ''localField'' else if k = ''foreign'' then ''foreignField'' else k,
             value_to_bson b x inner)) m))
      | _ \<Rightarrow> db_err ''lookup stage value must be a map'')"

definition group_id :: "('t, 'o, 'n) bson_lib \<Rightarrow> ('d, 't) ext \<Rightarrow> ('d, 't) val \<Rightarrow> ('o, 'n) bson" where
  "group_id b x v =
     (case v of VNull \<Rightarrow> BsonNull | VString s \<Rightarrow> BsonString (dollar s) | _ \<Rightarrow> value_to_bson b x v)"

definition translate_group ::
    "('t, 'o, 'n) bson_lib \<Rightarrow> ('d, 't) ext \<Rightarrow> ('d, 't) val \<Rightarrow> marreta_error + (string \<times> ('o, 'n) bson) list" where
  "translate_group b x v =
     (case v of
        VMap m \<Rightarrow>
          Inr (index_map_of (map (\<lambda>(k, inner).
            if k = ''by'' then (''_id'', group_id b x inner) else (k, translate_stage_value_to_bson b x inner)) m))
      | _ \<Rightarrow> db_err ''group stage value must be a map'')"

definition bucket_entry ::
    "('t, 'o, 'n) bson_lib \<Rightarrow> ('d, 't) ext \<Rightarrow> string \<times> ('d, 't) val \<Rightarrow> marreta_error + string \<times> ('o, 'n) bson" where
  "bucket_entry b x kv =
     (case kv of (k, inner) \<Rightarrow>
        if k = ''by'' then Inr (''groupBy'', value_to_bson b x inner)
        else if k = ''output'' then
          map_sum id (\<lambda>doc. (''output'', BsonDocument doc)) (translate_stage_value_to_doc b x inner)
        else Inr (k, translate_stage_value_to_bson b x inner))"

definition translate_bucket ::
    "('t, 'o, 'n) bson_lib \<Rightarrow> ('d, 't) ext \<Rightarrow> ('d, 't) val \<Rightarrow> marreta_error + (string \<times> ('o, 'n) bson) list" where
  "translate_bucket b x v =
     (case v of
        VMap m \<Rightarrow> map_sum id index_map_of (rmap (bucket_entry b x) m)
      | _ \<Rightarrow> db_err ''bucket stage value must be a map'')"

definition extract_i64 :: "('d, 't) val \<Rightarrow> string \<Rightarrow> marreta_error + i64" where
  "extract_i64 v stage =
     (case v of
        VInteger n \<Rightarrow> Inr n
      | _ \<Rightarrow> db_err (''doc.pipeline '' @ single_quoted stage @ '' stage expects an integer value''))"

definition extract_string :: "('d, 't) val \<Rightarrow> string \<Rightarrow> marreta_error + string" where
  "extract_string v stage =
     (case v of
        VString s \<Rightarrow> Inr s
      | _ \<Rightarrow> db_err (''doc.pipeline '' @ single_quoted stage @ '' stage expects a string value''))"

text \<open>The stage document \<open>{ op: inner }\<close>.\<close>

definition stage_doc :: "string \<Rightarrow> ('a \<Rightarrow> ('o, 'n) bson) \<Rightarrow> marreta_error + 'a \<Rightarrow> marreta_error + (string \<times> ('o, 'n) bson) list" where
  "stage_doc op f r = map_sum id (\<lambda>a. [(op, f a)]) r"

definition translate_pipeline_stage ::
    "('t, 'o, 'n) bson_lib \<Rightarrow> ('d, 't) ext \<Rightarrow> ('d, 't) val \<Rightarrow> marreta_error + (string \<times> ('o, 'n) bson) list" where
  "translate_pipeline_stage b x stage =
     (case stage of
        VMap m \<Rightarrow>
          (case m of
             [(key, inner)] \<Rightarrow>
               (if key = ''match'' then stage_doc ''$match'' BsonDocument (translate_stage_value_to_doc b x inner)
                else if key = ''sort'' then stage_doc ''$sort'' BsonDocument (translate_stage_value_to_doc b x inner)
                else if key = ''limit'' then stage_doc ''$limit'' BsonInt64 (extract_i64 inner ''limit'')
                else if key = ''skip'' then stage_doc ''$skip'' BsonInt64 (extract_i64 inner ''skip'')
                else if key = ''unwind'' then
                  stage_doc ''$unwind'' (\<lambda>field. BsonString (dollar field)) (extract_string inner ''unwind'')
                else if key = ''add_fields'' then stage_doc ''$addFields'' BsonDocument (translate_stage_value_to_doc b x inner)
                else if key = ''project'' then stage_doc ''$project'' BsonDocument (translate_stage_value_to_doc b x inner)
                else if key = ''count'' then stage_doc ''$count'' BsonString (extract_string inner ''count'')
                else if key = ''lookup'' then stage_doc ''$lookup'' BsonDocument (translate_lookup b x inner)
                else if key = ''group'' then stage_doc ''$group'' BsonDocument (translate_group b x inner)
                else if key = ''bucket'' then stage_doc ''$bucket'' BsonDocument (translate_bucket b x inner)
                else db_err (''unknown doc.pipeline stage '' @ single_quoted key @ '' '' @ em_dash @
                  '' supported: match, sort, limit, skip, unwind, add_fields, project, count, lookup, group, bucket''))
           | _ \<Rightarrow> db_err (''doc.pipeline stage map must have exactly one key, got '' @ nat_to_string (length m)))
      | _ \<Rightarrow> db_err ''doc.pipeline stage must be a map (e.g. { match: { ... } })'')"

text \<open>
  The interpreter translates every stage before it runs any, only for the errors. They do not depend on
  how object ids and decimals are represented, so the check fixes a representation.
\<close>

definition null_bson_lib :: "('t, unit, unit) bson_lib" where
  "null_bson_lib = \<lparr>oid_parse = (\<lambda>_. None), oid_to_hex = (\<lambda>_. []), dec128_parse = (\<lambda>_. None),
     dec128_to_string = (\<lambda>_. []), timestamp_millis = (\<lambda>_. 0), instant_of_millis = (\<lambda>_. undefined)\<rparr>"

definition check_pipeline_stage :: "('d, 't) ext \<Rightarrow> ('d, 't) val \<Rightarrow> marreta_error + unit" where
  "check_pipeline_stage x stage = map_sum id (\<lambda>_. ()) (translate_pipeline_stage null_bson_lib x stage)"

subsection \<open>Filters, options and aggregations\<close>

definition compare_doc :: "string \<Rightarrow> string \<Rightarrow> ('o, 'n) bson \<Rightarrow> ('o, 'n) bson" where
  "compare_doc field op v = BsonDocument [(field, BsonDocument [(op, v)])]"

text \<open>\<open>v.replace("%", ".*").replace("_", ".")\<close>.\<close>

definition like_pattern :: "string \<Rightarrow> string" where
  "like_pattern v =
     map (\<lambda>c. if c = CHR ''_'' then CHR ''.'' else c) (concat (map (\<lambda>c. if c = CHR ''%'' then ''.*'' else [c]) v))"

fun filter_doc :: "('t, 'o, 'n) bson_lib \<Rightarrow> ('d, 't) ext \<Rightarrow> ('d, 't) val doc_filter \<Rightarrow> ('o, 'n) bson" where
  "filter_doc b x (DfEq f v) = compare_doc f ''$eq'' (cast_id b f (value_to_bson b x v))"
| "filter_doc b x (DfNe f v) = compare_doc f ''$ne'' (cast_id b f (value_to_bson b x v))"
| "filter_doc b x (DfGt f v) = compare_doc f ''$gt'' (value_to_bson b x v)"
| "filter_doc b x (DfGte f v) = compare_doc f ''$gte'' (value_to_bson b x v)"
| "filter_doc b x (DfLt f v) = compare_doc f ''$lt'' (value_to_bson b x v)"
| "filter_doc b x (DfLte f v) = compare_doc f ''$lte'' (value_to_bson b x v)"
| "filter_doc b x (DfLike f v) =
     BsonDocument [(f, BsonDocument [(''$regex'', BsonString (like_pattern v)), (''$options'', BsonString ''i'')])]"
| "filter_doc b x (DfIn f vs) =
     compare_doc f ''$in'' (BsonArray (map (\<lambda>v. cast_id b f (value_to_bson b x v)) vs))"

definition build_query_filter ::
    "('t, 'o, 'n) bson_lib \<Rightarrow> ('d, 't) ext \<Rightarrow> ('d, 't) val doc_query_state \<Rightarrow> (string \<times> ('o, 'n) bson) list" where
  "build_query_filter b x q =
     (if dq_filters q = [] then [] else [(''$and'', BsonArray (map (filter_doc b x) (dq_filters q)))])"

record ('o, 'n) find_options =
  fo_sort :: "(string \<times> ('o, 'n) bson) list option"
  fo_limit :: "i64 option"
  fo_skip :: "64 word option"
  fo_projection :: "(string \<times> ('o, 'n) bson) list option"

definition sort_order :: "sort_direction \<Rightarrow> ('o, 'n) bson" where
  "sort_order dir = BsonInt32 (if dir = Asc then 1 else - 1)"

definition build_query_options :: "('d, 't) val doc_query_state \<Rightarrow> ('o, 'n) find_options" where
  "build_query_options q =
     \<lparr>fo_sort = map_option (\<lambda>(field, dir). [(field, sort_order dir)]) (dq_sort q),
      fo_limit = dq_limit q, fo_skip = dq_offset q,
      fo_projection = map_option (\<lambda>cols. index_map_of (map (\<lambda>p. (p, BsonInt32 1)) cols)) (dq_projection q)\<rparr>"

fun accumulator_doc :: "accumulator \<Rightarrow> string \<times> ('o, 'n) bson" where
  "accumulator_doc (AccSum field alias) = (alias, BsonDocument [(''$sum'', BsonString (''$'' @ field))])"
| "accumulator_doc (AccAvg field alias) = (alias, BsonDocument [(''$avg'', BsonString (''$'' @ field))])"
| "accumulator_doc (AccMin field alias) = (alias, BsonDocument [(''$min'', BsonString (''$'' @ field))])"
| "accumulator_doc (AccMax field alias) = (alias, BsonDocument [(''$max'', BsonString (''$'' @ field))])"
| "accumulator_doc (AccCount alias) = (alias, BsonDocument [(''$sum'', BsonInt32 1)])"

definition aggregate_stages ::
    "('t, 'o, 'n) bson_lib \<Rightarrow> ('d, 't) ext \<Rightarrow> ('d, 't) val doc_query_state \<Rightarrow> (string \<times> ('o, 'n) bson) list list" where
  "aggregate_stages b x q =
     (case build_query_filter b x q of [] \<Rightarrow> [] | conds \<Rightarrow> [[(''$match'', BsonDocument conds)]]) @
     [[(''$group'', BsonDocument (index_map_of
        ((''_id'', case dq_group_by q of Some field \<Rightarrow> BsonString (''$'' @ field) | None \<Rightarrow> BsonNull) #
         map accumulator_doc (dq_accumulators q))))]] @
     (case dq_post_sort q of
        Some (field, dir) \<Rightarrow> [[(''$sort'', BsonDocument [(field, sort_order dir)])]] | None \<Rightarrow> []) @
     (case dq_post_limit q of Some n \<Rightarrow> [[(''$limit'', BsonInt64 n)]] | None \<Rightarrow> [])"

subsection \<open>Properties\<close>

lemma stage_doc_errors: "map_sum id (\<lambda>_. ()) (stage_doc op f r) = map_sum id (\<lambda>_. ()) r"
  by (cases r) (simp_all add: stage_doc_def)

lemma stage_value_errors:
  "map_sum id (\<lambda>_. ()) (translate_stage_value_to_doc b x v) =
   map_sum id (\<lambda>_. ()) (translate_stage_value_to_doc b' x v)"
  by (cases v) (simp_all add: translate_stage_value_to_doc_def db_err_def)

lemma lookup_errors:
  "map_sum id (\<lambda>_. ()) (translate_lookup b x v) = map_sum id (\<lambda>_. ()) (translate_lookup b' x v)"
  by (cases v) (simp_all add: translate_lookup_def db_err_def)

lemma group_errors:
  "map_sum id (\<lambda>_. ()) (translate_group b x v) = map_sum id (\<lambda>_. ()) (translate_group b' x v)"
  by (cases v) (simp_all add: translate_group_def db_err_def)

lemma rmap_errors:
  assumes "\<And>a. map_sum id (\<lambda>_. ()) (f a) = map_sum id (\<lambda>_. ()) (g a)"
  shows "map_sum id (\<lambda>_. ()) (rmap f xs) = map_sum id (\<lambda>_. ()) (rmap g xs)"
proof (induction xs)
  case (Cons a xs)
  then show ?case
    using assms [of a] by (cases "f a"; cases "g a"; cases "rmap f xs"; cases "rmap g xs") auto
qed simp

lemma mapped_errors: "map_sum id (\<lambda>_. ()) (map_sum id h r) = map_sum id (\<lambda>_. ()) r"
  by (cases r) simp_all

lemma bucket_entry_errors:
  "map_sum id (\<lambda>_. ()) (bucket_entry b x kv) = map_sum id (\<lambda>_. ()) (bucket_entry b' x kv)"
proof (cases kv)
  case (Pair k inner)
  from stage_value_errors [of b x inner b'] show ?thesis
    unfolding bucket_entry_def Pair prod.case
    by (simp only: if_distrib [of "map_sum id (\<lambda>_. ())"] map_sum.simps mapped_errors)
qed

lemma bucket_errors:
  "map_sum id (\<lambda>_. ()) (translate_bucket b x v) = map_sum id (\<lambda>_. ()) (translate_bucket b' x v)"
proof -
  have "map_sum id (\<lambda>_. ()) (map_sum id h (rmap (bucket_entry b x) m)) =
      map_sum id (\<lambda>_. ()) (map_sum id h' (rmap (bucket_entry b' x) m))" for h h' m
    using rmap_errors [of "bucket_entry b x" "bucket_entry b' x" m, OF bucket_entry_errors]
    by (cases "rmap (bucket_entry b x) m"; cases "rmap (bucket_entry b' x) m") simp_all
  then show ?thesis by (cases v) (simp_all add: translate_bucket_def db_err_def)
qed

lemma stage_errors_independent:
  "map_sum id (\<lambda>_. ()) (translate_pipeline_stage b x stage) =
   map_sum id (\<lambda>_. ()) (translate_pipeline_stage b' x stage)"
  unfolding translate_pipeline_stage_def
  by (cases stage)
    (auto simp: stage_doc_errors db_err_def stage_value_errors [of b x _ b'] lookup_errors [of b x _ b']
      group_errors [of b x _ b'] bucket_errors [of b x _ b'] split: list.split)

end
