(* ===== verification/Interp_Stages.thy ===== *)
theory Interp_Stages
  imports Interp_Query Doc_Bson
begin

text \<open>
  \<^verbatim>\<open>src/src/interpreter/pipeline.rs\<close> and the direct calls of \<^verbatim>\<open>src/src/interpreter/infra.rs\<close>: what a stage
  does to a relational query, a relation or a document query, and the operations of tables and
  collections.
\<close>

subsection \<open>Updates of a query\<close>

fun q_filters :: "('v filter_clause list \<Rightarrow> 'v filter_clause list) \<Rightarrow> 'v query_state \<Rightarrow> 'v query_state" where
  "q_filters h (QueryState a fs b c d e f g k) = QueryState a (h fs) b c d e f g k"

fun q_joins :: "(join_clause list \<Rightarrow> join_clause list) \<Rightarrow> 'v query_state \<Rightarrow> 'v query_state" where
  "q_joins h (QueryState a fs b c d e f g k) = QueryState a fs (h b) c d e f g k"

fun q_select :: "string list \<Rightarrow> 'v query_state \<Rightarrow> 'v query_state" where
  "q_select cols (QueryState a fs b c d e f g k) = QueryState a fs b cols d e f g k"

fun q_order :: "string \<Rightarrow> 'v query_state \<Rightarrow> 'v query_state" where
  "q_order o1 (QueryState a fs b c d e f g k) = QueryState a fs b c (Some o1) e f g k"

fun q_limit :: "i64 \<Rightarrow> 'v query_state \<Rightarrow> 'v query_state" where
  "q_limit n (QueryState a fs b c d e f g k) = QueryState a fs b c d (Some n) f g k"

fun q_offset :: "i64 \<Rightarrow> 'v query_state \<Rightarrow> 'v query_state" where
  "q_offset n (QueryState a fs b c d e f g k) = QueryState a fs b c d e (Some n) g k"

fun q_known :: "string set option \<Rightarrow> 'v query_state \<Rightarrow> 'v query_state" where
  "q_known known (QueryState a fs b c d e f g k) = QueryState a fs b c d e f g known"

subsection \<open>Arguments of stages\<close>

definition query_value :: "('d, 't) val query_state \<Rightarrow> ('d, 't, 'tx, 'w, ('d, 't) val) im" where
  "query_value q = iret (VQueryBuilder q)"

definition first_string :: "('d, 't) val list \<Rightarrow> string \<Rightarrow> ('d, 't, 'tx, 'w, string) im" where
  "first_string args msg = (case args of VString str # _ \<Rightarrow> iret str | _ \<Rightarrow> type_error msg)"

definition first_integer :: "('d, 't) val list \<Rightarrow> string \<Rightarrow> ('d, 't, 'tx, 'w, i64) im" where
  "first_integer args msg = (case args of VInteger n # _ \<Rightarrow> iret n | _ \<Rightarrow> type_error msg)"

definition column_strings :: "('d, 't) val list \<Rightarrow> ('d, 't, 'tx, 'w, string list) im" where
  "column_strings vs =
     imap (\<lambda>v. case v of
                 VString str \<Rightarrow> iret str
               | _ \<Rightarrow> type_error (''select columns must be strings, got '' @ type_name v)) vs"

definition runtime_rows ::
    "('d, 't, 'w) lib \<Rightarrow> string \<Rightarrow> ('d, 't) val row list \<Rightarrow> ('d, 't, 'tx, 'w, ('d, 't) val) im" where
  "runtime_rows l table rows = ibind (imap (db_row_to_runtime_value l table) rows) (\<lambda>vs. iret (VList vs))"

definition runtime_row ::
    "('d, 't, 'w) lib \<Rightarrow> string \<Rightarrow> ('d, 't) val row option \<Rightarrow> ('d, 't, 'tx, 'w, ('d, 't) val) im" where
  "runtime_row l table row = (case row of Some r \<Rightarrow> db_row_to_runtime_value l table r | None \<Rightarrow> iret VNull)"

subsection \<open>Relational queries\<close>

definition query_step ::
    "('d, 't, 'w) lib \<Rightarrow> ('d, 't, 'tx, 'w) evaluator \<Rightarrow> ('d, 't) val query_state \<Rightarrow> string \<Rightarrow> expression argument list \<Rightarrow>
     ('d, 't, 'tx, 'w, ('d, 't) val) im" where
  "query_step l ev q name arguments =
     (if name = ''where'' then
        ibind (parse_where_args l ev arguments) (\<lambda>fs. query_value (q_filters (\<lambda>old. old @ fs) q))
      else if name = ''join'' \<or> name = ''left_join'' then
        ibind (evaluate_args ev arguments) (\<lambda>args.
        ibind (first_string args (name @ '' first argument must be a table name string'')) (\<lambda>table.
        ibind (extract_named_string_arg ev arguments ''on'') (\<lambda>on.
          case on of
            None \<Rightarrow> type_error (name @ '' requires on: '' @ quote ''fk_column'' @ '' named argument'')
          | Some column \<Rightarrow>
              query_value (q_joins (\<lambda>js. js @ [JoinClause (if name = ''join'' then JoinInner else JoinLeft) table column]) q))))
      else if name = ''select'' then
        ibind (evaluate_args ev arguments) (\<lambda>args.
        ibind (column_strings args) (\<lambda>cols. query_value (q_select cols q)))
      else if name = ''order_by'' then
        ibind (evaluate_args ev arguments) (\<lambda>args.
        ibind (first_string args (''order_by requires a string argument (e.g. order_by('' @ quote ''created_at desc'' @ ''))''))
          (\<lambda>order. query_value (q_order order q)))
      else if name = ''limit'' then
        ibind (evaluate_args ev arguments) (\<lambda>args.
        ibind (first_integer args ''limit requires an integer argument'') (\<lambda>n. query_value (q_limit n q)))
      else if name = ''offset'' then
        ibind (evaluate_args ev arguments) (\<lambda>args.
        ibind (first_integer args ''offset requires an integer argument'') (\<lambda>n. query_value (q_offset n q)))
      else if name = ''like'' then
        ibind (evaluate_args ev arguments) (\<lambda>args.
        ibind (first_string args (''like requires a column name string as first argument (e.g. like('' @ quote ''name'' @ '', '' @
            quote ''Ana%'' @ ''))'')) (\<lambda>column.
          if length args < 2 then type_error ''like requires a pattern string as second argument''
          else query_value (q_filters (\<lambda>old. old @ [FilterClause column OpLike (args ! 1)]) q)))
      else if name = ''in'' then
        ibind (evaluate_args ev arguments) (\<lambda>args.
        ibind (first_string args (''in requires a column name string as first argument (e.g. in('' @ quote ''status'' @ '', ['' @
            quote ''active'' @ '', '' @ quote ''pending'' @ '']))'')) (\<lambda>column.
          if length args < 2 then type_error ''in requires a list as second argument''
          else case args ! 1 of
                 VList items \<Rightarrow> query_value (q_filters (\<lambda>old. old @ [FilterClause column OpIn (VList items)]) q)
               | v \<Rightarrow> type_error (''in requires a list as second argument, got '' @ type_name v)))
      else if name = ''update'' then
        ibind (evaluate_args ev arguments) (\<lambda>args.
          case args of
            [] \<Rightarrow> type_error ''>> update({...}) requires a map argument''
          | v # _ \<Rightarrow>
              ibind (value_to_db_row v) (\<lambda>data.
              ibind require_db_engine (\<lambda>engine.
              ibind (db_do (\<lambda>tx. db_query_update engine tx q data)) (\<lambda>n. iret (VInteger n)))))
      else type_error (''unknown query pipeline step '' @ in_quotes name @ '' '' @ em_dash @
        '' supported steps: where, like, in, join, left_join, select, order_by, limit, offset; '' @
        ''terminals: fetch, fetch_one, count, exists, update, delete''))"

definition query_terminal ::
    "('d, 't, 'w) lib \<Rightarrow> ('d, 't) val query_state \<Rightarrow> string \<Rightarrow> ('d, 't, 'tx, 'w, ('d, 't) val) im" where
  "query_terminal l q name =
     ibind require_db_engine (\<lambda>engine.
       if name = ''fetch'' \<or> name = ''fetch_all'' then
         ibind (db_do (\<lambda>tx. db_query_fetch engine tx q)) (\<lambda>rows. runtime_rows l (qs_table q) rows)
       else if name = ''fetch_one'' then
         ibind (db_do (\<lambda>tx. db_query_fetch_one engine tx q)) (\<lambda>row. runtime_row l (qs_table q) row)
       else if name = ''count'' then
         ibind (db_do (\<lambda>tx. db_query_count engine tx q)) (\<lambda>n. iret (VInteger n))
       else if name = ''exists'' then
         ibind (db_do (\<lambda>tx. db_query_exists engine tx q)) (\<lambda>b. iret (VBoolean b))
       else if name = ''delete'' then
         ibind (db_do (\<lambda>tx. db_query_delete engine tx q)) (\<lambda>n. iret (VInteger n))
       else type_error (in_quotes name @ '' is not a valid query terminal '' @ em_dash @
         '' use: fetch, fetch_one, count, exists, update({...}), delete''))"

definition apply_query_pipeline_stage ::
    "('d, 't, 'w) lib \<Rightarrow> ('d, 't, 'tx, 'w) evaluator \<Rightarrow> ('d, 't) val query_state \<Rightarrow> expression \<Rightarrow>
     ('d, 't, 'tx, 'w, ('d, 't) val) im" where
  "apply_query_pipeline_stage l ev q e =
     (case e of
        EFunctionCall name arguments \<Rightarrow> query_step l ev q name arguments
      | EIdentifier name \<Rightarrow> query_terminal l q name
      | _ \<Rightarrow> type_error (''expected a query pipeline step or terminal after QueryBuilder, got '' @ debug_expression l e))"

definition apply_relation_pipeline_stage ::
    "('d, 't, 'w) lib \<Rightarrow> ('d, 't, 'tx, 'w) evaluator \<Rightarrow> ('d, 't) val relation_handle \<Rightarrow> expression \<Rightarrow>
     ('d, 't, 'tx, 'w, ('d, 't) val) im" where
  "apply_relation_pipeline_stage l ev relation e =
     (case rh_cardinality relation of
        CardMany \<Rightarrow> apply_query_pipeline_stage l ev (rh_query relation) e
      | CardOne \<Rightarrow>
          (case e of
             EIdentifier name \<Rightarrow>
               (if name = ''fetch'' then
                  (if rh_null_short_circuit relation then iret VNull
                   else ibind require_db_engine (\<lambda>engine.
                        ibind (db_do (\<lambda>tx. db_query_fetch_one engine tx (rh_query relation))) (\<lambda>row.
                          runtime_row l (qs_table (rh_query relation)) row)))
                else if name = ''exists'' then
                  (if rh_null_short_circuit relation then iret (VBoolean False)
                   else ibind require_db_engine (\<lambda>engine.
                        ibind (db_do (\<lambda>tx. db_query_exists engine tx (rh_query relation))) (\<lambda>b. iret (VBoolean b))))
                else type_error (''singular relation '' @ in_quotes name @ '' only supports >> fetch and >> exists''))
           | EFunctionCall name _ \<Rightarrow>
               type_error (''singular relation does not support '' @ name @ ''(); use >> fetch or >> exists'')
           | _ \<Rightarrow> type_error (''expected >> fetch or >> exists after singular relation, got '' @ debug_expression l e)))"

subsection \<open>Direct calls on a table\<close>

definition dispatch_db_direct ::
    "('d, 't, 'w) lib \<Rightarrow> ('d, 't, 'tx, 'w) evaluator \<Rightarrow> string \<Rightarrow> string \<Rightarrow> expression argument list \<Rightarrow>
     ('d, 't, 'tx, 'w, ('d, 't) val) im" where
  "dispatch_db_direct l ev table callee raw_args =
     ibind require_db_engine (\<lambda>engine.
       if callee = ''save'' then
         ibind (evaluate_args ev raw_args) (\<lambda>args.
           case args of
             [] \<Rightarrow> type_error ''db.TABLE.save requires a map argument''
           | v # _ \<Rightarrow>
               ibind (value_to_db_row v) (\<lambda>row.
               ibind (iask (\<lambda>s. resolve_schema_name_for_table s table)) (\<lambda>schema.
                 if schema \<noteq> None \<and> map_of row ''id'' \<noteq> None then
                   type_error (''db.TABLE.save must not include `id` for db: schemas; '' @
                     ''id is generated by the database in v1'')
                 else ibind (db_do (\<lambda>tx. db_save engine tx table row)) (\<lambda>r. db_row_to_runtime_value l table r))))
       else if callee = ''find'' then
         ibind (evaluate_args ev raw_args) (\<lambda>args.
           case args of
             [] \<Rightarrow> type_error ''db.TABLE.find requires an id argument''
           | v # _ \<Rightarrow> ibind (db_do (\<lambda>tx. db_find engine tx table v)) (\<lambda>row. runtime_row l table row))
       else if callee = ''find_all'' then
         ibind (args_to_equality_filters ev raw_args) (\<lambda>fs.
         ibind (db_do (\<lambda>tx. db_find_all engine tx table fs)) (\<lambda>rows. runtime_rows l table rows))
       else if callee = ''update'' then
         ibind (evaluate_args ev raw_args) (\<lambda>args.
           case args of
             [] \<Rightarrow> type_error ''db.TABLE.update requires (id, partial_map) arguments''
           | [v] \<Rightarrow> type_error ''db.TABLE.update requires a second argument (partial map)''
           | v # data # _ \<Rightarrow>
               ibind (value_to_db_row data) (\<lambda>row.
               ibind (db_do (\<lambda>tx. db_update_by_id engine tx table v row)) (\<lambda>r. runtime_row l table r)))
       else if callee = ''delete'' then
         ibind (evaluate_args ev raw_args) (\<lambda>args.
           case args of
             [] \<Rightarrow> type_error ''db.TABLE.delete requires an id argument''
           | v # _ \<Rightarrow> ibind (db_do (\<lambda>tx. db_delete_by_id engine tx table v)) (\<lambda>b. iret (VBoolean b)))
       else type_error (''unknown db operation '' @ in_quotes callee @ '' on table '' @ in_quotes table @ '' '' @ em_dash @
         '' supported: save, find, find_all, update, delete''))"

subsection \<open>Document queries\<close>

fun dq_filters_add :: "'v doc_filter list \<Rightarrow> 'v doc_query_state \<Rightarrow> 'v doc_query_state" where
  "dq_filters_add new (DocQueryState c fs p so li off m g accs srt pl) = DocQueryState c (fs @ new) p so li off m g accs srt pl"

fun dq_pick :: "string list \<Rightarrow> 'v doc_query_state \<Rightarrow> 'v doc_query_state" where
  "dq_pick cols (DocQueryState c fs p so li off m g accs srt pl) = DocQueryState c fs (Some cols) so li off m g accs srt pl"

definition dq_order :: "string \<times> sort_direction \<Rightarrow> 'v doc_query_state \<Rightarrow> 'v doc_query_state" where
  "dq_order fd q =
     (case q of DocQueryState c fs p so li off m g accs srt pl \<Rightarrow>
        if is_aggregate q then DocQueryState c fs p so li off m g accs (Some fd) pl
        else DocQueryState c fs p (Some fd) li off m g accs srt pl)"

definition dq_limited :: "i64 \<Rightarrow> 'v doc_query_state \<Rightarrow> 'v doc_query_state" where
  "dq_limited n q =
     (case q of DocQueryState c fs p so li off m g accs srt pl \<Rightarrow>
        if is_aggregate q then DocQueryState c fs p so li off m g accs srt (Some n)
        else DocQueryState c fs p so (Some n) off m g accs srt pl)"

fun dq_skip :: "i64 \<Rightarrow> 'v doc_query_state \<Rightarrow> 'v doc_query_state" where
  "dq_skip n (DocQueryState c fs p so li off m g accs srt pl) = DocQueryState c fs p so li (Some n) m g accs srt pl"

fun dq_group :: "string \<Rightarrow> 'v doc_query_state \<Rightarrow> 'v doc_query_state" where
  "dq_group by (DocQueryState c fs p so li off m g accs srt pl) =
     DocQueryState c fs p so li off DmAggregate (Some by) accs srt pl"

fun dq_accumulate :: "accumulator \<Rightarrow> 'v doc_query_state \<Rightarrow> 'v doc_query_state" where
  "dq_accumulate acc (DocQueryState c fs p so li off m g accs srt pl) =
     DocQueryState c fs p so li off DmAggregate g (accs @ [acc]) srt pl"

definition doc_query_value :: "('d, 't) val doc_query_state \<Rightarrow> ('d, 't, 'tx, 'w, ('d, 't) val) im" where
  "doc_query_value q = iret (VDocQueryBuilder q)"

definition value_to_doc_row :: "('d, 't) val \<Rightarrow> ('d, 't, 'tx, 'w, ('d, 't) val row) im" where
  "value_to_doc_row v =
     (case v of VMap m \<Rightarrow> iret m | _ \<Rightarrow> type_error (''expected Map for document data, got '' @ type_name v))"

definition doc_row_to_value :: "('d, 't) val row \<Rightarrow> ('d, 't) val" where
  "doc_row_to_value row = map_from row"

definition write_after_aggregation :: "('d, 't, 'tx, 'w, 'a) im" where
  "write_after_aggregation =
     type_error ''write terminals (update/upsert/delete) cannot follow aggregation steps''"

definition pick_fields :: "('d, 't) val list \<Rightarrow> ('d, 't, 'tx, 'w, string list) im" where
  "pick_fields vs =
     imap (\<lambda>v. case v of VString str \<Rightarrow> iret str | _ \<Rightarrow> type_error ''pick fields must be strings'') vs"

definition order_direction ::
    "('d, 't, 'w) lib \<Rightarrow> ('d, 't) val list \<Rightarrow> ('d, 't, 'tx, 'w, sort_direction) im" where
  "order_direction l args =
     (if length args < 2 then
        type_error (''order requires a direction as second argument: order('' @ quote ''field'' @ '', '' @ quote ''asc'' @
          '') or order('' @ quote ''field'' @ '', '' @ quote ''desc'' @ '')'')
      else let bad = type_error (''order direction must be '' @ quote ''asc'' @ '' or '' @ quote ''desc'')
           in case args ! 1 of
                VString str \<Rightarrow>
                  if str_lower (lx l) str = ''desc'' then iret Desc
                  else if str_lower (lx l) str = ''asc'' then iret Asc
                  else bad
              | _ \<Rightarrow> bad)"

text \<open>The arguments of \<open>sum\<close>, \<open>avg\<close>, \<open>min\<close>, \<open>max\<close>: the last positional one and the last \<open>as:\<close> count.\<close>

fun accumulator_args ::
    "('d, 't, 'tx, 'w) evaluator \<Rightarrow> string \<Rightarrow> string option \<times> string option \<Rightarrow> expression argument list \<Rightarrow>
     ('d, 't, 'tx, 'w, string option \<times> string option) im" where
  "accumulator_args ev step fa [] = iret fa"
| "accumulator_args ev step fa (Positional e # args) =
     ibind (ev e) (\<lambda>v.
       case v of
         VString str \<Rightarrow> accumulator_args ev step (Some str, snd fa) args
       | _ \<Rightarrow> type_error (step @ ''() field argument must be a string''))"
| "accumulator_args ev step fa (Named n e # args) =
     (if n = ''as'' then
        ibind (ev e) (\<lambda>v.
          case v of
            VString str \<Rightarrow> accumulator_args ev step (fst fa, Some str) args
          | _ \<Rightarrow> type_error (step @ ''() '' @ in_quotes ''as:'' @ '' argument must be a string''))
      else accumulator_args ev step fa args)"

definition accumulator_of :: "string \<Rightarrow> string \<Rightarrow> string \<Rightarrow> accumulator" where
  "accumulator_of step field alias =
     (if step = ''sum'' then AccSum field alias
      else if step = ''avg'' then AccAvg field alias
      else if step = ''min'' then AccMin field alias
      else AccMax field alias)"

fun is_write_mode :: "'v doc_query_mode \<Rightarrow> bool" where
  "is_write_mode (DmUpdate _) = True"
| "is_write_mode (DmUpsert _) = True"
| "is_write_mode DmDelete = True"
| "is_write_mode _ = False"

definition accumulator_step ::
    "('d, 't, 'tx, 'w) evaluator \<Rightarrow> ('d, 't) val doc_query_state \<Rightarrow> string \<Rightarrow> expression argument list \<Rightarrow>
     ('d, 't, 'tx, 'w, ('d, 't) val) im" where
  "accumulator_step ev q step arguments =
     (if is_write_mode (dq_mode q) then write_after_aggregation
      else ibind (accumulator_args ev step (None, None) arguments) (\<lambda>fa.
        case fst fa of
          None \<Rightarrow> type_error (step @ ''() requires a field name as first argument, e.g. '' @ step @ ''('' @ quote ''amount'' @
                    '', as: '' @ quote ''total'' @ '')'')
        | Some field \<Rightarrow>
            (case snd fa of
               None \<Rightarrow> type_error (step @ ''() requires a named '' @ in_quotes ''as:'' @ '' argument, e.g. '' @ step @ ''('' @
                         quote field @ '', as: '' @ quote ''alias'' @ '')'')
             | Some alias \<Rightarrow> doc_query_value (dq_accumulate (accumulator_of step field alias) q))))"

text \<open>\<open>count(as: "alias")\<close>; an alias that is not a string is ignored.\<close>

fun count_alias ::
    "('d, 't, 'tx, 'w) evaluator \<Rightarrow> string option \<Rightarrow> expression argument list \<Rightarrow> ('d, 't, 'tx, 'w, string option) im" where
  "count_alias ev alias [] = iret alias"
| "count_alias ev alias (Positional e # args) = count_alias ev alias args"
| "count_alias ev alias (Named n e # args) =
     (if n = ''as'' then
        ibind (ev e) (\<lambda>v. count_alias ev (case v of VString str \<Rightarrow> Some str | _ \<Rightarrow> alias) args)
      else count_alias ev alias args)"

fun is_positional :: "'e argument \<Rightarrow> bool" where
  "is_positional (Positional _) = True"
| "is_positional (Named _ _) = False"

fun is_named_as :: "'e argument \<Rightarrow> bool" where
  "is_named_as (Named n _) = (n = ''as'')"
| "is_named_as (Positional _) = False"

definition count_step ::
    "('d, 't, 'tx, 'w) evaluator \<Rightarrow> ('d, 't) val doc_query_state \<Rightarrow> expression argument list \<Rightarrow>
     ('d, 't, 'tx, 'w, ('d, 't) val) im" where
  "count_step ev q arguments =
     (if list_ex is_positional arguments then
        type_error (''count() does not accept a field argument '' @ em_dash @ '' use count(as: '' @ quote ''alias'' @ '')'')
      else ibind (count_alias ev None arguments) (\<lambda>alias.
        case alias of
          None \<Rightarrow> type_error (''count() requires a named '' @ in_quotes ''as:'' @ '' argument, e.g. count(as: '' @ quote ''total'' @ '')'')
        | Some a \<Rightarrow> doc_query_value (dq_accumulate (AccCount a) q)))"

definition doc_write ::
    "('d, 't, 'tx, 'w) evaluator \<Rightarrow> ('d, 't) val doc_query_state \<Rightarrow> string \<Rightarrow> expression argument list \<Rightarrow>
     ((('d, 't) val, 'w) doc_driver \<Rightarrow> ('d, 't) val row \<Rightarrow> 'w \<Rightarrow> (marreta_error + i64) \<times> 'w) \<Rightarrow>
     ('d, 't, 'tx, 'w, ('d, 't) val) im" where
  "doc_write ev q name arguments call =
     (if is_aggregate q then write_after_aggregation
      else ibind (evaluate_args ev arguments) (\<lambda>args.
        case args of
          [] \<Rightarrow> type_error (''>> '' @ name @ ''({...}) requires a map argument'')
        | v # _ \<Rightarrow>
            ibind (value_to_doc_row v) (\<lambda>data.
            ibind require_doc_engine (\<lambda>engine.
            ibind (driver_do (call engine data)) (\<lambda>n. iret (VInteger n))))))"

definition doc_query_step ::
    "('d, 't, 'w) lib \<Rightarrow> ('d, 't, 'tx, 'w) evaluator \<Rightarrow> ('d, 't) val doc_query_state \<Rightarrow> string \<Rightarrow> expression argument list \<Rightarrow>
     ('d, 't, 'tx, 'w, ('d, 't) val) im" where
  "doc_query_step l ev q name arguments =
     (if name = ''where'' then
        ibind (parse_doc_where_args l ev arguments) (\<lambda>fs. doc_query_value (dq_filters_add fs q))
      else if name = ''pick'' then
        (if is_aggregate q then
           type_error (''pick() cannot be used in aggregation pipelines '' @ em_dash @ '' use accumulator aliases directly'')
         else ibind (evaluate_args ev arguments) (\<lambda>args.
           case args of
             VList items # _ \<Rightarrow> ibind (pick_fields items) (\<lambda>cols. doc_query_value (dq_pick cols q))
           | _ \<Rightarrow> type_error ''pick requires a list string field names''))
      else if name = ''order'' then
        ibind (evaluate_args ev arguments) (\<lambda>args.
        ibind (first_string args (''order requires a string field name as first argument, e.g. order('' @ quote ''created_at'' @
            '', '' @ quote ''desc'' @ '')'')) (\<lambda>field.
        ibind (order_direction l args) (\<lambda>dir. doc_query_value (dq_order (field, dir) q))))
      else if name = ''limit'' then
        ibind (evaluate_args ev arguments) (\<lambda>args.
        ibind (first_integer args ''limit requires an integer argument'') (\<lambda>n. doc_query_value (dq_limited n q)))
      else if name = ''offset'' then
        ibind (evaluate_args ev arguments) (\<lambda>args.
        ibind (first_integer args ''offset requires an integer argument'') (\<lambda>n. doc_query_value (dq_skip n q)))
      else if name = ''like'' then
        ibind (evaluate_args ev arguments) (\<lambda>args.
        ibind (first_string args ''like requires a column name string'') (\<lambda>column.
        ibind (first_string (tl args) ''like requires a pattern string'') (\<lambda>pattern.
          doc_query_value (dq_filters_add [DfLike column pattern] q))))
      else if name = ''in'' then
        ibind (evaluate_args ev arguments) (\<lambda>args.
        ibind (first_string args ''in requires a column name string'') (\<lambda>column.
          case tl args of
            VList items # _ \<Rightarrow> doc_query_value (dq_filters_add [DfIn column items] q)
          | _ \<Rightarrow> type_error ''in requires a list as second argument''))
      else if name = ''group_by'' then
        (if dq_accumulators q \<noteq> [] then
           type_error ''group_by() must appear before accumulator steps (sum, avg, min, max, count)''
         else ibind (evaluate_args ev arguments) (\<lambda>args.
              ibind (first_string args ''group_by requires a string field name'') (\<lambda>field. doc_query_value (dq_group field q))))
      else if name = ''sum'' \<or> name = ''avg'' \<or> name = ''min'' \<or> name = ''max'' then accumulator_step ev q name arguments
      else if name = ''count'' \<and>
          (is_aggregate q \<or> dq_group_by q \<noteq> None \<or> dq_accumulators q \<noteq> [] \<or> list_ex is_named_as arguments) then
        count_step ev q arguments
      else if name = ''update'' then doc_write ev q name arguments (\<lambda>engine. doc_query_update engine q)
      else if name = ''upsert'' then doc_write ev q name arguments (\<lambda>engine. doc_query_upsert engine q)
      else type_error (''unknown doc pipeline step '' @ in_quotes name @ '' '' @ em_dash @
        '' supported: where, pick, order, limit, offset, like, in, group_by, sum, avg, min, max, count; '' @
        ''terminals: fetch_all, fetch_one, count, exists, update({...}), upsert({...}), delete''))"

definition doc_query_terminal ::
    "('d, 't) val doc_query_state \<Rightarrow> string \<Rightarrow> ('d, 't, 'tx, 'w, ('d, 't) val) im" where
  "doc_query_terminal q name =
     ibind require_doc_engine (\<lambda>engine.
       if name = ''fetch_all'' \<or> name = ''fetch'' then
         ibind (driver_do (if is_aggregate q then doc_query_aggregate engine q else doc_query_fetch engine q)) (\<lambda>rows.
           iret (VList (map doc_row_to_value rows)))
       else if name = ''fetch_one'' then
         (if is_aggregate q then
            ibind (driver_do (doc_query_aggregate engine q)) (\<lambda>rows.
              iret (case rows of [] \<Rightarrow> VNull | row # _ \<Rightarrow> doc_row_to_value row))
          else ibind (driver_do (doc_query_fetch_one engine q)) (\<lambda>row.
              iret (case row of Some r \<Rightarrow> doc_row_to_value r | None \<Rightarrow> VNull)))
       else if name = ''count'' then ibind (driver_do (doc_query_count engine q)) (\<lambda>n. iret (VInteger n))
       else if name = ''exists'' then ibind (driver_do (doc_query_exists engine q)) (\<lambda>b. iret (VBoolean b))
       else if name = ''delete'' then
         (if is_aggregate q then write_after_aggregation
          else ibind (driver_do (doc_query_delete engine q)) (\<lambda>n. iret (VInteger n)))
       else type_error (in_quotes name @ '' is not a valid doc query terminal '' @ em_dash @
         '' use: fetch_all, fetch_one, count, exists, delete''))"

definition apply_doc_query_pipeline_stage ::
    "('d, 't, 'w) lib \<Rightarrow> ('d, 't, 'tx, 'w) evaluator \<Rightarrow> ('d, 't) val doc_query_state \<Rightarrow> expression \<Rightarrow>
     ('d, 't, 'tx, 'w, ('d, 't) val) im" where
  "apply_doc_query_pipeline_stage l ev q e =
     (case e of
        EFunctionCall name arguments \<Rightarrow> doc_query_step l ev q name arguments
      | EIdentifier name \<Rightarrow> doc_query_terminal q name
      | _ \<Rightarrow> type_error (''expected a doc query pipeline step or terminal, got '' @ debug_expression l e))"

subsection \<open>Direct calls on a collection\<close>

definition dispatch_doc_pipeline ::
    "('d, 't, 'w) lib \<Rightarrow> ('d, 't) val list \<Rightarrow> ('d, 't, 'tx, 'w, ('d, 't) val) im" where
  "dispatch_doc_pipeline l args =
     (case args of
        [c, st] \<Rightarrow>
          (case c of
             VString collection \<Rightarrow>
               (case st of
                  VList stages \<Rightarrow>
                    iseq (ifor (\<lambda>stage. case check_pipeline_stage (lx l) stage of Inl e \<Rightarrow> fail_with e | Inr _ \<Rightarrow> iret ()) stages)
                      (ibind require_doc_engine (\<lambda>engine.
                       ibind (driver_do (doc_raw_pipeline engine collection stages)) (\<lambda>rows.
                         iret (VList (map doc_row_to_value rows)))))
                | _ \<Rightarrow> type_error ''doc.pipeline second argument must be a list of stage maps'')
           | _ \<Rightarrow> type_error ''doc.pipeline first argument must be a string (collection name)'')
      | _ \<Rightarrow> type_error (''doc.pipeline expects 2 arguments (collection, stages), got '' @ nat_to_string (length args)))"

definition dispatch_doc_direct ::
    "('d, 't, 'tx, 'w) evaluator \<Rightarrow> string \<Rightarrow> string \<Rightarrow> expression argument list \<Rightarrow> ('d, 't, 'tx, 'w, ('d, 't) val) im" where
  "dispatch_doc_direct ev collection callee raw_args =
     ibind require_doc_engine (\<lambda>engine.
       if callee = ''save'' then
         ibind (evaluate_args ev raw_args) (\<lambda>args.
           case args of
             [] \<Rightarrow> type_error ''doc.COLLECTION.save requires a map argument''
           | v # _ \<Rightarrow>
               ibind (value_to_doc_row v) (\<lambda>row.
               ibind (driver_do (doc_save engine collection row)) (\<lambda>r. iret (doc_row_to_value r))))
       else if callee = ''find'' then
         ibind (evaluate_args ev raw_args) (\<lambda>args.
           case args of
             [] \<Rightarrow> type_error ''doc.COLLECTION.find requires an id argument''
           | v # _ \<Rightarrow> ibind (driver_do (doc_find engine collection v)) (\<lambda>r.
               iret (case r of Some row \<Rightarrow> doc_row_to_value row | None \<Rightarrow> VNull)))
       else if callee = ''find_all'' then
         ibind (driver_do (doc_find_all engine collection)) (\<lambda>rows. iret (VList (map doc_row_to_value rows)))
       else if callee = ''update'' \<or> callee = ''update_by_id'' then
         ibind (evaluate_args ev raw_args) (\<lambda>args.
           case args of
             [] \<Rightarrow> type_error ''doc.COLLECTION.update requires (id, partial_map) arguments''
           | [v] \<Rightarrow> type_error ''doc.COLLECTION.update requires a second map argument''
           | v # data # _ \<Rightarrow>
               ibind (value_to_doc_row data) (\<lambda>row.
               ibind (driver_do (doc_update_by_id engine collection v row)) (\<lambda>r. iret (doc_row_to_value r))))
       else if callee = ''delete'' \<or> callee = ''delete_by_id'' then
         ibind (evaluate_args ev raw_args) (\<lambda>args.
           case args of
             [] \<Rightarrow> type_error ''doc.COLLECTION.delete requires an id argument''
           | v # _ \<Rightarrow> ibind (driver_do (doc_delete_by_id engine collection v)) (\<lambda>b. iret (VBoolean b)))
       else no_property (''DocCollection('' @ collection @ '')'') callee)"

end
