(* ===== verification/Interp_Eval.thy ===== *)
theory Interp_Eval
  imports Interp_Stages Response_Serializer
begin

text \<open>
  \<^verbatim>\<open>src/src/interpreter.rs\<close>: statements and expressions. \<open>evaluate\<close> and \<open>execute_statement\<close> call each other; each
  step is written over the function \<open>go\<close> that continues with another expression or statement, and
  \<open>run\<close> ties the knot as a \<open>partial_function\<close>, so that a program that does not return has the value
  \<open>None\<close>.
\<close>

datatype job = JE expression | JS statement

type_synonym ('d, 't, 'tx, 'w) runner = "job \<Rightarrow> ('d, 't, 'tx, 'w, ('d, 't) val) im"

subsection \<open>Bodies\<close>

definition run_stmts :: "('d, 't, 'tx, 'w) runner \<Rightarrow> statement list \<Rightarrow> ('d, 't, 'tx, 'w, unit) im" where
  "run_stmts go stmts = ifor (\<lambda>st. ibind (go (JS st)) (\<lambda>_. iret ())) stmts"

primrec execute_from ::
    "('d, 't, 'tx, 'w) runner \<Rightarrow> ('d, 't) val \<Rightarrow> statement list \<Rightarrow> ('d, 't, 'tx, 'w, ('d, 't) val) im" where
  "execute_from go last_value [] = iret last_value"
| "execute_from go last_value (st # stmts) = ibind (go (JS st)) (\<lambda>v. execute_from go v stmts)"

definition evaluate_body ::
    "('d, 't, 'tx, 'w) runner \<Rightarrow> (expression, statement) task_body \<Rightarrow> ('d, 't, 'tx, 'w, ('d, 't) val) im" where
  "evaluate_body go body =
     (case body of
        TbInline e \<Rightarrow> go (JE e)
      | TbBlock stmts e \<Rightarrow> iseq (run_stmts go stmts) (go (JE e)))"

definition evaluate_branch_body ::
    "('d, 't, 'tx, 'w) runner \<Rightarrow> (expression, statement) task_body \<Rightarrow> ('d, 't, 'tx, 'w, ('d, 't) val) im" where
  "evaluate_branch_body go body = restoring_env (evaluate_body go body)"

definition evaluate_entries ::
    "('d, 't, 'tx, 'w) evaluator \<Rightarrow> (string \<times> expression) list \<Rightarrow> ('d, 't, 'tx, 'w, (string \<times> ('d, 't) val) list) im" where
  "evaluate_entries ev entries = imap (\<lambda>(k, e). ibind (ev e) (\<lambda>v. iret (k, v))) entries"

subsection \<open>Calls of tasks\<close>

definition coerce_argument ::
    "('d, 't, 'w) lib \<Rightarrow> registry \<Rightarrow> string \<Rightarrow> param_def \<times> ('d, 't) val \<Rightarrow> ('d, 't, 'tx, 'w, ('d, 't) val) im" where
  "coerce_argument l schemas name pa =
     (case pa of (param, arg) \<Rightarrow>
        (case pd_schema param of
           None \<Rightarrow> iret arg
         | Some schema_name \<Rightarrow>
             (case map_of schemas schema_name of
                None \<Rightarrow> type_error (''task '' @ single_quoted name @ '' argument '' @ single_quoted (pd_name param) @
                          '' references unknown schema '' @ single_quoted schema_name)
              | Some schema \<Rightarrow>
                  (case coerce_payload (lx l) (error_body l) arg schema schemas of
                     Inr coerced \<Rightarrow> iret coerced
                   | Inl Panicked \<Rightarrow> ithrow Panicked
                   | Inl (Err e) \<Rightarrow>
                       type_error (''task '' @ single_quoted name @ '' argument '' @ single_quoted (pd_name param) @
                         '' does not match schema '' @ single_quoted schema_name @ '': '' @ validation_error_detail l e)))))"

definition call_task_value ::
    "('d, 't, 'w) lib \<Rightarrow> ('d, 't, 'tx, 'w) runner \<Rightarrow> ('d, 't) val \<Rightarrow> ('d, 't) val list \<Rightarrow> string \<Rightarrow>
     ('d, 't, 'tx, 'w, ('d, 't) val) im" where
  "call_task_value l go task args call_name =
     (case task of
        VTask name params body owner_module source_module line column \<Rightarrow>
          (if length params \<noteq> length args then wrong_arity name (length params) (length args)
           else
             ibind (iask (\<lambda>s. schema_registry_for s (case owner_module of Some m \<Rightarrow> Some m | None \<Rightarrow> it_module s))) (\<lambda>schemas.
             ibind (imap (coerce_argument l schemas name) (zip params args)) (\<lambda>coerced.
             ibind (iask (\<lambda>s. (it_call_depth s, it_max_depth s, it_module s))) (\<lambda>(depth, max_depth, current).
               if max_depth \<le> depth then runtime_error ''maximum recursion depth exceeded''
               else
                 let fr = task_frame name source_module line column;
                     binds = zip (map pd_name params) coerced
                 in case owner_module of
                      Some owner \<Rightarrow>
                        (if current \<noteq> Some owner then cross_module_call owner fr binds (evaluate_body go body)
                         else same_module_call fr binds (evaluate_body go body))
                    | None \<Rightarrow> same_module_call fr binds (evaluate_body go body)))))
      | _ \<Rightarrow> not_callable call_name)"

definition call_function ::
    "('d, 't, 'w) lib \<Rightarrow> ('d, 't, 'tx, 'w) runner \<Rightarrow> string \<Rightarrow> ('d, 't) val list \<Rightarrow> ('d, 't, 'tx, 'w, ('d, 't) val) im" where
  "call_function l go name args =
     (case builtin_function l name args of
        Some result \<Rightarrow> result
      | None \<Rightarrow>
          ibind (iask (\<lambda>s. env_get (it_env s) name)) (\<lambda>task.
            case task of
              None \<Rightarrow> undefined_task name
            | Some t \<Rightarrow> call_task_value l go t args name))"

definition namespace_stage_task ::
    "('d, 't, 'tx, 'w) interp \<Rightarrow> expression \<Rightarrow> string \<Rightarrow> ('d, 't) val option" where
  "namespace_stage_task s object name =
     (case object of
        EIdentifier ns \<Rightarrow>
          (if env_has (it_env s) ns then None
           else Option.bind (it_runtime s) (\<lambda>rt. module_task rt ns name))
      | _ \<Rightarrow> None)"

primrec evaluate_match ::
    "('d, 't, 'w) lib \<Rightarrow> ('d, 't, 'tx, 'w) evaluator \<Rightarrow> ('d, 't) val \<Rightarrow> expression match_arm list \<Rightarrow>
     ('d, 't, 'tx, 'w, ('d, 't) val) im" where
  "evaluate_match l ev subj [] = iret VNull"
| "evaluate_match l ev subj (arm # arms) =
     (case arm of MatchArm pattern result \<Rightarrow>
        (case pattern of
           MpLiteral e \<Rightarrow>
             ibind (ev e) (\<lambda>pv. if value_eq (lx l) subj pv then ev result else evaluate_match l ev subj arms)
         | MpFallback \<Rightarrow> ev result))"

subsection \<open>Schema constructors and response schemas\<close>

definition evaluate_schema_constructor ::
    "('d, 't, 'w) lib \<Rightarrow> ('d, 't, 'tx, 'w) evaluator \<Rightarrow> string \<Rightarrow> (string \<times> expression) list \<Rightarrow>
     ('d, 't, 'tx, 'w, ('d, 't) val) im" where
  "evaluate_schema_constructor l ev name entries =
     ibind (iask (\<lambda>s. constructor_schema_registry s name)) (\<lambda>(schemas, found).
       case found of
         None \<Rightarrow> type_error (''unknown schema '' @ single_quoted name)
       | Some schema \<Rightarrow>
           ibind (evaluate_entries ev entries) (\<lambda>kvs.
             let v = map_from kvs
             in case reject_undeclared_schema_fields schemas schema [] v of
                  Inl msg \<Rightarrow> type_error (''schema constructor '' @ name @ '' '' @ msg)
                | Inr _ \<Rightarrow>
                    (case coerce_payload (lx l) (error_body l) v schema schemas of
                       Inr coerced \<Rightarrow> iret coerced
                     | Inl Panicked \<Rightarrow> ithrow Panicked
                     | Inl (Err e) \<Rightarrow>
                         type_error (''schema constructor '' @ name @ '': '' @ validation_error_detail l e))))"

definition http_client_operation :: "expression \<Rightarrow> string" where
  "http_client_operation call =
     (case call of
        EMethodCall object callee _ \<Rightarrow>
          (if object = EIdentifier ''http_client'' then ''http_client.'' @ callee else ''http_client'')
      | _ \<Rightarrow> ''http_client'')"

definition evaluate_http_client_response_schema ::
    "('d, 't, 'w) lib \<Rightarrow> ('d, 't, 'tx, 'w) evaluator \<Rightarrow> expression \<Rightarrow> string \<Rightarrow> ('d, 't, 'tx, 'w, ('d, 't) val) im" where
  "evaluate_http_client_response_schema l ev call schema_name =
     (let op = http_client_operation call
      in ibind (ev call) (\<lambda>response.
           case response of
             VMap kvs \<Rightarrow>
               ibind (iask (\<lambda>s. (resolve_schema s schema_name, schema_registry_for s (it_module s)))) (\<lambda>(found, visible).
                 case found of
                   None \<Rightarrow> http_client_error op (''unknown schema '' @ single_quoted schema_name)
                 | Some schema \<Rightarrow>
                     (case coerce_payload (lx l) (error_body l)
                         (case map_of kvs ''body'' of Some b \<Rightarrow> b | None \<Rightarrow> VNull) schema visible of
                        Inr coerced \<Rightarrow> iret (VMap (AList.update ''body'' coerced kvs))
                      | Inl Panicked \<Rightarrow> ithrow Panicked
                      | Inl (Err e) \<Rightarrow>
                          http_client_error op (''response body does not match schema '' @ single_quoted schema_name @
                            '': '' @ validation_error_detail l e)))
           | _ \<Rightarrow> http_client_error op ''http_client schema annotation expected a response map''))"

end
