(* ===== verification/Interp_Flow.thy ===== *)
theory Interp_Flow
  imports Interp_Eval
begin

text \<open>
  \<^verbatim>\<open>src/src/interpreter.rs\<close> and \<^verbatim>\<open>src/src/interpreter/pipeline.rs\<close>: queue producers, the branches of a
  broadcast and the stages of a pipeline.
\<close>

subsection \<open>Queue producers\<close>

definition queue_message ::
    "('d, 't, 'w) lib \<Rightarrow> ('d, 't) val \<Rightarrow> ('d, 't, 'tx, 'w, ('d, 't) val queue_message) im" where
  "queue_message l payload =
     ibind (iask it_trace) (\<lambda>trace.
       case trace of
         None \<Rightarrow> iret \<lparr>qm_payload = payload, qm_metadata = []\<rparr>
       | Some ctx \<Rightarrow>
           ibind (draw_outbound_child l ctx) (\<lambda>child.
             iret \<lparr>qm_payload = payload,
                   qm_metadata = (''traceparent'', traceparent child) #
                     (case tc_tracestate child of Some ts \<Rightarrow> [(''tracestate'', ts)] | None \<Rightarrow> [])\<rparr>))"

definition require_queue_driver :: "string \<Rightarrow> ('d, 't, 'tx, 'w, (('d, 't) val, 'w) queue_driver) im" where
  "require_queue_driver op =
     ibind (iask it_queue) (\<lambda>driver.
       case driver of
         Some q \<Rightarrow> iret q
       | None \<Rightarrow> fail_with (QueueError (''Queue provider not configured '' @ em_dash @
           '' set MARRETA_QUEUE_PROVIDER, MARRETA_QUEUE_HOST, MARRETA_QUEUE_PORT, MARRETA_QUEUE_USER, and optional '' @
           ''MARRETA_QUEUE_PASSWORD'') op))"

text \<open>The payload given, or else the input of the pipeline.\<close>

definition producer_payload ::
    "('d, 't, 'tx, 'w) evaluator \<Rightarrow> string \<Rightarrow> expression option \<Rightarrow> ('d, 't) val option \<Rightarrow>
     ('d, 't, 'tx, 'w, ('d, 't) val) im" where
  "producer_payload ev op payload input =
     (case payload of
        Some e \<Rightarrow> ev e
      | None \<Rightarrow>
          (case input of
             Some v \<Rightarrow> iret v
           | None \<Rightarrow> type_error (op @ '': no payload provided and not inside a pipeline'')))"

definition producer_schema ::
    "string option \<Rightarrow> ('d, 't) val \<Rightarrow> ('d, 't, 'tx, 'w, ('d, 't) val) im" where
  "producer_schema schema v =
     (case schema of
        None \<Rightarrow> iret v
      | Some name \<Rightarrow>
          ibind (iask it_schemas) (\<lambda>schemas.
            iret (case Option.bind schemas (\<lambda>reg. map_of reg name) of
                    Some def \<Rightarrow> serialize v def
                  | None \<Rightarrow> v)))"

definition eval_queue_push ::
    "('d, 't, 'w) lib \<Rightarrow> ('d, 't, 'tx, 'w) evaluator \<Rightarrow> expression \<Rightarrow> string option \<Rightarrow> expression option \<Rightarrow>
     ('d, 't) val option \<Rightarrow> ('d, 't, 'tx, 'w, ('d, 't) val) im" where
  "eval_queue_push l ev queue_name schema payload input =
     ibind (require_queue_driver ''queue.push'') (\<lambda>driver.
     ibind (ev queue_name) (\<lambda>q.
       case q of
         VString queue \<Rightarrow>
           ibind (producer_payload ev ''queue.push'' payload input) (\<lambda>raw.
           ibind (producer_schema schema raw) (\<lambda>v.
           ibind (queue_message l v) (\<lambda>message.
           ibind (wrapped_do (\<lambda>msg. QueueError msg ''queue.push'') (queue_push driver queue message)) (\<lambda>_. iret v))))
       | _ \<Rightarrow> type_error (''queue.push: queue name must be a string, got '' @ debug_value l q)))"

definition eval_topic_publish ::
    "('d, 't, 'w) lib \<Rightarrow> ('d, 't, 'tx, 'w) evaluator \<Rightarrow> expression \<Rightarrow> string option \<Rightarrow> expression option \<Rightarrow>
     ('d, 't) val option \<Rightarrow> ('d, 't, 'tx, 'w, ('d, 't) val) im" where
  "eval_topic_publish l ev topic schema payload input =
     ibind (require_queue_driver ''topic.publish'') (\<lambda>driver.
     ibind (ev topic) (\<lambda>q.
       case q of
         VString t \<Rightarrow>
           ibind (producer_payload ev ''topic.publish'' payload input) (\<lambda>raw.
           ibind (producer_schema schema raw) (\<lambda>v.
           ibind (queue_message l v) (\<lambda>message.
           ibind (wrapped_do (\<lambda>msg. QueueError msg ''topic.publish'') (queue_publish driver t message)) (\<lambda>_. iret v))))
       | _ \<Rightarrow> type_error (''topic.publish: topic must be a string, got '' @ debug_value l q)))"

subsection \<open>Which broadcasts run in sequence\<close>

primrec expression_has_side_effects :: "expression \<Rightarrow> bool" where
  "expression_has_side_effects (EInteger _) = False"
| "expression_has_side_effects (EFloat _) = False"
| "expression_has_side_effects (EBoolean _) = False"
| "expression_has_side_effects ENull = False"
| "expression_has_side_effects (EStringLiteral str) = str_contains str ''#{''"
| "expression_has_side_effects (EIdentifier name) =
     (name \<in> {''db'', ''doc'', ''cache'', ''queue'', ''http_client''})"
| "expression_has_side_effects (EList items) = list_ex id (map expression_has_side_effects items)"
| "expression_has_side_effects (EMapLiteral entries) =
     list_ex snd (map (map_prod id expression_has_side_effects) entries)"
| "expression_has_side_effects (EBinaryOp left _ right) =
     (expression_has_side_effects left \<or> expression_has_side_effects right)"
| "expression_has_side_effects (EUnaryOp _ operand) = expression_has_side_effects operand"
| "expression_has_side_effects (EPropertyAccess object _) = expression_has_side_effects object"
| "expression_has_side_effects (ESubscript object key) =
     (expression_has_side_effects object \<or> expression_has_side_effects key)"
| "expression_has_side_effects (EMethodCall object _ arguments) =
     (expression_has_side_effects object \<or>
      list_ex argument_expression (map (map_argument expression_has_side_effects) arguments))"
| "expression_has_side_effects (ESchemaConstructor _ _) = True"
| "expression_has_side_effects (EHttpClientResponseSchema _ _) = True"
| "expression_has_side_effects (EFunctionCall _ _) = True"
| "expression_has_side_effects (ETaskCall _) = True"
| "expression_has_side_effects (EMatch _ _) = True"
| "expression_has_side_effects (EIf _ _ _) = True"
| "expression_has_side_effects (EPipeline _ _) = True"
| "expression_has_side_effects (EBroadcast _ _) = True"
| "expression_has_side_effects (ERescue _ _) = True"
| "expression_has_side_effects (EQueuePush _ _ _) = True"
| "expression_has_side_effects (ETopicPublish _ _ _) = True"

definition task_body_is_pure :: "(expression, statement) task_body \<Rightarrow> bool" where
  "task_body_is_pure body =
     (case body of
        TbInline e \<Rightarrow> \<not> expression_has_side_effects e
      | TbBlock stmts e \<Rightarrow> stmts = [] \<and> \<not> expression_has_side_effects e)"

definition task_value_is_pure :: "('d, 't) val option \<Rightarrow> bool" where
  "task_value_is_pure v =
     (case v of Some (VTask _ _ body _ _ _ _) \<Rightarrow> task_body_is_pure body | _ \<Rightarrow> False)"

definition is_fetch :: "string \<Rightarrow> bool" where
  "is_fetch name \<longleftrightarrow> name = ''fetch'' \<or> name = ''fetch_one''"

definition broadcast_branch_is_pure :: "('d, 't, 'tx, 'w) interp \<Rightarrow> expression \<Rightarrow> bool" where
  "broadcast_branch_is_pure s target =
     (case target of
        EIdentifier name \<Rightarrow> \<not> is_fetch name \<and> task_value_is_pure (env_get (it_env s) name)
      | ETaskCall name \<Rightarrow> \<not> is_fetch name \<and> task_value_is_pure (env_get (it_env s) name)
      | EPropertyAccess object property \<Rightarrow> task_value_is_pure (namespace_stage_task s object property)
      | _ \<Rightarrow> False)"

subsection \<open>The input of a stage or branch\<close>

text \<open>
  \<open>name\<close> as a stage or branch. \<open>each_item\<close> tells a pipeline stage, which runs a task for every element of
  a list, from a branch of a broadcast, which passes the input whole.
\<close>

definition apply_task ::
    "('d, 't, 'w) lib \<Rightarrow> ('d, 't, 'tx, 'w) runner \<Rightarrow> bool \<Rightarrow> ('d, 't) val \<Rightarrow> ('d, 't) val \<Rightarrow> string \<Rightarrow>
     ('d, 't, 'tx, 'w, ('d, 't) val) im" where
  "apply_task l go each_item task input name =
     (case (each_item, input) of
        (True, VList items) \<Rightarrow>
          ibind (imap (\<lambda>item. call_task_value l go task [item] name) items) (\<lambda>results. iret (VList results))
      | _ \<Rightarrow> call_task_value l go task [input] name)"

definition apply_name ::
    "('d, 't, 'w) lib \<Rightarrow> ('d, 't, 'tx, 'w) runner \<Rightarrow> bool \<Rightarrow> ('d, 't) val \<Rightarrow> expression \<Rightarrow> string \<Rightarrow>
     ('d, 't, 'tx, 'w, ('d, 't) val) im" where
  "apply_name l go each_item input e name =
     (if is_fetch name then
        type_error (''cannot apply >> '' @ name @ '' to '' @ type_name input @ ''; this value is not a relation or query'')
      else ibind (iask (\<lambda>s. env_get (it_env s) name)) (\<lambda>bound.
        case bound of
          Some task \<Rightarrow> if is_task task then apply_task l go each_item task input name else go (JE e)
        | None \<Rightarrow> go (JE e)))"

definition apply_call ::
    "('d, 't, 'w) lib \<Rightarrow> ('d, 't, 'tx, 'w) runner \<Rightarrow> ('d, 't) val \<Rightarrow> string \<Rightarrow> expression argument list \<Rightarrow>
     ('d, 't, 'tx, 'w, ('d, 't) val) im" where
  "apply_call l go input name arguments =
     ibind (evaluate_args (go \<circ> JE) arguments) (\<lambda>args. call_function l go name (input # args))"

definition apply_property ::
    "('d, 't, 'w) lib \<Rightarrow> ('d, 't, 'tx, 'w) runner \<Rightarrow> bool \<Rightarrow> ('d, 't) val \<Rightarrow> expression \<Rightarrow> expression \<Rightarrow> string \<Rightarrow>
     ('d, 't, 'tx, 'w, ('d, 't) val) im" where
  "apply_property l go each_item input e object property =
     ibind (iask (\<lambda>s. namespace_stage_task s object property)) (\<lambda>found.
       case found of
         Some task \<Rightarrow> apply_task l go each_item task input property
       | None \<Rightarrow> go (JE e))"

definition apply_method ::
    "('d, 't, 'w) lib \<Rightarrow> ('d, 't, 'tx, 'w) runner \<Rightarrow> ('d, 't) val \<Rightarrow> expression \<Rightarrow> expression \<Rightarrow> string \<Rightarrow>
     expression argument list \<Rightarrow> ('d, 't, 'tx, 'w, ('d, 't) val) im" where
  "apply_method l go input e object callee arguments =
     (if object = EIdentifier ''fs'' then dispatch_fs_with_input l (go \<circ> JE) callee arguments (Some input)
      else if object = EIdentifier ''json'' then dispatch_json_with_input l (go \<circ> JE) callee arguments (Some input)
      else if object = EIdentifier ''base64'' then dispatch_base64_with_input l (go \<circ> JE) callee arguments (Some input)
      else if object = EIdentifier ''log'' then dispatch_log_with_input l (go \<circ> JE) callee arguments (Some input)
      else if object = EIdentifier ''math'' then dispatch_math_with_input l (go \<circ> JE) callee arguments (Some input)
      else ibind (iask (\<lambda>s. namespace_stage_task s object callee)) (\<lambda>found.
        case found of
          Some task \<Rightarrow>
            ibind (evaluate_args (go \<circ> JE) arguments) (\<lambda>args. call_task_value l go task (input # args) callee)
        | None \<Rightarrow> go (JE e)))"

definition apply_broadcast_value ::
    "('d, 't, 'w) lib \<Rightarrow> ('d, 't, 'tx, 'w) runner \<Rightarrow> ('d, 't) val \<Rightarrow> expression \<Rightarrow> ('d, 't, 'tx, 'w, ('d, 't) val) im" where
  "apply_broadcast_value l go input e =
     (case e of
        ETaskCall name \<Rightarrow> apply_name l go False input e name
      | EIdentifier name \<Rightarrow> apply_name l go False input e name
      | EFunctionCall name arguments \<Rightarrow> apply_call l go input name arguments
      | EPropertyAccess object property \<Rightarrow> apply_property l go False input e object property
      | EMethodCall object callee arguments \<Rightarrow> apply_method l go input e object callee arguments
      | _ \<Rightarrow> go (JE e))"

definition apply_pipeline_value ::
    "('d, 't, 'w) lib \<Rightarrow> ('d, 't, 'tx, 'w) runner \<Rightarrow> ('d, 't) val \<Rightarrow> expression \<Rightarrow> ('d, 't, 'tx, 'w, ('d, 't) val) im" where
  "apply_pipeline_value l go input e =
     (case e of
        ETaskCall name \<Rightarrow> apply_name l go True input e name
      | EIdentifier name \<Rightarrow> apply_name l go True input e name
      | EFunctionCall name arguments \<Rightarrow> apply_call l go input name arguments
      | EQueuePush queue_name schema payload \<Rightarrow> eval_queue_push l (go \<circ> JE) queue_name schema payload (Some input)
      | ETopicPublish topic schema payload \<Rightarrow> eval_topic_publish l (go \<circ> JE) topic schema payload (Some input)
      | EMethodCall object callee arguments \<Rightarrow>
          (if object = EIdentifier ''cache'' \<and> callee = ''set'' then cache_set_stage l (go \<circ> JE) arguments input
           else if object = EIdentifier ''http_client'' then
             dispatch_http_client_with_pipeline l (go \<circ> JE) callee arguments (Some input)
           else apply_method l go input e object callee arguments)
      | EPropertyAccess object property \<Rightarrow> apply_property l go True input e object property
      | _ \<Rightarrow> go (JE e))"

subsection \<open>Broadcasts\<close>

text \<open>
  The branches run in clones. Pure ones run in sequence and the first error ends them; the others all run,
  each in a thread or task of its own and under any interleaving of their effects, and the first error in
  the order of the branches is the result.
\<close>

definition evaluate_broadcast ::
    "('d, 't, 'w) lib \<Rightarrow> ('d, 't, 'tx, 'w) runner \<Rightarrow> expression \<Rightarrow> expression list \<Rightarrow>
     ('d, 't, 'tx, 'w, ('d, 't) val) im" where
  "evaluate_broadcast l go input targets =
     ibind (iask it_in_tx) (\<lambda>inside.
       if inside then type_error ''*>> (broadcast) is not allowed inside a transaction block''
       else ibind (go (JE input)) (\<lambda>v.
         ibind (iask (\<lambda>s. list_all (broadcast_branch_is_pure s) targets)) (\<lambda>pure.
           if pure then
             ibind (imap (\<lambda>t. clone_branch (apply_broadcast_value l go v t)) targets) (\<lambda>results. iret (VList results))
           else
             ibind (iask it_world) (\<lambda>w.
             ibind (imap (\<lambda>(i, t). spawned_branch (branch_world l i w) (apply_broadcast_value l go v t)) (enumerate 0 targets)) (\<lambda>outcomes.
             ibind (world_do (\<lambda>w. ((), joined_world l w (map snd outcomes)))) (\<lambda>_.
             ibind (imap joined_branch (map fst outcomes)) (\<lambda>results. iret (VList results))))))))"

subsection \<open>Stages\<close>

definition promote_source ::
    "('d, 't, 'tx, 'w) interp \<Rightarrow> ('d, 't) val \<Rightarrow> ('d, 't) val" where
  "promote_source s input =
     (case input of
        VDbTable table \<Rightarrow>
          VQueryBuilder (q_known (Option.bind (it_runtime s) (\<lambda>rt. map_of (pr_db_columns rt) table)) (query_state_new table))
      | VDocCollection coll \<Rightarrow> VDocQueryBuilder (doc_query_state_new coll)
      | _ \<Rightarrow> input)"

text \<open>The body of a map stage for one element: the value kept, if any.\<close>

primrec map_body ::
    "('d, 't, 'w) lib \<Rightarrow> ('d, 't, 'tx, 'w) runner \<Rightarrow> (expression, statement) map_statement list \<Rightarrow>
     ('d, 't, 'tx, 'w, ('d, 't) val option) im" where
  "map_body l go [] = iret None"
| "map_body l go (m # ms) =
     (case m of
        MsStatement st \<Rightarrow> ibind (go (JS st)) (\<lambda>_. map_body l go ms)
      | MsKeep e cond \<Rightarrow>
          (case cond of
             None \<Rightarrow> ibind (go (JE e)) (\<lambda>v. iret (Some v))
           | Some c \<Rightarrow>
               ibind (go (JE c)) (\<lambda>b.
                 if is_truthy (lx l) b then ibind (go (JE e)) (\<lambda>v. iret (Some v)) else map_body l go ms))
      | MsSkip c \<Rightarrow> ibind (go (JE c)) (\<lambda>b. if is_truthy (lx l) b then iret None else map_body l go ms))"

text \<open>
  The scope of one element: pushed with its variables, popped when the body succeeds. An error leaves
  through \<open>?\<close> before \<open>pop_scope\<close>.
\<close>

definition element_scope ::
    "(string \<times> ('d, 't) val) list \<Rightarrow> ('d, 't, 'tx, 'w, 'a) im \<Rightarrow> ('d, 't, 'tx, 'w, 'a) im" where
  "element_scope binds m =
     iseq (env_do (\<lambda>env. fold (\<lambda>(n, v). env_set n v) binds (push_scope env)))
       (ibind m (\<lambda>r. iseq (env_do pop_scope) (iret r)))"

definition stage_map ::
    "('d, 't, 'w) lib \<Rightarrow> ('d, 't, 'tx, 'w) runner \<Rightarrow> string \<Rightarrow> (expression, statement) map_statement list \<Rightarrow>
     ('d, 't) val list \<Rightarrow> ('d, 't, 'tx, 'w, ('d, 't) val) im" where
  "stage_map l go variable body items =
     ibind (imap (\<lambda>item. element_scope [(variable, item)] (map_body l go body)) items) (\<lambda>kept.
       iret (VList (concat (map (\<lambda>k. case k of Some v \<Rightarrow> [v] | None \<Rightarrow> []) kept))))"

primrec stage_reduce ::
    "('d, 't, 'tx, 'w) runner \<Rightarrow> string \<Rightarrow> string \<Rightarrow> (expression, statement) task_body \<Rightarrow> ('d, 't) val \<Rightarrow>
     ('d, 't) val list \<Rightarrow> ('d, 't, 'tx, 'w, ('d, 't) val) im" where
  "stage_reduce go accumulator item body acc [] = iret acc"
| "stage_reduce go accumulator item body acc (x # xs) =
     ibind (element_scope [(accumulator, acc), (item, x)] (evaluate_body go body)) (\<lambda>next_acc.
       stage_reduce go accumulator item body next_acc xs)"

definition plain_stage ::
    "('d, 't, 'w) lib \<Rightarrow> ('d, 't, 'tx, 'w) runner \<Rightarrow> ('d, 't) val \<Rightarrow> (expression, statement) pipeline_stage \<Rightarrow>
     ('d, 't, 'tx, 'w, ('d, 't) val) im" where
  "plain_stage l go input stage =
     (case stage of
        PsExpression e \<Rightarrow> apply_pipeline_value l go input e
      | PsMap variable body \<Rightarrow>
          (case input of
             VList items \<Rightarrow> stage_map l go variable body items
           | _ \<Rightarrow> type_error (''pipeline map requires a List, got '' @ type_name input))
      | PsReduce initial accumulator item body \<Rightarrow>
          (case input of
             VList items \<Rightarrow> ibind (go (JE initial)) (\<lambda>acc. stage_reduce go accumulator item body acc items)
           | _ \<Rightarrow> type_error (''pipeline reduce requires a List, got '' @ type_name input))
      | PsRescue _ \<Rightarrow> iret input)"

definition evaluate_pipeline_stage ::
    "('d, 't, 'w) lib \<Rightarrow> ('d, 't, 'tx, 'w) runner \<Rightarrow> (expression, statement) pipeline_stage \<Rightarrow> ('d, 't) val \<Rightarrow>
     ('d, 't, 'tx, 'w, ('d, 't) val) im" where
  "evaluate_pipeline_stage l go stage raw =
     ibind (iask (\<lambda>s. promote_source s raw)) (\<lambda>input.
       case input of
         VRelationHandle relation \<Rightarrow>
           (case stage of
              PsExpression e \<Rightarrow> apply_relation_pipeline_stage l (go \<circ> JE) relation e
            | _ \<Rightarrow> type_error (''cannot use map/keep on a relation handle '' @ em_dash @ '' did you forget >> fetch?''))
       | VQueryBuilder q \<Rightarrow>
           (case stage of
              PsExpression e \<Rightarrow> apply_query_pipeline_stage l (go \<circ> JE) q e
            | _ \<Rightarrow> type_error (''cannot use map/keep on a QueryBuilder '' @ em_dash @
                     '' did you forget >> fetch or >> fetch_one?''))
       | VDocQueryBuilder q \<Rightarrow>
           (case stage of
              PsExpression e \<Rightarrow> apply_doc_query_pipeline_stage l (go \<circ> JE) q e
            | _ \<Rightarrow> type_error (''cannot use map/keep on a DocQueryBuilder '' @ em_dash @ '' did you forget >> fetch?''))
       | _ \<Rightarrow> plain_stage l go input stage)"

subsection \<open>Pipelines and rescue\<close>

definition build_error_map :: "('d, 't, 'w) lib \<Rightarrow> marreta_error \<Rightarrow> ('d, 't) val" where
  "build_error_map l e =
     VMap [(''message'', VString (display_message (debug_kind l) e)), (''op'', VString (operation_name e)),
           (''code'', VString (error_code_as_str (marreta_error_code e)))]"

definition execute_rescue_handler ::
    "('d, 't, 'tx, 'w) runner \<Rightarrow> (expression, statement) rescue_handler \<Rightarrow> ('d, 't, 'tx, 'w, ('d, 't) val) im" where
  "execute_rescue_handler go handler =
     (case handler of RhInline e \<Rightarrow> go (JE e) | RhBlock stmts \<Rightarrow> execute_from go VNull stmts)"

definition rescued ::
    "('d, 't, 'w) lib \<Rightarrow> nat \<Rightarrow> ('d, 't, 'tx, 'w, ('d, 't) val) im \<Rightarrow> ('d, 't, 'tx, 'w, ('d, 't) val) im \<Rightarrow>
     ('d, 't, 'tx, 'w, ('d, 't) val) im" where
  "rescued l depth handler m = catching depth m (\<lambda>e. in_scope [(''error'', build_error_map l e)] handler)"

text \<open>The result so far runs through the stages: an error skips everything up to the next \<open>rescue\<close>.\<close>

primrec railway ::
    "('d, 't, 'w) lib \<Rightarrow> ('d, 't, 'tx, 'w) runner \<Rightarrow> nat \<Rightarrow> (expression, statement) pipeline_stage list \<Rightarrow>
     ('d, 't, 'tx, 'w, ('d, 't) val) im \<Rightarrow> ('d, 't, 'tx, 'w, ('d, 't) val) im" where
  "railway l go depth [] m = m"
| "railway l go depth (stage # stages) m =
     railway l go depth stages
       (case stage of
          PsRescue handler \<Rightarrow> rescued l depth (execute_rescue_handler go handler) m
        | _ \<Rightarrow> ibind m (evaluate_pipeline_stage l go stage))"

primrec plain_stages ::
    "('d, 't, 'w) lib \<Rightarrow> ('d, 't, 'tx, 'w) runner \<Rightarrow> (expression, statement) pipeline_stage list \<Rightarrow> ('d, 't) val \<Rightarrow>
     ('d, 't, 'tx, 'w, ('d, 't) val) im" where
  "plain_stages l go [] v = iret v"
| "plain_stages l go (stage # stages) v = ibind (evaluate_pipeline_stage l go stage v) (plain_stages l go stages)"

fun is_rescue :: "('e, 's) pipeline_stage \<Rightarrow> bool" where
  "is_rescue (PsRescue _) = True"
| "is_rescue _ = False"

definition evaluate_pipeline ::
    "('d, 't, 'w) lib \<Rightarrow> ('d, 't, 'tx, 'w) runner \<Rightarrow> expression \<Rightarrow> (expression, statement) pipeline_stage list \<Rightarrow>
     ('d, 't, 'tx, 'w, ('d, 't) val) im" where
  "evaluate_pipeline l go input stages =
     (if list_ex is_rescue stages then
        ibind (iask (\<lambda>s. length (it_frames s))) (\<lambda>depth. railway l go depth stages (go (JE input)))
      else ibind (go (JE input)) (plain_stages l go stages))"

end
