(* ===== verification/Interp_Run.thy ===== *)
theory Interp_Run
  imports Interp_Flow
begin

text \<open>
  \<^verbatim>\<open>src/src/interpreter.rs\<close>: \<open>execute_statement\<close>, \<open>evaluate\<close>, and the interpreter that both make up.
\<close>

subsection \<open>Positions\<close>

fun own_position :: "statement \<Rightarrow> (nat \<times> nat) option" where
  "own_position (SAssignment _ _ line column) = Some (line, column)"
| "own_position (SConditionalAssignment _ _ _ line column) = Some (line, column)"
| "own_position (SRequire _ _ _ line column) = Some (line, column)"
| "own_position (SReject _ _ _ line column) = Some (line, column)"
| "own_position (SWhile _ _ line column) = Some (line, column)"
| "own_position (STaskDef _ _ _ line column) = Some (line, column)"
| "own_position (SExpressionStatement _ line column) = Some (line, column)"
| "own_position (SRoute _ _ _ _ _ _ line column) = Some (line, column)"
| "own_position (SSchema _ _ _ line column) = Some (line, column)"
| "own_position (SAuthProvider _ line column) = Some (line, column)"
| "own_position (SReply _ _ _ _ _ line column) = Some (line, column)"
| "own_position (SFail _ _ line column) = Some (line, column)"
| "own_position (SRaise _ _ line column) = Some (line, column)"
| "own_position (STransaction _ line column) = Some (line, column)"
| "own_position (SOnQueue _ _ _ _ line column) = Some (line, column)"
| "own_position (SOnTopic _ _ _ _ line column) = Some (line, column)"
| "own_position (SNack _ _ line column) = Some (line, column)"
| "own_position (SScenario _ _ line column) = Some (line, column)"
| "own_position (SExport _) = None"

definition statement_position :: "statement \<Rightarrow> (nat \<times> nat) option" where
  "statement_position st =
     (case st of
        SExport inner \<Rightarrow>
          (case inner of
             SAssignment _ _ _ _ \<Rightarrow> own_position inner
           | STaskDef _ _ _ _ _ \<Rightarrow> own_position inner
           | SSchema _ _ _ _ _ \<Rightarrow> own_position inner
           | SExpressionStatement _ _ _ \<Rightarrow> own_position inner
           | _ \<Rightarrow> None)
      | _ \<Rightarrow> own_position st)"

subsection \<open>Statements\<close>

definition MAX_ITERATIONS :: nat where
  "MAX_ITERATIONS = 10000"

text \<open>\<open>n\<close> more iterations are allowed.\<close>

primrec while_loop ::
    "('d, 't, 'w) lib \<Rightarrow> ('d, 't, 'tx, 'w) runner \<Rightarrow> expression \<Rightarrow> statement list \<Rightarrow> nat \<Rightarrow>
     ('d, 't, 'tx, 'w, ('d, 't) val) im" where
  "while_loop l go condition body 0 =
     ibind (go (JE condition)) (\<lambda>v.
       if is_truthy (lx l) v then runtime_error ''while loop exceeded the maximum of 10000 iterations'' else iret VNull)"
| "while_loop l go condition body (Suc n) =
     ibind (go (JE condition)) (\<lambda>v.
       if is_truthy (lx l) v then iseq (run_stmts go body) (while_loop l go condition body n) else iret VNull)"

definition reply_response ::
    "('d, 't, 'w) lib \<Rightarrow> 64 word \<Rightarrow> reply_content_type \<Rightarrow> ('d, 't) val \<Rightarrow> (string \<times> string) list \<Rightarrow> marreta_error" where
  "reply_response l status content_type v headers =
     (case content_type of
        CtJson \<Rightarrow> HttpResponse (ucast status) (value_json l v) ''application/json'' headers False
      | CtHtml \<Rightarrow> HttpResponse (ucast status) (display (lx l) v) ''text/html; charset=utf-8'' headers False
      | CtText \<Rightarrow> HttpResponse (ucast status) (display (lx l) v) ''text/plain; charset=utf-8'' headers False)"

definition reply_headers ::
    "('d, 't, 'w) lib \<Rightarrow> ('d, 't, 'tx, 'w) evaluator \<Rightarrow> expression option \<Rightarrow> ('d, 't, 'tx, 'w, (string \<times> string) list) im" where
  "reply_headers l ev extra =
     (case extra of
        None \<Rightarrow> iret []
      | Some e \<Rightarrow>
          ibind (ev e) (\<lambda>v. iret (case v of VMap m \<Rightarrow> map (map_prod id (display (lx l))) m | _ \<Rightarrow> [])))"

definition execute_reply ::
    "('d, 't, 'w) lib \<Rightarrow> ('d, 't, 'tx, 'w) evaluator \<Rightarrow> expression \<Rightarrow> reply_content_type \<Rightarrow> expression \<Rightarrow> string option \<Rightarrow>
     expression option \<Rightarrow> ('d, 't, 'tx, 'w, ('d, 't) val) im" where
  "execute_reply l ev status content_type body response_schema extra =
     ibind (ev status) (\<lambda>sv.
       case sv of
         VInteger n \<Rightarrow>
           ibind (ev body) (\<lambda>raw.
           ibind (iask (\<lambda>s. Option.bind response_schema (resolve_schema s))) (\<lambda>schema.
           ibind (reply_headers l ev extra) (\<lambda>headers.
             fail_with (reply_response l n content_type
               (case schema of Some def \<Rightarrow> serialize raw def | None \<Rightarrow> raw) headers))))
       | _ \<Rightarrow> type_error (''reply status must be Integer, got '' @ type_name sv))"

text \<open>\<open>if condition\<close> on \<open>raise\<close> and \<open>nack\<close>.\<close>

definition when_truthy ::
    "('d, 't, 'w) lib \<Rightarrow> ('d, 't, 'tx, 'w) evaluator \<Rightarrow> expression option \<Rightarrow> ('d, 't, 'tx, 'w, ('d, 't) val) im \<Rightarrow>
     ('d, 't, 'tx, 'w, ('d, 't) val) im" where
  "when_truthy l ev condition m =
     (case condition of
        None \<Rightarrow> m
      | Some c \<Rightarrow> ibind (ev c) (\<lambda>v. if is_truthy (lx l) v then m else iret VNull))"

definition assign :: "string \<Rightarrow> ('d, 't) val \<Rightarrow> ('d, 't, 'tx, 'w, ('d, 't) val) im" where
  "assign target v = iseq (env_do (env_update target v)) (iret VNull)"

definition statement_step ::
    "('d, 't, 'w) lib \<Rightarrow> ('d, 't, 'tx, 'w) runner \<Rightarrow> statement \<Rightarrow> ('d, 't, 'tx, 'w, ('d, 't) val) im" where
  "statement_step l go st =
     (case st of
        SAssignment target e _ _ \<Rightarrow> ibind (go (JE e)) (assign target)
      | SConditionalAssignment target e condition _ _ \<Rightarrow>
          ibind (go (JE condition)) (\<lambda>c.
            if is_truthy (lx l) c then ibind (go (JE e)) (assign target) else iret VNull)
      | SRequire condition code message _ _ \<Rightarrow>
          ibind (go (JE condition)) (\<lambda>v. if is_truthy (lx l) v then iret VNull else fail_with (HttpError code message))
      | SReject condition code message _ _ \<Rightarrow>
          ibind (go (JE condition)) (\<lambda>v. if is_truthy (lx l) v then fail_with (HttpError code message) else iret VNull)
      | SWhile condition body _ _ \<Rightarrow> while_loop l go condition body MAX_ITERATIONS
      | STaskDef name params body line column \<Rightarrow>
          ibind (iask it_module) (\<lambda>m.
            iseq (env_do (env_set name (VTask name params body m m line column))) (iret VNull))
      | SExpressionStatement e _ _ \<Rightarrow> go (JE e)
      | SRoute _ _ _ _ _ _ _ _ \<Rightarrow> iret VNull
      | SSchema _ _ _ _ _ \<Rightarrow> iret VNull
      | SAuthProvider _ _ _ \<Rightarrow> iret VNull
      | SScenario _ _ _ _ \<Rightarrow> iret VNull
      | SExport inner \<Rightarrow> go (JS inner)
      | STransaction body _ _ \<Rightarrow> transaction_block l (run_stmts go body)
      | SReply status content_type body response_schema extra _ _ \<Rightarrow>
          execute_reply l (go \<circ> JE) status content_type body response_schema extra
      | SFail status message _ _ \<Rightarrow>
          ibind (go (JE message)) (\<lambda>msg.
            fail_with (HttpResponse (ucast status) (fail_body l msg) ''application/json'' [] True))
      | SRaise message condition _ _ \<Rightarrow>
          when_truthy l (go \<circ> JE) condition
            (ibind (go (JE message)) (\<lambda>msg. fail_with (RaiseError (display (lx l) msg))))
      | SOnQueue _ _ _ _ _ _ \<Rightarrow> iret VNull
      | SOnTopic _ _ _ _ _ _ \<Rightarrow> iret VNull
      | SNack requeue condition _ _ \<Rightarrow> when_truthy l (go \<circ> JE) condition (fail_with (NackSignal requeue)))"

definition execute_statement ::
    "('d, 't, 'w) lib \<Rightarrow> ('d, 't, 'tx, 'w) runner \<Rightarrow> statement \<Rightarrow> ('d, 't, 'tx, 'w, ('d, 't) val) im" where
  "execute_statement l go st =
     (case statement_position st of
        Some (line, column) \<Rightarrow> iseq (set_position line column) (statement_step l go st)
      | None \<Rightarrow> statement_step l go st)"

subsection \<open>Expressions\<close>

definition namespace_table :: "(string \<times> namespace) list" where
  "namespace_table =
     [(''db'', NsDb), (''doc'', NsDoc), (''cache'', NsCache), (''fs'', NsFs), (''json'', NsJson),
      (''base64'', NsBase64), (''uuid'', NsUuid), (''feature'', NsFeature), (''log'', NsLog), (''time'', NsTime),
      (''math'', NsMath), (''http_client'', NsHttpClient)]"

definition evaluate_identifier :: "string \<Rightarrow> ('d, 't, 'tx, 'w, ('d, 't) val) im" where
  "evaluate_identifier name =
     (case map_of namespace_table name of
        Some ns \<Rightarrow> iret (VNamespace ns)
      | None \<Rightarrow>
          ibind (iask (\<lambda>s. env_get (it_env s) name)) (\<lambda>found.
            case found of Some v \<Rightarrow> iret v | None \<Rightarrow> undefined_variable name))"

definition at_position :: "(nat \<Rightarrow> nat \<Rightarrow> fault + 'a) \<Rightarrow> ('d, 't, 'tx, 'w, 'a) im" where
  "at_position h = ibind (iask (\<lambda>s. (it_line s, it_column s))) (\<lambda>(line, column). ilift (h line column))"

definition evaluate_binary ::
    "('d, 't, 'w) lib \<Rightarrow> ('d, 't, 'tx, 'w) evaluator \<Rightarrow> expression \<Rightarrow> binary_operator \<Rightarrow> expression \<Rightarrow>
     ('d, 't, 'tx, 'w, ('d, 't) val) im" where
  "evaluate_binary l ev left op right =
     (if op = BAnd then ibind (ev left) (\<lambda>lv. if is_truthy (lx l) lv then ev right else iret lv)
      else if op = BOr then ibind (ev left) (\<lambda>lv. if is_truthy (lx l) lv then iret lv else ev right)
      else ibind (ev left) (\<lambda>lv. ibind (ev right) (\<lambda>rv. at_position (apply_binary_op (lx l) op lv rv))))"

definition subscript :: "('d, 't) val \<Rightarrow> ('d, 't) val \<Rightarrow> ('d, 't, 'tx, 'w, ('d, 't) val) im" where
  "subscript obj key =
     (case (obj, key) of
        (VMap m, VString k) \<Rightarrow> iret (case map_of m k of Some v \<Rightarrow> v | None \<Rightarrow> VNull)
      | (VList items, VInteger n) \<Rightarrow>
          (let i = (if sint n < 0 then int (length items) + sint n else sint n)
           in iret (if 0 \<le> i \<and> i < int (length items) then items ! nat i else VNull))
      | _ \<Rightarrow> type_error (''subscript requires Map[String] or List[Integer], got '' @ type_name obj @ ''['' @
              type_name key @ '']''))"

definition evaluate_property ::
    "('d, 't, 'w) lib \<Rightarrow> ('d, 't) val \<Rightarrow> string \<Rightarrow> ('d, 't, 'tx, 'w, ('d, 't) val) im" where
  "evaluate_property l obj property =
     (case obj of
        VNamespace NsDb \<Rightarrow> iret (VDbTable property)
      | VNamespace NsDoc \<Rightarrow> iret (VDocCollection property)
      | _ \<Rightarrow> access_property l obj property)"

definition namespace_call ::
    "('d, 't, 'w) lib \<Rightarrow> ('d, 't, 'tx, 'w) evaluator \<Rightarrow> namespace \<Rightarrow> string \<Rightarrow> expression argument list \<Rightarrow>
     ('d, 't, 'tx, 'w, ('d, 't) val) im option" where
  "namespace_call l ev ns callee arguments =
     (case ns of
        NsDb \<Rightarrow> if callee = ''native_query'' then Some (dispatch_native_query l ev arguments) else None
      | NsDoc \<Rightarrow>
          if callee = ''pipeline'' then Some (ibind (evaluate_args ev arguments) (dispatch_doc_pipeline l)) else None
      | NsCache \<Rightarrow> Some (dispatch_cache l ev callee arguments)
      | NsFs \<Rightarrow> Some (dispatch_fs_with_input l ev callee arguments None)
      | NsJson \<Rightarrow> Some (dispatch_json_with_input l ev callee arguments None)
      | NsBase64 \<Rightarrow> Some (dispatch_base64_with_input l ev callee arguments None)
      | NsUuid \<Rightarrow> Some (dispatch_uuid l ev callee arguments)
      | NsFeature \<Rightarrow> Some (dispatch_feature ev callee arguments)
      | NsLog \<Rightarrow> Some (dispatch_log_with_input l ev callee arguments None)
      | NsTime \<Rightarrow> Some (dispatch_time l ev callee arguments)
      | NsMath \<Rightarrow> Some (dispatch_math_with_input l ev callee arguments None)
      | NsHttpClient \<Rightarrow> Some (dispatch_http_client_with_pipeline l ev callee arguments None))"

definition value_call ::
    "('d, 't, 'w) lib \<Rightarrow> ('d, 't, 'tx, 'w) evaluator \<Rightarrow> ('d, 't) val \<Rightarrow> string \<Rightarrow> expression argument list \<Rightarrow>
     ('d, 't, 'tx, 'w, ('d, 't) val) im" where
  "value_call l ev obj callee arguments =
     ibind (evaluate_args ev arguments) (\<lambda>args.
       at_position (\<lambda>line column. map_sum Err id (call_method_at (lx l) obj callee args line column)))"

definition evaluate_method_call ::
    "('d, 't, 'w) lib \<Rightarrow> ('d, 't, 'tx, 'w) runner \<Rightarrow> expression \<Rightarrow> string \<Rightarrow> expression argument list \<Rightarrow>
     ('d, 't, 'tx, 'w, ('d, 't) val) im" where
  "evaluate_method_call l go object callee arguments =
     (let ordinary =
        ibind (go (JE object)) (\<lambda>obj.
          case obj of
            VNamespace ns \<Rightarrow>
              (case namespace_call l (go \<circ> JE) ns callee arguments of
                 Some m \<Rightarrow> m
               | None \<Rightarrow> value_call l (go \<circ> JE) obj callee arguments)
          | VDbTable table \<Rightarrow> dispatch_db_direct l (go \<circ> JE) table callee arguments
          | VDocCollection collection \<Rightarrow> dispatch_doc_direct (go \<circ> JE) collection callee arguments
          | _ \<Rightarrow> value_call l (go \<circ> JE) obj callee arguments)
      in case object of
           EIdentifier ns \<Rightarrow>
             ibind (iask (\<lambda>s. (namespace_stage_task s object callee,
                 \<not> env_has (it_env s) ns \<and> (case it_runtime s of Some rt \<Rightarrow> is_module_namespace rt ns | None \<Rightarrow> False))))
               (\<lambda>(found, known).
                 case found of
                   Some task \<Rightarrow>
                     ibind (evaluate_args (go \<circ> JE) arguments) (\<lambda>args. call_task_value l go task args callee)
                 | None \<Rightarrow> if known then undefined_task (ns @ ''.'' @ callee) else ordinary)
         | _ \<Rightarrow> ordinary)"

definition evaluate_rescue ::
    "('d, 't, 'w) lib \<Rightarrow> ('d, 't, 'tx, 'w) evaluator \<Rightarrow> expression \<Rightarrow> expression \<Rightarrow> ('d, 't, 'tx, 'w, ('d, 't) val) im" where
  "evaluate_rescue l ev e handler =
     ibind (iask (\<lambda>s. length (it_frames s))) (\<lambda>depth. rescued l depth (ev handler) (ev e))"

definition evaluate ::
    "('d, 't, 'w) lib \<Rightarrow> ('d, 't, 'tx, 'w) runner \<Rightarrow> expression \<Rightarrow> ('d, 't, 'tx, 'w, ('d, 't) val) im" where
  "evaluate l go e =
     (case e of
        EInteger n \<Rightarrow> iret (VInteger n)
      | EFloat n \<Rightarrow> iret (VFloat n)
      | EStringLiteral str \<Rightarrow> interpolate_string l (go \<circ> JE) str
      | EBoolean b \<Rightarrow> iret (VBoolean b)
      | ENull \<Rightarrow> iret VNull
      | EList items \<Rightarrow> ibind (imap (go \<circ> JE) items) (\<lambda>vs. iret (VList vs))
      | EMapLiteral entries \<Rightarrow> ibind (evaluate_entries (go \<circ> JE) entries) (\<lambda>kvs. iret (map_from kvs))
      | ESchemaConstructor name entries \<Rightarrow> evaluate_schema_constructor l (go \<circ> JE) name entries
      | EIdentifier name \<Rightarrow> evaluate_identifier name
      | EBinaryOp left op right \<Rightarrow> evaluate_binary l (go \<circ> JE) left op right
      | EUnaryOp op operand \<Rightarrow> ibind (go (JE operand)) (\<lambda>v. at_position (apply_unary_op (lx l) op v))
      | ESubscript object key \<Rightarrow> ibind (go (JE object)) (\<lambda>obj. ibind (go (JE key)) (subscript obj))
      | EPropertyAccess object property \<Rightarrow> ibind (go (JE object)) (\<lambda>obj. evaluate_property l obj property)
      | EMethodCall object callee arguments \<Rightarrow> evaluate_method_call l go object callee arguments
      | EHttpClientResponseSchema call schema_name \<Rightarrow> evaluate_http_client_response_schema l (go \<circ> JE) call schema_name
      | EFunctionCall name arguments \<Rightarrow> ibind (evaluate_args (go \<circ> JE) arguments) (call_function l go name)
      | ETaskCall name \<Rightarrow>
          ibind (iask (\<lambda>s. env_get (it_env s) name)) (\<lambda>found.
            case found of Some v \<Rightarrow> iret v | None \<Rightarrow> undefined_task name)
      | EMatch subj arms \<Rightarrow> ibind (go (JE subj)) (\<lambda>v. evaluate_match l (go \<circ> JE) v arms)
      | EIf condition then_branch else_branch \<Rightarrow>
          ibind (go (JE condition)) (\<lambda>c.
            if is_truthy (lx l) c then evaluate_branch_body go then_branch
            else (case else_branch of Some b \<Rightarrow> evaluate_branch_body go b | None \<Rightarrow> iret VNull))
      | EPipeline input stages \<Rightarrow> evaluate_pipeline l go input stages
      | ERescue inner handler \<Rightarrow> evaluate_rescue l (go \<circ> JE) inner handler
      | EQueuePush queue_name schema payload \<Rightarrow> eval_queue_push l (go \<circ> JE) queue_name schema payload None
      | ETopicPublish topic schema payload \<Rightarrow> eval_topic_publish l (go \<circ> JE) topic schema payload None
      | EBroadcast input targets \<Rightarrow> evaluate_broadcast l go input targets)"

definition step ::
    "('d, 't, 'w) lib \<Rightarrow> ('d, 't, 'tx, 'w) runner \<Rightarrow> job \<Rightarrow> ('d, 't, 'tx, 'w, ('d, 't) val) im" where
  "step l go j = (case j of JE e \<Rightarrow> evaluate l go e | JS st \<Rightarrow> execute_statement l go st)"

end
