(* ===== verification/Interp_Logic.thy ===== *)
theory Interp_Logic
  imports Interp_Run
begin

text \<open>
  A logic for the computations of the interpreter. \<open>related\<close> compares two computations on the states of a
  domain: the first returns (when \<open>must\<close> says so), it agrees with the second where it returns, and what it
  returns without a panic is related to where it started by \<open>K\<close>. The locale \<open>interp_logic\<close> lists what
  \<open>K\<close> and the domains promise about the primitive changes of the state, and shows that every
  operation of the interpreter keeps \<open>related\<close>; its interpretations are the monotonicity that
  \<open>partial_function\<close> needs, the frame invariant, and termination.
\<close>

named_theorems rel_intros \<open>operations that keep the relation\<close>

definition outcome ::
    "bool \<Rightarrow> (('d, 't, 'tx, 'w) interp \<Rightarrow> bool) \<Rightarrow> ((fault + 'a) \<times> ('d, 't, 'tx, 'w) interp) option \<Rightarrow>
     ((fault + 'a) \<times> ('d, 't, 'tx, 'w) interp) option \<Rightarrow> bool" where
  "outcome must P x y \<longleftrightarrow>
     (must \<longrightarrow> x \<noteq> None) \<and> (x = None \<or> x = y) \<and> (\<forall>r t. x = Some (r, t) \<longrightarrow> r \<noteq> Inl Panicked \<longrightarrow> P t)"

definition related ::
    "bool \<Rightarrow> (('d, 't, 'tx, 'w) interp \<Rightarrow> bool) \<Rightarrow> (('d, 't, 'tx, 'w) interp \<Rightarrow> ('d, 't, 'tx, 'w) interp \<Rightarrow> bool) \<Rightarrow>
     ('d, 't, 'tx, 'w, 'a) im \<Rightarrow> ('d, 't, 'tx, 'w, 'a) im \<Rightarrow> bool" where
  "related must D K m m' \<longleftrightarrow> (\<forall>s. D s \<longrightarrow> outcome must (K s) (m s) (m' s))"

lemma outcome_Some: "(r \<noteq> Inl Panicked \<Longrightarrow> P t) \<Longrightarrow> outcome must P (Some (r, t)) (Some (r, t))"
  by (auto simp: outcome_def)

lemma outcome_bind:
  assumes "outcome must P x y"
    and "\<And>r t. (r \<noteq> Inl Panicked \<Longrightarrow> P t) \<Longrightarrow> outcome must Q (g (r, t)) (g' (r, t))"
  shows "outcome must Q (Option.bind x g) (Option.bind y g')"
proof (cases x)
  case (Some rt)
  with assms(1) have "y = Some rt" by (simp add: outcome_def)
  moreover from Some assms(1) have "fst rt \<noteq> Inl Panicked \<Longrightarrow> P (snd rt)" by (cases rt) (auto simp: outcome_def)
  ultimately show ?thesis using Some assms(2) [of "fst rt" "snd rt"] by simp
qed (use assms(1) in \<open>simp add: outcome_def\<close>)

lemma outcome_weaken: "outcome must P x y \<Longrightarrow> (\<And>t. P t \<Longrightarrow> Q t) \<Longrightarrow> outcome must Q x y"
  by (auto simp: outcome_def)

subsection \<open>Direct parts of a job\<close>

definition body_parts :: "(expression, statement) task_body \<Rightarrow> job list" where
  "body_parts body = (case body of TbInline e \<Rightarrow> [JE e] | TbBlock stmts e \<Rightarrow> map JS stmts @ [JE e])"

definition map_part :: "(expression, statement) map_statement \<Rightarrow> job list" where
  "map_part m =
     (case m of
        MsStatement st \<Rightarrow> [JS st]
      | MsKeep e cond \<Rightarrow> JE e # (case cond of Some c \<Rightarrow> [JE c] | None \<Rightarrow> [])
      | MsSkip c \<Rightarrow> [JE c])"

definition stage_parts :: "(expression, statement) pipeline_stage \<Rightarrow> job list" where
  "stage_parts stage =
     (case stage of
        PsExpression e \<Rightarrow> [JE e]
      | PsMap _ body \<Rightarrow> concat (map map_part body)
      | PsReduce initial _ _ body \<Rightarrow> JE initial # body_parts body
      | PsRescue handler \<Rightarrow> (case handler of RhInline e \<Rightarrow> [JE e] | RhBlock stmts \<Rightarrow> map JS stmts))"

definition arm_parts :: "expression match_arm \<Rightarrow> job list" where
  "arm_parts arm =
     (case arm of MatchArm pattern result \<Rightarrow>
        (case pattern of MpLiteral e \<Rightarrow> [JE e] | MpFallback \<Rightarrow> []) @ [JE result])"

definition option_parts :: "expression option \<Rightarrow> job list" where
  "option_parts e = (case e of Some x \<Rightarrow> [JE x] | None \<Rightarrow> [])"

definition argument_parts :: "expression argument list \<Rightarrow> job list" where
  "argument_parts args = map (\<lambda>a. JE (argument_expression a)) args"

definition expression_parts :: "expression \<Rightarrow> job list" where
  "expression_parts e =
     (case e of
        EList items \<Rightarrow> map JE items
      | EMapLiteral entries \<Rightarrow> map (\<lambda>kv. JE (snd kv)) entries
      | ESchemaConstructor _ entries \<Rightarrow> map (\<lambda>kv. JE (snd kv)) entries
      | EBinaryOp left _ right \<Rightarrow> [JE left, JE right]
      | EUnaryOp _ operand \<Rightarrow> [JE operand]
      | EPropertyAccess object _ \<Rightarrow> [JE object]
      | EMethodCall object _ args \<Rightarrow> JE object # argument_parts args
      | EHttpClientResponseSchema call _ \<Rightarrow> [JE call]
      | EFunctionCall _ args \<Rightarrow> argument_parts args
      | EMatch subj arms \<Rightarrow> JE subj # concat (map arm_parts arms)
      | EIf condition then_branch else_branch \<Rightarrow>
          JE condition # body_parts then_branch @ (case else_branch of Some b \<Rightarrow> body_parts b | None \<Rightarrow> [])
      | ESubscript object key \<Rightarrow> [JE object, JE key]
      | EPipeline input stages \<Rightarrow> JE input # concat (map stage_parts stages)
      | EBroadcast input targets \<Rightarrow> JE input # map JE targets
      | ERescue inner handler \<Rightarrow> [JE inner, JE handler]
      | EQueuePush q _ payload \<Rightarrow> JE q # option_parts payload
      | ETopicPublish t _ payload \<Rightarrow> JE t # option_parts payload
      | _ \<Rightarrow> [])"

definition statement_parts :: "statement \<Rightarrow> job list" where
  "statement_parts st =
     (case st of
        SAssignment _ e _ _ \<Rightarrow> [JE e]
      | SConditionalAssignment _ e condition _ _ \<Rightarrow> [JE e, JE condition]
      | SRequire condition _ _ _ _ \<Rightarrow> [JE condition]
      | SReject condition _ _ _ _ \<Rightarrow> [JE condition]
      | SWhile condition body _ _ \<Rightarrow> JE condition # map JS body
      | SExpressionStatement e _ _ \<Rightarrow> [JE e]
      | SReply status _ body _ extra _ _ \<Rightarrow> [JE status, JE body] @ option_parts extra
      | SFail _ message _ _ \<Rightarrow> [JE message]
      | SRaise message condition _ _ \<Rightarrow> JE message # option_parts condition
      | SExport inner \<Rightarrow> [JS inner]
      | STransaction body _ _ \<Rightarrow> map JS body
      | SNack _ condition _ _ \<Rightarrow> option_parts condition
      | _ \<Rightarrow> [])"

definition parts :: "job \<Rightarrow> job list" where
  "parts j = (case j of JE e \<Rightarrow> expression_parts e | JS st \<Rightarrow> statement_parts st)"

text \<open>The expressions that a string literal holds.\<close>

definition embedded :: "string \<Rightarrow> expression \<Rightarrow> bool" where
  "embedded str e \<longleftrightarrow>
     (\<exists>src target line column rest. SegSource src \<in> set (segments str) \<and>
        parse_source (''__nq_param = '' @ trim src) = Inr (SAssignment target e line column # rest))"

lemma element_scope_runs:
  "element_scope binds m s =
     Option.bind (m (s\<lparr>it_env := fold (\<lambda>(n, v). env_set n v) binds (push_scope (it_env s))\<rparr>)) (\<lambda>(r, t).
       case r of Inl e \<Rightarrow> Some (Inl e, t) | Inr a \<Rightarrow> Some (Inr a, t\<lparr>it_env := pop_scope (it_env t)\<rparr>))"
  by (cases "m (s\<lparr>it_env := fold (\<lambda>(n, v). env_set n v) binds (push_scope (it_env s))\<rparr>)")
    (auto simp: element_scope_def ibind_def env_do_def iret_def split: sum.splits)

text \<open>What a transaction block does after \<open>begin\<close>: the body, then exactly one of \<open>commit\<close> and \<open>rollback\<close>.\<close>

definition transaction_end ::
    "('d, 't, 'w) lib \<Rightarrow> (('d, 't) val, 'tx, 'w) db_driver \<Rightarrow> (fault + unit) \<times> ('d, 't, 'tx, 'w) interp \<Rightarrow>
     ((fault + ('d, 't) val) \<times> ('d, 't, 'tx, 'w) interp) option" where
  "transaction_end l engine rt =
     (case rt of (r, t) \<Rightarrow>
        if r = Inl Panicked then Some (Inl Panicked, t)
        else case it_tx t of
               None \<Rightarrow> Some (Inl Panicked, t\<lparr>it_in_tx := False\<rparr>)
             | Some tx \<Rightarrow>
                 (case r of
                    Inl e \<Rightarrow>
                      Some (Inl e, t\<lparr>it_in_tx := False, it_tx := None, it_world := snd (db_rollback engine tx (it_world t))\<rparr>)
                  | Inr _ \<Rightarrow>
                      (case db_commit engine tx (it_world t) of (committed, w) \<Rightarrow>
                         Some (case committed of
                                 Inl e \<Rightarrow> Inl (Err (TypeError (''transaction COMMIT failed: '' @ error_display (debug_kind l) e)
                                            (it_line t) (it_column t)))
                               | Inr _ \<Rightarrow> Inr VNull,
                               t\<lparr>it_in_tx := False, it_tx := None, it_world := w\<rparr>))))"

lemma transaction_runs:
  assumes "\<not> it_in_tx s" and "it_db s = Some engine" and "db_begin engine (it_world s) = (Inr tx, w)"
  shows "transaction_block l body s =
    Option.bind (body (s\<lparr>it_world := w, it_tx := Some tx, it_in_tx := True\<rparr>)) (transaction_end l engine)"
proof -
  let ?u = "s\<lparr>it_world := w, it_tx := Some tx, it_in_tx := True\<rparr>"
  note defs = transaction_block_def ibind_def iask_def require_db_engine_def world_do_def iret_def restore_tx_def
    set_in_tx_def take_tx_def transaction_end_def fail_with_def ithrow_def type_error_def
  show ?thesis
  proof (cases "body ?u")
    case None
    then show ?thesis by (simp add: defs assms)
  next
    case (Some rt)
    obtain r t where rt: "rt = (r, t)" by (cases rt)
    show ?thesis
    proof (cases r)
      case (Inl f)
      with Some rt show ?thesis
        by (cases f; cases "it_tx t") (simp_all add: defs assms split: prod.splits)
    next
      case (Inr a)
      with Some rt show ?thesis
        by (cases "it_tx t") (simp_all add: defs assms split: prod.splits sum.splits)
    qed
  qed
qed

lemma transaction_refused:
  assumes "it_in_tx s \<or> it_db s = None \<or> (\<exists>engine e w. it_db s = Some engine \<and> db_begin engine (it_world s) = (Inl e, w))"
  shows "\<exists>e w. \<forall>body. transaction_block l body s = Some (Inl (Err e), s\<lparr>it_world := w\<rparr>)"
proof -
  note defs = transaction_block_def ibind_def iask_def require_db_engine_def world_do_def iret_def type_error_def
  have same: "s\<lparr>it_world := it_world s\<rparr> = s" by simp
  from assms consider "it_in_tx s" | "\<not> it_in_tx s" "it_db s = None"
    | engine e w where "\<not> it_in_tx s" "it_db s = Some engine" "db_begin engine (it_world s) = (Inl e, w)"
    by auto
  then show ?thesis
  proof cases
    case 1
    then show ?thesis by (intro exI [of _ "it_world s"] exI allI) (simp only: same, simp add: defs)
  next
    case 2
    then show ?thesis by (intro exI [of _ "it_world s"] exI allI) (simp only: same, simp add: defs)
  next
    case 3
    then show ?thesis by (intro exI [of _ w] exI allI) (simp add: defs)
  qed
qed

subsection \<open>The laws\<close>

locale interp_logic =
  fixes l :: "('d, 't, 'w) lib"
    and must :: bool
    and D :: "nat \<Rightarrow> ('d, 't, 'tx, 'w) interp \<Rightarrow> bool"
    and K :: "('d, 't, 'tx, 'w) interp \<Rightarrow> ('d, 't, 'tx, 'w) interp \<Rightarrow> bool"
    and sub :: "job \<Rightarrow> job \<Rightarrow> bool"
    and enter :: "nat \<Rightarrow> nat option"
  assumes K_refl: "K s s"
    and K_trans: "K s t \<Longrightarrow> K t u \<Longrightarrow> K s u"
    and D_keep: "K s t \<Longrightarrow> D n s \<Longrightarrow> D n t"
    and K_world: "K s (s\<lparr>it_world := w\<rparr>)"
    and K_position: "K s (s\<lparr>it_line := line, it_column := column\<rparr>)"
    and K_set: "K s (s\<lparr>it_env := env_set name v (it_env s)\<rparr>)"
    and K_update: "K s (s\<lparr>it_env := env_update name v (it_env s)\<rparr>)"
    and K_scope: "K (s\<lparr>it_env := fold (\<lambda>(a, v). env_set a v) binds (push_scope (it_env s))\<rparr>) t \<Longrightarrow>
        K s (t\<lparr>it_env := pop_scope (it_env t)\<rparr>)"
    and K_leak: "K (s\<lparr>it_env := fold (\<lambda>(a, v). env_set a v) binds (push_scope (it_env s))\<rparr>) t \<Longrightarrow> K s t"
    and K_restore: "K s t \<Longrightarrow> K s (t\<lparr>it_env := it_env s\<rparr>)"
    and K_truncate: "K s t \<Longrightarrow> K s (t\<lparr>it_frames := take (length (it_frames s)) (it_frames t)\<rparr>)"
    and K_same_call: "K (s\<lparr>it_call_depth := it_call_depth s + 1, it_frames := it_frames s @ [fr]\<rparr>) t \<Longrightarrow>
        K s (t\<lparr>it_call_depth := it_call_depth t - 1\<rparr>)"
    and K_cross_call: "K (s\<lparr>it_env := env, it_module := Some owner, it_call_depth := it_call_depth s + 1,
          it_frames := it_frames s @ [fr]\<rparr>) t \<Longrightarrow>
        K s (s\<lparr>it_world := it_world t, it_tx := it_tx t\<rparr>) \<and>
        K s (s\<lparr>it_world := it_world t, it_tx := it_tx t, it_frames := it_frames t\<rparr>)"
    and K_transaction: "\<not> it_in_tx s \<Longrightarrow> K (s\<lparr>it_world := w, it_tx := Some tx, it_in_tx := True\<rparr>) t \<Longrightarrow>
        K s (t\<lparr>it_in_tx := False, it_tx := None, it_world := w'\<rparr>)"
    and D_env: "D n s \<Longrightarrow> D n (s\<lparr>it_env := env\<rparr>)"
    and D_tx: "D n s \<Longrightarrow> D n (s\<lparr>it_tx := active\<rparr>)"
    and D_begin: "D n s \<Longrightarrow> D n (s\<lparr>it_world := w, it_tx := active, it_in_tx := b\<rparr>)"
    and D_call: "D n s \<Longrightarrow> it_call_depth s < it_max_depth s \<Longrightarrow> \<exists>k. enter n = Some k \<and>
        D k (s\<lparr>it_call_depth := it_call_depth s + 1, it_frames := frs\<rparr>) \<and>
        D k (s\<lparr>it_env := env, it_module := m, it_call_depth := it_call_depth s + 1, it_frames := frs\<rparr>)"
    and draws: "must \<Longrightarrow> D n s \<Longrightarrow> it_trace s = Some ctx \<Longrightarrow> outbound_child (fill_random l) ctx (it_world s) \<noteq> None"
    and sub_parts: "j' \<in> set (parts j) \<Longrightarrow> sub j' j"
    and sub_trans: "sub i j \<Longrightarrow> sub j k \<Longrightarrow> sub i k"
    and sub_embedded: "embedded str e \<Longrightarrow> sub (JE e) (JE (EStringLiteral str))"
    and sub_database: "D n s \<Longrightarrow> it_db s \<noteq> None \<Longrightarrow> sub j' j"
begin

definition rel :: "nat \<Rightarrow> ('d, 't, 'tx, 'w, 'a) im \<Rightarrow> ('d, 't, 'tx, 'w, 'a) im \<Rightarrow> bool" where
  "rel n = related must (D n) K"

text \<open>The relation at one state.\<close>

definition rel_at :: "('d, 't, 'tx, 'w) interp \<Rightarrow> ('d, 't, 'tx, 'w, 'a) im \<Rightarrow> ('d, 't, 'tx, 'w, 'a) im \<Rightarrow> bool" where
  "rel_at s m m' \<longleftrightarrow> outcome must (K s) (m s) (m' s)"

lemma rel_atI: "(\<And>s. D n s \<Longrightarrow> rel_at s m m') \<Longrightarrow> rel n m m'"
  and rel_atD: "rel n m m' \<Longrightarrow> D n s \<Longrightarrow> rel_at s m m'"
  by (simp_all add: rel_def related_def rel_at_def)

text \<open>A computation that always returns in a state related to where it started.\<close>

lemma rel_simple:
  assumes "\<And>s. D n s \<Longrightarrow> \<exists>r t. m s = Some (r, t) \<and> (r \<noteq> Inl Panicked \<longrightarrow> K s t)"
  shows "rel n m m"
  using assms by (intro rel_atI) (fastforce simp: rel_at_def outcome_def)

lemma rel_at_simple: "m s = Some (r, t) \<Longrightarrow> m' s = Some (r, t) \<Longrightarrow> K s t \<Longrightarrow> rel_at s m m'"
  by (simp add: rel_at_def outcome_def)

subsubsection \<open>The monad\<close>

lemma rel_iret [rel_intros]: "rel n (iret a) (iret a)"
  by (rule rel_simple) (simp add: iret_def K_refl)

lemma rel_ithrow [rel_intros]: "rel n (ithrow f) (ithrow f)"
  by (rule rel_simple) (simp add: ithrow_def K_refl)

lemma rel_ilift [rel_intros]: "rel n (ilift r) (ilift r)"
  by (rule rel_simple) (simp add: ilift_def K_refl)

lemma rel_iask [rel_intros]: "rel n (iask g) (iask g)"
  by (rule rel_simple) (simp add: iask_def K_refl)

lemma rel_at_ibind:
  fixes m m' :: "('d, 't, 'tx, 'w, 'x) im"
  assumes "rel_at s m m'" and s: "D n s" and "\<And>a. rel n (f a) (f' a)"
  shows "rel_at s (ibind m f) (ibind m' f')"
  unfolding rel_at_def ibind_def
proof (rule outcome_bind [OF assms(1) [unfolded rel_at_def]])
  fix r :: "fault + 'x" and t assume t: "r \<noteq> Inl Panicked \<Longrightarrow> K s t"
  have "outcome must (K s) (f a t) (f' a t)" if "r = Inr a" for a
  proof -
    from t that have "K s t" by simp
    with rel_atD [OF assms(3) D_keep [OF _ s]] show ?thesis by (auto simp: rel_at_def intro: outcome_weaken K_trans)
  qed
  then show "outcome must (K s) (case (r, t) of (r, s1) \<Rightarrow> case r of Inl e \<Rightarrow> Some (Inl e, s1) | Inr a \<Rightarrow> f a s1)
      (case (r, t) of (r, s1) \<Rightarrow> case r of Inl e \<Rightarrow> Some (Inl e, s1) | Inr a \<Rightarrow> f' a s1)"
    using t by (cases r) (auto intro: outcome_Some)
qed

lemma rel_ibind [rel_intros]: "rel n m m' \<Longrightarrow> (\<And>a. rel n (f a) (f' a)) \<Longrightarrow> rel n (ibind m f) (ibind m' f')"
  by (blast intro: rel_atI rel_at_ibind rel_atD)

text \<open>A computation that goes on from what it reads of the state.\<close>

lemma rel_ask:
  assumes "\<And>s. D n s \<Longrightarrow> rel_at s (f (g s)) (f' (g s))"
  shows "rel n (ibind (iask g) f) (ibind (iask g) f')"
  using assms by (intro rel_atI) (simp add: rel_at_def ibind_def iask_def)

lemma rel_world_do [rel_intros]: "rel n (world_do h) (world_do h)"
  by (rule rel_simple) (simp add: world_do_def K_world split: prod.splits)

lemma rel_position [rel_intros]: "rel n (set_position line column) (set_position line column)"
  by (rule rel_simple) (simp add: set_position_def K_position)

lemma rel_env_update [rel_intros]: "rel n (env_do (env_update name v)) (env_do (env_update name v))"
  by (rule rel_simple) (simp add: env_do_def K_update)

lemma rel_env_set [rel_intros]: "rel n (env_do (env_set name v)) (env_do (env_set name v))"
  by (rule rel_simple) (simp add: env_do_def K_set)

text \<open>Case distinctions.\<close>

lemma rel_if [rel_intros]:
  "(b \<Longrightarrow> rel n m m') \<Longrightarrow> (\<not> b \<Longrightarrow> rel n k k') \<Longrightarrow> rel n (if b then m else k) (if b then m' else k')"
  by simp

lemma rel_option [rel_intros]:
  "(v = None \<Longrightarrow> rel n m m') \<Longrightarrow> (\<And>a. v = Some a \<Longrightarrow> rel n (f a) (f' a)) \<Longrightarrow>
     rel n (case v of None \<Rightarrow> m | Some a \<Rightarrow> f a) (case v of None \<Rightarrow> m' | Some a \<Rightarrow> f' a)"
  by (cases v) simp_all

lemma rel_sum [rel_intros]:
  "(\<And>a. rel n (f a) (f' a)) \<Longrightarrow> (\<And>a. rel n (g a) (g' a)) \<Longrightarrow>
     rel n (case v of Inl a \<Rightarrow> f a | Inr a \<Rightarrow> g a) (case v of Inl a \<Rightarrow> f' a | Inr a \<Rightarrow> g' a)"
  by (cases v) simp_all

lemma rel_list [rel_intros]:
  "(v = [] \<Longrightarrow> rel n m m') \<Longrightarrow> (\<And>a as. v = a # as \<Longrightarrow> rel n (f a as) (f' a as)) \<Longrightarrow>
     rel n (case v of [] \<Rightarrow> m | a # as \<Rightarrow> f a as) (case v of [] \<Rightarrow> m' | a # as \<Rightarrow> f' a as)"
  by (cases v) simp_all

lemma rel_prod [rel_intros]:
  "(\<And>a b. v = (a, b) \<Longrightarrow> rel n (f a b) (f' a b)) \<Longrightarrow> rel n (case v of (a, b) \<Rightarrow> f a b) (case v of (a, b) \<Rightarrow> f' a b)"
  by (cases v) simp

lemma rel_bool [rel_intros]:
  "rel n m m' \<Longrightarrow> rel n k k' \<Longrightarrow> rel n (case v of True \<Rightarrow> m | False \<Rightarrow> k) (case v of True \<Rightarrow> m' | False \<Rightarrow> k')"
  by (cases v) simp_all

lemma rel_fault [rel_intros]:
  "(\<And>e. rel n (f e) (f' e)) \<Longrightarrow> rel n m m' \<Longrightarrow>
     rel n (case v of Err e \<Rightarrow> f e | Panicked \<Rightarrow> m) (case v of Err e \<Rightarrow> f' e | Panicked \<Rightarrow> m')"
  by (cases v) simp_all

lemma rel_argument [rel_intros]:
  "(\<And>e. v = Positional e \<Longrightarrow> rel n (f e) (f' e)) \<Longrightarrow> (\<And>k e. v = Named k e \<Longrightarrow> rel n (g k e) (g' k e)) \<Longrightarrow>
     rel n (case v of Positional e \<Rightarrow> f e | Named k e \<Rightarrow> g k e) (case v of Positional e \<Rightarrow> f' e | Named k e \<Rightarrow> g' k e)"
  by (cases v) simp_all

lemma rel_case_val [rel_intros]:
  assumes "\<And>a. rel n (f1 a) (g1 a)" and "\<And>a. rel n (f2 a) (g2 a)" and "\<And>a. rel n (f3 a) (g3 a)"
    and "\<And>a. rel n (f4 a) (g4 a)" and "\<And>a. rel n (f5 a) (g5 a)" and "\<And>a. rel n (f6 a) (g6 a)"
    and "\<And>a. rel n (f7 a) (g7 a)" and "\<And>a. rel n (f8 a) (g8 a)" and "\<And>a. rel n (f9 a) (g9 a)"
    and "\<And>a. rel n (f10 a) (g10 a)" and "rel n f11 g11" and "\<And>a. rel n (f12 a) (g12 a)"
    and "\<And>a. rel n (f13 a) (g13 a)" and "\<And>a b. rel n (f14 a b) (g14 a b)"
    and "\<And>a b c d e f g. rel n (f15 a b c d e f g) (g15 a b c d e f g)"
    and "\<And>a. rel n (f16 a) (g16 a)" and "\<And>a. rel n (f17 a) (g17 a)" and "\<And>a. rel n (f18 a) (g18 a)"
    and "\<And>a. rel n (f19 a) (g19 a)" and "\<And>a. rel n (f20 a) (g20 a)" and "\<And>a. rel n (f21 a) (g21 a)"
  shows "rel n (case_val f1 f2 f3 f4 f5 f6 f7 f8 f9 f10 f11 f12 f13 f14 f15 f16 f17 f18 f19 f20 f21 v)
    (case_val g1 g2 g3 g4 g5 g6 g7 g8 g9 g10 g11 g12 g13 g14 g15 g16 g17 g18 g19 g20 g21 v)"
  by (cases v) (simp_all add: assms)

lemma rel_imap [rel_intros]:
  "(\<And>a. a \<in> set as \<Longrightarrow> rel n (f a) (f' a)) \<Longrightarrow> rel n (imap f as) (imap f' as)"
  by (induction as) (simp_all add: rel_iret rel_ibind)

lemma rel_ifor [rel_intros]:
  "(\<And>a. a \<in> set as \<Longrightarrow> rel n (f a) (f' a)) \<Longrightarrow> rel n (ifor f as) (ifor f' as)"
  by (induction as) (simp_all add: rel_iret rel_ibind)

subsubsection \<open>Errors and drivers\<close>

lemma rel_errors [rel_intros]:
  "rel n (type_error msg) (type_error msg)" "rel n (runtime_error msg) (runtime_error msg)"
  "rel n (wrong_arity name a b) (wrong_arity name a b)" "rel n (no_property name p) (no_property name p)"
  "rel n (undefined_variable name) (undefined_variable name)" "rel n (undefined_task name) (undefined_task name)"
  "rel n (not_callable name) (not_callable name)"
  by (rule rel_simple, simp add: type_error_def runtime_error_def wrong_arity_def no_property_def
      undefined_variable_def undefined_task_def not_callable_def K_refl)+

lemma rel_fail_with [rel_intros]: "rel n (fail_with e) (fail_with e)"
  by (simp add: fail_with_def rel_ithrow)

lemma rel_driver_do [rel_intros]: "rel n (driver_do h) (driver_do h)"
  unfolding driver_do_def by (intro rel_intros)

lemma rel_wrapped_do [rel_intros]: "rel n (wrapped_do wrap h) (wrapped_do wrap h)"
  unfolding wrapped_do_def by (intro rel_intros)

lemma rel_require [rel_intros]:
  "rel n require_db_engine require_db_engine" "rel n require_doc_engine require_doc_engine"
  unfolding require_db_engine_def require_doc_engine_def by (intro rel_intros)+

lemma rel_db_do [rel_intros]: "rel n (db_do call) (db_do call)"
proof (rule rel_simple)
  fix s
  show "\<exists>r t. db_do call s = Some (r, t) \<and> (r \<noteq> Inl Panicked \<longrightarrow> K s t)"
  proof (cases "it_tx s")
    case None
    then show ?thesis
      using K_world by (auto simp: db_do_def ibind_def iask_def driver_do_def world_do_def fail_with_def ithrow_def iret_def
          split: prod.splits sum.splits)
  next
    case (Some tx)
    have restored: "s\<lparr>it_world := w, it_tx := Some tx\<rparr> = s\<lparr>it_world := w\<rparr>" for w
      using Some by (cases s) simp
    show ?thesis
      using K_world
      by (auto simp: db_do_def ibind_def iask_def Some take_tx_def world_do_def restore_tx_def fail_with_def ithrow_def
          iret_def restored split: prod.splits sum.splits)
  qed
qed

subsubsection \<open>Scopes, branches, calls\<close>

text \<open>
  A computation that runs another one from a changed state and changes the state it ends in.
\<close>

lemma rel_at_wrap:
  fixes m m' :: "('d, 't, 'tx, 'w, 'x) im"
  assumes m: "rel k m m'" and start: "D k u"
    and runs: "c s = Option.bind (m u) g" "c' s = Option.bind (m' u) g"
    and stop: "\<And>r t. (r \<noteq> Inl Panicked \<longrightarrow> K u t) \<Longrightarrow>
        \<exists>r' t'. g (r, t) = Some (r', t') \<and> (r' \<noteq> Inl Panicked \<longrightarrow> K s t')"
  shows "rel_at s c c'"
  unfolding rel_at_def runs
proof (rule outcome_bind [OF rel_atD [OF m start, unfolded rel_at_def]])
  fix r :: "fault + 'x" and t assume "r \<noteq> Inl Panicked \<Longrightarrow> K u t"
  with stop [of r t] show "outcome must (K s) (g (r, t)) (g (r, t))" by (auto intro: outcome_Some)
qed

lemma rel_wrap:
  assumes "rel n m m'" and "\<And>s. D n s \<Longrightarrow> D n (h s)"
    and "\<And>s. c s = Option.bind (m (h s)) (g s)" "\<And>s. c' s = Option.bind (m' (h s)) (g s)"
    and "\<And>s r t. (r \<noteq> Inl Panicked \<longrightarrow> K (h s) t) \<Longrightarrow>
        \<exists>r' t'. g s (r, t) = Some (r', t') \<and> (r' \<noteq> Inl Panicked \<longrightarrow> K s t')"
  shows "rel n c c'"
proof (rule rel_atI)
  fix s assume "D n s"
  from assms(1) assms(2) [OF this] assms(3,4) assms(5) show "rel_at s c c'" by (rule rel_at_wrap)
qed

lemma rel_in_scope [rel_intros]: "rel n m m' \<Longrightarrow> rel n (in_scope binds m) (in_scope binds m')"
  by (rule rel_wrap [where h = "\<lambda>s. s\<lparr>it_env := fold (\<lambda>(n, v). env_set n v) binds (push_scope (it_env s))\<rparr>"
        and g = "\<lambda>s (r, t). Some (r, t\<lparr>it_env := pop_scope (it_env t)\<rparr>)"])
    (auto simp: in_scope_def D_env intro: K_scope)

lemma rel_element_scope [rel_intros]: "rel n m m' \<Longrightarrow> rel n (element_scope binds m) (element_scope binds m')"
  by (rule rel_wrap [where h = "\<lambda>s. s\<lparr>it_env := fold (\<lambda>(n, v). env_set n v) binds (push_scope (it_env s))\<rparr>"
        and g = "\<lambda>s (r, t). case r of Inl e \<Rightarrow> Some (Inl e, t) | Inr a \<Rightarrow> Some (Inr a, t\<lparr>it_env := pop_scope (it_env t)\<rparr>)"])
    (auto simp: element_scope_runs D_env split: sum.splits intro: K_scope K_leak)

lemma rel_restoring_env [rel_intros]: "rel n m m' \<Longrightarrow> rel n (restoring_env m) (restoring_env m')"
  by (rule rel_wrap [where h = "\<lambda>s. s" and g = "\<lambda>s (r, t). Some (r, t\<lparr>it_env := it_env s\<rparr>)"])
    (auto simp: restoring_env_def intro: K_restore)

lemma rel_or_null [rel_intros]: "rel n m m' \<Longrightarrow> rel n (or_null m) (or_null m')"
  by (rule rel_wrap [where h = "\<lambda>s. s"
        and g = "\<lambda>s (r, t). case r of Inl (Err e) \<Rightarrow> Some (Inr VNull, t) | _ \<Rightarrow> Some (r, t)"])
    (auto simp: or_null_def split: sum.splits fault.splits)

lemma rel_clone_branch [rel_intros]: "rel n m m' \<Longrightarrow> rel n (clone_branch m) (clone_branch m')"
  by (rule rel_wrap [where h = "\<lambda>s. s\<lparr>it_tx := None\<rparr>" and g = "\<lambda>s (r, t). Some (r, s\<lparr>it_world := it_world t\<rparr>)"])
    (auto simp: clone_branch_def D_tx K_world)

lemma rel_spawned_branch [rel_intros]: "rel n m m' \<Longrightarrow> rel n (spawned_branch w m) (spawned_branch w m')"
  by (rule rel_wrap [where h = "\<lambda>s. s\<lparr>it_tx := None, it_world := w\<rparr>" and g = "\<lambda>s (r, t). Some (Inr (r, it_world t), s)"])
    (auto simp: spawned_branch_def K_refl D_keep [OF K_world D_tx])

lemma rel_joined_branch [rel_intros]: "rel n (joined_branch r) (joined_branch r)"
  unfolding joined_branch_def by (intro rel_intros)

lemma rel_at_same_call:
  fixes m m' :: "('d, 't, 'tx, 'w, 'x) im"
  assumes body: "\<And>k. enter n = Some k \<Longrightarrow> rel k m m'" and s: "D n s" "it_call_depth s < it_max_depth s"
  shows "rel_at s (same_module_call fr binds m) (same_module_call fr binds m')"
proof -
  let ?u = "s\<lparr>it_call_depth := it_call_depth s + 1, it_frames := it_frames s @ [fr]\<rparr>"
  obtain k where k: "enter n = Some k" "D k ?u" using D_call [OF s] by blast
  show ?thesis
  proof (rule rel_at_wrap [where u = ?u])
    show "rel k (in_scope binds m) (in_scope binds m')" using body [OF k(1)] by (intro rel_intros)
    show "D k ?u" by (rule k(2))
  fix r :: "fault + 'x" and t
  assume "r \<noteq> Inl Panicked \<longrightarrow> K (s\<lparr>it_call_depth := it_call_depth s + 1, it_frames := it_frames s @ [fr]\<rparr>) t"
  then have "r \<noteq> Inl Panicked \<longrightarrow> K s (t\<lparr>it_call_depth := it_call_depth t - 1\<rparr>)" using K_same_call by blast
  then show "\<exists>r' t'. (\<lambda>(r, t). let s2 = t\<lparr>it_call_depth := it_call_depth t - 1\<rparr> in
      case r of Inr a \<Rightarrow> Some (Inr a, s2\<lparr>it_frames := take (length (it_frames s)) (it_frames s2)\<rparr>) | Inl e \<Rightarrow> Some (Inl e, s2))
      (r, t) = Some (r', t') \<and> (r' \<noteq> Inl Panicked \<longrightarrow> K s t')"
    using K_truncate [of s "t\<lparr>it_call_depth := it_call_depth t - 1\<rparr>"] by (cases r) (auto simp: Let_def)
  qed (simp_all add: same_module_call_def Let_def)
qed

lemma rel_at_cross_call:
  fixes m m' :: "('d, 't, 'tx, 'w, 'x) im"
  assumes body: "\<And>k. enter n = Some k \<Longrightarrow> rel k m m'" and s: "D n s" "it_call_depth s < it_max_depth s"
  shows "rel_at s (cross_module_call owner fr binds m) (cross_module_call owner fr binds m')"
proof -
  define env where "env = fold (\<lambda>(n, v). env_set n v) binds (push_scope (fold (\<lambda>(n, v). env_set n v)
    (local_variables (it_env s)) (push_scope (case it_runtime s of Some rt \<Rightarrow> env_for_module rt (Some owner) | None \<Rightarrow> it_env s))))"
  let ?f0 = "s\<lparr>it_env := env, it_module := Some owner, it_call_depth := it_call_depth s + 1, it_frames := it_frames s @ [fr]\<rparr>"
  obtain k where k: "enter n = Some k" "D k ?f0" using D_call [OF s] by blast
  show ?thesis
  proof (rule rel_at_wrap [where u = ?f0])
    show "rel k m m'" by (rule body [OF k(1)])
    show "D k ?f0" by (rule k(2))
    fix r :: "fault + 'x" and t assume "r \<noteq> Inl Panicked \<longrightarrow> K ?f0 t"
    then show "\<exists>r' t'. (\<lambda>(r, f1). let s1 = s\<lparr>it_world := it_world f1, it_tx := it_tx f1\<rparr> in
        case r of Inr a \<Rightarrow> Some (Inr a, s1) | Inl e \<Rightarrow> Some (Inl e, s1\<lparr>it_frames := it_frames f1\<rparr>)) (r, t) = Some (r', t') \<and>
        (r' \<noteq> Inl Panicked \<longrightarrow> K s t')"
      using K_cross_call [where s = s and env = env and owner = owner and fr = fr and t = t] by (cases r) (auto simp: Let_def)
  qed (simp_all add: cross_module_call_def Let_def env_def)
qed

lemma rel_transaction_block [rel_intros]:
  assumes "rel n body body'"
  shows "rel n (transaction_block l body) (transaction_block l body')"
proof (rule rel_atI)
  fix s assume s: "D n s"
  show "rel_at s (transaction_block l body) (transaction_block l body')"
  proof (cases "it_in_tx s \<or> it_db s = None \<or> (\<exists>engine e w. it_db s = Some engine \<and> db_begin engine (it_world s) = (Inl e, w))")
    case True
    with transaction_refused [of s l] show ?thesis by (blast intro: rel_at_simple K_world)
  next
    case False
    then obtain engine tx w where tx: "\<not> it_in_tx s" "it_db s = Some engine" "db_begin engine (it_world s) = (Inr tx, w)"
      by (metis not_None_eq sumE surj_pair)
    show ?thesis
    proof (rule rel_at_wrap [where u = "s\<lparr>it_world := w, it_tx := Some tx, it_in_tx := True\<rparr>" and g = "transaction_end l engine"])
      show "rel n body body'" by (rule assms)
      show "D n (s\<lparr>it_world := w, it_tx := Some tx, it_in_tx := True\<rparr>)" by (rule D_begin [OF s])
      fix r :: "fault + unit" and t
      assume "r \<noteq> Inl Panicked \<longrightarrow> K (s\<lparr>it_world := w, it_tx := Some tx, it_in_tx := True\<rparr>) t"
      then have "r \<noteq> Inl Panicked \<longrightarrow> K s (t\<lparr>it_in_tx := False, it_tx := None, it_world := w'\<rparr>)" for w'
        using K_transaction [OF tx(1)] by blast
      then show "\<exists>r' t'. transaction_end l engine (r, t) = Some (r', t') \<and> (r' \<noteq> Inl Panicked \<longrightarrow> K s t')"
        by (cases r; cases "it_tx t") (auto simp: transaction_end_def split: prod.splits)
    qed (rule transaction_runs [OF tx])+
  qed
qed

text \<open>A random identifier is drawn only in the presence of a trace context.\<close>

lemma rel_at_draw:
  assumes "D n s" and "it_trace s = Some ctx"
  shows "rel_at s (draw_outbound_child l ctx) (draw_outbound_child l ctx)"
  using draws [OF _ assms] K_world [of s] by (auto simp: rel_at_def outcome_def draw_outbound_child_def bind_eq_Some_conv)

text \<open>\<open>rescue\<close> drops the frames above the depth that the state had when it started.\<close>

lemma rel_at_rescued:
  assumes m: "rel_at s m m'" and handler: "rel n h h'" and s: "D n s"
  shows "rel_at s (rescued l (length (it_frames s)) h m) (rescued l (length (it_frames s)) h' m')"
  unfolding rel_at_def rescued_def catching_def
proof (rule outcome_bind [OF m [unfolded rel_at_def]])
  fix r :: "fault + ('d, 't) val" and t assume t: "r \<noteq> Inl Panicked \<Longrightarrow> K s t"
  let ?t = "t\<lparr>it_frames := take (length (it_frames s)) (it_frames t)\<rparr>"
  have "outcome must (K s) (in_scope b h ?t) (in_scope b h' ?t)" if "r \<noteq> Inl Panicked" for b
  proof -
    have K: "K s ?t" using t that K_truncate by blast
    from rel_atD [OF rel_in_scope [OF handler] D_keep [OF K s], of b]
    show ?thesis by (auto simp: rel_at_def intro: outcome_weaken K_trans [OF K])
  qed
  then show "outcome must (K s)
     (case (r, t) of (r, s1) \<Rightarrow> case r of Inr a \<Rightarrow> Some (Inr a, s1) | Inl Panicked \<Rightarrow> Some (Inl Panicked, s1)
        | Inl (Err e) \<Rightarrow> if is_http_response (Err e) then Some (Inl (Err e), s1)
            else in_scope [(''error'', build_error_map l e)] h (s1\<lparr>it_frames := take (length (it_frames s)) (it_frames s1)\<rparr>))
     (case (r, t) of (r, s1) \<Rightarrow> case r of Inr a \<Rightarrow> Some (Inr a, s1) | Inl Panicked \<Rightarrow> Some (Inl Panicked, s1)
        | Inl (Err e) \<Rightarrow> if is_http_response (Err e) then Some (Inl (Err e), s1)
            else in_scope [(''error'', build_error_map l e)] h' (s1\<lparr>it_frames := take (length (it_frames s)) (it_frames s1)\<rparr>))"
    using t by (auto split: sum.split fault.split intro: outcome_Some)
qed

end

end
