(* ===== verification/Interp_Logic_Ops.thy ===== *)
theory Interp_Logic_Ops
  imports Interp_Logic
begin

text \<open>
  Every operation of the namespaces, of the drivers and of the query stages keeps the relation of
  \<open>interp_logic\<close>, given that the evaluation of the expressions under a job \<open>j\<close> does.
\<close>

context interp_logic
begin

definition evals ::
    "nat \<Rightarrow> job \<Rightarrow> ('d, 't, 'tx, 'w) evaluator \<Rightarrow> ('d, 't, 'tx, 'w) evaluator \<Rightarrow> bool" where
  "evals n j ev ev' \<longleftrightarrow> (\<forall>e. sub (JE e) j \<longrightarrow> rel n (ev e) (ev' e))"

definition under :: "job \<Rightarrow> expression argument list \<Rightarrow> bool" where
  "under j args \<longleftrightarrow> (\<forall>a \<in> set args. sub (JE (argument_expression a)) j)"

lemma rel_ev: "evals n j ev ev' \<Longrightarrow> sub (JE e) j \<Longrightarrow> rel n (ev e) (ev' e)"
  by (simp add: evals_def)

lemma under_simps [simp]:
  "under j []" "under j (a # as) \<longleftrightarrow> sub (JE (argument_expression a)) j \<and> under j as"
  by (simp_all add: under_def)

lemma rel_io [rel_intros]:
  "rel n m m' \<Longrightarrow> (\<And>e. rel n (f e) (f' e)) \<Longrightarrow>
     rel n (case v of IoNotFound \<Rightarrow> m | IoOther e \<Rightarrow> f e) (case v of IoNotFound \<Rightarrow> m' | IoOther e \<Rightarrow> f' e)"
  by (cases v) simp_all

subsubsection \<open>Rows, properties and built-in functions\<close>

lemma rel_rows [rel_intros]:
  "rel n (value_to_db_row v) (value_to_db_row v)"
  "rel n (value_to_doc_row v) (value_to_doc_row v)"
  "rel n (db_row_to_runtime_value l table row) (db_row_to_runtime_value l table row)"
  unfolding value_to_db_row_def value_to_doc_row_def db_row_to_runtime_value_def by (intro rel_intros)+

lemma rel_temporal [rel_intros]:
  "rel n (access_instant_property l dt p) (access_instant_property l dt p)"
  "rel n (local_date_time_to_utc l date time b) (local_date_time_to_utc l date time b)"
  "rel n (access_time_property l dt p) (access_time_property l dt p)"
  "rel n (access_duration_property l dt p) (access_duration_property l dt p)"
  "rel n (temporal_value_from_runtime_value v) (temporal_value_from_runtime_value v)"
  "rel n (interval_duration l i) (interval_duration l i)"
  unfolding access_instant_property_def local_date_time_to_utc_def access_time_property_def access_duration_property_def
    temporal_value_from_runtime_value_def interval_duration_def
  by (intro rel_intros)+

lemma rel_access_parts [rel_intros]:
  "rel n (access_date_property l dt p) (access_date_property l dt p)"
  "rel n (access_interval_property l i p) (access_interval_property l i p)"
  unfolding access_date_property_def access_interval_property_def by (intro rel_intros)+

lemma rel_access_property [rel_intros]: "rel n (access_property l obj p) (access_property l obj p)"
  unfolding access_property_def by (intro rel_intros)

lemma rel_builtins [rel_intros]:
  "rel n (builtin_fail l args) (builtin_fail l args)"
  "rel n (builtin_len args) (builtin_len args)"
  "rel n (builtin_range args) (builtin_range args)"
  "rel n (builtin_decimal l args) (builtin_decimal l args)"
  "rel n (builtin_print l args) (builtin_print l args)"
  "rel n (builtin_type args) (builtin_type args)"
  unfolding builtin_fail_def builtin_len_def builtin_range_def builtin_decimal_def builtin_print_def builtin_type_def Let_def
  by (intro rel_intros)+

lemma rel_builtin_function: "builtin_function l name args = Some m \<Longrightarrow> rel n m m"
  by (auto simp: builtin_function_def rel_builtins split: if_splits)

subsubsection \<open>Arguments\<close>

lemma rel_evaluate_args [rel_intros]:
  "evals n j ev ev' \<Longrightarrow> under j args \<Longrightarrow> rel n (evaluate_args ev args) (evaluate_args ev' args)"
  unfolding evaluate_args_def by (rule rel_imap) (auto simp: under_def intro: rel_ev)

lemma rel_collect_args [rel_intros]:
  "evals n j ev ev' \<Longrightarrow> under j args \<Longrightarrow> rel n (collect_args ev args) (collect_args ev' args)"
  by (induction args) (auto intro!: rel_iret rel_ibind rel_prod intro: rel_ev)

lemma rel_collect_named [rel_intros]:
  "evals n j ev ev' \<Longrightarrow> under j args \<Longrightarrow> rel n (collect_named ev args) (collect_named ev' args)"
  by (induction args) (auto intro!: rel_iret rel_ibind split: argument.split intro: rel_ev)

lemma rel_collect_named_and_positional [rel_intros]:
  "evals n j ev ev' \<Longrightarrow> under j args \<Longrightarrow>
     rel n (collect_named_and_positional ev args input) (collect_named_and_positional ev' args input)"
  unfolding collect_named_and_positional_def by (intro rel_intros; assumption)

lemma rel_argument_values [rel_intros]:
  "rel n (ensure_no_named_args named callee) (ensure_no_named_args named callee)"
  "rel n (expect_string_value args i callee) (expect_string_value args i callee)"
  "rel n (expect_numeric_i64_value l args i callee) (expect_numeric_i64_value l args i callee)"
  unfolding ensure_no_named_args_def expect_string_value_def expect_numeric_i64_value_def by (intro rel_intros)+

subsubsection \<open>Namespaces\<close>

lemma rel_log [rel_intros]:
  "rel n (log_level_for_method callee) (log_level_for_method callee)"
  "rel n (build_log_event l level v) (build_log_event l level v)"
  unfolding log_level_for_method_def build_log_event_def Let_def by (intro rel_intros)+

lemma rel_emit_log_value [rel_intros]: "rel n (emit_log_value l level v) (emit_log_value l level v)"
  unfolding emit_log_value_def by (intro rel_intros)

lemma rel_dispatch_log [rel_intros]:
  "evals n j ev ev' \<Longrightarrow> under j args \<Longrightarrow>
     rel n (dispatch_log_with_input l ev callee args input) (dispatch_log_with_input l ev' callee args input)"
  unfolding dispatch_log_with_input_def by (intro rel_intros; assumption)

lemma rel_fs [rel_intros]:
  "rel n (fs_do path h) (fs_do path h)"
  "rel n (fs_string_arg args i callee) (fs_string_arg args i callee)"
  unfolding fs_do_def fs_string_arg_def by (intro rel_intros)+

lemma rel_fs_calls [rel_intros]:
  "rel n (fs_put callee put injected pos) (fs_put callee put injected pos)"
  "(\<And>path. rel n (k path) (k' path)) \<Longrightarrow> rel n (fs_path_call callee pos k) (fs_path_call callee pos k')"
  unfolding fs_put_def fs_path_call_def by (intro rel_intros; assumption?)+

lemma rel_dispatch_fs [rel_intros]:
  "evals n j ev ev' \<Longrightarrow> under j args \<Longrightarrow>
     rel n (dispatch_fs_with_input l ev callee args input) (dispatch_fs_with_input l ev' callee args input)"
  unfolding dispatch_fs_with_input_def by (intro rel_intros; assumption)

lemma rel_dispatch_json [rel_intros]:
  "evals n j ev ev' \<Longrightarrow> under j args \<Longrightarrow>
     rel n (dispatch_json_with_input l ev callee args input) (dispatch_json_with_input l ev' callee args input)"
  unfolding dispatch_json_with_input_def by (intro rel_intros; assumption)

lemma rel_base64_flag [rel_intros]: "rel n (base64_flag_from l callee flag named) (base64_flag_from l callee flag named)"
  by (induction named arbitrary: flag) (auto intro!: rel_intros)

lemma rel_base64 [rel_intros]:
  "rel n (base64_url_safe_flag l named callee) (base64_url_safe_flag l named callee)"
  "rel n (base64_decode_bytes l text url_safe) (base64_decode_bytes l text url_safe)"
  unfolding base64_url_safe_flag_def base64_decode_bytes_def by (intro rel_intros)+

lemma rel_dispatch_base64 [rel_intros]:
  "evals n j ev ev' \<Longrightarrow> under j args \<Longrightarrow>
     rel n (dispatch_base64_with_input l ev callee args input) (dispatch_base64_with_input l ev' callee args input)"
  unfolding dispatch_base64_with_input_def by (intro rel_intros; assumption)

lemma rel_dispatch_uuid [rel_intros]:
  "evals n j ev ev' \<Longrightarrow> under j args \<Longrightarrow> rel n (dispatch_uuid l ev callee args) (dispatch_uuid l ev' callee args)"
  unfolding dispatch_uuid_def by (intro rel_intros; assumption)

lemma rel_dispatch_feature [rel_intros]:
  "evals n j ev ev' \<Longrightarrow> under j args \<Longrightarrow> rel n (dispatch_feature ev callee args) (dispatch_feature ev' callee args)"
  unfolding dispatch_feature_def by (intro rel_intros; assumption)

subsubsection \<open>math and time\<close>

lemma rel_math_numeric [rel_intros]: "rel n (math_numeric_value v callee) (math_numeric_value v callee)"
  unfolding math_numeric_value_def by (intro rel_intros)

lemma rel_round_places [rel_intros]: "rel n (round_places l places named) (round_places l places named)"
  by (induction named arbitrary: places) (auto intro!: rel_intros)

lemma rel_clamp_bounds [rel_intros]: "rel n (clamp_bounds b named) (clamp_bounds b named)"
  by (induction named arbitrary: b) (auto intro!: rel_intros)

lemma rel_math [rel_intros]:
  "rel n (math_number_arg args callee) (math_number_arg args callee)"
  "rel n (math_two_number_args args callee) (math_two_number_args args callee)"
  "rel n (dispatch_math_round l pos named) (dispatch_math_round l pos named)"
  "rel n (dispatch_math_clamp pos named) (dispatch_math_clamp pos named)"
  "rel n (math_abs pos) (math_abs pos)"
  unfolding math_number_arg_def math_two_number_args_def dispatch_math_round_def dispatch_math_clamp_def math_abs_def
  by (intro rel_intros)+

lemma rel_dispatch_math [rel_intros]:
  "evals n j ev ev' \<Longrightarrow> under j args \<Longrightarrow>
     rel n (dispatch_math_with_input l ev callee args input) (dispatch_math_with_input l ev' callee args input)"
  unfolding dispatch_math_with_input_def by (intro rel_intros; assumption)

lemma rel_time_parts [rel_intros]:
  "rel n (parse_temporal_string l input) (parse_temporal_string l input)"
  "rel n (parse_instant_string l input) (parse_instant_string l input)"
  "rel n (duration_from_unit l args callee millis) (duration_from_unit l args callee millis)"
  "rel n (ensure_same_temporal_kind a b) (ensure_same_temporal_kind a b)"
  "rel n (interval_contains l i v) (interval_contains l i v)"
  "rel n (intervals_overlap l i i') (intervals_overlap l i i')"
  "rel n (format_temporal_value l w msk) (format_temporal_value l w msk)"
  "rel n (time_interval_arg args k expectation missing) (time_interval_arg args k expectation missing)"
  "rel n (time_parsed args callee reader msk) (time_parsed args callee reader msk)"
  unfolding parse_temporal_string_def parse_instant_string_def duration_from_unit_def ensure_same_temporal_kind_def
    interval_contains_def intervals_overlap_def format_temporal_value_def time_interval_arg_def time_parsed_def Let_def
  by (intro rel_intros)+

lemma rel_time_calls [rel_intros]:
  "rel n (time_interval args) (time_interval args)"
  "rel n (time_contains l args) (time_contains l args)"
  "rel n (time_overlaps l args) (time_overlaps l args)"
  unfolding time_interval_def time_contains_def time_overlaps_def by (intro rel_intros)+

lemma rel_dispatch_time [rel_intros]:
  "evals n j ev ev' \<Longrightarrow> under j args \<Longrightarrow> rel n (dispatch_time l ev callee args) (dispatch_time l ev' callee args)"
  unfolding dispatch_time_def by (intro rel_intros; assumption)

subsubsection \<open>Interpolation and native queries\<close>

lemma rel_evaluate_source:
  assumes "\<And>target e line column rest.
      parse_source (''__nq_param = '' @ src) = Inr (SAssignment target e line column # rest) \<Longrightarrow> rel n (ev e) (ev' e)"
  shows "rel n (evaluate_source_expression l ev src) (evaluate_source_expression l ev' src)"
proof (cases "parse_source (''__nq_param = '' @ src)")
  case (Inl err)
  then show ?thesis by (cases err) (simp_all add: evaluate_source_expression_def rel_intros)
next
  case (Inr stmts)
  show ?thesis
  proof (cases stmts)
    case Nil
    with Inr show ?thesis by (simp add: evaluate_source_expression_def rel_intros)
  next
    case (Cons st rest)
    with Inr assms show ?thesis by (cases st) (simp_all add: evaluate_source_expression_def rel_intros)
  qed
qed

lemma rel_interpolate_segments:
  "(\<And>src. SegSource src \<in> set segs \<Longrightarrow>
      rel n (evaluate_source_expression l ev (trim src)) (evaluate_source_expression l ev' (trim src))) \<Longrightarrow>
    rel n (interpolate_segments l ev segs) (interpolate_segments l ev' segs)"
  by (induction segs) (auto split: segment.split intro!: rel_iret rel_ibind rel_or_null)

lemma rel_native_segments:
  "(\<And>src. SegSource src \<in> set segs \<Longrightarrow>
      rel n (evaluate_source_expression l ev (trim src)) (evaluate_source_expression l ev' (trim src))) \<Longrightarrow>
    rel n (native_segments l ev segs k) (native_segments l ev' segs k)"
  by (induction segs arbitrary: k) (auto split: segment.split intro!: rel_iret rel_ibind rel_prod)

lemma rel_interpolate_string:
  assumes "evals n j ev ev'" and "\<And>e. embedded str e \<Longrightarrow> sub (JE e) j"
  shows "rel n (interpolate_string l ev str) (interpolate_string l ev' str)"
  unfolding interpolate_string_def
  by (intro rel_intros rel_interpolate_segments rel_evaluate_source rel_ev [OF assms(1)] assms(2))
    (auto simp: embedded_def)

lemma rel_native_query_template [rel_intros]:
  "evals n j ev ev' \<Longrightarrow> under j args \<Longrightarrow> rel n (native_query_template ev args) (native_query_template ev' args)"
  unfolding native_query_template_def by (intro rel_intros; assumption)

text \<open>A native query evaluates text that is only known at run time; it needs a database.\<close>

lemma rel_dispatch_native_query [rel_intros]:
  assumes "evals n j ev ev'" and "under j args"
  shows "rel n (dispatch_native_query l ev args) (dispatch_native_query l ev' args)"
proof (cases "\<exists>s. D n s \<and> it_db s \<noteq> None")
  case True
  then have "sub (JE e) j" for e using sub_database by blast
  with assms(1) have "rel n (ev e) (ev' e)" for e by (rule rel_ev)
  then show ?thesis
    unfolding dispatch_native_query_def extract_native_query_params_def
    using assms by (intro rel_intros rel_native_segments rel_evaluate_source)
next
  case False
  then show ?thesis
    by (intro rel_atI) (auto simp: rel_at_def dispatch_native_query_def ibind_def iask_def require_db_engine_def
        type_error_def intro: outcome_Some K_refl)
qed

subsubsection \<open>Cache and HTTP client\<close>

lemma rel_cache_parts [rel_intros]:
  "rel n (cache_error op msg) (cache_error op msg)"
  "rel n (cache_do op h) (cache_do op h)"
  "rel n (resolve_ttl l named) (resolve_ttl l named)"
  "rel n (require_cache_driver op) (require_cache_driver op)"
  unfolding cache_error_def cache_do_def resolve_ttl_def require_cache_driver_def by (intro rel_intros)+

lemma rel_cache_key [rel_intros]: "rel n (cache_key l op pos) (cache_key l op pos)"
  unfolding cache_key_def by (intro rel_intros)

lemma rel_dispatch_cache [rel_intros]:
  "evals n j ev ev' \<Longrightarrow> under j args \<Longrightarrow> rel n (dispatch_cache l ev callee args) (dispatch_cache l ev' callee args)"
  unfolding dispatch_cache_def Let_def by (intro rel_intros; assumption)

lemma rel_cache_set_stage [rel_intros]:
  assumes "evals n j ev ev'" and "under j args"
  shows "rel n (cache_set_stage l ev args input) (cache_set_stage l ev' args input)"
  unfolding cache_set_stage_def using assms by (auto intro!: rel_intros intro: rel_ev)

lemma rel_http_parts [rel_intros]:
  "rel n (http_client_error op msg) (http_client_error op msg)"
  "rel n (require_http_client_driver op) (require_http_client_driver op)"
  "rel n (request_url op callee pos) (request_url op callee pos)"
  "rel n (request_query l op callee m input named) (request_query l op callee m input named)"
  unfolding http_client_error_def require_http_client_driver_def request_url_def request_query_def Let_def
  by (intro rel_intros)+

lemma rel_trace_headers [rel_intros]: "rel n (trace_headers l headers) (trace_headers l headers)"
  unfolding trace_headers_def Let_def
proof (rule rel_ask)
  fix s assume "D n s"
  then show "rel_at s (case it_trace s of None \<Rightarrow> iret headers | Some ctx \<Rightarrow> ibind (draw_outbound_child l ctx) (\<lambda>child.
        iret (case tc_tracestate child of None \<Rightarrow> insert_absent ''traceparent'' (traceparent child) headers
          | Some ts \<Rightarrow> insert_absent ''tracestate'' ts (insert_absent ''traceparent'' (traceparent child) headers))))
      (case it_trace s of None \<Rightarrow> iret headers | Some ctx \<Rightarrow> ibind (draw_outbound_child l ctx) (\<lambda>child.
        iret (case tc_tracestate child of None \<Rightarrow> insert_absent ''traceparent'' (traceparent child) headers
          | Some ts \<Rightarrow> insert_absent ''tracestate'' ts (insert_absent ''traceparent'' (traceparent child) headers))))"
    by (cases "it_trace s") (auto intro: rel_atD rel_iret rel_at_ibind rel_at_draw)
qed

lemma rel_dispatch_http_client [rel_intros]:
  "evals n j ev ev' \<Longrightarrow> under j args \<Longrightarrow>
     rel n (dispatch_http_client_with_pipeline l ev callee args input)
       (dispatch_http_client_with_pipeline l ev' callee args input)"
  unfolding dispatch_http_client_with_pipeline_def Let_def by (intro rel_intros; assumption)

end

end
