(* ===== verification/Interp_Logic_Run.thy ===== *)
theory Interp_Logic_Run
  imports Interp_Logic_Ops
begin

text \<open>
  The query stages, calls, pipelines, broadcasts, statements and expressions keep the relation of
  \<open>interp_logic\<close>: \<open>rel_step\<close> is the step of the interpreter.
\<close>

context interp_logic
begin

lemma sub_right: "sub (JE (EBinaryOp left op right)) j \<Longrightarrow> sub (JE right) j"
  by (rule sub_trans [OF sub_parts]) (simp_all add: parts_def expression_parts_def)

subsubsection \<open>Filters\<close>

lemma rel_extract_filter [rel_intros]:
  assumes "evals n j ev ev'" and "sub (JE e) j"
  shows "rel n (extract_filter_from_expr l ev e) (extract_filter_from_expr l ev' e)"
proof (cases e)
  case (EBinaryOp left op right)
  with assms have "rel n (ev right) (ev' right)" using sub_right rel_ev by blast
  with EBinaryOp show ?thesis
    unfolding extract_filter_from_expr_def by (cases left; cases "filter_op_of op") (simp_all add: rel_intros)
qed (simp_all add: extract_filter_from_expr_def rel_intros)

lemma rel_extract_doc_filter [rel_intros]:
  assumes "evals n j ev ev'" and "sub (JE e) j"
  shows "rel n (extract_doc_filter_from_expr l ev e) (extract_doc_filter_from_expr l ev' e)"
proof (cases e)
  case (EBinaryOp left op right)
  with assms have "rel n (ev right) (ev' right)" using sub_right rel_ev by blast
  with EBinaryOp show ?thesis
    unfolding extract_doc_filter_from_expr_def by (cases left) (auto intro!: rel_intros)
qed (simp_all add: extract_doc_filter_from_expr_def rel_intros)

lemma under_elements: "under j args \<Longrightarrow> Named k e \<in> set args \<Longrightarrow> sub (JE e) j"
    "under j args \<Longrightarrow> Positional e \<in> set args \<Longrightarrow> sub (JE e) j"
  by (auto simp: under_def)

lemma rel_where_args [rel_intros]:
  assumes "evals n j ev ev'" and "under j args"
  shows "rel n (parse_where_args l ev args) (parse_where_args l ev' args)"
    and "rel n (args_to_equality_filters ev args) (args_to_equality_filters ev' args)"
    and "rel n (parse_doc_where_args l ev args) (parse_doc_where_args l ev' args)"
  unfolding parse_where_args_def args_to_equality_filters_def parse_doc_where_args_def
  using assms by (auto intro!: rel_intros intro: rel_ev under_elements)

lemma rel_named_string_arg [rel_intros]:
  "evals n j ev ev' \<Longrightarrow> under j args \<Longrightarrow>
     rel n (extract_named_string_arg ev args key) (extract_named_string_arg ev' args key)"
  by (induction ev args key rule: extract_named_string_arg.induct) (auto intro!: rel_intros intro: rel_ev)

subsubsection \<open>Stages of queries\<close>

lemma rel_stage_parts [rel_intros]:
  "rel n (query_value q) (query_value q)"
  "rel n (doc_query_value dq) (doc_query_value dq)"
  "rel n (first_string args msg) (first_string args msg)"
  "rel n (first_integer args msg) (first_integer args msg)"
  "rel n (column_strings args) (column_strings args)"
  "rel n (runtime_rows l table rows) (runtime_rows l table rows)"
  "rel n (runtime_row l table row) (runtime_row l table row)"
  "rel n write_after_aggregation write_after_aggregation"
  "rel n (pick_fields args) (pick_fields args)"
  "rel n (order_direction l args) (order_direction l args)"
  unfolding query_value_def doc_query_value_def first_string_def first_integer_def column_strings_def runtime_rows_def
    runtime_row_def write_after_aggregation_def pick_fields_def order_direction_def Let_def
  by (intro rel_intros)+

lemma rel_query_step [rel_intros]:
  "evals n j ev ev' \<Longrightarrow> under j args \<Longrightarrow> rel n (query_step l ev q name args) (query_step l ev' q name args)"
  unfolding query_step_def by (intro rel_intros; assumption)

lemma rel_query_terminal [rel_intros]: "rel n (query_terminal l q name) (query_terminal l q name)"
  unfolding query_terminal_def by (intro rel_intros)

lemma under_parts: "set (argument_parts args) \<subseteq> set (parts j) \<Longrightarrow> under j args"
  unfolding under_def argument_parts_def using sub_parts by fastforce

lemma under_trans: "under j args \<Longrightarrow> sub j k \<Longrightarrow> under k args"
  unfolding under_def using sub_trans by blast

lemma under_call: "sub (JE (EFunctionCall name args)) j \<Longrightarrow> under j args"
  by (erule under_trans [rotated]) (rule under_parts, simp add: parts_def expression_parts_def)

lemma under_method: "sub (JE (EMethodCall object callee args)) j \<Longrightarrow> under j args"
  by (erule under_trans [rotated]) (rule under_parts, auto simp: parts_def expression_parts_def)

lemma rel_query_stage [rel_intros]:
  "evals n j ev ev' \<Longrightarrow> sub (JE e) j \<Longrightarrow>
     rel n (apply_query_pipeline_stage l ev q e) (apply_query_pipeline_stage l ev' q e)"
  unfolding apply_query_pipeline_stage_def by (cases e) (auto intro!: rel_intros dest: under_call)

lemma rel_relation_stage [rel_intros]:
  assumes "evals n j ev ev'" and "sub (JE e) j"
  shows "rel n (apply_relation_pipeline_stage l ev r e) (apply_relation_pipeline_stage l ev' r e)"
proof (cases "rh_cardinality r")
  case CardOne
  then show ?thesis unfolding apply_relation_pipeline_stage_def by (cases e) (auto intro!: rel_intros)
next
  case CardMany
  with assms show ?thesis unfolding apply_relation_pipeline_stage_def by (auto intro: rel_intros)
qed

lemma rel_db_direct [rel_intros]:
  "evals n j ev ev' \<Longrightarrow> under j args \<Longrightarrow>
     rel n (dispatch_db_direct l ev table callee args) (dispatch_db_direct l ev' table callee args)"
  unfolding dispatch_db_direct_def by (intro rel_intros; assumption)

lemma rel_accumulator_args [rel_intros]:
  "evals n j ev ev' \<Longrightarrow> under j args \<Longrightarrow> rel n (accumulator_args ev st fa args) (accumulator_args ev' st fa args)"
  by (induction ev st fa args rule: accumulator_args.induct) (auto intro!: rel_intros intro: rel_ev)

lemma rel_count_alias [rel_intros]:
  "evals n j ev ev' \<Longrightarrow> under j args \<Longrightarrow> rel n (count_alias ev alias args) (count_alias ev' alias args)"
  by (induction ev "alias" args rule: count_alias.induct) (auto intro!: rel_intros intro: rel_ev)

lemma rel_doc_steps [rel_intros]:
  "evals n j ev ev' \<Longrightarrow> under j args \<Longrightarrow> rel n (accumulator_step ev q name args) (accumulator_step ev' q name args)"
  "evals n j ev ev' \<Longrightarrow> under j args \<Longrightarrow> rel n (count_step ev q args) (count_step ev' q args)"
  "evals n j ev ev' \<Longrightarrow> under j args \<Longrightarrow> rel n (doc_write ev q name args call) (doc_write ev' q name args call)"
  unfolding accumulator_step_def count_step_def doc_write_def by (intro rel_intros; assumption)+

lemma rel_doc_query_step [rel_intros]:
  "evals n j ev ev' \<Longrightarrow> under j args \<Longrightarrow> rel n (doc_query_step l ev q name args) (doc_query_step l ev' q name args)"
  unfolding doc_query_step_def by (intro rel_intros; assumption)

lemma rel_doc_query_terminal [rel_intros]: "rel n (doc_query_terminal q name) (doc_query_terminal q name)"
  unfolding doc_query_terminal_def by (intro rel_intros)

lemma rel_doc_query_stage [rel_intros]:
  "evals n j ev ev' \<Longrightarrow> sub (JE e) j \<Longrightarrow>
     rel n (apply_doc_query_pipeline_stage l ev q e) (apply_doc_query_pipeline_stage l ev' q e)"
  unfolding apply_doc_query_pipeline_stage_def by (cases e) (auto intro!: rel_intros dest: under_call)

lemma rel_doc_pipeline [rel_intros]: "rel n (dispatch_doc_pipeline l args) (dispatch_doc_pipeline l args)"
  unfolding dispatch_doc_pipeline_def by (intro rel_intros)

lemma rel_doc_direct [rel_intros]:
  "evals n j ev ev' \<Longrightarrow> under j args \<Longrightarrow>
     rel n (dispatch_doc_direct ev coll callee args) (dispatch_doc_direct ev' coll callee args)"
  unfolding dispatch_doc_direct_def by (intro rel_intros; assumption)

subsubsection \<open>Bodies and calls\<close>

definition runs ::
    "nat \<Rightarrow> job \<Rightarrow> ('d, 't, 'tx, 'w) runner \<Rightarrow> ('d, 't, 'tx, 'w) runner \<Rightarrow> bool" where
  "runs n j go go' \<longleftrightarrow> (\<forall>j'. sub j' j \<longrightarrow> rel n (go j') (go' j')) \<and> (\<forall>k. enter n = Some k \<longrightarrow> (\<forall>j'. rel k (go j') (go' j')))"

definition below :: "job list \<Rightarrow> job \<Rightarrow> bool" where
  "below js j \<longleftrightarrow> (\<forall>j' \<in> set js. sub j' j)"

lemma runs_evals [rel_intros]: "runs n j go go' \<Longrightarrow> evals n j (go \<circ> JE) (go' \<circ> JE)"
  by (simp add: runs_def evals_def)

lemma rel_go: "runs n j go go' \<Longrightarrow> sub j' j \<Longrightarrow> rel n (go j') (go' j')"
  by (simp add: runs_def)

lemma below_simps [simp]:
  "below [] j" "below (j' # js) j \<longleftrightarrow> sub j' j \<and> below js j" "below (js @ ks) j \<longleftrightarrow> below js j \<and> below ks j"
  by (auto simp: below_def)

lemma below_parts: "set js \<subseteq> set (parts j) \<Longrightarrow> below js j"
  using sub_parts by (auto simp: below_def)

lemma below_trans: "below js j \<Longrightarrow> sub j k \<Longrightarrow> below js k"
  using sub_trans by (auto simp: below_def)

lemma rel_run_stmts:
  "(\<And>st. st \<in> set stmts \<Longrightarrow> rel n (go (JS st)) (go' (JS st))) \<Longrightarrow> rel n (run_stmts go stmts) (run_stmts go' stmts)"
  unfolding run_stmts_def by (intro rel_intros)

lemma rel_execute_from:
  "(\<And>st. st \<in> set stmts \<Longrightarrow> rel n (go (JS st)) (go' (JS st))) \<Longrightarrow>
     rel n (execute_from go v stmts) (execute_from go' v stmts)"
  by (induction stmts arbitrary: v) (auto intro!: rel_iret rel_ibind)

lemma rel_evaluate_body:
  "(\<And>j'. j' \<in> set (body_parts body) \<Longrightarrow> rel n (go j') (go' j')) \<Longrightarrow> rel n (evaluate_body go body) (evaluate_body go' body)"
  unfolding evaluate_body_def body_parts_def by (cases body) (auto intro!: rel_ibind rel_run_stmts)

lemma rel_body_below [rel_intros]:
  "runs n j go go' \<Longrightarrow> below (body_parts body) j \<Longrightarrow> rel n (evaluate_body go body) (evaluate_body go' body)"
  by (rule rel_evaluate_body) (auto simp: below_def intro: rel_go)

lemma rel_branch_body [rel_intros]:
  "runs n j go go' \<Longrightarrow> below (body_parts body) j \<Longrightarrow> rel n (evaluate_branch_body go body) (evaluate_branch_body go' body)"
  unfolding evaluate_branch_body_def by (intro rel_intros; assumption)

lemma rel_evaluate_entries [rel_intros]:
  assumes "evals n j ev ev'" and "below (map (\<lambda>kv. JE (snd kv)) entries) j"
  shows "rel n (evaluate_entries ev entries) (evaluate_entries ev' entries)"
  unfolding evaluate_entries_def using assms by (force intro!: rel_intros rel_ev [OF assms(1)] simp: below_def)

lemma rel_coerce_argument [rel_intros]: "rel n (coerce_argument l schemas name pa) (coerce_argument l schemas name pa)"
  unfolding coerce_argument_def by (intro rel_intros)

lemma rel_enter:
  assumes "runs n j go go'"
  shows "rel n
    (ibind (iask (\<lambda>s. (it_call_depth s, it_max_depth s, it_module s))) (\<lambda>(depth, max_depth, current).
       if max_depth \<le> depth then runtime_error msg
       else case owner_module of
              Some owner \<Rightarrow>
                (if current \<noteq> Some owner then cross_module_call owner fr binds (evaluate_body go body)
                 else same_module_call fr binds (evaluate_body go body))
            | None \<Rightarrow> same_module_call fr binds (evaluate_body go body)))
    (ibind (iask (\<lambda>s. (it_call_depth s, it_max_depth s, it_module s))) (\<lambda>(depth, max_depth, current).
       if max_depth \<le> depth then runtime_error msg
       else case owner_module of
              Some owner \<Rightarrow>
                (if current \<noteq> Some owner then cross_module_call owner fr binds (evaluate_body go' body)
                 else same_module_call fr binds (evaluate_body go' body))
            | None \<Rightarrow> same_module_call fr binds (evaluate_body go' body)))"
proof (rule rel_ask)
  fix s assume s: "D n s"
  have "rel k (evaluate_body go body) (evaluate_body go' body)" if "enter n = Some k" for k
    using assms that by (intro rel_evaluate_body) (simp add: runs_def)
  note call = rel_at_same_call [OF this s, of fr binds] rel_at_cross_call [OF this s, of _ fr binds]
  have "rel_at s (runtime_error msg) (runtime_error msg)" by (rule rel_atD [OF _ s]) (intro rel_intros)
  with call show "rel_at s (case (it_call_depth s, it_max_depth s, it_module s) of (depth, max_depth, current) \<Rightarrow>
       if max_depth \<le> depth then runtime_error msg
       else case owner_module of
              Some owner \<Rightarrow>
                (if current \<noteq> Some owner then cross_module_call owner fr binds (evaluate_body go body)
                 else same_module_call fr binds (evaluate_body go body))
            | None \<Rightarrow> same_module_call fr binds (evaluate_body go body))
      (case (it_call_depth s, it_max_depth s, it_module s) of (depth, max_depth, current) \<Rightarrow>
       if max_depth \<le> depth then runtime_error msg
       else case owner_module of
              Some owner \<Rightarrow>
                (if current \<noteq> Some owner then cross_module_call owner fr binds (evaluate_body go' body)
                 else same_module_call fr binds (evaluate_body go' body))
            | None \<Rightarrow> same_module_call fr binds (evaluate_body go' body))"
    by (cases owner_module) auto
qed

lemma rel_call_task_value [rel_intros]:
  "runs n j go go' \<Longrightarrow> rel n (call_task_value l go task args call_name) (call_task_value l go' task args call_name)"
  unfolding call_task_value_def Let_def by (cases task) (auto intro!: rel_intros rel_enter)

lemma rel_call_function [rel_intros]:
  "runs n j go go' \<Longrightarrow> rel n (call_function l go name args) (call_function l go' name args)"
  unfolding call_function_def
  by (cases "builtin_function l name args") (auto intro!: rel_intros intro: rel_builtin_function)

lemma rel_evaluate_match [rel_intros]:
  "evals n j ev ev' \<Longrightarrow> below (concat (map arm_parts arms)) j \<Longrightarrow>
     rel n (evaluate_match l ev subj arms) (evaluate_match l ev' subj arms)"
  by (induction arms)
    (auto simp: arm_parts_def split: match_arm.split match_pattern.split intro!: rel_iret rel_ibind rel_if intro: rel_ev)

lemma rel_schema_constructor [rel_intros]:
  "evals n j ev ev' \<Longrightarrow> below (map (\<lambda>kv. JE (snd kv)) entries) j \<Longrightarrow>
     rel n (evaluate_schema_constructor l ev name entries) (evaluate_schema_constructor l ev' name entries)"
  unfolding evaluate_schema_constructor_def Let_def by (intro rel_intros; assumption)

lemma rel_response_schema [rel_intros]:
  assumes "evals n j ev ev'" and "sub (JE call) j"
  shows "rel n (evaluate_http_client_response_schema l ev call name) (evaluate_http_client_response_schema l ev' call name)"
  unfolding evaluate_http_client_response_schema_def Let_def by (intro rel_intros rel_ev [OF assms])

end

end
