(* ===== verification/Interp_Logic_Step.thy ===== *)
theory Interp_Logic_Step
  imports Interp_Logic_Run
begin

text \<open>
  Pipelines, broadcasts, statements and expressions keep the relation of \<open>interp_logic\<close>; \<open>rel_step\<close> puts them
  together.
\<close>

context interp_logic
begin

subsubsection \<open>Producers and stages\<close>

lemma rel_queue_message [rel_intros]: "rel n (queue_message l v) (queue_message l v)"
  unfolding queue_message_def
proof (rule rel_ask)
  fix s assume "D n s"
  then show "rel_at s (case it_trace s of None \<Rightarrow> iret \<lparr>qm_payload = v, qm_metadata = []\<rparr>
       | Some ctx \<Rightarrow> ibind (draw_outbound_child l ctx) (\<lambda>child.
           iret \<lparr>qm_payload = v, qm_metadata = (''traceparent'', traceparent child) #
             (case tc_tracestate child of None \<Rightarrow> [] | Some ts \<Rightarrow> [(''tracestate'', ts)])\<rparr>))
     (case it_trace s of None \<Rightarrow> iret \<lparr>qm_payload = v, qm_metadata = []\<rparr>
       | Some ctx \<Rightarrow> ibind (draw_outbound_child l ctx) (\<lambda>child.
           iret \<lparr>qm_payload = v, qm_metadata = (''traceparent'', traceparent child) #
             (case tc_tracestate child of None \<Rightarrow> [] | Some ts \<Rightarrow> [(''tracestate'', ts)])\<rparr>))"
    by (cases "it_trace s") (auto intro: rel_atD rel_iret rel_at_ibind rel_at_draw)
qed

lemma rel_producer_parts [rel_intros]:
  "rel n (require_queue_driver op) (require_queue_driver op)"
  "rel n (producer_schema schema v) (producer_schema schema v)"
  unfolding require_queue_driver_def producer_schema_def by (intro rel_intros)+

lemma rel_producer_payload [rel_intros]:
  "evals n j ev ev' \<Longrightarrow> below (option_parts payload) j \<Longrightarrow>
     rel n (producer_payload ev op payload input) (producer_payload ev' op payload input)"
  unfolding producer_payload_def option_parts_def by (cases payload) (auto intro!: rel_intros intro: rel_ev)

lemma rel_queue_push [rel_intros]:
  assumes "evals n j ev ev'" and "sub (JE q) j" and "below (option_parts payload) j"
  shows "rel n (eval_queue_push l ev q schema payload input) (eval_queue_push l ev' q schema payload input)"
  unfolding eval_queue_push_def using assms by (intro rel_intros rel_ev [OF assms(1,2)])

lemma rel_topic_publish [rel_intros]:
  assumes "evals n j ev ev'" and "sub (JE q) j" and "below (option_parts payload) j"
  shows "rel n (eval_topic_publish l ev q schema payload input) (eval_topic_publish l ev' q schema payload input)"
  unfolding eval_topic_publish_def using assms by (intro rel_intros rel_ev [OF assms(1,2)])

lemma rel_apply_task [rel_intros]:
  assumes "runs n j go go'"
  shows "rel n (apply_task l go each_item task input name) (apply_task l go' each_item task input name)"
proof -
  note call = rel_call_task_value [OF assms]
  have "rel n (ibind (imap (\<lambda>item. call_task_value l go task [item] name) items) (\<lambda>results. iret (VList results)))
      (ibind (imap (\<lambda>item. call_task_value l go' task [item] name) items) (\<lambda>results. iret (VList results)))" for items
    by (intro rel_intros call)
  with call show ?thesis unfolding apply_task_def by (cases each_item; cases input) simp_all
qed

lemma rel_applications [rel_intros]:
  assumes "runs n j go go'" and "sub (JE e) j"
  shows "rel n (apply_name l go each_item input e name) (apply_name l go' each_item input e name)"
    and "rel n (apply_property l go each_item input e object name) (apply_property l go' each_item input e object name)"
  unfolding apply_name_def apply_property_def
  by (intro rel_intros rel_apply_task [OF assms(1)] rel_go [OF assms])+

lemma rel_apply_call [rel_intros]:
  assumes "runs n j go go'" and "under j args"
  shows "rel n (apply_call l go input name args) (apply_call l go' input name args)"
  unfolding apply_call_def using assms by (intro rel_intros rel_call_function [OF assms(1)])

lemma rel_apply_method [rel_intros]:
  assumes "runs n j go go'" and "sub (JE e) j" and "under j args"
  shows "rel n (apply_method l go input e object callee args) (apply_method l go' input e object callee args)"
proof -
  note ev = runs_evals [OF assms(1)]
  show ?thesis
    unfolding apply_method_def using assms(1,3)
    by (intro rel_intros rel_call_task_value [OF assms(1)] rel_go [OF assms(1,2)] ev)
qed

lemma rel_apply_broadcast_value [rel_intros]:
  assumes "runs n j go go'" and "sub (JE e) j"
  shows "rel n (apply_broadcast_value l go input e) (apply_broadcast_value l go' input e)"
  unfolding apply_broadcast_value_def
  by (cases e) (use assms in \<open>auto intro!: rel_applications rel_apply_call rel_apply_method intro: rel_go under_call under_method\<close>)

lemma queue_parts:
  assumes "sub (JE (EQueuePush q schema payload)) j \<or> sub (JE (ETopicPublish q schema payload)) j"
  shows "sub (JE q) j" and "below (option_parts payload) j"
proof -
  have "below (JE q # option_parts payload) (JE (EQueuePush q schema payload))"
    "below (JE q # option_parts payload) (JE (ETopicPublish q schema payload))"
    by (rule below_parts, simp add: parts_def expression_parts_def)+
  with assms have "below (JE q # option_parts payload) j" using below_trans by blast
  then show "sub (JE q) j" and "below (option_parts payload) j" by simp_all
qed

lemma rel_apply_pipeline_value [rel_intros]:
  assumes "runs n j go go'" and "sub (JE e) j"
  shows "rel n (apply_pipeline_value l go input e) (apply_pipeline_value l go' input e)"
proof -
  note ev = runs_evals [OF assms(1)]
  show ?thesis
  proof (cases e)
    case (EQueuePush q schema payload)
    with assms show ?thesis
      using rel_queue_push [OF ev] queue_parts [of q schema payload j] by (simp add: apply_pipeline_value_def)
  next
    case (ETopicPublish q schema payload)
    with assms show ?thesis
      using rel_topic_publish [OF ev] queue_parts [of q schema payload j] by (simp add: apply_pipeline_value_def)
  next
    case (EMethodCall object callee args)
    with assms(2) have "under j args" using under_method by blast
    with EMethodCall assms show ?thesis
      unfolding apply_pipeline_value_def EMethodCall expression.case
      by (intro rel_if rel_cache_set_stage [OF ev] rel_dispatch_http_client [OF ev] rel_apply_method [OF assms(1)])
  qed (use assms in \<open>auto simp: apply_pipeline_value_def intro!: rel_applications rel_apply_call intro: rel_go under_call\<close>)
qed

subsubsection \<open>Broadcasts\<close>

lemma rel_evaluate_broadcast [rel_intros]:
  assumes "runs n j go go'" and "sub (JE input) j" and "below (map JE targets) j"
  shows "rel n (evaluate_broadcast l go input targets) (evaluate_broadcast l go' input targets)"
  unfolding evaluate_broadcast_def
  by (intro rel_intros rel_go [OF assms(1,2)] rel_apply_broadcast_value [OF assms(1)])
    (use assms(3) in \<open>auto simp: below_def in_set_enumerate_eq\<close>)

subsubsection \<open>Pipelines\<close>

lemma rel_map_body [rel_intros]:
  assumes "runs n j go go'"
  shows "below (concat (map map_part body)) j \<Longrightarrow> rel n (map_body l go body) (map_body l go' body)"
proof (induction body)
  case (Cons m ms)
  then show ?case
    by (cases m) (auto simp: map_part_def intro!: rel_iret rel_ibind rel_if rel_option intro: rel_go [OF assms])
qed (simp add: rel_iret)

lemma rel_stage_map [rel_intros]:
  assumes "runs n j go go'" and "below (concat (map map_part body)) j"
  shows "rel n (stage_map l go variable body items) (stage_map l go' variable body items)"
  unfolding stage_map_def by (intro rel_intros rel_map_body [OF assms])

lemma rel_stage_reduce [rel_intros]:
  assumes "runs n j go go'" and "below (body_parts body) j"
  shows "rel n (stage_reduce go accumulator item body acc items) (stage_reduce go' accumulator item body acc items)"
  by (induction items arbitrary: acc) (auto intro!: rel_iret rel_ibind rel_element_scope rel_body_below [OF assms])

lemma rel_plain_stage [rel_intros]:
  assumes "runs n j go go'" and "below (stage_parts stage) j"
  shows "rel n (plain_stage l go input stage) (plain_stage l go' input stage)"
proof (cases stage)
  case (PsExpression e)
  with assms show ?thesis by (auto simp: plain_stage_def stage_parts_def intro: rel_apply_pipeline_value)
next
  case (PsMap x21 x22)
  with assms show ?thesis
    by (auto simp: plain_stage_def stage_parts_def intro!: rel_case_val rel_errors rel_stage_map)
next
  case (PsReduce x31 x32 x33 x34)
  with assms show ?thesis
    by (auto simp: plain_stage_def stage_parts_def intro!: rel_case_val rel_errors rel_ibind rel_stage_reduce intro: rel_go)
next
  case (PsRescue x4)
  then show ?thesis by (simp add: plain_stage_def rel_iret)
qed

lemma rel_pipeline_stage [rel_intros]:
  assumes "runs n j go go'" and "below (stage_parts stage) j"
  shows "rel n (evaluate_pipeline_stage l go stage v) (evaluate_pipeline_stage l go' stage v)"
proof -
  note ev = runs_evals [OF assms(1)]
  show ?thesis
    unfolding evaluate_pipeline_stage_def
    by (cases stage) (use assms in \<open>auto simp: stage_parts_def intro!: rel_ibind rel_iask rel_case_val rel_errors rel_plain_stage
      rel_relation_stage [OF ev] rel_query_stage [OF ev] rel_doc_query_stage [OF ev]\<close>)
qed

lemma rel_rescue_handler [rel_intros]:
  "runs n j go go' \<Longrightarrow> below (stage_parts (PsRescue handler)) j \<Longrightarrow>
     rel n (execute_rescue_handler go handler) (execute_rescue_handler go' handler)"
  unfolding execute_rescue_handler_def stage_parts_def
  by (cases handler) (auto simp: below_def intro!: rel_execute_from intro: rel_go)

lemma rel_at_railway:
  assumes "runs n j go go'" and s: "D n s"
  shows "rel_at s m m' \<Longrightarrow> below (concat (map stage_parts stages)) j \<Longrightarrow>
    rel_at s (railway l go (length (it_frames s)) stages m) (railway l go' (length (it_frames s)) stages m')"
proof (induction stages arbitrary: m m')
  case (Cons stage stages)
  have "rel_at s (ibind m (evaluate_pipeline_stage l go stage)) (ibind m' (evaluate_pipeline_stage l go' stage))"
    using Cons.prems rel_pipeline_stage [OF assms(1)] by (intro rel_at_ibind [OF Cons.prems(1) s]) simp
  moreover have "rel_at s (rescued l (length (it_frames s)) (execute_rescue_handler go handler) m)
      (rescued l (length (it_frames s)) (execute_rescue_handler go' handler) m')" if "stage = PsRescue handler" for handler
    using Cons.prems that rel_rescue_handler [OF assms(1)] by (intro rel_at_rescued [OF Cons.prems(1) _ s]) simp
  ultimately have "rel_at s (case stage of PsRescue handler \<Rightarrow>
      rescued l (length (it_frames s)) (execute_rescue_handler go handler) m | _ \<Rightarrow> ibind m (evaluate_pipeline_stage l go stage))
    (case stage of PsRescue handler \<Rightarrow>
      rescued l (length (it_frames s)) (execute_rescue_handler go' handler) m' | _ \<Rightarrow> ibind m' (evaluate_pipeline_stage l go' stage))"
    by (cases stage) simp_all
  with Cons show ?case by simp
qed simp

lemma rel_plain_stages [rel_intros]:
  assumes "runs n j go go'"
  shows "below (concat (map stage_parts stages)) j \<Longrightarrow> rel n (plain_stages l go stages v) (plain_stages l go' stages v)"
  by (induction stages arbitrary: v) (auto intro!: rel_iret rel_ibind rel_pipeline_stage [OF assms])

lemma rel_evaluate_pipeline [rel_intros]:
  assumes go: "runs n j go go'" and "sub (JE input) j" and "below (concat (map stage_parts stages)) j"
  shows "rel n (evaluate_pipeline l go input stages) (evaluate_pipeline l go' input stages)"
proof -
  note input = rel_go [OF assms(1,2)]
  have "rel n (ibind (iask (\<lambda>s. length (it_frames s))) (\<lambda>depth. railway l go depth stages (go (JE input))))
      (ibind (iask (\<lambda>s. length (it_frames s))) (\<lambda>depth. railway l go' depth stages (go' (JE input))))"
    using assms(3) by (intro rel_ask rel_at_railway [OF go] rel_atD [OF input])
  with assms input show ?thesis
    unfolding evaluate_pipeline_def by (auto intro!: rel_ibind rel_plain_stages [OF go])
qed

lemma rel_evaluate_rescue [rel_intros]:
  assumes "evals n j ev ev'" and "sub (JE e) j" and "sub (JE handler) j"
  shows "rel n (evaluate_rescue l ev e handler) (evaluate_rescue l ev' e handler)"
  unfolding evaluate_rescue_def
proof (rule rel_ask)
  fix s assume s: "D n s"
  from rel_ev [OF assms(1,2), THEN rel_atD, OF s] rel_ev [OF assms(1,3)] s
  show "rel_at s (rescued l (length (it_frames s)) (ev handler) (ev e)) (rescued l (length (it_frames s)) (ev' handler) (ev' e))"
    by (rule rel_at_rescued)
qed

subsubsection \<open>Statements\<close>

lemma rel_while_loop [rel_intros]:
  assumes "runs n j go go'" and "sub (JE condition) j" and "below (map JS body) j"
  shows "rel n (while_loop l go condition body k) (while_loop l go' condition body k)"
proof (induction k)
  case 0
  show ?case unfolding while_loop.simps by (intro rel_intros rel_go [OF assms(1,2)])
next
  case (Suc k)
  have "rel n (run_stmts go body) (run_stmts go' body)"
    using assms(3) by (intro rel_run_stmts) (auto simp: below_def intro: rel_go [OF assms(1)])
  with Suc show ?case unfolding while_loop.simps by (intro rel_ibind rel_if rel_iret rel_go [OF assms(1,2)])
qed

lemma rel_reply_headers [rel_intros]:
  assumes "evals n j ev ev'" and "below (option_parts extra) j"
  shows "rel n (reply_headers l ev extra) (reply_headers l ev' extra)"
  unfolding reply_headers_def
  by (cases extra) (use assms in \<open>auto simp: option_parts_def intro!: rel_iret rel_ibind intro: rel_ev\<close>)

lemma rel_execute_reply [rel_intros]:
  assumes "evals n j ev ev'" and "sub (JE status) j" and "sub (JE body) j" and "below (option_parts extra) j"
  shows "rel n (execute_reply l ev status content_type body schema extra)
    (execute_reply l ev' status content_type body schema extra)"
  unfolding execute_reply_def
  by (intro rel_intros rel_ev [OF assms(1,2)] rel_ev [OF assms(1,3)] rel_reply_headers [OF assms(1,4)])

lemma rel_when_truthy [rel_intros]:
  assumes "evals n j ev ev'" and "below (option_parts condition) j" and "rel n m m'"
  shows "rel n (when_truthy l ev condition m) (when_truthy l ev' condition m')"
  unfolding when_truthy_def
  by (cases condition) (use assms in \<open>auto simp: option_parts_def intro!: rel_iret rel_ibind rel_if intro: rel_ev\<close>)

lemma rel_assign [rel_intros]: "rel n (assign target v) (assign target v)"
  unfolding assign_def by (intro rel_intros)

lemma statement_below: "below (statement_parts st) (JS st)"
  by (rule below_parts) (simp add: parts_def)

lemma expression_below: "below (expression_parts e) (JE e)"
  by (rule below_parts) (simp add: parts_def)

lemma rel_statement_step:
  assumes "runs n (JS st) go go'"
  shows "rel n (statement_step l go st) (statement_step l go' st)"
proof -
  note ev = runs_evals [OF assms] and step = rel_go [OF assms] and in_st = statement_below [of st]
  note rules = rel_iret rel_ibind rel_if rel_fail_with rel_assign rel_iask rel_env_set step rel_when_truthy [OF ev]
    rel_while_loop [OF assms] rel_execute_reply [OF ev] rel_transaction_block rel_run_stmts
  show ?thesis
    by (cases st) (use in_st in \<open>auto simp: statement_step_def statement_parts_def below_def [of "map JS _"] intro!: rules\<close>)
qed

lemma rel_execute_statement:
  "runs n (JS st) go go' \<Longrightarrow> rel n (execute_statement l go st) (execute_statement l go' st)"
  unfolding execute_statement_def by (intro rel_intros rel_statement_step)

subsubsection \<open>Expressions\<close>

lemma rel_evaluate_identifier [rel_intros]: "rel n (evaluate_identifier name) (evaluate_identifier name)"
  unfolding evaluate_identifier_def by (intro rel_intros)

lemma rel_at_position [rel_intros]: "rel n (at_position h) (at_position h)"
  unfolding at_position_def by (intro rel_intros)

lemma rel_evaluate_binary [rel_intros]:
  assumes "evals n j ev ev'" and "sub (JE left) j" and "sub (JE right) j"
  shows "rel n (evaluate_binary l ev left op right) (evaluate_binary l ev' left op right)"
  unfolding evaluate_binary_def by (intro rel_intros rel_ev [OF assms(1,2)] rel_ev [OF assms(1,3)])

lemma rel_subscript [rel_intros]: "rel n (subscript obj key) (subscript obj key)"
  by (cases obj; cases key) (simp_all add: subscript_def Let_def rel_iret rel_errors)

lemma rel_evaluate_property [rel_intros]: "rel n (evaluate_property l obj p) (evaluate_property l obj p)"
proof (cases "\<exists>ns. obj = VNamespace ns")
  case True
  then obtain ns where "obj = VNamespace ns" by blast
  then show ?thesis by (cases ns) (simp_all add: evaluate_property_def rel_iret rel_access_property)
next
  case False
  then show ?thesis by (cases obj) (simp_all add: evaluate_property_def rel_access_property)
qed

lemma rel_namespace_call:
  assumes "evals n j ev ev'" and "under j args"
  shows "rel_option (rel n) (namespace_call l ev ns callee args) (namespace_call l ev' ns callee args)"
  unfolding namespace_call_def using assms by (cases ns) (auto intro!: rel_intros)

lemma rel_value_call [rel_intros]:
  "evals n j ev ev' \<Longrightarrow> under j args \<Longrightarrow> rel n (value_call l ev obj callee args) (value_call l ev' obj callee args)"
  unfolding value_call_def by (intro rel_intros; assumption)

lemma rel_file_task:
  assumes go: "runs n j go go'" and args: "under j args" and "rel n m m'"
  shows "rel n
    (case object of
       EIdentifier ns \<Rightarrow> ibind (iask (g ns)) (\<lambda>(found, known).
         case found of
           Some task \<Rightarrow> ibind (evaluate_args (go \<circ> JE) args) (\<lambda>vs. call_task_value l go task vs callee)
         | None \<Rightarrow> if known then undefined_task (ns @ name) else m)
     | _ \<Rightarrow> m)
    (case object of
       EIdentifier ns \<Rightarrow> ibind (iask (g ns)) (\<lambda>(found, known).
         case found of
           Some task \<Rightarrow> ibind (evaluate_args (go' \<circ> JE) args) (\<lambda>vs. call_task_value l go' task vs callee)
         | None \<Rightarrow> if known then undefined_task (ns @ name) else m')
     | _ \<Rightarrow> m')"
  by (cases object) (use assms(3) in \<open>auto intro!: rel_ibind rel_iask rel_option rel_if rel_errors
    rel_evaluate_args [OF runs_evals [OF go] args] rel_call_task_value [OF go]\<close>)

lemma rel_method_call [rel_intros]:
  assumes go: "runs n j go go'" and "sub (JE object) j" and args: "under j args"
  shows "rel n (evaluate_method_call l go object callee args) (evaluate_method_call l go' object callee args)"
proof -
  note ev = runs_evals [OF go]
  have ns: "rel n (case namespace_call l (go \<circ> JE) ns callee args of Some m \<Rightarrow> m | None \<Rightarrow> value_call l (go \<circ> JE) obj callee args)
      (case namespace_call l (go' \<circ> JE) ns callee args of Some m \<Rightarrow> m | None \<Rightarrow> value_call l (go' \<circ> JE) obj callee args)" for ns obj
    using rel_namespace_call [OF ev args, of ns callee] rel_value_call [OF ev args, of obj callee]
    by (cases "namespace_call l (go \<circ> JE) ns callee args"; cases "namespace_call l (go' \<circ> JE) ns callee args") simp_all
  have ordinary: "rel n
     (ibind (go (JE object)) (\<lambda>obj. case obj of
          VNamespace ns \<Rightarrow> (case namespace_call l (go \<circ> JE) ns callee args of
              Some m \<Rightarrow> m | None \<Rightarrow> value_call l (go \<circ> JE) obj callee args)
        | VDbTable table \<Rightarrow> dispatch_db_direct l (go \<circ> JE) table callee args
        | VDocCollection collection \<Rightarrow> dispatch_doc_direct (go \<circ> JE) collection callee args
        | _ \<Rightarrow> value_call l (go \<circ> JE) obj callee args))
     (ibind (go' (JE object)) (\<lambda>obj. case obj of
          VNamespace ns \<Rightarrow> (case namespace_call l (go' \<circ> JE) ns callee args of
              Some m \<Rightarrow> m | None \<Rightarrow> value_call l (go' \<circ> JE) obj callee args)
        | VDbTable table \<Rightarrow> dispatch_db_direct l (go' \<circ> JE) table callee args
        | VDocCollection collection \<Rightarrow> dispatch_doc_direct (go' \<circ> JE) collection callee args
        | _ \<Rightarrow> value_call l (go' \<circ> JE) obj callee args))"
    by (intro rel_ibind rel_case_val ns rel_go [OF go assms(2)] rel_value_call [OF ev args] rel_db_direct [OF ev args]
        rel_doc_direct [OF ev args])
  show ?thesis
    unfolding evaluate_method_call_def Let_def by (rule rel_file_task [OF go args ordinary])
qed

lemma rel_evaluate:
  assumes "runs n (JE e) go go'"
  shows "rel n (evaluate l go e) (evaluate l go' e)"
proof -
  note ev = runs_evals [OF assms] and step = rel_go [OF assms] and in_e = expression_below [of e]
  note rules = rel_iret rel_ibind rel_if rel_iask rel_option rel_errors step rel_evaluate_identifier rel_at_position rel_subscript
    rel_evaluate_property rel_imap rel_evaluate_entries [OF ev] rel_schema_constructor [OF ev] rel_evaluate_binary [OF ev]
    rel_method_call [OF assms] rel_response_schema [OF ev] rel_evaluate_args [OF ev] rel_call_function [OF assms]
    rel_evaluate_match [OF ev] rel_branch_body [OF assms] rel_evaluate_pipeline [OF assms] rel_evaluate_rescue [OF ev]
    rel_queue_push [OF ev] rel_topic_publish [OF ev] rel_evaluate_broadcast [OF assms]
    rel_interpolate_string [OF ev] sub_embedded
  show ?thesis
    by (cases e) (use in_e in \<open>auto simp: evaluate_def expression_parts_def under_def argument_parts_def
      below_def [of "map _ _"] intro!: rules\<close>)
qed

theorem rel_step: "runs n j go go' \<Longrightarrow> rel n (step l go j) (step l go' j)"
  unfolding step_def by (cases j) (simp_all add: rel_evaluate rel_execute_statement)

end

end
