(* ===== verification/Interp_Machine.thy ===== *)
theory Interp_Machine
  imports Interp_Logic_Step "HOL-Library.Sublist"
begin

text \<open>
  The interpreter as a whole. \<open>run\<close> is the least fixed point of \<open>step\<close>; its first interpretation of
  \<open>interp_logic\<close> is the monotonicity that makes it one. The second is the frame invariant: what
  evaluating an expression or executing a statement leaves alone, whatever the program does.
\<close>

subsection \<open>The fixed point\<close>

interpretation monotone_logic: interp_logic l False "\<lambda>_ _. True" "\<lambda>_ _. True" "\<lambda>_ _. True" Some
  for l :: "('d, 't, 'w) lib"
  by unfold_locales simp_all

lemma step_mono [partial_function_mono]:
  fixes l :: "('d, 't, 'w) lib" and s :: "('d, 't, 'tx, 'w) interp"
  shows "mono_option (\<lambda>f. step l (\<lambda>j s. f (l, j, s)) j s)"
proof (rule monotoneI)
  fix f g :: "('d, 't, 'w) lib \<times> job \<times> ('d, 't, 'tx, 'w) interp \<Rightarrow> ((fault + ('d, 't) val) \<times> ('d, 't, 'tx, 'w) interp) option"
  assume "fun_ord option_ord f g"
  then have "monotone_logic.runs 0 j (\<lambda>j s. f (l, j, s)) (\<lambda>j s. g (l, j, s))"
    by (auto simp: monotone_logic.runs_def monotone_logic.rel_def related_def outcome_def fun_ord_def flat_ord_def)
  from monotone_logic.rel_step [OF this]
  show "option_ord (step l (\<lambda>j s. f (l, j, s)) j s) (step l (\<lambda>j s. g (l, j, s)) j s)"
    by (auto simp: monotone_logic.rel_def related_def outcome_def flat_ord_def)
qed

partial_function (option) run ::
    "('d, 't, 'w) lib \<times> job \<times> ('d, 't, 'tx, 'w) interp \<Rightarrow> ((fault + ('d, 't) val) \<times> ('d, 't, 'tx, 'w) interp) option" where
  "run x = (case x of (l, j, s) \<Rightarrow> step l (\<lambda>j s. run (l, j, s)) j s)"

definition runner :: "('d, 't, 'w) lib \<Rightarrow> ('d, 't, 'tx, 'w) runner" where
  "runner l = (\<lambda>j s. run (l, j, s))"

lemma runner_step: "runner l j s = step l (runner l) j s"
  by (simp add: runner_def run.simps [of "(l, j, s)"])

text \<open>The entry points: \<open>execute\<close>, \<open>evaluate_pub\<close> and \<open>execute_stmts_pub\<close>.\<close>

definition execute :: "('d, 't, 'w) lib \<Rightarrow> program \<Rightarrow> ('d, 't, 'tx, 'w, ('d, 't) val) im" where
  "execute l program = execute_from (runner l) VNull program"

definition evaluate_pub :: "('d, 't, 'w) lib \<Rightarrow> expression \<Rightarrow> ('d, 't, 'tx, 'w, ('d, 't) val) im" where
  "evaluate_pub l e = runner l (JE e)"


subsection \<open>The frame invariant\<close>

text \<open>
  \<open>tx_ok\<close>: there is a transaction exactly inside a \<open>transaction\<close> block. \<open>same_setup\<close>: the configuration,
  the module, the depth of calls and the mark of a transaction. \<open>scopes_kept\<close>: no scope is closed, no name leaves a scope,
  and only the innermost scope may gain names; more scopes may lie on top. \<open>framed\<close>: all of these, the transaction, the shared base of
  the environment, and the stack frames, on which more may lie.
\<close>

definition tx_ok :: "('d, 't, 'tx, 'w) interp \<Rightarrow> bool" where
  "tx_ok s \<longleftrightarrow> (it_in_tx s \<longleftrightarrow> it_tx s \<noteq> None)"

definition same_setup :: "('d, 't, 'tx, 'w) interp \<Rightarrow> ('d, 't, 'tx, 'w) interp \<Rightarrow> bool" where
  "same_setup s t \<longleftrightarrow>
     it_call_depth t = it_call_depth s \<and> it_max_depth t = it_max_depth s \<and> it_module t = it_module s \<and>
     it_runtime t = it_runtime s \<and> it_schemas t = it_schemas s \<and> it_db t = it_db s \<and> it_doc t = it_doc s \<and>
     it_queue t = it_queue s \<and> it_cache t = it_cache s \<and> it_default_ttl t = it_default_ttl s \<and> it_http t = it_http s \<and>
     it_trace t = it_trace s \<and> it_flags t = it_flags s \<and> it_in_tx t = it_in_tx s"

definition scope_names :: "'v environment \<Rightarrow> string set list" where
  "scope_names e = map (\<lambda>scope. fst ` set scope) (env_scopes e)"

lemma length_scope_names: "length (scope_names e) = env_depth e"
  by (simp add: scope_names_def env_depth_def)

definition scopes_kept :: "string set list \<Rightarrow> string set list \<Rightarrow> bool" where
  "scopes_kept ds es \<longleftrightarrow> length ds \<le> length es \<and> (\<forall>i < length ds. ds ! i \<subseteq> es ! i) \<and>
     (\<forall>i. Suc i < length ds \<longrightarrow> es ! i = ds ! i)"

definition framed :: "('d, 't, 'tx, 'w) interp \<Rightarrow> ('d, 't, 'tx, 'w) interp \<Rightarrow> bool" where
  "framed s t \<longleftrightarrow> same_setup s t \<and> (tx_ok s \<longrightarrow> it_tx t = it_tx s) \<and>
     env_base (it_env t) = env_base (it_env s) \<and> scopes_kept (scope_names (it_env s)) (scope_names (it_env t)) \<and>
     prefix (it_frames s) (it_frames t)"

lemma scopes_kept_refl [simp]: "scopes_kept ds ds"
  by (simp add: scopes_kept_def)

lemma scopes_kept_trans: "scopes_kept ds es \<Longrightarrow> scopes_kept es fs \<Longrightarrow> scopes_kept ds fs"
  unfolding scopes_kept_def
  by (metis (no_types, lifting) Suc_lessD order_trans less_le_trans)

lemma scopes_kept_grow: "ds \<noteq> [] \<Longrightarrow> scopes_kept ds (butlast ds @ [insert n (last ds)])"
  by (cases ds rule: rev_cases) (auto simp: scopes_kept_def nth_append less_Suc_eq)

text \<open>A scope on top, closed again or left behind.\<close>

lemma scopes_kept_leak: "scopes_kept (ds @ [d]) es \<Longrightarrow> scopes_kept ds es"
  by (force simp: scopes_kept_def nth_append)

lemma scopes_kept_pop: "scopes_kept (ds @ [d]) es \<Longrightarrow> scopes_kept ds (butlast es)"
  by (force simp: scopes_kept_def nth_append nth_butlast)

lemma env_set_frame [simp]: "env_base (env_set n v e) = env_base e"
  by (simp add: env_set_def)

lemma env_set_names: "scope_names (env_set n v e) =
    (if scope_names e = [] then [] else butlast (scope_names e) @ [insert n (last (scope_names e))])"
  by (simp add: env_set_def scope_names_def map_butlast last_map dom_update)

lemma update_in_scopes_names:
  "update_in_scopes n v ss = Some rs \<Longrightarrow> map (\<lambda>scope. fst ` set scope) rs = map (\<lambda>scope. fst ` set scope) ss"
  by (induction ss arbitrary: rs) (force simp: dom_update map_of_eq_None_iff split: if_splits)+

lemma env_update_frame [simp]: "env_base (env_update n v e) = env_base e"
  by (auto simp: env_update_def split: option.splits)

lemma env_update_names:
  "scope_names (env_update n v e) = scope_names e \<or> scope_names (env_update n v e) = scope_names (env_set n v e)"
  by (auto simp: env_update_def scope_names_def rev_map [symmetric] dest: update_in_scopes_names split: option.splits)

lemma env_set_kept: "scopes_kept (scope_names e) (scope_names (env_set n v e))"
  by (simp add: env_set_names scopes_kept_grow)

lemma env_update_kept: "scopes_kept (scope_names e) (scope_names (env_update n v e))"
  using env_update_names [of n v e] env_set_kept [of e n v] by auto

lemma push_binds_base [simp]: "env_base (fold (\<lambda>(n, v). env_set n v) binds (push_scope e)) = env_base e"
proof -
  have "env_base (fold (\<lambda>(n, v). env_set n v) binds e') = env_base e'" for e' :: "'a environment"
    by (induction binds arbitrary: e') auto
  then show ?thesis by (simp add: push_scope_def)
qed

lemma push_binds_names: "\<exists>d. scope_names (fold (\<lambda>(n, v). env_set n v) binds (push_scope e)) = scope_names e @ [d]"
proof -
  have "\<exists>d. scope_names (fold (\<lambda>(n, v). env_set n v) binds e') = scope_names e @ [d]"
    if "scope_names e' = scope_names e @ [d']" for e' :: "'a environment" and d'
    using that by (induction binds arbitrary: e' d') (auto simp: env_set_names)
  then show ?thesis by (simp add: push_scope_def scope_names_def)
qed

lemma pop_scope_base [simp]: "env_base (pop_scope e) = env_base e"
  by (simp add: pop_scope_def)

lemma pop_scope_kept:
  assumes "scopes_kept (ds @ [d]) (scope_names e)"
  shows "scopes_kept ds (scope_names (pop_scope e))"
proof (cases "1 < length (env_scopes e)")
  case True
  then have "scope_names (pop_scope e) = butlast (scope_names e)" by (simp add: pop_scope_def scope_names_def map_butlast)
  with scopes_kept_pop [OF assms] show ?thesis by simp
next
  case False
  moreover have "Suc (length ds) \<le> length (env_scopes e)" using assms by (simp add: scopes_kept_def scope_names_def)
  ultimately have "length ds = 0" by linarith
  then show ?thesis by (simp add: scopes_kept_def)
qed

lemma framed_refl: "framed s s"
  by (simp add: framed_def same_setup_def)

lemma framed_trans: "framed s t \<Longrightarrow> framed t u \<Longrightarrow> framed s u"
  by (auto simp: framed_def same_setup_def tx_ok_def intro: scopes_kept_trans)

lemma framed_pop: "framed (s\<lparr>it_env := fold (\<lambda>(n, v). env_set n v) binds (push_scope (it_env s))\<rparr>) t \<Longrightarrow>
    framed s (t\<lparr>it_env := pop_scope (it_env t)\<rparr>)"
  using push_binds_names [of binds "it_env s"] by (auto simp: framed_def same_setup_def tx_ok_def intro: pop_scope_kept)

lemma prefix_take: "prefix xs ys \<Longrightarrow> prefix xs (take (length xs) ys)"
  by (auto simp: prefix_def)

lemmas framed_defs = framed_def same_setup_def tx_ok_def

lemma framed_simple:
  "framed s (s\<lparr>it_world := w\<rparr>)"
  "framed s (s\<lparr>it_line := line, it_column := column\<rparr>)"
  "framed s (s\<lparr>it_env := env_set name v (it_env s)\<rparr>)"
  "framed s (s\<lparr>it_env := env_update name v (it_env s)\<rparr>)"
  by (simp_all add: framed_defs env_set_kept env_update_kept)

lemma framed_leak: "framed (s\<lparr>it_env := fold (\<lambda>(n, v). env_set n v) binds (push_scope (it_env s))\<rparr>) t \<Longrightarrow> framed s t"
  using push_binds_names [of binds "it_env s"] by (auto simp: framed_defs intro: scopes_kept_leak)

lemma framed_restore: "framed s t \<Longrightarrow> framed s (t\<lparr>it_env := it_env s\<rparr>)"
  by (auto simp: framed_defs)

lemma framed_truncate: "framed s t \<Longrightarrow> framed s (t\<lparr>it_frames := take (length (it_frames s)) (it_frames t)\<rparr>)"
  by (auto simp: framed_defs prefix_take)

lemma framed_same_call:
  "framed (s\<lparr>it_call_depth := it_call_depth s + 1, it_frames := it_frames s @ [fr]\<rparr>) t \<Longrightarrow>
     framed s (t\<lparr>it_call_depth := it_call_depth t - 1\<rparr>)"
  by (auto simp: framed_defs dest: append_prefixD)

lemma framed_cross_call:
  "framed (s\<lparr>it_env := env, it_module := Some owner, it_call_depth := it_call_depth s + 1, it_frames := it_frames s @ [fr]\<rparr>) t \<Longrightarrow>
     framed s (s\<lparr>it_world := it_world t, it_tx := it_tx t\<rparr>) \<and>
     framed s (s\<lparr>it_world := it_world t, it_tx := it_tx t, it_frames := it_frames t\<rparr>)"
  by (auto simp: framed_defs dest: append_prefixD)

lemma framed_transaction:
  "\<not> it_in_tx s \<Longrightarrow> framed (s\<lparr>it_world := w, it_tx := Some tx, it_in_tx := True\<rparr>) t \<Longrightarrow>
     framed s (t\<lparr>it_in_tx := False, it_tx := None, it_world := w'\<rparr>)"
  by (auto simp: framed_defs)

interpretation frame_logic: interp_logic l False "\<lambda>_ _. True" framed "\<lambda>_ _. True" Some
  for l :: "('d, 't, 'w) lib"
  by (unfold_locales; (rule framed_refl framed_simple | erule framed_restore framed_truncate framed_same_call framed_cross_call |
      erule framed_pop | erule framed_leak | erule (1) framed_transaction | erule (1) framed_trans | simp))

end
