(* ===== verification/Lexer_Literals.thy ===== *)
theory Lexer_Literals
  imports Lexer
begin

text \<open>
  The string literals of a token stream against the source they were read from: each costs two quotes
  more than its own text holds. What a literal embeds between \<open>#{\<close> and \<open>}\<close> can therefore be tokenized again only
  finitely often.
\<close>

abbreviation quotes :: "string \<Rightarrow> nat" where
  "quotes s \<equiv> count_list s DQ"

definition quoted_within :: "nat \<Rightarrow> token list \<Rightarrow> bool" where
  "quoted_within n ts \<longleftrightarrow> (\<forall>t v. t \<in> set ts \<longrightarrow> tk_kind t = TkStringLiteral v \<longrightarrow> quotes v + 2 \<le> n)"

lemma quotes_normalize: "quotes (normalize_newlines s) = quotes s"
proof -
  have cr: "quotes (replace_cr s) = quotes s" for s
    by (induction s) (auto simp: replace_cr_def)
  have "quotes (replace_crlf s) = quotes s"
    by (induction s rule: replace_crlf.induct) auto
  with cr show ?thesis by (simp add: normalize_newlines_def)
qed

lemma quotes_drop:
  "i < length s \<Longrightarrow> quotes (drop i s) = (if s ! i = DQ then 1 else 0) + quotes (drop (Suc i) s)"
  by (simp add: Cons_nth_drop_Suc [symmetric])

lemma quotes_drop_le: "quotes (drop i s) \<le> quotes s"
  using count_list_append [of "take i s" "drop i s"] by simp

lemma quotes_escape: "quotes (escape_char c) = (if c = DQ then 1 else 0)"
  by (simp add: escape_char_def)

abbreviation quotes_left :: "lexer \<Rightarrow> nat" where
  "quotes_left L \<equiv> quotes (drop (lx_pos L) (lx_source L))"

lemma quotes_left_advance:
  "\<not> lx_is_at_end L \<Longrightarrow> quotes_left L = (if lx_current L = DQ then 1 else 0) + quotes_left (lx_advance L)"
  using quotes_drop [of "lx_pos L" "lx_source L"] by (simp add: lx_is_at_end_def lx_current_def lx_advance_def)

lemma read_string_loop_quotes:
  "read_string_loop v l c L = Inr (w, L') \<Longrightarrow>
     quotes w + quotes_left L' \<le> quotes v + quotes_left L \<and> (lx_is_at_end L' \<or> lx_current L' = DQ)"
proof (induction v l c L rule: read_string_loop.induct)
  case (1 v l c L)
  show ?case
  proof (cases "\<not> lx_is_at_end L \<and> lx_current L \<noteq> DQ")
    case False
    with "1.prems" show ?thesis by (auto simp: read_string_loop.simps [of v l c L])
  next
    case more: True
    then have left: "quotes_left L = quotes_left (lx_advance L)"
      using quotes_left_advance [of L] by simp
    have lf: "lx_current L \<noteq> LF" using "1.prems" more by (auto simp: read_string_loop.simps [of v l c L])
    show ?thesis
    proof (cases "lx_current L = BSL")
      case True
      with more lf "1.prems" have n: "\<not> lx_is_at_end (lx_advance L)"
        and "read_string_loop (v @ escape_char (lx_current (lx_advance L))) l c (lx_advance (lx_advance L)) = Inr (w, L')"
        by (auto simp: read_string_loop.simps [of v l c L] Let_def split: if_splits)
      from "1.IH"(1) [OF more lf True refl n this(2)] quotes_left_advance [OF n] left show ?thesis
        by (simp add: quotes_escape)
    next
      case False
      with more lf "1.prems" have "read_string_loop (v @ [lx_current L]) l c (lx_advance L) = Inr (w, L')"
        by (simp add: read_string_loop.simps [of v l c L])
      from "1.IH"(2) [OF more lf False this] left more show ?thesis by simp
    qed
  qed
qed

lemma read_string_quotes:
  assumes "read_string L = Inr L'" and "\<not> lx_is_at_end L" and "lx_current L = DQ"
    and "quoted_within n (lx_tokens L)" and "quotes (lx_source L) \<le> n"
  shows "quoted_within n (lx_tokens L')"
proof -
  obtain v L1 where r: "read_string_loop [] (lx_line L) (lx_column L) (lx_advance L) = Inr (v, L1)"
    and e: "\<not> lx_is_at_end L1"
    and L': "L' = push_token (token_new (TkStringLiteral v) (lx_line L) (lx_column L)
      ([DQ] @ v @ [DQ])) (lx_advance L1)"
    using assms(1) by (auto simp: read_string_def split: if_splits)
  have "quotes v + 2 \<le> quotes_left L"
  proof -
    have "lx_current L1 = DQ" using read_string_loop_quotes [OF r] e by blast
    moreover have "quotes v + quotes_left L1 \<le> quotes_left (lx_advance L)"
      using read_string_loop_quotes [OF r] by simp
    ultimately show ?thesis
      unfolding quotes_left_advance [OF assms(2)] quotes_left_advance [OF e] using assms(3) by simp
  qed
  also have "\<dots> \<le> n" using quotes_drop_le [of "lx_pos L" "lx_source L"] assms(5) by simp
  finally have v: "quotes v + 2 \<le> n" .
  have "lx_tokens L1 = lx_tokens L"
    using movedD(2) [OF read_string_loop_moved [OF r]] by (simp add: lx_advance_def)
  with assms(4) v show ?thesis
    by (auto simp: L' quoted_within_def push_token_def lx_advance_def token_new_def)
qed

subsection \<open>Every token of the stream\<close>

lemma quoted_within_snoc:
  "quoted_within n (ts @ [t]) \<longleftrightarrow> quoted_within n ts \<and> (\<forall>v. tk_kind t = TkStringLiteral v \<longrightarrow> quotes v + 2 \<le> n)"
  by (auto simp: quoted_within_def)

lemma remove_last_newline_subset: "set (remove_last_newline ts) \<subseteq> set ts"
proof -
  have "set (remove_last_newline_rev us) \<subseteq> set us" for us
    by (induction us) auto
  then show ?thesis by (metis remove_last_newline_def set_rev)
qed

lemma quoted_within_remove: "quoted_within n ts \<Longrightarrow> quoted_within n (remove_last_newline ts)"
  using remove_last_newline_subset by (fastforce simp: quoted_within_def)

lemma word_token_kind_not_string: "word_token_kind w \<noteq> TkStringLiteral v"
  using keyword_lookup_word_kind [of w "TkStringLiteral v"]
  by (auto simp: word_token_kind_def split: option.splits)

lemma read_number_quotes:
  assumes "read_number L = Inr L'" and "quoted_within n (lx_tokens L)"
  shows "quoted_within n (lx_tokens L')"
proof -
  obtain d L1 t where r: "read_number_loop (lx_pos L) (lx_column L) False L = Inr (d, L1)"
    and "L' = push_token t L1" and "\<forall>v. tk_kind t \<noteq> TkStringLiteral v"
    using assms(1) by (auto simp: read_number_def Let_def token_new_def split: if_splits option.splits)
  with movedD(2) [OF read_number_loop_moved [OF r]] assms(2) show ?thesis
    by (simp add: push_token_def quoted_within_snoc)
qed

lemma lex_char_quotes:
  assumes "lex_char L = Inr L'" and "\<not> lx_is_at_end L" and "quoted_within n (lx_tokens L)"
    and "quotes (lx_source L) \<le> n"
  shows "quoted_within n (lx_tokens L')"
proof -
  have ident: "quoted_within n (lx_tokens (read_identifier L))"
    using assms(3) movedD(2) [OF skip_ident_moved, of L] word_token_kind_not_string
    by (simp add: read_identifier_def push_token_def Let_def quoted_within_snoc token_new_def)
  have comment: "quoted_within n (lx_tokens (skip_comment L))"
    using assms(3) movedD(2) [OF skip_comment_moved, of L] by simp
  have newline: "quoted_within n (lx_tokens (handle_newline L))"
    using assms(3)
    by (simp add: handle_newline_def next_line_def push_token_def Let_def quoted_within_snoc token_new_def)
  show ?thesis
    using assms(1) ident comment newline read_number_quotes [of L L'] read_string_quotes [of L L'] assms(2-4)
    unfolding lex_char_def Let_def [of "lx_current L"]
    by (auto simp: emit_defs quoted_within_snoc quoted_within_remove token_new_def split: if_splits)
qed

lemma pop_indents_quotes: "quoted_within n (lx_tokens L) \<Longrightarrow> quoted_within n (lx_tokens (pop_indents k L))"
proof (induction k L rule: pop_indents.induct)
  case (1 k L)
  then show ?case
    by (subst pop_indents.simps) (auto simp: push_token_def quoted_within_snoc token_new_def)
qed

lemma handle_indentation_quotes:
  assumes "handle_indentation L = Inr L'" and "quoted_within n (lx_tokens L)"
  shows "quoted_within n (lx_tokens L')"
  using assms(1)
proof (cases rule: handle_indentation_cases)
  case (shallower L1 k)
  then show ?thesis using pop_indents_quotes assms(2) movedD(2) [of L L1] by simp
qed (use assms(2) in \<open>auto simp: push_token_def quoted_within_snoc token_new_def dest: movedD\<close>)

lemma lex_step_quotes:
  assumes "lex_step L = Inr L'" and "quoted_within n (lx_tokens L)" and "quotes (lx_source L) \<le> n"
  shows "quoted_within n (lx_tokens L')"
proof (cases "lx_at_line_start L")
  case True
  then obtain L1 where L1: "handle_indentation L = Inr L1"
    and ne: "\<not> lx_is_at_end (L1\<lparr>lx_at_line_start := False\<rparr>)"
    and L': "lex_char (L1\<lparr>lx_at_line_start := False\<rparr>) = Inr L'"
    using assms by (auto simp: lex_step_def split: if_splits)
  from L' ne show ?thesis
    by (rule lex_char_quotes)
      (use assms(2,3) handle_indentation_quotes [OF L1] handle_indentation_frame [OF L1] in simp_all)
next
  case False
  with assms have "\<not> lx_is_at_end L" "lex_char L = Inr L'"
    by (auto simp: lex_step_def split: if_splits)
  from lex_char_quotes [OF this(2,1) assms(2,3)] show ?thesis .
qed

lemma lex_loop_quotes:
  "lex_loop L = Inr L' \<Longrightarrow> quoted_within n (lx_tokens L) \<Longrightarrow> quotes (lx_source L) \<le> n \<Longrightarrow>
     quoted_within n (lx_tokens L')"
proof (induction L rule: lex_loop.induct)
  case (1 L)
  show ?case
  proof (cases "lx_is_at_end L")
    case True
    with 1 show ?thesis by (simp add: lex_loop.simps [of L])
  next
    case False
    with "1.prems"(1) obtain L1 where L1: "lex_step L = Inr L1" and loop: "lex_loop L1 = Inr L'"
      by (auto simp: lex_loop.simps [of L])
    from False L1 loop show ?thesis
      by (rule "1.IH") (use lex_step_quotes [OF L1 "1.prems"(2,3)] lex_step_progress [OF L1] "1.prems"(3) in simp_all)
  qed
qed

lemma close_indents_quotes: "quoted_within n (lx_tokens L) \<Longrightarrow> quoted_within n (lx_tokens (close_indents L))"
proof (induction L rule: close_indents.induct)
  case (1 L)
  then show ?case
    by (subst close_indents.simps) (auto simp: push_token_def quoted_within_snoc token_new_def)
qed

text \<open>A string literal of the stream has at least two quotes fewer than the source.\<close>

lemma tokenize_quotes:
  assumes "tokenize src = Inr ts"
  shows "quoted_within (quotes src) ts"
proof -
  obtain L where L: "lex_loop (lexer_new src) = Inr L"
    and ts: "ts = lx_tokens (push_token (token_eof (lx_line (close_indents L)) (lx_column (close_indents L))) (close_indents L))"
    using assms by (auto simp: tokenize_def Let_def)
  have "quoted_within (quotes src) (lx_tokens L)"
    by (rule lex_loop_quotes [OF L]) (simp_all add: lexer_new_def quoted_within_def quotes_normalize)
  from close_indents_quotes [OF this] show ?thesis
    by (simp add: ts push_token_def quoted_within_snoc token_eof_def)
qed

end
