(* ===== verification/Interp_Returns.thy ===== *)
theory Interp_Returns
  imports Interp_Machine Lexer_Literals Parser_Wf
begin

text \<open>
  Termination of the interpreter. A job runs the parts of its own syntax tree and the expressions that its string literals embed;
  both lead to smaller jobs, the second because a literal inside a literal has fewer quotes. A call
  starts any job again, one level deeper; the limit of \<open>it_max_depth\<close> levels bounds that. The third interpretation of
  \<open>interp_logic\<close> puts the three together.
\<close>

subsection \<open>Smaller jobs\<close>

inductive smaller :: "job \<Rightarrow> job \<Rightarrow> bool" where
  part: "i \<in> set (parts j) \<Longrightarrow> smaller i j"
| inner: "embedded str e \<Longrightarrow> smaller (JE e) (JE (EStringLiteral str))"

definition part_of :: "job \<Rightarrow> job \<Rightarrow> bool" where
  "part_of i j \<longleftrightarrow> i \<in> set (parts j)"

lemma argument_parts_set: "j \<in> set (argument_parts args) \<Longrightarrow> \<exists>a \<in> set args. \<exists>e \<in> set_argument a. j = JE e"
proof -
  have "argument_expression a \<in> set_argument a" for a :: "expression argument" by (cases a) auto
  then show "j \<in> set (argument_parts args) \<Longrightarrow> ?thesis" by (auto simp: argument_parts_def)
qed

lemma body_parts_set:
  "j \<in> set (body_parts b) \<Longrightarrow> (\<exists>e \<in> set1_task_body b. j = JE e) \<or> (\<exists>st \<in> set2_task_body b. j = JS st)"
  by (cases b) (auto simp: body_parts_def)

lemma map_part_set:
  "j \<in> set (map_part m) \<Longrightarrow> (\<exists>e \<in> set1_map_statement m. j = JE e) \<or> (\<exists>st \<in> set2_map_statement m. j = JS st)"
  by (cases m) (auto simp: map_part_def split: option.splits)

lemma stage_parts_set:
  "j \<in> set (stage_parts p) \<Longrightarrow> (\<exists>e \<in> set1_pipeline_stage p. j = JE e) \<or> (\<exists>st \<in> set2_pipeline_stage p. j = JS st)"
  by (cases p) (fastforce simp: stage_parts_def split: rescue_handler.splits dest: map_part_set body_parts_set)+

lemma arm_parts_set: "j \<in> set (arm_parts a) \<Longrightarrow> \<exists>e \<in> set_match_arm a. j = JE e"
  by (cases a) (auto simp: arm_parts_def split: match_pattern.splits)

lemma option_parts_set: "j \<in> set (option_parts v) \<Longrightarrow> \<exists>e \<in> set_option v. j = JE e"
  by (cases v) (auto simp: option_parts_def)

lemmas parts_defs = parts_def expression_parts_def statement_parts_def
lemmas parts_sets = argument_parts_set body_parts_set stage_parts_set arm_parts_set option_parts_set

lemma part_of_acc: "Wellfounded.accp part_of (JE e)" "Wellfounded.accp part_of (JS st)"
proof (induction e and st)
qed (rule accpI, auto simp: part_of_def parts_defs snds.simps split: option.splits dest!: parts_sets)+

lemma part_of_wf: "wfp part_of"
  by (rule accp_wfpI) (metis job.exhaust part_of_acc)

text \<open>The literals of a parsed tree are literals of the stream; so are those of its parts.\<close>

definition wf_job :: "parse_context \<Rightarrow> job \<Rightarrow> bool" where
  "wf_job t j = (case j of JE e \<Rightarrow> wf_expr e t | JS st \<Rightarrow> wf_stmt st t)"

definition literals_in :: "string set \<Rightarrow> job \<Rightarrow> bool" where
  "literals_in L j \<longleftrightarrow> (\<exists>b. wf_job (Parse_Context b L) j)"

lemma wf_job_simps [simp]: "wf_job t (JE e) = wf_expr e t" "wf_job t (JS st) = wf_stmt st t"
  by (simp_all add: wf_job_def)

lemmas ast_set_simps = list_all_iff list.pred_set option.pred_set argument.pred_set match_arm.pred_set task_body.pred_set
  pipeline_stage.pred_set argument.set_map match_arm.set_map task_body.set_map pipeline_stage.set_map option.set_map

lemma expression_parts_wf: "wf_expr e t \<Longrightarrow> i \<in> set (expression_parts e) \<Longrightarrow> wf_job t i"
  by (cases e) (auto simp: parts_defs ast_set_simps split: option.splits
      dest!: parts_sets)

lemma statement_parts_wf:
  "wf_stmt st t \<Longrightarrow> i \<in> set (statement_parts st) \<Longrightarrow> wf_job t i \<or> wf_job (Parse_Context True (pc_literals t)) i"
  by (cases st) (auto simp: parts_defs ast_set_simps split: option.splits dest!: parts_sets)

lemma literals_in_parts: "literals_in L j \<Longrightarrow> i \<in> set (parts j) \<Longrightarrow> literals_in L i"
  by (cases j) (auto simp: literals_in_def parts_def dest: expression_parts_wf dest!: statement_parts_wf)

lemma literals_in_descendants: "part_of\<^sup>*\<^sup>* i j \<Longrightarrow> literals_in L j \<Longrightarrow> literals_in L i"
  by (induction rule: converse_rtranclp_induct) (auto simp: part_of_def dest: literals_in_parts)

lemma take_braces_quotes:
  "quotes (fst (take_braces d cs)) + quotes (snd (take_braces d cs)) \<le> quotes cs"
  by (induction d cs rule: take_braces.induct) (auto simp: Let_def split_beta)

lemma segments_quotes: "SegSource src \<in> set (segments str) \<Longrightarrow> quotes src \<le> quotes str"
proof (induction str rule: segments.induct)
  case (2 c cs)
  have "quotes (fst (take_braces 1 (tl cs))) + quotes (snd (take_braces 1 (tl cs))) \<le> quotes (c # cs)"
    using take_braces_quotes [of 1 "tl cs"] by (cases cs) auto
  with 2 show ?case by (fastforce simp: segments.simps(2) split: if_splits)
qed (simp add: segments.simps)

lemma trim_quotes: "quotes (trim s) \<le> quotes s"
proof -
  have w: "quotes (dropWhile is_whitespace t) \<le> quotes t" for t
    using count_list_append [of "takeWhile is_whitespace t" "dropWhile is_whitespace t"] by simp
  have "quotes (trim s) \<le> quotes (rev (dropWhile is_whitespace s))"
    using w [of "rev (dropWhile is_whitespace s)"] by (simp add: trim_def trim_start_def count_list_rev)
  also have "\<dots> \<le> quotes s" using w by (simp add: count_list_rev)
  finally show ?thesis .
qed

lemma parse_source_wf:
  assumes "parse_source src = Inr prog"
  obtains ts where "tokenize src = Inr ts" and "list_all (\<lambda>st. wf_stmt st (Parse_Context False (token_strings ts))) prog"
proof -
  obtain ts where ts: "tokenize src = Inr ts"
    using assms by (auto simp: parse_source_def split: sum.splits lex_failure.splits)
  then show thesis
    by (rule lexer_stream.parse_stream) (use assms that ts in \<open>auto simp: parse_source_def\<close>)
qed

lemma embedded_literals:
  assumes "embedded str e"
  obtains L where "literals_in L (JE e)" and "L \<subseteq> {v. quotes v < quotes str}"
proof -
  obtain src target line column rest where src: "SegSource src \<in> set (segments str)"
    and p: "parse_source (''__nq_param = '' @ trim src) = Inr (SAssignment target e line column # rest)"
    using assms by (auto simp: embedded_def)
  let ?text = "''__nq_param = '' @ trim src"
  from p obtain ts where ts: "tokenize ?text = Inr ts"
    and wf: "wf_expr e (Parse_Context False (token_strings ts))"
    by (rule parse_source_wf) simp
  have "quotes ?text \<le> quotes str" using trim_quotes [of src] segments_quotes [OF src] by simp
  then have "token_strings ts \<subseteq> {v. quotes v < quotes str}"
    using tokenize_quotes [OF ts] by (fastforce simp: token_strings_def quoted_within_def)
  moreover from wf have "literals_in (token_strings ts) (JE e)" by (auto simp: literals_in_def)
  ultimately show thesis using that by blast
qed

text \<open>A job is accessible when the literals below it are; a literal is, by induction on its quotes.\<close>

lemma smaller_acc_literals:
  assumes "\<And>v. part_of\<^sup>*\<^sup>* (JE (EStringLiteral v)) j \<Longrightarrow> Wellfounded.accp smaller (JE (EStringLiteral v))"
  shows "Wellfounded.accp smaller j"
  using part_of_wf assms
proof (induction j rule: wfp_induct_rule)
  case (less j)
  show ?case
  proof (cases "\<exists>v. j = JE (EStringLiteral v)")
    case True
    with less.prems show ?thesis by auto
  next
    case False
    show ?thesis
    proof (rule accpI)
      fix i
      assume "smaller i j"
      with False have i: "part_of i j" by (auto simp: part_of_def elim: smaller.cases)
      then show "Wellfounded.accp smaller i"
        by (rule less.IH) (use less.prems i in \<open>auto intro: rtranclp.rtrancl_into_rtrancl\<close>)
    qed
  qed
qed

lemma literal_acc: "Wellfounded.accp smaller (JE (EStringLiteral v))"
proof (induction "quotes v" arbitrary: v rule: less_induct)
  case less
  show ?case
  proof (rule accpI)
    fix i
    assume "smaller i (JE (EStringLiteral v))"
    then obtain e where i: "i = JE e" and e: "embedded v e"
      by (auto simp: parts_defs elim: smaller.cases)
    from e obtain L where L: "literals_in L (JE e)" "L \<subseteq> {w. quotes w < quotes v}" by (rule embedded_literals)
    show "Wellfounded.accp smaller i"
      unfolding i
    proof (rule smaller_acc_literals)
      fix w
      assume "part_of\<^sup>*\<^sup>* (JE (EStringLiteral w)) (JE e)"
      from literals_in_descendants [OF this L(1)] L(2) have "quotes w < quotes v" by (auto simp: literals_in_def)
      then show "Wellfounded.accp smaller (JE (EStringLiteral w))" by (rule less)
    qed
  qed
qed

lemma smaller_wf: "wfp smaller"
  using smaller_acc_literals [OF literal_acc] by (blast intro: accp_wfpI)

subsection \<open>The measure of a state\<close>

text \<open>
  \<open>n\<close> calls are left before the limit, there is no database, and the drawing of a child span ends.
\<close>

definition returns_at :: "('d, 't, 'w) lib \<Rightarrow> nat \<Rightarrow> ('d, 't, 'tx, 'w) interp \<Rightarrow> bool" where
  "returns_at l n s \<longleftrightarrow> it_max_depth s - it_call_depth s = n \<and> it_db s = None \<and>
     (it_trace s = None \<or> (\<forall>ctx w. outbound_child (fill_random l) ctx w \<noteq> None))"

definition one_less :: "nat \<Rightarrow> nat option" where
  "one_less n = (case n of 0 \<Rightarrow> None | Suc k \<Rightarrow> Some k)"

lemma returns_at_call:
  assumes "returns_at l n s" and "it_call_depth s < it_max_depth s"
  shows "\<exists>k. one_less n = Some k \<and>
    returns_at l k (s\<lparr>it_call_depth := it_call_depth s + 1, it_frames := frs\<rparr>) \<and>
    returns_at l k (s\<lparr>it_env := env, it_module := m, it_call_depth := it_call_depth s + 1, it_frames := frs\<rparr>)"
  using assms by (intro exI [of _ "n - 1"]) (auto simp: returns_at_def one_less_def split: nat.splits)

interpretation return_logic: interp_logic l True "returns_at l" framed "smaller\<^sup>+\<^sup>+" one_less
  for l :: "('d, 't, 'w) lib"
proof (unfold_locales, goal_cases)
  case 1 show ?case by (rule framed_refl)
next
  case 2 then show ?case by (rule framed_trans)
next
  case 3 then show ?case by (simp add: returns_at_def framed_def same_setup_def)
next
  case 8 then show ?case by (rule framed_pop)
next
  case 9 then show ?case by (rule framed_leak)
next
  case 10 then show ?case by (rule framed_restore)
next
  case 11 then show ?case by (rule framed_truncate)
next
  case 12 then show ?case by (rule framed_same_call)
next
  case 13 then show ?case by (rule framed_cross_call)
next
  case 14 then show ?case by (rule framed_transaction)
next
  case 18 then show ?case by (rule returns_at_call)
qed (auto simp: returns_at_def intro: framed_simple smaller.intros)

end
