(* ===== verification/Interp_Laws.thy ===== *)
theory Interp_Laws
  imports Interp_Returns
begin

text \<open>
  What running a program guarantees: it returns, it leaves alone what is not its own, and a transaction is closed by
  exactly one of commit and rollback.
\<close>

subsection \<open>The frame invariant of the fixed point\<close>

lemma runs_framed: "frame_logic.runs 0 j (runner l) (runner l)"
proof -
  have "framed s t" if "runner l j s = Some (r, t)" and "r \<noteq> Inl Panicked" for j s r t
  proof -
    let ?P = "\<lambda>x y. case x of (l, j, s) \<Rightarrow> case y of (r, t) \<Rightarrow> r \<noteq> Inl Panicked \<longrightarrow> framed s t"
    have "?P (l, j, s) (r, t)"
    proof (rule run.raw_induct [where P = ?P])
      fix f x y
      assume f: "\<And>x y. f x = Some y \<Longrightarrow> ?P x y"
        and y: "(case x of (l, j, s) \<Rightarrow> step l (\<lambda>j s. f (l, j, s)) j s) = Some y"
      obtain l j s where x: "x = (l, j, s)" by (cases x)
      have "frame_logic.runs 0 j (\<lambda>j s. f (l, j, s)) (\<lambda>j s. f (l, j, s))"
        using f by (fastforce simp: frame_logic.runs_def frame_logic.rel_def related_def outcome_def)
      from frame_logic.rel_step [OF this, of l] y x show "?P x y"
        by (auto simp: frame_logic.rel_def related_def outcome_def)
    qed (use that in \<open>simp add: runner_def\<close>)
    with that show ?thesis by simp
  qed
  then show ?thesis by (auto simp: frame_logic.runs_def frame_logic.rel_def related_def outcome_def)
qed

lemma runner_framed: "runner l j s = Some (r, t) \<Longrightarrow> r \<noteq> Inl Panicked \<Longrightarrow> framed s t"
  using runs_framed [of j l] by (auto simp: frame_logic.runs_def frame_logic.rel_def related_def outcome_def)

text \<open>The same of any computation built from the runner.\<close>

lemma rel_framed: "frame_logic.rel 0 m m \<Longrightarrow> m s = Some (r, t) \<Longrightarrow> r \<noteq> Inl Panicked \<Longrightarrow> framed s t"
  by (auto simp: frame_logic.rel_def related_def outcome_def)

subsection \<open>Termination of the fixed point\<close>

lemma return_logic_runner:
  fixes l :: "('d, 't, 'w) lib"
  shows "return_logic.rel l n (runner l j :: ('d, 't, 'tx, 'w, ('d, 't) val) im) (runner l j)"
proof (induction n arbitrary: j rule: less_induct)
  case (less n)
  note calls = less
  have "wfp smaller\<^sup>+\<^sup>+" by (rule wfp_tranclp [OF smaller_wf])
  then show ?case
  proof (induction j rule: wfp_induct_rule)
    case (less j)
    have "return_logic.runs l n j (runner l :: ('d, 't, 'tx, 'w) runner) (runner l)"
      using less.IH calls by (auto simp: return_logic.runs_def one_less_def split: nat.splits)
    from return_logic.rel_step [OF this] have "return_logic.rel l n (step l (runner l :: ('d, 't, 'tx, 'w) runner) j) (step l (runner l) j)" .
    moreover have "runner l j = step l (runner l :: ('d, 't, 'tx, 'w) runner) j" by (rule ext) (rule runner_step)
    ultimately show ?case by simp
  qed
qed

lemma runner_returns: "returns_at l n s \<Longrightarrow> \<exists>r t. runner l j s = Some (r, t)"
  using return_logic_runner [of l n j] by (auto simp: return_logic.rel_def related_def outcome_def)

subsection \<open>A library, a database and a state to run on\<close>

text \<open>The world of the examples is the list of what happened.\<close>

definition sample_lib :: "(rat, int, string list) lib" where
  "sample_lib = \<lparr>lx = rat_ext,
     lz = \<lparr>serialize_i64 = (\<lambda>n. ''n''), serialize_u64 = (\<lambda>n. ''n''), serialize_f64 = (\<lambda>n. ''n''), serialize_str = (\<lambda>t. t),
       serialize_bool = (\<lambda>b. ''b''), serialize_none = ''null'', serialize_unit = ''null'', serialize_seq = concat, serialize_map = (\<lambda>m. concat (map snd m))\<rparr>,
     json_pretty = (\<lambda>j. []), json_from_str = (\<lambda>t. Inl t), debug_kind = (\<lambda>k. []), debug_value = (\<lambda>v. []),
     debug_expression = (\<lambda>e. []), debug_operator = (\<lambda>p. []), env_log_level = None,
     utc_now = Pair 0, uuid_v4 = Pair ''u4'', uuid_v7 = Pair ''u7'', fill_random = (\<lambda>n w. (Some (replicate n 1), w)),
     print_line = Cons, write_stdout = (\<lambda>t w. (Inr (), t # w)),
     branch_world = (\<lambda>i w. w), joined_world = (\<lambda>w ws. w), fs_read = (\<lambda>p w. (Inl IoNotFound, w)),
     fs_write = (\<lambda>p t w. (Inr (), t # w)), fs_append = (\<lambda>p t w. (Inr (), t # w)), fs_exists = (\<lambda>p w. (False, w)),
     fs_remove = (\<lambda>p w. (Inl IoNotFound, w)), base64_encode = (\<lambda>b t. t), base64_decode = (\<lambda>a b t. Inl t),
     utf8_decode = (\<lambda>bs. Inr []), local_date = (\<lambda>t. t), local_time = (\<lambda>t. t), date_year = (\<lambda>t. 2024),
     date_month = (\<lambda>t. 1), date_day = (\<lambda>t. 1), date_weekday = (\<lambda>t. 1), time_hour = (\<lambda>t. 0), time_minute = (\<lambda>t. 0),
     time_second = (\<lambda>t. 0), instant_timestamp = of_int, instant_from_timestamp = (\<lambda>n. Some (sint n)), midnight = 0,
     last_millisecond = 0, temporal_le = (\<lambda>a b. True), temporal_diff = (\<lambda>a b. 0),
     format_instant_mask = (\<lambda>t m. None), format_date_mask = (\<lambda>t m. None), format_time_mask = (\<lambda>t m. None)\<rparr>"

definition sample_db :: "((rat, int) val, nat, string list) db_driver" where
  "sample_db =
     (let found = \<lambda>w. (Inr None, w); none = \<lambda>w. (Inr [], w)
      in \<lparr>db_save = (\<lambda>tx table row w. (Inr row, (''save '' @ table) # w)), db_find = (\<lambda>tx table v. found),
          db_find_all = (\<lambda>tx table fs. none), db_update_by_id = (\<lambda>tx table v row. found),
          db_delete_by_id = (\<lambda>tx table v w. (Inr False, w)), db_query_fetch = (\<lambda>tx q. none),
          db_query_fetch_one = (\<lambda>tx q. found), db_query_count = (\<lambda>tx q w. (Inr 0, w)),
          db_query_exists = (\<lambda>tx q w. (Inr False, w)), db_query_update = (\<lambda>tx q row w. (Inr 0, w)),
          db_query_delete = (\<lambda>tx q w. (Inr 0, w)), db_native_query = (\<lambda>tx sql vs. none),
          db_begin = (\<lambda>w. (Inr 7, ''begin'' # w)), db_commit = (\<lambda>tx w. (Inr (), ''commit'' # w)),
          db_rollback = (\<lambda>tx w. (Inr (), ''rollback'' # w))\<rparr>)"

definition sample_interp :: "(rat, int, nat, string list) interp" where
  "sample_interp = \<lparr>it_env = env_new, it_line = 1, it_column = 1, it_call_depth = 0, it_max_depth = 64, it_module = None,
     it_runtime = None, it_schemas = None, it_db = None, it_doc = None, it_queue = None, it_cache = None,
     it_default_ttl = None, it_http = None, it_trace = None, it_flags = \<lparr>ff_flags = []\<rparr>, it_in_tx = False,
     it_tx = None, it_frames = [], it_world = []\<rparr>"

lemmas run_defs = step_def execute_statement_def statement_position_def statement_step_def evaluate_def

lemma runner_JE: "runner l (JE e) = evaluate l (runner l) e"
  by (rule ext) (simp add: runner_step step_def)

lemma runner_JS: "runner l (JS st) = execute_statement l (runner l) st"
  by (rule ext) (simp add: runner_step step_def)

subsection \<open>Termination and the frame\<close>

text \<open>C1: without a database every statement and every expression returns, whatever the program: loops stop at
  their limit, calls at the maximal depth, and expressions embedded in strings have ever fewer
  quotes. With a trace context the random source must not fail nor draw zeros for ever: \<open>outbound_child\<close> must
  return.\<close>

theorem execution_returns:
  assumes "it_db s = None" and "it_trace s = None \<or> (\<forall>ctx w. outbound_child (fill_random l) ctx w \<noteq> None)"
  shows "\<exists>r t. runner l j s = Some (r, t)"
  by (rule runner_returns [of l "it_max_depth s - it_call_depth s"]) (use assms in \<open>simp add: returns_at_def\<close>)

lemma sample_outbound_child: "outbound_child (fill_random sample_lib) ctx w \<noteq> None"
proof -
  have "random_hex_nonzero (fill_random sample_lib) 8 w = Some (hex_lower (replicate 8 1), w)"
    by (subst random_hex_nonzero.simps) (simp add: sample_lib_def eval_nat_numeral)
  then show ?thesis by (simp add: outbound_child_def)
qed

theorem execution_returns_witness:
  "\<exists>r t. runner sample_lib (JS (SWhile (EBoolean True) [SExpressionStatement (EStringLiteral ''#{[1, 2].length()}'') 2 2] 1 1))
     (sample_interp\<lparr>it_trace := Some sample_trace\<rparr>) = Some (r, t)"
  by (rule execution_returns) (simp_all add: sample_interp_def sample_outbound_child)

text \<open>C4: whatever a statement or expression does and however it ends, short of a panic, the configuration, the module, the
  depth of calls and the mark of a transaction are as before; so is the transaction, when there is one exactly
  inside a \<open>transaction\<close> block; so is the shared base of the environment. No scope is closed, no name
  disappears from a scope, and no scope but the innermost gains a name. The stack frames of the callers are
  still there. Scopes and frames of what failed may be left on top.\<close>

theorem execution_framed:
  assumes "runner l j s = Some (r, t)" and "r \<noteq> Inl Panicked"
  shows "same_setup s t \<and> (tx_ok s \<longrightarrow> it_tx t = it_tx s) \<and> env_base (it_env t) = env_base (it_env s) \<and>
    env_depth (it_env s) \<le> env_depth (it_env t) \<and>
    (\<forall>i < env_depth (it_env s). fst ` set (env_scopes (it_env s) ! i) \<subseteq> fst ` set (env_scopes (it_env t) ! i)) \<and>
    (\<forall>i. Suc i < env_depth (it_env s) \<longrightarrow> fst ` set (env_scopes (it_env t) ! i) = fst ` set (env_scopes (it_env s) ! i)) \<and>
    prefix (it_frames s) (it_frames t)"
proof -
  have "framed s t" by (rule runner_framed [OF assms])
  then have "scopes_kept (scope_names (it_env s)) (scope_names (it_env t))" by (simp add: framed_def)
  then have kept: "env_depth (it_env s) \<le> env_depth (it_env t)"
    "\<And>i. i < env_depth (it_env s) \<Longrightarrow> scope_names (it_env s) ! i \<subseteq> scope_names (it_env t) ! i"
    "\<And>i. Suc i < env_depth (it_env s) \<Longrightarrow> scope_names (it_env t) ! i = scope_names (it_env s) ! i"
    by (simp_all add: scopes_kept_def length_scope_names)
  have names: "scope_names e ! i = fst ` set (env_scopes e ! i)" if "i < env_depth e" for e :: "('a, 'b) val environment" and i
    using that by (simp add: scope_names_def env_depth_def)
  have "fst ` set (env_scopes (it_env s) ! i) \<subseteq> fst ` set (env_scopes (it_env t) ! i)" if "i < env_depth (it_env s)" for i
    using kept(1) kept(2) [OF that] names [OF that] names [of i "it_env t"] that by simp
  moreover have "fst ` set (env_scopes (it_env t) ! i) = fst ` set (env_scopes (it_env s) ! i)" if "Suc i < env_depth (it_env s)" for i
    using kept(1) kept(3) [OF that] names [of i "it_env s"] names [of i "it_env t"] that by simp
  moreover note kept(1)
  moreover note \<open>framed s t\<close>
  ultimately show ?thesis by (simp add: framed_def)
qed

theorem execution_framed_witness:
  "\<exists>t. runner sample_lib (JS (SAssignment ''x'' (EInteger 1) 3 1)) (sample_interp\<lparr>it_env := push_scope (env_new :: (rat, int) val environment)\<rparr>) =
       Some (Inr VNull, t) \<and> env_depth (it_env t) \<ge> 2 \<and> fst ` set (env_scopes (it_env t) ! 0) = {}"
proof -
  let ?s = "sample_interp\<lparr>it_env := push_scope (env_new :: (rat, int) val environment)\<rparr>"
  have run: "runner sample_lib (JS (SAssignment ''x'' (EInteger 1) 3 1)) ?s =
      Some (Inr VNull, ?s\<lparr>it_line := 3, it_column := 1, it_env := env_update ''x'' (VInteger 1) (it_env ?s)\<rparr>)"
    by (simp add: runner_JS runner_JE run_defs assign_def ibind_def set_position_def iret_def env_do_def)
  have two: "env_depth (it_env ?s) = 2" "env_scopes (it_env ?s) ! 0 = []"
    by (simp_all add: env_depth_def push_scope_def env_new_def)
  from execution_framed [OF run] two run show ?thesis by fastforce
qed

subsection \<open>Transactions\<close>

lemma run_stmts_framed:
  "run_stmts (runner l) body s = Some (r, t) \<Longrightarrow> r \<noteq> Inl Panicked \<Longrightarrow> framed s t"
  by (rule rel_framed [OF frame_logic.rel_run_stmts]) (use runs_framed in \<open>auto simp: frame_logic.runs_def\<close>)

text \<open>C2: a transaction block that has begun a transaction ends that same transaction, and ends it exactly once: by a
  commit when its body succeeds, by a rollback when its body ends in an error, which it then
  propagates; afterwards no transaction is active.\<close>

theorem transaction_atomic:
  assumes "it_db s = Some engine" and "\<not> it_in_tx s" and "db_begin engine (it_world s) = (Inr tx, w)"
    and "run_stmts (runner l) body
      (s\<lparr>it_line := line, it_column := column, it_world := w, it_tx := Some tx, it_in_tx := True\<rparr>) = Some (r, u)"
    and "r \<noteq> Inl Panicked"
  shows "\<exists>v t. runner l (JS (STransaction body line column)) s = Some (v, t) \<and> \<not> it_in_tx t \<and> it_tx t = None \<and>
    (case r of
       Inl e \<Rightarrow> v = Inl e \<and> it_world t = snd (db_rollback engine tx (it_world u))
     | Inr _ \<Rightarrow> it_world t = snd (db_commit engine tx (it_world u)) \<and>
         (isl v \<longleftrightarrow> isl (fst (db_commit engine tx (it_world u)))))"
proof -
  let ?s = "s\<lparr>it_line := line, it_column := column\<rparr>"
  have "framed (?s\<lparr>it_world := w, it_tx := Some tx, it_in_tx := True\<rparr>) u"
    by (rule run_stmts_framed [OF _ assms(5)]) (use assms(4) in simp)
  then have u: "it_tx u = Some tx" by (simp add: framed_def tx_ok_def)
  have "runner l (JS (STransaction body line column)) s = transaction_block l (run_stmts (runner l) body) ?s"
    by (simp add: runner_JS run_defs ibind_def set_position_def)
  also have "\<dots> = transaction_end l engine (r, u)"
    using transaction_runs [of ?s engine tx w l "run_stmts (runner l) body"] assms(1-4) by simp
  finally show ?thesis
    using assms(5) by (auto simp: transaction_end_def u split: prod.splits sum.splits)
qed

theorem transaction_atomic_witness:
  "\<exists>v t. runner sample_lib (JS (STransaction [SRaise (EIdentifier ''missing'') None 2 3] 1 1)) (sample_interp\<lparr>it_db := Some sample_db\<rparr>) =
     Some (v, t) \<and> isl v \<and> it_world t = [''rollback'', ''begin'']"
proof -
  let ?s = "sample_interp\<lparr>it_db := Some sample_db\<rparr>"
  let ?u = "?s\<lparr>it_line := 1, it_column := 1, it_world := [''begin''], it_tx := Some 7, it_in_tx := True\<rparr>"
  have body: "run_stmts (runner sample_lib) [SRaise (EIdentifier ''missing'') None 2 3] ?u =
      Some (Inl (Err (UndefinedVariable ''missing'' 2 3)), ?u\<lparr>it_line := 2, it_column := 3\<rparr>)"
    by (simp add: run_stmts_def runner_JS runner_JE run_defs ibind_def set_position_def when_truthy_def
        evaluate_identifier_def namespace_table_def iask_def undefined_variable_def sample_interp_def env_get_def env_new_def)
  show ?thesis
    using transaction_atomic [where s = ?s and engine = sample_db and tx = 7 and w = "[''begin'']" and l = sample_lib and
        body = "[SRaise (EIdentifier ''missing'') None 2 3]" and line = 1 and column = 1, OF _ _ _ body]
    by (auto simp: sample_interp_def sample_db_def Let_def)
qed

end
