(* ===== verification/Interp_Control.thy ===== *)
theory Interp_Control
  imports Interp_Laws
begin

text \<open>
  The control flow of the language over the interpreter of \<open>Interp_Machine\<close>: \<open>rescue\<close>, pipelines, loops, calls and
  broadcasts against what they promise.
\<close>

subsection \<open>Rescue and pipelines\<close>




lemma runner_rel: "frame_logic.rel 0 (runner l j) (runner l j)"
  by (rule frame_logic.rel_go [OF runs_framed TrueI])








subsection \<open>Loops\<close>

text \<open>\<open>n\<close> turns of a loop, from the state before the condition is read to the state after the body.\<close>

inductive turns ::
    "('d, 't, 'w) lib \<Rightarrow> expression \<Rightarrow> statement list \<Rightarrow> nat \<Rightarrow> ('d, 't, 'tx, 'w) interp \<Rightarrow> ('d, 't, 'tx, 'w) interp \<Rightarrow> bool"
  for l condition body where
  turns_0: "turns l condition body 0 s s"
| turns_Suc: "runner l (JE condition) s = Some (Inr v, u) \<Longrightarrow> is_truthy (lx l) v \<Longrightarrow>
    run_stmts (runner l) body u = Some (Inr (), u') \<Longrightarrow> turns l condition body n u' t \<Longrightarrow>
    turns l condition body (Suc n) s t"

lemma while_loop_value:
  "while_loop l (runner l) condition body n s = Some (Inr x, t) \<Longrightarrow>
     x = VNull \<and> (\<exists>k u v. k \<le> n \<and> turns l condition body k s u \<and>
       runner l (JE condition) u = Some (Inr v, t) \<and> \<not> is_truthy (lx l) v)"
proof (induction n arbitrary: s)
  case 0
  then show ?case
    by (fastforce simp: ibind_def iret_def runtime_error_def split: bind_splits sum.splits if_splits intro: turns_0)
next
  case (Suc n)
  then obtain v u where c: "runner l (JE condition) s = Some (Inr v, u)"
    by (auto simp: ibind_def split: bind_splits sum.splits)
  show ?case
  proof (cases "is_truthy (lx l) v")
    case False
    with Suc.prems c show ?thesis by (fastforce simp: ibind_def iret_def intro: turns_0)
  next
    case True
    with Suc.prems c obtain u' where b: "run_stmts (runner l) body u = Some (Inr (), u')"
      and "while_loop l (runner l) condition body n u' = Some (Inr x, t)"
      by (auto simp: ibind_def split: bind_splits sum.splits)
    from Suc.IH [OF this(2)] show ?thesis using turns_Suc [OF c True b] by (metis Suc_le_mono)
  qed
qed

lemma while_loop_exceeded:
  "turns l condition body n s u \<Longrightarrow> runner l (JE condition) u = Some (Inr v, t) \<Longrightarrow> is_truthy (lx l) v \<Longrightarrow>
     while_loop l (runner l) condition body n s =
       Some (Inl (Err (RuntimeError ''while loop exceeded the maximum of 10000 iterations'' (it_line t) (it_column t))), t)"
  by (induction rule: turns.induct) (auto simp: ibind_def runtime_error_def)

text \<open>C35: a loop that ends normally has run its body at most 10000 times, each time after its condition was
  truthy, and then found it falsy; a loop whose condition is still truthy after 10000 turns ends in the error
  of the limit.\<close>

theorem while_bounded:
  "(runner l (JS (SWhile condition body line column)) s = Some (Inr x, t) \<longrightarrow>
      x = VNull \<and> (\<exists>k u v. k \<le> 10000 \<and> turns l condition body k (s\<lparr>it_line := line, it_column := column\<rparr>) u \<and>
        runner l (JE condition) u = Some (Inr v, t) \<and> \<not> is_truthy (lx l) v)) \<and>
   (turns l condition body 10000 (s\<lparr>it_line := line, it_column := column\<rparr>) u \<and>
      runner l (JE condition) u = Some (Inr v, t) \<and> is_truthy (lx l) v \<longrightarrow>
      runner l (JS (SWhile condition body line column)) s =
        Some (Inl (Err (RuntimeError ''while loop exceeded the maximum of 10000 iterations'' (it_line t) (it_column t))), t))"
proof -
  have w: "runner l (JS (SWhile condition body line column)) s =
      while_loop l (runner l) condition body 10000 (s\<lparr>it_line := line, it_column := column\<rparr>)"
    by (simp add: runner_JS run_defs ibind_def set_position_def MAX_ITERATIONS_def)
  show ?thesis unfolding w using while_loop_value while_loop_exceeded by blast
qed

lemma turns_same:
  assumes "runner l (JE condition) s = Some (Inr v, s)" and "is_truthy (lx l) v" and "run_stmts (runner l) body s = Some (Inr (), s)"
  shows "turns l condition body n s s"
  by (induction n) (auto intro: turns_0 turns_Suc [OF assms])

theorem while_bounded_witness:
  "\<exists>t. runner sample_lib (JS (SWhile (EBoolean True) [] 1 1)) sample_interp =
     Some (Inl (Err (RuntimeError ''while loop exceeded the maximum of 10000 iterations'' 1 1)), t)"
proof -
  have c: "runner sample_lib (JE (EBoolean True)) (sample_interp :: (rat, int, nat, string list) interp) =
      Some (Inr (VBoolean True), sample_interp)"
    by (simp add: runner_JE evaluate_def iret_def)
  have s: "sample_interp\<lparr>it_line := 1, it_column := 1\<rparr> = sample_interp" by (simp add: sample_interp_def)
  have "turns sample_lib (EBoolean True) [] 10000 sample_interp sample_interp"
    by (rule turns_same [OF c]) (simp_all add: run_stmts_def iret_def)
  with c s while_bounded [where l = sample_lib and condition = "EBoolean True" and body = "[]" and line = 1 and column = 1 and
      s = sample_interp and u = sample_interp and v = "VBoolean True" and t = sample_interp]
  show ?thesis by (simp add: sample_interp_def)
qed

subsection \<open>Calls\<close>

lemma ibind_cases:
  assumes "ibind m f s = Some (r, t)"
  obtains (fault) e where "m s = Some (Inl e, t)" and "r = Inl e"
    | (ok) a u where "m s = Some (Inr a, u)" and "f a u = Some (r, t)"
  using assms by (auto simp: ibind_def split: bind_splits sum.splits)

text \<open>Computations that leave the state alone.\<close>

definition leaves_state :: "('d, 't, 'tx, 'w, 'a) im \<Rightarrow> bool" where
  "leaves_state m \<longleftrightarrow> (\<forall>s r t. m s = Some (r, t) \<longrightarrow> t = s)"

lemma leaves_stateD: "leaves_state m \<Longrightarrow> m s = Some (r, t) \<Longrightarrow> t = s"
  by (simp add: leaves_state_def)

lemma leaves_state_ibind: "leaves_state m \<Longrightarrow> (\<And>a. leaves_state (f a)) \<Longrightarrow> leaves_state (ibind m f)"
  unfolding leaves_state_def [of "ibind m f"] by (blast elim: ibind_cases dest: leaves_stateD)

lemma leaves_state_imap: "(\<And>x. leaves_state (f x)) \<Longrightarrow> leaves_state (imap f xs)"
proof (induction xs)
  case Nil
  show ?case by (simp add: leaves_state_def iret_def)
next
  case (Cons x xs)
  have "leaves_state (ibind (f x) (\<lambda>y. ibind (imap f xs) (\<lambda>ys. iret (y # ys))))"
    by (intro leaves_state_ibind Cons) (simp add: leaves_state_def iret_def)
  then show ?case by simp
qed

lemma leaves_state_coerce: "leaves_state (coerce_argument l schemas name pa)"
  by (auto simp: leaves_state_def coerce_argument_def iret_def type_error_def ithrow_def
      split: prod.splits option.splits sum.splits fault.splits)

lemma evaluate_body_framed:
  "evaluate_body (runner l) body s = Some (r, t) \<Longrightarrow> r \<noteq> Inl Panicked \<Longrightarrow> framed s t"
  by (rule rel_framed [OF frame_logic.rel_evaluate_body [OF runner_rel]])

lemma same_module_call_frames:
  assumes "same_module_call fr binds (evaluate_body (runner l) body) s = Some (r, t)" and "r \<noteq> Inl Panicked"
  shows "if isl r then prefix (it_frames s @ [fr]) (it_frames t) else it_frames t = it_frames s"
proof -
  let ?s = "s\<lparr>it_call_depth := it_call_depth s + 1, it_frames := it_frames s @ [fr],
    it_env := fold (\<lambda>(n, v). env_set n v) binds (push_scope (it_env s))\<rparr>"
  obtain u where b: "evaluate_body (runner l) body ?s = Some (r, u)"
    and t: "it_frames t = (if isl r then it_frames u else take (length (it_frames s)) (it_frames u))"
    using assms(1) by (auto simp: same_module_call_def in_scope_def Let_def split: bind_splits sum.splits)
  have "prefix (it_frames s @ [fr]) (it_frames u)"
    using evaluate_body_framed [OF b assms(2)] by (simp add: framed_def)
  then show ?thesis unfolding t by (auto simp: prefix_def)
qed

lemma cross_module_call_frames:
  assumes "cross_module_call owner fr binds (evaluate_body (runner l) body) s = Some (r, t)" and "r \<noteq> Inl Panicked"
  shows "if isl r then prefix (it_frames s @ [fr]) (it_frames t) else it_frames t = it_frames s"
proof -
  obtain f env u where b: "evaluate_body (runner l) body
      (s\<lparr>it_env := env, it_module := Some owner, it_call_depth := it_call_depth s + 1, it_frames := it_frames s @ [fr]\<rparr>) = Some (r, u)"
    and t: "it_frames t = (if isl r then it_frames u else it_frames s)"
    using assms(1) by (auto simp: cross_module_call_def Let_def split: bind_splits sum.splits)
  from evaluate_body_framed [OF b assms(2)] show ?thesis by (simp add: t framed_def)
qed

text \<open>A call is accepted when it has as many arguments as the task has parameters, every argument has the
  schema of its parameter, and the stack is below the maximal depth.\<close>

definition call_accepted ::
    "('d, 't, 'w) lib \<Rightarrow> string \<Rightarrow> param_def list \<Rightarrow> string option \<Rightarrow> ('d, 't) val list \<Rightarrow> ('d, 't, 'tx, 'w) interp \<Rightarrow> bool" where
  "call_accepted l name params owner args s \<longleftrightarrow>
     length params = length args \<and> it_call_depth s < it_max_depth s \<and>
     (\<exists>vs. imap (coerce_argument l (schema_registry_for s (case owner of Some m \<Rightarrow> Some m | None \<Rightarrow> it_module s)) name)
        (zip params args) s = Some (Inr vs, s))"

lemma call_after_arguments:
  assumes "call_task_value l (runner l) (VTask name params body owner source line column) args callee s = Some (r, t)"
  obtains (refused) "isl r" and "t = s" and "\<not> call_accepted l name params owner args s"
    | (started) binds m where "call_accepted l name params owner args s"
        and "same_module_call (task_frame name source line column) binds (evaluate_body (runner l) body) s = Some (r, t) \<or>
          cross_module_call m (task_frame name source line column) binds (evaluate_body (runner l) body) s = Some (r, t)"
proof (cases "length params = length args")
  case False
  with assms refused show thesis by (auto simp: call_task_value_def wrong_arity_def call_accepted_def)
next
  case True
  let ?schemas = "schema_registry_for s (case owner of Some m \<Rightarrow> Some m | None \<Rightarrow> it_module s)"
  let ?args = "imap (coerce_argument l ?schemas name) (zip params args)"
  have args: "?args s = Some (a, u) \<Longrightarrow> u = s" for a u
    by (rule leaves_stateD [OF leaves_state_imap [OF leaves_state_coerce]])
  obtain a where a: "?args s = Some (a, s)"
    using assms True args by (cases "?args s") (auto simp: call_task_value_def ibind_def iask_def)
  show thesis
  proof (cases a)
    case (Inl e)
    with assms True a refused show thesis by (auto simp: call_task_value_def ibind_def iask_def call_accepted_def)
  next
    case (Inr coerced)
    show thesis
    proof (cases "it_call_depth s < it_max_depth s")
      case False
      with assms True a Inr refused show thesis
        by (auto simp: call_task_value_def ibind_def iask_def runtime_error_def call_accepted_def)
    next
      case depth: True
      have "call_accepted l name params owner args s" using True a Inr depth by (simp add: call_accepted_def)
      with assms True a Inr depth started show thesis
        by (auto simp: call_task_value_def ibind_def iask_def Let_def split: option.splits if_splits)
    qed
  qed
qed

text \<open>C36: a call of a task is refused, with an error and the stack frames untouched, exactly when it is not accepted: a
  wrong number of arguments, an argument that does not match the schema of its parameter, or the maximal depth. An
  accepted call that succeeds leaves the stack frames as they were; one whose body ends in an error leaves
  its own frame on top of the frames of its caller and below the frames of the calls that failed inside
  it, so the frames are the stack trace of the error.\<close>

theorem call_stack_trace:
  assumes "call_task_value l (runner l) (VTask name params body owner source line column) args callee s = Some (r, t)"
    and "r \<noteq> Inl Panicked"
  shows "if call_accepted l name params owner args s
    then if isl r then prefix (it_frames s @ [task_frame name source line column]) (it_frames t) else it_frames t = it_frames s
    else isl r \<and> it_frames t = it_frames s"
  using assms(1)
proof (cases rule: call_after_arguments)
  case refused
  then show ?thesis by simp
next
  case (started binds m)
  then have "if isl r then prefix (it_frames s @ [task_frame name source line column]) (it_frames t) else it_frames t = it_frames s"
    using same_module_call_frames [OF _ assms(2)] cross_module_call_frames [OF _ assms(2)] by blast
  with started(1) show ?thesis by simp
qed

theorem call_stack_trace_witness:
  "\<exists>e t. call_task_value sample_lib (runner sample_lib) (VTask ''f'' [] (TbInline (EIdentifier ''missing'')) None None 4 1) [] ''f''
     sample_interp = Some (Inl e, t) \<and> prefix [task_frame ''f'' None 4 1] (it_frames t)"
proof -
  have missing: "runner sample_lib (JE (EIdentifier ''missing'')) s = Some (Inl (Err (UndefinedVariable ''missing'' (it_line s) (it_column s))), s)"
    if "env_get (it_env s) ''missing'' = None" for s :: "(rat, int, nat, string list) interp"
    using that by (simp add: runner_JE evaluate_def evaluate_identifier_def namespace_table_def ibind_def iask_def undefined_variable_def)
  have "\<exists>t. call_task_value sample_lib (runner sample_lib) (VTask ''f'' [] (TbInline (EIdentifier ''missing'')) None None 4 1) [] ''f''
      sample_interp = Some (Inl (Err (UndefinedVariable ''missing'' 1 1)), t)"
    by (simp add: call_task_value_def ibind_def iask_def iret_def same_module_call_def in_scope_def evaluate_body_def missing Let_def
        sample_interp_def env_get_def env_new_def push_scope_def)
  then obtain t where c: "call_task_value sample_lib (runner sample_lib) (VTask ''f'' [] (TbInline (EIdentifier ''missing'')) None None 4 1) [] ''f''
      sample_interp = Some (Inl (Err (UndefinedVariable ''missing'' 1 1)), t)" by blast
  have "call_accepted sample_lib ''f'' [] None [] sample_interp"
    by (simp add: call_accepted_def iret_def sample_interp_def)
  with call_stack_trace [OF c] c show ?thesis by (auto simp: sample_interp_def)
qed

subsection \<open>Broadcasts\<close>

lemma clone_branches:
  assumes "imap (\<lambda>e. clone_branch (f e)) es u = Some (r, t)"
  shows "t = u\<lparr>it_world := it_world t\<rparr> \<and>
    (\<forall>vs. r = Inr vs \<longrightarrow> list_all2 (\<lambda>e v. \<exists>w b. f e (u\<lparr>it_tx := None, it_world := w\<rparr>) = Some (Inr v, b)) es vs)"
  using assms
proof (induction es arbitrary: u r)
  case Nil
  then show ?case by (auto simp: iret_def)
next
  case (Cons e es)
  let ?start = "u\<lparr>it_tx := None, it_world := it_world u\<rparr>"
  from Cons.prems have "ibind (clone_branch (f e)) (\<lambda>y. ibind (imap (\<lambda>e. clone_branch (f e)) es) (\<lambda>ys. iret (y # ys))) u = Some (r, t)"
    by simp
  then show ?case
  proof (cases rule: ibind_cases)
    case (fault x)
    then show ?thesis by (auto simp: clone_branch_def split: bind_splits)
  next
    case (ok v u')
    then obtain b where e: "f e ?start = Some (Inr v, b)" and u': "u' = u\<lparr>it_world := it_world b\<rparr>"
      by (auto simp: clone_branch_def split: bind_splits)
    from ok(2) obtain r' where "imap (\<lambda>e. clone_branch (f e)) es u' = Some (r', t)"
      and r: "\<And>vs. r = Inr vs \<Longrightarrow> \<exists>ws. r' = Inr ws \<and> vs = v # ws"
      by (elim ibind_cases) (auto simp: iret_def)
    from Cons.IH [OF this(1)] u' have t: "t = u\<lparr>it_world := it_world t\<rparr>"
      and rest: "\<And>ws. r' = Inr ws \<Longrightarrow> list_all2 (\<lambda>e v. \<exists>w b. f e (u\<lparr>it_tx := None, it_world := w\<rparr>) = Some (Inr v, b)) es ws"
      by simp_all
    from e have first: "\<exists>w b. f e (u\<lparr>it_tx := None, it_world := w\<rparr>) = Some (Inr v, b)" by blast
    from t show ?thesis
    proof (intro conjI allI impI)
      fix vs
      assume "r = Inr vs"
      from r [OF this] first rest
      show "list_all2 (\<lambda>e v. \<exists>w b. f e (u\<lparr>it_tx := None, it_world := w\<rparr>) = Some (Inr v, b)) (e # es) vs" by auto
    qed
  qed
qed

lemma imap_succeeds:
  assumes "\<And>x s r t. f x s = Some (r, t) \<Longrightarrow> \<exists>a. r = Inr a"
  shows "imap f xs s = Some (r, t) \<Longrightarrow> \<exists>ys. r = Inr ys"
proof (induction xs arbitrary: s r)
  case Nil
  then show ?case by (auto simp: iret_def)
next
  case (Cons x xs)
  then have "ibind (f x) (\<lambda>y. ibind (imap f xs) (\<lambda>ys. iret (y # ys))) s = Some (r, t)" by simp
  then show ?case
    by (elim ibind_cases) (auto simp: iret_def dest: assms Cons.IH)
qed

text \<open>Spawned branches leave the state alone; each gives its outcome and the world it left.\<close>

lemma spawned_branches:
  assumes "imap (\<lambda>(i, e). spawned_branch (ws i) (f e)) ies u = Some (r, t)"
  shows "t = u \<and> (\<exists>outs. r = Inr (map (\<lambda>(x, b). (x, it_world b)) outs) \<and>
    list_all2 (\<lambda>(i, e) out. f e (u\<lparr>it_tx := None, it_world := ws i\<rparr>) = Some out) ies outs)"
  using assms
proof (induction ies arbitrary: r t)
  case Nil
  then show ?case by (auto simp: iret_def)
next
  case (Cons ie ies)
  obtain i e where ie: "ie = (i, e)" by (cases ie)
  let ?rest = "imap (\<lambda>(i, e). spawned_branch (ws i) (f e)) ies"
  from Cons.prems ie have "ibind (spawned_branch (ws i) (f e)) (\<lambda>y. ibind ?rest (\<lambda>ys. iret (y # ys))) u = Some (r, t)" by simp
  then obtain x b where e: "f e (u\<lparr>it_tx := None, it_world := ws i\<rparr>) = Some (x, b)"
    and rest: "ibind ?rest (\<lambda>ys. iret ((x, it_world b) # ys)) u = Some (r, t)"
  proof (cases rule: ibind_cases)
    case (fault x)
    then show ?thesis by (auto simp: spawned_branch_def split: bind_splits)
  next
    case (ok y u')
    then obtain x b where "f e (u\<lparr>it_tx := None, it_world := ws i\<rparr>) = Some (x, b)" "y = (x, it_world b)" "u' = u"
      by (auto simp: spawned_branch_def split: bind_splits)
    with ok(2) that show ?thesis by simp
  qed
  from rest obtain r' t' where r': "?rest u = Some (r', t')" by (cases "?rest u") (auto simp: ibind_def)
  from Cons.IH [OF r'] obtain outs where o: "t' = u" "r' = Inr (map (\<lambda>(x, b). (x, it_world b)) outs)"
    "list_all2 (\<lambda>(i, e) out. f e (u\<lparr>it_tx := None, it_world := ws i\<rparr>) = Some out) ies outs" by blast
  have "r = Inr (map (\<lambda>(x, b). (x, it_world b)) ((x, b) # outs))" "t = u"
    using rest r' unfolding o(1,2) by (simp_all add: ibind_def [of ?rest] iret_def)
  moreover have "list_all2 (\<lambda>(i, e) out. f e (u\<lparr>it_tx := None, it_world := ws i\<rparr>) = Some out) (ie # ies) ((x, b) # outs)"
    using e ie o(3) by simp
  ultimately show ?case by blast
qed

text \<open>Joining gives the values in order, or the first error; a panic of a branch is an error too.\<close>

fun branch_error :: "nat \<Rightarrow> nat \<Rightarrow> fault \<Rightarrow> fault" where
  "branch_error line column (Err e) = Err e"
| "branch_error line column Panicked = Err (TypeError ''broadcast branch panicked during parallel execution'' line column)"

fun joined :: "nat \<Rightarrow> nat \<Rightarrow> (fault + 'a) list \<Rightarrow> fault + 'a list" where
  "joined line column [] = Inr []"
| "joined line column (Inl e # rest) = Inl (branch_error line column e)"
| "joined line column (Inr v # rest) = map_sum id (Cons v) (joined line column rest)"

lemma joined_branches: "imap joined_branch outcomes s = Some (joined (it_line s) (it_column s) outcomes, s)"
proof (induction outcomes)
  case (Cons x outcomes)
  show ?case
  proof (cases x)
    case (Inl e)
    then show ?thesis
      by (cases e) (simp_all add: ibind_def joined_branch_def type_error_def fail_with_def ithrow_def)
  next
    case (Inr v)
    with Cons show ?thesis
      by (cases "joined (it_line s) (it_column s) outcomes") (simp_all add: ibind_def joined_branch_def iret_def)
  qed
qed (simp add: iret_def)

lemma list_all2_enumerate:
  "list_all2 (\<lambda>(i, e) y. P i e y) (enumerate n es) ys \<longleftrightarrow> length es = length ys \<and> (\<forall>k < length es. P (n + k) (es ! k) (ys ! k))"
  by (auto simp: list_all2_conv_all_nth nth_enumerate_eq)

lemma concurrent_branches:
  assumes "ibind (imap (\<lambda>(i, e). spawned_branch (branch_world l i (it_world u)) (f e)) (enumerate 0 es)) (\<lambda>outcomes.
      ibind (world_do (\<lambda>w. ((), joined_world l w (map snd outcomes)))) (\<lambda>_.
      ibind (imap joined_branch (map fst outcomes)) (\<lambda>results. iret (VList results)))) u = Some (r, t)"
  shows "\<exists>outs. length outs = length es \<and>
    (\<forall>k < length es. f (es ! k) (u\<lparr>it_tx := None, it_world := branch_world l k (it_world u)\<rparr>) = Some (outs ! k)) \<and>
    t = u\<lparr>it_world := joined_world l (it_world u) (map (\<lambda>(x, b). it_world b) outs)\<rparr> \<and>
    r = map_sum id VList (joined (it_line u) (it_column u) (map fst outs))"
proof -
  let ?run = "imap (\<lambda>(i, e). spawned_branch (branch_world l i (it_world u)) (f e)) (enumerate 0 es)"
  obtain r' t' where run: "?run u = Some (r', t')" using assms by (cases "?run u") (auto simp: ibind_def)
  from spawned_branches [OF run] obtain outs where t': "t' = u" and r': "r' = Inr (map (\<lambda>(x, b). (x, it_world b)) outs)"
    and all: "list_all2 (\<lambda>(i, e) out. f e (u\<lparr>it_tx := None, it_world := branch_world l i (it_world u)\<rparr>) = Some out)
      (enumerate 0 es) outs" by blast
  have fsts: "map fst (map (\<lambda>(x, b). (x, it_world b)) outs) = map fst outs"
    and snds: "map snd (map (\<lambda>(x, b). (x, it_world b)) outs) = map (\<lambda>(x, b). it_world b) outs" by auto
  let ?t = "u\<lparr>it_world := joined_world l (it_world u) (map (\<lambda>(x, b). it_world b) outs)\<rparr>"
  have "ibind (imap joined_branch (map fst outs)) (\<lambda>results. iret (VList results)) ?t = Some (r, t)"
    using assms run unfolding t' r' by (simp add: ibind_def [of ?run] ibind_def [of "world_do _"] world_do_def fsts snds del: map_map)
  then have "t = ?t \<and> r = map_sum id VList (joined (it_line u) (it_column u) (map fst outs))"
    by (cases "joined (it_line u) (it_column u) (map fst outs)") (auto simp: ibind_def joined_branches iret_def)
  moreover from all have "length outs = length es \<and>
    (\<forall>k < length es. f (es ! k) (u\<lparr>it_tx := None, it_world := branch_world l k (it_world u)\<rparr>) = Some (outs ! k))"
    by (simp add: list_all2_enumerate)
  ultimately show ?thesis by blast
qed

text \<open>C10: a broadcast outside a transaction evaluates its input once and passes the value to every branch. Whatever the branches do, the
  variables, frames, position and transaction afterwards are those after the input, and only the world may
  have changed. Unless all branches are pure, they run concurrently: each branch runs in a clone of the state after the input
  without the transaction, in the world that the scheduler shows it, whatever the other branches do; the result is the
  list of their values in the order of the branches, or the first error in that order, a panic of a branch being an
  error. Inside a transaction a broadcast is refused.\<close>

theorem broadcast_isolated:
  assumes "runner l (JE (EBroadcast input targets)) s = Some (r, t)"
  shows "if it_in_tx s then \<exists>msg. r = Inl (Err (TypeError msg (it_line s) (it_column s))) \<and> t = s
    else (\<forall>v u. runner l (JE input) s = Some (Inr v, u) \<longrightarrow>
      t = u\<lparr>it_world := it_world t\<rparr> \<and>
      (\<not> list_all (broadcast_branch_is_pure u) targets \<longrightarrow>
        (\<exists>outs. length outs = length targets \<and>
          (\<forall>k < length targets. apply_broadcast_value l (runner l) v (targets ! k)
             (u\<lparr>it_tx := None, it_world := branch_world l k (it_world u)\<rparr>) = Some (outs ! k)) \<and>
          it_world t = joined_world l (it_world u) (map (\<lambda>(x, b). it_world b) outs) \<and>
          r = map_sum id VList (joined (it_line u) (it_column u) (map fst outs)))))"
proof (cases "it_in_tx s")
  case True
  with assms show ?thesis
    by (auto simp: runner_JE [of l "EBroadcast input targets"] evaluate_def evaluate_broadcast_def ibind_def iask_def type_error_def)
next
  case False
  let ?f = "apply_broadcast_value l (runner l)"
  have "t = u\<lparr>it_world := it_world t\<rparr> \<and> (\<not> list_all (broadcast_branch_is_pure u) targets \<longrightarrow>
      (\<exists>outs. length outs = length targets \<and>
        (\<forall>k < length targets. ?f v (targets ! k) (u\<lparr>it_tx := None, it_world := branch_world l k (it_world u)\<rparr>) = Some (outs ! k)) \<and>
        it_world t = joined_world l (it_world u) (map (\<lambda>(x, b). it_world b) outs) \<and>
        r = map_sum id VList (joined (it_line u) (it_column u) (map fst outs))))"
    if "runner l (JE input) s = Some (Inr v, u)" for v u
  proof (cases "list_all (broadcast_branch_is_pure u) targets")
    case True
    with assms that False
    have "ibind (imap (\<lambda>e. clone_branch (?f v e)) targets) (\<lambda>results. iret (VList results)) u = Some (r, t)"
      by (simp add: runner_JE [of l "EBroadcast input targets"] evaluate_def evaluate_broadcast_def ibind_def iask_def)
    then show ?thesis by (cases rule: ibind_cases) (use True in \<open>auto simp: iret_def dest!: clone_branches\<close>)
  next
    case mixed: False
    with assms that False
    have "ibind (imap (\<lambda>(i, e). spawned_branch (branch_world l i (it_world u)) (?f v e)) (enumerate 0 targets)) (\<lambda>outcomes.
      ibind (world_do (\<lambda>w. ((), joined_world l w (map snd outcomes)))) (\<lambda>_.
      ibind (imap joined_branch (map fst outcomes)) (\<lambda>results. iret (VList results)))) u = Some (r, t)"
      by (simp add: runner_JE [of l "EBroadcast input targets"] evaluate_def evaluate_broadcast_def ibind_def [of "iask _"]
          ibind_def [of "runner _ _"] iask_def)
    from concurrent_branches [OF this] show ?thesis by auto
  qed
  with False show ?thesis by auto
qed

theorem broadcast_isolated_witness:
  "\<exists>t. runner sample_lib (JE (EBroadcast (EInteger 1) [EInteger 2, EInteger 3])) sample_interp =
     Some (Inr (VList [VInteger 2, VInteger 3]), t) \<and> t = sample_interp\<lparr>it_world := it_world t\<rparr>"
proof -
  have lit: "runner sample_lib (JE (EInteger n)) s = Some (Inr (VInteger n), s)" for n and s :: "(rat, int, nat, string list) interp"
    by (simp add: runner_JE evaluate_def iret_def)
  then have branch: "apply_broadcast_value sample_lib (runner sample_lib) v (EInteger n) s = Some (Inr (VInteger n), s)"
    for v n and s :: "(rat, int, nat, string list) interp"
    by (simp add: apply_broadcast_value_def)
  have mixed: "\<not> list_all (broadcast_branch_is_pure sample_interp) [EInteger 2, EInteger 3]"
    by (simp add: broadcast_branch_is_pure_def)
  have "it_db sample_interp = None" "it_trace sample_interp = None" by (simp_all add: sample_interp_def)
  then obtain r t where run: "runner sample_lib (JE (EBroadcast (EInteger 1) [EInteger 2, EInteger 3])) sample_interp = Some (r, t)"
    using runner_returns [of sample_lib "64 - 0" sample_interp "JE (EBroadcast (EInteger 1) [EInteger 2, EInteger 3])"]
    by (auto simp: returns_at_def sample_interp_def)
  have "\<not> it_in_tx sample_interp" by (simp add: sample_interp_def)
  with broadcast_isolated [OF run] lit [of 1 sample_interp] mixed
  obtain outs where t: "t = sample_interp\<lparr>it_world := it_world t\<rparr>" and two: "length outs = length [EInteger 2, EInteger 3]"
    and outs: "\<forall>k < length [EInteger 2, EInteger 3]. apply_broadcast_value sample_lib (runner sample_lib) (VInteger 1) ([EInteger 2, EInteger 3] ! k)
      (sample_interp\<lparr>it_tx := None, it_world := branch_world sample_lib k (it_world sample_interp)\<rparr>) = Some (outs ! k)"
    and r: "r = map_sum id VList (joined (it_line sample_interp) (it_column sample_interp) (map fst outs))"
    by (simp only: if_False) blast
  have "fst (outs ! 0) = Inr (VInteger 2)" "fst (outs ! 1) = Inr (VInteger 3)"
    using outs [rule_format, of 0] outs [rule_format, of 1] branch by (auto dest!: sym [of "(_, _)"])
  moreover obtain a b where "outs = [a, b]" using two by (auto simp: length_Suc_conv)
  ultimately have "r = Inr (VList [VInteger 2, VInteger 3])" using r by simp
  with run t show ?thesis by blast
qed

end
