(* ===== verification/Spec2Isabelle.thy ===== *)
theory Spec2Isabelle
  imports Parser_Roundtrip Schema_Cycle Version Feature_Flags Trace_Context Operators Environment Query_Safety Response_Serializer Loader_Laws Migration_Files
    Interp_Control
begin

text \<open>
  Verification of marreta-lang, a language for REST services, as it is implemented in \<^verbatim>\<open>src/src\<close>.

  \<^bold>\<open>The program.\<close> A project is a directory of source files. Each file is tokenized (\<^verbatim>\<open>lexer.rs\<close>), parsed
  (\<^verbatim>\<open>parser.rs\<close> into the tree of \<^verbatim>\<open>ast.rs\<close>) and assembled with the others into modules, schemas,
  routes, consumers and authentication providers (\<^verbatim>\<open>file_loader.rs\<close>, \<^verbatim>\<open>route_loader.rs\<close>, \<^verbatim>\<open>persistent_schema.rs\<close>,
  \<^verbatim>\<open>schema_cycle.rs\<close>, \<^verbatim>\<open>version.rs\<close>). A request is bound by the validator (\<^verbatim>\<open>validator.rs\<close>) and its body run by the tree-walking
  interpreter (\<^verbatim>\<open>interpreter.rs\<close> and \<^verbatim>\<open>interpreter/\<close>) over environments (\<^verbatim>\<open>environment.rs\<close>) and values (\<^verbatim>\<open>value.rs\<close>); it reaches databases,
  queues, caches and other services through drivers (\<^verbatim>\<open>db/\<close>, \<^verbatim>\<open>doc/\<close>), and its answer is cut down to the response schema
  (\<^verbatim>\<open>response_serializer.rs\<close>). The persistent schemas are kept in step with the database by migrations (\<^verbatim>\<open>migrations.rs\<close>, \<^verbatim>\<open>main.rs\<close>).

  \<^bold>\<open>Conventions.\<close> A struct is a record, an enum a datatype with the constructors of the source; a name that clashes carries a prefix.
  \<open>i64\<close> and \<open>u64\<close> are \<open>64 word\<close> (arithmetic wraps as in a release build), \<open>f64\<close> is the type of \<open>F64\<close> with
  correctly rounded operations, text is a list of bytes. \<open>Result\<close> is \<open>marreta_error + 'a\<close>; where code can panic the error is \<open>fault\<close>, \<open>Err e\<close>
  or \<open>Panicked\<close>. An \<open>IndexMap\<close> is an association list in insertion order; a \<open>HashMap\<close> is one too, and where its order
  reaches a result the theorem either does not depend on it or says so. Stateful code passes its state explicitly. Locks and clones of shared values are left out:
  values are immutable in the language.

  \<^bold>\<open>Theories and sources.\<close>
  \<^item> \<open>Marreta_Prelude\<close>, \<open>F64\<close>, \<open>F64_Text\<close>, \<open>Index_Map\<close>: what the code uses of Rust's language and library; the error monad \<open>rbind\<close>,
    \<open>rmap\<close>; strings, numerals, floats and their text; the locale of insertion-ordered maps.
  \<^item> \<open>Token\<close>, \<open>Lexer\<close> (\<^verbatim>\<open>token.rs\<close>, \<^verbatim>\<open>lexer.rs\<close>), with \<open>Lexer_Props\<close> (progress, layout, the one panic; the locale \<open>lexer_inv\<close> of
    invariants), \<open>Lexer_Literals\<close> (quotes of embedded literals) and \<open>Lexer_Roundtrip\<close> (print, then tokenize).
  \<^item> \<open>Ast\<close>, \<open>Parser_Base\<close>, \<open>Parser_Expr\<close>, \<open>Parser\<close> (\<^verbatim>\<open>ast.rs\<close>, \<^verbatim>\<open>parser.rs\<close>), with \<open>Ast_Wf\<close> (what a tree promises), \<open>Parser_Hoare\<close> (a program
    logic for parser methods), \<open>Parser_Wf\<close> (every method keeps it), \<open>Front_End\<close> (\<open>parse_source\<close>) and
    \<open>Parser_Roundtrip\<close> (print by the documented precedence table, then parse).
  \<^item> \<open>Marreta_Error\<close>, \<open>Error_Text\<close> (\<^verbatim>\<open>error.rs\<close>); \<open>Version\<close>, \<open>Feature_Flags\<close>, \<open>Trace_Context\<close> (the files of those names).
  \<^item> \<open>Value\<close>, \<open>Value_Text\<close>, \<open>Value_Methods\<close>, \<open>Json\<close> (\<^verbatim>\<open>value.rs\<close>) with \<open>Value_Laws\<close> (maps, sorting, text round trips);
    \<open>Operators\<close> (\<^verbatim>\<open>interpreter/operators.rs\<close>); \<open>Environment\<close> (\<^verbatim>\<open>environment.rs\<close>; the locale \<open>scope_stack\<close>).
  \<^item> \<open>Query_Builder\<close> (\<^verbatim>\<open>db/query_builder.rs\<close>, the statements of \<^verbatim>\<open>db/postgres.rs\<close>) with \<open>Query_Safety\<close> (the locale \<open>sql_reading\<close>, interpreted as the
    text outside the quotes and as the list of placeholders); \<open>Doc_Bson\<close> (\<^verbatim>\<open>doc/bson.rs\<close>, \<^verbatim>\<open>doc/mongodb.rs\<close>).
  \<^item> \<open>Validator\<close>, \<open>Validator_Laws\<close> (\<^verbatim>\<open>validator.rs\<close>), \<open>Response_Serializer\<close>, \<open>Persistent_Schema\<close>, \<open>Schema_Cycle\<close>, \<open>Route_Loader\<close> (the files of
    those names), \<open>Project_Loader\<close> (\<^verbatim>\<open>file_loader.rs\<close>) with \<open>Loader_Laws\<close> (the locale \<open>project_invariant\<close> of the loop over files).
  \<^item> \<open>Migrations\<close>, \<open>Migration_Replay\<close>, \<open>Migration_Files\<close> (\<^verbatim>\<open>migrations.rs\<close>, the migrate commands of \<^verbatim>\<open>main.rs\<close>) with \<open>Migration_Text\<close>,
    \<open>Migration_Script\<close>, \<open>Migration_Laws\<close> (a plan has a meaning of its own, and replaying its text is that meaning).
  \<^item> \<open>Interp_State\<close>, \<open>Interp_Monad\<close>, \<open>Interp_Schema\<close>, \<open>Interp_Namespaces\<close>, \<open>Interp_Numeric\<close>, \<open>Interp_Infra\<close>, \<open>Interp_Query\<close>, \<open>Interp_Stages\<close>, \<open>Interp_Eval\<close>,
    \<open>Interp_Flow\<close>, \<open>Interp_Run\<close> (\<^verbatim>\<open>interpreter.rs\<close>, \<^verbatim>\<open>interpreter/access.rs\<close>, \<^verbatim>\<open>infra.rs\<close>, \<^verbatim>\<open>namespaces.rs\<close>, \<^verbatim>\<open>pipeline.rs\<close>): one step, in terms of a
    runner for sub-jobs (\<open>JE\<close> an expression, \<open>JS\<close> a statement); \<open>Interp_Machine\<close> ties the knot with \<open>partial_function\<close>.
  \<^item> \<open>Interp_Logic\<close>, \<open>Interp_Logic_Ops\<close>, \<open>Interp_Logic_Run\<close>, \<open>Interp_Logic_Step\<close>: the locale \<open>interp_logic\<close>, a relational logic that every operation of the
    interpreter keeps, interpreted three times: as monotonicity of the step, as the frame invariant and as termination
    (\<open>Interp_Returns\<close>). \<open>Interp_Laws\<close> and \<open>Interp_Control\<close> hold what follows for programs.

  \<^bold>\<open>What is shown.\<close> Every source text is answered by a well-formed program, an error or the one panic of the
  tokenizer; printing and reading expressions is the identity. A project that loads has no clashing routes across files, no undeclared providers, distinct exported names and no
  cycle of value schemas. Payloads that are accepted have the type of their schema, responses hold exactly the declared fields. SQL text depends on the shape
  of a query only and its placeholders are its parameters. Generated migrations, replayed, are the plan, and generating them converges. Running
  any program without a database returns; a transaction ends exactly once; rescue, pipelines, loops, calls and broadcasts do what the
  language documents, on every path. Environments refine one map, JSON and trace headers round-trip, arithmetic panics in one case only.

  \<^bold>\<open>Bounds and fuel.\<close> The parser is tied with fuel of two units per token, and \<open>parse_total\<close> shows that it never runs out. The tokenizer's loops recurse on the
  remaining text. The validator's limit of 20 levels and the loop limit of 10000 turns are the source's own constants. The interpreter
  is a least fixed point in the option type, \<open>None\<close> being a run that does not return; \<open>execution_returns\<close> proves that it is not \<open>None\<close>, by the depth of
  calls, the size of the syntax tree and the number of quotes in embedded literals. With a database it may be: a native query may evaluate text built at run time.

  \<^bold>\<open>Parameters.\<close> Code outside the repository is an argument: \<open>ext\<close> (\<open>rust_decimal\<close>, \<open>chrono\<close>, Unicode case, roots and powers), the
  serializer of \<open>serde_json\<close>, \<open>lib\<close> (JSON text, the clock, \<open>uuid\<close>, \<open>base64\<close>, the file system, standard output, derived \<open>Debug\<close> texts,
  random bytes, the scheduler of concurrent branches), the driver records over a world of any type, \<open>bson_lib\<close>, digests of files. What a theorem needs of
  them is a hypothesis of it, with a witness that instantiates it.

  \<^bold>\<open>Not modelled.\<close> The HTTP server and the queue consumers (\<^verbatim>\<open>server.rs\<close>: sockets, tasks and the glue between the parts above), authentication
  (\<^verbatim>\<open>auth.rs\<close>), executing statements and reading rows in the drivers, the walk over directories and the environment files
  (\<^verbatim>\<open>config.rs\<close>), and tools that do not take part in running a program: the linter, the OpenAPI export, index inference, the formatter,
  scenario tests, doctor, init and the runtime profile.
\<close>

end
